(* ===== verification/Prelude.thy ===== *)
theory Prelude
  imports Main "HOL-Library.While_Combinator" "HOL-Library.Sublist"
begin

text \<open>
  The shared vocabulary of the development: slices of Go strings and slices, the result
  type of fallible operations and its sequencing operator, the collections of facts that
  the component theories fill, and the generic facts on loops that several components use.
\<close>

section \<open>Collections\<close>

named_theorems frame_simps \<open>fields an operation leaves alone\<close>
named_theorems adv_intros \<open>operations that only move the cursor of the lexer forward\<close>
named_theorems keeps_intros \<open>operations that keep a component invariant\<close>

section \<open>Slices\<close>

text \<open>\<open>slice xs i j\<close> is Go's \<open>xs[i:j]\<close>; Go panics unless \<open>i \<le> j \<le> len(xs)\<close>, which the
  clients prove where they use it.\<close>

definition slice :: "'a list \<Rightarrow> nat \<Rightarrow> nat \<Rightarrow> 'a list" where
  "slice xs i j = drop i (take j xs)"

lemma slice_same [simp]: "slice xs i i = []"
  by (simp add: slice_def)

lemma length_slice: "length (slice xs i j) = min j (length xs) - i"
  by (simp add: slice_def)

lemma slice_append:
  assumes "i \<le> j" "j \<le> k"
  shows "slice xs i j @ slice xs j k = slice xs i k"
proof -
  have "take k xs = take j xs @ drop j (take k xs)"
    using assms(2) by (metis append_take_drop_id min.absorb1 take_take)
  then have "drop i (take k xs) = drop i (take j xs) @ drop (i - length (take j xs)) (drop j (take k xs))"
    by (metis drop_append)
  moreover have "drop (i - length (take j xs)) (drop j (take k xs)) = drop j (take k xs)"
  proof (cases "j \<le> length xs")
    case True
    then show ?thesis using assms(1) by simp
  qed simp
  ultimately show ?thesis by (simp add: slice_def)
qed

lemma slice_snoc_nth:
  assumes "i \<le> j" "j < length xs"
  shows "slice xs i (Suc j) = slice xs i j @ [xs ! j]"
  using assms by (simp add: slice_def take_Suc_conv_app_nth)

lemma slice_zero_full [simp]: "slice xs 0 (length xs) = xs"
  by (simp add: slice_def)

lemma slice_eq_Nil_iff: "slice xs i j = [] \<longleftrightarrow> min j (length xs) \<le> i"
  by (simp add: slice_def min.commute)

section \<open>Results\<close>

text \<open>A fallible Go operation returns a value of type \<open>'e + 'a\<close>: \<open>Inl\<close> of the error or
  \<open>Inr\<close> of the result. \<open>rbind\<close> is the \<open>if err != nil { return err }\<close> after a call.\<close>

definition rbind :: "'e + 'a \<Rightarrow> ('a \<Rightarrow> 'e + 'b) \<Rightarrow> 'e + 'b" where
  "rbind r f = (case r of Inl e \<Rightarrow> Inl e | Inr x \<Rightarrow> f x)"

lemma rbind_simps [simp]: "rbind (Inl e) f = Inl e" "rbind (Inr x) f = f x"
  by (simp_all add: rbind_def)

lemma rbind_eq_Inr_iff: "rbind r f = Inr y \<longleftrightarrow> (\<exists>x. r = Inr x \<and> f x = Inr y)"
  by (cases r) auto

lemma rbind_eq_Inl_iff: "rbind r f = Inl e \<longleftrightarrow> r = Inl e \<or> (\<exists>x. r = Inr x \<and> f x = Inl e)"
  by (cases r) auto

definition is_ok :: "'e + 'a \<Rightarrow> bool" where
  "is_ok r = (case r of Inl _ \<Rightarrow> False | Inr _ \<Rightarrow> True)"

lemma is_ok_simps [simp]: "is_ok (Inr x)" "\<not> is_ok (Inl e)"
  by (simp_all add: is_ok_def)

lemma is_ok_iff: "is_ok r \<longleftrightarrow> (\<exists>x. r = Inr x)"
  by (cases r) auto

section \<open>Loops\<close>

text \<open>A loop whose body keeps an invariant and lowers a measure ends, and the invariant
  holds where it ends.\<close>

lemma while_option_total:
  assumes "P s"
    and "\<And>s. P s \<Longrightarrow> b s \<Longrightarrow> P (c s)"
    and "\<And>s. P s \<Longrightarrow> b s \<Longrightarrow> f (c s) < (f s :: nat)"
  obtains t where "while_option b c s = Some t" "P t" "\<not> b t"
proof -
  have "\<exists>t. while_option b c s = Some t"
    by (rule measure_while_option_Some [where P = P and f = f]) (use assms in auto)
  then obtain t where t: "while_option b c s = Some t" ..
  have "P t"
    by (rule while_option_rule [where P = P, OF _ t]) (use assms in auto)
  moreover have "\<not> b t"
    using t by (rule while_option_stop)
  ultimately show thesis using t that by blast
qed

end
