(* ===== verification/Go_Strings.thy ===== *)
theory Go_Strings
  imports Prelude
begin

text \<open>
  The parts of Go's string library the modelled packages call. A Go string is a sequence
  of bytes, so it is an Isabelle \<open>string\<close> (a list of 8-bit characters); a rune is an
  \<open>int\<close>, with \<open>-1\<close> for the end-of-input marker the lexer uses.
\<close>

type_synonym rune = int

abbreviation ch_nl :: char where "ch_nl \<equiv> CHR 0x0A"
abbreviation ch_cr :: char where "ch_cr \<equiv> CHR 0x0D"
abbreviation ch_tab :: char where "ch_tab \<equiv> CHR 0x09"
abbreviation ch_space :: char where "ch_space \<equiv> CHR 0x20"
abbreviation ch_dquote :: char where "ch_dquote \<equiv> CHR 0x22"
abbreviation ch_squote :: char where "ch_squote \<equiv> CHR 0x27"
abbreviation ch_bslash :: char where "ch_bslash \<equiv> CHR 0x5C"

section \<open>UTF-8\<close>

definition RuneError :: rune where
  "RuneError = 0xFFFD"

definition is_cont :: "int \<Rightarrow> bool" where
  "is_cont b \<longleftrightarrow> 0x80 \<le> b \<and> b \<le> 0xBF"

text \<open>\<open>utf8.DecodeRuneInString\<close>: the first rune of the string and its width; an invalid
  encoding decodes to \<open>RuneError\<close> of width 1, the empty string to width 0.\<close>

definition DecodeRuneInString :: "string \<Rightarrow> rune \<times> nat" where
  "DecodeRuneInString s =
    (case s of
       [] \<Rightarrow> (RuneError, 0)
     | c0 # t \<Rightarrow>
       (let b0 = of_char c0 :: int in
        if b0 < 0x80 then (b0, 1)
        else if 0xC2 \<le> b0 \<and> b0 \<le> 0xDF then
          (case t of
             c1 # _ \<Rightarrow>
               (let b1 = of_char c1 :: int in
                if is_cont b1 then ((b0 - 0xC0) * 64 + (b1 - 0x80), 2) else (RuneError, 1))
           | _ \<Rightarrow> (RuneError, 1))
        else if 0xE0 \<le> b0 \<and> b0 \<le> 0xEF then
          (case t of
             c1 # c2 # _ \<Rightarrow>
               (let b1 = of_char c1 :: int; b2 = of_char c2 :: int;
                    lo = (if b0 = 0xE0 then 0xA0 else 0x80);
                    hi = (if b0 = 0xED then 0x9F else 0xBF) in
                if lo \<le> b1 \<and> b1 \<le> hi \<and> is_cont b2
                then ((b0 - 0xE0) * 4096 + (b1 - 0x80) * 64 + (b2 - 0x80), 3)
                else (RuneError, 1))
           | _ \<Rightarrow> (RuneError, 1))
        else if 0xF0 \<le> b0 \<and> b0 \<le> 0xF4 then
          (case t of
             c1 # c2 # c3 # _ \<Rightarrow>
               (let b1 = of_char c1 :: int; b2 = of_char c2 :: int; b3 = of_char c3 :: int;
                    lo = (if b0 = 0xF0 then 0x90 else 0x80);
                    hi = (if b0 = 0xF4 then 0x8F else 0xBF) in
                if lo \<le> b1 \<and> b1 \<le> hi \<and> is_cont b2 \<and> is_cont b3
                then ((b0 - 0xF0) * 262144 + (b1 - 0x80) * 4096 + (b2 - 0x80) * 64 + (b3 - 0x80), 4)
                else (RuneError, 1))
           | _ \<Rightarrow> (RuneError, 1))
        else (RuneError, 1)))"

lemma of_char_nonneg [simp]: "(0::int) \<le> of_char c"
  by (metis of_nat_of_char of_nat_0_le_iff)

lemma DecodeRune_ascii:
  "(of_char c :: int) < 128 \<Longrightarrow> DecodeRuneInString (c # t) = (of_char c, 1)"
  by (simp add: DecodeRuneInString_def Let_def)

text \<open>A multi-byte rune is never an ASCII rune, and every decoding consumes at least one
  byte and stays inside the string.\<close>

lemma DecodeRune_nonascii:
  "\<not> (of_char c :: int) < 128 \<Longrightarrow> 128 \<le> fst (DecodeRuneInString (c # t))"
  by (auto simp: DecodeRuneInString_def Let_def RuneError_def is_cont_def split: list.split)

lemma DecodeRune_width:
  "s \<noteq> [] \<Longrightarrow> 1 \<le> snd (DecodeRuneInString s) \<and> snd (DecodeRuneInString s) \<le> length s"
  by (cases s) (auto simp: DecodeRuneInString_def Let_def split: list.split)

lemma DecodeRune_nonneg: "0 \<le> fst (DecodeRuneInString s)"
proof (cases s)
  case Nil
  then show ?thesis by (simp add: DecodeRuneInString_def RuneError_def)
next
  case (Cons c t)
  show ?thesis
  proof (cases "(of_char c :: int) < 128")
    case True
    then show ?thesis using Cons by (simp add: DecodeRune_ascii)
  next
    case False
    then show ?thesis using DecodeRune_nonascii [OF False, of t] Cons by simp
  qed
qed

section \<open>Package strings\<close>

text \<open>\<open>strings.HasPrefix\<close> and \<open>strings.HasSuffix\<close> are \<open>prefix\<close> and \<open>suffix\<close> of the library, with the
  arguments swapped.\<close>

definition TrimPrefix :: "string \<Rightarrow> string \<Rightarrow> string" where
  "TrimPrefix s p = (if prefix p s then drop (length p) s else s)"

definition TrimSuffix :: "string \<Rightarrow> string \<Rightarrow> string" where
  "TrimSuffix s p = (if suffix p s then take (length s - length p) s else s)"

text \<open>\<open>strings.TrimRight\<close> and \<open>strings.ContainsAny\<close> for a set of ASCII characters.\<close>

definition TrimRight :: "string \<Rightarrow> string \<Rightarrow> string" where
  "TrimRight s cutset = rev (dropWhile (\<lambda>c. c \<in> set cutset) (rev s))"

definition ContainsAny :: "string \<Rightarrow> string \<Rightarrow> bool" where
  "ContainsAny s chars \<longleftrightarrow> list_ex (\<lambda>c. c \<in> set chars) s"

lemma ContainsAny_iff: "ContainsAny s chars \<longleftrightarrow> (\<exists>c. c \<in> set s \<and> c \<in> set chars)"
  by (auto simp: ContainsAny_def list_ex_iff)

text \<open>The runes of a string with the bytes that encode them, as \<open>range\<close> over a string reads
  them.\<close>

function runes :: "string \<Rightarrow> (rune \<times> string) list" where
  "runes s =
    (if s = [] then []
     else let (r, w) = DecodeRuneInString s in (r, take w s) # runes (drop w s))"
  by pat_completeness auto
termination
proof (relation "measure length", goal_cases)
  case (2 s x r w)
  then show ?case using DecodeRune_width [of s] by (auto simp: prod_eq_iff)
qed simp

declare runes.simps [simp del]

lemma concat_runes: "concat (map snd (runes s)) = s"
proof (induction s rule: runes.induct)
  case (1 s)
  then show ?case by (subst runes.simps) (auto split: prod.split)
qed

text \<open>\<open>unicode.IsSpace\<close>\<close>

definition unicode_IsSpace :: "rune \<Rightarrow> bool" where
  "unicode_IsSpace r \<longleftrightarrow>
    r \<in> {9, 10, 11, 12, 13, 32, 0x85, 0xA0, 0x1680, 0x2028, 0x2029, 0x202F, 0x205F, 0x3000} \<or>
    (0x2000 \<le> r \<and> r \<le> 0x200A)"

definition TrimSpace :: "string \<Rightarrow> string" where
  "TrimSpace s =
    (let sp = (\<lambda>x. unicode_IsSpace (fst x));
         rs = dropWhile sp (runes s)
     in concat (map snd (rev (dropWhile sp (rev rs)))))"

text \<open>\<open>strings.SplitN(s, c, 2)\<close> for a separator of one byte.\<close>

definition SplitN2 :: "string \<Rightarrow> char \<Rightarrow> string list" where
  "SplitN2 s c =
    (if c \<in> set s then [takeWhile (\<lambda>x. x \<noteq> c) s, tl (dropWhile (\<lambda>x. x \<noteq> c) s)] else [s])"

text \<open>\<open>strings.Split(s, c)\<close> for a separator of one byte.\<close>

fun Split :: "string \<Rightarrow> char \<Rightarrow> string list" where
  "Split [] c = [[]]"
| "Split (x # s) c =
    (if x = c then [] # Split s c
     else case Split s c of [] \<Rightarrow> [[x]] | w # ws \<Rightarrow> (x # w) # ws)"

text \<open>\<open>strings.Join\<close>\<close>

fun Join :: "string list \<Rightarrow> string \<Rightarrow> string" where
  "Join [] sep = []"
| "Join [w] sep = w"
| "Join (w # ws) sep = w @ sep @ Join ws sep"

lemma Split_nonempty [simp]: "Split s c \<noteq> []"
  by (induction s) (auto split: list.split)

lemma Join_Split: "Join (Split s c) [c] = s"
proof (induction s)
  case Nil
  then show ?case by simp
next
  case (Cons x s)
  obtain w ws where "Split s c = w # ws" by (cases "Split s c") auto
  with Cons show ?case by (cases ws) auto
qed

lemma SplitN2_append:
  assumes "c \<notin> set a"
  shows "SplitN2 (a @ c # b) c = [a, b]"
proof -
  have "takeWhile (\<lambda>x. x \<noteq> c) (a @ c # b) = a" "dropWhile (\<lambda>x. x \<noteq> c) (a @ c # b) = c # b"
    using assms by (induction a) auto
  then show ?thesis by (simp add: SplitN2_def)
qed

lemma SplitN2_none: "c \<notin> set s \<Longrightarrow> SplitN2 s c = [s]"
  by (simp add: SplitN2_def)

lemma SplitN2_cases:
  obtains (none) "c \<notin> set s" "SplitN2 s c = [s]"
  | (some) a b where "s = a @ c # b" "c \<notin> set a" "SplitN2 s c = [a, b]"
proof (cases "c \<in> set s")
  case True
  then obtain a b where "s = a @ c # b" "c \<notin> set a" using split_list_first by metis
  then show thesis using some SplitN2_append by blast
next
  case False
  then show thesis using none SplitN2_none by blast
qed

end
