(* ===== verification/Lexer_Cursor.thy ===== *)
theory Lexer_Cursor
  imports Go_Strings
begin

text \<open>
  The scanner of \<^verbatim>\<open>internal/earthfile/lex.go\<close>, first part: its tokens, its state and the
  helpers that read. The state is the record \<open>lexer\<close>, with the Go field names after \<open>l_\<close>.
  The Go function values \<open>stateFn\<close> are the constructors of the type \<open>stateFn\<close>. The text of an
  error token is kept as a value of type \<open>lex_error\<close>, with the arguments of its format,
  instead of the formatted text.

  \<open>reach s p ln cl\<close> says that reading whole runes from the start of \<open>s\<close> reaches byte \<open>p\<close> on
  line \<open>ln\<close> and column \<open>cl\<close>. \<open>adv l l'\<close> says that \<open>l'\<close> is \<open>l\<close> with its cursor moved forward
  over whole runes and nothing else changed. Every helper that only reads is an \<open>adv\<close>, which
  gives both the termination of the loops and the invariants of the scanner.
\<close>

section \<open>Tokens and command names\<close>

datatype (plugins only: code size) itemType =
    itemError | itemEOF | itemNL | itemIndent | itemDedent | itemWS | itemComment
  | itemEOLComment | itemFrom | itemFromDockerfile | itemLocally | itemCopy | itemSaveArtifact
  | itemSaveImage | itemRun | itemExpose | itemVolume | itemEnv | itemArg | itemSet | itemLet
  | itemLabel | itemBuild | itemWorkdir | itemIf | itemElseIf | itemElse | itemEnd | itemCmd
  | itemEntrypoint | itemGitClone | itemAdd | itemStopSignal | itemOnBuild | itemHealthCheck
  | itemShell | itemDo | itemCommand | itemFunctionKW | itemImport | itemVersion | itemCache
  | itemHost | itemProject | itemUser | itemWith | itemDocker | itemTry | itemCatch
  | itemFinally | itemFor | itemWait | itemTarget | itemUserCommand | itemFunction | itemAtom | itemEquals

type_synonym Cmd = string

abbreviation CmdAdd :: Cmd where "CmdAdd \<equiv> ''ADD''"
abbreviation CmdArg :: Cmd where "CmdArg \<equiv> ''ARG''"
abbreviation CmdBuild :: Cmd where "CmdBuild \<equiv> ''BUILD''"
abbreviation CmdCache :: Cmd where "CmdCache \<equiv> ''CACHE''"
abbreviation CmdCatch :: Cmd where "CmdCatch \<equiv> ''CATCH''"
abbreviation CmdCmd :: Cmd where "CmdCmd \<equiv> ''CMD''"
abbreviation CmdCommand :: Cmd where "CmdCommand \<equiv> ''COMMAND''"
abbreviation CmdCopy :: Cmd where "CmdCopy \<equiv> ''COPY''"
abbreviation CmdDo :: Cmd where "CmdDo \<equiv> ''DO''"
abbreviation CmdDocker :: Cmd where "CmdDocker \<equiv> ''DOCKER''"
abbreviation CmdElse :: Cmd where "CmdElse \<equiv> ''ELSE''"
abbreviation CmdElseIf :: Cmd where "CmdElseIf \<equiv> ''ELSE IF''"
abbreviation CmdEnd :: Cmd where "CmdEnd \<equiv> ''END''"
abbreviation CmdEntrypoint :: Cmd where "CmdEntrypoint \<equiv> ''ENTRYPOINT''"
abbreviation CmdEnv :: Cmd where "CmdEnv \<equiv> ''ENV''"
abbreviation CmdExpose :: Cmd where "CmdExpose \<equiv> ''EXPOSE''"
abbreviation CmdFinally :: Cmd where "CmdFinally \<equiv> ''FINALLY''"
abbreviation CmdFor :: Cmd where "CmdFor \<equiv> ''FOR''"
abbreviation CmdFrom :: Cmd where "CmdFrom \<equiv> ''FROM''"
abbreviation CmdFromDockerfile :: Cmd where "CmdFromDockerfile \<equiv> ''FROM DOCKERFILE''"
abbreviation CmdFunction :: Cmd where "CmdFunction \<equiv> ''FUNCTION''"
abbreviation CmdGitClone :: Cmd where "CmdGitClone \<equiv> ''GIT CLONE''"
abbreviation CmdHealthCheck :: Cmd where "CmdHealthCheck \<equiv> ''HEALTHCHECK''"
abbreviation CmdHost :: Cmd where "CmdHost \<equiv> ''HOST''"
abbreviation CmdIf :: Cmd where "CmdIf \<equiv> ''IF''"
abbreviation CmdImport :: Cmd where "CmdImport \<equiv> ''IMPORT''"
abbreviation CmdLabel :: Cmd where "CmdLabel \<equiv> ''LABEL''"
abbreviation CmdLet :: Cmd where "CmdLet \<equiv> ''LET''"
abbreviation CmdLoad :: Cmd where "CmdLoad \<equiv> ''LOAD''"
abbreviation CmdLocally :: Cmd where "CmdLocally \<equiv> ''LOCALLY''"
abbreviation CmdOnBuild :: Cmd where "CmdOnBuild \<equiv> ''ONBUILD''"
abbreviation CmdProject :: Cmd where "CmdProject \<equiv> ''PROJECT''"
abbreviation CmdRun :: Cmd where "CmdRun \<equiv> ''RUN''"
abbreviation CmdSaveArtifact :: Cmd where "CmdSaveArtifact \<equiv> ''SAVE ARTIFACT''"
abbreviation CmdSaveImage :: Cmd where "CmdSaveImage \<equiv> ''SAVE IMAGE''"
abbreviation CmdSet :: Cmd where "CmdSet \<equiv> ''SET''"
abbreviation CmdShell :: Cmd where "CmdShell \<equiv> ''SHELL''"
abbreviation CmdStopSignal :: Cmd where "CmdStopSignal \<equiv> ''STOPSIGNAL''"
abbreviation CmdTry :: Cmd where "CmdTry \<equiv> ''TRY''"
abbreviation CmdUser :: Cmd where "CmdUser \<equiv> ''USER''"
abbreviation CmdVersion :: Cmd where "CmdVersion \<equiv> ''VERSION''"
abbreviation CmdVolume :: Cmd where "CmdVolume \<equiv> ''VOLUME''"
abbreviation CmdWait :: Cmd where "CmdWait \<equiv> ''WAIT''"
abbreviation CmdWith :: Cmd where "CmdWith \<equiv> ''WITH''"
abbreviation CmdWorkdir :: Cmd where "CmdWorkdir \<equiv> ''WORKDIR''"

datatype lex_error =
    UnexpectedCharacter rune      \<comment> \<open>unexpected character in identifier\<close>
  | UnknownCommandKeyword Cmd     \<comment> \<open>unknown command keyword\<close>
  | InvalidKeyDefinition Cmd string \<comment> \<open>invalid ENV/ARG/SET/LET key definition\<close>
  | UnclosedDoubleQuote
  | UnclosedSingleQuote
  | UnclosedShellSubstitution

record item =
  it_Val :: string
  it_Typ :: itemType
  it_pos :: nat
  it_Line :: nat
  it_Col :: nat
  it_Err :: "lex_error option"

definition zero_item :: item where
  "zero_item = \<lparr>it_Val = [], it_Typ = itemError, it_pos = 0, it_Line = 0, it_Col = 0, it_Err = None\<rparr>"

section \<open>The scanner\<close>

datatype stateFn =
    LexDefault | LexSpace | LexNL | LexIdentifier | LexRecipe | LexCommandKeyword
  | LexRecipeCommandArgs | LexRecipeSpaceArgs | LexKeyValueCommandArgs
  | LexGlobalCommandArgs | LexGlobalSpaceArgs

record lexer =
  l_input :: string
  l_name :: string
  l_keyValueCmdType :: Cmd
  l_state :: "stateFn option"
  l_itemsArr :: "item list"
  l_indentArr :: "nat list"
  l_itemsStart :: nat
  l_itemsEnd :: nat
  l_indentLen :: nat
  l_line :: nat
  l_lastPos :: nat
  l_width :: nat
  l_start :: nat
  l_col :: nat
  l_startLine :: nat
  l_startCol :: nat
  l_pos :: nat
  l_isStartOfLine :: bool

abbreviation rn :: "char \<Rightarrow> rune" where "rn c \<equiv> of_char c"

abbreviation eof :: rune where "eof \<equiv> - 1"

definition lnextUnicode :: "lexer \<Rightarrow> rune \<times> lexer" where
  "lnextUnicode l =
    (let (r, w) = DecodeRuneInString (drop (l_pos l) (l_input l));
         l1 = l\<lparr>l_width := w, l_pos := l_pos l + w\<rparr>
     in (r, if r = rn ch_nl then l1\<lparr>l_line := l_line l + 1, l_col := 1\<rparr>
            else l1\<lparr>l_col := l_col l + 1\<rparr>))"

definition lnext :: "lexer \<Rightarrow> rune \<times> lexer" where
  "lnext l =
    (if l_pos l \<ge> length (l_input l) then (eof, l\<lparr>l_width := 0\<rparr>)
     else
       let c = l_input l ! l_pos l in
       if rn c < 128 then
         let l1 = l\<lparr>l_width := 1, l_pos := l_pos l + 1\<rparr> in
         (rn c, if c = ch_nl then l1\<lparr>l_line := l_line l + 1, l_col := 1\<rparr>
                else l1\<lparr>l_col := l_col l + 1\<rparr>)
       else lnextUnicode l)"

abbreviation consume :: "lexer \<Rightarrow> lexer" where "consume l \<equiv> snd (lnext l)"

definition peek :: "lexer \<Rightarrow> rune" where
  "peek l =
    (if l_pos l \<ge> length (l_input l) then eof
     else
       let c = l_input l ! l_pos l in
       if rn c < 128 then rn c
       else fst (DecodeRuneInString (drop (l_pos l) (l_input l))))"

section \<open>Character classes\<close>

definition isSpace :: "rune \<Rightarrow> bool" where
  "isSpace r \<longleftrightarrow> r = rn ch_space \<or> r = rn ch_tab"

definition isEndOfLine :: "rune \<Rightarrow> bool" where
  "isEndOfLine r \<longleftrightarrow> r = rn ch_cr \<or> r = rn ch_nl"

definition isAlphaNumeric :: "rune \<Rightarrow> bool" where
  "isAlphaNumeric r \<longleftrightarrow>
    (rn (CHR ''a'') \<le> r \<and> r \<le> rn (CHR ''z'')) \<or> (rn (CHR ''A'') \<le> r \<and> r \<le> rn (CHR ''Z'')) \<or>
    (rn (CHR ''0'') \<le> r \<and> r \<le> rn (CHR ''9'')) \<or> r = rn (CHR ''_'')"

definition space_byte :: "char \<Rightarrow> bool" where
  "space_byte c \<longleftrightarrow> c = ch_space \<or> c = ch_tab"

definition eol_byte :: "char \<Rightarrow> bool" where
  "eol_byte c \<longleftrightarrow> c = ch_nl \<or> c = ch_cr"

section \<open>Moving the cursor\<close>

text \<open>Facts the loops below need to terminate: away from the end of the input, \<open>next\<close>
  moves the cursor by at least one byte and keeps it inside the input.\<close>

lemma fst_lnext: "fst (lnext l) = peek l"
  by (simp add: lnext_def peek_def lnextUnicode_def Let_def split: prod.split)

lemma peek_eof_iff: "peek l = eof \<longleftrightarrow> length (l_input l) \<le> l_pos l"
  using DecodeRune_nonneg [of "drop (l_pos l) (l_input l)"]
    of_char_nonneg [of "l_input l ! l_pos l"]
  by (auto simp: peek_def Let_def simp del: of_char_nonneg)

lemma consume_input [simp]: "l_input (consume l) = l_input l"
  by (simp add: lnext_def lnextUnicode_def Let_def split: prod.split)

lemma consume_pos:
  "l_pos l < length (l_input l) \<Longrightarrow>
     l_pos l < l_pos (consume l) \<and> l_pos (consume l) \<le> length (l_input l)"
  using DecodeRune_width [of "drop (l_pos l) (l_input l)"]
  by (auto simp: lnext_def lnextUnicode_def Let_def split: prod.split)

lemma consume_pos_le: "l_pos l \<le> l_pos (consume l)"
  using consume_pos [of l] by (cases "l_pos l < length (l_input l)") (auto simp: lnext_def)

definition rest :: "lexer \<Rightarrow> nat" where
  "rest l = length (l_input l) - l_pos l"

lemma rest_consume: "peek l \<noteq> eof \<Longrightarrow> rest (consume l) < rest l"
  using consume_pos [of l] by (auto simp: rest_def peek_eof_iff)

lemma rest_consume_le: "rest (consume l) \<le> rest l"
  using consume_pos_le [of l] by (simp add: rest_def)

text \<open>The loops of the scanner that read runes while a condition on the next rune holds.
  None of the conditions of the code holds of \<open>eof\<close>.\<close>

function next_while :: "(rune \<Rightarrow> bool) \<Rightarrow> lexer \<Rightarrow> lexer" where
  "next_while P l = (if peek l \<noteq> eof \<and> P (peek l) then next_while P (consume l) else l)"
  by pat_completeness auto
termination
  by (relation "measure (\<lambda>(P, l). rest l)") (auto simp: rest_consume)

declare next_while.simps [simp del]

function skipSpace :: "lexer \<Rightarrow> lexer" where
  "skipSpace l =
    (if l_pos l < length (l_input l) \<and> space_byte (l_input l ! l_pos l)
     then skipSpace (l\<lparr>l_pos := l_pos l + 1, l_col := l_col l + 1\<rparr>) else l)"
  by pat_completeness auto
termination
  by (relation "measure rest") (auto simp: rest_def)

declare skipSpace.simps [simp del]

definition skipSpaceCount :: "lexer \<Rightarrow> nat \<times> lexer" where
  "skipSpaceCount l = (let l1 = skipSpace l in (l_pos l1 - l_pos l, l1))"

text \<open>\<open>if r == '\r' && peek() == '\n' { next() }\<close> after reading \<open>r\<close>; used for a newline
  and for an escaped character.\<close>

definition next_eol :: "lexer \<Rightarrow> lexer" where
  "next_eol l =
    (let l1 = consume l in
     if fst (lnext l) = rn ch_cr \<and> peek l1 = rn ch_nl then consume l1 else l1)"

abbreviation skip_line_rest :: "lexer \<Rightarrow> lexer" where
  "skip_line_rest l \<equiv> next_while (\<lambda>r. \<not> isEndOfLine r) l"

section \<open>Positions\<close>

inductive reach :: "string \<Rightarrow> nat \<Rightarrow> nat \<Rightarrow> nat \<Rightarrow> bool" for s where
  reach_start: "reach s 0 1 1"
| reach_newline: "reach s p ln cl \<Longrightarrow> p < length s \<Longrightarrow>
    DecodeRuneInString (drop p s) = (r, w) \<Longrightarrow> r = rn ch_nl \<Longrightarrow> reach s (p + w) (ln + 1) 1"
| reach_rune: "reach s p ln cl \<Longrightarrow> p < length s \<Longrightarrow>
    DecodeRuneInString (drop p s) = (r, w) \<Longrightarrow> r \<noteq> rn ch_nl \<Longrightarrow> reach s (p + w) ln (cl + 1)"

lemma of_char_eq_iff_int: "(of_char c :: int) = of_char d \<longleftrightarrow> c = d"
  by (metis of_char_eq_iff of_nat_of_char of_nat_eq_iff)

lemma drop_nth_Cons: "p < length s \<Longrightarrow> drop p s = s ! p # drop (Suc p) s"
  by (simp add: Cons_nth_drop_Suc)

lemma decode_at_ascii:
  "p < length s \<Longrightarrow> rn (s ! p) < 128 \<Longrightarrow> DecodeRuneInString (drop p s) = (rn (s ! p), 1)"
  by (simp add: drop_nth_Cons DecodeRune_ascii)

lemma reach_ascii:
  assumes "reach s p ln cl" "p < length s" "rn (s ! p) < 128" "s ! p \<noteq> ch_nl"
  shows "reach s (p + 1) ln (cl + 1)"
  using reach_rune [OF assms(1,2) decode_at_ascii [OF assms(2,3)]] assms(4)
  by (simp only: of_char_eq_iff_int not_False_eq_True)

lemma reach_ascii_nl:
  assumes "reach s p ln cl" "p < length s" "s ! p = ch_nl"
  shows "reach s (p + 1) (ln + 1) 1"
  using reach_newline [OF assms(1,2) decode_at_ascii [OF assms(2)]] assms(3) by simp

lemma reach_ascii_word:
  assumes "prefix w (drop p s)" "\<forall>c \<in> set w. rn c < 128 \<and> c \<noteq> ch_nl" "reach s p ln cl"
  shows "reach s (p + length w) ln (cl + length w)"
  using assms
proof (induction w arbitrary: p cl)
  case Nil
  then show ?case by simp
next
  case (Cons c w)
  then have p: "p < length s"
    by (metis drop_all not_less prefix_Nil list.distinct(1))
  with Cons.prems(1) have c: "s ! p = c" and w: "prefix w (drop (Suc p) s)"
    by (simp_all add: drop_nth_Cons)
  have "reach s (p + 1) ln (cl + 1)"
    using reach_ascii [OF Cons.prems(3) p] Cons.prems(2) c by simp
  then show ?case using Cons.IH [of "Suc p" "cl + 1"] w Cons.prems(2) by simp
qed

text \<open>The line of a position is one more than the number of newline bytes before it.\<close>

lemma decode_newline_free:
  assumes "DecodeRuneInString (c # t) = (r, w)" "r \<noteq> rn ch_nl"
  shows "count_list (take w (c # t)) ch_nl = 0"
proof (cases "rn c < 128")
  case True
  then show ?thesis using assms by (auto simp: DecodeRune_ascii)
next
  case False
  have cont: "\<not> is_cont (of_char ch_nl)" "\<not> (128::int) \<le> of_char ch_nl" by (simp_all add: is_cont_def)
  show ?thesis
    using assms False cont
    by (auto simp: DecodeRuneInString_def Let_def split: list.splits if_splits)
qed

definition lines_before :: "string \<Rightarrow> nat \<Rightarrow> nat" where
  "lines_before s p = count_list (take p s) ch_nl"

lemma count_list_take_add:
  "count_list (take (p + w) s) c = count_list (take p s) c + count_list (take w (drop p s)) c"
  by (simp add: take_add)

lemma reach_line: "reach s p ln cl \<Longrightarrow> ln = 1 + lines_before s p"
proof (induction rule: reach.induct)
  case reach_start
  show ?case by (simp add: lines_before_def)
next
  case (reach_newline p ln cl r w)
  have c: "s ! p = ch_nl"
  proof (rule ccontr)
    assume ne: "s ! p \<noteq> ch_nl"
    show False
    proof (cases "rn (s ! p) < 128")
      case True
      then show False
        using reach_newline(2,3,4) ne decode_at_ascii [of p s]
        by (metis of_char_eq_iff_int prod.inject)
    next
      case False
      then show False
        using reach_newline(2,3,4) DecodeRune_nonascii [OF False, of "drop (Suc p) s"]
        by (simp add: drop_nth_Cons)
    qed
  qed
  then have "w = 1" using reach_newline(2,3) decode_at_ascii [of p s] by simp
  with reach_newline c show ?case
    by (simp add: lines_before_def count_list_take_add drop_nth_Cons take_Suc_conv_app_nth)
next
  case (reach_rune p ln cl r w)
  have "count_list (take w (drop p s)) ch_nl = 0"
    using decode_newline_free [of "s ! p" "drop (Suc p) s" r w] reach_rune(2,3,4)
    by (simp add: drop_nth_Cons)
  with reach_rune show ?case by (simp add: lines_before_def count_list_take_add)
qed

section \<open>Moving forward\<close>

definition adv :: "lexer \<Rightarrow> lexer \<Rightarrow> bool" where
  "adv l l' \<longleftrightarrow>
    l' = l\<lparr>l_line := l_line l', l_width := l_width l', l_col := l_col l', l_pos := l_pos l'\<rparr> \<and>
    l_pos l \<le> l_pos l' \<and>
    (l_pos l \<le> length (l_input l) \<longrightarrow> l_pos l' \<le> length (l_input l)) \<and>
    (reach (l_input l) (l_pos l) (l_line l) (l_col l) \<longrightarrow>
     reach (l_input l) (l_pos l') (l_line l') (l_col l'))"

lemma adv_refl [simp, intro!]: "adv l l"
  by (simp add: adv_def)

lemma adv_fields:
  assumes "adv l l'"
  shows "l_input l' = l_input l" "l_itemsArr l' = l_itemsArr l" "l_indentArr l' = l_indentArr l"
    "l_itemsStart l' = l_itemsStart l" "l_itemsEnd l' = l_itemsEnd l"
    "l_indentLen l' = l_indentLen l" "l_start l' = l_start l" "l_startLine l' = l_startLine l"
    "l_startCol l' = l_startCol l" "l_state l' = l_state l"
    "l_keyValueCmdType l' = l_keyValueCmdType l" "l_pos l \<le> l_pos l'"
proof -
  from assms have *: "l' = l\<lparr>l_line := l_line l', l_width := l_width l', l_col := l_col l', l_pos := l_pos l'\<rparr>"
    by (simp add: adv_def)
  show "l_input l' = l_input l" by (subst *) simp
  show "l_itemsArr l' = l_itemsArr l" by (subst *) simp
  show "l_indentArr l' = l_indentArr l" by (subst *) simp
  show "l_itemsStart l' = l_itemsStart l" by (subst *) simp
  show "l_itemsEnd l' = l_itemsEnd l" by (subst *) simp
  show "l_indentLen l' = l_indentLen l" by (subst *) simp
  show "l_start l' = l_start l" by (subst *) simp
  show "l_startLine l' = l_startLine l" by (subst *) simp
  show "l_startCol l' = l_startCol l" by (subst *) simp
  show "l_state l' = l_state l" by (subst *) simp
  show "l_keyValueCmdType l' = l_keyValueCmdType l" by (subst *) simp
  show "l_pos l \<le> l_pos l'" using assms by (simp add: adv_def)
qed

lemma adv_trans:
  assumes "adv l l1" "adv l1 l2"
  shows "adv l l2"
proof -
  have i: "l_input l1 = l_input l" using assms(1) by (rule adv_fields)
  from assms(1) have "l1 = l\<lparr>l_line := l_line l1, l_width := l_width l1, l_col := l_col l1, l_pos := l_pos l1\<rparr>"
    by (simp add: adv_def)
  moreover from assms(2)
  have "l2 = l1\<lparr>l_line := l_line l2, l_width := l_width l2, l_col := l_col l2, l_pos := l_pos l2\<rparr>"
    by (simp add: adv_def)
  ultimately have "l2 = l\<lparr>l_line := l_line l2, l_width := l_width l2, l_col := l_col l2, l_pos := l_pos l2\<rparr>"
    by (cases l; cases l1; cases l2) simp
  then show ?thesis
    using assms unfolding adv_def i by auto
qed

lemma consume_at_eof: "length (l_input l) \<le> l_pos l \<Longrightarrow> consume l = l\<lparr>l_width := 0\<rparr>"
  by (simp add: lnext_def)

lemma adv_consume [adv_intros]: "adv l (consume l)"
proof (cases "l_pos l < length (l_input l)")
  case False
  then show ?thesis by (simp add: consume_at_eof adv_def)
next
  case True
  let ?c = "l_input l ! l_pos l"
  show ?thesis
  proof (cases "rn ?c < 128")
    case ascii: True
    then show ?thesis
      using True reach_ascii_nl [OF _ True] reach_ascii [OF _ True ascii]
      by (auto simp: adv_def lnext_def Let_def)
  next
    case False
    obtain r w where d: "DecodeRuneInString (drop (l_pos l) (l_input l)) = (r, w)"
      by fastforce
    with DecodeRune_width [of "drop (l_pos l) (l_input l)"] True
    have "w \<le> length (l_input l) - l_pos l" by simp
    then show ?thesis
      using True False d reach_newline [OF _ True d] reach_rune [OF _ True d]
      by (auto simp: adv_def lnext_def lnextUnicode_def Let_def)
  qed
qed

lemma adv_skipSpace [adv_intros]: "adv l (skipSpace l)"
proof (induction l rule: skipSpace.induct)
  case (1 l)
  show ?case
  proof (cases "l_pos l < length (l_input l) \<and> space_byte (l_input l ! l_pos l)")
    case True
    let ?l1 = "l\<lparr>l_pos := l_pos l + 1, l_col := l_col l + 1\<rparr>"
    have "adv l ?l1"
      using True reach_ascii [of "l_input l" "l_pos l" "l_line l" "l_col l"]
      by (auto simp: adv_def space_byte_def)
    with 1 [OF True] have "adv l (skipSpace ?l1)" by (blast intro: adv_trans)
    with True show ?thesis by (simp add: skipSpace.simps [of l])
  next
    case False
    then have "skipSpace l = l" by (subst skipSpace.simps) auto
    then show ?thesis by simp
  qed
qed

lemma adv_next_while [adv_intros]: "adv l (next_while P l)"
proof (induction P l rule: next_while.induct)
  case (1 P l)
  then show ?case
    using adv_trans [OF adv_consume [of l]] by (simp add: next_while.simps [of P l])
qed

lemma adv_next_eol [adv_intros]: "adv l (next_eol l)"
  using adv_consume [of l] adv_trans [OF adv_consume [of l] adv_consume]
  by (simp add: next_eol_def Let_def)

lemma adv_rest: "adv l l' \<Longrightarrow> rest l' \<le> rest l"
  using adv_fields(1,12) [of l l'] by (simp add: rest_def diff_le_mono2)

lemma adv_rest_consume: "peek l \<noteq> eof \<Longrightarrow> adv (consume l) l' \<Longrightarrow> rest l' < rest l"
  using rest_consume [of l] adv_rest [of "consume l" l'] by simp

section \<open>Escapes and quoted text\<close>

definition lexConsumeEscape :: "lexer \<Rightarrow> lexer" where
  "lexConsumeEscape l = next_eol l"

lemma adv_lexConsumeEscape [adv_intros]: "adv l (lexConsumeEscape l)"
  by (simp add: lexConsumeEscape_def adv_next_eol)

text \<open>The look-ahead of \<open>lexConsumeEscapeOrContinuation\<close>: from \<open>idx\<close> on, skip spaces and
  tabs; a comment, a line break or the end of the input makes a continuation.\<close>

function continuationAt :: "string \<Rightarrow> nat \<Rightarrow> bool" where
  "continuationAt s idx =
    (if idx < length s
     then let (r, w) = DecodeRuneInString (drop idx s) in
       if r = rn ch_space \<or> r = rn ch_tab then continuationAt s (idx + w)
       else if r = rn (CHR ''#'') then True
       else r = rn ch_cr \<or> r = rn ch_nl \<or> r = eof
     else True)"
  by pat_completeness auto
termination
proof (relation "measure (\<lambda>(s, idx). length s - idx)", goal_cases)
  case (2 s idx x r w)
  then show ?case
    using DecodeRune_width [of "drop idx s"] by (auto simp: prod_eq_iff)
qed simp

declare continuationAt.simps [simp del]

lemma adv_from_consume_next_eol: "adv (consume l) (next_eol l)"
  by (simp add: next_eol_def Let_def adv_consume)

function continuationLoop :: "lexer \<Rightarrow> lexer" where
  "continuationLoop l =
    (if peek l = eof then l
     else if peek l = rn ch_space \<or> peek l = rn ch_tab then continuationLoop (consume l)
     else if peek l = rn (CHR ''#'') then continuationLoop (skip_line_rest (consume l))
     else if isEndOfLine (peek l) then continuationLoop (next_eol l)
     else l)"
  by pat_completeness auto
termination
  by (relation "measure rest")
    (auto intro: adv_rest_consume adv_next_while adv_from_consume_next_eol)

declare continuationLoop.simps [simp del]

lemma adv_continuationLoop [adv_intros]: "adv l (continuationLoop l)"
proof (induction l rule: continuationLoop.induct)
  case (1 l)
  then show ?case
    using adv_trans [OF adv_consume [of l]] adv_trans [OF adv_next_eol [of l]]
      adv_trans [OF adv_trans [OF adv_consume [of l] adv_next_while]]
    by (subst continuationLoop.simps) auto
qed

text \<open>The quoted-text loops return Go's \<open>error\<close> result (\<open>None\<close> for \<open>nil\<close>) and the scanner.\<close>

type_synonym body_result = "lex_error option \<times> lexer"

function lexSingleQuoteBody :: "lexer \<Rightarrow> body_result" where
  "lexSingleQuoteBody l =
    (let l1 = consume l in
     if peek l = eof then (Some UnclosedSingleQuote, l1)
     else if peek l = rn ch_squote then (None, l1)
     else if peek l = rn ch_bslash then lexSingleQuoteBody (lexConsumeEscape l1)
     else lexSingleQuoteBody l1)"
  by pat_completeness auto
termination
  by (relation "measure rest") (auto intro: adv_rest_consume adv_lexConsumeEscape)

declare lexSingleQuoteBody.simps [simp del]

lemma adv_lexSingleQuoteBody: "adv l (snd (lexSingleQuoteBody l))"
proof (induction l rule: lexSingleQuoteBody.induct)
  case (1 l)
  then show ?case
    using adv_consume [of l] adv_trans [OF adv_consume [of l]]
      adv_trans [OF adv_trans [OF adv_consume [of l] adv_lexConsumeEscape]]
    by (subst lexSingleQuoteBody.simps) (auto simp: Let_def)
qed

lemma adv_lexSingleQuoteBody_eq: "lexSingleQuoteBody l = (e, l') \<Longrightarrow> adv l l'"
  using adv_lexSingleQuoteBody [of l] by simp

text \<open>Double quotes and shell substitutions nest in each other, so the two loops are
  mutually recursive; \<open>lexShellOutLoop\<close> carries the parenthesis count, \<open>1\<close> at the start.\<close>

function lexDoubleQuoteBody :: "lexer \<Rightarrow> body_result"
  and lexShellOutLoop :: "nat \<Rightarrow> lexer \<Rightarrow> body_result"
where
  "lexDoubleQuoteBody l =
    (let l1 = consume l in
     if peek l = eof then (Some UnclosedDoubleQuote, l1)
     else if peek l = rn ch_dquote then (None, l1)
     else if peek l = rn ch_bslash then lexDoubleQuoteBody (lexConsumeEscape l1)
     else if peek l = rn (CHR ''$'') \<and> peek l1 = rn (CHR ''('') then
       (case lexShellOutLoop 1 (consume l1) of
          (Some err, l2) \<Rightarrow> (Some err, l2)
        | (None, l2) \<Rightarrow> lexDoubleQuoteBody l2)
     else lexDoubleQuoteBody l1)"
| "lexShellOutLoop parenCount l =
    (if parenCount = 0 then (None, l)
     else let l1 = consume l in
       if peek l = eof then (Some UnclosedShellSubstitution, l1)
       else if peek l = rn ch_dquote then
         (case lexDoubleQuoteBody l1 of
            (Some err, l2) \<Rightarrow> (Some err, l2)
          | (None, l2) \<Rightarrow> lexShellOutLoop parenCount l2)
       else if peek l = rn ch_squote then
         (case lexSingleQuoteBody l1 of
            (Some err, l2) \<Rightarrow> (Some err, l2)
          | (None, l2) \<Rightarrow> lexShellOutLoop parenCount l2)
       else if peek l = rn (CHR ''$'') then
         (if peek l1 = rn (CHR ''('') then lexShellOutLoop (parenCount + 1) (consume l1)
          else lexShellOutLoop parenCount l1)
       else if peek l = rn (CHR '')'') then lexShellOutLoop (parenCount - 1) l1
       else if peek l = rn ch_bslash then lexShellOutLoop parenCount (lexConsumeEscape l1)
       else lexShellOutLoop parenCount l1)"
  by pat_completeness auto

text \<open>The two loops only read: proved where they terminate, since their termination rests
  on it.\<close>

lemma adv_quoteBodies_dom:
  "lexDoubleQuoteBody_lexShellOutLoop_dom (Inl l) \<Longrightarrow> lexDoubleQuoteBody l = (e, l') \<Longrightarrow> adv l l'"
  "lexDoubleQuoteBody_lexShellOutLoop_dom (Inr (n, l)) \<Longrightarrow> lexShellOutLoop n l = (e, l') \<Longrightarrow> adv l l'"
proof (induction l and n l arbitrary: e l' and e l'
    rule: lexDoubleQuoteBody_lexShellOutLoop.pinduct)
  case (1 l)
  note c = adv_consume [of l] and cc = adv_trans [OF adv_consume [of l] adv_consume]
    and ce = adv_trans [OF adv_consume [of l] adv_lexConsumeEscape]
  note unf = lexDoubleQuoteBody.psimps [OF "1.hyps"] Let_def and res = "1.prems"
  consider (fin) "peek l = eof \<or> peek l = rn ch_dquote" | (esc) "peek l \<noteq> eof" "peek l = rn ch_bslash"
    | (sub) "peek l = rn (CHR ''$'')" "peek (consume l) = rn (CHR ''('')"
    | (other) "peek l \<noteq> eof" "peek l \<notin> {rn ch_dquote, rn ch_bslash}"
        "\<not> (peek l = rn (CHR ''$'') \<and> peek (consume l) = rn (CHR ''(''))"
    by blast
  then show ?case
  proof cases
    case fin
    then show ?thesis using res c by (auto simp: unf)
  next
    case esc
    then show ?thesis using res "1.IH"(1) adv_trans [OF ce] by (simp add: unf)
  next
    case sub
    obtain a m where m: "lexShellOutLoop 1 (consume (consume l)) = (a, m)" by fastforce
    with sub "1.IH"(2) have lm: "adv l m" using adv_trans [OF cc] by simp
    show ?thesis
      using res sub m lm "1.IH"(3) adv_trans [OF lm] by (cases a) (simp_all add: unf)
  next
    case other
    then show ?thesis using res "1.IH"(4) adv_trans [OF c] by (auto simp: unf)
  qed
next
  case (2 n l)
  note c = adv_consume [of l] and cc = adv_trans [OF adv_consume [of l] adv_consume]
    and ce = adv_trans [OF adv_consume [of l] adv_lexConsumeEscape]
  note unf = lexShellOutLoop.psimps [OF "2.hyps"] Let_def and res = "2.prems"
  show ?case
  proof (cases "n = 0 \<or> peek l = eof")
    case True
    then show ?thesis using res c by (auto simp: unf split: if_splits)
  next
    case live: False
    consider (dq) "peek l = rn ch_dquote" | (sq) "peek l = rn ch_squote"
      | (sub) "peek l = rn (CHR ''$'')" | (cl) "peek l = rn (CHR '')'')" | (esc) "peek l = rn ch_bslash"
      | (other) "peek l \<notin> {rn ch_dquote, rn ch_squote, rn (CHR ''$''), rn (CHR '')''), rn ch_bslash}"
      by blast
    then show ?thesis
    proof cases
      case dq
      obtain a m where m: "lexDoubleQuoteBody (consume l) = (a, m)" by fastforce
      with dq live "2.IH"(1) have lm: "adv l m" using adv_trans [OF c] by simp
      show ?thesis
        using res dq live m lm "2.IH"(2) adv_trans [OF lm] by (cases a) (simp_all add: unf)
    next
      case sq
      obtain a m where m: "lexSingleQuoteBody (consume l) = (a, m)" by fastforce
      then have lm: "adv l m"
        using adv_trans [OF c adv_lexSingleQuoteBody [of "consume l"]] by simp
      show ?thesis
        using res sq live m lm "2.IH"(3) adv_trans [OF lm] by (cases a) (simp_all add: unf)
    next
      case sub
      then show ?thesis
        using res live "2.IH"(4,5) adv_trans [OF c] adv_trans [OF cc]
        by (simp add: unf split: if_splits)
    next
      case cl
      then show ?thesis using res live "2.IH"(6) adv_trans [OF c] by (simp add: unf)
    next
      case esc
      then show ?thesis using res live "2.IH"(7) adv_trans [OF ce] by (simp add: unf)
    next
      case other
      then show ?thesis using res live "2.IH"(8) adv_trans [OF c] by (simp add: unf)
    qed
  qed
qed

lemma quoteBodies_dom: "All lexDoubleQuoteBody_lexShellOutLoop_dom"
  by (rule "lexDoubleQuoteBody_lexShellOutLoop.termination"
      [of "measure (\<lambda>x. case x of Inl l \<Rightarrow> rest l | Inr (n, l) \<Rightarrow> rest l)"])
    (auto intro: adv_rest_consume adv_consume adv_lexConsumeEscape
      dest: adv_quoteBodies_dom(1) [OF _ sym] adv_trans [OF adv_consume adv_quoteBodies_dom(2) [OF _ sym]]
      adv_lexSingleQuoteBody_eq [OF sym])

termination lexDoubleQuoteBody
  using quoteBodies_dom by simp

declare lexDoubleQuoteBody.simps [simp del] lexShellOutLoop.simps [simp del]

definition lexShellOutBody :: "lexer \<Rightarrow> body_result" where
  "lexShellOutBody l = lexShellOutLoop 1 l"

lemma adv_lexDoubleQuoteBody: "lexDoubleQuoteBody l = (e, l') \<Longrightarrow> adv l l'"
  using adv_quoteBodies_dom(1) [of l e l'] quoteBodies_dom by blast

lemma adv_lexShellOutBody: "lexShellOutBody l = (e, l') \<Longrightarrow> adv l l'"
  using adv_quoteBodies_dom(2) [of 1 l e l'] quoteBodies_dom unfolding lexShellOutBody_def by blast

end
