(* ===== verification/Earthfile_Lexer.thy ===== *)
theory Earthfile_Lexer
  imports Lexer_Cursor
begin

text \<open>
  The scanner of \<^verbatim>\<open>internal/earthfile/lex.go\<close>, second part: emitting tokens, the state
  functions and \<open>nextItem\<close>. A state function is a HOL function from the scanner to the next
  state (\<open>None\<close> for Go's \<open>nil\<close>) and the scanner; \<open>run_state\<close> maps a \<open>stateFn\<close> to its function.
\<close>

section \<open>Emitting tokens\<close>

definition set_start :: "lexer \<Rightarrow> lexer" where
  "set_start l = l\<lparr>l_start := l_pos l, l_startLine := l_line l, l_startCol := l_col l\<rparr>"

definition push_item :: "item \<Rightarrow> lexer \<Rightarrow> lexer" where
  "push_item it l =
    (if l_itemsEnd l < length (l_itemsArr l)
     then l\<lparr>l_itemsArr := (l_itemsArr l)[l_itemsEnd l := it], l_itemsEnd := l_itemsEnd l + 1\<rparr>
     else l)"

definition emit :: "itemType \<Rightarrow> lexer \<Rightarrow> lexer" where
  "emit t l =
    (let l1 = push_item \<lparr>it_Val = slice (l_input l) (l_start l) (l_pos l), it_Typ = t,
                it_pos = l_start l, it_Line = l_startLine l, it_Col = l_startCol l,
                it_Err = None\<rparr> l;
         l2 = set_start l1
     in if t = itemNL then l2\<lparr>l_isStartOfLine := True\<rparr>
        else if t \<noteq> itemWS \<and> t \<noteq> itemComment then l2\<lparr>l_isStartOfLine := False\<rparr>
        else l2)"

definition lignore :: "lexer \<Rightarrow> lexer" where
  "lignore l = set_start l"

definition errorf :: "lex_error \<Rightarrow> lexer \<Rightarrow> stateFn option \<times> lexer" where
  "errorf e l =
    (None, push_item \<lparr>it_Val = [], it_Typ = itemError, it_pos = l_start l,
             it_Line = l_startLine l, it_Col = l_startCol l, it_Err = Some e\<rparr> l)"

definition lex :: "string \<Rightarrow> string \<Rightarrow> lexer" where
  "lex nm inp =
    \<lparr>l_input = inp, l_name = nm, l_keyValueCmdType = [], l_state = Some LexDefault,
     l_itemsArr = replicate 32 zero_item, l_indentArr = replicate 16 0,
     l_itemsStart = 0, l_itemsEnd = 0, l_indentLen = 1, l_line = 1, l_lastPos = 0,
     l_width = 0, l_start = 0, l_col = 1, l_startLine = 1, l_startCol = 1, l_pos = 0,
     l_isStartOfLine = True\<rparr>"

section \<open>Looking back and ahead\<close>

text \<open>The loop \<open>for i := n - 1; i >= 0; i--\<close> of the comment rules: only spaces and tabs
  between the last line break before \<open>n\<close> and \<open>n\<close>.\<close>

fun onlySpaceBefore :: "string \<Rightarrow> nat \<Rightarrow> bool" where
  "onlySpaceBefore s 0 = True"
| "onlySpaceBefore s (Suc i) =
    (if eol_byte (s ! i) then True
     else if \<not> space_byte (s ! i) then False
     else onlySpaceBefore s i)"

definition isFullLineComment :: "lexer \<Rightarrow> bool" where
  "isFullLineComment l \<longleftrightarrow> peek l = rn (CHR ''#'') \<and> onlySpaceBefore (l_input l) (l_pos l)"

definition isCommentStart :: "lexer \<Rightarrow> bool" where
  "isCommentStart l \<longleftrightarrow>
    peek l = rn (CHR ''#'') \<and>
    (l_pos l = 0 \<or>
     (let prev = l_input l ! (l_pos l - 1) in space_byte prev \<or> eol_byte prev))"

definition isWordBoundary :: "lexer \<Rightarrow> nat \<Rightarrow> bool" where
  "isWordBoundary l p \<longleftrightarrow>
    (if p \<ge> length (l_input l) then True
     else let r = rn (l_input l ! p) in isSpace r \<or> isEndOfLine r)"

text \<open>The end of a line break that starts at \<open>idx\<close>.\<close>

definition after_eol :: "string \<Rightarrow> nat \<Rightarrow> nat" where
  "after_eol s idx =
    (if s ! idx = ch_cr \<and> idx + 1 < length s \<and> s ! (idx + 1) = ch_nl then idx + 2 else idx + 1)"

function skip_line :: "string \<Rightarrow> nat \<Rightarrow> nat" where
  "skip_line s idx =
    (if idx < length s
     then if eol_byte (s ! idx) then after_eol s idx else skip_line s (idx + 1)
     else idx)"
  by pat_completeness auto
termination
  by (relation "measure (\<lambda>(s, idx). length s - idx)") auto

declare skip_line.simps [simp del]

record line_scan =
  ls_idx :: nat
  ls_isComment :: bool
  ls_isEmpty :: bool
  ls_indent :: nat

function scan_line :: "string \<Rightarrow> line_scan \<Rightarrow> line_scan" where
  "scan_line s st =
    (if ls_idx st < length s
     then let c = s ! ls_idx st in
       if eol_byte c then st\<lparr>ls_idx := after_eol s (ls_idx st)\<rparr>
       else if space_byte c then
         scan_line s (if ls_isEmpty st
                      then st\<lparr>ls_indent := ls_indent st + 1, ls_idx := ls_idx st + 1\<rparr>
                      else st\<lparr>ls_idx := ls_idx st + 1\<rparr>)
       else if c = CHR ''#'' then
         scan_line s (st\<lparr>ls_isComment := True, ls_isEmpty := False, ls_idx := ls_idx st + 1\<rparr>)
       else scan_line s (st\<lparr>ls_isEmpty := False, ls_idx := ls_idx st + 1\<rparr>)
     else st)"
  by pat_completeness auto
termination
  by (relation "measure (\<lambda>(s, st). length s - ls_idx st)") auto

declare scan_line.simps [simp del]

lemma after_eol_gt: "idx < after_eol s idx"
  by (simp add: after_eol_def)

lemma scan_line_ge: "ls_idx st \<le> ls_idx (scan_line s st)"
proof (induction s st rule: scan_line.induct)
  case (1 s st)
  then show ?case
    using after_eol_gt [of "ls_idx st" s]
    by (subst scan_line.simps) (auto simp: Let_def)
qed

lemma scan_line_gt:
  assumes "ls_idx st < length s"
  shows "ls_idx st < ls_idx (scan_line s st)"
proof -
  have step: "ls_idx st' \<le> ls_idx (scan_line s st')" for st' by (rule scan_line_ge)
  show ?thesis
    using assms after_eol_gt [of "ls_idx st" s]
      step [of "st\<lparr>ls_indent := ls_indent st + 1, ls_idx := ls_idx st + 1\<rparr>"]
      step [of "st\<lparr>ls_idx := ls_idx st + 1\<rparr>"]
      step [of "st\<lparr>ls_isComment := True, ls_isEmpty := False, ls_idx := ls_idx st + 1\<rparr>"]
      step [of "st\<lparr>ls_isEmpty := False, ls_idx := ls_idx st + 1\<rparr>"]
    by (subst scan_line.simps) (auto simp: Let_def)
qed

function nextIndentFrom :: "string \<Rightarrow> nat \<Rightarrow> nat" where
  "nextIndentFrom s idx =
    (if idx < length s
     then let st = scan_line s \<lparr>ls_idx = idx, ls_isComment = False, ls_isEmpty = True, ls_indent = 0\<rparr> in
       if \<not> ls_isComment st \<and> \<not> ls_isEmpty st then ls_indent st
       else nextIndentFrom s (ls_idx st)
     else 0)"
  by pat_completeness auto
termination
proof (relation "measure (\<lambda>(s, idx). length s - idx)", goal_cases)
  case (2 s idx st)
  then show ?case
    using scan_line_gt [of "\<lparr>ls_idx = idx, ls_isComment = False, ls_isEmpty = True, ls_indent = 0\<rparr>" s]
    by simp
qed simp

declare nextIndentFrom.simps [simp del]

definition peekNextNonCommentIndent :: "lexer \<Rightarrow> nat" where
  "peekNextNonCommentIndent l = nextIndentFrom (l_input l) (skip_line (l_input l) (l_pos l))"

section \<open>Comments and continuations\<close>

definition lexConsumeComment :: "lexer \<Rightarrow> lexer" where
  "lexConsumeComment l =
    (let l1 = skip_line_rest (consume l);
         typ = (if onlySpaceBefore (l_input l1) (l_start l1) then itemComment else itemEOLComment)
     in emit typ l1)"

definition lexConsumeContinuation :: "lexer \<Rightarrow> bool \<Rightarrow> lexer" where
  "lexConsumeContinuation l shouldIgnore =
    (let l1 = continuationLoop (consume l) in if shouldIgnore then lignore l1 else l1)"

definition lexConsumeEscapeOrContinuation :: "lexer \<Rightarrow> lexer" where
  "lexConsumeEscapeOrContinuation l =
    (if continuationAt (l_input l) (l_pos l + 1)
     then lexConsumeContinuation l (l_pos l = l_start l)
     else next_eol (consume l))"

section \<open>The state functions outside of recipes\<close>

type_synonym next_state = "stateFn option \<times> lexer"

definition lexDefault :: "lexer \<Rightarrow> next_state" where
  "lexDefault l =
    (let r = peek l in
     if r = eof then (None, emit itemEOF l)
     else if isSpace r then (Some LexSpace, l)
     else if isEndOfLine r then (Some LexNL, l)
     else if r = rn (CHR ''#'') then (Some LexDefault, lexConsumeComment l)
     else (Some LexIdentifier, l))"

definition lexSpace :: "lexer \<Rightarrow> next_state" where
  "lexSpace l = (Some LexDefault, emit itemWS (skipSpace l))"

definition lexNL :: "lexer \<Rightarrow> next_state" where
  "lexNL l = (Some LexDefault, emit itemNL (next_eol l))"

definition resetIndent :: "lexer \<Rightarrow> lexer" where
  "resetIndent l = l\<lparr>l_indentArr := (l_indentArr l)[0 := 0], l_indentLen := 1\<rparr>"

definition lexUserCommandOrFunction :: "lexer \<Rightarrow> Cmd \<Rightarrow> next_state" where
  "lexUserCommandOrFunction l v =
    (let l1 = next_while (\<lambda>r. isAlphaNumeric r \<or> r = rn (CHR ''-'') \<or> r = rn (CHR ''_'')) (consume l);
         l2 = (if peek l1 = rn (CHR '':'') then consume l1 else l1);
         typ = (if v = CmdCommand then itemUserCommand else itemFunction)
     in (Some LexRecipe, resetIndent (emit typ l2)))"

definition ident_rune :: "rune \<Rightarrow> bool" where
  "ident_rune r \<longleftrightarrow> isAlphaNumeric r \<or> r = rn (CHR ''-'') \<or> r = rn (CHR ''.'')"

definition lexIdentifier :: "lexer \<Rightarrow> next_state" where
  "lexIdentifier l0 =
    (let r = fst (lnext l0); l1 = consume l0 in
     if \<not> ident_rune r then errorf (UnexpectedCharacter r) l1
     else
       let l = next_while ident_rune l1;
           v = slice (l_input l) (l_start l) (l_pos l)
       in if v = CmdVersion then (Some LexGlobalCommandArgs, emit itemVersion l)
          else if v = CmdProject then (Some LexGlobalCommandArgs, emit itemProject l)
          else if (v = CmdCommand \<or> v = CmdFunction) \<and> isSpace (peek l)
            then lexUserCommandOrFunction l v
          else if peek l = rn (CHR '':'')
            then (Some LexRecipe, resetIndent (emit itemTarget (consume l)))
          else (Some LexCommandKeyword,
                l\<lparr>l_pos := l_start l, l_col := l_startCol l, l_line := l_startLine l\<rparr>))"

section \<open>Recipes and their indentation\<close>

definition checkIndent :: "nat \<Rightarrow> lexer \<Rightarrow> next_state" where
  "checkIndent indent l =
    (if peek l \<noteq> rn (CHR ''#'') then
       if \<not> isEndOfLine (peek l) \<and> peek l \<noteq> eof then
         let isIndented = indent > 0; wasIndented = l_indentLen l > 1 in
         if isIndented \<and> \<not> wasIndented then
           let l1 = (if l_indentLen l < length (l_indentArr l)
                     then l\<lparr>l_indentArr := (l_indentArr l)[l_indentLen l := 1],
                            l_indentLen := l_indentLen l + 1\<rparr>
                     else l)
           in (None, emit itemIndent l1)
         else if \<not> isIndented \<and> wasIndented then
           (Some LexDefault, emit itemDedent (l\<lparr>l_indentLen := 1\<rparr>))
         else if \<not> isIndented \<and> \<not> wasIndented then (Some LexDefault, l)
         else (None, l)
       else (None, l)
     else if indent \<noteq> 0 then (None, lignore l)
     else if peekNextNonCommentIndent l \<noteq> 0 then (None, lignore l)
     else if l_indentLen l > 1 then
       (Some LexDefault, emit itemDedent (l\<lparr>l_indentLen := 1\<rparr>))
     else (None, l))"

lemma push_item_fields [simp]:
  "l_input (push_item it l) = l_input l" "l_pos (push_item it l) = l_pos l"
  "l_line (push_item it l) = l_line l" "l_col (push_item it l) = l_col l"
  "l_start (push_item it l) = l_start l" "l_indentLen (push_item it l) = l_indentLen l"
  "l_startLine (push_item it l) = l_startLine l" "l_startCol (push_item it l) = l_startCol l"
  "l_indentArr (push_item it l) = l_indentArr l" "l_itemsStart (push_item it l) = l_itemsStart l"
  "l_state (push_item it l) = l_state l"
  by (simp_all add: push_item_def)

lemma set_start_fields [simp]:
  "l_input (set_start l) = l_input l" "l_pos (set_start l) = l_pos l"
  "l_line (set_start l) = l_line l" "l_col (set_start l) = l_col l"
  "l_start (set_start l) = l_pos l" "l_startLine (set_start l) = l_line l"
  "l_startCol (set_start l) = l_col l" "l_indentLen (set_start l) = l_indentLen l"
  "l_indentArr (set_start l) = l_indentArr l" "l_itemsStart (set_start l) = l_itemsStart l"
  "l_itemsEnd (set_start l) = l_itemsEnd l" "l_itemsArr (set_start l) = l_itemsArr l"
  "l_state (set_start l) = l_state l"
  by (simp_all add: set_start_def)

lemma emit_fields [simp]:
  "l_input (emit t l) = l_input l" "l_pos (emit t l) = l_pos l"
  "l_line (emit t l) = l_line l" "l_col (emit t l) = l_col l"
  "l_start (emit t l) = l_pos l" "l_startLine (emit t l) = l_line l"
  "l_startCol (emit t l) = l_col l" "l_indentLen (emit t l) = l_indentLen l"
  "l_indentArr (emit t l) = l_indentArr l" "l_itemsStart (emit t l) = l_itemsStart l"
  "l_state (emit t l) = l_state l"
  by (simp_all add: emit_def Let_def)

function dedentAll :: "lexer \<Rightarrow> lexer" where
  "dedentAll l =
    (if l_indentLen l > 1
     then dedentAll (emit itemDedent (l\<lparr>l_indentLen := l_indentLen l - 1\<rparr>)) else l)"
  by pat_completeness auto
termination
  by (relation "measure l_indentLen") auto

declare dedentAll.simps [simp del]

definition lexRecipeBody :: "lexer \<Rightarrow> next_state" where
  "lexRecipeBody l =
    (let r = peek l in
     if r = eof then (None, emit itemEOF (dedentAll l))
     else if isSpace r then (Some LexRecipe, emit itemWS (skipSpace l))
     else if isEndOfLine r then (Some LexRecipe, emit itemNL (next_eol l))
     else if r = rn (CHR ''#'') then (Some LexRecipe, lexConsumeComment l)
     else (Some LexCommandKeyword, l))"

definition lexRecipe :: "lexer \<Rightarrow> next_state" where
  "lexRecipe l =
    (if l_col l = 1 then
       let (indent, l1) = skipSpaceCount l;
           l2 = (if l_pos l1 > l_start l1 then lignore l1 else l1);
           (nextState, l3) = checkIndent indent l2
       in if nextState \<noteq> None then (nextState, l3) else lexRecipeBody l3
     else lexRecipeBody l)"

section \<open>Command keywords\<close>

definition skip_bytes :: "nat \<Rightarrow> lexer \<Rightarrow> lexer" where
  "skip_bytes n l = l\<lparr>l_pos := l_pos l + n, l_col := l_col l + n\<rparr>"

text \<open>The keywords of one word that take ordinary arguments.\<close>

definition command_keywords :: "(Cmd \<times> itemType) list" where
  "command_keywords =
    [(CmdLocally, itemLocally), (CmdExpose, itemExpose), (CmdVolume, itemVolume),
     (CmdLabel, itemLabel), (CmdBuild, itemBuild), (CmdUser, itemUser), (CmdCmd, itemCmd),
     (CmdEntrypoint, itemEntrypoint), (CmdAdd, itemAdd), (CmdStopSignal, itemStopSignal),
     (CmdOnBuild, itemOnBuild), (CmdHealthCheck, itemHealthCheck), (CmdShell, itemShell),
     (CmdDo, itemDo), (CmdCommand, itemCommand), (CmdFunction, itemFunctionKW),
     (CmdImport, itemImport), (CmdCache, itemCache), (CmdHost, itemHost),
     (CmdProject, itemProject), (CmdRun, itemRun), (CmdWorkdir, itemWorkdir),
     (CmdCopy, itemCopy), (CmdIf, itemIf), (CmdEnd, itemEnd), (CmdFor, itemFor),
     (CmdTry, itemTry), (CmdCatch, itemCatch), (CmdFinally, itemFinally),
     (CmdWith, itemWith), (CmdWait, itemWait)]"

text \<open>The keywords that take a key and a value.\<close>

definition key_value_keywords :: "(Cmd \<times> itemType) list" where
  "key_value_keywords = [(CmdEnv, itemEnv), (CmdArg, itemArg), (CmdSet, itemSet), (CmdLet, itemLet)]"

definition second_word :: "string \<Rightarrow> lexer \<Rightarrow> bool" where
  "second_word w l \<longleftrightarrow>
    isWordBoundary l (l_pos l + length w) \<and> prefix w (drop (l_pos l) (l_input l))"

lemma adv_skip_bytes:
  assumes "second_word w l" "n = length w" "\<forall>c \<in> set w. rn c < 128 \<and> c \<noteq> ch_nl"
  shows "adv l (skip_bytes n l)"
proof -
  have p: "prefix w (drop (l_pos l) (l_input l))"
    using assms(1) by (simp add: second_word_def)
  then have "length w \<le> length (l_input l) - l_pos l"
    by (metis length_drop prefix_length_le)
  then have "l_pos l \<le> length (l_input l) \<longrightarrow> l_pos l + n \<le> length (l_input l)"
    using assms(2) by auto
  then show ?thesis
    using reach_ascii_word [OF p assms(3)] assms(2) by (auto simp: adv_def skip_bytes_def)
qed


definition lexCommandKeyword :: "lexer \<Rightarrow> next_state" where
  "lexCommandKeyword l0 =
    (let l = next_while isAlphaNumeric l0;
         v = slice (l_input l) (l_start l) (l_pos l)
     in if v = ''SAVE'' then
          if second_word '' ARTIFACT'' l
          then (Some LexRecipeCommandArgs, emit itemSaveArtifact (skip_bytes 9 l))
          else if second_word '' IMAGE'' l
          then (Some LexRecipeCommandArgs, emit itemSaveImage (skip_bytes 6 l))
          else errorf (UnknownCommandKeyword v) l
        else if v = ''GIT'' then
          if second_word '' CLONE'' l
          then (Some LexRecipeCommandArgs, emit itemGitClone (skip_bytes 6 l))
          else errorf (UnknownCommandKeyword v) l
        else if v = CmdFrom then
          if second_word '' DOCKERFILE'' l
          then (Some LexRecipeCommandArgs, emit itemFromDockerfile (skip_bytes 11 l))
          else (Some LexRecipeCommandArgs, emit itemFrom l)
        else if v = CmdElse then
          if second_word '' IF'' l
          then (Some LexRecipeCommandArgs, emit itemElseIf (skip_bytes 3 l))
          else (Some LexRecipeCommandArgs, emit itemElse l)
        else case map_of key_value_keywords v of
          Some typ \<Rightarrow> (Some LexKeyValueCommandArgs, emit typ (l\<lparr>l_keyValueCmdType := v\<rparr>))
        | None \<Rightarrow>
          (case map_of command_keywords v of
             Some typ \<Rightarrow> (Some LexRecipeCommandArgs, emit typ l)
           | None \<Rightarrow> errorf (UnknownCommandKeyword v) l))"

section \<open>Arguments\<close>

text \<open>\<open>if l.pos > l.start { l.emit(itemAtom) }\<close>\<close>

definition emitAtom :: "lexer \<Rightarrow> lexer" where
  "emitAtom l = (if l_pos l > l_start l then emit itemAtom l else l)"

lemma emitAtom_fields [simp]:
  "l_input (emitAtom l) = l_input l" "l_pos (emitAtom l) = l_pos l"
  "l_line (emitAtom l) = l_line l" "l_col (emitAtom l) = l_col l"
  by (simp_all add: emitAtom_def)

lemma rest_lignore [simp]: "rest (lignore l) = rest l"
  by (simp add: rest_def lignore_def)

lemma rest_escapeOrContinuation:
  assumes "peek l \<noteq> eof"
  shows "rest (lexConsumeEscapeOrContinuation l) < rest l"
  using adv_rest_consume [OF assms adv_continuationLoop] adv_rest_consume [OF assms adv_next_eol]
  by (simp add: lexConsumeEscapeOrContinuation_def lexConsumeContinuation_def Let_def)

text \<open>\<open>lexRecipeCommandArgs\<close> and \<open>lexGlobalCommandArgs\<close> are one loop but for the states
  they hand over to and for the line break, which the global one leaves to \<open>lexNL\<close>.\<close>

function lexCommandArgs :: "bool \<Rightarrow> lexer \<Rightarrow> next_state" where
  "lexCommandArgs global l =
    (let r = peek l in
     if r = eof then (None, emit itemEOF (emitAtom l))
     else if isSpace r then
       (Some (if global then LexGlobalSpaceArgs else LexRecipeSpaceArgs), emitAtom l)
     else if isEndOfLine r then
       (if global then (Some LexNL, emitAtom l)
        else (Some LexRecipe, emit itemNL (next_eol (emitAtom l))))
     else if r = rn (CHR ''#'') then
       (if \<not> isCommentStart l then lexCommandArgs global (consume l)
        else if isFullLineComment l then
          (let l1 = skip_line_rest (consume l);
               l2 = (if isEndOfLine (peek l1) then next_eol l1 else l1)
           in lexCommandArgs global (lignore l2))
        else
          (let l1 = emitAtom l;
               isOnlySpace = onlySpaceBefore (l_input l1) (l_pos l1);
               l2 = lexConsumeComment l1;
               l3 = (if isOnlySpace \<and> isEndOfLine (peek l2) then next_eol l2 else l2)
           in (Some (if global then LexGlobalCommandArgs else LexRecipeCommandArgs), l3)))
     else if r = rn ch_bslash then lexCommandArgs global (lexConsumeEscapeOrContinuation l)
     else if r = rn ch_dquote then
       (case lexDoubleQuoteBody (consume l) of
          (Some e, l1) \<Rightarrow> errorf e l1
        | (None, l1) \<Rightarrow> lexCommandArgs global l1)
     else if r = rn ch_squote then
       (case lexSingleQuoteBody (consume l) of
          (Some e, l1) \<Rightarrow> errorf e l1
        | (None, l1) \<Rightarrow> lexCommandArgs global l1)
     else if r = rn (CHR ''$'') then
       (let l1 = consume l in
        if peek l1 = rn (CHR ''('') then
          (case lexShellOutBody (consume l1) of
             (Some e, l2) \<Rightarrow> errorf e l2
           | (None, l2) \<Rightarrow> lexCommandArgs global l2)
        else lexCommandArgs global l1)
     else lexCommandArgs global (consume l))"
  by pat_completeness auto
termination
proof (relation "measure (\<lambda>(g, l). rest l)", goal_cases)
  case (3 g l r l1 l2)
  then have "adv (consume l) l2"
    by (auto intro: adv_next_while adv_trans [OF adv_next_while adv_next_eol])
  with 3 show ?case using adv_rest_consume [of l l2] by simp
next
  case (5 g l r a l1)
  then show ?case by (auto intro: adv_rest_consume adv_lexDoubleQuoteBody [OF sym])
next
  case (6 g l r a l1)
  then show ?case by (auto intro: adv_rest_consume adv_lexSingleQuoteBody_eq [OF sym])
next
  case (7 g l r l1 a l2)
  then show ?case
    by (auto intro: adv_rest_consume adv_trans [OF adv_consume adv_lexShellOutBody [OF sym]])
qed (auto simp: rest_consume rest_escapeOrContinuation)

declare lexCommandArgs.simps [simp del]

definition lexRecipeCommandArgs :: "lexer \<Rightarrow> next_state" where
  "lexRecipeCommandArgs l = lexCommandArgs False l"

definition lexGlobalCommandArgs :: "lexer \<Rightarrow> next_state" where
  "lexGlobalCommandArgs l = lexCommandArgs True l"

definition lexRecipeSpaceArgs :: "lexer \<Rightarrow> next_state" where
  "lexRecipeSpaceArgs l = (Some LexRecipeCommandArgs, emit itemWS (skipSpace l))"

definition lexGlobalSpaceArgs :: "lexer \<Rightarrow> next_state" where
  "lexGlobalSpaceArgs l = (Some LexGlobalCommandArgs, emit itemWS (skipSpace l))"

text \<open>What ends a flag or a key of \<open>ENV\<close>, \<open>ARG\<close>, \<open>SET\<close> or \<open>LET\<close>.\<close>

definition key_boundary :: "rune \<Rightarrow> bool" where
  "key_boundary r \<longleftrightarrow>
    isSpace r \<or> isEndOfLine r \<or> r = eof \<or> r = rn (CHR ''#'') \<or> r = rn (CHR ''='')"

definition key_first :: "rune \<Rightarrow> bool" where
  "key_first r \<longleftrightarrow>
    (rn (CHR ''a'') \<le> r \<and> r \<le> rn (CHR ''z'')) \<or> (rn (CHR ''A'') \<le> r \<and> r \<le> rn (CHR ''Z'')) \<or>
    r = rn (CHR ''_'')"

definition lexKeyValueCommandArgs :: "lexer \<Rightarrow> next_state" where
  "lexKeyValueCommandArgs l0 =
    (let l1 = skipSpace l0;
         l = (if l_pos l1 > l_start l1 then emit itemWS l1 else l1)
     in if peek l = rn (CHR ''-'') then
          (Some LexKeyValueCommandArgs, emit itemAtom (next_while (\<lambda>r. \<not> key_boundary r) l))
        else if peek l = eof \<or> isEndOfLine (peek l) \<or> peek l = rn (CHR ''#'') then
          (Some LexRecipeCommandArgs, l)
        else if \<not> key_first (peek l) then
          (let l2 = next_while (\<lambda>r. \<not> key_boundary r) l
           in errorf (InvalidKeyDefinition (l_keyValueCmdType l2)
                (slice (l_input l2) (l_start l2) (l_pos l2))) l2)
        else
          let l2 = next_while isAlphaNumeric (consume l)
          in if \<not> key_boundary (peek l2) then
               (let l3 = next_while (\<lambda>r. \<not> key_boundary r) l2
                in errorf (InvalidKeyDefinition (l_keyValueCmdType l3)
                     (slice (l_input l3) (l_start l3) (l_pos l3))) l3)
             else
               let l3 = emit itemAtom l2;
                   l4 = (if peek l3 = rn (CHR ''='') then emit itemAtom (consume l3) else l3)
               in (Some LexRecipeCommandArgs, l4))"

section \<open>Running the scanner\<close>

primrec run_state :: "stateFn \<Rightarrow> lexer \<Rightarrow> next_state" where
  "run_state LexDefault l = lexDefault l"
| "run_state LexSpace l = lexSpace l"
| "run_state LexNL l = lexNL l"
| "run_state LexIdentifier l = lexIdentifier l"
| "run_state LexRecipe l = lexRecipe l"
| "run_state LexCommandKeyword l = lexCommandKeyword l"
| "run_state LexRecipeCommandArgs l = lexRecipeCommandArgs l"
| "run_state LexRecipeSpaceArgs l = lexRecipeSpaceArgs l"
| "run_state LexKeyValueCommandArgs l = lexKeyValueCommandArgs l"
| "run_state LexGlobalCommandArgs l = lexGlobalCommandArgs l"
| "run_state LexGlobalSpaceArgs l = lexGlobalSpaceArgs l"

text \<open>The body of the loop of \<open>nextItem\<close> and its condition.\<close>

definition lex_step :: "lexer \<Rightarrow> lexer" where
  "lex_step l =
    (case l_state l of
       None \<Rightarrow> l
     | Some st \<Rightarrow>
       (let (st', l') = run_state st (l\<lparr>l_itemsStart := 0, l_itemsEnd := 0\<rparr>)
        in l'\<lparr>l_state := st'\<rparr>))"

definition lex_waiting :: "lexer \<Rightarrow> bool" where
  "lex_waiting l \<longleftrightarrow> l_itemsStart l = l_itemsEnd l \<and> l_state l \<noteq> None"

text \<open>\<open>nextItem\<close>; \<open>None\<close> stands for a loop that does not end.\<close>

definition nextItem :: "lexer \<Rightarrow> (item \<times> lexer) option" where
  "nextItem l0 =
    (case while_option lex_waiting lex_step l0 of
       None \<Rightarrow> None
     | Some l \<Rightarrow>
       if l_itemsStart l < l_itemsEnd l then
         let itm = l_itemsArr l ! l_itemsStart l in
         Some (itm, l\<lparr>l_itemsStart := l_itemsStart l + 1, l_lastPos := it_pos itm\<rparr>)
       else
         Some (\<lparr>it_Val = [], it_Typ = itemEOF, it_pos = l_pos l, it_Line = l_line l,
                it_Col = l_col l, it_Err = None\<rparr>, l))"

end
