(* ===== verification/Earthfile_Text.thy ===== *)
theory Earthfile_Text
  imports Lexer_Cursor
begin

text \<open>
  The functions of \<^verbatim>\<open>internal/earthfile/parse.go\<close> that work on the text of comments and
  arguments: documentation comments, the exec form \<^verbatim>\<open>["a", "b"]\<close>, \<open>key=value\<close> arguments and
  line continuations. A loop over the index of a string is a recursion over the rest of
  the string from that index.
\<close>

section \<open>Documentation comments\<close>

definition doc_line :: "string \<Rightarrow> string" where
  "doc_line c = TrimPrefix (TrimSpace c) ''#''"

definition computeDocs :: "string list \<Rightarrow> string" where
  "computeDocs comments =
    (if comments = [] then []
     else let leadingTrim = takeWhile space_byte (doc_line (hd comments)) in
       concat (map (\<lambda>c. TrimPrefix (doc_line c) leadingTrim @ [ch_nl]) comments))"

section \<open>The exec form\<close>

abbreviation ch_bs :: char where "ch_bs \<equiv> CHR 0x08"
abbreviation ch_ff :: char where "ch_ff \<equiv> CHR 0x0C"

text \<open>The bytes that \<open>decodeJSONEscape\<close> appends to the builder.\<close>

definition decodeJSONEscape :: "char \<Rightarrow> string" where
  "decodeJSONEscape escaped =
    (if escaped = ch_dquote \<or> escaped = ch_bslash \<or> escaped = CHR ''/'' then [escaped]
     else if escaped = CHR ''b'' then [ch_bs]
     else if escaped = CHR ''f'' then [ch_ff]
     else if escaped = CHR ''n'' then [ch_nl]
     else if escaped = CHR ''r'' then [ch_cr]
     else if escaped = CHR ''t'' then [ch_tab]
     else [ch_bslash, escaped])"

definition execFormCharSeq :: "string list \<Rightarrow> string" where
  "execFormCharSeq args =
    concat (map (\<lambda>i. let arg = args ! i;
                        start = (if i = 0 then 1 else 0);
                        stop = (if i = length args - 1 then length arg - 1 else length arg)
                    in slice arg start stop) [0..<length args])"

fun execFormLoop :: "string \<Rightarrow> string list \<Rightarrow> string \<Rightarrow> bool \<Rightarrow> bool \<Rightarrow> string list option" where
  "execFormLoop [] execArgs current inString escaped =
    (if inString \<or> escaped then None else Some execArgs)"
| "execFormLoop (c # cs) execArgs current inString escaped =
    (if escaped then execFormLoop cs execArgs (current @ decodeJSONEscape c) inString False
     else if inString then
       if c = ch_dquote then execFormLoop cs (execArgs @ [current]) [] False False
       else if c = ch_bslash then execFormLoop cs execArgs current inString True
       else execFormLoop cs execArgs (current @ [c]) inString False
     else if c = ch_dquote then execFormLoop cs execArgs current True False
     else if c \<in> {CHR '','', ch_space, ch_tab, ch_cr, ch_nl} then execFormLoop cs execArgs current inString False
     else None)"

definition parseExecForm :: "string list \<Rightarrow> string list option" where
  "parseExecForm args =
    (if args = [] \<or> \<not> prefix ''['' (args ! 0) \<or> \<not> suffix '']'' (args ! (length args - 1)) then None
     else execFormLoop (execFormCharSeq args) [] [] False False)"

section \<open>Key and value\<close>

text \<open>\<open>kvSeparatorLoop s i inSingle inDouble\<close> is the loop from index \<open>i\<close>, where \<open>s\<close> is the
  rest of the string.\<close>

fun kvSeparatorLoop :: "string \<Rightarrow> nat \<Rightarrow> bool \<Rightarrow> bool \<Rightarrow> int" where
  "kvSeparatorLoop [] i inSingle inDouble = - 1"
| "kvSeparatorLoop (c # cs) i inSingle inDouble =
    (if c = ch_squote \<and> \<not> inDouble then kvSeparatorLoop cs (i + 1) (\<not> inSingle) inDouble
     else if c = ch_dquote \<and> \<not> inSingle then kvSeparatorLoop cs (i + 1) inSingle (\<not> inDouble)
     else if c = CHR ''='' \<and> \<not> inSingle \<and> \<not> inDouble then int i
     else kvSeparatorLoop cs (i + 1) inSingle inDouble)"

definition findKeyValueSeparator :: "string \<Rightarrow> int" where
  "findKeyValueSeparator s = kvSeparatorLoop s 0 False False"

definition splitKeyValueArg :: "string \<Rightarrow> string list" where
  "splitKeyValueArg s =
    (let idx = findKeyValueSeparator s in
     if idx = - 1 then if s = [] then [] else [s]
     else let i = nat idx in
       (if i > 0 then [take i s] else []) @ [''=''] @
       (if i + 1 < length s then [drop (i + 1) s] else []))"

abbreviation skipWS :: "item list \<Rightarrow> item list" where
  "skipWS items \<equiv> dropWhile (\<lambda>it. it_Typ it = itemWS) items"

text \<open>The loop that reads the leading flags: the flags and the items after them.\<close>

function readFlags :: "item list \<Rightarrow> string list \<times> item list" where
  "readFlags items =
    (case items of
       [] \<Rightarrow> ([], [])
     | it # its \<Rightarrow>
         if it_Typ it = itemAtom \<and> prefix ''-'' (it_Val it)
         then let (fs, r) = readFlags (skipWS its) in (it_Val it # fs, r)
         else ([], it # its))"
  by pat_completeness auto
termination
  by (relation "measure length") (auto simp: less_Suc_eq_le length_dropWhile_le)

declare readFlags.simps [simp del]

text \<open>The end of \<open>parseKeyValueItems\<close>, once the key is known: the arguments so far, whether
  an equals sign was seen, the text after it in the key token, and the items that follow.\<close>

definition keyValueTail :: "string list \<Rightarrow> bool \<Rightarrow> string \<Rightarrow> item list \<Rightarrow> string list" where
  "keyValueTail args hasEquals valStart items =
    (let v = (if items = [] then valStart
              else if valStart = [] \<and> length items = 1 then it_Val (hd items)
              else valStart @ concat (map it_Val items));
         val = TrimRight v [ch_space, ch_tab, ch_cr, ch_nl]
     in if val \<noteq> [] then args @ (if \<not> hasEquals then [''=''] else []) @ [val]
        else if hasEquals then args @ [[]] else args)"

definition parseKeyValueItems :: "item list \<Rightarrow> string list" where
  "parseKeyValueItems items =
    (let (args, r) = readFlags (skipWS items) in
     case r of
       [] \<Rightarrow> args @ map it_Val (filter (\<lambda>it. it_Typ it = itemAtom) items)
     | it # its \<Rightarrow>
         if it_Typ it \<noteq> itemAtom then args @ map it_Val (filter (\<lambda>it. it_Typ it = itemAtom) items)
         else
           let keyToken = it_Val it; eqIdx = findKeyValueSeparator keyToken in
           if eqIdx \<noteq> - 1 then
             let i = nat eqIdx in
             keyValueTail (args @ [take i keyToken, ''='']) True
               (if i + 1 < length keyToken then drop (i + 1) keyToken else []) its
           else
             case skipWS its of
               [] \<Rightarrow> keyValueTail (args @ [keyToken]) False [] []
             | it2 # its2 \<Rightarrow>
                 if it_Typ it2 = itemAtom \<and> it_Val it2 = ''=''
                 then keyValueTail (args @ [keyToken, ''='']) True [] (skipWS its2)
                 else keyValueTail (args @ [keyToken]) False [] (it2 # its2))"

section \<open>Line continuations\<close>

text \<open>\<open>(#[^\n\r]*)?\<close>, then a newline.\<close>

definition skipHash :: "string \<Rightarrow> string" where
  "skipHash r = (if r \<noteq> [] \<and> hd r = CHR ''#'' then dropWhile (\<lambda>c. \<not> eol_byte c) (tl r) else r)"

definition eatNewline :: "string \<Rightarrow> string option" where
  "eatNewline r =
    (case r of
       [] \<Rightarrow> None
     | c # t \<Rightarrow>
         if c = ch_nl then Some t
         else if c = ch_cr \<and> t \<noteq> [] \<and> hd t = ch_nl then Some (tl t)
         else None)"

lemma eatNewline_length: "eatNewline r = Some t \<Longrightarrow> length t < length r"
  by (cases r) (auto simp: eatNewline_def split: if_splits)

lemma skipHash_length: "length (skipHash r) \<le> length r"
  using length_dropWhile_le [of _ "tl r"] by (cases r) (auto simp: skipHash_def le_Suc_eq)

function continuationLines :: "string \<Rightarrow> string" where
  "continuationLines r =
    (case eatNewline (skipHash r) of
       None \<Rightarrow> r
     | Some t \<Rightarrow> continuationLines (dropWhile space_byte t))"
  by pat_completeness auto
termination
  by (relation "measure length")
    (auto dest!: eatNewline_length intro: le_less_trans [OF length_dropWhile_le] less_le_trans [OF _ skipHash_length])

declare continuationLines.simps [simp del]

definition matchLineContinuationFrom :: "string \<Rightarrow> nat \<Rightarrow> nat" where
  "matchLineContinuationFrom s i =
    (if i \<ge> length s \<or> s ! i \<noteq> ch_bslash then 0
     else case eatNewline (skipHash (dropWhile space_byte (drop (i + 1) s))) of
       None \<Rightarrow> 0
     | Some t \<Rightarrow> length s - length (continuationLines (dropWhile space_byte t)) - i)"

text \<open>The loop of \<open>replaceEscape\<close> from index \<open>i\<close>; the result is what the rest of the loop
  writes.\<close>

function replaceEscapeLoop :: "string \<Rightarrow> nat \<Rightarrow> bool \<Rightarrow> bool \<Rightarrow> string" where
  "replaceEscapeLoop str i inDouble inSingle =
    (if i < length str then
       let c = str ! i in
       if c = ch_bslash then
         let n = matchLineContinuationFrom str i in
         if n > 0 then replaceEscapeLoop str (i + n) inDouble inSingle
         else if i + 1 < length str
           then c # str ! (i + 1) # replaceEscapeLoop str (i + 2) inDouble inSingle
         else [c]
       else if c = ch_dquote \<and> \<not> inSingle
         then c # replaceEscapeLoop str (i + 1) (\<not> inDouble) inSingle
       else if c = ch_squote \<and> \<not> inDouble
         then c # replaceEscapeLoop str (i + 1) inDouble (\<not> inSingle)
       else c # replaceEscapeLoop str (i + 1) inDouble inSingle
     else [])"
  by pat_completeness auto
termination
  by (relation "measure (\<lambda>(str, i, _, _). length str - i)") auto

declare replaceEscapeLoop.simps [simp del]

definition replaceEscape :: "string \<Rightarrow> string" where
  "replaceEscape str =
    (if \<not> ContainsAny str [ch_bslash, ch_squote, ch_dquote] then str
     else replaceEscapeLoop str 0 False False)"

section \<open>The exec form round trip\<close>

text \<open>The text of an argument list in exec form: every argument in double quotes, with the
  bytes that JSON does not allow in a string escaped.\<close>

definition encodeJSONByte :: "char \<Rightarrow> string" where
  "encodeJSONByte c =
    (if c = ch_dquote \<or> c = ch_bslash then [ch_bslash, c]
     else if c = ch_bs then [ch_bslash, CHR ''b'']
     else if c = ch_ff then [ch_bslash, CHR ''f'']
     else if c = ch_nl then [ch_bslash, CHR ''n'']
     else if c = ch_cr then [ch_bslash, CHR ''r'']
     else if c = ch_tab then [ch_bslash, CHR ''t'']
     else [c])"

definition encodeJSONString :: "string \<Rightarrow> string" where
  "encodeJSONString a = [ch_dquote] @ concat (map encodeJSONByte a) @ [ch_dquote]"

definition printExecForm :: "string list \<Rightarrow> string" where
  "printExecForm args = ''['' @ Join (map encodeJSONString args) '', '' @ '']''"

lemma execFormLoop_byte:
  "execFormLoop (encodeJSONByte c @ cs) ea cur True False = execFormLoop cs ea (cur @ [c]) True False"
  by (simp add: encodeJSONByte_def decodeJSONEscape_def)

lemma execFormLoop_bytes:
  "execFormLoop (concat (map encodeJSONByte a) @ cs) ea cur True False =
     execFormLoop cs ea (cur @ a) True False"
  by (induction a arbitrary: cur) (simp_all add: execFormLoop_byte)

lemma execFormLoop_string:
  "execFormLoop (encodeJSONString a @ cs) ea [] False False = execFormLoop cs (ea @ [a]) [] False False"
  by (simp add: encodeJSONString_def execFormLoop_bytes)

lemma execFormLoop_args:
  "execFormLoop (Join (map encodeJSONString args) '', '') ea [] False False = Some (ea @ args)"
proof (induction args arbitrary: ea rule: induct_list012)
  case 1
  show ?case by simp
next
  case (2 a)
  show ?case using execFormLoop_string [of a "[]" ea] by simp
next
  case (3 a b args)
  then show ?case by (simp add: execFormLoop_string)
qed

lemma execFormCharSeq_single: "execFormCharSeq [c # s @ [d]] = s"
  by (simp add: execFormCharSeq_def slice_def)

text \<open>
  C32. The exec form round-trips: an argument list printed as a JSON array of strings is
  read back as itself, whatever bytes the arguments hold.
\<close>

theorem parseExecForm_print: "parseExecForm [printExecForm args] = Some args"
  using execFormLoop_args [of args "[]"]
  by (simp add: parseExecForm_def printExecForm_def execFormCharSeq_single suffix_def)

text \<open>The bytes of the sequence are those of the concatenation without the first and the
  last one, wherever the words are cut.\<close>

lemma slice_whole [simp]: "slice xs 0 (length xs) = xs"
  by (simp add: slice_def)

lemma concat_map_nth: "concat (map (\<lambda>i. xs ! i) [0..<length xs]) = concat xs"
  by (simp add: map_nth)

lemma execFormCharSeq_first_last:
  assumes "a \<noteq> []" "z \<noteq> []"
  shows "execFormCharSeq (a # ws @ [z]) = tl a @ concat ws @ butlast z"
proof -
  let ?args = "a # ws @ [z]"
  define f where "f = (\<lambda>i. let arg = ?args ! i; start = (if i = 0 then 1 else 0);
      stop = (if i = length ?args - 1 then length arg - 1 else length arg) in slice arg start stop)"
  have "[0..<Suc (length ws)] = 0 # map Suc [0..<length ws]"
    by (subst upt_conv_Cons) (simp_all add: map_Suc_upt del: upt_Suc)
  then have "[0..<length ?args] = 0 # map Suc [0..<length ws] @ [Suc (length ws)]" by simp
  then have "execFormCharSeq ?args = f 0 @ concat (map (f \<circ> Suc) [0..<length ws]) @ f (Suc (length ws))"
    by (simp only: execFormCharSeq_def f_def [symmetric] list.map map_append map_map concat.simps
        concat_append append_Nil2)
  moreover have "map (f \<circ> Suc) [0..<length ws] = ws"
    by (rule nth_equalityI) (simp_all add: f_def nth_append Let_def)
  moreover have "f 0 = tl a" "f (Suc (length ws)) = butlast z"
    by (simp_all add: f_def slice_def drop_Suc butlast_conv_take Let_def)
  ultimately show ?thesis by simp
qed

lemma execFormCharSeq_concat:
  assumes "hd args \<noteq> []" "last args \<noteq> []" "2 \<le> length (concat args)" "args \<noteq> []"
  shows "execFormCharSeq args = execFormCharSeq [concat args]"
proof -
  have one: "execFormCharSeq [x] = butlast (tl x)" for x :: string
    by (simp add: execFormCharSeq_def slice_def butlast_conv_take drop_take drop_Suc tl_take)
  show ?thesis
  proof (cases "length args = 1")
    case True
    then show ?thesis by (auto simp: length_Suc_conv)
  next
    case False
    then obtain a ws z where args: "args = a # ws @ [z]"
      using assms(4) by (metis One_nat_def append_butlast_last_id length_Cons list.exhaust list.size(3))
    then show ?thesis
      using assms execFormCharSeq_first_last [of a z ws] by (simp add: one butlast_append)
  qed
qed

text \<open>
  Where the scanner cut the exec form into words does not matter: for words of which
  the first and the last are not empty, the result is that of their concatenation.
\<close>

theorem parseExecForm_concat:
  assumes "args \<noteq> []" "hd args \<noteq> []" "last args \<noteq> []"
  shows "parseExecForm args = parseExecForm [concat args]"
proof -
  obtain c t as where a: "args = (c # t) # as" using assms(1,2) by (cases args; cases "hd args") auto
  obtain bs y d where z: "args = bs @ [y @ [d]]" using assms(1,3) by (metis append_butlast_last_id)
  have p: "prefix ''['' (args ! 0) \<longleftrightarrow> c = CHR ''[''" "prefix ''['' (concat args) \<longleftrightarrow> c = CHR ''[''"
    by (auto simp: a)
  have s: "suffix '']'' (args ! (length args - 1)) \<longleftrightarrow> d = CHR '']''" "suffix '']'' (concat args) \<longleftrightarrow> d = CHR '']''"
    by (auto simp: z suffix_def)
  show ?thesis
  proof (cases "c = CHR ''['' \<and> d = CHR '']''")
    case True
    have "length (concat args) \<noteq> 1"
    proof
      assume "length (concat args) = 1"
      moreover have "hd (concat args) = c" "last (concat args) = d" by (simp add: a, simp add: z)
      ultimately show False using True by (cases "concat args") auto
    qed
    moreover have "length (concat args) \<ge> 1" by (simp add: a)
    ultimately have "2 \<le> length (concat args)" by simp
    then show ?thesis using execFormCharSeq_concat [OF assms(2,3) _ assms(1)] p s assms(1)
      by (simp add: parseExecForm_def)
  next
    case False
    then show ?thesis using p s assms(1) by (auto simp: parseExecForm_def)
  qed
qed

theorem parseExecForm_concat_witness:
  "parseExecForm [''['' @ [ch_dquote] @ ''a'' @ [ch_dquote] @ '','', [ch_dquote, CHR ''b'', ch_dquote] @ '']''] =
     parseExecForm [''['' @ [ch_dquote] @ ''a'' @ [ch_dquote] @ '','' @ [ch_dquote, CHR ''b'', ch_dquote] @ '']'']"
  using parseExecForm_concat [of "[''['' @ [ch_dquote] @ ''a'' @ [ch_dquote] @ '','', [ch_dquote, CHR ''b'', ch_dquote] @ '']'']"]
  by simp

section \<open>Line continuations as a rewriting of the text\<close>

text \<open>The reference: the text after a backslash either starts a continuation, and then
  \<open>afterContinuation\<close> is what follows it, or the backslash and the next byte are kept.
  Quotes play no part.\<close>

definition afterContinuation :: "string \<Rightarrow> string option" where
  "afterContinuation r =
    map_option (\<lambda>t. continuationLines (dropWhile space_byte t))
      (eatNewline (skipHash (dropWhile space_byte r)))"

lemma suffix_skipHash: "suffix (skipHash r) r"
  by (cases r) (auto simp: skipHash_def intro: suffix_ConsI suffix_dropWhile)

lemma suffix_eatNewline: "eatNewline r = Some t \<Longrightarrow> suffix t r"
  by (cases r; cases "tl r") (auto simp: eatNewline_def suffix_ConsI split: if_splits)

lemma suffix_continuationLines: "suffix (continuationLines r) r"
proof (induction r rule: continuationLines.induct)
  case (1 r)
  show ?case
  proof (cases "eatNewline (skipHash r)")
    case None
    then show ?thesis by (simp add: continuationLines.simps [of r])
  next
    case (Some t)
    then have "suffix (continuationLines (dropWhile space_byte t)) t" "suffix t r"
      using 1 suffix_eatNewline [OF Some] suffix_skipHash suffix_dropWhile suffix_order.trans by blast+
    then show ?thesis using Some suffix_order.trans by (subst continuationLines.simps) auto
  qed
qed

lemma suffix_afterContinuation:
  assumes "afterContinuation r = Some u"
  shows "suffix u r"
proof -
  obtain t where t: "eatNewline (skipHash (dropWhile space_byte r)) = Some t"
    and u: "u = continuationLines (dropWhile space_byte t)"
    using assms by (auto simp: afterContinuation_def)
  have "suffix u t" unfolding u
    by (rule suffix_order.trans [OF suffix_continuationLines suffix_dropWhile])
  also have "suffix t (skipHash (dropWhile space_byte r))" by (rule suffix_eatNewline [OF t])
  also have "suffix (skipHash (dropWhile space_byte r)) r"
    by (rule suffix_order.trans [OF suffix_skipHash suffix_dropWhile])
  finally show ?thesis .
qed

function joinLines :: "string \<Rightarrow> string" where
  "joinLines r =
    (case r of
       [] \<Rightarrow> []
     | c # t \<Rightarrow>
         if c \<noteq> ch_bslash then c # joinLines t
         else case afterContinuation t of
           Some u \<Rightarrow> joinLines u
         | None \<Rightarrow> (case t of [] \<Rightarrow> [c] | d # u \<Rightarrow> c # d # joinLines u))"
  by pat_completeness auto
termination
  by (relation "measure length")
    (auto simp: less_Suc_eq_le dest!: suffix_afterContinuation suffix_length_le)

declare joinLines.simps [simp del]

lemma joinLines_simps [simp]:
  "joinLines [] = []"
  "c \<noteq> ch_bslash \<Longrightarrow> joinLines (c # t) = c # joinLines t"
  "afterContinuation t = Some u \<Longrightarrow> joinLines (ch_bslash # t) = joinLines u"
  "afterContinuation [] = None \<Longrightarrow> joinLines [ch_bslash] = [ch_bslash]"
  "afterContinuation (d # u) = None \<Longrightarrow> joinLines (ch_bslash # d # u) = ch_bslash # d # joinLines u"
  by (simp_all add: joinLines.simps)

lemma match_afterContinuation:
  assumes "i < length s" "s ! i = ch_bslash"
  shows "(case afterContinuation (drop (i + 1) s) of
     None \<Rightarrow> matchLineContinuationFrom s i = 0
   | Some u \<Rightarrow> matchLineContinuationFrom s i > 0 \<and> drop (i + matchLineContinuationFrom s i) s = u)"
proof (cases "eatNewline (skipHash (dropWhile space_byte (drop (i + 1) s)))")
  case None
  then show ?thesis using assms by (simp add: afterContinuation_def matchLineContinuationFrom_def)
next
  case (Some t)
  let ?u = "continuationLines (dropWhile space_byte t)"
  have a: "afterContinuation (drop (i + 1) s) = Some ?u" using Some by (simp add: afterContinuation_def)
  then obtain v where v: "drop (i + 1) s = v @ ?u"
    using suffix_afterContinuation by (auto simp: suffix_def)
  have m: "matchLineContinuationFrom s i = length s - length ?u - i"
    using assms Some by (simp add: matchLineContinuationFrom_def)
  have "length s - (i + 1) = length v + length ?u" using v by (metis length_append length_drop)
  with m assms(1) have n: "matchLineContinuationFrom s i = length v + 1" by simp
  have "drop (i + (length v + 1)) s = drop (length v) (drop (i + 1) s)"
    by (simp add: add.commute add.left_commute)
  also have "\<dots> = ?u" unfolding v by simp
  finally show ?thesis using a n by simp
qed

lemma replaceEscapeLoop_joinLines: "replaceEscapeLoop str i inDouble inSingle = joinLines (drop i str)"
proof (induction str i inDouble inSingle rule: replaceEscapeLoop.induct)
  case (1 str i d q)
  show ?case
  proof (cases "i < length str")
    case False
    then show ?thesis by (simp add: replaceEscapeLoop.simps)
  next
    case True
    note dr = drop_nth_Cons [OF True]
    note m = match_afterContinuation [OF True]
    show ?thesis
    proof (cases "str ! i = ch_bslash")
      case False
      then show ?thesis using True 1 by (subst replaceEscapeLoop.simps) (simp add: dr Let_def)
    next
      case bs: True
      show ?thesis
      proof (cases "afterContinuation (drop (Suc i) str)")
        case (Some u)
        then show ?thesis using True bs m "1.IH"(1) by (subst replaceEscapeLoop.simps) (simp add: dr Let_def)
      next
        case None
        show ?thesis
        proof (cases "Suc i < length str")
          case last: True
          then show ?thesis using True bs m None "1.IH"(2) drop_nth_Cons [OF last]
            by (subst replaceEscapeLoop.simps) (simp add: dr Let_def)
        next
          case False
          then show ?thesis using True bs m None by (subst replaceEscapeLoop.simps) (simp add: dr Let_def)
        qed
      qed
    qed
  qed
qed

lemma joinLines_plain: "ch_bslash \<notin> set a \<Longrightarrow> joinLines (a @ r) = a @ joinLines r"
  by (induction a) auto

lemma replaceEscape_eq: "replaceEscape str = joinLines str"
proof (cases "ContainsAny str [ch_bslash, ch_squote, ch_dquote]")
  case True
  then show ?thesis by (simp add: replaceEscape_def replaceEscapeLoop_joinLines)
next
  case False
  then have "ch_bslash \<notin> set str" by (auto simp: ContainsAny_iff)
  then show ?thesis using False joinLines_plain [of str "[]"] by (simp add: replaceEscape_def)
qed


lemma subseq_joinLines: "subseq (joinLines r) r"
proof (induction r rule: joinLines.induct)
  case (1 r)
  consider "r = []" | c t where "r = c # t" "c \<noteq> ch_bslash"
    | t u where "r = ch_bslash # t" "afterContinuation t = Some u"
    | "r = [ch_bslash]" "afterContinuation [] = None"
    | d u where "r = ch_bslash # d # u" "afterContinuation (d # u) = None"
    by (metis list.exhaust option.exhaust)
  then show ?case
  proof cases
    case (3 t u)
    have "subseq u (ch_bslash # t)"
      using suffix_imp_subseq [OF suffix_afterContinuation [OF 3(2)]] by (rule list_emb_Cons)
    moreover have "subseq (joinLines u) u" using "1.IH"(3) [OF 3(1)] 3(2) by simp
    ultimately show ?thesis unfolding 3(1) joinLines_simps(3) [OF 3(2)] using subseq_order.trans by blast
  next
    case (5 d u)
    then show ?thesis using "1.IH"(2) [OF 5(1)] by simp
  qed (use 1 in simp_all)
qed

text \<open>Only deletions: the result is a subsequence of the argument.\<close>

lemma replaceEscape_subseq: "subseq (replaceEscape str) str"
  by (simp add: replaceEscape_eq subseq_joinLines)

lemma afterContinuation_newline:
  assumes "set sp \<subseteq> {ch_space, ch_tab}" "set ind \<subseteq> {ch_space, ch_tab}"
    and "r = [] \<or> hd r \<notin> {ch_space, ch_tab, CHR ''#'', ch_nl, ch_cr}"
  shows "afterContinuation (sp @ ch_nl # ind @ r) = Some r"
proof -
  have blanks: "dropWhile space_byte (xs @ ys) = dropWhile space_byte ys"
    if "set xs \<subseteq> {ch_space, ch_tab}" for xs ys
    using that by (induction xs) (auto simp: space_byte_def)
  have "dropWhile space_byte r = r" "eatNewline (skipHash r) = None"
    using assms(3) by (cases r; auto simp: space_byte_def eatNewline_def skipHash_def)+
  then show ?thesis
    using assms(1,2)
    by (simp add: afterContinuation_def blanks space_byte_def skipHash_def eatNewline_def
        continuationLines.simps [of r])
qed

text \<open>
  A backslash at the end of a line joins the next line: the backslash, the blanks after
  it, the newline and the indentation of the next line disappear, inside quotes as
  outside of them.
\<close>

theorem replaceEscape_continuation:
  assumes "ch_bslash \<notin> set a" "set sp \<subseteq> {ch_space, ch_tab}" "set ind \<subseteq> {ch_space, ch_tab}"
    and "r = [] \<or> hd r \<notin> {ch_space, ch_tab, CHR ''#'', ch_nl, ch_cr}"
  shows "replaceEscape (a @ [ch_bslash] @ sp @ [ch_nl] @ ind @ r) = a @ replaceEscape r"
  using assms(1) afterContinuation_newline [OF assms(2-4)]
  by (simp add: replaceEscape_eq joinLines_plain)

theorem replaceEscape_continuation_witness:
  "replaceEscape (''echo '' @ [ch_dquote] @ ''a'' @ [ch_bslash] @ '' '' @ [ch_nl] @ ''  '' @ ''b'' @ [ch_dquote]) =
     ''echo '' @ [ch_dquote] @ ''a'' @ replaceEscape (''b'' @ [ch_dquote])"
  using replaceEscape_continuation [of "''echo '' @ [ch_dquote] @ ''a''" "'' ''" "''  ''" "''b'' @ [ch_dquote]"]
  by simp

section \<open>Key and value arguments\<close>

text \<open>The quotes open after reading a prefix: single, double.\<close>

fun quote_step :: "bool \<times> bool \<Rightarrow> char \<Rightarrow> bool \<times> bool" where
  "quote_step (inSingle, inDouble) c =
    (if c = ch_squote \<and> \<not> inDouble then (\<not> inSingle, inDouble)
     else if c = ch_dquote \<and> \<not> inSingle then (inSingle, \<not> inDouble)
     else (inSingle, inDouble))"

definition first_separator :: "bool \<times> bool \<Rightarrow> string \<Rightarrow> nat option" where
  "first_separator q s =
    find (\<lambda>i. s ! i = CHR ''='' \<and> foldl quote_step q (take i s) = (False, False)) [0..<length s]"

lemma find_map_Suc: "find P (map Suc xs) = map_option Suc (find (P \<circ> Suc) xs)"
  by (induction xs) auto

lemma upt_Suc_map: "[0..<Suc n] = 0 # map Suc [0..<n]"
  by (subst upt_conv_Cons) (simp_all add: map_Suc_upt del: upt_Suc)

lemma first_separator_Cons:
  "first_separator q (c # s) =
    (if c = CHR ''='' \<and> q = (False, False) then Some 0
     else map_option Suc (first_separator (quote_step q c) s))"
  by (simp add: first_separator_def upt_Suc_map find_map_Suc comp_def del: upt_Suc)

lemma kvSeparatorLoop_spec:
  "kvSeparatorLoop s k inS inD = (case first_separator (inS, inD) s of None \<Rightarrow> - 1 | Some i \<Rightarrow> int (k + i))"
proof (induction s k inS inD rule: kvSeparatorLoop.induct)
  case (1 k inS inD)
  then show ?case by (simp add: first_separator_def)
next
  case (2 c cs k inS inD)
  then show ?case by (auto simp: first_separator_Cons split: option.split)
qed

lemma findKeyValueSeparator_first:
  "findKeyValueSeparator s = (case first_separator (False, False) s of None \<Rightarrow> - 1 | Some i \<Rightarrow> int i)"
  by (simp add: findKeyValueSeparator_def kvSeparatorLoop_spec split: option.split)

lemma findKeyValueSeparator_cases:
  obtains "findKeyValueSeparator s = - 1"
  | a b where "s = a @ CHR ''='' # b" "findKeyValueSeparator s = int (length a)"
proof (cases "first_separator (False, False) s")
  case None
  then show thesis using that(1) by (simp add: findKeyValueSeparator_first)
next
  case (Some i)
  then have i: "i < length s" "s ! i = CHR ''=''"
    by (auto simp: first_separator_def find_Some_iff)
  then have "s = take i s @ CHR ''='' # drop (Suc i) s" using id_take_nth_drop by metis
  then show thesis using that(2) [of "take i s"] Some i(1) by (simp add: findKeyValueSeparator_first)
qed

text \<open>
  The separator of \<open>key=value\<close> is the first equals sign outside single and double
  quotes, and \<open>-1\<close> when there is none.
\<close>

theorem findKeyValueSeparator_spec:
  "findKeyValueSeparator s =
    (case find (\<lambda>i. s ! i = CHR ''='' \<and> foldl quote_step (False, False) (take i s) = (False, False))
        [0..<length s] of
       None \<Rightarrow> - 1
     | Some i \<Rightarrow> int i)"
  unfolding findKeyValueSeparator_first first_separator_def ..

text \<open>
  Splitting a LABEL argument at its separator loses nothing: the parts concatenate to
  the argument, and no part is empty.
\<close>

theorem splitKeyValueArg_lossless: "concat (splitKeyValueArg s) = s \<and> [] \<notin> set (splitKeyValueArg s)"
  by (rule findKeyValueSeparator_cases [of s]) (auto simp: splitKeyValueArg_def Let_def)

lemma skipWS_append: "set ws \<subseteq> {it. it_Typ it = itemWS} \<Longrightarrow> skipWS (ws @ its) = skipWS its"
  by (induction ws) auto

text \<open>The leading flags of an argument list, each followed by white space.\<close>

abbreviation flag_items :: "item \<Rightarrow> item list \<Rightarrow> item list" where
  "flag_items w fs \<equiv> concat (map (\<lambda>f. [f, w]) fs)"

abbreviation is_flag :: "item \<Rightarrow> bool" where
  "is_flag f \<equiv> it_Typ f = itemAtom \<and> prefix ''-'' (it_Val f)"

lemma readFlags_stop: "it_Typ k \<noteq> itemWS \<Longrightarrow> \<not> is_flag k \<Longrightarrow> readFlags (k # its) = ([], k # its)"
  by (auto simp: readFlags.simps)

lemma readFlags_flags:
  assumes "set fs \<subseteq> Collect is_flag" "it_Typ w = itemWS" "its = [] \<or> it_Typ (hd its) \<noteq> itemWS \<and> \<not> is_flag (hd its)"
  shows "readFlags (skipWS (flag_items w fs @ its)) = (map it_Val fs, its)"
  using assms
proof (induction fs)
  case Nil
  then show ?case by (cases its) (auto simp: readFlags.simps [of "[]"] readFlags_stop)
next
  case (Cons f fs)
  then show ?case by (simp add: readFlags.simps [of "f # _"])
qed

lemma keyValueTail_equals:
  "keyValueTail args True valStart items =
     args @ [TrimRight (valStart @ concat (map it_Val items)) [ch_space, ch_tab, ch_cr, ch_nl]]"
  by (cases items) (auto simp: keyValueTail_def Let_def)

lemma keyValueItems_joined:
  assumes "set fs \<subseteq> Collect is_flag" "it_Typ w = itemWS"
    and "it_Typ k = itemAtom" "\<not> prefix ''-'' (it_Val k)"
    and "findKeyValueSeparator (it_Val k) = int i" "i < length (it_Val k)"
  shows "parseKeyValueItems (flag_items w fs @ k # its) =
    map it_Val fs @ [take i (it_Val k), ''='',
      TrimRight (drop (i + 1) (it_Val k) @ concat (map it_Val its)) [ch_space, ch_tab, ch_cr, ch_nl]]"
proof -
  have "readFlags (skipWS (flag_items w fs @ k # its)) = (map it_Val fs, k # its)"
    using assms(1-4) by (intro readFlags_flags) auto
  then show ?thesis using assms(3,5,6)
    by (simp add: parseKeyValueItems_def keyValueTail_equals Let_def)
qed

lemma keyValueItems_spaced:
  assumes "set fs \<subseteq> Collect is_flag" "it_Typ w = itemWS"
    and "it_Typ k = itemAtom" "\<not> prefix ''-'' (it_Val k)" "findKeyValueSeparator (it_Val k) = - 1"
    and "set w1 \<subseteq> {it. it_Typ it = itemWS}" "it_Typ e = itemAtom" "it_Val e = ''=''"
    and "set w2 \<subseteq> {it. it_Typ it = itemWS}" "its = [] \<or> it_Typ (hd its) \<noteq> itemWS"
  shows "parseKeyValueItems (flag_items w fs @ k # w1 @ e # w2 @ its) =
    map it_Val fs @ [it_Val k, ''='', TrimRight (concat (map it_Val its)) [ch_space, ch_tab, ch_cr, ch_nl]]"
proof -
  have "readFlags (skipWS (flag_items w fs @ k # w1 @ e # w2 @ its)) = (map it_Val fs, k # w1 @ e # w2 @ its)"
    using assms(1-4) by (intro readFlags_flags) auto
  moreover have "skipWS (w1 @ e # w2 @ its) = e # w2 @ its" "skipWS (w2 @ its) = its"
    using assms(6-10) by (auto simp: skipWS_append dropWhile_eq_self_iff)
  ultimately show ?thesis using assms(3,5,7,8)
    by (simp add: parseKeyValueItems_def keyValueTail_equals Let_def)
qed

text \<open>
  \<open>ARG k = v\<close> and \<open>ARG k=v\<close> mean the same: with the same flags before the key, a key
  and a value written with white space around the equals sign give the arguments of the
  one word \<open>k=v\<close>.
\<close>

theorem parseKeyValueItems_spacing:
  assumes "set fs \<subseteq> Collect is_flag" "it_Typ w = itemWS"
    and "it_Typ k = itemAtom" "\<not> prefix ''-'' (it_Val k)" "findKeyValueSeparator (it_Val k) = - 1"
    and "set w1 \<subseteq> {it. it_Typ it = itemWS}" "it_Typ e = itemAtom" "it_Val e = ''=''"
    and "set w2 \<subseteq> {it. it_Typ it = itemWS}" "it_Typ v \<noteq> itemWS"
    and "it_Typ kv = itemAtom" "it_Val kv = it_Val k @ ''='' @ it_Val v"
    and "findKeyValueSeparator (it_Val kv) = int (length (it_Val k))" "it_Val k \<noteq> []"
  shows "parseKeyValueItems (flag_items w fs @ k # w1 @ e # w2 @ [v]) =
    parseKeyValueItems (flag_items w fs @ [kv])"
proof -
  have "\<not> prefix ''-'' (it_Val kv)" using assms(4,12,14) by (cases "it_Val k") auto
  then show ?thesis
    using keyValueItems_spaced [OF assms(1-9), of "[v]"]
      keyValueItems_joined [of fs w kv "length (it_Val k)" "[]"] assms by simp
qed

theorem parseKeyValueItems_spacing_witness:
  "(let at = (\<lambda>x. zero_item\<lparr>it_Typ := itemAtom, it_Val := x\<rparr>); w = zero_item\<lparr>it_Typ := itemWS\<rparr> in
    parseKeyValueItems (flag_items w [at ''--global''] @ at ''k'' # [w] @ at ''='' # [w] @ [at ''v'']) =
    parseKeyValueItems (flag_items w [at ''--global''] @ [at ''k=v'']))"
  unfolding Let_def
  by (rule parseKeyValueItems_spacing) (simp_all add: findKeyValueSeparator_def)

text \<open>
  A key-value command with flags and no key, such as \<open>ARG --required\<close>, gets every flag
  twice: the fallback appends all words to the flags that were read already.
\<close>

theorem parseKeyValueItems_flags_doubled:
  assumes "set fs \<subseteq> Collect is_flag" "it_Typ w = itemWS"
  shows "parseKeyValueItems (flag_items w fs) = map it_Val fs @ map it_Val fs"
proof -
  have "map it_Val (filter (\<lambda>it. it_Typ it = itemAtom) (flag_items w fs)) = map it_Val fs"
    using assms by (induction fs) auto
  then show ?thesis
    using readFlags_flags [OF assms, of "[]"] by (simp add: parseKeyValueItems_def)
qed

theorem parseKeyValueItems_flags_doubled_witness:
  "(let f = zero_item\<lparr>it_Typ := itemAtom, it_Val := ''--required''\<rparr>; w = zero_item\<lparr>it_Typ := itemWS\<rparr> in
     parseKeyValueItems [f, w] = [''--required'', ''--required''])"
  using parseKeyValueItems_flags_doubled
    [of "[zero_item\<lparr>it_Typ := itemAtom, it_Val := ''--required''\<rparr>]" "zero_item\<lparr>it_Typ := itemWS\<rparr>"]
  by simp

end
