(* ===== verification/Earthfile_AST.thy ===== *)
theory Earthfile_AST
  imports Lexer_Cursor
begin

text \<open>
  The abstract syntax of \<^verbatim>\<open>internal/earthfile/earthfile.go\<close> and the two passes over it in
  \<^verbatim>\<open>internal/earthfile/parse.go\<close> that fill in and remove source locations. A Go struct is a
  record; a pointer that may be \<open>nil\<close> is an \<open>option\<close>. A \<open>Statement\<close> holds one of six pointers,
  so its contents are a datatype with six constructors; the struct a constructor points to
  is its list of arguments, in the order location, texts, bodies.
\<close>

record SourceLocation =
  File :: string
  StartLine :: nat
  StartColumn :: nat
  EndLine :: nat
  EndColumn :: nat

type_synonym Loc = "SourceLocation option"

record Command =
  cmd_Name :: Cmd
  cmd_Docs :: string
  cmd_SourceLocation :: Loc
  cmd_Args :: "string list"
  cmd_ExecMode :: bool

datatype Statement = Statement Loc StatementKind
and StatementKind =
    KCommand Command
  | KWith Loc "Statement list" Command
  | KIf Loc "string list" bool "Statement list" "ElseIfStatement list" "Statement list option"
      \<comment> \<open>location, Expression, ExecMode, IfBody, ElseIf, ElseBody\<close>
  | KTry Loc "Statement list" "Statement list option" "Statement list option"
      \<comment> \<open>location, TryBody, CatchBody, FinallyBody\<close>
  | KFor Loc "string list" "Statement list"
  | KWait Loc "string list" "Statement list"
and ElseIfStatement = ElseIfStatement Loc "string list" bool "Statement list"
      \<comment> \<open>location, Expression, ExecMode, Body\<close>

type_synonym Block = "Statement list"

record Version =
  ver_SourceLocation :: Loc
  ver_Args :: "string list"

record Target =
  tgt_SourceLocation :: Loc
  tgt_Name :: string
  tgt_Docs :: string
  tgt_Recipe :: Block

record Function =
  fn_SourceLocation :: Loc
  fn_Name :: string
  fn_Recipe :: Block

record Tree =
  tree_Version :: "Version option"
  tree_SourceLocation :: Loc
  tree_Targets :: "Target list"
  tree_Functions :: "Function list"
  tree_BaseRecipe :: Block

definition empty_tree :: Tree where
  "empty_tree = \<lparr>tree_Version = None, tree_SourceLocation = None, tree_Targets = [],
     tree_Functions = [], tree_BaseRecipe = []\<rparr>"

section \<open>Mapping the locations\<close>

text \<open>Both passes visit every location of a block in the same way; \<open>map_stmt_loc\<close> is the
  visit, for any change \<open>f\<close> of a location.\<close>

definition map_cmd_loc :: "(Loc \<Rightarrow> Loc) \<Rightarrow> Command \<Rightarrow> Command" where
  "map_cmd_loc f c = c\<lparr>cmd_SourceLocation := f (cmd_SourceLocation c)\<rparr>"

primrec map_stmt_loc :: "(Loc \<Rightarrow> Loc) \<Rightarrow> Statement \<Rightarrow> Statement"
  and map_kind_loc :: "(Loc \<Rightarrow> Loc) \<Rightarrow> StatementKind \<Rightarrow> StatementKind"
  and map_elseif_loc :: "(Loc \<Rightarrow> Loc) \<Rightarrow> ElseIfStatement \<Rightarrow> ElseIfStatement"
where
  "map_stmt_loc f (Statement loc k) = Statement (f loc) (map_kind_loc f k)"
| "map_kind_loc f (KCommand c) = KCommand (map_cmd_loc f c)"
| "map_kind_loc f (KWith loc body c) = KWith (f loc) (map (map_stmt_loc f) body) (map_cmd_loc f c)"
| "map_kind_loc f (KIf loc expr ex body eis els) =
    KIf (f loc) expr ex (map (map_stmt_loc f) body) (map (map_elseif_loc f) eis)
      (map_option (map (map_stmt_loc f)) els)"
| "map_kind_loc f (KTry loc body cat fin) =
    KTry (f loc) (map (map_stmt_loc f) body) (map_option (map (map_stmt_loc f)) cat)
      (map_option (map (map_stmt_loc f)) fin)"
| "map_kind_loc f (KFor loc args body) = KFor (f loc) args (map (map_stmt_loc f) body)"
| "map_kind_loc f (KWait loc args body) = KWait (f loc) args (map (map_stmt_loc f) body)"
| "map_elseif_loc f (ElseIfStatement loc expr ex body) =
    ElseIfStatement (f loc) expr ex (map (map_stmt_loc f) body)"

definition map_tree_loc :: "(Loc \<Rightarrow> Loc) \<Rightarrow> Tree \<Rightarrow> Tree" where
  "map_tree_loc f ef = ef\<lparr>
     tree_SourceLocation := f (tree_SourceLocation ef),
     tree_Version := map_option (\<lambda>v. v\<lparr>ver_SourceLocation := f (ver_SourceLocation v)\<rparr>) (tree_Version ef),
     tree_Targets := map (\<lambda>t. t\<lparr>tgt_SourceLocation := f (tgt_SourceLocation t),
       tgt_Recipe := map (map_stmt_loc f) (tgt_Recipe t)\<rparr>) (tree_Targets ef),
     tree_Functions := map (\<lambda>t. t\<lparr>fn_SourceLocation := f (fn_SourceLocation t),
       fn_Recipe := map (map_stmt_loc f) (fn_Recipe t)\<rparr>) (tree_Functions ef),
     tree_BaseRecipe := map (map_stmt_loc f) (tree_BaseRecipe ef)\<rparr>"

text \<open>\<open>if loc != nil { loc.File = filename }\<close>\<close>

definition set_file :: "string \<Rightarrow> Loc \<Rightarrow> Loc" where
  "set_file filename loc = map_option (\<lambda>l. l\<lparr>File := filename\<rparr>) loc"

definition setBlockSourceLocationFile :: "Block \<Rightarrow> string \<Rightarrow> Block" where
  "setBlockSourceLocationFile block filename = map (map_stmt_loc (set_file filename)) block"

definition setSourceLocationFile :: "Tree \<Rightarrow> string \<Rightarrow> Tree" where
  "setSourceLocationFile ef filename = map_tree_loc (set_file filename) ef"

definition removeBlockSourceLocations :: "Block \<Rightarrow> Block" where
  "removeBlockSourceLocations block = map (map_stmt_loc (\<lambda>_. None)) block"

definition removeSourceLocations :: "Tree \<Rightarrow> Tree" where
  "removeSourceLocations ef = map_tree_loc (\<lambda>_. None) ef"

section \<open>The locations of a tree\<close>

definition opt_concat :: "'a list list option \<Rightarrow> 'a list" where
  "opt_concat b = (case b of None \<Rightarrow> [] | Some ls \<Rightarrow> concat ls)"

primrec stmt_locs :: "Statement \<Rightarrow> Loc list"
  and kind_locs :: "StatementKind \<Rightarrow> Loc list"
  and elseif_locs :: "ElseIfStatement \<Rightarrow> Loc list"
where
  "stmt_locs (Statement loc k) = loc # kind_locs k"
| "kind_locs (KCommand c) = [cmd_SourceLocation c]"
| "kind_locs (KWith loc body c) = loc # cmd_SourceLocation c # concat (map stmt_locs body)"
| "kind_locs (KIf loc expr ex body eis els) =
    loc # concat (map stmt_locs body) @ concat (map elseif_locs eis) @
      opt_concat (map_option (map stmt_locs) els)"
| "kind_locs (KTry loc body cat fin) =
    loc # concat (map stmt_locs body) @
      opt_concat (map_option (map stmt_locs) cat) @
      opt_concat (map_option (map stmt_locs) fin)"
| "kind_locs (KFor loc args body) = loc # concat (map stmt_locs body)"
| "kind_locs (KWait loc args body) = loc # concat (map stmt_locs body)"
| "elseif_locs (ElseIfStatement loc expr ex body) = loc # concat (map stmt_locs body)"

definition tree_locs :: "Tree \<Rightarrow> Loc list" where
  "tree_locs ef =
    tree_SourceLocation ef #
    (case tree_Version ef of None \<Rightarrow> [] | Some v \<Rightarrow> [ver_SourceLocation v]) @
    concat (map (\<lambda>t. tgt_SourceLocation t # concat (map stmt_locs (tgt_Recipe t))) (tree_Targets ef)) @
    concat (map (\<lambda>t. fn_SourceLocation t # concat (map stmt_locs (fn_Recipe t))) (tree_Functions ef)) @
    concat (map stmt_locs (tree_BaseRecipe ef))"

text \<open>Mapping the locations maps the list of locations and composes.\<close>

lemma concat_map_map_eq:
  "(\<And>x. x \<in> set xs \<Longrightarrow> g (h x) = map f (k x)) \<Longrightarrow>
     concat (map g (map h xs)) = map f (concat (map k xs))"
  by (induction xs) auto

lemma map_locs:
  "stmt_locs (map_stmt_loc f st) = map f (stmt_locs st)"
  "kind_locs (map_kind_loc f k) = map f (kind_locs k)"
  "elseif_locs (map_elseif_loc f ei) = map f (elseif_locs ei)"
  by (induction st and k and ei)
    (auto simp: map_cmd_loc_def opt_concat_def map_concat comp_def cong: map_cong split: option.split)

lemma map_compose:
  "map_stmt_loc f (map_stmt_loc g st) = map_stmt_loc (f \<circ> g) st"
  "map_kind_loc f (map_kind_loc g k) = map_kind_loc (f \<circ> g) k"
  "map_elseif_loc f (map_elseif_loc g ei) = map_elseif_loc (f \<circ> g) ei"
  by (induction st and k and ei) (auto simp: map_cmd_loc_def option.map_comp option.map_ident
    intro!: option.map_cong)

lemma tree_locs_map: "tree_locs (map_tree_loc f ef) = map f (tree_locs ef)"
  by (auto simp: tree_locs_def map_tree_loc_def map_locs map_concat comp_def split: option.split)

lemma map_tree_compose: "map_tree_loc f (map_tree_loc g ef) = map_tree_loc (f \<circ> g) ef"
  by (auto simp: map_tree_loc_def map_compose option.map_comp comp_def)

section \<open>What the two passes do\<close>

text \<open>
  Without a source map no location is left anywhere in the tree.
\<close>

theorem removeSourceLocations_clears: "set (tree_locs (removeSourceLocations ef)) = {None}"
proof -
  have "tree_locs ef \<noteq> []" by (simp add: tree_locs_def)
  then show ?thesis by (simp add: removeSourceLocations_def tree_locs_map image_constant_conv)
qed

text \<open>
  With a source map every location that the parser recorded carries the name of the
  file, keeps its lines and columns, and no location is added or lost.
\<close>

theorem setSourceLocationFile_locs:
  "tree_locs (setSourceLocationFile ef filename) =
     map (map_option (\<lambda>l. l\<lparr>File := filename\<rparr>)) (tree_locs ef)"
  by (simp add: setSourceLocationFile_def tree_locs_map set_file_def [abs_def])

text \<open>The source map is the only difference between the two modes.\<close>

lemma source_map_only_adds_locations:
  "removeSourceLocations (setSourceLocationFile ef filename) = removeSourceLocations ef"
  "removeSourceLocations (removeSourceLocations ef) = removeSourceLocations ef"
  by (simp_all add: removeSourceLocations_def setSourceLocationFile_def map_tree_compose comp_def)

end
