(* ===== verification/Earthfile_Validator.thy ===== *)
theory Earthfile_Validator
  imports Earthfile_AST
begin

text \<open>
  The checks of \<^verbatim>\<open>internal/earthfile/validator.go\<close>. A Go error that joins several errors
  (\<open>errors.Join\<close>) is the list of the errors joined, in order; \<open>nil\<close> is the empty list. The
  formatted texts are kept as constructors with the arguments of the format.
\<close>

abbreviation TargetBase :: string where "TargetBase \<equiv> ''base''"

datatype validation_error =
    DuplicateTarget string nat nat string \<comment> \<open>file, line, column, name\<close>
  | ReservedTarget string nat nat string
  | UnexpectedVersionArgs
  | InvalidVersion string \<comment> \<open>the versions supported\<close>

definition validEarthfileVersions :: "string list" where
  "validEarthfileVersions = [''0.0'', ''0.6'', ''0.7'', ''0.8'']"

text \<open>The panic of \<open>getValidVersionsFormatted\<close> is \<open>None\<close>.\<close>

definition getValidVersionsFormatted :: "string option" where
  "getValidVersionsFormatted =
    (if validEarthfileVersions ! 0 \<noteq> ''0.0'' then None
     else
       let latestIndex = length validEarthfileVersions - 1 in
       Some (concat (map (\<lambda>i. validEarthfileVersions ! i @ '', '') [1..<latestIndex]) @
         ''or '' @ validEarthfileVersions ! latestIndex))"

definition validVersion :: "Tree \<Rightarrow> validation_error list" where
  "validVersion ef =
    (case tree_Version ef of
       None \<Rightarrow> []
     | Some v \<Rightarrow>
         if ver_Args v = [] then [UnexpectedVersionArgs]
         else if ver_Args v ! (length (ver_Args v) - 1) \<notin> set validEarthfileVersions
           then [InvalidVersion (the getValidVersionsFormatted)]
         else [])"

text \<open>\<open>file, line, col\<close> of a target: zero values when it has no location.\<close>

definition target_place :: "Target \<Rightarrow> string \<times> nat \<times> nat" where
  "target_place t =
    (case tgt_SourceLocation t of
       None \<Rightarrow> ([], 0, 0)
     | Some l \<Rightarrow> (File l, StartLine l, StartColumn l))"

fun sameNameLoop :: "Target list \<Rightarrow> string set \<Rightarrow> validation_error list" where
  "sameNameLoop [] seenTargets = []"
| "sameNameLoop (t # ts) seenTargets =
    (if tgt_Name t \<in> seenTargets
     then let (file, line, col) = target_place t in [DuplicateTarget file line col (tgt_Name t)]
     else []) @ sameNameLoop ts (insert (tgt_Name t) seenTargets)"

definition noTargetsWithSameName :: "Tree \<Rightarrow> validation_error list" where
  "noTargetsWithSameName ef = sameNameLoop (tree_Targets ef) {}"

definition noTargetsWithKeywords :: "Tree \<Rightarrow> validation_error list" where
  "noTargetsWithKeywords ef =
    concat (map (\<lambda>t. if tgt_Name t = TargetBase
                    then let (file, line, col) = target_place t in [ReservedTarget file line col (tgt_Name t)]
                    else []) (tree_Targets ef))"

definition astValidations :: "(Tree \<Rightarrow> validation_error list) list" where
  "astValidations = [noTargetsWithSameName, noTargetsWithKeywords, validVersion]"

definition validateAst :: "Tree \<Rightarrow> validation_error list" where
  "validateAst ef = foldl (\<lambda>err v. err @ v ef) [] astValidations"

section \<open>What a valid tree is\<close>

definition valid_tree :: "Tree \<Rightarrow> bool" where
  "valid_tree ef \<longleftrightarrow>
    distinct (map tgt_Name (tree_Targets ef)) \<and>
    TargetBase \<notin> tgt_Name ` set (tree_Targets ef) \<and>
    (case tree_Version ef of
       None \<Rightarrow> True
     | Some v \<Rightarrow> ver_Args v \<noteq> [] \<and> last (ver_Args v) \<in> {''0.0'', ''0.6'', ''0.7'', ''0.8''})"

lemma sameNameLoop_Nil_iff:
  "sameNameLoop ts S = [] \<longleftrightarrow> distinct (map tgt_Name ts) \<and> S \<inter> tgt_Name ` set ts = {}"
  by (induction ts arbitrary: S) (auto split: prod.splits)

lemma validateAst_append:
  "validateAst ef = noTargetsWithSameName ef @ noTargetsWithKeywords ef @ validVersion ef"
  by (simp add: validateAst_def astValidations_def)

lemma validVersion_Nil_iff:
  "validVersion ef = [] \<longleftrightarrow>
    (case tree_Version ef of None \<Rightarrow> True
     | Some v \<Rightarrow> ver_Args v \<noteq> [] \<and> last (ver_Args v) \<in> {''0.0'', ''0.6'', ''0.7'', ''0.8''})"
  by (simp add: validVersion_def validEarthfileVersions_def last_conv_nth split: option.split)

lemma noTargetsWithKeywords_Nil_iff:
  "noTargetsWithKeywords ef = [] \<longleftrightarrow> TargetBase \<notin> tgt_Name ` set (tree_Targets ef)"
proof -
  have "(if tgt_Name t = TargetBase
         then let (file, line, col) = target_place t in [ReservedTarget file line col (tgt_Name t)]
         else []) = [] \<longleftrightarrow> tgt_Name t \<noteq> TargetBase" for t
    by (simp split: prod.split)
  then show ?thesis
    unfolding noTargetsWithKeywords_def concat_eq_Nil_conv set_map ball_simps image_iff by auto
qed

lemma validateAst_Nil_iff: "validateAst ef = [] \<longleftrightarrow> valid_tree ef"
  unfolding validateAst_append valid_tree_def append_is_Nil_conv validVersion_Nil_iff
    noTargetsWithKeywords_Nil_iff
  by (simp add: noTargetsWithSameName_def sameNameLoop_Nil_iff)

text \<open>
  Validation accepts exactly the trees with distinct target names, no target called
  \<open>base\<close>, and a VERSION whose last argument, if there is one, is a supported version.
\<close>

theorem validateAst_iff_valid_tree: "validateAst ef = [] \<longleftrightarrow> valid_tree ef"
  by (rule validateAst_Nil_iff)

lemma sameNameLoop_length:
  "length (sameNameLoop ts S) + card (tgt_Name ` set ts - S) = length ts"
proof (induction ts arbitrary: S)
  case Nil
  show ?case by simp
next
  case (Cons t ts)
  have "tgt_Name ` set (t # ts) - S =
    (if tgt_Name t \<in> S then tgt_Name ` set ts - insert (tgt_Name t) S
     else insert (tgt_Name t) (tgt_Name ` set ts - insert (tgt_Name t) S))"
    by auto
  then show ?case using Cons [of "insert (tgt_Name t) S"] by (auto split: prod.split)
qed

text \<open>
  Every target after the first one of its name is reported, once: there are as many
  duplicate reports as targets beyond the number of different names.
\<close>

theorem noTargetsWithSameName_count:
  "length (noTargetsWithSameName ef) + card (tgt_Name ` set (tree_Targets ef)) = length (tree_Targets ef)"
  using sameNameLoop_length [of "tree_Targets ef" "{}"] by (simp add: noTargetsWithSameName_def)

text \<open>The formatted list of versions is what the message of the code shows, without panic.\<close>

lemma getValidVersionsFormatted_value: "getValidVersionsFormatted = Some ''0.6, 0.7, or 0.8''"
  by (simp add: getValidVersionsFormatted_def validEarthfileVersions_def upt_rec)

text \<open>Validation does not look at locations, apart from those it reports.\<close>

lemma valid_tree_locs [simp]: "valid_tree (map_tree_loc f ef) = valid_tree ef"
  by (auto simp: valid_tree_def map_tree_loc_def comp_def image_image split: option.split)

end
