(* ===== verification/State_Error.thy ===== *)
theory State_Error
  imports Prelude
begin

text \<open>
  Stateful operations that may fail: a function from the state to either the error or the
  result with the new state. \<open>wpS\<close> is the weakest precondition, with one postcondition for
  results and one for errors; it distributes over the sequencing operator, so a proof
  about an operation follows its text. \<open>fuel_le\<close> relates a fuel-bounded operation to the
  same operation with more fuel.
\<close>

type_synonym ('s, 'e, 'a) se = "'s \<Rightarrow> 'e + 'a \<times> 's"

definition retS :: "'a \<Rightarrow> ('s, 'e, 'a) se" where
  "retS x s = Inr (x, s)"

definition failS :: "'e \<Rightarrow> ('s, 'e, 'a) se" where
  "failS e s = Inl e"

definition bindS :: "('s, 'e, 'a) se \<Rightarrow> ('a \<Rightarrow> ('s, 'e, 'b) se) \<Rightarrow> ('s, 'e, 'b) se" where
  "bindS m f s = (case m s of Inl e \<Rightarrow> Inl e | Inr (x, s') \<Rightarrow> f x s')"

definition modS :: "('s \<Rightarrow> 's) \<Rightarrow> ('s, 'e, unit) se" where
  "modS f s = Inr ((), f s)"

definition getS :: "('s \<Rightarrow> 'a) \<Rightarrow> ('s, 'e, 'a) se" where
  "getS f s = Inr (f s, s)"

section \<open>Weakest preconditions\<close>

definition wpS :: "('s, 'e, 'a) se \<Rightarrow> ('a \<Rightarrow> 's \<Rightarrow> bool) \<Rightarrow> ('e \<Rightarrow> bool) \<Rightarrow> 's \<Rightarrow> bool" where
  "wpS m Q E s = (case m s of Inl e \<Rightarrow> E e | Inr (x, s') \<Rightarrow> Q x s')"

lemma wpS_ret [simp]: "wpS (retS x) Q E s = Q x s"
  by (simp add: wpS_def retS_def)

lemma wpS_fail [simp]: "wpS (failS e) Q E s = E e"
  by (simp add: wpS_def failS_def)

lemma wpS_mod [simp]: "wpS (modS f) Q E s = Q () (f s)"
  by (simp add: wpS_def modS_def)

lemma wpS_get [simp]: "wpS (getS g) Q E s = Q (g s) s"
  by (simp add: wpS_def getS_def)

lemma wpS_bind [simp]: "wpS (bindS m f) Q E s = wpS m (\<lambda>x s'. wpS (f x) Q E s') E s"
  by (auto simp: wpS_def bindS_def split: sum.split)

lemma wpS_mono:
  assumes "wpS m Q E s" "\<And>x s'. Q x s' \<Longrightarrow> Q' x s'"
  shows "wpS m Q' E s"
  using assms by (auto simp: wpS_def split: sum.splits)

lemma wpS_if [simp]: "wpS (if b then m else m') Q E s = (if b then wpS m Q E s else wpS m' Q E s)"
  by simp

lemma wpS_ifI: "(b \<Longrightarrow> wpS m Q E s) \<Longrightarrow> (\<not> b \<Longrightarrow> wpS m' Q E s) \<Longrightarrow> wpS (if b then m else m') Q E s"
  by simp

text \<open>When only results matter, the first operation of a sequence may do anything.\<close>

lemma wpS_bind_any: "(\<And>x s'. wpS (f x) Q (\<lambda>_. True) s') \<Longrightarrow> wpS (bindS m f) Q (\<lambda>_. True) s"
  unfolding wpS_bind by (cases "m s") (auto simp: wpS_def [of m])

lemma wpS_result: "wpS m Q E s \<Longrightarrow> m s = Inr (x, s') \<Longrightarrow> Q x s'"
  by (simp add: wpS_def)

lemma wpS_error: "wpS m Q E s \<Longrightarrow> m s = Inl e \<Longrightarrow> E e"
  by (simp add: wpS_def)

section \<open>More fuel\<close>

definition fuel_le :: "'e \<Rightarrow> ('s, 'e, 'a) se \<Rightarrow> ('s, 'e, 'a) se \<Rightarrow> bool" where
  "fuel_le out m m' \<longleftrightarrow> (\<forall>s. m s = Inl out \<or> m' s = m s)"

named_theorems fuel_intros \<open>operations whose result more fuel does not change\<close>

lemma fuel_le_refl [fuel_intros, simp]: "fuel_le out m m"
  by (simp add: fuel_le_def)

lemma fuel_le_out [fuel_intros]: "fuel_le out (failS out) m"
  by (simp add: fuel_le_def failS_def)

lemma fuel_le_bind [fuel_intros]:
  assumes "fuel_le out m m'" "\<And>x. fuel_le out (f x) (f' x)"
  shows "fuel_le out (bindS m f) (bindS m' f')"
  unfolding fuel_le_def
proof
  fix s
  show "bindS m f s = Inl out \<or> bindS m' f' s = bindS m f s"
  proof (cases "m s = Inl out")
    case True
    then show ?thesis by (simp add: bindS_def)
  next
    case False
    then have "m' s = m s" using assms(1) by (auto simp: fuel_le_def)
    then show ?thesis using assms(2) by (auto simp: fuel_le_def bindS_def split: sum.split)
  qed
qed

lemma fuel_le_if [fuel_intros]:
  "(b \<Longrightarrow> fuel_le out m m') \<Longrightarrow> (\<not> b \<Longrightarrow> fuel_le out n n') \<Longrightarrow>
     fuel_le out (if b then m else n) (if b then m' else n')"
  by simp

lemma fuel_le_trans: "fuel_le out m m' \<Longrightarrow> fuel_le out m' m'' \<Longrightarrow> fuel_le out m m''"
  unfolding fuel_le_def by metis

lemma fuel_le_eq: "fuel_le out m m' \<Longrightarrow> m s \<noteq> Inl out \<Longrightarrow> m' s = m s"
  unfolding fuel_le_def by blast

lemma fuel_le_Suc_le:
  assumes "\<And>n. fuel_le out (F n) (F (Suc n))" "n \<le> m"
  shows "fuel_le out (F n) (F m)"
  using assms(2)
proof (induction m rule: dec_induct)
  case base
  show ?case by simp
next
  case (step k)
  then show ?case using fuel_le_trans [OF _ assms(1)] by blast
qed

end
