(* ===== verification/Earthfile_Parser.thy ===== *)
theory Earthfile_Parser
  imports Earthfile_Lexer Earthfile_Text Earthfile_Validator State_Error
begin

text \<open>
  The recursive-descent parser of \<^verbatim>\<open>internal/earthfile/parse.go\<close>. The parser's state is the
  record \<open>parser\<close>; an operation is a state-and-error function (\<open>State_Error\<close>). The text of
  an error message is kept as a constructor with the arguments of its format.

  The loops that end only because the scanner ends, and the recursion between statements,
  are bounded by fuel; \<open>NoResult\<close> is the outcome when the fuel runs out, and
  \<open>Parser_Correct\<close> proves that with the fuel \<open>parse_fuel\<close> it never occurs and that more fuel
  changes nothing. A local variable of a Go loop is an argument of the recursive function.
  An expression that calls \<open>p.peek()\<close> several times in a row peeks once here.
\<close>

section \<open>State and errors\<close>

record parser =
  p_lex :: lexer
  p_itemsBuf :: "item list"
  p_token :: "item list"
  p_peekCount :: nat

datatype parse_msg =
    TokenText item
  | VersionColumn | TargetColumn | FunctionColumn | CommandColumn
  | UnexpectedTopLevel item
  | UnexpectedInVersion item
  | UnexpectedInRecipe item
  | ExpectedIndentation item
  | UnexpectedInArgs item
  | ExpectedEnd Cmd item

datatype parse_error =
    SyntaxError nat parse_msg \<comment> \<open>position, message\<close>
  | ValidationIssues "validation_error list"
  | NoResult

type_synonym 'a P = "(parser, parse_error, 'a) se"

definition new_parser :: "string \<Rightarrow> string \<Rightarrow> parser" where
  "new_parser nm text =
    \<lparr>p_lex = lex nm text, p_itemsBuf = [], p_token = replicate 3 zero_item, p_peekCount = 0\<rparr>"

section \<open>Reading tokens\<close>

definition parser_next :: "parser \<Rightarrow> (item \<times> parser) option" where
  "parser_next p =
    (if p_peekCount p > 0 then
       let p1 = p\<lparr>p_peekCount := p_peekCount p - 1\<rparr> in Some (p_token p1 ! p_peekCount p1, p1)
     else case nextItem (p_lex p) of
       None \<Rightarrow> None
     | Some (it, l) \<Rightarrow>
         let p1 = p\<lparr>p_lex := l, p_token := (p_token p)[0 := it]\<rparr> in
         Some (p_token p1 ! p_peekCount p1, p1))"

definition parser_peek :: "parser \<Rightarrow> (item \<times> parser) option" where
  "parser_peek p =
    (if p_peekCount p > 0 then Some (p_token p ! (p_peekCount p - 1), p)
     else case nextItem (p_lex p) of
       None \<Rightarrow> None
     | Some (it, l) \<Rightarrow>
         let p1 = p\<lparr>p_peekCount := 1, p_lex := l, p_token := (p_token p)[0 := it]\<rparr> in
         Some (p_token p1 ! 0, p1))"

definition nextT :: "item P" where
  "nextT p = (case parser_next p of None \<Rightarrow> Inl NoResult | Some r \<Rightarrow> Inr r)"

definition peekT :: "item P" where
  "peekT p = (case parser_peek p of None \<Rightarrow> Inl NoResult | Some r \<Rightarrow> Inr r)"

definition parser_errorf :: "nat \<Rightarrow> parse_msg \<Rightarrow> 'a P" where
  "parser_errorf pos msg = failS (SyntaxError pos msg)"

definition isCommandToken :: "itemType \<Rightarrow> bool" where
  "isCommandToken t \<longleftrightarrow>
    t \<in> {itemFrom, itemFromDockerfile, itemLocally, itemCopy, itemSaveArtifact,
        itemSaveImage, itemRun, itemExpose, itemVolume, itemEnv, itemArg,
        itemSet, itemLet, itemLabel, itemBuild, itemWorkdir, itemUser,
        itemCmd, itemEntrypoint, itemGitClone, itemAdd, itemStopSignal,
        itemOnBuild, itemHealthCheck, itemShell, itemDo, itemCommand,
        itemFunctionKW, itemImport, itemCache, itemHost, itemProject,
        itemWith, itemIf, itemFor, itemWait, itemTry}"

text \<open>The list of command tokens in the \<open>switch\<close> statements of \<open>parseStmts\<close> and
  \<open>parseBlock\<close>: it has VERSION and not the block keywords.\<close>

definition recipeCommandToken :: "itemType \<Rightarrow> bool" where
  "recipeCommandToken t \<longleftrightarrow>
    t \<in> {itemFrom, itemFromDockerfile, itemLocally, itemCopy, itemSaveArtifact,
        itemSaveImage, itemRun, itemExpose, itemVolume, itemEnv, itemArg,
        itemSet, itemLet, itemLabel, itemBuild, itemWorkdir, itemUser,
        itemCmd, itemEntrypoint, itemGitClone, itemAdd, itemStopSignal,
        itemOnBuild, itemHealthCheck, itemShell, itemDo, itemCommand,
        itemFunctionKW, itemImport, itemVersion, itemCache, itemHost,
        itemProject}"

definition start_loc :: "item \<Rightarrow> SourceLocation" where
  "start_loc t = \<lparr>File = [], StartLine = it_Line t, StartColumn = it_Col t, EndLine = 0, EndColumn = 0\<rparr>"

definition end_loc :: "item \<Rightarrow> SourceLocation" where
  "end_loc t = \<lparr>File = [], StartLine = 0, StartColumn = 0, EndLine = it_Line t, EndColumn = it_Col t\<rparr>"

definition ends_at :: "SourceLocation \<Rightarrow> SourceLocation \<Rightarrow> SourceLocation" where
  "ends_at loc endLoc = loc\<lparr>EndLine := EndLine endLoc, EndColumn := EndColumn endLoc\<rparr>"

section \<open>Arguments\<close>

primrec parseVersionArgs :: "nat \<Rightarrow> SourceLocation \<Rightarrow> string list \<Rightarrow> Version P" where
  "parseVersionArgs 0 loc args = failS NoResult"
| "parseVersionArgs (Suc n) loc args =
    bindS peekT (\<lambda>tok.
    if it_Typ tok = itemAtom then bindS nextT (\<lambda>_. parseVersionArgs n loc (args @ [it_Val tok]))
    else if it_Typ tok = itemWS then bindS nextT (\<lambda>_. parseVersionArgs n loc args)
    else if it_Typ tok \<in> {itemNL, itemComment, itemEOLComment} then
      bindS nextT (\<lambda>_. retS \<lparr>ver_SourceLocation = Some (ends_at loc (end_loc tok)), ver_Args = args\<rparr>)
    else if it_Typ tok = itemEOF then
      retS \<lparr>ver_SourceLocation = Some (ends_at loc (end_loc tok)), ver_Args = args\<rparr>
    else bindS nextT (\<lambda>_. parser_errorf (it_pos tok) (UnexpectedInVersion tok)))"

definition parseVersion :: "nat \<Rightarrow> Version P" where
  "parseVersion n = bindS nextT (\<lambda>token. parseVersionArgs n (start_loc token) [])"

primrec parseArgsLoop :: "nat \<Rightarrow> string list \<Rightarrow> (string list \<times> SourceLocation) P" where
  "parseArgsLoop 0 args = failS NoResult"
| "parseArgsLoop (Suc n) args =
    bindS peekT (\<lambda>t.
    if it_Typ t = itemAtom then bindS nextT (\<lambda>_. parseArgsLoop n (args @ [it_Val t]))
    else if it_Typ t \<in> {itemWS, itemComment} then bindS nextT (\<lambda>_. parseArgsLoop n args)
    else if it_Typ t \<in> {itemNL, itemEOLComment} then bindS nextT (\<lambda>_. retS (args, end_loc t))
    else if it_Typ t \<in> {itemEOF, itemDedent} then retS (args, end_loc t)
    else bindS nextT (\<lambda>_.
      if it_Typ t = itemError then parser_errorf (it_pos t) (TokenText t)
      else parser_errorf (it_pos t) (UnexpectedInArgs t)))"

definition parseArgsUntilNL :: "nat \<Rightarrow> (string list \<times> SourceLocation) P" where
  "parseArgsUntilNL n = parseArgsLoop n []"

primrec keyValueItemsLoop :: "nat \<Rightarrow> SourceLocation P" where
  "keyValueItemsLoop 0 = failS NoResult"
| "keyValueItemsLoop (Suc n) =
    bindS peekT (\<lambda>t.
    if it_Typ t = itemNL \<or> it_Typ t = itemEOLComment then bindS nextT (\<lambda>_. retS (end_loc t))
    else if it_Typ t = itemEOF \<or> it_Typ t = itemDedent then retS (end_loc t)
    else if it_Typ t = itemError then bindS nextT (\<lambda>_. parser_errorf (it_pos t) (TokenText t))
    else
      bindS nextT (\<lambda>_.
      bindS (modS (\<lambda>p. p\<lparr>p_itemsBuf := p_itemsBuf p @ [t]\<rparr>)) (\<lambda>_.
      keyValueItemsLoop n)))"

definition parseKeyValueCommandArgs :: "nat \<Rightarrow> (string list \<times> SourceLocation) P" where
  "parseKeyValueCommandArgs n =
    bindS (modS (\<lambda>p. p\<lparr>p_itemsBuf := []\<rparr>)) (\<lambda>_.
    bindS (keyValueItemsLoop n) (\<lambda>endLoc.
    bindS (getS p_itemsBuf) (\<lambda>items.
    retS (parseKeyValueItems items, endLoc))))"

text \<open>The post-processing of the arguments of a command: the exec form and LABEL.\<close>

definition commandArgs :: "Cmd \<Rightarrow> string list \<Rightarrow> string list \<times> bool" where
  "commandArgs name args =
    (if args \<noteq> [] \<and> name \<in> {CmdRun, CmdCmd, CmdEntrypoint, CmdVolume} then
       case parseExecForm args of Some execArgs \<Rightarrow> (execArgs, True) | None \<Rightarrow> (args, False)
     else if args \<noteq> [] \<and> name = CmdLabel then (concat (map splitKeyValueArg args), False)
     else (args, False))"

definition parseCommand :: "nat \<Rightarrow> Command P" where
  "parseCommand n =
    bindS nextT (\<lambda>tok.
    bindS (if it_Val tok \<in> {CmdEnv, CmdArg, CmdSet, CmdLet}
           then parseKeyValueCommandArgs n else parseArgsUntilNL n) (\<lambda>(args, endLoc).
    retS (let (args', exec) = commandArgs (it_Val tok) (map replaceEscape args) in
      \<lparr>cmd_Name = it_Val tok, cmd_Docs = [], cmd_SourceLocation = Some (ends_at (start_loc tok) endLoc),
       cmd_Args = args', cmd_ExecMode = exec\<rparr>)))"

section \<open>Statements\<close>

abbreviation stmt :: "StatementKind \<Rightarrow> Statement" where "stmt k \<equiv> Statement None k"

definition execForm :: "string list \<Rightarrow> string list \<times> bool" where
  "execForm args = (case parseExecForm args of Some execArgs \<Rightarrow> (execArgs, True) | None \<Rightarrow> (args, False))"

primrec skipWST :: "nat \<Rightarrow> unit P" where
  "skipWST 0 = failS NoResult"
| "skipWST (Suc n) =
    bindS peekT (\<lambda>t. if it_Typ t = itemWS then bindS nextT (\<lambda>_. skipWST n) else retS ())"

text \<open>The end of FOR, WITH and WAIT: an optional dedent, then END and the rest of its line.\<close>

definition parseEnd :: "nat \<Rightarrow> Cmd \<Rightarrow> unit P" where
  "parseEnd n kw =
    bindS peekT (\<lambda>t.
    bindS (if it_Typ t = itemDedent then bindS nextT (\<lambda>_. retS ()) else retS ()) (\<lambda>_.
    bindS peekT (\<lambda>tok.
    if it_Typ tok \<noteq> itemEnd then parser_errorf (it_pos tok) (ExpectedEnd kw tok)
    else
      bindS nextT (\<lambda>_.
      bindS (parseArgsUntilNL n) (\<lambda>_.
      retS ())))))"

text \<open>The statements that hold blocks call \<open>parseStmts\<close>, which calls them. They take the
  parser of their blocks as an argument \<open>stmts\<close>; \<open>parseStmts\<close> passes itself, with one unit
  of fuel less.\<close>

primrec parseIfClauses :: "nat \<Rightarrow> Block P \<Rightarrow> SourceLocation \<Rightarrow> string list \<Rightarrow> bool \<Rightarrow> Block \<Rightarrow>
    ElseIfStatement list \<Rightarrow> Block option \<Rightarrow> StatementKind P" where
  "parseIfClauses 0 stmts loc expr ex body elseIfs elseBody = failS NoResult"
| "parseIfClauses (Suc n) stmts loc expr ex body elseIfs elseBody =
    bindS peekT (\<lambda>tok.
    if it_Typ tok = itemDedent then
      bindS nextT (\<lambda>_. parseIfClauses n stmts loc expr ex body elseIfs elseBody)
    else if it_Typ tok = itemElseIf then
      bindS nextT (\<lambda>_.
      bindS (parseArgsUntilNL n) (\<lambda>(args, endLoc).
      bindS stmts (\<lambda>eiBlock.
      parseIfClauses n stmts loc expr ex body
        (elseIfs @ [ElseIfStatement (Some (ends_at (start_loc tok) endLoc))
                     (fst (execForm args)) (snd (execForm args)) eiBlock]) elseBody)))
    else if it_Typ tok = itemElse then
      bindS nextT (\<lambda>_.
      bindS (parseArgsUntilNL n) (\<lambda>_.
      bindS stmts (\<lambda>eBlock.
      parseIfClauses n stmts loc expr ex body elseIfs (Some eBlock))))
    else if it_Typ tok = itemEnd then
      bindS nextT (\<lambda>_.
      bindS (parseArgsUntilNL n) (\<lambda>_.
      retS (KIf (Some loc) expr ex body elseIfs elseBody)))
    else parser_errorf (it_pos tok) (ExpectedEnd CmdIf tok))"

definition parseIf :: "nat \<Rightarrow> Block P \<Rightarrow> StatementKind P" where
  "parseIf n stmts =
    bindS nextT (\<lambda>t.
    bindS (parseArgsUntilNL n) (\<lambda>(args, endLoc).
    bindS stmts (\<lambda>block.
    parseIfClauses n stmts (ends_at (start_loc t) endLoc)
      (fst (execForm args)) (snd (execForm args)) block [] None)))"

definition parseFor :: "nat \<Rightarrow> Block P \<Rightarrow> StatementKind P" where
  "parseFor n stmts =
    bindS nextT (\<lambda>t.
    bindS (parseArgsUntilNL n) (\<lambda>(args, _).
    bindS stmts (\<lambda>block.
    bindS (parseEnd n CmdFor) (\<lambda>_.
    retS (KFor (Some (start_loc t)) args block)))))"

primrec parseTryClauses :: "nat \<Rightarrow> Block P \<Rightarrow> SourceLocation \<Rightarrow> Block \<Rightarrow> Block option \<Rightarrow> Block option \<Rightarrow>
    StatementKind P" where
  "parseTryClauses 0 stmts loc body catchBody finallyBody = failS NoResult"
| "parseTryClauses (Suc n) stmts loc body catchBody finallyBody =
    bindS peekT (\<lambda>tok.
    if it_Typ tok = itemDedent then
      bindS nextT (\<lambda>_. parseTryClauses n stmts loc body catchBody finallyBody)
    else if it_Typ tok = itemCatch then
      bindS nextT (\<lambda>_.
      bindS (parseArgsUntilNL n) (\<lambda>_.
      bindS stmts (\<lambda>catchBlock.
      parseTryClauses n stmts loc body (Some catchBlock) finallyBody)))
    else if it_Typ tok = itemFinally then
      bindS nextT (\<lambda>_.
      bindS (parseArgsUntilNL n) (\<lambda>_.
      bindS stmts (\<lambda>finallyBlock.
      parseTryClauses n stmts loc body catchBody (Some finallyBlock))))
    else if it_Typ tok = itemEnd then
      bindS nextT (\<lambda>_.
      bindS (parseArgsUntilNL n) (\<lambda>_.
      retS (KTry (Some loc) body catchBody finallyBody)))
    else parser_errorf (it_pos tok) (ExpectedEnd CmdTry tok))"

definition parseTry :: "nat \<Rightarrow> Block P \<Rightarrow> StatementKind P" where
  "parseTry n stmts =
    bindS nextT (\<lambda>t.
    bindS (parseArgsUntilNL n) (\<lambda>_.
    bindS stmts (\<lambda>block.
    parseTryClauses n stmts (start_loc t) block None None)))"

definition parseWith :: "nat \<Rightarrow> Block P \<Rightarrow> StatementKind P" where
  "parseWith n stmts =
    bindS nextT (\<lambda>t.
    bindS (skipWST n) (\<lambda>_.
    bindS (parseCommand n) (\<lambda>cmd.
    bindS stmts (\<lambda>block.
    bindS (parseEnd n CmdWith) (\<lambda>_.
    retS (KWith (Some (start_loc t)) block cmd))))))"

definition parseWait :: "nat \<Rightarrow> Block P \<Rightarrow> StatementKind P" where
  "parseWait n stmts =
    bindS nextT (\<lambda>t.
    bindS (parseArgsUntilNL n) (\<lambda>_.
    bindS stmts (\<lambda>block.
    bindS (parseEnd n CmdWait) (\<lambda>_.
    retS (KWait (Some (start_loc t)) [] block)))))"

primrec parseStmts :: "nat \<Rightarrow> Block \<Rightarrow> string list \<Rightarrow> Block P" where
  "parseStmts 0 block docs = failS NoResult"
| "parseStmts (Suc n) block docs =
    bindS peekT (\<lambda>tok.
    if it_Typ tok = itemError then
      bindS nextT (\<lambda>_. parser_errorf (it_pos tok) (TokenText tok))
    else if it_Typ tok \<in> {itemDedent, itemEOF, itemEnd, itemElseIf, itemElse, itemCatch, itemFinally} then
      retS block
    else if it_Typ tok \<in> {itemNL, itemWS, itemEOLComment, itemIndent} then
      bindS nextT (\<lambda>_. parseStmts n block docs)
    else if it_Typ tok = itemComment then
      bindS nextT (\<lambda>tok. parseStmts n block (docs @ [it_Val tok]))
    else if it_Typ tok = itemIf then
      bindS (parseIf n (parseStmts n [] [])) (\<lambda>ifStmt. parseStmts n (block @ [stmt ifStmt]) [])
    else if it_Typ tok = itemFor then
      bindS (parseFor n (parseStmts n [] [])) (\<lambda>forStmt. parseStmts n (block @ [stmt forStmt]) [])
    else if it_Typ tok = itemWait then
      bindS (parseWait n (parseStmts n [] [])) (\<lambda>waitStmt. parseStmts n (block @ [stmt waitStmt]) [])
    else if it_Typ tok = itemTry then
      bindS (parseTry n (parseStmts n [] [])) (\<lambda>tryStmt. parseStmts n (block @ [stmt tryStmt]) [])
    else if it_Typ tok = itemWith then
      bindS (parseWith n (parseStmts n [] [])) (\<lambda>withStmt. parseStmts n (block @ [stmt withStmt]) [])
    else if recipeCommandToken (it_Typ tok) then
      bindS (parseCommand n) (\<lambda>cmd.
      parseStmts n (block @ [stmt (KCommand (if docs \<noteq> [] then cmd\<lparr>cmd_Docs := Join docs [ch_nl]\<rparr> else cmd))]) [])
    else parser_errorf (it_pos tok) (UnexpectedInRecipe tok))"

section \<open>Blocks, targets and functions\<close>

text \<open>The first loop of \<open>parseBlock\<close>, up to the indent: \<open>None\<close> is the return of the empty
  block, \<open>Some docs\<close> leaves the loop with the comments read.\<close>

primrec parseBlockIndent :: "nat \<Rightarrow> string list \<Rightarrow> string list option P" where
  "parseBlockIndent 0 docs = failS NoResult"
| "parseBlockIndent (Suc n) docs =
    bindS peekT (\<lambda>t.
    if it_Typ t = itemNL \<or> it_Typ t = itemWS \<or> it_Typ t = itemEOLComment then
      bindS nextT (\<lambda>_. parseBlockIndent n docs)
    else if it_Typ t = itemComment then
      bindS nextT (\<lambda>t. parseBlockIndent n (docs @ [it_Val t]))
    else if it_Typ t = itemIndent then
      bindS nextT (\<lambda>_. retS (Some docs))
    else if it_Typ t \<in> {itemEOF, itemTarget, itemUserCommand, itemFunction} then
      retS None
    else parser_errorf (it_pos t) (ExpectedIndentation t))"

definition docs_command :: "string list \<Rightarrow> Command \<Rightarrow> Command" where
  "docs_command docs cmd = (if docs \<noteq> [] then cmd\<lparr>cmd_Docs := computeDocs docs\<rparr> else cmd)"

primrec parseBlockLoop :: "nat \<Rightarrow> Block \<Rightarrow> string list \<Rightarrow> bool \<Rightarrow> Block P" where
  "parseBlockLoop 0 block docs sawNL = failS NoResult"
| "parseBlockLoop (Suc n) block docs sawNL =
    bindS peekT (\<lambda>tok.
    if it_Typ tok = itemError then
      bindS nextT (\<lambda>_. parser_errorf (it_pos tok) (TokenText tok))
    else if it_Typ tok = itemDedent then bindS nextT (\<lambda>_. retS block)
    else if it_Typ tok = itemEOF then retS block
    else if it_Typ tok \<in> {itemNL, itemWS, itemEOLComment} then
      bindS nextT (\<lambda>tok.
      if it_Typ tok = itemNL
      then if sawNL then parseBlockLoop n block [] False else parseBlockLoop n block docs True
      else parseBlockLoop n block docs sawNL)
    else if it_Typ tok = itemComment then
      bindS nextT (\<lambda>tok. parseBlockLoop n block (docs @ [it_Val tok]) False)
    else if it_Typ tok = itemIf then
      bindS (parseIf n (parseStmts n [] [])) (\<lambda>ifStmt. parseBlockLoop n (block @ [stmt ifStmt]) [] False)
    else if it_Typ tok = itemFor then
      bindS (parseFor n (parseStmts n [] [])) (\<lambda>forStmt. parseBlockLoop n (block @ [stmt forStmt]) [] False)
    else if it_Typ tok = itemTry then
      bindS (parseTry n (parseStmts n [] [])) (\<lambda>tryStmt. parseBlockLoop n (block @ [stmt tryStmt]) [] False)
    else if it_Typ tok = itemWith then
      bindS (parseWith n (parseStmts n [] [])) (\<lambda>withStmt. parseBlockLoop n (block @ [stmt withStmt]) docs False)
    else if it_Typ tok = itemWait then
      bindS (parseWait n (parseStmts n [] [])) (\<lambda>waitStmt. parseBlockLoop n (block @ [stmt waitStmt]) [] False)
    else if recipeCommandToken (it_Typ tok) then
      bindS (parseCommand n) (\<lambda>cmd. parseBlockLoop n (block @ [stmt (KCommand (docs_command docs cmd))]) [] False)
    else parser_errorf (it_pos tok) (UnexpectedInRecipe tok))"

definition parseBlock :: "nat \<Rightarrow> Block P" where
  "parseBlock n =
    bindS (parseBlockIndent n []) (\<lambda>start.
    case start of
      None \<Rightarrow> retS []
    | Some docs \<Rightarrow> parseBlockLoop n [] docs False)"

definition parseTarget :: "nat \<Rightarrow> Target P" where
  "parseTarget n =
    bindS nextT (\<lambda>tok.
    bindS (parseBlock n) (\<lambda>block.
    bindS peekT (\<lambda>e.
    retS \<lparr>tgt_SourceLocation = Some (ends_at (start_loc tok) (end_loc e)),
          tgt_Name = TrimSuffix (it_Val tok) '':'', tgt_Docs = [], tgt_Recipe = block\<rparr>)))"

definition parseFunction :: "nat \<Rightarrow> Function P" where
  "parseFunction n =
    bindS peekT (\<lambda>t.
    bindS nextT (\<lambda>_.
    bindS (parseBlock n) (\<lambda>block.
    retS \<lparr>fn_SourceLocation = Some (start_loc t), fn_Name = it_Val t, fn_Recipe = block\<rparr>)))"

section \<open>The file\<close>

definition isFunctionTarget :: "Target \<Rightarrow> bool" where
  "isFunctionTarget t \<longleftrightarrow>
    (case tgt_Recipe t of
       Statement _ (KCommand c) # _ \<Rightarrow> cmd_Name c = CmdCommand \<or> cmd_Name c = CmdFunction
     | _ \<Rightarrow> False)"

definition target_function :: "Target \<Rightarrow> Function" where
  "target_function t =
    \<lparr>fn_SourceLocation = tgt_SourceLocation t, fn_Name = tgt_Name t, fn_Recipe = tgt_Recipe t\<rparr>"

text \<open>At the end of the file, targets whose recipe starts with COMMAND or FUNCTION become
  functions.\<close>

definition splitTargets :: "Tree \<Rightarrow> Tree" where
  "splitTargets ef = ef\<lparr>
     tree_Functions := tree_Functions ef @ map target_function (filter isFunctionTarget (tree_Targets ef)),
     tree_Targets := filter (\<lambda>t. \<not> isFunctionTarget t) (tree_Targets ef)\<rparr>"

definition add_stmt :: "Tree \<Rightarrow> StatementKind \<Rightarrow> Tree" where
  "add_stmt ef k = ef\<lparr>tree_BaseRecipe := tree_BaseRecipe ef @ [stmt k]\<rparr>"

primrec parseEarthfileLoop :: "nat \<Rightarrow> Tree \<Rightarrow> string list \<Rightarrow> bool \<Rightarrow> Tree P" where
  "parseEarthfileLoop 0 ef docs sawNL = failS NoResult"
| "parseEarthfileLoop (Suc n) ef docs sawNL =
    bindS peekT (\<lambda>token.
    if it_Typ token = itemEOF then bindS nextT (\<lambda>_. retS (splitTargets ef))
    else if it_Typ token = itemError then
      bindS nextT (\<lambda>_. parser_errorf (it_pos token) (TokenText token))
    else if it_Typ token \<in> {itemNL, itemWS, itemEOLComment} then
      bindS nextT (\<lambda>tok.
      if it_Typ tok = itemNL
      then if sawNL then parseEarthfileLoop n ef [] False else parseEarthfileLoop n ef docs True
      else parseEarthfileLoop n ef docs sawNL)
    else if it_Typ token = itemComment then
      bindS nextT (\<lambda>tok. parseEarthfileLoop n ef (docs @ [it_Val tok]) False)
    else if it_Typ token = itemVersion then
      if it_Col token > 1 then parser_errorf (it_pos token) VersionColumn
      else bindS (parseVersion n) (\<lambda>version.
        parseEarthfileLoop n (ef\<lparr>tree_Version := Some version\<rparr>) [] False)
    else if it_Typ token = itemTarget then
      if it_Col token > 1 then parser_errorf (it_pos token) TargetColumn
      else bindS (parseTarget n) (\<lambda>target.
        let target' = (if docs \<noteq> [] then target\<lparr>tgt_Docs := computeDocs docs\<rparr> else target) in
        parseEarthfileLoop n (ef\<lparr>tree_Targets := tree_Targets ef @ [target']\<rparr>) [] False)
    else if it_Typ token \<in> {itemFunction, itemUserCommand} then
      if it_Col token > 1 then parser_errorf (it_pos token) FunctionColumn
      else bindS (parseFunction n) (\<lambda>fn.
        parseEarthfileLoop n (ef\<lparr>tree_Functions := tree_Functions ef @ [fn]\<rparr>) docs False)
    else if it_Typ token = itemIf then
      bindS (parseIf n (parseStmts n [] [])) (\<lambda>k. parseEarthfileLoop n (add_stmt ef k) docs False)
    else if it_Typ token = itemWith then
      bindS (parseWith n (parseStmts n [] [])) (\<lambda>k. parseEarthfileLoop n (add_stmt ef k) docs False)
    else if it_Typ token = itemFor then
      bindS (parseFor n (parseStmts n [] [])) (\<lambda>k. parseEarthfileLoop n (add_stmt ef k) docs False)
    else if it_Typ token = itemTry then
      bindS (parseTry n (parseStmts n [] [])) (\<lambda>k. parseEarthfileLoop n (add_stmt ef k) docs sawNL)
    else if it_Typ token = itemWait then
      bindS (parseWait n (parseStmts n [] [])) (\<lambda>k. parseEarthfileLoop n (add_stmt ef k) docs sawNL)
    else if isCommandToken (it_Typ token) then
      if it_Col token > 1 then parser_errorf (it_pos token) CommandColumn
      else bindS (parseCommand n) (\<lambda>cmd.
        parseEarthfileLoop n (add_stmt ef (KCommand (docs_command docs cmd))) [] sawNL)
    else parser_errorf (it_pos token) (UnexpectedTopLevel token))"

definition parseEarthfile :: "nat \<Rightarrow> Tree P" where
  "parseEarthfile n = parseEarthfileLoop n empty_tree [] False"

definition parse_fuel :: "string \<Rightarrow> nat" where
  "parse_fuel text = 12 * length text + 8"

definition finish_parse :: "bool \<Rightarrow> string \<Rightarrow> Tree \<Rightarrow> parse_error + Tree" where
  "finish_parse enableSourceMap name ef =
    (let ef' = (if enableSourceMap then setSourceLocationFile ef name else removeSourceLocations ef);
         err = validateAst ef'
     in if err \<noteq> [] then Inl (ValidationIssues err) else Inr ef')"

definition Parse :: "bool \<Rightarrow> string \<Rightarrow> string \<Rightarrow> parse_error + Tree" where
  "Parse enableSourceMap name text =
    (case parseEarthfile (parse_fuel text) (new_parser name text) of
       Inl err \<Rightarrow> Inl err
     | Inr (ef, _) \<Rightarrow> finish_parse enableSourceMap name ef)"

end
