(* ===== verification/Lexer_Invariant.thy ===== *)
theory Lexer_Invariant
  imports Earthfile_Lexer
begin

text \<open>
  The invariant of the scanner and what every state function does to it. \<open>lex_base\<close> is the
  invariant of the record; \<open>ext k l l'\<close> says that \<open>l'\<close> keeps it and that at most \<open>k\<close> tokens
  were put into the buffer, each of them an exact slice of the input at its recorded
  position, in order and without overlap. \<open>lex_pot\<close> bounds the work left.
\<close>

section \<open>Tokens of an input\<close>

definition item_ok :: "string \<Rightarrow> item \<Rightarrow> bool" where
  "item_ok s it \<longleftrightarrow>
    reach s (it_pos it) (it_Line it) (it_Col it) \<and>
    it_pos it + length (it_Val it) \<le> length s \<and>
    it_Val it = slice s (it_pos it) (it_pos it + length (it_Val it))"

text \<open>\<open>tokens_ok s lo its hi\<close>: the tokens \<open>its\<close> lie in order between \<open>lo\<close> and \<open>hi\<close>.\<close>

fun tokens_ok :: "string \<Rightarrow> nat \<Rightarrow> item list \<Rightarrow> nat \<Rightarrow> bool" where
  "tokens_ok s lo [] hi \<longleftrightarrow> lo \<le> hi"
| "tokens_ok s lo (it # its) hi \<longleftrightarrow>
    item_ok s it \<and> lo \<le> it_pos it \<and> tokens_ok s (it_pos it + length (it_Val it)) its hi"

lemma tokens_ok_le: "tokens_ok s lo its hi \<Longrightarrow> lo \<le> hi"
  by (induction its arbitrary: lo) fastforce+

lemma tokens_ok_append:
  "tokens_ok s lo its mid \<Longrightarrow> tokens_ok s mid its' hi \<Longrightarrow> tokens_ok s lo (its @ its') hi"
proof (induction its arbitrary: lo)
  case Nil
  then show ?case by (cases its') auto
qed auto

lemma tokens_ok_mono: "tokens_ok s lo its hi \<Longrightarrow> hi \<le> hi' \<Longrightarrow> tokens_ok s lo its hi'"
  by (induction its arbitrary: lo) auto

section \<open>The invariant of the record\<close>

definition lex_base :: "lexer \<Rightarrow> bool" where
  "lex_base l \<longleftrightarrow>
    l_start l \<le> l_pos l \<and> l_pos l \<le> length (l_input l) \<and>
    reach (l_input l) (l_pos l) (l_line l) (l_col l) \<and>
    reach (l_input l) (l_start l) (l_startLine l) (l_startCol l) \<and>
    length (l_itemsArr l) = 32 \<and> length (l_indentArr l) = 16 \<and>
    (l_indentLen l = 1 \<or> l_indentLen l = 2)"

definition ext :: "nat \<Rightarrow> lexer \<Rightarrow> lexer \<Rightarrow> bool" where
  "ext k l l' \<longleftrightarrow>
    lex_base l' \<and> l_input l' = l_input l \<and> l_itemsStart l' = l_itemsStart l \<and>
    l_itemsEnd l \<le> l_itemsEnd l' \<and> l_itemsEnd l' \<le> l_itemsEnd l + k \<and>
    take (l_itemsEnd l) (l_itemsArr l') = take (l_itemsEnd l) (l_itemsArr l) \<and>
    l_pos l \<le> l_pos l' \<and>
    tokens_ok (l_input l) (l_start l) (slice (l_itemsArr l') (l_itemsEnd l) (l_itemsEnd l')) (l_start l')"

lemma extD:
  assumes "ext k l l'"
  shows "lex_base l'" "l_input l' = l_input l" "l_itemsStart l' = l_itemsStart l"
    "l_itemsEnd l' \<le> l_itemsEnd l + k" "l_itemsEnd l \<le> l_itemsEnd l'" "l_pos l \<le> l_pos l'"
  using assms by (simp_all add: ext_def)

lemma ext_rest: "ext k l l' \<Longrightarrow> rest l' \<le> rest l"
  by (simp add: ext_def rest_def diff_le_mono2)

lemma ext_refl: "lex_base l \<Longrightarrow> ext 0 l l"
  by (simp add: ext_def)

lemma ext_weaken: "ext k l l' \<Longrightarrow> k \<le> m \<Longrightarrow> ext m l l'"
  by (auto simp: ext_def)

lemma take_take_eq: "i \<le> j \<Longrightarrow> take j xs = take j ys \<Longrightarrow> take i xs = take i ys"
  by (metis min.absorb1 take_take)

lemma ext_trans:
  assumes "ext k l l1" "ext m l1 l2"
  shows "ext (k + m) l l2"
proof -
  have e: "l_itemsEnd l \<le> l_itemsEnd l1" "l_itemsEnd l1 \<le> l_itemsEnd l2"
    using assms by (simp_all add: ext_def)
  have t: "take (l_itemsEnd l1) (l_itemsArr l2) = take (l_itemsEnd l1) (l_itemsArr l1)"
    using assms(2) by (simp add: ext_def)
  have "slice (l_itemsArr l2) (l_itemsEnd l) (l_itemsEnd l1)
      = slice (l_itemsArr l1) (l_itemsEnd l) (l_itemsEnd l1)"
    using t by (simp add: slice_def)
  then have "slice (l_itemsArr l2) (l_itemsEnd l) (l_itemsEnd l2) =
      slice (l_itemsArr l1) (l_itemsEnd l) (l_itemsEnd l1) @
      slice (l_itemsArr l2) (l_itemsEnd l1) (l_itemsEnd l2)"
    using slice_append [OF e] by metis
  moreover have "tokens_ok (l_input l) (l_start l)
      (slice (l_itemsArr l1) (l_itemsEnd l) (l_itemsEnd l1)) (l_start l1)"
    and "tokens_ok (l_input l) (l_start l1)
      (slice (l_itemsArr l2) (l_itemsEnd l1) (l_itemsEnd l2)) (l_start l2)"
    using assms by (simp_all add: ext_def)
  ultimately have "tokens_ok (l_input l) (l_start l)
      (slice (l_itemsArr l2) (l_itemsEnd l) (l_itemsEnd l2)) (l_start l2)"
    by (simp add: tokens_ok_append)
  moreover have "take (l_itemsEnd l) (l_itemsArr l2) = take (l_itemsEnd l) (l_itemsArr l)"
    using assms(1) take_take_eq [OF e(1) t] by (simp add: ext_def)
  ultimately show ?thesis using assms e by (simp add: ext_def)
qed

lemma ext_adv:
  assumes "ext k l l1" "adv l1 l2"
  shows "ext k l l2"
proof -
  have "lex_base l1" using assms(1) by (rule extD)
  then have "lex_base l2" using assms(2) adv_fields [OF assms(2)]
    by (auto simp: lex_base_def adv_def)
  then have "ext 0 l1 l2"
    using adv_fields [OF assms(2)] by (simp add: ext_def)
  then show ?thesis using ext_trans [OF assms(1)] by fastforce
qed

lemma ext_set_start:
  assumes "ext k l l1"
  shows "ext k l (set_start l1)"
proof -
  have "lex_base l1" using assms by (rule extD)
  then have "ext 0 l1 (set_start l1)"
    by (simp add: ext_def lex_base_def)
  then show ?thesis using ext_trans [OF assms] by fastforce
qed

lemma ext_lignore: "ext k l l1 \<Longrightarrow> ext k l (lignore l1)"
  by (simp add: lignore_def ext_set_start)

lemma ext_indent:
  assumes "ext k l l1" "n = 1 \<or> n = 2" "length a = 16"
  shows "ext k l (l1\<lparr>l_indentArr := a, l_indentLen := n\<rparr>)"
proof -
  have "lex_base l1" using assms(1) by (rule extD)
  then have "ext 0 l1 (l1\<lparr>l_indentArr := a, l_indentLen := n\<rparr>)"
    using assms(2,3) by (simp add: ext_def lex_base_def)
  then show ?thesis using ext_trans [OF assms(1)] by fastforce
qed

lemma ext_resetIndent: "ext k l l1 \<Longrightarrow> ext k l (resetIndent l1)"
  using ext_indent [of k l l1 1 "(l_indentArr l1)[0 := 0]"] extD(1) [of k l l1]
  by (simp add: resetIndent_def lex_base_def)

lemma ext_indentLen:
  "ext k l l1 \<Longrightarrow> n = 1 \<or> n = 2 \<Longrightarrow> ext k l (l1\<lparr>l_indentLen := n\<rparr>)"
  using ext_indent [of k l l1 n "l_indentArr l1"] extD(1) [of k l l1]
  by (simp add: lex_base_def)

lemma ext_keyValueCmdType: "ext k l l1 \<Longrightarrow> ext k l (l1\<lparr>l_keyValueCmdType := c\<rparr>)"
  by (auto simp: ext_def lex_base_def)

text \<open>Putting a token into the buffer: there is room as long as fewer than 32 tokens are
  pending, so no token is lost.\<close>

lemma ext_push_item:
  assumes "ext k l l1" "l_itemsEnd l + k < 32" "item_ok (l_input l) it"
    "it_pos it = l_start l1" "it_pos it + length (it_Val it) \<le> l_start l2"
    "l2 = (push_item it l1)\<lparr>l_start := l_start l2, l_startLine := l_startLine l2,
             l_startCol := l_startCol l2, l_isStartOfLine := b\<rparr>" "lex_base l2"
  shows "ext (Suc k) l l2"
proof -
  have b: "lex_base l1" and room: "l_itemsEnd l1 < 32"
    using assms(1,2) by (auto simp: ext_def)
  then have p: "push_item it l1 =
      l1\<lparr>l_itemsArr := (l_itemsArr l1)[l_itemsEnd l1 := it], l_itemsEnd := l_itemsEnd l1 + 1\<rparr>"
    by (simp add: push_item_def lex_base_def)
  have f: "l_input l2 = l_input l1" "l_itemsStart l2 = l_itemsStart l1" "l_pos l2 = l_pos l1"
    "l_itemsArr l2 = (l_itemsArr l1)[l_itemsEnd l1 := it]" "l_itemsEnd l2 = l_itemsEnd l1 + 1"
    by (subst assms(6), simp add: p)+
  have "slice (l_itemsArr l2) (l_itemsEnd l1) (l_itemsEnd l2) = [it]"
    using b room f by (simp add: slice_snoc_nth lex_base_def)
  then have "ext 1 l1 l2"
    using assms(3,4,5,7) f extD(2) [OF assms(1)] by (simp add: ext_def)
  then show ?thesis using ext_trans [OF assms(1)] by fastforce
qed

lemma ext_emit:
  assumes "ext k l l1" "l_itemsEnd l + k < 32"
  shows "ext (Suc k) l (emit t l1)"
proof -
  have b: "lex_base l1" using assms(1) by (rule extD)
  let ?it = "\<lparr>it_Val = slice (l_input l1) (l_start l1) (l_pos l1), it_Typ = t,
    it_pos = l_start l1, it_Line = l_startLine l1, it_Col = l_startCol l1, it_Err = None\<rparr>"
  have i: "l_input l1 = l_input l" using assms(1) by (rule extD)
  have len: "l_start l1 + length (slice (l_input l1) (l_start l1) (l_pos l1)) = l_pos l1"
    using b by (simp add: length_slice lex_base_def)
  have ok: "item_ok (l_input l) ?it"
    using b len i by (simp add: item_ok_def lex_base_def)
  have b': "lex_base (emit t l1)"
    using b by (simp add: lex_base_def emit_def Let_def push_item_def)
  show ?thesis
    by (rule ext_push_item [OF assms ok, where b = "l_isStartOfLine (emit t l1)"])
      (use len b' in \<open>simp_all add: emit_def Let_def set_start_def push_item_def\<close>)
qed

lemma ext_emitAtom:
  "ext k l l1 \<Longrightarrow> l_itemsEnd l + k < 32 \<Longrightarrow> ext (Suc k) l (emitAtom l1)"
  using ext_emit [of k l l1 itemAtom] ext_weaken [of k l l1 "Suc k"] by (simp add: emitAtom_def)

lemma ext_errorf:
  assumes "ext k l l1" "l_itemsEnd l + k < 32"
  shows "ext (Suc k) l (snd (errorf e l1))"
proof -
  have b: "lex_base l1" using assms(1) by (rule extD)
  have i: "l_input l1 = l_input l" using assms(1) by (rule extD)
  let ?it = "\<lparr>it_Val = [], it_Typ = itemError, it_pos = l_start l1,
             it_Line = l_startLine l1, it_Col = l_startCol l1, it_Err = Some e\<rparr>"
  have ok: "item_ok (l_input l) ?it"
    using b i by (simp add: item_ok_def lex_base_def)
  have b': "lex_base (push_item ?it l1)"
    using b by (simp add: lex_base_def push_item_def)
  have "ext (Suc k) l (push_item ?it l1)"
    by (rule ext_push_item [OF assms ok, where b = "l_isStartOfLine (push_item ?it l1)"])
      (use b' in simp_all)
  then show ?thesis by (simp add: errorf_def)
qed

lemma ext_dedentAll:
  assumes "ext k l l1" "l_itemsEnd l + k < 32"
  shows "ext (Suc k) l (dedentAll l1)"
proof -
  have "lex_base l1" using assms(1) by (rule extD)
  then consider "l_indentLen l1 = 1" | "l_indentLen l1 = 2" by (auto simp: lex_base_def)
  then show ?thesis
  proof cases
    case 1
    then have "dedentAll l1 = l1" by (subst dedentAll.simps) simp
    then show ?thesis using ext_weaken [OF assms(1)] by simp
  next
    case 2
    let ?m = "emit itemDedent (l1\<lparr>l_indentLen := 1\<rparr>)"
    have "dedentAll ?m = ?m" by (subst dedentAll.simps) simp
    then have "dedentAll l1 = ?m" using 2 by (simp add: dedentAll.simps [of l1])
    then show ?thesis
      using ext_emit [OF ext_indentLen [OF assms(1), of 1] assms(2)] by simp
  qed
qed

lemma ext_lexConsumeComment:
  "ext k l l1 \<Longrightarrow> l_itemsEnd l + k < 32 \<Longrightarrow> ext (Suc k) l (lexConsumeComment l1)"
  using ext_emit [OF ext_adv [OF _ adv_trans [OF adv_consume adv_next_while]], of k l l1]
  by (simp add: lexConsumeComment_def Let_def)

lemmas ext_steps = ext_emit ext_emitAtom ext_errorf ext_dedentAll ext_lexConsumeComment
  ext_lignore ext_resetIndent ext_keyValueCmdType

section \<open>What the state functions promise\<close>

text \<open>What holds when a state function starts: the pending text is empty except while
  arguments are read, and the states that were chosen for the next rune find it there.\<close>

primrec state_pre :: "stateFn \<Rightarrow> lexer \<Rightarrow> bool" where
  "state_pre LexDefault l \<longleftrightarrow> l_start l = l_pos l"
| "state_pre LexSpace l \<longleftrightarrow> l_start l = l_pos l \<and> isSpace (peek l)"
| "state_pre LexNL l \<longleftrightarrow> l_start l = l_pos l \<and> isEndOfLine (peek l)"
| "state_pre LexIdentifier l \<longleftrightarrow> l_start l = l_pos l \<and> peek l \<noteq> eof"
| "state_pre LexRecipe l \<longleftrightarrow> l_start l = l_pos l"
| "state_pre LexCommandKeyword l \<longleftrightarrow> l_start l = l_pos l"
| "state_pre LexRecipeCommandArgs l \<longleftrightarrow> True"
| "state_pre LexRecipeSpaceArgs l \<longleftrightarrow> l_start l = l_pos l \<and> isSpace (peek l)"
| "state_pre LexKeyValueCommandArgs l \<longleftrightarrow> l_start l = l_pos l"
| "state_pre LexGlobalCommandArgs l \<longleftrightarrow> True"
| "state_pre LexGlobalSpaceArgs l \<longleftrightarrow> l_start l = l_pos l \<and> isSpace (peek l)"

primrec state_rank :: "stateFn \<Rightarrow> nat" where
  "state_rank LexDefault = 6"
| "state_rank LexSpace = 4"
| "state_rank LexNL = 4"
| "state_rank LexIdentifier = 5"
| "state_rank LexRecipe = 8"
| "state_rank LexCommandKeyword = 4"
| "state_rank LexRecipeCommandArgs = 6"
| "state_rank LexRecipeSpaceArgs = 4"
| "state_rank LexKeyValueCommandArgs = 7"
| "state_rank LexGlobalCommandArgs = 6"
| "state_rank LexGlobalSpaceArgs = 4"

definition lex_pot :: "stateFn option \<Rightarrow> lexer \<Rightarrow> nat" where
  "lex_pot so l = (case so of None \<Rightarrow> 0 | Some st \<Rightarrow> 12 * rest l + state_rank st)"

lemma lex_pot_simps [simp]:
  "lex_pot None l = 0" "lex_pot (Some st) l = 12 * rest l + state_rank st"
  by (simp_all add: lex_pot_def)

definition next_pre :: "stateFn option \<Rightarrow> lexer \<Rightarrow> bool" where
  "next_pre so l \<longleftrightarrow> (case so of None \<Rightarrow> True | Some st \<Rightarrow> state_pre st l)"

lemma next_pre_simps [simp]: "next_pre None l" "next_pre (Some st) l = state_pre st l"
  by (simp_all add: next_pre_def)

text \<open>\<open>step_ok b l (so, l')\<close>: from \<open>l\<close>, a state function that had \<open>b\<close> units of work to spend ends
  in \<open>l'\<close>, and every token it put out and every step still to come is paid for.\<close>

definition step_ok :: "nat \<Rightarrow> lexer \<Rightarrow> next_state \<Rightarrow> bool" where
  "step_ok b l res \<longleftrightarrow>
    ext 3 l (snd res) \<and> next_pre (fst res) (snd res) \<and>
    lex_pot (fst res) (snd res) + (l_itemsEnd (snd res) - l_itemsEnd l) < b"

lemma step_okI:
  assumes "ext k l l'" "k \<le> 3" "next_pre so l'" "lex_pot so l' + k < b"
  shows "step_ok b l (so, l')"
  using assms ext_weaken [OF assms(1,2)] extD(4) [OF assms(1)] by (auto simp: step_ok_def)

lemma step_ok_errorf:
  "ext k l l1 \<Longrightarrow> l_itemsEnd l + k < 32 \<Longrightarrow> k \<le> 2 \<Longrightarrow> Suc k < b \<Longrightarrow> step_ok b l (errorf e l1)"
  using ext_errorf [of k l l1 e] by (simp add: errorf_def step_okI)

lemma rest_emit [simp]: "rest (emit t l) = rest l" "rest (emitAtom l) = rest l"
  "rest (set_start l) = rest l" "rest (resetIndent l) = rest l"
  by (simp_all add: rest_def resetIndent_def)

lemma resetIndent_fields [simp]:
  "l_start (resetIndent l) = l_start l" "l_pos (resetIndent l) = l_pos l"
  by (simp_all add: resetIndent_def)

lemma peek_cong: "l_input l' = l_input l \<Longrightarrow> l_pos l' = l_pos l \<Longrightarrow> peek l' = peek l"
  by (simp add: peek_def Let_def)

lemma peek_emit [simp]: "peek (emit t l) = peek l" "peek (emitAtom l) = peek l"
  "peek (set_start l) = peek l"
  by (rule peek_cong; simp)+

lemma peek_byte:
  assumes "rn c < 128"
  shows "peek l = rn c \<longleftrightarrow> l_pos l < length (l_input l) \<and> l_input l ! l_pos l = c"
proof (cases "l_pos l < length (l_input l)")
  case True
  then show ?thesis
    using assms DecodeRune_nonascii [of "l_input l ! l_pos l" "drop (Suc (l_pos l)) (l_input l)"]
    by (auto simp: peek_def Let_def drop_nth_Cons of_char_eq_iff_int)
next
  case False
  moreover have "rn c \<noteq> - 1" using of_char_nonneg [of c] by (simp del: of_char_nonneg)
  ultimately show ?thesis by (simp add: peek_def)
qed

lemma isSpace_peek:
  "isSpace (peek l) \<longleftrightarrow> l_pos l < length (l_input l) \<and> space_byte (l_input l ! l_pos l)"
  using peek_byte [of ch_space l] peek_byte [of ch_tab l]
  by (auto simp: isSpace_def space_byte_def)

lemma rest_skipSpace: "isSpace (peek l) \<Longrightarrow> rest (skipSpace l) < rest l"
proof -
  assume "isSpace (peek l)"
  then have c: "l_pos l < length (l_input l) \<and> space_byte (l_input l ! l_pos l)"
    by (simp only: isSpace_peek)
  let ?l1 = "l\<lparr>l_pos := l_pos l + 1, l_col := l_col l + 1\<rparr>"
  have "rest (skipSpace ?l1) \<le> rest ?l1" by (rule adv_rest [OF adv_skipSpace])
  moreover have "rest ?l1 < rest l" using c by (auto simp: rest_def)
  moreover have "skipSpace l = skipSpace ?l1" using c by (simp add: skipSpace.simps [of l])
  ultimately show ?thesis by simp
qed

lemma rest_next_eol: "peek l \<noteq> eof \<Longrightarrow> rest (next_eol l) < rest l"
  by (rule adv_rest_consume [OF _ adv_from_consume_next_eol])

lemma rest_lexConsumeComment: "peek l \<noteq> eof \<Longrightarrow> rest (lexConsumeComment l) < rest l"
  by (simp add: lexConsumeComment_def Let_def adv_rest_consume [OF _ adv_next_while])

lemma isEndOfLine_eof: "isEndOfLine r \<Longrightarrow> r \<noteq> eof"
  by (auto simp: isEndOfLine_def)

section \<open>The state functions keep the invariant\<close>

lemma lexDefault_ok:
  assumes "lex_base l" "l_itemsEnd l = 0" "l_start l = l_pos l"
  shows "step_ok (12 * rest l + 6) l (lexDefault l)"
proof -
  note e0 = ext_refl [OF assms(1)]
  have e: "ext 1 l (emit itemEOF l)" "ext 1 l (lexConsumeComment l)"
    using ext_emit [OF e0] ext_lexConsumeComment [OF e0] assms(2) by simp_all
  show ?thesis
    using assms(3) e0 e rest_lexConsumeComment [of l]
    by (auto simp: lexDefault_def Let_def lexConsumeComment_def intro!: step_okI)
qed

lemma lexSpace_ok:
  assumes "lex_base l" "l_itemsEnd l = 0" "isSpace (peek l)"
  shows "step_ok (12 * rest l + 4) l (lexSpace l)"
    "step_ok (12 * rest l + 4) l (lexRecipeSpaceArgs l)"
    "step_ok (12 * rest l + 4) l (lexGlobalSpaceArgs l)"
proof -
  have "ext 1 l (emit itemWS (skipSpace l))"
    using ext_emit [OF ext_adv [OF ext_refl [OF assms(1)] adv_skipSpace]] assms(2) by simp
  then show "step_ok (12 * rest l + 4) l (lexSpace l)"
    "step_ok (12 * rest l + 4) l (lexRecipeSpaceArgs l)"
    "step_ok (12 * rest l + 4) l (lexGlobalSpaceArgs l)"
    using rest_skipSpace [OF assms(3)]
    by (auto simp: lexSpace_def lexRecipeSpaceArgs_def lexGlobalSpaceArgs_def intro!: step_okI)
qed

lemma lexNL_ok:
  assumes "lex_base l" "l_itemsEnd l = 0" "isEndOfLine (peek l)"
  shows "step_ok (12 * rest l + 4) l (lexNL l)"
proof -
  have "ext 1 l (emit itemNL (next_eol l))"
    using ext_emit [OF ext_adv [OF ext_refl [OF assms(1)] adv_next_eol]] assms(2) by simp
  then show ?thesis
    using rest_next_eol [OF isEndOfLine_eof [OF assms(3)]]
    by (auto simp: lexNL_def intro!: step_okI)
qed

lemma lexUserCommandOrFunction_ok:
  assumes "lex_base l" "ext 0 l l1" "l_itemsEnd l = 0" "rest l1 < rest l"
  shows "step_ok (12 * rest l + 5) l (lexUserCommandOrFunction l1 v)"
proof -
  let ?P = "\<lambda>r. isAlphaNumeric r \<or> r = rn (CHR ''-'') \<or> r = rn (CHR ''_'')"
  let ?l2 = "next_while ?P (consume l1)"
  let ?l3 = "if peek ?l2 = rn (CHR '':'') then consume ?l2 else ?l2"
  have a: "adv l1 ?l3"
    using adv_trans [OF adv_consume adv_next_while, of l1 ?P] adv_trans [OF _ adv_consume]
    by presburger
  then have "ext 1 l (resetIndent (emit t ?l3))" for t
    using ext_resetIndent [OF ext_emit [OF ext_adv [OF assms(2) a]]] assms(3) by simp
  moreover have "rest ?l3 < rest l" using adv_rest [OF a] assms(4) by simp
  ultimately show ?thesis
    by (auto simp: lexUserCommandOrFunction_def Let_def intro!: step_okI [where k = 1])
qed

lemma lexIdentifier_ok:
  assumes "lex_base l" "l_itemsEnd l = 0" "l_start l = l_pos l" "peek l \<noteq> eof"
  shows "step_ok (12 * rest l + 5) l (lexIdentifier l)"
proof -
  note e0 = ext_refl [OF assms(1)]
  let ?l2 = "next_while ident_rune (consume l)"
  have a: "adv l ?l2" by (rule adv_trans [OF adv_consume adv_next_while])
  note f = adv_fields [OF a]
  have r: "rest ?l2 < rest l" by (rule adv_rest_consume [OF assms(4) adv_next_while])
  have e2: "ext 0 l ?l2" by (rule ext_adv [OF e0 a])
  have e3: "ext 0 l (consume ?l2)" by (rule ext_adv [OF e2 adv_consume])
  have em: "ext 1 l (emit t ?l2)" "ext 1 l (resetIndent (emit t (consume ?l2)))" for t
    using ext_emit [OF e2] ext_resetIndent [OF ext_emit [OF e3]] assms(2) by simp_all
  have r3: "rest (consume ?l2) < rest l" using r adv_rest [OF adv_consume, of ?l2] by simp
  let ?restored = "?l2\<lparr>l_pos := l_start ?l2, l_col := l_startCol ?l2, l_line := l_startLine ?l2\<rparr>"
  have eb: "ext 0 l ?restored"
    using assms(1,3) f by (auto simp: ext_def lex_base_def)
  have rb: "rest ?restored = rest l" using assms(3) f by (simp add: rest_def)
  have err: "step_ok (12 * rest l + 5) l (errorf e (consume l))" for e
    using step_ok_errorf [OF ext_adv [OF e0 adv_consume]] assms(2) by simp
  have steps: "step_ok (12 * rest l + 5) l (Some LexGlobalCommandArgs, emit t ?l2)"
    "step_ok (12 * rest l + 5) l (Some LexRecipe, resetIndent (emit t (consume ?l2)))"
    "step_ok (12 * rest l + 5) l (Some LexCommandKeyword, ?restored)" for t
    using r r3 rb em(1) [of t] em(2) [of t] eb
    by (auto intro: step_okI [where k = 1] step_okI [where k = 0])
  show ?thesis
    unfolding lexIdentifier_def Let_def
    using steps err lexUserCommandOrFunction_ok [OF assms(1) e2 assms(2) r]
    by (simp split: if_split)
qed

lemma lexRecipeBody_ok:
  assumes "ext 1 l l1" "l_itemsEnd l = 0" "l_start l1 = l_pos l1"
  shows "step_ok (12 * rest l + 8) l (lexRecipeBody l1)"
proof -
  have r: "rest l1 \<le> rest l" using assms(1) by (rule ext_rest)
  have e: "ext 3 l (emit itemEOF (dedentAll l1))" "ext 2 l (emit itemWS (skipSpace l1))"
    "ext 2 l (emit itemNL (next_eol l1))" "ext 2 l (lexConsumeComment l1)"
    using ext_emit [OF ext_dedentAll [OF assms(1)]] ext_emit [OF ext_adv [OF assms(1) adv_skipSpace]]
      ext_emit [OF ext_adv [OF assms(1) adv_next_eol]] ext_lexConsumeComment [OF assms(1)] assms(2)
    by (simp_all add: numeral_eq_Suc)
  show ?thesis
    unfolding lexRecipeBody_def Let_def
    using assms(1,3) r e rest_skipSpace [of l1] rest_next_eol [of l1] rest_lexConsumeComment [of l1]
    by (auto intro!: step_okI simp: isEndOfLine_eof lexConsumeComment_def Let_def)
qed

lemma checkIndent_ok:
  assumes "ext 0 l l1" "l_itemsEnd l = 0" "l_start l1 = l_pos l1" "checkIndent n l1 = (so, l2)"
  shows "ext 1 l l2 \<and> l_start l2 = l_pos l2 \<and> rest l2 = rest l1 \<and> (so = None \<or> so = Some LexDefault)"
proof -
  have b: "lex_base l1" using assms(1) by (rule extD)
  have w: "ext 1 l l1" using ext_weaken [OF assms(1)] by simp
  have i: "ext 1 l (lignore l1)" using ext_lignore [OF w] .
  have d: "ext 1 l (emit itemDedent (l1\<lparr>l_indentLen := 1\<rparr>))"
    using ext_emit [OF ext_indentLen [OF assms(1)]] assms(2) by simp
  have u: "ext 1 l (emit itemIndent
      (l1\<lparr>l_indentArr := (l_indentArr l1)[l_indentLen l1 := 1], l_indentLen := l_indentLen l1 + 1\<rparr>))"
    if "\<not> l_indentLen l1 > 1"
    using ext_emit [OF ext_indent [OF assms(1)]] b assms(2) that by (auto simp: lex_base_def)
  have room: "l_indentLen l1 < length (l_indentArr l1)" using b by (auto simp: lex_base_def)
  show ?thesis
    using assms(3,4) w i d u room
    by (auto simp: checkIndent_def Let_def rest_def lignore_def split: if_splits)
qed

lemma lexRecipe_ok:
  assumes "lex_base l" "l_itemsEnd l = 0" "l_start l = l_pos l"
  shows "step_ok (12 * rest l + 8) l (lexRecipe l)"
proof (cases "l_col l = 1")
  case False
  then show ?thesis
    using lexRecipeBody_ok [OF ext_weaken [OF ext_refl [OF assms(1)]] assms(2,3)]
    by (simp add: lexRecipe_def)
next
  case True
  let ?l1 = "skipSpace l" and ?n = "l_pos (skipSpace l) - l_pos l"
  let ?l2 = "if l_pos ?l1 > l_start ?l1 then lignore ?l1 else ?l1"
  have a: "adv l ?l1" by (rule adv_skipSpace)
  note e1 = ext_adv [OF ext_refl [OF assms(1)] a]
  have e2: "ext 0 l ?l2" using e1 ext_lignore [OF e1] by simp
  have s2: "l_start ?l2 = l_pos ?l2"
    using assms(3) adv_fields [OF a] by (auto simp: lignore_def)
  obtain so l3 where c: "checkIndent ?n ?l2 = (so, l3)" by fastforce
  have c': "ext 1 l l3 \<and> l_start l3 = l_pos l3 \<and> rest l3 = rest ?l2 \<and> (so = None \<or> so = Some LexDefault)"
    by (rule checkIndent_ok [OF e2 assms(2) s2 c])
  have r2: "rest ?l2 \<le> rest l" using e2 by (rule ext_rest)
  have "lexRecipe l = (if so \<noteq> None then (so, l3) else lexRecipeBody l3)"
    using True c by (simp add: lexRecipe_def skipSpaceCount_def Let_def)
  moreover have "step_ok (12 * rest l + 8) l (Some LexDefault, l3)"
    using c' r2 by (auto intro!: step_okI)
  moreover have "step_ok (12 * rest l + 8) l (lexRecipeBody l3)"
    using lexRecipeBody_ok [of l l3] c' assms(2) by simp
  ultimately show ?thesis using c' by auto
qed

lemma keyword_nonempty:
  "map_of key_value_keywords v = Some t \<Longrightarrow> v \<noteq> []"
  "map_of command_keywords v = Some t \<Longrightarrow> v \<noteq> []"
  by (auto simp: key_value_keywords_def command_keywords_def)

lemma lexCommandKeyword_ok:
  assumes "lex_base l" "l_itemsEnd l = 0" "l_start l = l_pos l"
  shows "step_ok (12 * rest l + 4) l (lexCommandKeyword l)"
proof -
  define m where "m = next_while isAlphaNumeric l"
  define v where "v = slice (l_input m) (l_start m) (l_pos m)"
  have a: "adv l m" unfolding m_def by (rule adv_next_while)
  note f = adv_fields [OF a]
  note e = ext_adv [OF ext_refl [OF assms(1)] a]
  have room: "l_itemsEnd l + 0 < 32" using assms(2) by simp
  have pos: "v \<noteq> [] \<Longrightarrow> rest m < rest l"
    using f assms(1,3) by (auto simp: v_def slice_eq_Nil_iff rest_def lex_base_def)
  have two: "step_ok (12 * rest l + 4) l (Some LexRecipeCommandArgs, emit t (skip_bytes n m))"
    if "second_word w m" "n = length w" "\<forall>c \<in> set w. rn c < 128 \<and> c \<noteq> ch_nl" "v \<noteq> []" for t w n
  proof -
    have s: "adv m (skip_bytes n m)" using that(1,2,3) by (rule adv_skip_bytes)
    then have "ext 1 l (emit t (skip_bytes n m))"
      using ext_emit [OF ext_adv [OF e s]] room by simp
    then show ?thesis
      using adv_rest [OF s] pos [OF that(4)] by (auto intro!: step_okI [where k = 1])
  qed
  have one: "step_ok (12 * rest l + 4) l (Some LexRecipeCommandArgs, emit t m)" if "v \<noteq> []" for t
    using ext_emit [OF e room] pos [OF that] by (auto intro!: step_okI [where k = 1])
  have kv: "step_ok (12 * rest l + 4) l
      (Some LexKeyValueCommandArgs, emit t (m\<lparr>l_keyValueCmdType := c\<rparr>))" if "v \<noteq> []" for t c
    using ext_emit [OF ext_keyValueCmdType [OF e] room] pos [OF that]
    by (auto intro!: step_okI [where k = 1] simp: rest_def)
  have err: "step_ok (12 * rest l + 4) l (errorf x m)" for x
    using step_ok_errorf [OF e room] by simp
  show ?thesis
  proof (cases "v = []")
    case True
    then have "map_of key_value_keywords v = None" "map_of command_keywords v = None"
      using keyword_nonempty by (metis not_None_eq)+
    then show ?thesis
      unfolding lexCommandKeyword_def Let_def m_def [symmetric] v_def [symmetric]
      using True err by simp
  next
    case False
    note words = two [where w = "'' ARTIFACT''" and n = 9] two [where w = "'' IMAGE''" and n = 6]
      two [where w = "'' CLONE''" and n = 6] two [where w = "'' DOCKERFILE''" and n = 11]
      two [where w = "'' IF''" and n = 3]
    show ?thesis
      unfolding lexCommandKeyword_def Let_def m_def [symmetric] v_def [symmetric]
      by (simp add: False err one kv words split: if_split option.split)
  qed
qed

lemma step_ok_lift:
  assumes "ext 0 l m" "step_ok (12 * rest m + n) m res"
  shows "step_ok (12 * rest l + n) l res"
proof -
  have "ext (0 + 3) l (snd res)"
    using ext_trans [OF assms(1)] assms(2) by (simp add: step_ok_def)
  then show ?thesis
    using assms ext_rest [OF assms(1)] extD(4,5) [OF assms(1)] by (auto simp: step_ok_def)
qed

text \<open>Reading quoted text: the scanner stops with an error or goes on after the text.\<close>

lemma step_ok_body:
  assumes "lex_base l" "l_itemsEnd l = 0" "\<And>e m. x = (e, m) \<Longrightarrow> adv l m"
    and "\<And>m. x = (None, m) \<Longrightarrow> lex_base m \<Longrightarrow> l_itemsEnd m = 0 \<Longrightarrow> step_ok (12 * rest m + 6) m (f m)"
  shows "step_ok (12 * rest l + 6) l (case x of (Some e, m) \<Rightarrow> errorf e m | (None, m) \<Rightarrow> f m)"
proof (cases x)
  case (Pair e m)
  then have m: "ext 0 l m" using ext_adv [OF ext_refl [OF assms(1)] assms(3)] by blast
  show ?thesis
  proof (cases e)
    case None
    have "step_ok (12 * rest m + 6) m (f m)"
      using assms(2,4) Pair None extD [OF m] by simp
    then show ?thesis using Pair None step_ok_lift [OF m] by simp
  next
    case (Some e')
    then show ?thesis using Pair step_ok_errorf [OF m] assms(2) by simp
  qed
qed

lemma lexCommandArgs_ok:
  assumes "lex_base l" "l_itemsEnd l = 0"
  shows "step_ok (12 * rest l + 6) l (lexCommandArgs g l)"
  using assms
proof (induction g l rule: lexCommandArgs.induct)
  case (1 g l)
  note b = "1.prems"(1) and room = "1.prems"(2) and IH = "1.IH"
  note e0 = ext_refl [OF b] and unf = lexCommandArgs.simps [of g l] Let_def
  have go: "step_ok (12 * rest l + 6) l (lexCommandArgs g m)"
    if "ext 0 l m" "lex_base m \<Longrightarrow> l_itemsEnd m = 0 \<Longrightarrow> step_ok (12 * rest m + 6) m (lexCommandArgs g m)" for m
    using step_ok_lift [OF that(1) that(2)] extD [OF that(1)] room by simp
  have atom: "ext 1 l (emitAtom l)" using ext_emitAtom [OF e0] room by simp
  have s: "l_start (emitAtom l) = l_pos l" using b by (auto simp: emitAtom_def lex_base_def)
  consider (eof) "peek l = eof" | (space) "isSpace (peek l)" | (eol) "isEndOfLine (peek l)"
    | (hash) "peek l = rn (CHR ''#'')" | (esc) "peek l = rn ch_bslash" | (dq) "peek l = rn ch_dquote"
    | (sq) "peek l = rn ch_squote" | (sub) "peek l = rn (CHR ''$'')"
    | (other) "peek l \<noteq> eof" "\<not> isSpace (peek l)" "\<not> isEndOfLine (peek l)"
        "peek l \<notin> {rn (CHR ''#''), rn ch_bslash, rn ch_dquote, rn ch_squote, rn (CHR ''$'')}"
    by blast
  then show ?case
  proof cases
    case eof
    have "ext 2 l (emit itemEOF (emitAtom l))"
      using ext_emit [OF atom] room by (simp add: numeral_2_eq_2)
    with eof show ?thesis by (auto simp: unf intro!: step_okI [where k = 2])
  next
    case space
    then have "peek l \<noteq> eof" by (auto simp: isSpace_def)
    with space atom s show ?thesis by (auto simp: unf intro!: step_okI [where k = 1])
  next
    case eol
    have "ext 2 l (emit itemNL (next_eol (emitAtom l)))"
      using ext_emit [OF ext_adv [OF atom adv_next_eol]] room by (simp add: numeral_2_eq_2)
    moreover have "rest (next_eol (emitAtom l)) < rest l"
      using rest_next_eol [of "emitAtom l"] isEndOfLine_eof [OF eol] by simp
    moreover have "\<not> isSpace (peek l)" "peek l \<noteq> eof"
      using eol by (auto simp: isSpace_def isEndOfLine_def)
    ultimately show ?thesis
      using eol atom s by (auto simp: unf intro: step_okI [where k = 1] step_okI [where k = 2])
  next
    case hash
    then have k: "\<not> isSpace (peek l)" "\<not> isEndOfLine (peek l)" "peek l \<noteq> eof"
      by (auto simp: isSpace_def isEndOfLine_def)
    let ?m = "skip_line_rest (consume l)"
    let ?m2 = "if isEndOfLine (peek ?m) then next_eol ?m else ?m"
    have m2: "ext 0 l (lignore ?m2)"
      using ext_lignore [OF ext_adv [OF e0 adv_trans [OF adv_consume adv_next_while]]]
        ext_lignore [OF ext_adv [OF e0 adv_trans [OF adv_trans [OF adv_consume adv_next_while] adv_next_eol]]]
      by simp
    let ?c = "lexConsumeComment (emitAtom l)"
    have c: "ext 2 l ?c" using ext_lexConsumeComment [OF atom] room by (simp add: numeral_2_eq_2)
    have rc: "rest ?c < rest l"
      using rest_lexConsumeComment [of "emitAtom l"] k by simp
    have "step_ok (12 * rest l + 6) l (Some st, if P then next_eol ?c else ?c)"
      if "st = LexGlobalCommandArgs \<or> st = LexRecipeCommandArgs" for st P
      using that c rc ext_adv [OF c adv_next_eol] adv_rest [OF adv_next_eol, of ?c]
      by (auto intro!: step_okI [where k = 2])
    then show ?thesis
      using hash k IH(1,2) go [OF ext_adv [OF e0 adv_consume]] go [OF m2]
      by (simp add: unf)
  next
    case esc
    then have k: "\<not> isSpace (peek l)" "\<not> isEndOfLine (peek l)" "peek l \<noteq> eof"
      by (auto simp: isSpace_def isEndOfLine_def)
    have "ext 0 l (lexConsumeEscapeOrContinuation l)"
      using ext_adv [OF e0 adv_trans [OF adv_consume adv_next_eol]]
        ext_adv [OF e0 adv_trans [OF adv_consume adv_continuationLoop]]
        ext_lignore [OF ext_adv [OF e0 adv_trans [OF adv_consume adv_continuationLoop]]]
      by (simp add: lexConsumeEscapeOrContinuation_def lexConsumeContinuation_def Let_def)
    then show ?thesis using esc k IH(3) go by (simp add: unf)
  next
    case dq
    then have k: "\<not> isSpace (peek l)" "\<not> isEndOfLine (peek l)" "peek l \<noteq> eof"
      by (auto simp: isSpace_def isEndOfLine_def)
    have "step_ok (12 * rest l + 6) l
       (case lexDoubleQuoteBody (consume l) of (Some e, m) \<Rightarrow> errorf e m | (None, m) \<Rightarrow> lexCommandArgs g m)"
      by (rule step_ok_body [OF b room])
        (use adv_trans [OF adv_consume adv_lexDoubleQuoteBody] IH(4) dq k in simp_all)
    then show ?thesis using dq k by (simp add: unf)
  next
    case sq
    then have k: "\<not> isSpace (peek l)" "\<not> isEndOfLine (peek l)" "peek l \<noteq> eof"
      by (auto simp: isSpace_def isEndOfLine_def)
    have "step_ok (12 * rest l + 6) l
       (case lexSingleQuoteBody (consume l) of (Some e, m) \<Rightarrow> errorf e m | (None, m) \<Rightarrow> lexCommandArgs g m)"
      by (rule step_ok_body [OF b room])
        (use adv_trans [OF adv_consume adv_lexSingleQuoteBody_eq] IH(5) sq k in simp_all)
    then show ?thesis using sq k by (simp add: unf)
  next
    case sub
    then have k: "\<not> isSpace (peek l)" "\<not> isEndOfLine (peek l)" "peek l \<noteq> eof"
      by (auto simp: isSpace_def isEndOfLine_def)
    have "step_ok (12 * rest l + 6) l
       (case lexShellOutBody (consume (consume l)) of (Some e, m) \<Rightarrow> errorf e m | (None, m) \<Rightarrow> lexCommandArgs g m)"
      if "peek (consume l) = rn (CHR ''('')"
      by (rule step_ok_body [OF b room])
        (use that adv_trans [OF adv_trans [OF adv_consume adv_consume] adv_lexShellOutBody] IH(6) sub k in simp_all)
    then show ?thesis
      using sub k IH(7) go [OF ext_adv [OF e0 adv_consume]] by (simp add: unf)
  next
    case other
    then show ?thesis using IH(8) go [OF ext_adv [OF e0 adv_consume]] by (simp add: unf)
  qed
qed

lemma rest_skipSpace_moved: "l_start l = l_pos l \<Longrightarrow> lex_base l \<Longrightarrow>
    l_pos (skipSpace l) > l_start (skipSpace l) \<Longrightarrow> rest (skipSpace l) < rest l"
  using adv_fields(1,7) [OF adv_skipSpace [of l]] extD(1) [OF ext_adv [OF ext_refl adv_skipSpace], of l]
  by (auto simp: rest_def lex_base_def)

lemma lexKeyValueCommandArgs_ok:
  assumes "lex_base l" "l_itemsEnd l = 0" "l_start l = l_pos l"
  shows "step_ok (12 * rest l + 7) l (lexKeyValueCommandArgs l)"
proof -
  let ?s = "skipSpace l"
  define m where "m = (if l_pos ?s > l_start ?s then emit itemWS ?s else ?s)"
  define k where "k = (if l_pos ?s > l_start ?s then 1 else 0 :: nat)"
  note es = ext_adv [OF ext_refl [OF assms(1)] adv_skipSpace]
  have e: "ext k l m" and k: "k \<le> 1" and room: "l_itemsEnd l + 2 < 32" "l_itemsEnd l + k < 32"
    using es ext_emit [OF es] assms(2) by (simp_all add: m_def k_def)
  have r: "12 * rest m + k \<le> 12 * rest l"
    using rest_skipSpace_moved [OF assms(3,1)] ext_rest [OF es]
    by (cases "l_pos ?s > l_start ?s") (simp_all add: m_def k_def)
  have sm: "l_start m = l_pos m"
    using assms(3) adv_fields(7,12) [OF adv_skipSpace [of l]] by (auto simp: m_def)
  let ?w = "next_while (\<lambda>r. \<not> key_boundary r)" and ?n = "next_while isAlphaNumeric (consume m)"
  have err: "step_ok (12 * rest l + 7) l (errorf x m')" if "adv m m'" for x m'
    using step_ok_errorf [OF ext_adv [OF e that] room(2)] k by simp
  have stay: "step_ok (12 * rest l + 7) l (Some LexRecipeCommandArgs, m)"
    using e k r by (auto intro!: step_okI [where k = k])
  have flag: "step_ok (12 * rest l + 7) l (Some LexKeyValueCommandArgs, emit itemAtom (?w m))"
    if "peek m = rn (CHR ''-'')"
  proof -
    have "?w m = ?w (consume m)"
      using that by (simp add: next_while.simps [of _ m] key_boundary_def isSpace_def isEndOfLine_def)
    then have "rest (?w m) < rest m"
      using adv_rest_consume [OF _ adv_next_while, of m] that by simp
    moreover have "ext (Suc k) l (emit itemAtom (?w m))"
      using ext_emit [OF ext_adv [OF e adv_next_while] room(2)] .
    ultimately show ?thesis using k r by (auto intro!: step_okI [where k = "Suc k"])
  qed
  have an: "adv m ?n" by (rule adv_trans [OF adv_consume adv_next_while])
  have ke: "ext (Suc k) l (emit itemAtom ?n)"
    using ext_emit [OF ext_adv [OF e an] room(2)] .
  have ve: "ext (Suc (Suc k)) l (emit itemAtom (consume (emit itemAtom ?n)))"
    using ext_emit [OF ext_adv [OF ke adv_consume]] k room by simp
  have key: "step_ok (12 * rest l + 7) l (Some LexRecipeCommandArgs,
       if P then emit itemAtom (consume (emit itemAtom ?n)) else emit itemAtom ?n)"
    if "peek m \<noteq> eof" for P
    using ke ve k r adv_rest_consume [OF that adv_next_while, of isAlphaNumeric]
      adv_rest [OF adv_consume, of "emit itemAtom ?n"]
    by (auto intro: step_okI [where k = "Suc k"] step_okI [where k = "Suc (Suc k)"])
  show ?thesis
    unfolding lexKeyValueCommandArgs_def Let_def m_def [symmetric]
    using err [OF adv_next_while] err [OF adv_trans [OF an adv_next_while]] stay flag key
    by simp
qed

section \<open>One step of the scanner\<close>

theorem run_state_ok:
  assumes "lex_base l" "l_itemsEnd l = 0" "state_pre st l"
  shows "step_ok (lex_pot (Some st) l) l (run_state st l)"
  using assms
  by (cases st)
    (simp_all add: lexDefault_ok lexSpace_ok lexNL_ok lexIdentifier_ok lexRecipe_ok
      lexCommandKeyword_ok lexCommandArgs_ok lexKeyValueCommandArgs_ok
      lexRecipeCommandArgs_def lexGlobalCommandArgs_def)

text \<open>The invariant between calls: \<open>lo\<close> is where the last token handed out ended.\<close>

definition pending :: "lexer \<Rightarrow> item list" where
  "pending l = slice (l_itemsArr l) (l_itemsStart l) (l_itemsEnd l)"

definition lex_inv :: "nat \<Rightarrow> lexer \<Rightarrow> bool" where
  "lex_inv lo l \<longleftrightarrow>
    lex_base l \<and> l_itemsStart l \<le> l_itemsEnd l \<and> l_itemsEnd l \<le> 3 \<and> next_pre (l_state l) l \<and>
    tokens_ok (l_input l) lo (pending l) (if l_state l = None then l_pos l else l_start l)"

definition lex_work :: "lexer \<Rightarrow> nat" where
  "lex_work l = lex_pot (l_state l) l + (l_itemsEnd l - l_itemsStart l)"

lemma lex_base_cong:
  "lex_base (l\<lparr>l_itemsStart := a, l_itemsEnd := b\<rparr>) = lex_base l"
  "lex_base (l\<lparr>l_state := st\<rparr>) = lex_base l"
  "lex_base (l\<lparr>l_itemsStart := a, l_lastPos := c\<rparr>) = lex_base l"
  by (simp_all add: lex_base_def)

lemma peek_bookkeeping [simp]:
  "peek (l\<lparr>l_itemsStart := a, l_itemsEnd := b\<rparr>) = peek l" "peek (l\<lparr>l_state := so\<rparr>) = peek l"
  "peek (l\<lparr>l_itemsStart := a, l_lastPos := c\<rparr>) = peek l"
  by (rule peek_cong; simp)+

lemma state_pre_cong:
  "state_pre st (l\<lparr>l_itemsStart := a, l_itemsEnd := b\<rparr>) = state_pre st l"
  "state_pre st (l\<lparr>l_state := so\<rparr>) = state_pre st l"
  "state_pre st (l\<lparr>l_itemsStart := a, l_lastPos := c\<rparr>) = state_pre st l"
  by (cases st; simp)+

lemma lex_inv_init: "lex_inv 0 (lex nm s)"
  by (simp add: lex_inv_def lex_base_def lex_def pending_def reach_start [simplified])

lemma lex_work_init: "lex_work (lex nm s) = 12 * length s + 6"
  by (simp add: lex_work_def lex_def rest_def)

lemma lex_step_ok:
  assumes "lex_inv lo l" "lex_waiting l"
  shows "lex_inv lo (lex_step l)" "lex_work (lex_step l) < lex_work l"
    "l_input (lex_step l) = l_input l"
proof -
  obtain st where st: "l_state l = Some st" using assms(2) by (auto simp: lex_waiting_def)
  let ?l0 = "l\<lparr>l_itemsStart := 0, l_itemsEnd := 0\<rparr>"
  obtain so l' where run: "run_state st ?l0 = (so, l')" by fastforce
  have lo: "lo \<le> l_start l"
    using assms st by (simp add: lex_inv_def lex_waiting_def pending_def)
  have "step_ok (lex_pot (Some st) ?l0) ?l0 (so, l')"
    using run_state_ok [of ?l0 st] assms st run
    by (simp add: lex_inv_def lex_base_cong state_pre_cong)
  then have x: "ext 3 ?l0 l'" and n: "next_pre so l'"
    and w: "lex_pot so l' + l_itemsEnd l' < 12 * rest l + state_rank st"
    by (simp_all add: step_ok_def rest_def)
  have b: "lex_base l'" using x by (rule extD)
  have t: "tokens_ok (l_input l) lo (slice (l_itemsArr l') 0 (l_itemsEnd l')) (l_start l')"
    using tokens_ok_append [of "l_input l" lo "[]" "l_start l"] lo x by (simp add: ext_def)
  have step: "lex_step l = l'\<lparr>l_state := so\<rparr>" using st run by (simp add: lex_step_def)
  show "l_input (lex_step l) = l_input l" using step extD(2) [OF x] by simp
  show "lex_inv lo (lex_step l)"
    using step b n t x tokens_ok_mono [OF t, of "l_pos l'"]
    by (cases so)
      (auto simp: lex_inv_def lex_base_cong state_pre_cong ext_def pending_def lex_base_def)
  show "lex_work (lex_step l) < lex_work l"
    using step w st x by (cases so) (auto simp: lex_work_def rest_def ext_def)
qed

end
