(* ===== verification/Token_Stream.thy ===== *)
theory Token_Stream
  imports Lexer_Cursor
begin

text \<open>
  The interface between the scanner and its clients: a source of tokens that always
  returns, keeps its own invariant, and lowers a bound on the work left with every token
  that is not the end of the file. The scanner provides it through \<open>nextItem\<close> and the
  parser's one-token look-ahead buffer passes it on.
\<close>

text \<open>\<open>drain nxt n s\<close> collects the tokens of a source up to and including the first
  end-of-file token, at most \<open>n\<close> of them.\<close>

fun drain :: "('s \<Rightarrow> (item \<times> 's) option) \<Rightarrow> nat \<Rightarrow> 's \<Rightarrow> item list" where
  "drain nxt 0 s = []"
| "drain nxt (Suc n) s =
    (case nxt s of
       None \<Rightarrow> []
     | Some (it, s') \<Rightarrow> if it_Typ it = itemEOF then [it] else it # drain nxt n s')"

locale token_stream =
  fixes inv :: "'s \<Rightarrow> bool"
    and nxt :: "'s \<Rightarrow> (item \<times> 's) option"
    and work :: "'s \<Rightarrow> nat"
  assumes nxt_total: "inv s \<Longrightarrow> \<exists>it s'. nxt s = Some (it, s')"
    and nxt_inv: "inv s \<Longrightarrow> nxt s = Some (it, s') \<Longrightarrow> inv s'"
    and nxt_work: "inv s \<Longrightarrow> nxt s = Some (it, s') \<Longrightarrow> it_Typ it \<noteq> itemEOF \<Longrightarrow> work s' < work s"
    and nxt_work_le: "inv s \<Longrightarrow> nxt s = Some (it, s') \<Longrightarrow> work s' \<le> work s"
begin

lemma nxtE:
  assumes "inv s"
  obtains it s' where "nxt s = Some (it, s')" "inv s'" "work s' \<le> work s"
    "it_Typ it \<noteq> itemEOF \<Longrightarrow> work s' < work s"
  using nxt_total [OF assms] nxt_inv [OF assms] nxt_work [OF assms] nxt_work_le [OF assms]
  by blast

lemma drain_ends:
  assumes "inv s" "work s < n"
  shows "\<exists>its it. drain nxt n s = its @ [it] \<and> it_Typ it = itemEOF \<and>
    (\<forall>t \<in> set its. it_Typ t \<noteq> itemEOF) \<and> length its \<le> work s"
  using assms
proof (induction n arbitrary: s)
  case 0
  then show ?case by simp
next
  case (Suc n)
  obtain it s' where s': "nxt s = Some (it, s')" "inv s'" "it_Typ it \<noteq> itemEOF \<Longrightarrow> work s' < work s"
    using Suc.prems(1) by (rule nxtE) blast
  show ?case
  proof (cases "it_Typ it = itemEOF")
    case True
    then show ?thesis using s' by auto
  next
    case False
    then have w: "work s' < work s" by (rule s'(3))
    with Suc.IH [OF s'(2)] Suc.prems(2)
    obtain its e where "drain nxt n s' = its @ [e]" "it_Typ e = itemEOF"
      "\<forall>t \<in> set its. it_Typ t \<noteq> itemEOF" "length its \<le> work s'"
      by auto
    then show ?thesis using False s'(1) w by (intro exI [of _ "it # its"]) auto
  qed
qed

text \<open>Asking for more tokens than the bound changes nothing.\<close>

lemma drain_enough:
  assumes "inv s" "work s < n" "n \<le> m"
  shows "drain nxt m s = drain nxt n s"
  using assms
proof (induction n arbitrary: s m)
  case 0
  then show ?case by simp
next
  case (Suc n)
  obtain it s' where s': "nxt s = Some (it, s')" "inv s'" "it_Typ it \<noteq> itemEOF \<Longrightarrow> work s' < work s"
    using Suc.prems(1) by (rule nxtE) blast
  obtain m' where m: "m = Suc m'" using Suc.prems(3) by (cases m) auto
  have "drain nxt m' s' = drain nxt n s'" if "it_Typ it \<noteq> itemEOF"
    by (rule Suc.IH [OF s'(2)]) (use s'(3) [OF that] Suc.prems(2,3) m in simp_all)
  then show ?case using s'(1) m by simp
qed

end

end
