(* ===== verification/Lexer_Correct.thy ===== *)
theory Lexer_Correct
  imports Lexer_Invariant Token_Stream
begin

text \<open>
  What the scanner of \<^verbatim>\<open>internal/earthfile/lex.go\<close> guarantees to its clients: it is a
  token source in the sense of \<open>Token_Stream\<close>, for every input, and its tokens are exact
  slices of the input with their true line and column.
\<close>

section \<open>nextItem\<close>

lemma nextItem_loop:
  assumes "lex_inv lo l"
  obtains l' where "while_option lex_waiting lex_step l = Some l'" "lex_inv lo l'"
    "\<not> lex_waiting l'" "l_input l' = l_input l" "lex_work l' \<le> lex_work l"
proof -
  let ?P = "\<lambda>m. lex_inv lo m \<and> l_input m = l_input l \<and> lex_work m \<le> lex_work l"
  obtain l' where "while_option lex_waiting lex_step l = Some l'" "?P l'" "\<not> lex_waiting l'"
  proof (rule while_option_total [where P = ?P and f = lex_work])
    show "?P l" using assms by simp
  next
    fix m assume "?P m" "lex_waiting m"
    then show "?P (lex_step m)" using lex_step_ok [of lo m] by auto
  next
    fix m assume "?P m" "lex_waiting m"
    then show "lex_work (lex_step m) < lex_work m" using lex_step_ok(2) [of lo m] by simp
  qed
  then show thesis using that by blast
qed

lemma pending_Cons:
  assumes "l_itemsStart l < l_itemsEnd l" "l_itemsEnd l \<le> length (l_itemsArr l)"
  shows "pending l = l_itemsArr l ! l_itemsStart l #
    slice (l_itemsArr l) (l_itemsStart l + 1) (l_itemsEnd l)"
  using assms by (simp add: pending_def slice_def Cons_nth_drop_Suc [symmetric])

text \<open>One call returns the next token, which starts no earlier than the last one ended,
  and either uses up work or is the end-of-file token of a finished scanner.\<close>

lemma nextItem_ok:
  assumes "lex_inv lo l"
  obtains it l' where "nextItem l = Some (it, l')" "l_input l' = l_input l"
    "item_ok (l_input l) it" "lo \<le> it_pos it" "lex_inv (it_pos it + length (it_Val it)) l'"
    "lex_work l' < lex_work l \<or> it_Typ it = itemEOF \<and> lex_work l' \<le> lex_work l"
proof -
  obtain m where m: "while_option lex_waiting lex_step l = Some m" "lex_inv lo m"
    "\<not> lex_waiting m" "l_input m = l_input l" "lex_work m \<le> lex_work l"
    using nextItem_loop [OF assms] .
  show thesis
  proof (cases "l_itemsStart m < l_itemsEnd m")
    case True
    let ?it = "l_itemsArr m ! l_itemsStart m"
    let ?m = "m\<lparr>l_itemsStart := l_itemsStart m + 1, l_lastPos := it_pos ?it\<rparr>"
    have e: "l_itemsEnd m \<le> length (l_itemsArr m)"
      using m(2) by (simp add: lex_inv_def lex_base_def)
    note p = pending_Cons [OF True e]
    have pm: "pending ?m = slice (l_itemsArr m) (l_itemsStart m + 1) (l_itemsEnd m)"
      by (simp add: pending_def)
    have "lex_inv (it_pos ?it + length (it_Val ?it)) ?m"
      using m(2) True pm p by (cases "l_state m") (auto simp: lex_inv_def lex_base_cong state_pre_cong)
    moreover have "item_ok (l_input l) ?it" "lo \<le> it_pos ?it"
      using m(2,4) p by (auto simp: lex_inv_def)
    moreover have "lex_work ?m < lex_work m"
      using True by (cases "l_state m") (simp_all add: lex_work_def rest_def)
    moreover have "nextItem l = Some (?it, ?m)"
      using m(1) True by (simp add: nextItem_def Let_def)
    ultimately show thesis using that m(4,5) by fastforce
  next
    case False
    then have fin: "l_state m = None" "pending m = []"
      using m(2,3) by (auto simp: lex_waiting_def lex_inv_def pending_def slice_eq_Nil_iff)
    let ?it = "\<lparr>it_Val = [], it_Typ = itemEOF, it_pos = l_pos m, it_Line = l_line m,
                it_Col = l_col m, it_Err = None\<rparr>"
    have "nextItem l = Some (?it, m)" using m(1) False by (simp add: nextItem_def)
    moreover have "item_ok (l_input l) ?it" "lo \<le> l_pos m" "lex_inv (l_pos m) m"
      using m(2,4) fin by (auto simp: lex_inv_def lex_base_def item_ok_def)
    ultimately show thesis using that m(4,5) by fastforce
  qed
qed

definition lex_ready :: "lexer \<Rightarrow> bool" where
  "lex_ready l \<longleftrightarrow> (\<exists>lo. lex_inv lo l)"

interpretation lexed: token_stream lex_ready nextItem lex_work
proof
  fix l it l'
  assume "lex_ready l"
  then obtain lo where i: "lex_inv lo l" by (auto simp: lex_ready_def)
  show "\<exists>it s'. nextItem l = Some (it, s')" using i by (rule nextItem_ok) blast
  show "nextItem l = Some (it, l') \<Longrightarrow> lex_ready l'"
    using i by (rule nextItem_ok) (auto simp: lex_ready_def)
  show "nextItem l = Some (it, l') \<Longrightarrow> it_Typ it \<noteq> itemEOF \<Longrightarrow> lex_work l' < lex_work l"
    using i by (rule nextItem_ok) auto
  show "nextItem l = Some (it, l') \<Longrightarrow> lex_work l' \<le> lex_work l"
    using i by (rule nextItem_ok) auto
qed

lemma lex_ready_init: "lex_ready (lex nm s)"
  using lex_inv_init by (auto simp: lex_ready_def)

section \<open>The token list of an input\<close>

text \<open>All tokens of an input, up to the end-of-file token; the bound on their number is
  the initial work of the scanner.\<close>

definition lex_all :: "string \<Rightarrow> string \<Rightarrow> item list" where
  "lex_all nm s = drain nextItem (12 * length s + 7) (lex nm s)"

lemma drain_tokens_ok:
  assumes "lex_inv lo l"
  shows "tokens_ok (l_input l) lo (drain nextItem n l) (length (l_input l))"
  using assms
proof (induction n arbitrary: lo l)
  case 0
  then have "lo \<le> (if l_state l = None then l_pos l else l_start l)" "lex_base l"
    using tokens_ok_le by (auto simp: lex_inv_def)
  then show ?case by (auto simp: lex_base_def split: if_splits)
next
  case (Suc n)
  obtain it l' where n: "nextItem l = Some (it, l')" "l_input l' = l_input l"
    "item_ok (l_input l) it" "lo \<le> it_pos it" "lex_inv (it_pos it + length (it_Val it)) l'"
    using Suc.prems by (rule nextItem_ok)
  then show ?case using Suc.IH [OF n(5)] by (auto simp: item_ok_def)
qed

text \<open>
  C9. The scanner terminates on every input: reading tokens one by one from the start
  reaches an end-of-file token after at most \<open>12 * length s + 6\<close> other tokens, and reading
  on would change nothing.
\<close>

theorem lex_terminates:
  "\<exists>its e. lex_all nm s = its @ [e] \<and> it_Typ e = itemEOF \<and> itemEOF \<notin> it_Typ ` set its \<and>
     length its \<le> 12 * length s + 6 \<and>
     (\<forall>k. drain nextItem (12 * length s + 7 + k) (lex nm s) = lex_all nm s)"
proof -
  have w: "lex_work (lex nm s) < 12 * length s + 7" by (simp add: lex_work_init)
  have "drain nextItem (12 * length s + 7 + k) (lex nm s) = lex_all nm s" for k
    unfolding lex_all_def by (rule lexed.drain_enough [OF lex_ready_init w]) simp
  then show ?thesis
    using lexed.drain_ends [OF lex_ready_init w] unfolding lex_all_def [symmetric]
    by (fastforce simp: lex_work_init)
qed


lemma tokens_ok_item: "tokens_ok s lo its hi \<Longrightarrow> it \<in> set its \<Longrightarrow> item_ok s it"
  by (induction its arbitrary: lo) auto

text \<open>
  The line recorded with a token is one more than the number of newline characters
  before the token, and line and column are those that reading the input rune by rune
  from its start gives.
\<close>

theorem lex_token_position:
  assumes "it \<in> set (lex_all nm s)"
  shows "it_Line it = 1 + lines_before s (it_pos it) \<and> reach s (it_pos it) (it_Line it) (it_Col it)"
proof -
  have "item_ok s it"
    using drain_tokens_ok [OF lex_inv_init, of nm s "12 * length s + 7"] assms tokens_ok_item
    by (fastforce simp: lex_all_def lex_def)
  then show ?thesis using reach_line by (auto simp: item_ok_def)
qed

theorem lex_token_position_witness:
  "(let it = lex_all [] ''FROM a'' ! 2 in
     it_Line it = 1 + lines_before ''FROM a'' (it_pos it) \<and>
     reach ''FROM a'' (it_pos it) (it_Line it) (it_Col it))"
proof -
  have "2 < length (lex_all [] ''FROM a'')" by code_simp
  then show ?thesis unfolding Let_def by (rule lex_token_position [OF nth_mem])
qed

section \<open>Reachable scanners\<close>

text \<open>Every scanner a run goes through: the fresh one, one more state function, or one more
  token handed out.\<close>

inductive lex_reachable :: "string \<Rightarrow> lexer \<Rightarrow> bool" for s where
  reach_lex: "lex_reachable s (lex nm s)"
| reach_step: "lex_reachable s l \<Longrightarrow> lex_waiting l \<Longrightarrow> lex_reachable s (lex_step l)"
| reach_take: "lex_reachable s l \<Longrightarrow> l_itemsStart l < l_itemsEnd l \<Longrightarrow>
    lex_reachable s (l\<lparr>l_itemsStart := l_itemsStart l + 1, l_lastPos := p\<rparr>)"

lemma lex_inv_take:
  assumes "lex_inv lo l" "l_itemsStart l < l_itemsEnd l"
  shows "\<exists>lo'. lex_inv lo' (l\<lparr>l_itemsStart := l_itemsStart l + 1, l_lastPos := p\<rparr>)"
proof -
  have "pending l = l_itemsArr l ! l_itemsStart l # slice (l_itemsArr l) (l_itemsStart l + 1) (l_itemsEnd l)"
    using assms by (intro pending_Cons) (auto simp: lex_inv_def lex_base_def)
  then have "lex_inv (it_pos (l_itemsArr l ! l_itemsStart l) + length (it_Val (l_itemsArr l ! l_itemsStart l)))
      (l\<lparr>l_itemsStart := l_itemsStart l + 1, l_lastPos := p\<rparr>)"
    using assms by (cases "l_state l")
      (auto simp: lex_inv_def lex_base_cong state_pre_cong pending_def)
  then show ?thesis by blast
qed

lemma lex_reachable_inv: "lex_reachable s l \<Longrightarrow> l_input l = s \<and> (\<exists>lo. lex_inv lo l)"
proof (induction rule: lex_reachable.induct)
  case (reach_lex nm)
  then show ?case using lex_inv_init [of nm s] by (auto simp: lex_def)
next
  case (reach_step l)
  then show ?case using lex_step_ok(1,3) by metis
next
  case (reach_take l p)
  then show ?case using lex_inv_take [of _ l p] by auto
qed

text \<open>
  C29. No state of a run leaves the scanner's arrays or the input: at most 3 of the 32
  buffer cells are in use when a state function ends, so \<open>emit\<close> and \<open>errorf\<close> never drop a
  token; at most 2 of the 16 indentation cells are; and the pending text
  \<open>l.input[l.start:l.pos]\<close> is a valid slice.
\<close>

theorem lex_reachable_safe:
  assumes "lex_reachable s l"
  shows "l_itemsStart l \<le> l_itemsEnd l \<and> l_itemsEnd l \<le> 3 \<and> length (l_itemsArr l) = 32 \<and>
    1 \<le> l_indentLen l \<and> l_indentLen l \<le> 2 \<and> length (l_indentArr l) = 16 \<and>
    l_start l \<le> l_pos l \<and> l_pos l \<le> length s"
  using lex_reachable_inv [OF assms] by (auto simp: lex_inv_def lex_base_def)

theorem lex_reachable_safe_witness:
  "(let l = lex_step (lex [] ''FROM a'') in
     l_itemsStart l \<le> l_itemsEnd l \<and> l_itemsEnd l \<le> 3 \<and> length (l_itemsArr l) = 32 \<and>
     1 \<le> l_indentLen l \<and> l_indentLen l \<le> 2 \<and> length (l_indentArr l) = 16 \<and>
     l_start l \<le> l_pos l \<and> l_pos l \<le> length ''FROM a'')"
proof -
  have "lex_reachable ''FROM a'' (lex_step (lex [] ''FROM a''))"
    by (intro reach_step reach_lex) (simp add: lex_waiting_def lex_def)
  then show ?thesis using lex_reachable_safe by (simp only: Let_def)
qed

end
