(* ===== verification/Parser_Correct.thy ===== *)
theory Parser_Correct
  imports Earthfile_Parser Lexer_Correct
begin

text \<open>
  The parser ends on every input, its syntax errors point into the text, and the source
  locations of its tree lie in the text. The parser's look-ahead buffer is a token source
  again (\<open>Token_Stream\<close>). \<open>tri\<close> is a Hoare triple for parser operations: from a good state
  with at most \<open>w\<close> work left, and with a given token under \<open>peek\<close> if there is one, the
  operation either fails with a syntax error inside the text or ends in a good state with
  at most \<open>w'\<close> work left and a result that satisfies \<open>Q\<close>.
\<close>

section \<open>The token source of the parser\<close>

definition p_inv :: "string \<Rightarrow> parser \<Rightarrow> bool" where
  "p_inv s p \<longleftrightarrow>
    (\<exists>lo. lex_inv lo (p_lex p)) \<and> l_input (p_lex p) = s \<and> length (p_token p) = 3 \<and>
    p_peekCount p \<le> 1 \<and> (p_peekCount p = 1 \<longrightarrow> item_ok s (p_token p ! 0))"

definition p_work :: "parser \<Rightarrow> nat" where
  "p_work p = lex_work (p_lex p) +
    (if p_peekCount p = 1 \<and> it_Typ (p_token p ! 0) \<noteq> itemEOF then 1 else 0)"

definition peeked :: "item \<Rightarrow> parser \<Rightarrow> bool" where
  "peeked t p \<longleftrightarrow> p_peekCount p = 1 \<and> p_token p ! 0 = t"

lemma parser_next_ok:
  assumes "p_inv s p"
  obtains t p' where "parser_next p = Some (t, p')" "p_inv s p'" "item_ok s t" "p_work p' \<le> p_work p"
    "it_Typ t \<noteq> itemEOF \<Longrightarrow> p_work p' < p_work p" "\<And>u. peeked u p \<Longrightarrow> t = u"
proof (cases "p_peekCount p = 1")
  case True
  show thesis
    by (rule that [of "p_token p ! 0" "p\<lparr>p_peekCount := 0\<rparr>"])
      (use assms True in \<open>simp_all add: parser_next_def p_inv_def p_work_def peeked_def\<close>)
next
  case False
  then have z: "p_peekCount p = 0" using assms by (auto simp: p_inv_def)
  obtain lo where i: "lex_inv lo (p_lex p)" "l_input (p_lex p) = s" using assms by (auto simp: p_inv_def)
  obtain t l where "nextItem (p_lex p) = Some (t, l)" "l_input l = s" "item_ok s t" "\<exists>lo. lex_inv lo l"
    "lex_work l < lex_work (p_lex p) \<or> it_Typ t = itemEOF \<and> lex_work l \<le> lex_work (p_lex p)"
    using nextItem_ok [OF i(1)] i(2) by metis
  then show thesis
    by (intro that [of t "p\<lparr>p_lex := l, p_token := (p_token p)[0 := t]\<rparr>"])
      (use assms z in \<open>auto simp: parser_next_def p_inv_def p_work_def peeked_def\<close>)
qed

lemma parser_peek_ok:
  assumes "p_inv s p"
  obtains t p' where "parser_peek p = Some (t, p')" "p_inv s p'" "item_ok s t" "peeked t p'"
    "p_work p' \<le> p_work p" "\<And>u. peeked u p \<Longrightarrow> t = u"
proof (cases "p_peekCount p = 1")
  case True
  show thesis
    by (rule that [of "p_token p ! 0" p])
      (use assms True in \<open>simp_all add: parser_peek_def p_inv_def p_work_def peeked_def\<close>)
next
  case False
  then have z: "p_peekCount p = 0" using assms by (auto simp: p_inv_def)
  obtain lo where i: "lex_inv lo (p_lex p)" "l_input (p_lex p) = s" using assms by (auto simp: p_inv_def)
  obtain t l where "nextItem (p_lex p) = Some (t, l)" "l_input l = s" "item_ok s t" "\<exists>lo. lex_inv lo l"
    "lex_work l < lex_work (p_lex p) \<or> it_Typ t = itemEOF \<and> lex_work l \<le> lex_work (p_lex p)"
    using nextItem_ok [OF i(1)] i(2) by metis
  then show thesis
    by (intro that [of t "p\<lparr>p_peekCount := 1, p_lex := l, p_token := (p_token p)[0 := t]\<rparr>"])
      (use assms z in \<open>auto simp: parser_peek_def p_inv_def p_work_def peeked_def\<close>)
qed

interpretation parsed: token_stream "p_inv s" parser_next p_work for s
proof
  fix p it p'
  assume i: "p_inv s p"
  show "\<exists>it p'. parser_next p = Some (it, p')" using i by (rule parser_next_ok) blast
  show "parser_next p = Some (it, p') \<Longrightarrow> p_inv s p'" using i by (rule parser_next_ok) auto
  show "parser_next p = Some (it, p') \<Longrightarrow> it_Typ it \<noteq> itemEOF \<Longrightarrow> p_work p' < p_work p"
    using i by (rule parser_next_ok) auto
  show "parser_next p = Some (it, p') \<Longrightarrow> p_work p' \<le> p_work p" using i by (rule parser_next_ok) auto
qed

lemma p_inv_new: "p_inv s (new_parser nm s)"
  using lex_inv_init [of nm s] by (auto simp: p_inv_def new_parser_def lex_def)

lemma p_work_new: "p_work (new_parser nm s) = 12 * length s + 6"
  by (simp add: p_work_def new_parser_def lex_work_init)

section \<open>Triples\<close>

definition perr :: "string \<Rightarrow> parse_error \<Rightarrow> bool" where
  "perr s e \<longleftrightarrow> (\<exists>pos msg. e = SyntaxError pos msg \<and> pos \<le> length s)"

definition tri :: "string \<Rightarrow> item option \<Rightarrow> nat \<Rightarrow> nat \<Rightarrow> ('a \<Rightarrow> bool) \<Rightarrow> 'a P \<Rightarrow> bool" where
  "tri s to w w' Q m \<longleftrightarrow>
    (\<forall>p. p_inv s p \<and> (case to of None \<Rightarrow> True | Some t \<Rightarrow> peeked t p) \<and> p_work p \<le> w \<longrightarrow>
       wpS m (\<lambda>x p'. Q x \<and> p_inv s p' \<and> p_work p' \<le> w') (perr s) p)"

named_theorems tri_intros \<open>triples for the parser operations\<close>

lemma tri_ret: "Q x \<Longrightarrow> w \<le> w' \<Longrightarrow> tri s to w w' Q (retS x)"
  by (auto simp: tri_def)

lemma tri_err: "item_ok s t \<Longrightarrow> tri s to w w' Q (parser_errorf (it_pos t) msg)"
  by (auto simp: tri_def parser_errorf_def perr_def item_ok_def)

lemma tri_bind:
  assumes "tri s to w w1 Q1 m" "\<And>x. Q1 x \<Longrightarrow> tri s None w1 w' Q (f x)"
  shows "tri s to w w' Q (bindS m f)"
  unfolding tri_def wpS_bind
proof (intro allI impI)
  fix p assume "p_inv s p \<and> (case to of None \<Rightarrow> True | Some t \<Rightarrow> peeked t p) \<and> p_work p \<le> w"
  with assms(1) have "wpS m (\<lambda>x p'. Q1 x \<and> p_inv s p' \<and> p_work p' \<le> w1) (perr s) p"
    unfolding tri_def by blast
  then show "wpS m (\<lambda>x s'. wpS (f x) (\<lambda>x p'. Q x \<and> p_inv s p' \<and> p_work p' \<le> w') (perr s) s') (perr s) p"
    by (rule wpS_mono) (use assms(2) in \<open>simp add: tri_def\<close>)
qed

lemma tri_forget: "tri s None w w' Q m \<Longrightarrow> tri s to w w' Q m"
  by (auto simp: tri_def)

lemma tri_weaken:
  "tri s to w w' Q m \<Longrightarrow> v \<le> w \<Longrightarrow> w' \<le> v' \<Longrightarrow> (\<And>x. Q x \<Longrightarrow> Q' x) \<Longrightarrow> tri s to v v' Q' m"
  unfolding tri_def by (fastforce elim!: wpS_mono)

lemma tri_peek:
  assumes "\<And>t. item_ok s t \<Longrightarrow> tri s (Some t) w w' Q (f t)"
  shows "tri s None w w' Q (bindS peekT f)"
  unfolding tri_def
proof (intro allI impI)
  fix p assume p: "p_inv s p \<and> (case None of None \<Rightarrow> True | Some t \<Rightarrow> peeked t p) \<and> p_work p \<le> w"
  then have i: "p_inv s p" by simp
  show "wpS (bindS peekT f) (\<lambda>x p'. Q x \<and> p_inv s p' \<and> p_work p' \<le> w') (perr s) p"
    using i by (rule parser_peek_ok) (use p assms in \<open>auto simp: wpS_def bindS_def peekT_def tri_def\<close>)
qed

lemma tri_next_any:
  assumes "\<And>t. item_ok s t \<Longrightarrow> tri s None w w' Q (f t)"
  shows "tri s to w w' Q (bindS nextT f)"
  unfolding tri_def
proof (intro allI impI)
  fix p assume p: "p_inv s p \<and> (case to of None \<Rightarrow> True | Some t \<Rightarrow> peeked t p) \<and> p_work p \<le> w"
  then have i: "p_inv s p" by simp
  show "wpS (bindS nextT f) (\<lambda>x p'. Q x \<and> p_inv s p' \<and> p_work p' \<le> w') (perr s) p"
    using i by (rule parser_next_ok) (use p assms in \<open>auto simp: wpS_def bindS_def nextT_def tri_def\<close>)
qed

lemma tri_next:
  assumes "it_Typ t \<noteq> itemEOF" "\<And>v. w = Suc v \<Longrightarrow> tri s None v w' Q (f t)"
  shows "tri s (Some t) w w' Q (bindS nextT f)"
  unfolding tri_def
proof (intro allI impI)
  fix p assume p: "p_inv s p \<and> (case Some t of None \<Rightarrow> True | Some t \<Rightarrow> peeked t p) \<and> p_work p \<le> w"
  then have i: "p_inv s p" "peeked t p" by simp_all
  obtain p' where n: "parser_next p = Some (t, p')" "p_inv s p'" "p_work p' < p_work p"
    using i(1) by (rule parser_next_ok) (use i(2) assms(1) in blast)
  then obtain v where "w = Suc v" "p_work p' \<le> v" using p by (cases w) auto
  then show "wpS (bindS nextT f) (\<lambda>x p'. Q x \<and> p_inv s p' \<and> p_work p' \<le> w') (perr s) p"
    using n assms(2) by (auto simp: wpS_def bindS_def nextT_def tri_def)
qed

lemma tri_peek_again:
  assumes "item_ok s t \<Longrightarrow> tri s (Some t) w w' Q (f t)"
  shows "tri s (Some t) w w' Q (bindS peekT f)"
  unfolding tri_def
proof (intro allI impI)
  fix p assume p: "p_inv s p \<and> (case Some t of None \<Rightarrow> True | Some t \<Rightarrow> peeked t p) \<and> p_work p \<le> w"
  then have i: "p_inv s p" "peeked t p" by simp_all
  obtain p' where "parser_peek p = Some (t, p')" "p_inv s p'" "peeked t p'" "p_work p' \<le> p_work p" "item_ok s t"
    using i(1) by (rule parser_peek_ok) (use i(2) in blast)
  then show "wpS (bindS peekT f) (\<lambda>x p'. Q x \<and> p_inv s p' \<and> p_work p' \<le> w') (perr s) p"
    using p assms by (auto simp: wpS_def bindS_def peekT_def tri_def)
qed

lemma tri_bind_shrink:
  assumes "tri s (Some t) w (w - 1) Q1 m" "it_Typ t \<noteq> itemEOF"
    and "\<And>x v. Q1 x \<Longrightarrow> w = Suc v \<Longrightarrow> tri s None v w' Q (f x)"
  shows "tri s (Some t) w w' Q (bindS m f)"
proof (cases w)
  case 0
  then show ?thesis using assms(2) by (auto simp: tri_def peeked_def p_work_def)
next
  case (Suc v)
  then show ?thesis using assms by (intro tri_bind [OF assms(1)]) auto
qed

lemma tri_mod: "tri s to w w (\<lambda>_. True) (modS (\<lambda>p. p\<lparr>p_itemsBuf := g p\<rparr>))"
  by (auto simp: tri_def p_inv_def p_work_def)

lemma tri_get: "tri s to w w (\<lambda>_. True) (getS g)"
  by (auto simp: tri_def)

lemma tri_if:
  "(b \<Longrightarrow> tri s to w w' Q m) \<Longrightarrow> (\<not> b \<Longrightarrow> tri s to w w' Q m') \<Longrightarrow> tri s to w w' Q (if b then m else m')"
  by simp

lemma tri_prod: "(\<And>a b. x = (a, b) \<Longrightarrow> tri s to w w' Q (f a b)) \<Longrightarrow> tri s to w w' Q (case x of (a, b) \<Rightarrow> f a b)"
  by (cases x) simp

section \<open>Locations inside the text\<close>

definition nlines :: "string \<Rightarrow> nat" where
  "nlines s = 1 + lines_before s (length s)"

definition loc_ok :: "string \<Rightarrow> Loc \<Rightarrow> bool" where
  "loc_ok s loc \<longleftrightarrow>
    (case loc of None \<Rightarrow> True
     | Some l \<Rightarrow> 1 \<le> StartLine l \<and> StartLine l \<le> nlines s \<and> EndLine l \<le> nlines s)"

abbreviation kind_ok :: "string \<Rightarrow> StatementKind \<Rightarrow> bool" where
  "kind_ok s k \<equiv> set (kind_locs k) \<subseteq> Collect (loc_ok s)"

definition block_ok :: "string \<Rightarrow> Block \<Rightarrow> bool" where
  "block_ok s b \<longleftrightarrow> (\<forall>st \<in> set b. set (stmt_locs st) \<subseteq> Collect (loc_ok s))"

lemma lines_before_mono: "p \<le> q \<Longrightarrow> lines_before s p \<le> lines_before s q"
  using count_list_take_add [of p "q - p" s] by (simp add: lines_before_def)

lemma item_line:
  assumes "item_ok s t"
  shows "Suc 0 \<le> it_Line t" "it_Line t \<le> nlines s"
proof -
  have "it_Line t = 1 + lines_before s (it_pos t)" using assms reach_line by (auto simp: item_ok_def)
  moreover have "lines_before s (it_pos t) \<le> lines_before s (length s)"
    using assms by (intro lines_before_mono) (simp add: item_ok_def)
  ultimately show "Suc 0 \<le> it_Line t" "it_Line t \<le> nlines s" by (simp_all add: nlines_def)
qed

lemma loc_ok_simps [simp]:
  "loc_ok s None"
  "item_ok s t \<Longrightarrow> loc_ok s (Some (start_loc t))"
  "loc_ok s (Some l) \<Longrightarrow> EndLine e \<le> nlines s \<Longrightarrow> loc_ok s (Some (ends_at l e))"
  "item_ok s t \<Longrightarrow> EndLine (end_loc t) \<le> nlines s"
  by (auto simp: loc_ok_def start_loc_def ends_at_def end_loc_def item_line)

section \<open>Arguments and commands\<close>

abbreviation args_ok :: "string \<Rightarrow> 'a \<times> SourceLocation \<Rightarrow> bool" where
  "args_ok s r \<equiv> EndLine (snd r) \<le> nlines s"

lemma tri_parseArgsLoop: "w < n \<Longrightarrow> w \<le> w' \<Longrightarrow> tri s None w w' (args_ok s) (parseArgsLoop n args)"
proof (induction n arbitrary: w args)
  case 0
  then show ?case by simp
next
  case (Suc n)
  show ?case unfolding parseArgsLoop.simps
    by (intro tri_peek tri_if tri_next tri_ret tri_err Suc.IH) (use Suc.prems in auto)
qed

lemma tri_parseArgsUntilNL: "w < n \<Longrightarrow> w \<le> w' \<Longrightarrow> tri s None w w' (args_ok s) (parseArgsUntilNL n)"
  by (simp add: parseArgsUntilNL_def tri_parseArgsLoop)

lemma tri_keyValueItemsLoop:
  "w < n \<Longrightarrow> w \<le> w' \<Longrightarrow> tri s None w w' (\<lambda>e. EndLine e \<le> nlines s) (keyValueItemsLoop n)"
proof (induction n arbitrary: w)
  case 0
  then show ?case by simp
next
  case (Suc n)
  show ?case unfolding keyValueItemsLoop.simps
    by (intro tri_peek tri_if tri_next tri_ret tri_err tri_bind [OF tri_mod] Suc.IH)
      (use Suc.prems in auto)
qed

lemma tri_parseKeyValueCommandArgs:
  "w < n \<Longrightarrow> w \<le> w' \<Longrightarrow> tri s None w w' (args_ok s) (parseKeyValueCommandArgs n)"
  unfolding parseKeyValueCommandArgs_def
  by (intro tri_bind [OF tri_mod] tri_bind [OF tri_keyValueItemsLoop [OF _ order.refl]]
      tri_bind [OF tri_get] tri_ret) auto

abbreviation cmd_ok :: "string \<Rightarrow> Command \<Rightarrow> bool" where
  "cmd_ok s c \<equiv> loc_ok s (cmd_SourceLocation c)"

lemma commandTail_ok:
  "w < n \<Longrightarrow> item_ok s tok \<Longrightarrow>
    tri s None w w (cmd_ok s)
      (bindS (if b then parseKeyValueCommandArgs n else parseArgsUntilNL n) (\<lambda>(args, endLoc).
       retS (let (args', exec) = commandArgs c (map replaceEscape args) in
         \<lparr>cmd_Name = c, cmd_Docs = [], cmd_SourceLocation = Some (ends_at (start_loc tok) endLoc),
          cmd_Args = args', cmd_ExecMode = exec\<rparr>)))"
  by (intro tri_bind [of _ _ _ w "args_ok s"] tri_if tri_parseKeyValueCommandArgs tri_parseArgsUntilNL
      tri_prod tri_ret) (auto split: prod.split)

lemma tri_parseCommand: "w < n \<Longrightarrow> tri s None w w (cmd_ok s) (parseCommand n)"
  unfolding parseCommand_def by (intro tri_next_any commandTail_ok)

lemma tri_parseCommand_peeked:
  assumes "w \<le> n" "it_Typ t \<noteq> itemEOF" "item_ok s t"
  shows "tri s (Some t) w (w - 1) (cmd_ok s) (parseCommand n)"
  unfolding parseCommand_def
proof (rule tri_next [OF assms(2)])
  fix v assume "w = Suc v"
  then show "tri s None v (w - 1) (cmd_ok s)
    (bindS (if it_Val t \<in> {CmdEnv, CmdArg, CmdSet, CmdLet} then parseKeyValueCommandArgs n
            else parseArgsUntilNL n) (\<lambda>(args, endLoc).
     retS (let (args', exec) = commandArgs (it_Val t) (map replaceEscape args) in
       \<lparr>cmd_Name = it_Val t, cmd_Docs = [], cmd_SourceLocation = Some (ends_at (start_loc t) endLoc),
        cmd_Args = args', cmd_ExecMode = exec\<rparr>)))"
    using commandTail_ok [of v n s t] assms(1,3) by simp
qed

lemma tri_parseVersionArgs:
  "w < n \<Longrightarrow> w \<le> w' \<Longrightarrow> loc_ok s (Some loc) \<Longrightarrow>
     tri s None w w' (\<lambda>v. loc_ok s (ver_SourceLocation v)) (parseVersionArgs n loc args)"
proof (induction n arbitrary: w args)
  case 0
  then show ?case by simp
next
  case (Suc n)
  show ?case unfolding parseVersionArgs.simps
    by (intro tri_peek tri_if tri_next tri_ret tri_err Suc.IH) (use Suc.prems in auto)
qed

lemma tri_skipWST: "w < n \<Longrightarrow> tri s None w w (\<lambda>_. True) (skipWST n)"
proof (induction n arbitrary: w)
  case 0
  then show ?case by simp
next
  case (Suc n)
  show ?case unfolding skipWST.simps
    by (intro tri_peek tri_if tri_next tri_ret tri_weaken [OF Suc.IH]) (use Suc.prems in auto)
qed

lemma tri_parseEnd: "w < n \<Longrightarrow> tri s None w w (\<lambda>_. True) (parseEnd n kw)"
  unfolding parseEnd_def
  by (intro tri_peek tri_bind [of _ _ w w "\<lambda>_. True"] tri_if tri_next_any tri_ret tri_err
      tri_parseArgsUntilNL [THEN tri_weaken]) auto

section \<open>Statements\<close>

text \<open>The parser of a block, as the statements use it: fine whenever the work is below the
  fuel.\<close>

definition stmts_ok :: "string \<Rightarrow> nat \<Rightarrow> Block P \<Rightarrow> bool" where
  "stmts_ok s n stmts \<longleftrightarrow> (\<forall>w < n. tri s None w w (block_ok s) stmts)"

lemma stmts_okD: "stmts_ok s n stmts \<Longrightarrow> w < n \<Longrightarrow> tri s None w w (block_ok s) stmts"
  by (simp add: stmts_ok_def)

lemma stmts_ok_mono: "stmts_ok s n stmts \<Longrightarrow> m \<le> n \<Longrightarrow> stmts_ok s m stmts"
  by (simp add: stmts_ok_def)

lemma stmt_ok_locs [simp]: "set (stmt_locs (stmt k)) \<subseteq> Collect (loc_ok s) \<longleftrightarrow> kind_ok s k"
  by simp

lemma block_ok_simps [simp]:
  "block_ok s []" "block_ok s (b @ [stmt k]) \<longleftrightarrow> block_ok s b \<and> kind_ok s k"
  "set (concat (map stmt_locs b)) \<subseteq> Collect (loc_ok s) \<longleftrightarrow> block_ok s b"
  "(\<Union>st \<in> set b. set (stmt_locs st)) \<subseteq> Collect (loc_ok s) \<longleftrightarrow> block_ok s b"
  by (auto simp: block_ok_def)

abbreviation optblock_ok :: "string \<Rightarrow> Block option \<Rightarrow> bool" where
  "optblock_ok s b \<equiv> (case b of None \<Rightarrow> True | Some b \<Rightarrow> block_ok s b)"

lemma kind_ok_if:
  "loc_ok s (Some loc) \<Longrightarrow> block_ok s body \<Longrightarrow> set (concat (map elseif_locs eis)) \<subseteq> Collect (loc_ok s) \<Longrightarrow>
    optblock_ok s els \<Longrightarrow> kind_ok s (KIf (Some loc) expr ex body eis els)"
  by (cases els) (simp_all add: opt_concat_def)

lemma kind_ok_try:
  "loc_ok s (Some loc) \<Longrightarrow> block_ok s body \<Longrightarrow> optblock_ok s cat \<Longrightarrow> optblock_ok s fin \<Longrightarrow>
    kind_ok s (KTry (Some loc) body cat fin)"
  by (cases cat; cases fin) (simp_all add: opt_concat_def)

lemma tri_parseIfClauses:
  assumes "w < n" "w \<le> w'" "stmts_ok s n stmts" "loc_ok s (Some loc)" "block_ok s body"
    "set (concat (map elseif_locs eis)) \<subseteq> Collect (loc_ok s)" "optblock_ok s els"
  shows "tri s None w w' (kind_ok s) (parseIfClauses n stmts loc expr ex body eis els)"
  using assms
proof (induction n arbitrary: w eis els)
  case 0
  then show ?case by simp
next
  case (Suc n)
  have st: "stmts_ok s n stmts" using Suc.prems(3) by (rule stmts_ok_mono) simp
  show ?case unfolding parseIfClauses.simps
    by (intro tri_peek tri_if tri_next tri_err tri_ret Suc.IH tri_prod kind_ok_if
        tri_bind [OF tri_parseArgsUntilNL [OF _ order.refl]] tri_bind [OF stmts_okD [OF st]])
      (use Suc.prems st in auto)
qed

lemma tri_parseTryClauses:
  assumes "w < n" "w \<le> w'" "stmts_ok s n stmts" "loc_ok s (Some loc)" "block_ok s body"
    "optblock_ok s cat" "optblock_ok s fin"
  shows "tri s None w w' (kind_ok s) (parseTryClauses n stmts loc body cat fin)"
  using assms
proof (induction n arbitrary: w cat fin)
  case 0
  then show ?case by simp
next
  case (Suc n)
  have st: "stmts_ok s n stmts" using Suc.prems(3) by (rule stmts_ok_mono) simp
  show ?case unfolding parseTryClauses.simps
    by (intro tri_peek tri_if tri_next tri_err tri_ret Suc.IH tri_prod kind_ok_try
        tri_bind [OF tri_parseArgsUntilNL [OF _ order.refl]] tri_bind [OF stmts_okD [OF st]])
      (use Suc.prems st in auto)
qed

text \<open>A block statement starts with its keyword, which uses up work.\<close>

lemma tri_statements:
  assumes "w \<le> n" "it_Typ t \<noteq> itemEOF" "item_ok s t" "stmts_ok s n stmts"
  shows "tri s (Some t) w (w - 1) (kind_ok s) (parseIf n stmts)"
    and "tri s (Some t) w (w - 1) (kind_ok s) (parseFor n stmts)"
    and "tri s (Some t) w (w - 1) (kind_ok s) (parseTry n stmts)"
    and "tri s (Some t) w (w - 1) (kind_ok s) (parseWith n stmts)"
    and "tri s (Some t) w (w - 1) (kind_ok s) (parseWait n stmts)"
  unfolding parseIf_def parseFor_def parseTry_def parseWith_def parseWait_def
  by (intro tri_next [OF assms(2)] tri_prod tri_ret tri_parseIfClauses tri_parseTryClauses
      tri_bind [OF tri_parseArgsUntilNL [OF _ order.refl]] tri_bind [OF stmts_okD [OF assms(4)]]
      tri_bind [OF tri_skipWST] tri_bind [OF tri_parseCommand] tri_bind [OF tri_parseEnd];
      use assms in auto)+

lemma tri_parseStmts: "w < n \<Longrightarrow> w \<le> w' \<Longrightarrow> block_ok s block \<Longrightarrow> tri s None w w' (block_ok s) (parseStmts n block docs)"
proof (induction n arbitrary: w w' block docs)
  case 0
  then show ?case by simp
next
  case (Suc n)
  have st: "stmts_ok s n (parseStmts n [] [])" unfolding stmts_ok_def using Suc.IH by simp
  show ?case unfolding parseStmts.simps
    by (intro tri_peek tri_if tri_next tri_err tri_ret Suc.IH
        tri_bind_shrink [OF tri_statements(1)] tri_bind_shrink [OF tri_statements(2)] tri_bind_shrink [OF tri_statements(3)]
        tri_bind_shrink [OF tri_statements(4)] tri_bind_shrink [OF tri_statements(5)] tri_bind_shrink [OF tri_parseCommand_peeked])
      (use Suc.prems st in auto)
qed

section \<open>Blocks and the file\<close>

lemma tri_parseBlockIndent: "w < n \<Longrightarrow> w \<le> w' \<Longrightarrow> tri s None w w' (\<lambda>_. True) (parseBlockIndent n docs)"
proof (induction n arbitrary: w docs)
  case 0
  then show ?case by simp
next
  case (Suc n)
  show ?case unfolding parseBlockIndent.simps
    by (intro tri_peek tri_if tri_next tri_ret tri_err Suc.IH) (use Suc.prems in auto)
qed

lemmas tri_calls =
  tri_bind_shrink [OF tri_statements(1)] tri_bind_shrink [OF tri_statements(2)]
  tri_bind_shrink [OF tri_statements(3)] tri_bind_shrink [OF tri_statements(4)]
  tri_bind_shrink [OF tri_statements(5)] tri_bind_shrink [OF tri_parseCommand_peeked]

lemma stmts_ok_parseStmts: "stmts_ok s n (parseStmts n [] [])"
  by (simp add: stmts_ok_def tri_parseStmts)

lemma tri_parseBlockLoop:
  "w < n \<Longrightarrow> w \<le> w' \<Longrightarrow> block_ok s block \<Longrightarrow> tri s None w w' (block_ok s) (parseBlockLoop n block docs sawNL)"
proof (induction n arbitrary: w w' block docs sawNL)
  case 0
  then show ?case by simp
next
  case (Suc n)
  show ?case unfolding parseBlockLoop.simps
    by (intro tri_peek tri_if tri_next tri_err tri_ret Suc.IH tri_calls)
      (use Suc.prems stmts_ok_parseStmts in \<open>auto simp: docs_command_def\<close>)
qed

lemma tri_parseBlock: "w < n \<Longrightarrow> w \<le> w' \<Longrightarrow> tri s None w w' (block_ok s) (parseBlock n)"
  unfolding parseBlock_def
  by (intro tri_bind [OF tri_parseBlockIndent [OF _ order.refl]])
    (auto split: option.split intro!: tri_ret tri_parseBlockLoop)

abbreviation target_ok :: "string \<Rightarrow> Target \<Rightarrow> bool" where
  "target_ok s t \<equiv> loc_ok s (tgt_SourceLocation t) \<and> block_ok s (tgt_Recipe t)"

abbreviation function_ok :: "string \<Rightarrow> Function \<Rightarrow> bool" where
  "function_ok s t \<equiv> loc_ok s (fn_SourceLocation t) \<and> block_ok s (fn_Recipe t)"

lemma tri_parseTarget:
  assumes "w \<le> n" "it_Typ t \<noteq> itemEOF" "item_ok s t"
  shows "tri s (Some t) w (w - 1) (target_ok s) (parseTarget n)"
  unfolding parseTarget_def
  by (intro tri_next [OF assms(2)] tri_bind [OF tri_parseBlock [OF _ order.refl]] tri_peek tri_ret)
    (use assms in auto)

lemma tri_parseFunction:
  assumes "w \<le> n" "it_Typ t \<noteq> itemEOF" "item_ok s t"
  shows "tri s (Some t) w (w - 1) (function_ok s) (parseFunction n)"
  unfolding parseFunction_def
  by (intro tri_peek_again tri_next [OF assms(2)] tri_bind [OF tri_parseBlock [OF _ order.refl]] tri_ret)
    (use assms in auto)

lemma tri_parseVersion:
  assumes "w \<le> n" "it_Typ t \<noteq> itemEOF" "item_ok s t"
  shows "tri s (Some t) w (w - 1) (\<lambda>v. loc_ok s (ver_SourceLocation v)) (parseVersion n)"
  unfolding parseVersion_def
  by (intro tri_next [OF assms(2)] tri_parseVersionArgs) (use assms in auto)

definition tree_ok :: "string \<Rightarrow> Tree \<Rightarrow> bool" where
  "tree_ok s ef \<longleftrightarrow> set (tree_locs ef) \<subseteq> Collect (loc_ok s)"

lemma tree_ok_iff:
  "tree_ok s ef \<longleftrightarrow>
    loc_ok s (tree_SourceLocation ef) \<and>
    (case tree_Version ef of None \<Rightarrow> True | Some v \<Rightarrow> loc_ok s (ver_SourceLocation v)) \<and>
    (\<forall>t \<in> set (tree_Targets ef). target_ok s t) \<and> (\<forall>t \<in> set (tree_Functions ef). function_ok s t) \<and>
    block_ok s (tree_BaseRecipe ef)"
  unfolding tree_ok_def tree_locs_def by (simp add: UN_subset_iff block_ok_def split: option.split)

lemma tree_ok_updates:
  "tree_ok s empty_tree"
  "tree_ok s ef \<Longrightarrow> loc_ok s (ver_SourceLocation v) \<Longrightarrow> tree_ok s (ef\<lparr>tree_Version := Some v\<rparr>)"
  "tree_ok s ef \<Longrightarrow> target_ok s t \<Longrightarrow> tree_ok s (ef\<lparr>tree_Targets := tree_Targets ef @ [t]\<rparr>)"
  "tree_ok s ef \<Longrightarrow> function_ok s f \<Longrightarrow> tree_ok s (ef\<lparr>tree_Functions := tree_Functions ef @ [f]\<rparr>)"
  "tree_ok s ef \<Longrightarrow> kind_ok s k \<Longrightarrow> tree_ok s (add_stmt ef k)"
  "tree_ok s ef \<Longrightarrow> tree_ok s (splitTargets ef)"
  unfolding tree_ok_iff empty_tree_def add_stmt_def splitTargets_def
  by (auto simp: target_function_def)

lemma tri_parseEarthfileLoop:
  "w < n \<Longrightarrow> w \<le> w' \<Longrightarrow> tree_ok s ef \<Longrightarrow> tri s None w w' (tree_ok s) (parseEarthfileLoop n ef docs sawNL)"
proof (induction n arbitrary: w w' ef docs sawNL)
  case 0
  then show ?case by simp
next
  case (Suc n)
  show ?case unfolding parseEarthfileLoop.simps Let_def
    by (intro tri_peek tri_if tri_next tri_err tri_ret Suc.IH tri_calls tree_ok_updates
        tri_bind_shrink [OF tri_parseTarget] tri_bind_shrink [OF tri_parseFunction]
        tri_bind_shrink [OF tri_parseVersion] tri_next_any)
      (use Suc.prems stmts_ok_parseStmts in \<open>auto simp: docs_command_def\<close>)
qed

lemma parseEarthfile_result:
  assumes "12 * length s + 6 < n"
  shows "wpS (parseEarthfile n) (\<lambda>ef _. tree_ok s ef) (perr s) (new_parser nm s)"
proof -
  have "tri s None (12 * length s + 6) (12 * length s + 6) (tree_ok s) (parseEarthfile n)"
    unfolding parseEarthfile_def using assms by (simp add: tri_parseEarthfileLoop tree_ok_updates(1))
  then have "wpS (parseEarthfile n) (\<lambda>ef p'. tree_ok s ef \<and> p_inv s p' \<and> p_work p' \<le> 12 * length s + 6)
      (perr s) (new_parser nm s)"
    unfolding tri_def using p_inv_new p_work_new by simp
  then show ?thesis by (rule wpS_mono) simp
qed

section \<open>More fuel\<close>

abbreviation fle :: "'a P \<Rightarrow> 'a P \<Rightarrow> bool" where "fle \<equiv> fuel_le NoResult"

lemma fuel_le_prod [fuel_intros]:
  "(\<And>a b. fuel_le out (f a b) (g a b)) \<Longrightarrow>
     fuel_le out (case x of (a, b) \<Rightarrow> f a b) (case x of (a, b) \<Rightarrow> g a b)"
  by (cases x) simp

lemma fuel_le_option [fuel_intros]:
  "(\<And>a. fuel_le out (f a) (g a)) \<Longrightarrow> fuel_le out m m' \<Longrightarrow>
     fuel_le out (case x of None \<Rightarrow> m | Some a \<Rightarrow> f a) (case x of None \<Rightarrow> m' | Some a \<Rightarrow> g a)"
  by (cases x) simp_all

lemma fuel_args [fuel_intros]: "fle (parseArgsLoop n args) (parseArgsLoop (Suc n) args)"
proof (induction n arbitrary: args)
  case (Suc n)
  show ?case
    by (subst parseArgsLoop.simps(2) [of "Suc n"], subst parseArgsLoop.simps(2) [of n args])
      (intro fuel_intros Suc.IH)
qed (simp add: fuel_le_out)

lemma fuel_argsUntilNL [fuel_intros]: "fle (parseArgsUntilNL n) (parseArgsUntilNL (Suc n))"
  unfolding parseArgsUntilNL_def by (rule fuel_args)

lemma fuel_keyValueItemsLoop [fuel_intros]: "fle (keyValueItemsLoop n) (keyValueItemsLoop (Suc n))"
proof (induction n)
  case (Suc n)
  show ?case
    by (subst keyValueItemsLoop.simps(2) [of "Suc n"], subst keyValueItemsLoop.simps(2) [of n])
      (intro fuel_intros Suc.IH)
qed (simp add: fuel_le_out)

lemma fuel_command [fuel_intros]: "fle (parseCommand n) (parseCommand (Suc n))"
  unfolding parseCommand_def parseKeyValueCommandArgs_def by (intro fuel_intros)

lemma fuel_version_args [fuel_intros]: "fle (parseVersionArgs n loc args) (parseVersionArgs (Suc n) loc args)"
proof (induction n arbitrary: args)
  case (Suc n)
  show ?case
    by (subst parseVersionArgs.simps(2) [of "Suc n"], subst parseVersionArgs.simps(2) [of n loc args])
      (intro fuel_intros Suc.IH)
qed (simp add: fuel_le_out)

lemma fuel_skipWST [fuel_intros]: "fle (skipWST n) (skipWST (Suc n))"
proof (induction n)
  case (Suc n)
  show ?case
    by (subst skipWST.simps(2) [of "Suc n"], subst skipWST.simps(2) [of n]) (intro fuel_intros Suc.IH)
qed (simp add: fuel_le_out)

lemma fuel_parseEnd [fuel_intros]: "fle (parseEnd n kw) (parseEnd (Suc n) kw)"
  unfolding parseEnd_def by (intro fuel_intros)

lemma fuel_ifClauses [fuel_intros]:
  "fle stmts stmts' \<Longrightarrow>
     fle (parseIfClauses n stmts loc expr ex body eis els) (parseIfClauses (Suc n) stmts' loc expr ex body eis els)"
proof (induction n arbitrary: eis els)
  case (Suc n)
  show ?case
    by (subst parseIfClauses.simps(2) [of "Suc n"], subst parseIfClauses.simps(2) [of n stmts])
      (intro fuel_intros Suc.IH Suc.prems)
qed (simp add: fuel_le_out)

lemma fuel_tryClauses [fuel_intros]:
  "fle stmts stmts' \<Longrightarrow>
     fle (parseTryClauses n stmts loc body cat fin) (parseTryClauses (Suc n) stmts' loc body cat fin)"
proof (induction n arbitrary: cat fin)
  case (Suc n)
  show ?case
    by (subst parseTryClauses.simps(2) [of "Suc n"], subst parseTryClauses.simps(2) [of n stmts])
      (intro fuel_intros Suc.IH Suc.prems)
qed (simp add: fuel_le_out)

lemma fuel_statements [fuel_intros]:
  assumes "fle stmts stmts'"
  shows "fle (parseIf n stmts) (parseIf (Suc n) stmts')" "fle (parseFor n stmts) (parseFor (Suc n) stmts')"
    "fle (parseTry n stmts) (parseTry (Suc n) stmts')" "fle (parseWith n stmts) (parseWith (Suc n) stmts')"
    "fle (parseWait n stmts) (parseWait (Suc n) stmts')"
  unfolding parseIf_def parseFor_def parseTry_def parseWith_def parseWait_def
  by (intro fuel_intros assms)+

lemma fuel_stmts [fuel_intros]: "fle (parseStmts n block docs) (parseStmts (Suc n) block docs)"
proof (induction n arbitrary: block docs)
  case (Suc n)
  show ?case
    by (subst parseStmts.simps(2) [of "Suc n"], subst parseStmts.simps(2) [of n block docs])
      (intro fuel_intros Suc.IH)
qed (simp add: fuel_le_out)

lemma fuel_blockIndent [fuel_intros]: "fle (parseBlockIndent n docs) (parseBlockIndent (Suc n) docs)"
proof (induction n arbitrary: docs)
  case (Suc n)
  show ?case
    by (subst parseBlockIndent.simps(2) [of "Suc n"], subst parseBlockIndent.simps(2) [of n docs])
      (intro fuel_intros Suc.IH)
qed (simp add: fuel_le_out)

lemma fuel_blockLoop [fuel_intros]:
  "fle (parseBlockLoop n block docs sawNL) (parseBlockLoop (Suc n) block docs sawNL)"
proof (induction n arbitrary: block docs sawNL)
  case (Suc n)
  show ?case
    by (subst parseBlockLoop.simps(2) [of "Suc n"], subst parseBlockLoop.simps(2) [of n block docs sawNL])
      (intro fuel_intros Suc.IH)
qed (simp add: fuel_le_out)

lemma fuel_recipes [fuel_intros]:
  "fle (parseTarget n) (parseTarget (Suc n))" "fle (parseFunction n) (parseFunction (Suc n))"
  "fle (parseVersion n) (parseVersion (Suc n))"
  unfolding parseTarget_def parseFunction_def parseVersion_def parseBlock_def by (intro fuel_intros)+

lemma fuel_earthfile: "fle (parseEarthfileLoop n ef docs sawNL) (parseEarthfileLoop (Suc n) ef docs sawNL)"
proof (induction n arbitrary: ef docs sawNL)
  case (Suc n)
  show ?case
    by (subst parseEarthfileLoop.simps(2) [of "Suc n"], subst parseEarthfileLoop.simps(2) [of n ef docs sawNL])
      (unfold Let_def, intro fuel_intros Suc.IH)
qed (simp add: fuel_le_out)

lemma parseEarthfile_more_fuel:
  assumes "parse_fuel s \<le> n"
  shows "parseEarthfile n (new_parser nm s) = parseEarthfile (parse_fuel s) (new_parser nm s)"
proof (rule fuel_le_eq [of NoResult])
  show "fle (parseEarthfile (parse_fuel s)) (parseEarthfile n)"
    by (rule fuel_le_Suc_le [of NoResult parseEarthfile, OF _ assms])
      (unfold parseEarthfile_def, rule fuel_earthfile)
  show "parseEarthfile (parse_fuel s) (new_parser nm s) \<noteq> Inl NoResult"
    using parseEarthfile_result [of s "parse_fuel s" nm] by (auto simp: parse_fuel_def wpS_def perr_def)
qed

section \<open>What a parse gives\<close>

lemma Parse_cases:
  obtains (fails) pos msg where "\<And>b. Parse b nm s = Inl (SyntaxError pos msg)" "pos \<le> length s"
  | (parses) ef where "\<And>b. Parse b nm s = finish_parse b nm ef" "tree_ok s ef"
      "parseEarthfileLoop (parse_fuel s) empty_tree [] False (new_parser nm s) \<in> range (\<lambda>p. Inr (ef, p))"
proof (cases "parseEarthfile (parse_fuel s) (new_parser nm s)")
  case (Inl e)
  then have "perr s e"
    using parseEarthfile_result [of s "parse_fuel s" nm] by (auto simp: parse_fuel_def dest: wpS_error)
  then show thesis using Inl fails by (auto simp: perr_def Parse_def)
next
  case (Inr r)
  then have "tree_ok s (fst r)"
    using parseEarthfile_result [of s "parse_fuel s" nm]
    by (cases r) (auto simp: parse_fuel_def dest: wpS_result)
  then show thesis using Inr parses [of "fst r"]
    by (cases r) (auto simp: Parse_def parseEarthfile_def)
qed

text \<open>
  C1. Parsing terminates on every text: \<open>Parse\<close> gives a tree, a syntax error whose position
  lies in the text, or a non-empty list of validation issues, and the bound on the
  recursion plays no part, since any larger bound gives the same result.
\<close>

theorem Parse_total:
  "((\<exists>ef. Parse b nm s = Inr ef) \<or>
    (\<exists>pos msg. Parse b nm s = Inl (SyntaxError pos msg) \<and> pos \<le> length s) \<or>
    (\<exists>errs. Parse b nm s = Inl (ValidationIssues errs) \<and> errs \<noteq> [])) \<and>
   parseEarthfile (parse_fuel s + k) (new_parser nm s) = parseEarthfile (parse_fuel s) (new_parser nm s)"
proof -
  have "parseEarthfile (parse_fuel s + k) (new_parser nm s) = parseEarthfile (parse_fuel s) (new_parser nm s)"
    by (rule parseEarthfile_more_fuel) simp
  moreover have "(\<exists>ef. Parse b nm s = Inr ef) \<or>
    (\<exists>pos msg. Parse b nm s = Inl (SyntaxError pos msg) \<and> pos \<le> length s) \<or>
    (\<exists>errs. Parse b nm s = Inl (ValidationIssues errs) \<and> errs \<noteq> [])"
    by (rule Parse_cases [of nm s]) (auto simp: finish_parse_def Let_def)
  ultimately show ?thesis by blast
qed

lemma finish_parse_Inr:
  "finish_parse b nm ef = Inr ef' \<longleftrightarrow>
     ef' = map_tree_loc (if b then set_file nm else (\<lambda>_. None)) ef \<and> valid_tree ef"
  by (auto simp: finish_parse_def Let_def setSourceLocationFile_def removeSourceLocations_def
      validateAst_Nil_iff)

lemma validateAst_length: "length (validateAst (map_tree_loc f ef)) = length (validateAst ef)"
proof -
  have s: "length (sameNameLoop (map g ts) S) = length (sameNameLoop ts S)"
    if "\<And>t. tgt_Name (g t) = tgt_Name t" for g ts S
    by (induction ts arbitrary: S) (auto simp: that split: prod.splits)
  have k: "length (if tgt_Name t = TargetBase
      then let (file, line, col) = target_place t in [ReservedTarget file line col (tgt_Name t)] else []) =
      (if tgt_Name t = TargetBase then 1 else 0)" for t :: Target
    by (simp split: prod.split)
  show ?thesis
    unfolding validateAst_append noTargetsWithSameName_def noTargetsWithKeywords_def length_append
      length_concat map_map comp_def k
    by (auto simp: s map_tree_loc_def validVersion_def comp_def split: option.split)
qed

text \<open>
  A source map does not change what is parsed: with and without it \<open>Parse\<close> accepts the
  same texts, the trees differ only in their locations, and the errors are the same syntax
  error or equally many validation issues.
\<close>

theorem Parse_source_map:
  "(\<exists>ef. Parse True nm s = Inr ef \<and> Parse False nm s = Inr (removeSourceLocations ef)) \<or>
   (\<exists>pos msg. Parse True nm s = Inl (SyntaxError pos msg) \<and> Parse False nm s = Inl (SyntaxError pos msg)) \<or>
   (\<exists>errs errs'. Parse True nm s = Inl (ValidationIssues errs) \<and> Parse False nm s = Inl (ValidationIssues errs') \<and>
      length errs = length errs')"
proof (rule Parse_cases [of nm s])
  fix ef assume p: "\<And>b. Parse b nm s = finish_parse b nm ef"
  show ?thesis
  proof (cases "valid_tree ef")
    case True
    then show ?thesis
      by (simp add: p finish_parse_Inr removeSourceLocations_def map_tree_compose comp_def)
  next
    case False
    then show ?thesis
      by (simp add: p finish_parse_def Let_def validateAst_Nil_iff setSourceLocationFile_def
          removeSourceLocations_def validateAst_length)
  qed
qed auto

lemma parseEarthfileLoop_targets:
  "wpS (parseEarthfileLoop n ef docs sawNL)
    (\<lambda>ef' _. filter isFunctionTarget (tree_Targets ef') = []) (\<lambda>_. True) p"
proof (induction n arbitrary: ef docs sawNL p)
  case 0
  then show ?case by simp
next
  case (Suc n)
  show ?case unfolding parseEarthfileLoop.simps Let_def
    by (intro wpS_bind_any wpS_ifI Suc.IH) (simp_all add: splitTargets_def parser_errorf_def)
qed

lemma isFunctionTarget_locs [simp]:
  "isFunctionTarget (t\<lparr>tgt_SourceLocation := l, tgt_Recipe := map (map_stmt_loc f) (tgt_Recipe t)\<rparr>) =
     isFunctionTarget t"
proof (cases "tgt_Recipe t")
  case (Cons st b)
  then show ?thesis
    by (cases st) (auto simp: isFunctionTarget_def map_cmd_loc_def split: StatementKind.split)
qed (simp add: isFunctionTarget_def)

lemma Parse_Inr:
  assumes "Parse b nm s = Inr ef"
  obtains ef0 where "ef = map_tree_loc (if b then set_file nm else (\<lambda>_. None)) ef0" "valid_tree ef0"
    "tree_ok s ef0" "filter isFunctionTarget (tree_Targets ef0) = []"
proof (rule Parse_cases [of nm s])
  fix ef0 assume p: "\<And>b. Parse b nm s = finish_parse b nm ef0" "tree_ok s ef0"
    "parseEarthfileLoop (parse_fuel s) empty_tree [] False (new_parser nm s) \<in> range (\<lambda>p. Inr (ef0, p))"
  have "filter isFunctionTarget (tree_Targets ef0) = []"
    using p(3) wpS_result [OF parseEarthfileLoop_targets] by blast
  then show thesis using that [of ef0] p(1,2) assms by (simp add: finish_parse_Inr)
qed (use assms in simp)

text \<open>
  C30. A tree that \<open>Parse\<close> returns is valid, and none of its targets is a function in
  disguise: no recipe of a target starts with COMMAND or FUNCTION.
\<close>

theorem Parse_tree_valid:
  assumes "Parse b nm s = Inr ef"
  shows "valid_tree ef \<and> filter isFunctionTarget (tree_Targets ef) = []"
proof -
  obtain ef0 f where "ef = map_tree_loc f ef0" "valid_tree ef0" "filter isFunctionTarget (tree_Targets ef0) = []"
    using assms by (rule Parse_Inr)
  moreover have "filter isFunctionTarget (tree_Targets (map_tree_loc f ef0)) =
      tree_Targets (map_tree_loc f (ef0\<lparr>tree_Targets := filter isFunctionTarget (tree_Targets ef0)\<rparr>))"
    by (simp add: map_tree_loc_def filter_map comp_def)
  ultimately show ?thesis by (simp add: map_tree_loc_def [of f "ef0\<lparr>tree_Targets := []\<rparr>"])
qed

text \<open>
  C31. With a source map, every location in the tree names the file and lies in the text:
  its first line is between 1 and the number of lines, and its last line is not past it.
\<close>

theorem Parse_locations:
  assumes "Parse True nm s = Inr ef" "Some l \<in> set (tree_locs ef)"
  shows "File l = nm \<and> 1 \<le> StartLine l \<and> StartLine l \<le> nlines s \<and> EndLine l \<le> nlines s"
proof -
  obtain ef0 where "ef = map_tree_loc (set_file nm) ef0" "tree_ok s ef0"
    using assms(1) by (rule Parse_Inr) auto
  then show ?thesis using assms(2)
    by (auto simp: tree_locs_map tree_ok_def set_file_def loc_ok_def dest: subsetD split: option.splits)
qed

text \<open>A small file, parsed by evaluation.\<close>

definition sample_tree :: Tree where
  "sample_tree = empty_tree\<lparr>tree_BaseRecipe := [stmt (KCommand
    \<lparr>cmd_Name = CmdFrom, cmd_Docs = [],
     cmd_SourceLocation = Some \<lparr>File = ''E'', StartLine = 1, StartColumn = 1, EndLine = 1, EndColumn = 7\<rparr>,
     cmd_Args = [''a''], cmd_ExecMode = False\<rparr>)]\<rparr>"

lemma sample_parse: "Parse True ''E'' ''FROM a'' = Inr sample_tree"
  by code_simp

theorem Parse_tree_valid_witness:
  "valid_tree sample_tree \<and> filter isFunctionTarget (tree_Targets sample_tree) = []"
  by (rule Parse_tree_valid [OF sample_parse])

theorem Parse_locations_witness:
  "(let l = \<lparr>File = ''E'', StartLine = 1, StartColumn = 1, EndLine = 1, EndColumn = 7\<rparr> in
     File l = ''E'' \<and> 1 \<le> StartLine l \<and> StartLine l \<le> nlines ''FROM a'' \<and> EndLine l \<le> nlines ''FROM a'')"
  unfolding Let_def
  by (rule Parse_locations [OF sample_parse]) (simp add: sample_tree_def tree_locs_def empty_tree_def)

end
