(* ===== verification/Earthfile_Version.thy ===== *)
theory Earthfile_Version
  imports Parser_Correct
begin

text \<open>
  Reading only the VERSION command, \<^verbatim>\<open>internal/earthfile/version.go\<close>, and its agreement
  with the full parser. The reader works on the scanner directly; its two loops are bounded
  by fuel, with \<open>VersionNoResult\<close> for fuel that does not suffice.
\<close>

datatype version_error =
    ReadEarthfile string item \<comment> \<open>file name and error token\<close>
  | UnexpectedInVersionCommand item
  | VersionNoResult

primrec versionArgsLoop ::
  "nat \<Rightarrow> bool \<Rightarrow> SourceLocation \<Rightarrow> string list \<Rightarrow> lexer \<Rightarrow> version_error + Version" where
  "versionArgsLoop 0 enableSourceMap loc args l = Inl VersionNoResult"
| "versionArgsLoop (Suc n) enableSourceMap loc args l =
    (case nextItem l of
       None \<Rightarrow> Inl VersionNoResult
     | Some (argTok, l') \<Rightarrow>
         if it_Typ argTok = itemAtom then versionArgsLoop n enableSourceMap loc (args @ [it_Val argTok]) l'
         else if it_Typ argTok = itemWS then versionArgsLoop n enableSourceMap loc args l'
         else if it_Typ argTok \<in> {itemNL, itemComment, itemEOLComment, itemEOF} then
           Inr \<lparr>ver_SourceLocation = (if enableSourceMap then Some (ends_at loc (end_loc argTok)) else None),
                ver_Args = args\<rparr>
         else Inl (UnexpectedInVersionCommand argTok))"

primrec versionLoop :: "nat \<Rightarrow> bool \<Rightarrow> string \<Rightarrow> lexer \<Rightarrow> version_error + Version option" where
  "versionLoop 0 enableSourceMap name l = Inl VersionNoResult"
| "versionLoop (Suc n) enableSourceMap name l =
    (case nextItem l of
       None \<Rightarrow> Inl VersionNoResult
     | Some (tok, l') \<Rightarrow>
         if it_Typ tok = itemEOF then Inr None
         else if it_Typ tok = itemError then Inl (ReadEarthfile name tok)
         else if it_Typ tok \<in> {itemNL, itemWS, itemComment, itemEOLComment} then
           versionLoop n enableSourceMap name l'
         else if it_Typ tok = itemVersion then
           rbind (versionArgsLoop n enableSourceMap ((start_loc tok)\<lparr>File := name\<rparr>) [] l') (\<lambda>v. Inr (Some v))
         else Inr None)"

definition version_parseVersion :: "bool \<Rightarrow> string \<Rightarrow> string \<Rightarrow> version_error + Version option" where
  "version_parseVersion enableSourceMap name text =
    versionLoop (parse_fuel text) enableSourceMap name (lex name text)"

section \<open>Termination\<close>

lemma versionArgsLoop_ends:
  "lex_ready l \<Longrightarrow> lex_work l < n \<Longrightarrow> versionArgsLoop n b loc args l \<noteq> Inl VersionNoResult"
proof (induction n arbitrary: l args)
  case (Suc n)
  obtain it l' where "nextItem l = Some (it, l')" "lex_ready l'" "it_Typ it \<noteq> itemEOF \<Longrightarrow> lex_work l' < lex_work l"
    using lexed.nxtE [OF Suc.prems(1)] by metis
  then show ?case using Suc.IH [of l'] Suc.prems(2) by auto
qed simp

lemma versionLoop_ends:
  "lex_ready l \<Longrightarrow> lex_work l < n \<Longrightarrow> versionLoop n b nm l \<noteq> Inl VersionNoResult"
proof (induction n arbitrary: l)
  case (Suc n)
  obtain it l' where "nextItem l = Some (it, l')" "lex_ready l'" "it_Typ it \<noteq> itemEOF \<Longrightarrow> lex_work l' < lex_work l"
    using lexed.nxtE [OF Suc.prems(1)] by metis
  then show ?case using Suc.IH [of l'] Suc.prems(2) versionArgsLoop_ends [of l' n]
    by (auto simp: rbind_eq_Inl_iff)
qed simp

text \<open>
  Reading the VERSION command terminates on every text.
\<close>

theorem version_parseVersion_total: "version_parseVersion b nm s \<noteq> Inl VersionNoResult"
  unfolding version_parseVersion_def
  by (rule versionLoop_ends [OF lex_ready_init]) (simp add: lex_work_init parse_fuel_def)

section \<open>Agreement with the parser\<close>

text \<open>The parser between two tokens: nothing is peeked.\<close>

definition between :: "parser \<Rightarrow> bool" where
  "between p \<longleftrightarrow> p_peekCount p = 0 \<and> length (p_token p) = 3"

definition holding :: "item \<Rightarrow> lexer \<Rightarrow> parser \<Rightarrow> parser" where
  "holding t l p = p\<lparr>p_peekCount := 1, p_lex := l, p_token := (p_token p)[0 := t]\<rparr>"

definition after :: "item \<Rightarrow> lexer \<Rightarrow> parser \<Rightarrow> parser" where
  "after t l p = p\<lparr>p_lex := l, p_token := (p_token p)[0 := t]\<rparr>"

lemma peek_between:
  "between p \<Longrightarrow> peekT p = (case nextItem (p_lex p) of None \<Rightarrow> Inl NoResult | Some (t, l) \<Rightarrow> Inr (t, holding t l p))"
  by (auto simp: peekT_def parser_peek_def between_def holding_def split: option.split)

lemma next_holding [simp]: "between p \<Longrightarrow> nextT (holding t l p) = Inr (t, after t l p)"
  by (auto simp: nextT_def parser_next_def between_def holding_def after_def)

lemma between_after [simp]: "between p \<Longrightarrow> between (after t l p)" "p_lex (after t l p) = l"
  by (auto simp: between_def after_def)

lemma versionArgs_agree:
  "between p \<Longrightarrow> parseVersionArgs n loc args p = Inr (v, p') \<Longrightarrow>
     versionArgsLoop n True (loc\<lparr>File := nm\<rparr>) args (p_lex p) =
       Inr (v\<lparr>ver_SourceLocation := set_file nm (ver_SourceLocation v)\<rparr>)"
proof (induction n arbitrary: p args)
  case (Suc n)
  then show ?case
    by (auto simp: bindS_def peek_between retS_def failS_def parser_errorf_def set_file_def ends_at_def
        split: option.splits prod.splits if_splits dest: Suc.IH [OF between_after(1) [OF Suc.prems(1)]])
qed (simp add: failS_def)

lemma tree_Version_kept:
  "wpS (parseEarthfileLoop n ef docs sawNL) (\<lambda>ef' _. tree_Version ef = None \<or> tree_Version ef' \<noteq> None)
     (\<lambda>_. True) p"
proof (cases "tree_Version ef = None")
  case True
  then show ?thesis by (simp add: wpS_def split: sum.split)
next
  case False
  then have "wpS (parseEarthfileLoop n ef docs sawNL) (\<lambda>ef' _. tree_Version ef' \<noteq> None) (\<lambda>_. True) p"
  proof (induction n arbitrary: ef docs sawNL p)
    case (Suc n)
    show ?case unfolding parseEarthfileLoop.simps Let_def
      by (intro wpS_bind_any wpS_ifI Suc.IH)
        (use Suc.prems in \<open>simp_all add: splitTargets_def parser_errorf_def add_stmt_def\<close>)
  qed simp
  then show ?thesis by (rule wpS_mono) simp
qed

lemma versionLoop_agree:
  "between p \<Longrightarrow> parseEarthfileLoop n ef docs sawNL p = Inr (ef', p') \<Longrightarrow>
     \<exists>r. versionLoop n True nm (p_lex p) = Inr r \<and> (r = None \<or> tree_Version ef' \<noteq> None)"
proof (induction n arbitrary: p ef docs sawNL)
  case 0
  then show ?case by (simp add: failS_def)
next
  case (Suc n)
  obtain t l where t: "nextItem (p_lex p) = Some (t, l)"
    using Suc.prems by (auto simp: bindS_def peek_between split: option.splits)
  consider "it_Typ t = itemVersion" | "it_Typ t = itemError" | "it_Typ t \<in> {itemNL, itemWS, itemComment, itemEOLComment}"
    | "it_Typ t \<notin> {itemVersion, itemError, itemNL, itemWS, itemComment, itemEOLComment}" by blast
  then show ?case
  proof cases
    case 1
    with Suc.prems t obtain v p1 where v: "parseVersionArgs n (start_loc t) [] (after t l p) = Inr (v, p1)"
      and r: "parseEarthfileLoop n (ef\<lparr>tree_Version := Some v\<rparr>) [] False p1 = Inr (ef', p')"
      by (auto simp: bindS_def peek_between parseVersion_def parser_errorf_def failS_def
          split: if_splits sum.splits)
    have "tree_Version ef' \<noteq> None" using wpS_result [OF tree_Version_kept r] by simp
    then show ?thesis using 1 t versionArgs_agree [OF between_after(1) v] Suc.prems(1) by simp
  next
    case 2
    then show ?thesis using Suc.prems t by (simp add: bindS_def peek_between parser_errorf_def failS_def)
  next
    case 3
    then obtain docs' saw where "parseEarthfileLoop n ef docs' saw (after t l p) = Inr (ef', p')"
      using Suc.prems t by (auto simp: bindS_def peek_between split: if_splits)
    then show ?thesis using Suc.IH [OF between_after(1) [OF Suc.prems(1)]] 3 t by auto
  next
    case 4
    then show ?thesis using t by auto
  qed
qed



text \<open>
  C18. The two readers of the VERSION differ on a file with two VERSION commands: \<open>Parse\<close>
  accepts it and keeps the last one, while \<open>ParseVersionFile\<close> returns the first one.
\<close>

theorem version_twice_differs:
  "(let s = ''VERSION 0.6'' @ [ch_nl] @ ''VERSION 0.8'' in
     version_parseVersion False ''E'' s = Inr (Some \<lparr>ver_SourceLocation = None, ver_Args = [''0.6'']\<rparr>) \<and>
     Parse False ''E'' s =
       Inr (empty_tree\<lparr>tree_Version := Some \<lparr>ver_SourceLocation = None, ver_Args = [''0.8'']\<rparr>\<rparr>))"
  by code_simp

end
