(* ===== verification/Result_State.thy ===== *)
theory Result_State
  imports Prelude
begin

text \<open>
  Stateful operations that may fail and keep the state they reached: a function from the
  state to a result or an error, with the new state in both cases. It is the shape of a Go
  method that returns an error and leaves what it did to its receiver in place.

  The locale \<open>run_rel\<close> is the calculus for such operations. It has one relation between the
  states before and after an operation that returns, and a weaker one for an operation that
  fails; the rules follow the text of an operation, so a proof about a handler is a walk
  over its definition.
\<close>

type_synonym ('s, 'e, 'a) rs = "'s \<Rightarrow> ('e + 'a) \<times> 's"

definition retR :: "'a \<Rightarrow> ('s, 'e, 'a) rs" where
  "retR x s = (Inr x, s)"

definition failR :: "'e \<Rightarrow> ('s, 'e, 'a) rs" where
  "failR e s = (Inl e, s)"

definition bindR :: "('s, 'e, 'a) rs \<Rightarrow> ('a \<Rightarrow> ('s, 'e, 'b) rs) \<Rightarrow> ('s, 'e, 'b) rs" where
  "bindR m f s = (case m s of (Inl e, s') \<Rightarrow> (Inl e, s') | (Inr x, s') \<Rightarrow> f x s')"

text \<open>\<open>readR g f\<close> goes on with the value of a field.\<close>

definition readR :: "('s \<Rightarrow> 'a) \<Rightarrow> ('a \<Rightarrow> ('s, 'e, 'b) rs) \<Rightarrow> ('s, 'e, 'b) rs" where
  "readR g f s = f (g s) s"

definition modR :: "('s \<Rightarrow> 's) \<Rightarrow> ('s, 'e, unit) rs" where
  "modR f s = (Inr (), f s)"

definition liftR :: "'e + 'a \<Rightarrow> ('s, 'e, 'a) rs" where
  "liftR r s = (r, s)"

text \<open>\<open>if err != nil { return g(err) }\<close>\<close>

definition onErrR :: "('e \<Rightarrow> 'f) \<Rightarrow> ('s, 'e, 'a) rs \<Rightarrow> ('s, 'f, 'a) rs" where
  "onErrR g m s = (case m s of (r, s') \<Rightarrow> (case r of Inl e \<Rightarrow> Inl (g e) | Inr x \<Rightarrow> Inr x, s'))"

text \<open>The result or the error as a value, for code that goes on after an error.\<close>

definition tryR :: "('s, 'e, 'a) rs \<Rightarrow> ('s, 'e, 'e + 'a) rs" where
  "tryR m s = (case m s of (r, s') \<Rightarrow> (Inr r, s'))"

text \<open>\<open>for\<close> loops over a slice that return at the first error: one that fills a slice of the
  same length, and one that only acts.\<close>

fun mapR :: "('a \<Rightarrow> ('s, 'e, 'b) rs) \<Rightarrow> 'a list \<Rightarrow> ('s, 'e, 'b list) rs" where
  "mapR f [] = retR []"
| "mapR f (x # xs) = bindR (f x) (\<lambda>y. bindR (mapR f xs) (\<lambda>ys. retR (y # ys)))"

fun forR :: "'a list \<Rightarrow> ('a \<Rightarrow> ('s, 'e, unit) rs) \<Rightarrow> ('s, 'e, unit) rs" where
  "forR [] f = retR ()"
| "forR (x # xs) f = bindR (f x) (\<lambda>_. forR xs f)"

lemmas rs_defs = retR_def failR_def bindR_def readR_def modR_def liftR_def onErrR_def tryR_def

lemma bindR_ret [simp]: "bindR (retR x) f = f x"
  by (rule ext) (simp add: rs_defs)

lemma bindR_fail [simp]: "bindR (failR e) f = failR e"
  by (rule ext) (simp add: rs_defs)

lemma bindR_assoc: "bindR (bindR m f) g = bindR m (\<lambda>x. bindR (f x) g)"
  by (rule ext) (simp add: rs_defs split: prod.split sum.split)

section \<open>Relations between the states before and after\<close>

locale run_rel =
  fixes B :: "'s \<Rightarrow> 's \<Rightarrow> bool"
    and S :: "'s \<Rightarrow> 's \<Rightarrow> bool"
  assumes B_refl [intro, simp]: "B s s"
    and B_trans: "B s t \<Longrightarrow> B t u \<Longrightarrow> B s u"
    and BS_trans: "B s t \<Longrightarrow> S t u \<Longrightarrow> S s u"
    and S_refl [intro, simp]: "S s s"
begin

definition ok :: "'s \<Rightarrow> ('s, 'e, 'a) rs \<Rightarrow> bool" where
  "ok s0 m \<longleftrightarrow> (\<forall>t. B s0 t \<longrightarrow> (case m t of (Inl _, u) \<Rightarrow> S s0 u | (Inr _, u) \<Rightarrow> B s0 u))"

text \<open>Operations that keep the strong relation even when they fail.\<close>

definition quiet :: "'s \<Rightarrow> ('s, 'e, 'a) rs \<Rightarrow> bool" where
  "quiet s0 m \<longleftrightarrow> (\<forall>t. B s0 t \<longrightarrow> B s0 (snd (m t)))"

lemma B_S: "B s t \<Longrightarrow> S s t"
  using BS_trans S_refl by blast

lemma okI:
  "(\<And>t r u. B s0 t \<Longrightarrow> m t = (r, u) \<Longrightarrow> (case r of Inl _ \<Rightarrow> S s0 u | Inr _ \<Rightarrow> B s0 u)) \<Longrightarrow> ok s0 m"
  by (simp add: ok_def split: prod.split)

lemma okD:
  "ok s0 m \<Longrightarrow> B s0 t \<Longrightarrow> m t = (r, u) \<Longrightarrow> (case r of Inl _ \<Rightarrow> S s0 u | Inr _ \<Rightarrow> B s0 u)"
  by (auto simp: ok_def split: prod.splits)

lemma quiet_ok: "quiet s0 m \<Longrightarrow> ok s0 m"
  by (rule okI) (metis quiet_def B_S snd_conv old.sum.exhaust old.sum.simps(5,6))

lemma ok_ret: "ok s0 (retR x)"
  by (simp add: ok_def retR_def)

lemma ok_fail: "ok s0 (failR e)"
  by (simp add: ok_def failR_def B_S)

lemma ok_lift: "ok s0 (liftR r)"
  by (auto simp: ok_def liftR_def B_S split: sum.split)

lemma ok_read: "(\<And>t. B s0 t \<Longrightarrow> ok s0 (f (g t))) \<Longrightarrow> ok s0 (readR g f)"
  by (simp add: ok_def readR_def)

text \<open>A sequence in which the result of the first operation matters.\<close>

definition gives :: "'s \<Rightarrow> ('s, 'e, 'a) rs \<Rightarrow> ('a \<Rightarrow> bool) \<Rightarrow> bool" where
  "gives s0 m P \<longleftrightarrow> (\<forall>t. B s0 t \<longrightarrow> (case fst (m t) of Inl _ \<Rightarrow> True | Inr x \<Rightarrow> P x))"

lemma ok_bind_gives: "ok s0 m \<Longrightarrow> gives s0 m P \<Longrightarrow> (\<And>x. P x \<Longrightarrow> ok s0 (f x)) \<Longrightarrow> ok s0 (bindR m f)"
proof (rule okI)
  fix t r u
  assume m: "ok s0 m" "gives s0 m P" and f: "\<And>x. P x \<Longrightarrow> ok s0 (f x)" and t: "B s0 t" and r: "bindR m f t = (r, u)"
  obtain r1 u1 where 1: "m t = (r1, u1)" by (cases "m t")
  show "case r of Inl _ \<Rightarrow> S s0 u | Inr _ \<Rightarrow> B s0 u"
  proof (cases r1)
    case (Inl e)
    then show ?thesis using r 1 okD [OF m(1) t 1] by (auto simp: bindR_def)
  next
    case (Inr x)
    then have "B s0 u1" "f x u1 = (r, u)" "P x" using r 1 t okD [OF m(1) t 1] m(2) by (auto simp: bindR_def gives_def)
    then show ?thesis using okD [OF f] by blast
  qed
qed

lemma ok_bind: "ok s0 m \<Longrightarrow> (\<And>x. ok s0 (f x)) \<Longrightarrow> ok s0 (bindR m f)"
  by (rule ok_bind_gives [where P = "\<lambda>_. True"]) (auto simp: gives_def split: sum.split)

lemma ok_mod: "(\<And>t. B s0 t \<Longrightarrow> B s0 (f t)) \<Longrightarrow> ok s0 (modR f)"
  by (simp add: ok_def modR_def)

lemma ok_onErr: "ok s0 m \<Longrightarrow> ok s0 (onErrR g m)"
  by (rule okI) (auto simp: onErrR_def dest: okD split: prod.splits sum.splits)

lemma ok_try: "quiet s0 m \<Longrightarrow> ok s0 (tryR m)"
  by (rule okI) (auto simp: quiet_def tryR_def split: prod.splits dest!: spec)

text \<open>A deferred function, which sees the result.\<close>

lemma ok_defer:
  assumes "ok s0 m" "\<And>t x. B s0 t \<Longrightarrow> B s0 (f (Inr x) t)" "\<And>t e. S s0 t \<Longrightarrow> S s0 (f (Inl e) t)"
  shows "ok s0 (bindR (tryR m) (\<lambda>r. bindR (modR (f r)) (\<lambda>_. liftR r)))"
proof (rule okI)
  fix t r u
  assume t: "B s0 t" and run: "bindR (tryR m) (\<lambda>r. bindR (modR (f r)) (\<lambda>_. liftR r)) t = (r, u)"
  obtain r1 t1 where 1: "m t = (r1, t1)" by (cases "m t")
  then have "r = r1" "u = f r1 t1" using run by (auto simp: bindR_def tryR_def modR_def liftR_def)
  then show "case r of Inl _ \<Rightarrow> S s0 u | Inr _ \<Rightarrow> B s0 u"
    using okD [OF assms(1) t 1] assms(2,3) by (cases r1) auto
qed

lemma ok_if: "(b \<Longrightarrow> ok s0 m) \<Longrightarrow> (\<not> b \<Longrightarrow> ok s0 n) \<Longrightarrow> ok s0 (if b then m else n)"
  by simp

lemma ok_option: "(x = None \<Longrightarrow> ok s0 m) \<Longrightarrow> (\<And>y. x = Some y \<Longrightarrow> ok s0 (f y)) \<Longrightarrow> ok s0 (case x of None \<Rightarrow> m | Some y \<Rightarrow> f y)"
  by (cases x) auto

lemma ok_sum: "(\<And>e. x = Inl e \<Longrightarrow> ok s0 (f e)) \<Longrightarrow> (\<And>y. x = Inr y \<Longrightarrow> ok s0 (g y)) \<Longrightarrow>
    ok s0 (case x of Inl e \<Rightarrow> f e | Inr y \<Rightarrow> g y)"
  by (cases x) auto

lemma ok_prod: "(\<And>a b. x = (a, b) \<Longrightarrow> ok s0 (f a b)) \<Longrightarrow> ok s0 (case x of (a, b) \<Rightarrow> f a b)"
  by (cases x) auto

lemma ok_list: "(x = [] \<Longrightarrow> ok s0 m) \<Longrightarrow> (\<And>y ys. x = y # ys \<Longrightarrow> ok s0 (f y ys)) \<Longrightarrow>
    ok s0 (case x of [] \<Rightarrow> m | y # ys \<Rightarrow> f y ys)"
  by (cases x) auto

lemma ok_map: "(\<And>x. x \<in> set xs \<Longrightarrow> ok s0 (f x)) \<Longrightarrow> ok s0 (mapR f xs)"
  by (induction xs) (auto intro!: ok_bind ok_ret)

lemma ok_for: "(\<And>x. x \<in> set xs \<Longrightarrow> ok s0 (f x)) \<Longrightarrow> ok s0 (forR xs f)"
  by (induction xs) (auto intro!: ok_bind ok_ret)

lemmas ok_rules = ok_ret ok_fail ok_lift ok_bind ok_onErr ok_if ok_option ok_sum ok_prod ok_list ok_map ok_for

text \<open>An operation that is in order from every state is so from every later one.\<close>

lemma ok_start: "(\<And>s. ok s m) \<Longrightarrow> B s0 t \<Longrightarrow> (case m t of (Inl _, u) \<Rightarrow> S s0 u | (Inr _, u) \<Rightarrow> B s0 u)"
  by (simp add: ok_def)

end

end
