(* ===== verification/Cmd_Opts.thy ===== *)
theory Cmd_Opts
  imports Prelude
begin

text \<open>
  The option structures of \<^verbatim>\<open>earthfile2llb/cmdopts/cmdopts.go\<close>, one record per Earthfile
  command, with the zero value of each that \<open>var opts\<close> declares. A duration is its number of
  nanoseconds. \<open>Project\<close>, \<open>Set\<close> and \<open>Let\<close> have no options and are \<open>unit\<close>.
\<close>

record If_opts =
  if_Secrets :: "string list"
  if_Mounts :: "string list"
  if_Privileged :: bool
  if_WithSSH :: bool
  if_NoCache :: bool

record For_opts =
  for_Separators :: string
  for_Secrets :: "string list"
  for_Mounts :: "string list"
  for_Privileged :: bool
  for_WithSSH :: bool
  for_NoCache :: bool

record Run_opts =
  run_OIDC :: string
  run_Network :: string
  run_Secrets :: "string list"
  run_Mounts :: "string list"
  run_Push :: bool
  run_Privileged :: bool
  run_WithEntrypoint :: bool
  run_WithDocker :: bool
  run_WithSSH :: bool
  run_WithAWS :: bool
  run_NoCache :: bool
  run_Interactive :: bool
  run_InteractiveKeep :: bool
  run_RawOutput :: bool

record From_opts =
  from_Platform :: string
  from_BuildArgs :: "string list"
  from_AllowPrivileged :: bool
  from_PassArgs :: bool

record FromDockerfile_opts =
  fdf_Platform :: string
  fdf_Target :: string
  fdf_Path :: string
  fdf_BuildArgs :: "string list"
  fdf_AllowPrivileged :: bool

record Copy_opts =
  copy_From :: string
  copy_Chown :: string
  copy_Chmod :: string
  copy_Platform :: string
  copy_BuildArgs :: "string list"
  copy_IsDirCopy :: bool
  copy_KeepTs :: bool
  copy_KeepOwn :: bool
  copy_IfExists :: bool
  copy_SymlinkNoFollow :: bool
  copy_AllowPrivileged :: bool
  copy_PassArgs :: bool

record SaveArtifact_opts =
  sa_KeepTs :: bool
  sa_KeepOwn :: bool
  sa_IfExists :: bool
  sa_SymlinkNoFollow :: bool
  sa_Force :: bool

record SaveImage_opts =
  si_CacheFrom :: "string list"
  si_Push :: bool
  si_CacheHint :: bool
  si_Insecure :: bool
  si_NoManifestList :: bool
  si_WithoutEarthLabels :: bool

record Build_opts =
  build_Platforms :: "string list"
  build_BuildArgs :: "string list"
  build_AllowPrivileged :: bool
  build_PassArgs :: bool
  build_AutoSkip :: bool

record GitClone_opts =
  gc_Branch :: string
  gc_KeepTs :: bool

record HealthCheck_opts =
  hc_Interval :: int
  hc_Timeout :: int
  hc_StartPeriod :: int
  hc_Retries :: int
  hc_StartInterval :: int

record WithDocker_opts =
  wdo_Platform :: string
  wdo_CacheID :: string
  wdo_ComposeFiles :: "string list"
  wdo_ComposeServices :: "string list"
  wdo_Loads :: "string list"
  wdo_BuildArgs :: "string list"
  wdo_Pulls :: "string list"
  wdo_AllowPrivileged :: bool
  wdo_PassArgs :: bool

record Do_opts =
  do_AllowPrivileged :: bool
  do_PassArgs :: bool

record Import_opts =
  imp_AllowPrivileged :: bool
  imp_PassArgs :: bool

record Arg_opts =
  arg_Required :: bool
  arg_Global :: bool

record Cache_opts =
  cache_Sharing :: string
  cache_Mode :: string
  cache_ID :: string
  cache_Persist :: bool

definition zero_If :: If_opts where
  "zero_If = \<lparr>if_Secrets = [], if_Mounts = [], if_Privileged = False, if_WithSSH = False, if_NoCache = False\<rparr>"

definition NewFor :: For_opts where
  "NewFor = \<lparr>for_Separators = [CHR 0x0A, CHR 0x09, CHR 0x20], for_Secrets = [], for_Mounts = [],
     for_Privileged = False, for_WithSSH = False, for_NoCache = False\<rparr>"

definition zero_Run :: "string \<Rightarrow> Run_opts" where
  "zero_Run oidc = \<lparr>run_OIDC = oidc, run_Network = [], run_Secrets = [], run_Mounts = [], run_Push = False,
     run_Privileged = False, run_WithEntrypoint = False, run_WithDocker = False, run_WithSSH = False,
     run_WithAWS = False, run_NoCache = False, run_Interactive = False, run_InteractiveKeep = False,
     run_RawOutput = False\<rparr>"

definition zero_From :: From_opts where
  "zero_From = \<lparr>from_Platform = [], from_BuildArgs = [], from_AllowPrivileged = False, from_PassArgs = False\<rparr>"

definition zero_FromDockerfile :: FromDockerfile_opts where
  "zero_FromDockerfile = \<lparr>fdf_Platform = [], fdf_Target = [], fdf_Path = [], fdf_BuildArgs = [],
     fdf_AllowPrivileged = False\<rparr>"

definition zero_Copy :: Copy_opts where
  "zero_Copy = \<lparr>copy_From = [], copy_Chown = [], copy_Chmod = [], copy_Platform = [], copy_BuildArgs = [],
     copy_IsDirCopy = False, copy_KeepTs = False, copy_KeepOwn = False, copy_IfExists = False,
     copy_SymlinkNoFollow = False, copy_AllowPrivileged = False, copy_PassArgs = False\<rparr>"

definition zero_SaveArtifact :: SaveArtifact_opts where
  "zero_SaveArtifact = \<lparr>sa_KeepTs = False, sa_KeepOwn = False, sa_IfExists = False, sa_SymlinkNoFollow = False,
     sa_Force = False\<rparr>"

definition zero_SaveImage :: SaveImage_opts where
  "zero_SaveImage = \<lparr>si_CacheFrom = [], si_Push = False, si_CacheHint = False, si_Insecure = False,
     si_NoManifestList = False, si_WithoutEarthLabels = False\<rparr>"

definition zero_Build :: Build_opts where
  "zero_Build = \<lparr>build_Platforms = [], build_BuildArgs = [], build_AllowPrivileged = False,
     build_PassArgs = False, build_AutoSkip = False\<rparr>"

definition zero_GitClone :: GitClone_opts where
  "zero_GitClone = \<lparr>gc_Branch = [], gc_KeepTs = False\<rparr>"

definition zero_HealthCheck :: HealthCheck_opts where
  "zero_HealthCheck = \<lparr>hc_Interval = 0, hc_Timeout = 0, hc_StartPeriod = 0, hc_Retries = 0, hc_StartInterval = 0\<rparr>"

definition zero_WithDocker :: WithDocker_opts where
  "zero_WithDocker = \<lparr>wdo_Platform = [], wdo_CacheID = [], wdo_ComposeFiles = [], wdo_ComposeServices = [],
     wdo_Loads = [], wdo_BuildArgs = [], wdo_Pulls = [], wdo_AllowPrivileged = False, wdo_PassArgs = False\<rparr>"

definition zero_Do :: Do_opts where
  "zero_Do = \<lparr>do_AllowPrivileged = False, do_PassArgs = False\<rparr>"

definition zero_Import :: Import_opts where
  "zero_Import = \<lparr>imp_AllowPrivileged = False, imp_PassArgs = False\<rparr>"

definition zero_Arg :: Arg_opts where
  "zero_Arg = \<lparr>arg_Required = False, arg_Global = False\<rparr>"

definition zero_Cache :: Cache_opts where
  "zero_Cache = \<lparr>cache_Sharing = [], cache_Mode = [], cache_ID = [], cache_Persist = False\<rparr>"

end
