(* ===== verification/Go_Path.thy ===== *)
theory Go_Path
  imports Go_Strings
begin

text \<open>
  Package \<open>path\<close> of Go's library, on slash-separated paths: \<open>path.IsAbs\<close>, \<open>path.Clean\<close> and
  \<open>path.Join\<close> of two elements. Cleaning runs over the elements of the path with a stack of the
  elements kept, the last one first. \<open>filepath.IsAbs\<close> is \<open>path.IsAbs\<close> on Unix.
\<close>

abbreviation ch_slash :: char where "ch_slash \<equiv> CHR ''/''"

definition path_IsAbs :: "string \<Rightarrow> bool" where
  "path_IsAbs p \<longleftrightarrow> p \<noteq> [] \<and> hd p = ch_slash"

definition path_step :: "bool \<Rightarrow> string list \<Rightarrow> string \<Rightarrow> string list" where
  "path_step rooted st c =
    (if c = [] \<or> c = ''.'' then st
     else if c = ''..'' then
       if st \<noteq> [] \<and> hd st \<noteq> ''..'' then tl st
       else if rooted then st
       else c # st
     else c # st)"

definition path_run :: "bool \<Rightarrow> string list \<Rightarrow> string list \<Rightarrow> string list" where
  "path_run rooted st cs = foldl (path_step rooted) st cs"

definition path_Clean :: "string \<Rightarrow> string" where
  "path_Clean p =
    (if p = [] then ''.''
     else
       let rooted = path_IsAbs p; out = rev (path_run rooted [] (Split p ch_slash)) in
       if rooted then ch_slash # Join out [ch_slash]
       else if out = [] then ''.'' else Join out [ch_slash])"

definition path_Join :: "string \<Rightarrow> string \<Rightarrow> string" where
  "path_Join a b =
    (if a = [] \<and> b = [] then []
     else path_Clean (if a = [] then b else a @ [ch_slash] @ b))"

section \<open>Elements\<close>

lemma Split_noslash: "ch_slash \<notin> \<Union> (set ` set (Split s ch_slash))"
  by (induction s) (auto split: list.splits)

lemma Split_append: "Split (x @ c # y) c = Split x c @ Split y c"
proof (induction x)
  case (Cons a x)
  then show ?case by (cases "Split x c") (auto split: list.split)
qed simp

lemma Split_no: "c \<notin> set s \<Longrightarrow> Split s c = [s]"
  by (induction s) auto

lemma Split_Join: "cs \<noteq> [] \<Longrightarrow> \<forall>x \<in> set cs. c \<notin> set x \<Longrightarrow> Split (Join cs [c]) c = cs"
proof (induction cs rule: induct_list012)
  case (3 a b cs)
  then show ?case by (simp add: Split_append Split_no)
qed (simp_all add: Split_no)

lemma Join_Cons: "Join (a # cs) sep = a @ (if cs = [] then [] else sep @ Join cs sep)"
  by (cases cs) simp_all

lemma path_run_simps [simp]:
  "path_run r st [] = st" "path_run r st (c # cs) = path_run r (path_step r st c) cs"
  "path_run r st (cs @ ds) = path_run r (path_run r st cs) ds"
  by (simp_all add: path_run_def)

text \<open>An element that is a name of its own.\<close>

abbreviation plain :: "string \<Rightarrow> bool" where
  "plain c \<equiv> c \<noteq> [] \<and> c \<noteq> ''.'' \<and> ch_slash \<notin> set c"

lemma path_step_plain:
  "set st \<subseteq> Collect plain \<Longrightarrow> ch_slash \<notin> set c \<Longrightarrow> set (path_step r st c) \<subseteq> Collect plain"
  by (auto simp: path_step_def dest: list.set_sel(2))

lemma path_run_plain:
  "set st \<subseteq> Collect plain \<Longrightarrow> ch_slash \<notin> \<Union> (set ` set cs) \<Longrightarrow> set (path_run r st cs) \<subseteq> Collect plain"
  by (induction cs arbitrary: st) (simp_all add: path_step_plain)

text \<open>Replaying the cleaned elements of a relative path has the effect of the path.\<close>

lemma path_run_replay: "path_run r st (rev (path_run False [] cs)) = path_run r st cs"
proof (induction cs rule: rev_induct)
  case (snoc c cs)
  let ?S = "path_run False [] cs"
  consider "c = [] \<or> c = ''.''" | "c = ''..''" "?S \<noteq> []" "hd ?S \<noteq> ''..''"
    | "path_step False ?S c = c # ?S"
    unfolding path_step_def by metis
  then show ?case
  proof cases
    case 1
    then show ?thesis using snoc by (auto simp: path_step_def)
  next
    case 2
    then obtain x S where S: "?S = x # S" "x \<noteq> ''..''" by (cases ?S) auto
    show ?thesis
    proof (cases "x = [] \<or> x = ''.''")
      case True
      have "set ?S \<subseteq> {c. c \<noteq> [] \<and> c \<noteq> ''.''}"
      proof (induction cs rule: rev_induct)
        case (snoc c cs)
        then show ?case by (auto simp: path_step_def dest: list.set_sel(2))
      qed simp
      then show ?thesis using S True by auto
    next
      case False
      then have "path_run r st cs = x # path_run r st (rev S)"
        using snoc S by (simp add: path_step_def)
      then show ?thesis using 2 S by (simp add: path_step_def)
    qed
  next
    case 3
    then show ?thesis using snoc by simp
  qed
qed simp

lemma path_run_clean:
  assumes "p \<noteq> []"
  shows "path_run r st (Split (path_Clean p) ch_slash) =
    path_run r st (rev (path_run (path_IsAbs p) [] (Split p ch_slash)))"
proof -
  let ?out = "rev (path_run (path_IsAbs p) [] (Split p ch_slash))"
  have "set ?out \<subseteq> Collect plain" using path_run_plain [OF _ Split_noslash, of "[]" "path_IsAbs p" p] by simp
  then have "Split (Join ?out [ch_slash]) ch_slash = ?out" if "?out \<noteq> []"
    using that by (intro Split_Join) auto
  then show ?thesis using assms
    by (cases "?out = []") (auto simp: path_Clean_def Let_def path_step_def)
qed

lemma path_IsAbs_clean [simp]: "path_IsAbs (path_Clean p) = path_IsAbs p"
proof (cases "p = [] \<or> path_IsAbs p")
  case True
  then show ?thesis by (auto simp: path_Clean_def path_IsAbs_def)
next
  case False
  let ?out = "rev (path_run False [] (Split p ch_slash))"
  have "set ?out \<subseteq> Collect plain" using path_run_plain [OF _ Split_noslash, of "[]" False p] by simp
  then have "\<not> path_IsAbs (Join ?out [ch_slash])"
    by (cases ?out) (auto simp: path_IsAbs_def Join_Cons dest: hd_in_set)
  then show ?thesis using False by (auto simp: path_Clean_def Let_def path_IsAbs_def)
qed

lemma path_Clean_nonempty [simp]: "path_Clean p \<noteq> []"
proof -
  have "set (rev (path_run False [] (Split p ch_slash))) \<subseteq> Collect plain"
    using path_run_plain [OF _ Split_noslash, of "[]" False p] by simp
  then show ?thesis
    by (cases "rev (path_run False [] (Split p ch_slash))") (auto simp: path_Clean_def Let_def Join_Cons)
qed

text \<open>A path is determined by its being absolute and the stack of its elements.\<close>

lemma path_Clean_cong:
  "p \<noteq> [] \<Longrightarrow> q \<noteq> [] \<Longrightarrow> path_IsAbs p = path_IsAbs q \<Longrightarrow>
     path_run (path_IsAbs q) [] (Split p ch_slash) = path_run (path_IsAbs q) [] (Split q ch_slash) \<Longrightarrow>
     path_Clean p = path_Clean q"
  by (simp add: path_Clean_def)

text \<open>In a rooted path the elements kept are no \<open>..\<close>, so replaying them keeps them.\<close>

lemma path_run_rooted: "''..'' \<notin> set st \<Longrightarrow> ''..'' \<notin> set (path_run True st cs)"
  by (induction cs arbitrary: st) (auto simp: path_step_def dest: list.set_sel(2))

lemma path_run_names:
  "set cs \<subseteq> Collect plain \<Longrightarrow> ''..'' \<notin> set cs \<Longrightarrow> path_run r st cs = rev cs @ st"
  by (induction cs arbitrary: st) (auto simp: path_step_def)

lemma path_run_idem: "path_run r [] (rev (path_run r [] (Split p ch_slash))) = path_run r [] (Split p ch_slash)"
proof (cases r)
  case True
  let ?S = "path_run True [] (Split p ch_slash)"
  have "set (rev ?S) \<subseteq> Collect plain" "''..'' \<notin> set (rev ?S)"
    using path_run_plain [OF _ Split_noslash, of "[]" True p] path_run_rooted [of "[]"] by simp_all
  then show ?thesis using True path_run_names by fastforce
qed (simp add: path_run_replay)

lemma path_Clean_idem [simp]: "path_Clean (path_Clean p) = path_Clean p"
proof (cases "p = []")
  case True
  then show ?thesis by (simp add: path_Clean_def path_IsAbs_def path_step_def)
next
  case False
  show ?thesis
    by (rule path_Clean_cong) (use False in \<open>simp_all add: path_run_clean path_run_idem\<close>)
qed

section \<open>Joining\<close>

lemma path_Join_nonempty: "a \<noteq> [] \<Longrightarrow> path_Join a b = path_Clean (a @ ch_slash # b)"
  by (simp add: path_Join_def)

lemma path_IsAbs_append [simp]: "a \<noteq> [] \<Longrightarrow> path_IsAbs (a @ b) = path_IsAbs a"
  by (simp add: path_IsAbs_def)

lemma path_run_cleaned:
  "p \<noteq> [] \<Longrightarrow> path_run (path_IsAbs p) [] (Split (path_Clean p) ch_slash) = path_run (path_IsAbs p) [] (Split p ch_slash)"
  by (simp add: path_run_clean path_run_idem)

lemma path_run_cleaned_relative:
  "p \<noteq> [] \<Longrightarrow> \<not> path_IsAbs p \<Longrightarrow> path_run r st (Split (path_Clean p) ch_slash) = path_run r st (Split p ch_slash)"
  by (simp add: path_run_clean path_run_replay)

lemma path_Join_assoc:
  assumes "a \<noteq> []" "b \<noteq> []" "\<not> path_IsAbs b"
  shows "path_Join (path_Join a b) c = path_Join a (path_Join b c)"
proof -
  have "path_Clean (path_Clean (a @ ch_slash # b) @ ch_slash # c) = path_Clean (a @ ch_slash # path_Clean (b @ ch_slash # c))"
    by (rule path_Clean_cong)
      (use assms path_run_cleaned [of "a @ ch_slash # b"] in
        \<open>simp_all add: Split_append path_run_cleaned_relative\<close>)
  then show ?thesis using assms by (simp add: path_Join_nonempty)
qed

text \<open>Cleaning the second element, or a leading \<open>./\<close>, changes nothing.\<close>

lemma path_Clean_dot: "p \<noteq> [] \<Longrightarrow> \<not> path_IsAbs p \<Longrightarrow> path_Clean (''./'' @ p) = path_Clean p"
proof (rule path_Clean_cong)
  show "path_run (path_IsAbs p) [] (Split (''./'' @ p) ch_slash) = path_run (path_IsAbs p) [] (Split p ch_slash)"
    using Split_append [of "''.''" ch_slash p] by (simp add: path_step_def)
qed (simp_all add: path_IsAbs_def)

lemma path_Join_dot_right:
  assumes "a \<noteq> []"
  shows "path_Join a (''./'' @ p) = path_Join a p"
proof -
  have "path_Clean (a @ ch_slash # ''./'' @ p) = path_Clean (a @ ch_slash # p)"
  proof (rule path_Clean_cong)
    show "path_run (path_IsAbs (a @ ch_slash # p)) [] (Split (a @ ch_slash # ''./'' @ p) ch_slash) =
        path_run (path_IsAbs (a @ ch_slash # p)) [] (Split (a @ ch_slash # p) ch_slash)"
      using Split_append [of "''.''" ch_slash p] Split_append [of a ch_slash "''./'' @ p"]
      by (simp add: Split_append path_step_def)
  qed (use assms in simp_all)
  then show ?thesis using assms by (simp add: path_Join_nonempty)
qed

lemma path_Join_dot_left: "p \<noteq> [] \<Longrightarrow> \<not> path_IsAbs p \<Longrightarrow> path_Join ''.'' p = path_Clean p"
  using path_Clean_dot [of p] by (simp add: path_Join_nonempty)

lemma path_Join_dot_prefix:
  assumes "a \<noteq> []" "\<not> path_IsAbs a"
  shows "path_Join (''./'' @ a) p = path_Join a p"
proof -
  have "path_Clean (''./'' @ (a @ ch_slash # p)) = path_Clean (a @ ch_slash # p)"
    by (rule path_Clean_dot) (use assms in simp_all)
  then show ?thesis using assms by (simp add: path_Join_nonempty)
qed

end
