(* ===== verification/Domain_Reference.thy ===== *)
theory Domain_Reference
  imports Go_Path
begin

text \<open>
  References to targets, commands and artifacts, \<^verbatim>\<open>domain/reference.go\<close>,
  \<^verbatim>\<open>domain/target.go\<close>, \<^verbatim>\<open>domain/command.go\<close> and \<^verbatim>\<open>domain/artifact.go\<close>. The Go interface
  \<open>Reference\<close> is the datatype of its two implementations, and its methods are functions on
  it. \<open>os.Getenv("HOME")\<close> is the argument \<open>home\<close>. Error texts are constructors with the
  arguments of their formats.
\<close>

section \<open>Data\<close>

record Target_ref =
  t_GitURL :: string
  t_Tag :: string
  t_LocalPath :: string
  t_ImportRef :: string
  t_Target :: string

record Command_ref =
  c_GitURL :: string
  c_Tag :: string
  c_LocalPath :: string
  c_ImportRef :: string
  c_Command :: string

datatype Reference = RefTarget Target_ref | RefCommand Command_ref

datatype ref_error =
    UnterminatedEscape string
  | InvalidTargetRef string
  | TargetNameMismatch string
  | CommandNameMismatch string
  | JoinUnresolved
  | JoinAbsolute string
  | InvalidArtifactName string
  | InvalidArtifactTarget string ref_error
  | ImportEmpty
  | ImportUnparsed string ref_error
  | ImportNotSupported string
  | ImportRequiresAs
  | InvalidImportAs string
  | ImportExists string
  | ImportUnresolved string

definition GetGitURL :: "Reference \<Rightarrow> string" where
  "GetGitURL r = (case r of RefTarget et \<Rightarrow> t_GitURL et | RefCommand ec \<Rightarrow> c_GitURL ec)"

definition GetTag :: "Reference \<Rightarrow> string" where
  "GetTag r = (case r of RefTarget et \<Rightarrow> t_Tag et | RefCommand ec \<Rightarrow> c_Tag ec)"

definition GetLocalPath :: "Reference \<Rightarrow> string" where
  "GetLocalPath r = (case r of RefTarget et \<Rightarrow> t_LocalPath et | RefCommand ec \<Rightarrow> c_LocalPath ec)"

definition GetImportRef :: "Reference \<Rightarrow> string" where
  "GetImportRef r = (case r of RefTarget et \<Rightarrow> t_ImportRef et | RefCommand ec \<Rightarrow> c_ImportRef ec)"

definition GetName :: "Reference \<Rightarrow> string" where
  "GetName r = (case r of RefTarget et \<Rightarrow> t_Target et | RefCommand ec \<Rightarrow> c_Command ec)"

definition IsLocalInternal :: "Reference \<Rightarrow> bool" where
  "IsLocalInternal r \<longleftrightarrow> GetLocalPath r = ''.''"

definition IsLocalExternal :: "Reference \<Rightarrow> bool" where
  "IsLocalExternal r \<longleftrightarrow> GetLocalPath r \<noteq> ''.'' \<and> GetLocalPath r \<noteq> []"

definition IsRemote :: "Reference \<Rightarrow> bool" where
  "IsRemote r \<longleftrightarrow> GetGitURL r \<noteq> [] \<and> \<not> IsLocalInternal r \<and> \<not> IsLocalExternal r"

definition IsImportReference :: "Reference \<Rightarrow> bool" where
  "IsImportReference r \<longleftrightarrow> GetImportRef r \<noteq> []"

definition IsExternal :: "Reference \<Rightarrow> bool" where
  "IsExternal r \<longleftrightarrow> IsRemote r \<or> IsLocalExternal r \<or> IsImportReference r"

definition IsUnresolvedImportReference :: "Reference \<Rightarrow> bool" where
  "IsUnresolvedImportReference r \<longleftrightarrow>
    IsImportReference r \<and> \<not> IsRemote r \<and> \<not> IsLocalExternal r \<and> \<not> IsLocalInternal r"

lemmas ref_getters = GetGitURL_def GetTag_def GetLocalPath_def GetImportRef_def GetName_def

lemmas ref_kinds = IsLocalInternal_def IsLocalExternal_def IsRemote_def IsImportReference_def
  IsUnresolvedImportReference_def

section \<open>Joining\<close>

text \<open>A reference of the type of \<open>r2\<close>, with the given parts.\<close>

definition same_type :: "Reference \<Rightarrow> string \<Rightarrow> string \<Rightarrow> string \<Rightarrow> Reference" where
  "same_type r2 gitURL tag localPath =
    (case r2 of
       RefTarget et \<Rightarrow> RefTarget \<lparr>t_GitURL = gitURL, t_Tag = tag, t_LocalPath = localPath,
         t_ImportRef = t_ImportRef et, t_Target = t_Target et\<rparr>
     | RefCommand ec \<Rightarrow> RefCommand \<lparr>c_GitURL = gitURL, c_Tag = tag, c_LocalPath = localPath,
         c_ImportRef = c_ImportRef ec, c_Command = c_Command ec\<rparr>)"

definition dot_slash :: "string \<Rightarrow> string" where
  "dot_slash p = (if \<not> prefix ''.'' p \<and> \<not> prefix [ch_slash] p then ''./'' @ p else p)"

definition JoinReferences :: "Reference \<Rightarrow> Reference \<Rightarrow> ref_error + Reference" where
  "JoinReferences r1 r2 =
    (if IsUnresolvedImportReference r1 \<or> IsUnresolvedImportReference r2 then Inl JoinUnresolved
     else if IsRemote r1 then
       if IsRemote r2 then Inr (same_type r2 (GetGitURL r2) (GetTag r2) (GetLocalPath r2))
       else if IsLocalExternal r2 then
         if path_IsAbs (GetLocalPath r2) then Inl (JoinAbsolute (GetLocalPath r2))
         else Inr (same_type r2 (path_Join (GetGitURL r1) (GetLocalPath r2)) (GetTag r1) [])
       else if IsLocalInternal r2 then Inr (same_type r2 (GetGitURL r1) (GetTag r1) [])
       else Inr (same_type r2 (GetGitURL r2) (GetTag r1) (GetLocalPath r2))
     else if IsLocalExternal r2 then
       if path_IsAbs (GetLocalPath r2)
       then Inr (same_type r2 (GetGitURL r2) (GetTag r2) (path_Clean (GetLocalPath r2)))
       else Inr (same_type r2 (GetGitURL r2) (GetTag r2) (dot_slash (path_Join (GetLocalPath r1) (GetLocalPath r2))))
     else if IsLocalInternal r2 then Inr (same_type r2 (GetGitURL r2) (GetTag r2) (GetLocalPath r1))
     else Inr (same_type r2 (GetGitURL r2) (GetTag r2) (GetLocalPath r2)))"

section \<open>Printing\<close>

definition escapePlus :: "string \<Rightarrow> string" where
  "escapePlus str = concat (map (\<lambda>c. if c = CHR ''+'' then [ch_bslash, CHR ''+''] else [c]) str)"

definition remote_string :: "Reference \<Rightarrow> string" where
  "remote_string r =
    escapePlus (GetGitURL r) @ (if GetTag r \<noteq> [] then '':'' @ escapePlus (GetTag r) else [])"

definition referenceString :: "Reference \<Rightarrow> string" where
  "referenceString r =
    (if IsImportReference r then escapePlus (GetImportRef r) @ ''+'' @ GetName r
     else if IsLocalExternal r then escapePlus (GetLocalPath r) @ ''+'' @ GetName r
     else if IsRemote r then remote_string r @ ''+'' @ GetName r
     else ''+'' @ GetName r)"

definition referenceProjectCanonical :: "Reference \<Rightarrow> string" where
  "referenceProjectCanonical r =
    (if GetGitURL r \<noteq> [] then remote_string r
     else if GetLocalPath r = ''.'' then []
     else if GetLocalPath r = [] \<and> GetImportRef r \<noteq> [] then escapePlus (GetImportRef r)
     else escapePlus (GetLocalPath r))"

definition referenceStringCanonical :: "Reference \<Rightarrow> string" where
  "referenceStringCanonical r =
    (if GetGitURL r \<noteq> [] then remote_string r @ ''+'' @ GetName r
     else if GetLocalPath r = ''.'' then ''+'' @ GetName r
     else if GetLocalPath r = [] \<and> GetImportRef r \<noteq> [] then escapePlus (GetImportRef r) @ ''+'' @ GetName r
     else escapePlus (GetLocalPath r) @ ''+'' @ GetName r)"

section \<open>Parsing\<close>

text \<open>The bytes that appending a rune to a \<open>[]rune\<close> and converting it back to a string
  gives: invalid bytes become the encoding of \<open>RuneError\<close>.\<close>

definition rune_bytes :: "rune \<times> string \<Rightarrow> string" where
  "rune_bytes x = (if fst x = RuneError then [CHR 0xEF, CHR 0xBF, CHR 0xBD] else snd x)"

fun splitPlusLoop :: "(rune \<times> string) list \<Rightarrow> bool \<Rightarrow> string \<Rightarrow> string list \<Rightarrow> string list option" where
  "splitPlusLoop [] escape word ret =
    (if escape then None else Some (if word \<noteq> [] then ret @ [word] else ret))"
| "splitPlusLoop (c # cs) escape word ret =
    (if escape then
       splitPlusLoop cs False
         (word @ (if fst c \<noteq> of_char (CHR ''+'') then [ch_bslash] else []) @ rune_bytes c) ret
     else if fst c = of_char ch_bslash then splitPlusLoop cs True word ret
     else if fst c = of_char (CHR ''+'') then splitPlusLoop cs False [] (ret @ [word])
     else splitPlusLoop cs False (word @ rune_bytes c) ret)"

definition splitUnescapePlus :: "string \<Rightarrow> ref_error + string list" where
  "splitUnescapePlus str =
    (case splitPlusLoop (runes str) False [] [] of
       None \<Rightarrow> Inl (UnterminatedEscape str)
     | Some ret \<Rightarrow> Inr ret)"

definition localPart :: "string \<Rightarrow> string \<Rightarrow> string" where
  "localPart home p =
    (if prefix ''~/'' p then home @ [ch_slash] @ drop 2 p
     else if path_IsAbs p then path_Clean p
     else let q = path_Clean p in if \<not> prefix ''.'' q then ''./'' @ q else q)"

definition parseCommon ::
  "string \<Rightarrow> string \<Rightarrow> ref_error + (string \<times> string \<times> string \<times> string \<times> string)" where
  "parseCommon home fullName =
    rbind (splitUnescapePlus fullName) (\<lambda>partsPlus.
    if length partsPlus \<noteq> 2 then Inl (InvalidTargetRef fullName)
    else
      let p = partsPlus ! 0; name = partsPlus ! 1 in
      if p = [] then Inr ([], [], ''.'', [], name)
      else if prefix ''.'' p \<or> prefix ''~/'' p \<or> path_IsAbs p then
        Inr ([], [], localPart home p, [], name)
      else if ContainsAny p ''/:'' then
        let partsColon = SplitN2 p (CHR '':'') in
        Inr (partsColon ! 0, if length partsColon = 2 then partsColon ! 1 else [], [], [], name)
      else Inr ([], [], [], p, name))"

text \<open>The regular expressions of the names.\<close>

definition lower :: "char \<Rightarrow> bool" where "lower c \<longleftrightarrow> c \<in> set ''abcdefghijklmnopqrstuvwxyz''"
definition upper :: "char \<Rightarrow> bool" where "upper c \<longleftrightarrow> c \<in> set ''ABCDEFGHIJKLMNOPQRSTUVWXYZ''"
definition digit :: "char \<Rightarrow> bool" where "digit c \<longleftrightarrow> c \<in> set ''0123456789''"

definition targetNameRegex :: "string \<Rightarrow> bool" where
  "targetNameRegex s \<longleftrightarrow>
    s \<noteq> [] \<and> lower (hd s) \<and> list_all (\<lambda>c. lower c \<or> upper c \<or> digit c \<or> c \<in> set ''.-'') (tl s)"

definition commandNameRegex :: "string \<Rightarrow> bool" where
  "commandNameRegex s \<longleftrightarrow>
    s \<noteq> [] \<and> upper (hd s) \<and> list_all (\<lambda>c. upper c \<or> digit c \<or> c \<in> set ''._'') (tl s)"

definition ParseTarget :: "string \<Rightarrow> string \<Rightarrow> ref_error + Target_ref" where
  "ParseTarget home fullTargetName =
    rbind (parseCommon home fullTargetName) (\<lambda>(gitURL, tag, localPath, importRef, target).
    if \<not> targetNameRegex target then Inl (TargetNameMismatch target)
    else Inr \<lparr>t_GitURL = gitURL, t_Tag = tag, t_LocalPath = localPath, t_ImportRef = importRef, t_Target = target\<rparr>)"

definition ParseCommand :: "string \<Rightarrow> string \<Rightarrow> ref_error + Command_ref" where
  "ParseCommand home fullCommandName =
    rbind (parseCommon home fullCommandName) (\<lambda>(gitURL, tag, localPath, importRef, command).
    if \<not> commandNameRegex command then Inl (CommandNameMismatch command)
    else Inr \<lparr>c_GitURL = gitURL, c_Tag = tag, c_LocalPath = localPath, c_ImportRef = importRef, c_Command = command\<rparr>)"

section \<open>Artifacts\<close>

record Artifact =
  a_Target :: Target_ref
  a_Artifact :: string

definition Artifact_String :: "Artifact \<Rightarrow> string" where
  "Artifact_String a = referenceString (RefTarget (a_Target a)) @ path_Join ''/'' (escapePlus (a_Artifact a))"

definition Artifact_StringCanonical :: "Artifact \<Rightarrow> string" where
  "Artifact_StringCanonical a =
    referenceStringCanonical (RefTarget (a_Target a)) @ path_Join ''/'' (escapePlus (a_Artifact a))"

definition ParseArtifact :: "string \<Rightarrow> string \<Rightarrow> ref_error + Artifact" where
  "ParseArtifact home artifactName =
    rbind (splitUnescapePlus artifactName) (\<lambda>parts.
    if length parts \<noteq> 2 then Inl (InvalidArtifactName artifactName)
    else
      let partsSlash = SplitN2 (parts ! 1) ch_slash in
      if length partsSlash \<noteq> 2 then Inl (InvalidArtifactName artifactName)
      else
        (case ParseTarget home (escapePlus (parts ! 0) @ ''+'' @ partsSlash ! 0) of
           Inl err \<Rightarrow> Inl (InvalidArtifactTarget artifactName err)
         | Inr target \<Rightarrow> Inr \<lparr>a_Target = target, a_Artifact = [ch_slash] @ partsSlash ! 1\<rparr>))"

end
