(* ===== verification/Flag_Util.thy ===== *)
theory Flag_Util
  imports Result_State Cmd_Opts Earthfile_AST Util_Text Domain_Reference "HOL-Library.AList"
begin

text \<open>
  \<^verbatim>\<open>util/flagutil/parse.go\<close>, \<^verbatim>\<open>util/flagutil/matrix.go\<close> and \<^verbatim>\<open>util/flagutil/remote_cache.go\<close>:
  the arguments of Earthfile commands. The go-flags parser is a parameter of the operations
  that call it: a function from the option record it fills and the arguments to an error or
  the new record and the remaining arguments.
\<close>

type_synonym 'o flag_parser = "'o \<Rightarrow> string list \<Rightarrow> string + ('o \<times> string list)"

datatype flagutil_error =
    GoFlags string
  | UnknownGlobal
  | ErrGlobalArgNotInBase
  | ErrRequiredArgHasDefault
  | ErrInvalidSyntax
  | NotInParens
  | UnterminatedParamEscape
  | NoEndingQuotes
  | EmptyParams
  | NotKeyValue string

definition ParseArgsCleaned :: "'o flag_parser \<Rightarrow> 'o \<Rightarrow> string list \<Rightarrow> flagutil_error + ('o \<times> string list)" where
  "ParseArgsCleaned parse opts args =
    (case parse opts (ProcessParamsAndQuotes args) of Inl e \<Rightarrow> Inl (GoFlags e) | Inr r \<Rightarrow> Inr r)"

section \<open>Expanding the values of boolean flags\<close>

text \<open>\<open>for j, c := range flagPart\<close> acts only at the byte \<open>len(flagPart)-1\<close>, that is on a last
  rune of one byte: its name when the loop acts there.\<close>

definition lastShortFlag :: "string \<Rightarrow> string" where
  "lastShortFlag flagPart = (let x = last (runes flagPart) in if length (snd x) = 1 then rune_bytes x else [])"

function preprocessLoop ::
  "(string \<Rightarrow> bool) \<Rightarrow> (string \<Rightarrow> string \<Rightarrow> ('s, 'e, string option) rs) \<Rightarrow> string list \<Rightarrow> string list \<Rightarrow>
    ('s, 'e, string list) rs" where
  "preprocessLoop boolFlags modFunc [] result = retR result"
| "preprocessLoop boolFlags modFunc (arg # args) result =
    (if prefix ''--'' arg then
       (let parts = SplitN2 (drop 2 arg) CHR ''=''; flagName = hd parts in
        if length parts \<noteq> 2 \<or> \<not> boolFlags flagName then preprocessLoop boolFlags modFunc args (result @ [arg])
        else bindR (modFunc flagName (parts ! 1)) (\<lambda>modifiedValue.
          case modifiedValue of
            Some v \<Rightarrow> preprocessLoop boolFlags modFunc args (result @ [''--'' @ flagName @ ''='' @ v])
          | None \<Rightarrow> preprocessLoop boolFlags modFunc args (result @ [''--'' @ flagName])))
     else if prefix ''-'' arg then
       (let flagPart = TrimPrefix arg ''-'' in
        if CHR ''='' \<in> set flagPart then
          (let parts = SplitN2 flagPart CHR ''=''; flagName = hd parts in
           if length flagName \<noteq> 1 \<or> \<not> boolFlags flagName then preprocessLoop boolFlags modFunc args (result @ [arg])
           else bindR (modFunc flagName (parts ! 1)) (\<lambda>modifiedValue.
             case modifiedValue of
               Some v \<Rightarrow> preprocessLoop boolFlags modFunc args (result @ [''-'' @ flagName @ ''='' @ v])
             | None \<Rightarrow> preprocessLoop boolFlags modFunc args (result @ [arg])))
        else
          (let flagName = (if length flagPart = 1 then flagPart else if length flagPart > 1 then lastShortFlag flagPart else []) in
           if flagName \<noteq> [] \<and> boolFlags flagName \<and> args \<noteq> [] \<and> \<not> prefix ''-'' (hd args) then
             bindR (modFunc flagName (hd args)) (\<lambda>modifiedValue.
               case modifiedValue of
                 Some v \<Rightarrow> preprocessLoop boolFlags modFunc (tl args) (result @ [arg, v])
               | None \<Rightarrow> preprocessLoop boolFlags modFunc args (result @ [arg]))
           else preprocessLoop boolFlags modFunc args (result @ [arg])))
     else preprocessLoop boolFlags modFunc args (result @ [arg]))"
  by pat_completeness auto
termination by (relation "measure (\<lambda>(_, _, args, _). length args)") auto

definition preprocessArgs ::
  "string list \<Rightarrow> (string \<Rightarrow> bool) \<Rightarrow> (string \<Rightarrow> string \<Rightarrow> ('s, 'e, string option) rs) \<Rightarrow> ('s, 'e, string list) rs" where
  "preprocessArgs args boolFlags modFunc = preprocessLoop boolFlags modFunc args []"

section \<open>Values\<close>

text \<open>\<open>strings.FieldsFunc\<close>\<close>

fun fieldsLoop :: "(rune \<Rightarrow> bool) \<Rightarrow> (rune \<times> string) list \<Rightarrow> string \<Rightarrow> string list" where
  "fieldsLoop f [] cur = (if cur = [] then [] else [cur])"
| "fieldsLoop f (c # cs) cur =
    (if f (fst c) then (if cur = [] then fieldsLoop f cs [] else cur # fieldsLoop f cs [])
     else fieldsLoop f cs (cur @ snd c))"

definition FieldsFunc :: "string \<Rightarrow> (rune \<Rightarrow> bool) \<Rightarrow> string list" where
  "FieldsFunc s f = fieldsLoop f (runes s) []"

definition SplitFlagString :: "string list \<Rightarrow> string list" where
  "SplitFlagString values = concat (map (\<lambda>val. FieldsFunc val (\<lambda>r. r = 0x20 \<or> r = 0x2C)) values)"

definition ParseArgArgs ::
  "Arg_opts flag_parser \<Rightarrow> Command \<Rightarrow> bool \<Rightarrow> bool \<Rightarrow> flagutil_error + (Arg_opts \<times> string \<times> string option)" where
  "ParseArgArgs parse cmd isBaseTarget explicitGlobalFeature =
    rbind (ParseArgsCleaned parse zero_Arg (cmd_Args cmd)) (\<lambda>(opts, args).
    rbind (if arg_Global opts then
             if \<not> explicitGlobalFeature then Inl UnknownGlobal
             else if \<not> isBaseTarget then Inl ErrGlobalArgNotInBase
             else Inr opts
           else if \<not> explicitGlobalFeature then Inr (opts\<lparr>arg_Global := isBaseTarget\<rparr>)
           else Inr opts) (\<lambda>opts.
    if length args = 3 then
      if args ! 1 \<noteq> ''='' then Inl ErrInvalidSyntax
      else if arg_Required opts then Inl ErrRequiredArgHasDefault
      else Inr (opts, args ! 0, Some (args ! 2))
    else if length args = 1 then Inr (opts, args ! 0, None)
    else Inl ErrInvalidSyntax))"

section \<open>Parameters in parentheses\<close>

definition IsInParamsForm :: "string \<Rightarrow> bool" where
  "IsInParamsForm str \<longleftrightarrow>
    (prefix [ch_dquote, CHR ''(''] str \<and> suffix [ch_dquote, CHR '')''] str) \<or>
    (prefix ''('' str \<and> suffix '')'' str)"

fun paramsLoop :: "(rune \<times> string) list \<Rightarrow> bool \<Rightarrow> bool \<Rightarrow> string \<Rightarrow> string list \<Rightarrow> flagutil_error + (string \<times> string list)" where
  "paramsLoop [] nextEscaped inQuotes part parts =
    (if nextEscaped then Inl UnterminatedParamEscape
     else if inQuotes then Inl NoEndingQuotes
     else
       let parts = (if part \<noteq> [] then parts @ [part] else parts) in
       if parts = [] then Inl EmptyParams else Inr (hd parts, tl parts))"
| "paramsLoop (c # cs) nextEscaped inQuotes part parts =
    (if fst c = of_char ch_dquote then
       paramsLoop cs False (if nextEscaped then inQuotes else \<not> inQuotes) (part @ rune_bytes c) parts
     else if fst c = of_char ch_bslash then paramsLoop cs True inQuotes (part @ rune_bytes c) parts
     else if fst c \<in> {0x20, 0x09, 0x0A} then
       if \<not> inQuotes \<and> \<not> nextEscaped then
         paramsLoop cs False inQuotes [] (if part \<noteq> [] then parts @ [part] else parts)
       else paramsLoop cs False inQuotes (part @ rune_bytes c) parts
     else paramsLoop cs False inQuotes (part @ rune_bytes c) parts)"

definition ParseParams :: "string \<Rightarrow> flagutil_error + (string \<times> string list)" where
  "ParseParams str =
    (if \<not> IsInParamsForm str then Inl NotInParens
     else
       let str = (if prefix [ch_dquote, CHR ''(''] str then slice str 2 (length str - 2)
                  else slice str 1 (length str - 1)) in
       paramsLoop (runes str) False False [] [])"

definition ParseLoad :: "string \<Rightarrow> flagutil_error + (string \<times> string \<times> string list)" where
  "ParseLoad loadStr =
    (let words = SplitN2 loadStr CHR '' ''; splitFirstWord = SplitN2 (hd words) CHR ''='';
         (image, target) =
           (if length splitFirstWord < 2 then ([], loadStr)
            else (splitFirstWord ! 0,
                  if length words = 1 then splitFirstWord ! 1
                  else Join (words[0 := splitFirstWord ! 1]) '' ''))
     in
     if IsInParamsForm target then rbind (ParseParams target) (\<lambda>(target, extraArgs). Inr (image, target, extraArgs))
     else Inr (image, target, []))"

text \<open>\<open>attrs\<close> is the map that the loop has filled; an error returns it too, which no caller reads.\<close>

fun attrsLoop :: "string list \<Rightarrow> (string \<times> string) list \<Rightarrow> flagutil_error + (string \<times> string) list" where
  "attrsLoop [] attrs = Inr attrs"
| "attrsLoop (entry # entries) attrs =
    (let pair = Split (TrimSpace entry) CHR ''='' in
     if length pair \<noteq> 2 then Inl (NotKeyValue entry)
     else attrsLoop entries (AList.update (TrimSpace (pair ! 0)) (TrimSpace (pair ! 1)) attrs))"

definition ParseImageNameAndAttrs :: "string \<Rightarrow> flagutil_error + (string \<times> (string \<times> string) list)" where
  "ParseImageNameAndAttrs s =
    (let entries = Split s CHR '','' in rbind (attrsLoop (tl entries) []) (\<lambda>attrs. Inr (hd entries, attrs)))"

end
