(* ===== verification/Build_Matrix.thy ===== *)
theory Build_Matrix
  imports Go_Strings "HOL-Library.AList"
begin

text \<open>
  \<^verbatim>\<open>util/flagutil/matrix.go\<close>: the matrix of build arguments of a BUILD command.
  \<open>crossProduct\<close> extends the slice \<open>prefix\<close> with \<open>append\<close> once for every value of an argument,
  so whether two rows of the result share their backing array decides what the rows hold in
  the end. The model therefore has Go's slices: a heap of arrays, and slices that are an
  array, a length and a capacity. The capacity that \<open>append\<close> chooses for a new array is not
  fixed by the language and is the parameter \<open>grow\<close>.
\<close>

section \<open>Slices\<close>

type_synonym heap = "string list list"

record gslice =
  gs_arr :: nat
  gs_len :: nat
  gs_cap :: nat

definition nil_slice :: gslice where
  "nil_slice = \<lparr>gs_arr = 0, gs_len = 0, gs_cap = 0\<rparr>"

definition elems :: "heap \<Rightarrow> gslice \<Rightarrow> string list" where
  "elems h sl = (if gs_cap sl = 0 then [] else take (gs_len sl) (h ! gs_arr sl))"

text \<open>\<open>append(sl, x)\<close>: in place when the capacity is enough, and otherwise into a new array.\<close>

definition go_append :: "(nat \<Rightarrow> nat) \<Rightarrow> heap \<Rightarrow> gslice \<Rightarrow> string \<Rightarrow> heap \<times> gslice" where
  "go_append grow h sl x =
    (if gs_len sl < gs_cap sl then
       (h[gs_arr sl := (h ! gs_arr sl)[gs_len sl := x]], sl\<lparr>gs_len := gs_len sl + 1\<rparr>)
     else
       let c = grow (gs_len sl) in
       (h @ [elems h sl @ x # replicate (c - gs_len sl - 1) []],
        \<lparr>gs_arr = length h, gs_len = gs_len sl + 1, gs_cap = c\<rparr>))"

text \<open>The growth of the gc toolchain for the strings of a short slice: the capacity doubles.\<close>

definition gc_grow :: "nat \<Rightarrow> nat" where
  "gc_grow n = (if n = 0 then 1 else 2 * n)"

section \<open>The matrix\<close>

record argGroup =
  ag_key :: string
  ag_values :: "string option list"

definition arg_text :: "string \<Rightarrow> string option \<Rightarrow> string" where
  "arg_text key v = (case v of None \<Rightarrow> key | Some x \<Rightarrow> key @ ''='' @ x)"

function crossProduct :: "(nat \<Rightarrow> nat) \<Rightarrow> argGroup list \<Rightarrow> gslice \<Rightarrow> heap \<Rightarrow> gslice list \<times> heap"
  and crossValues :: "(nat \<Rightarrow> nat) \<Rightarrow> string \<Rightarrow> string option list \<Rightarrow> argGroup list \<Rightarrow> gslice \<Rightarrow> heap \<Rightarrow> gslice list \<times> heap"
where
  "crossProduct grow [] pre h = ([pre], h)"
| "crossProduct grow (g # ga) pre h = crossValues grow (ag_key g) (ag_values g) ga pre h"
| "crossValues grow key [] ga pre h = ([], h)"
| "crossValues grow key (v # vs) ga pre h =
    (let (h1, newPrefix) = go_append grow h pre (arg_text key v);
         (cp, h2) = crossProduct grow ga newPrefix h1;
         (ret, h3) = crossValues grow key vs ga pre h2
     in (cp @ ret, h3))"
  by pat_completeness auto
termination
  by (relation "measure (\<lambda>x. case x of Inl (_, ga, _, _) \<Rightarrow> 2 * sum_list (map (\<lambda>g. Suc (length (ag_values g))) ga)
        | Inr (_, _, vs, ga, _, _) \<Rightarrow> 2 * sum_list (map (\<lambda>g. Suc (length (ag_values g))) ga) + length vs + 1)")
    auto

definition matrix_parseKeyValue :: "string \<Rightarrow> string \<times> string option" where
  "matrix_parseKeyValue arg =
    (let splitArg = SplitN2 arg CHR ''='' in
     (hd splitArg, if length splitArg = 2 then Some (splitArg ! 1) else None))"

fun groupArg :: "argGroup list \<Rightarrow> string \<times> string option \<Rightarrow> argGroup list" where
  "groupArg [] (k, v) = [\<lparr>ag_key = k, ag_values = [v]\<rparr>]"
| "groupArg (g # gs) (k, v) =
    (if ag_key g = k then g\<lparr>ag_values := ag_values g @ [v]\<rparr> # gs else g # groupArg gs (k, v))"

definition groupArgs :: "string list \<Rightarrow> argGroup list" where
  "groupArgs args = foldl groupArg [] (map matrix_parseKeyValue args)"

text \<open>What a caller reads from the rows after \<open>BuildArgMatrix\<close> has returned.\<close>

definition BuildArgMatrix :: "(nat \<Rightarrow> nat) \<Rightarrow> string list \<Rightarrow> string list list" where
  "BuildArgMatrix grow args =
    (case crossProduct grow (groupArgs args) nil_slice [] of (rows, h) \<Rightarrow> map (elems h) rows)"

section \<open>The rows that are meant\<close>

fun rows_of :: "argGroup list \<Rightarrow> string list list" where
  "rows_of [] = [[]]"
| "rows_of (g # ga) = concat (map (\<lambda>v. map ((#) (arg_text (ag_key g) v)) (rows_of ga)) (ag_values g))"

text \<open>The capacity of the prefix of length \<open>k\<close>. An array is shared from there when the capacity
  is larger.\<close>

primrec cap_at :: "(nat \<Rightarrow> nat) \<Rightarrow> nat \<Rightarrow> nat" where
  "cap_at grow 0 = 0"
| "cap_at grow (Suc k) = (if k < cap_at grow k then cap_at grow k else grow k)"

primrec unshared :: "(nat \<Rightarrow> nat) \<Rightarrow> nat \<Rightarrow> argGroup list \<Rightarrow> bool" where
  "unshared grow k [] = True"
| "unshared grow k (g # ga) \<longleftrightarrow> (k < cap_at grow k \<longrightarrow> length (ag_values g) \<le> 1) \<and> unshared grow (Suc k) ga"

definition slice_ok :: "(nat \<Rightarrow> nat) \<Rightarrow> heap \<Rightarrow> gslice \<Rightarrow> bool" where
  "slice_ok grow h sl \<longleftrightarrow>
    gs_cap sl = cap_at grow (gs_len sl) \<and> gs_len sl \<le> gs_cap sl \<and>
    (gs_cap sl \<noteq> 0 \<longrightarrow> gs_arr sl < length h \<and> length (h ! gs_arr sl) = gs_cap sl)"

text \<open>A heap that differs from an earlier one only in new arrays and in the unused part of one
  slice.\<close>

definition heap_ext :: "gslice \<Rightarrow> heap \<Rightarrow> heap \<Rightarrow> bool" where
  "heap_ext sl h h' \<longleftrightarrow>
    length h \<le> length h' \<and>
    (\<forall>a < length h. length (h' ! a) = length (h ! a) \<and>
      (if a = gs_arr sl \<and> gs_len sl < gs_cap sl then take (gs_len sl) (h' ! a) = take (gs_len sl) (h ! a)
       else h' ! a = h ! a))"

definition result_ok :: "gslice \<Rightarrow> heap \<Rightarrow> string list list \<Rightarrow> gslice list \<times> heap \<Rightarrow> bool" where
  "result_ok pre h rows r \<longleftrightarrow>
    heap_ext pre h (snd r) \<and> map (elems (snd r)) (fst r) = map ((@) (elems h pre)) rows \<and>
    (\<forall>sl \<in> set (fst r). gs_cap sl = 0 \<or> gs_arr sl < length (snd r))"

section \<open>Append\<close>

lemma elems_length: "slice_ok grow h sl \<Longrightarrow> length (elems h sl) = gs_len sl"
  by (auto simp: slice_ok_def elems_def)

lemma heap_ext_refl: "heap_ext sl h h"
  by (simp add: heap_ext_def)

text \<open>A full slice keeps every array.\<close>

lemma heap_ext_full:
  "gs_cap sl \<le> gs_len sl \<Longrightarrow> heap_ext sl h h' \<longleftrightarrow> length h \<le> length h' \<and> (\<forall>a < length h. h' ! a = h ! a)"
  by (auto simp: heap_ext_def)

lemma heap_ext_slice:
  assumes "heap_ext sl h h'" "slice_ok grow h sl"
  shows "slice_ok grow h' sl" "elems h' sl = elems h sl"
proof -
  have "gs_cap sl \<noteq> 0 \<Longrightarrow> gs_arr sl < length h' \<and> length (h' ! gs_arr sl) = gs_cap sl \<and>
      take (gs_len sl) (h' ! gs_arr sl) = take (gs_len sl) (h ! gs_arr sl)"
    using assms by (auto simp: heap_ext_def slice_ok_def split: if_splits)
  then show "slice_ok grow h' sl" "elems h' sl = elems h sl"
    using assms(2) by (auto simp: slice_ok_def elems_def)
qed

text \<open>\<open>append\<close> in place, and into a new array.\<close>

lemma append_shared:
  assumes "slice_ok grow h pre" "gs_len pre < gs_cap pre" "go_append grow h pre x = (h1, np)"
  shows "slice_ok grow h1 np" "elems h1 np = elems h pre @ [x]" "gs_len np = Suc (gs_len pre)"
    "heap_ext np h1 h' \<Longrightarrow> heap_ext pre h h'"
proof -
  have h1: "h1 = h[gs_arr pre := (h ! gs_arr pre)[gs_len pre := x]]" "np = pre\<lparr>gs_len := Suc (gs_len pre)\<rparr>"
    and arr: "gs_arr pre < length h" "length (h ! gs_arr pre) = gs_cap pre"
    using assms by (auto simp: go_append_def slice_ok_def)
  show "slice_ok grow h1 np" "gs_len np = Suc (gs_len pre)"
    using assms h1 arr by (auto simp: slice_ok_def)
  show "elems h1 np = elems h pre @ [x]"
    using assms(2) h1 arr by (simp add: elems_def take_Suc_conv_app_nth)
  show "heap_ext pre h h'" if "heap_ext np h1 h'"
  proof -
    have "take (gs_len pre) (h' ! gs_arr pre) = take (gs_len pre) (h ! gs_arr pre)" if "gs_arr pre < length h"
    proof -
      have *: "take (Suc (gs_len pre)) (h' ! gs_arr pre) = take (Suc (gs_len pre)) (h1 ! gs_arr pre)"
        using \<open>heap_ext np h1 h'\<close> h1 that by (auto simp: heap_ext_def split: if_splits)
      have "take (gs_len pre) (h' ! gs_arr pre) = take (gs_len pre) (take (Suc (gs_len pre)) (h' ! gs_arr pre))"
        by (simp add: min_def)
      also have "\<dots> = take (gs_len pre) (h1 ! gs_arr pre)" unfolding * by (simp add: min_def)
      finally show ?thesis using h1 that by simp
    qed
    moreover have "length h \<le> length h'" "\<And>a. a < length h \<Longrightarrow> length (h' ! a) = length (h1 ! a)"
      "\<And>a. a < length h \<Longrightarrow> a \<noteq> gs_arr pre \<Longrightarrow> h' ! a = h1 ! a"
      using that h1 by (auto simp: heap_ext_def)
    ultimately show ?thesis using h1 assms(2) by (simp add: heap_ext_def nth_list_update)
  qed
qed

lemma append_fresh:
  assumes "slice_ok grow h pre" "\<not> gs_len pre < gs_cap pre" "go_append grow h pre x = (h1, np)" "\<And>n. n < grow n"
  shows "slice_ok grow h1 np" "elems h1 np = elems h pre @ [x]" "gs_len np = Suc (gs_len pre)"
    "heap_ext np h1 h' \<Longrightarrow> heap_ext pre h h'"
proof -
  let ?new = "elems h pre @ x # replicate (grow (gs_len pre) - gs_len pre - 1) []"
  have h1: "h1 = h @ [?new]" "np = \<lparr>gs_arr = length h, gs_len = gs_len pre + 1, gs_cap = grow (gs_len pre)\<rparr>"
    using assms(2,3) by (auto simp: go_append_def Let_def)
  have len: "length (elems h pre) = gs_len pre" using assms(1) by (rule elems_length)
  have g: "gs_len pre < grow (gs_len pre)" by (rule assms(4))
  show "gs_len np = Suc (gs_len pre)" using h1 by simp
  have "gs_cap pre = cap_at grow (gs_len pre)" using assms(1) unfolding slice_ok_def by (rule conjunct1)
  then have "\<not> gs_len pre < cap_at grow (gs_len pre)" using assms(2) by (rule subst)
  then show "slice_ok grow h1 np" using h1 len g by (simp add: slice_ok_def)
  show "elems h1 np = elems h pre @ [x]" using h1 len g by (simp add: elems_def)
  show "heap_ext pre h h'" if "heap_ext np h1 h'"
  proof -
    have "h' ! a = h ! a" if "a < length h" for a
    proof -
      have "h' ! a = h1 ! a" using \<open>heap_ext np h1 h'\<close> that h1 unfolding heap_ext_def by simp
      then show ?thesis using that h1 by (simp add: nth_append)
    qed
    moreover have "length h \<le> length h'" using that h1 by (simp add: heap_ext_def)
    ultimately show ?thesis using assms(2) by (simp add: heap_ext_def)
  qed
qed

section \<open>The product\<close>

lemma heap_ext_trans_full:
  "heap_ext pre h h' \<Longrightarrow> heap_ext pre h' h'' \<Longrightarrow> gs_cap pre \<le> gs_len pre \<Longrightarrow> heap_ext pre h h''"
  by (auto simp: heap_ext_full)

lemma result_ok_cons:
  assumes "result_ok np h1 rows (cp, h2)" "heap_ext np h1 h2 \<Longrightarrow> heap_ext pre h h2"
    and "elems h1 np = elems h pre @ [x]" "slice_ok grow h pre"
    and "result_ok pre h2 rows' (ret, h3)" "gs_cap pre \<le> gs_len pre \<or> (ret = [] \<and> h3 = h2 \<and> rows' = [])"
  shows "result_ok pre h (map ((#) x) rows @ rows') (cp @ ret, h3)"
proof -
  have ext: "heap_ext pre h h2" using assms(1,2) by (simp add: result_ok_def)
  have row: "map (elems h2) cp = map ((@) (elems h pre)) (map ((#) x) rows)"
    using assms(1,3) by (simp add: result_ok_def)
  show ?thesis
  proof (cases "gs_cap pre \<le> gs_len pre")
    case True
    have keep: "length h2 \<le> length h3" "\<And>a. a < length h2 \<Longrightarrow> h3 ! a = h2 ! a"
      using assms(5) True by (auto simp: result_ok_def heap_ext_full)
    have arr: "\<forall>sl \<in> set cp. gs_cap sl = 0 \<or> gs_arr sl < length h2" using assms(1) by (simp add: result_ok_def)
    have same: "map (elems h3) cp = map (elems h2) cp" using arr keep by (auto simp: elems_def)
    have "elems h2 pre = elems h pre" by (rule heap_ext_slice (2) [OF ext assms(4)])
    then show ?thesis
      using assms(5) row same arr keep heap_ext_trans_full [OF ext _ True] by (fastforce simp: result_ok_def)
  next
    case False
    then show ?thesis using assms ext row by (auto simp: result_ok_def)
  qed
qed

lemma cross_ok:
  assumes "\<And>n. n < grow n"
  shows "slice_ok grow h pre \<Longrightarrow> unshared grow (gs_len pre) ga \<Longrightarrow>
      result_ok pre h (rows_of ga) (crossProduct grow ga pre h)"
    and "slice_ok grow h pre \<Longrightarrow> (gs_len pre < gs_cap pre \<longrightarrow> length vs \<le> 1) \<Longrightarrow> unshared grow (Suc (gs_len pre)) ga \<Longrightarrow>
      result_ok pre h (concat (map (\<lambda>v. map ((#) (arg_text key v)) (rows_of ga)) vs)) (crossValues grow key vs ga pre h)"
  using assms
proof (induction grow ga pre h and grow key vs ga pre h rule: crossProduct_crossValues.induct)
  case (1 grow pre h)
  then show ?case by (auto simp: result_ok_def heap_ext_refl slice_ok_def)
next
  case (2 grow g ga pre h)
  then show ?case by (auto simp: slice_ok_def)
next
  case (3 grow key ga pre h)
  then show ?case by (simp add: result_ok_def heap_ext_refl)
next
  case (4 grow key v vs ga pre h)
  obtain h1 np where 1: "go_append grow h pre (arg_text key v) = (h1, np)" by (cases "go_append grow h pre (arg_text key v)")
  obtain cp h2 where 2: "crossProduct grow ga np h1 = (cp, h2)" by (cases "crossProduct grow ga np h1")
  obtain ret h3 where 3: "crossValues grow key vs ga pre h2 = (ret, h3)" by (cases "crossValues grow key vs ga pre h2")
  have np: "slice_ok grow h1 np" "elems h1 np = elems h pre @ [arg_text key v]" "gs_len np = Suc (gs_len pre)"
    "heap_ext np h1 h2 \<Longrightarrow> heap_ext pre h h2"
    using append_shared [OF "4.prems"(1) _ 1] append_fresh [OF "4.prems"(1) _ 1 "4.prems"(4)] by blast+
  have cp: "result_ok np h1 (rows_of ga) (cp, h2)"
    using "4.IH"(1) [OF 1 [symmetric] refl np(1)] np(3) "4.prems"(3,4) 2 by simp
  have ok2: "slice_ok grow h2 pre"
    using heap_ext_slice (1) [OF np(4) "4.prems"(1)] cp by (simp add: result_ok_def)
  have ret: "result_ok pre h2 (concat (map (\<lambda>v. map ((#) (arg_text key v)) (rows_of ga)) vs)) (ret, h3)"
    using "4.IH"(2) [OF 1 [symmetric] refl 2 [symmetric] refl ok2] "4.prems"(2-4) 3 by simp
  have "gs_cap pre \<le> gs_len pre \<or> vs = []" using "4.prems"(2) by (cases vs) auto
  then have "gs_cap pre \<le> gs_len pre \<or> (ret = [] \<and> h3 = h2 \<and> concat (map (\<lambda>v. map ((#) (arg_text key v)) (rows_of ga)) vs) = [])"
    using 3 by auto
  from result_ok_cons [OF cp np(4) np(2) "4.prems"(1) ret this] show ?case using 1 2 3 by simp
qed

text \<open>
  C39. \<open>BuildArgMatrix\<close> gives the combinations of the values of the arguments, in order, when no
  argument that is appended in place has more than one value.
\<close>

theorem BuildArgMatrix_product:
  assumes "\<forall>n. n < grow n" "unshared grow 0 (groupArgs args)"
  shows "BuildArgMatrix grow args = rows_of (groupArgs args)"
proof -
  have ok: "slice_ok grow [] nil_slice" by (simp add: slice_ok_def nil_slice_def)
  have "result_ok nil_slice [] (rows_of (groupArgs args)) (crossProduct grow (groupArgs args) nil_slice [])"
    by (rule cross_ok (1) [OF _ ok]) (use assms in \<open>auto simp: nil_slice_def\<close>)
  moreover have "elems [] nil_slice = []" by (simp add: elems_def nil_slice_def)
  ultimately have "map (elems (snd (crossProduct grow (groupArgs args) nil_slice [])))
      (fst (crossProduct grow (groupArgs args) nil_slice [])) = rows_of (groupArgs args)"
    by (simp add: result_ok_def map_idI)
  then show ?thesis by (simp add: BuildArgMatrix_def case_prod_unfold)
qed

theorem BuildArgMatrix_product_witness:
  "unshared gc_grow 0 (groupArgs [''a=1'', ''b'', ''a=2'']) \<and>
   BuildArgMatrix gc_grow [''a=1'', ''b'', ''a=2''] = [[''a=1'', ''b''], [''a=2'', ''b'']]"
proof -
  have ok: "unshared gc_grow 0 (groupArgs [''a=1'', ''b'', ''a=2''])" by code_simp
  have "rows_of (groupArgs [''a=1'', ''b'', ''a=2'']) = [[''a=1'', ''b''], [''a=2'', ''b'']]" by code_simp
  then show ?thesis using ok BuildArgMatrix_product [OF _ ok] by (simp add: gc_grow_def)
qed

lemma unshared_gc3: "length ga \<le> 3 \<Longrightarrow> unshared gc_grow 0 ga"
  by (cases ga; cases "tl ga"; cases "tl (tl ga)") (auto simp: gc_grow_def)

text \<open>With the gc toolchain the fourth argument of a BUILD is appended in place: its values
  overwrite each other, and the rows are the last value, repeated.\<close>

lemma BuildArgMatrix_shared:
  "BuildArgMatrix gc_grow [''a=1'', ''b=2'', ''c=3'', ''d=4'', ''d=5''] =
    [[''a=1'', ''b=2'', ''c=3'', ''d=5''], [''a=1'', ''b=2'', ''c=3'', ''d=5'']]"
  by code_simp

end
