(* ===== verification/Oidc_Info.thy ===== *)
theory Oidc_Info
  imports Go_Strings "HOL-Library.AList" "HOL-Library.List_Lexorder" "HOL-Library.Char_ord"
begin

text \<open>
  \<^verbatim>\<open>util/parseutil/map.go\<close> and \<^verbatim>\<open>util/oidcutil/aws.go\<close>: the value of \<open>RUN --oidc\<close>.
  Amazon resource names (the \<open>arn\<close> package of the AWS SDK) and durations
  (\<open>time.ParseDuration\<close>, which computes with floating-point numbers) are parameters; a
  duration is its number of nanoseconds. A Go map is an association list without repeated keys.
\<close>

datatype oidc_error =
    NoEqualSign
  | BadArn string
  | NotIam string
  | NotRole string
  | BadDuration string
  | DurationRange
  | InvalidKeys "string list"
  | MustBeSpecified string

fun pairsLoop :: "string list \<Rightarrow> (string \<times> string) list \<Rightarrow> oidc_error + (string \<times> string) list" where
  "pairsLoop [] kvp = Inr kvp"
| "pairsLoop (pair # pairs) kvp =
    (if TrimSpace pair = [] then pairsLoop pairs kvp
     else if CHR ''='' \<notin> set pair then Inl NoEqualSign
     else
       let cut = SplitN2 pair CHR ''='' in
       pairsLoop pairs (AList.update (TrimSpace (cut ! 0)) (TrimSpace (cut ! 1)) kvp))"

definition StringToMap :: "string \<Rightarrow> oidc_error + (string \<times> string) list" where
  "StringToMap str = pairsLoop (Split str CHR '','') []"

record ARN =
  arn_Partition :: string
  arn_Service :: string
  arn_Region :: string
  arn_AccountID :: string
  arn_Resource :: string

record AWSOIDCInfo =
  oi_RoleARN :: "ARN option"
  oi_SessionDuration :: "int option"
  oi_SessionName :: string
  oi_Region :: string

definition requiredFields :: "string list" where
  "requiredFields = [''role-arn'', ''session-name'']"

definition parseRole :: "(string \<Rightarrow> string + ARN) \<Rightarrow> string option \<Rightarrow> oidc_error + ARN option" where
  "parseRole arn_Parse v =
    (case v of
       None \<Rightarrow> Inr None
     | Some val \<Rightarrow>
         if TrimSpace val = [] then Inr None
         else case arn_Parse val of
           Inl e \<Rightarrow> Inl (BadArn e)
         | Inr a \<Rightarrow>
             if arn_Service a \<noteq> ''iam'' then Inl (NotIam (arn_Service a))
             else if \<not> prefix ''role/'' (arn_Resource a) then Inl (NotRole (arn_Resource a))
             else Inr (Some a))"

text \<open>\<open>Seconds()\<close> of a duration is compared with 900 and 43200; the comparison is exact on
  nanoseconds.\<close>

definition parseSession :: "(string \<Rightarrow> string + int) \<Rightarrow> string option \<Rightarrow> oidc_error + int option" where
  "parseSession ParseDuration v =
    (case v of
       None \<Rightarrow> Inr None
     | Some val \<Rightarrow>
         if TrimSpace val = [] then Inr None
         else case ParseDuration val of
           Inl e \<Rightarrow> Inl (BadDuration e)
         | Inr d \<Rightarrow> if d < 900 * 10 ^ 9 \<or> d > 43200 * 10 ^ 9 then Inl DurationRange else Inr (Some d))"

definition valOr :: "string option \<Rightarrow> string" where
  "valOr v = (case v of None \<Rightarrow> [] | Some x \<Rightarrow> x)"

definition ParseAWSOIDCInfo ::
  "(string \<Rightarrow> string + ARN) \<Rightarrow> (string \<Rightarrow> string + int) \<Rightarrow> string \<Rightarrow> oidc_error + AWSOIDCInfo" where
  "ParseAWSOIDCInfo arn_Parse ParseDuration oidcInfo =
    rbind (StringToMap oidcInfo) (\<lambda>m.
    rbind (parseRole arn_Parse (map_of m ''role-arn'')) (\<lambda>role.
    rbind (parseSession ParseDuration (map_of m ''session-duration'')) (\<lambda>dur.
      let info = \<lparr>oi_RoleARN = role, oi_SessionDuration = dur, oi_SessionName = valOr (map_of m ''session-name''),
                   oi_Region = valOr (map_of m ''region'')\<rparr>;
          invalidKeys = sort (filter (\<lambda>k. k \<notin> {''role-arn'', ''session-duration'', ''session-name'', ''region''}) (map fst m))
      in
      if invalidKeys \<noteq> [] then Inl (InvalidKeys invalidKeys)
      else case find (\<lambda>f. TrimSpace (valOr (map_of m f)) = []) requiredFields of
          Some f \<Rightarrow> Inl (MustBeSpecified f)
        | None \<Rightarrow> Inr info)))"

section \<open>What an accepted value has\<close>

lemma TrimSpace_Nil: "TrimSpace [] = []"
  by (simp add: TrimSpace_def runes.simps [of "[]"])

lemma requiredFields_find:
  "find (\<lambda>f. TrimSpace (valOr (g f)) = []) requiredFields = None \<Longrightarrow>
    TrimSpace (valOr (g ''role-arn'')) \<noteq> [] \<and> TrimSpace (valOr (g ''session-name'')) \<noteq> []"
  by (auto simp: requiredFields_def split: if_splits)

text \<open>
  An accepted \<open>--oidc\<close> value always names a role of the IAM service and a session, and a
  session duration lies between 15 minutes and 12 hours.
\<close>

theorem ParseAWSOIDCInfo_bounds:
  assumes "ParseAWSOIDCInfo arn_Parse ParseDuration s = Inr info"
  shows "(\<exists>a. oi_RoleARN info = Some a \<and> arn_Service a = ''iam'' \<and> prefix ''role/'' (arn_Resource a)) \<and>
    oi_SessionName info \<noteq> [] \<and>
    (case oi_SessionDuration info of None \<Rightarrow> True | Some d \<Rightarrow> 900 * 10 ^ 9 \<le> d \<and> d \<le> 43200 * 10 ^ 9)"
proof -
  obtain m role dur where m: "StringToMap s = Inr m"
    and role: "parseRole arn_Parse (map_of m ''role-arn'') = Inr role"
    and dur: "parseSession ParseDuration (map_of m ''session-duration'') = Inr dur"
    and req: "find (\<lambda>f. TrimSpace (valOr (map_of m f)) = []) requiredFields = None"
    and info: "info = \<lparr>oi_RoleARN = role, oi_SessionDuration = dur, oi_SessionName = valOr (map_of m ''session-name''),
                   oi_Region = valOr (map_of m ''region'')\<rparr>"
    using assms by (auto simp: ParseAWSOIDCInfo_def rbind_def Let_def split: sum.splits if_splits option.splits)
  have names: "TrimSpace (valOr (map_of m ''role-arn'')) \<noteq> []" "TrimSpace (valOr (map_of m ''session-name'')) \<noteq> []"
    using requiredFields_find [OF req] by auto
  have "\<exists>a. role = Some a \<and> arn_Service a = ''iam'' \<and> prefix ''role/'' (arn_Resource a)"
    using role names(1) by (auto simp: parseRole_def valOr_def TrimSpace_Nil split: option.splits if_splits sum.splits)
  moreover have "valOr (map_of m ''session-name'') \<noteq> []" using names(2) TrimSpace_Nil by metis
  moreover have "case dur of None \<Rightarrow> True | Some d \<Rightarrow> 900 * 10 ^ 9 \<le> d \<and> d \<le> 43200 * 10 ^ 9"
    using dur by (auto simp: parseSession_def split: option.splits if_splits sum.splits)
  ultimately show ?thesis by (simp add: info)
qed

end
