(* ===== verification/Go_Strconv.thy ===== *)
theory Go_Strconv
  imports Go_Strings
begin

text \<open>
  The parts of Go's package strconv the modelled packages call: decimal integers of the
  64-bit type \<open>int\<close>, which are kept as \<open>int\<close> with the range check of \<open>Atoi\<close> written out, and
  booleans.
\<close>

definition digit_char :: "nat \<Rightarrow> char" where
  "digit_char d = char_of (48 + d)"

definition is_digit :: "char \<Rightarrow> bool" where
  "is_digit c \<longleftrightarrow> 48 \<le> (of_char c :: nat) \<and> (of_char c :: nat) \<le> 57"

fun FormatUint :: "nat \<Rightarrow> string" where
  "FormatUint n = (if n < 10 then [digit_char n] else FormatUint (n div 10) @ [digit_char (n mod 10)])"

declare FormatUint.simps [simp del]

definition Itoa :: "int \<Rightarrow> string" where
  "Itoa i = (if i < 0 then CHR ''-'' # FormatUint (nat (- i)) else FormatUint (nat i))"

definition FormatBool :: "bool \<Rightarrow> string" where
  "FormatBool b = (if b then ''true'' else ''false'')"

definition digits_value :: "string \<Rightarrow> nat" where
  "digits_value s = foldl (\<lambda>n c. 10 * n + (of_char c - 48)) 0 s"

datatype strconv_error = ErrSyntax string | ErrRange string

abbreviation maxInt64 :: int where "maxInt64 \<equiv> 2 ^ 63 - 1"

definition Atoi :: "string \<Rightarrow> strconv_error + int" where
  "Atoi s =
    (let (neg, ds) = (case s of
        c # t \<Rightarrow> if c = CHR ''-'' then (True, t) else if c = CHR ''+'' then (False, t) else (False, s)
      | [] \<Rightarrow> (False, s)) in
     if ds = [] \<or> \<not> list_all is_digit ds then Inl (ErrSyntax s)
     else let v = (if neg then - int (digits_value ds) else int (digits_value ds)) in
       if - (2 ^ 63) \<le> v \<and> v \<le> maxInt64 then Inr v else Inl (ErrRange s))"

lemma of_digit_char: "d < 10 \<Longrightarrow> of_char (digit_char d) = 48 + d"
  by (simp add: digit_char_def)

lemma is_digit_char [simp]: "d < 10 \<Longrightarrow> is_digit (digit_char d)"
  by (simp add: is_digit_def of_digit_char)

lemma FormatUint_digits: "list_all is_digit (FormatUint n)"
  by (induction n rule: FormatUint.induct) (subst FormatUint.simps, simp)

lemma FormatUint_nonempty: "FormatUint n \<noteq> []"
  by (subst FormatUint.simps) simp

lemma digits_value_FormatUint: "digits_value (FormatUint n) = n"
proof (induction n rule: FormatUint.induct)
  case (1 n)
  then show ?case
    by (cases "n < 10") (simp_all add: FormatUint.simps [of n] digits_value_def of_digit_char)
qed

lemma is_digit_not_sign: "is_digit c \<Longrightarrow> c \<noteq> CHR ''-'' \<and> c \<noteq> CHR ''+'' \<and> c \<noteq> CHR ''.''"
  by (auto simp: is_digit_def)

lemma Atoi_Itoa:
  assumes "- (2 ^ 63) \<le> i" "i \<le> maxInt64"
  shows "Atoi (Itoa i) = Inr i"
proof (cases "i < 0")
  case True
  then show ?thesis using assms
    by (simp add: Atoi_def Itoa_def FormatUint_digits FormatUint_nonempty digits_value_FormatUint)
next
  case False
  obtain c t where ct: "FormatUint (nat i) = c # t" using FormatUint_nonempty by (cases "FormatUint (nat i)") auto
  then have "c \<noteq> CHR ''-'' \<and> c \<noteq> CHR ''+''" using FormatUint_digits [of "nat i"] is_digit_not_sign by auto
  then show ?thesis using False assms ct FormatUint_digits [of "nat i"] digits_value_FormatUint [of "nat i"]
    by (simp add: Atoi_def Itoa_def)
qed

lemma Itoa_no_dot: "CHR ''.'' \<notin> set (Itoa i)"
proof -
  have "CHR ''.'' \<notin> set (FormatUint n)" for n
    using FormatUint_digits [of n] is_digit_not_sign by (auto simp: list_all_iff)
  then show ?thesis by (simp add: Itoa_def)
qed

section \<open>Case of letters\<close>

text \<open>\<open>strings.ToLower\<close> and \<open>strings.ToUpper\<close> of an ASCII string.\<close>

definition ToLower :: "string \<Rightarrow> string" where
  "ToLower s = map (\<lambda>c. let n = (of_char c :: nat) in if 65 \<le> n \<and> n \<le> 90 then char_of (n + 32) else c) s"

end
