(* ===== verification/Go_Net.thy ===== *)
theory Go_Net
  imports Go_Strconv
begin

text \<open>
  \<open>net.ParseIP\<close> of the Go library, which the HOST command uses: an address as its sixteen bytes.
  A text with a zone is never an address for \<open>ParseIP\<close>.
\<close>

fun ipv4Loop :: "string \<Rightarrow> string list \<Rightarrow> string \<Rightarrow> string list option" where
  "ipv4Loop [] done cur = (if cur = [] then None else Some (done @ [cur]))"
| "ipv4Loop (c # s) done cur =
    (if is_digit c then
       if cur = ''0'' \<or> digits_value (cur @ [c]) > 255 then None else ipv4Loop s done (cur @ [c])
     else if c = CHR ''.'' then
       if cur = [] \<or> length done = 3 then None else ipv4Loop s (done @ [cur]) []
     else None)"

definition parseIPv4 :: "string \<Rightarrow> nat list option" where
  "parseIPv4 s =
    (case ipv4Loop s [] [] of
       None \<Rightarrow> None
     | Some fs \<Rightarrow> if length fs = 4 then Some (map digits_value fs) else None)"

definition hexval :: "char \<Rightarrow> nat option" where
  "hexval c =
    (let n = of_char c :: nat in
     if 0x30 \<le> n \<and> n \<le> 0x39 then Some (n - 0x30)
     else if 0x61 \<le> n \<and> n \<le> 0x66 then Some (n - 0x57)
     else if 0x41 \<le> n \<and> n \<le> 0x46 then Some (n - 0x37)
     else None)"

definition is_hex :: "char \<Rightarrow> bool" where
  "is_hex c \<longleftrightarrow> hexval c \<noteq> None"

text \<open>The loop over the groups: the bytes so far, the position of \<open>::\<close>, and the rest of the
  text. A fourth hexadecimal digit is the last one.\<close>

function ipv6Loop :: "nat list \<Rightarrow> nat option \<Rightarrow> string \<Rightarrow> (nat list \<times> nat option) option" where
  "ipv6Loop ip ellipsis s =
    (if length ip \<ge> 16 then (if s = [] then Some (ip, ellipsis) else None)
     else
       let ds = takeWhile is_hex s; r = dropWhile is_hex s in
       if ds = [] \<or> length ds > 4 then None
       else if r \<noteq> [] \<and> hd r = CHR ''.'' then
         if (ellipsis = None \<and> length ip \<noteq> 12) \<or> length ip + 4 > 16 then None
         else (case parseIPv4 s of None \<Rightarrow> None | Some v \<Rightarrow> Some (ip @ v, ellipsis))
       else
         let acc = foldl (\<lambda>a c. 16 * a + the (hexval c)) 0 ds; ip' = ip @ [acc div 256, acc mod 256] in
         if r = [] then Some (ip', ellipsis)
         else if hd r \<noteq> CHR '':'' \<or> length r = 1 then None
         else if r ! 1 = CHR '':'' then
           if ellipsis \<noteq> None then None
           else if drop 2 r = [] then Some (ip', Some (length ip'))
           else ipv6Loop ip' (Some (length ip')) (drop 2 r)
         else ipv6Loop ip' ellipsis (tl r))"
  by pat_completeness auto
termination by (relation "measure (\<lambda>(ip, _, _). 16 - length ip)") auto

declare ipv6Loop.simps [simp del]

definition parseIPv6 :: "string \<Rightarrow> nat list option" where
  "parseIPv6 s =
    (if s = ''::'' then Some (replicate 16 0)
     else
       case (if take 2 s = ''::'' then ipv6Loop [] (Some 0) (drop 2 s) else ipv6Loop [] None s) of
         None \<Rightarrow> None
       | Some (ip, ellipsis) \<Rightarrow>
           (case ellipsis of
              None \<Rightarrow> if length ip = 16 then Some ip else None
            | Some e \<Rightarrow> if length ip < 16 then Some (take e ip @ replicate (16 - length ip) 0 @ drop e ip) else None))"

definition ParseIP :: "string \<Rightarrow> nat list option" where
  "ParseIP s =
    (if CHR ''%'' \<in> set s then None
     else
       case find (\<lambda>c. c = CHR ''.'' \<or> c = CHR '':'') s of
         None \<Rightarrow> None
       | Some c \<Rightarrow>
           if c = CHR ''.'' then map_option (\<lambda>v. replicate 10 0 @ [255, 255] @ v) (parseIPv4 s)
           else parseIPv6 s)"

lemma parseIPv4_length: "parseIPv4 s = Some v \<Longrightarrow> length v = 4"
  by (auto simp: parseIPv4_def split: option.splits if_splits)

end
