(* ===== verification/Var_Scope.thy ===== *)
theory Var_Scope
  imports Go_Strings "HOL-Library.AList" "HOL-Library.List_Lexorder" "HOL-Library.Char_ord"
begin

text \<open>
  Variable scopes, \<^verbatim>\<open>variables/scope.go\<close>, and the reserved names of
  \<^verbatim>\<open>variables/reserved/names.go\<close>. A Go map is an association list whose order is the order
  in which \<open>range\<close> visits it; \<open>CombineScopes_order\<close> shows that this order does not matter.
  The options of a call are the two booleans of \<open>scopeOpts\<close>.

  \<open>scope_laws\<close> is the interface that the code above relies on: what \<open>Get\<close> returns after
  \<open>Add\<close> and \<open>Remove\<close>.
\<close>

section \<open>The interface of a scope\<close>

locale scope_laws =
  fixes ok :: "'s \<Rightarrow> bool"
    and get :: "'s \<Rightarrow> string \<Rightarrow> bool \<Rightarrow> string option"
    and add :: "'s \<Rightarrow> string \<Rightarrow> string \<Rightarrow> bool \<Rightarrow> bool \<Rightarrow> bool \<times> 's"
    and remove :: "'s \<Rightarrow> string \<Rightarrow> 's"
    and new :: 's
  assumes ok_new: "ok new"
    and ok_add: "ok s \<Longrightarrow> ok (snd (add s k v act noOv))"
    and ok_remove: "ok s \<Longrightarrow> ok (remove s k)"
    and get_new: "get new k act = None"
    and get_active: "get s k True = Some v \<Longrightarrow> get s k False = Some v"
    and add_taken: "get s k False \<noteq> None \<Longrightarrow> add s k v act True = (False, s)"
    and add_free: "\<not> noOv \<or> get s k False = None \<Longrightarrow> fst (add s k v act noOv)"
    and get_add: "ok s \<Longrightarrow> \<not> noOv \<or> get s k False = None \<Longrightarrow>
      get (snd (add s k v act noOv)) j b =
        (if j = k then if b \<and> \<not> act \<and> get s k True = None then None else Some v else get s j b)"
    and get_remove: "get (remove s k) j b = (if j = k then None else get s j b)"
begin

definition adds :: "bool \<Rightarrow> 's \<Rightarrow> (string \<times> string) list \<Rightarrow> 's" where
  "adds act s kvs = foldl (\<lambda>s (k, v). snd (add s k v act True)) s kvs"

lemma adds_simps [simp]:
  "adds act s [] = s" "adds act s ((k, v) # kvs) = adds act (snd (add s k v act True)) kvs"
  by (simp_all add: adds_def)

lemma ok_adds: "ok s \<Longrightarrow> ok (adds act s kvs)"
  by (induction kvs arbitrary: s) (auto simp: ok_add)

lemma active_none: "get s k False = None \<Longrightarrow> get s k True = None"
  using get_active [of s k] by (cases "get s k True") auto

text \<open>Adding many variables without overriding keeps what is there and takes the first
  value of every new name.\<close>

lemma get_adds:
  "ok s \<Longrightarrow> get (adds act s kvs) k b =
    (if get s k False \<noteq> None then get s k b
     else if b \<and> \<not> act then None else map_of kvs k)"
proof (induction kvs arbitrary: s)
  case Nil
  then show ?case using active_none by (cases b) auto
next
  case (Cons kv kvs)
  obtain j v where kv: "kv = (j, v)" by fastforce
  show ?case
  proof (cases "get s j False = None")
    case True
    then show ?thesis using Cons kv active_none [OF True] by (auto simp: get_add ok_add)
  next
    case False
    then show ?thesis using Cons kv by (auto simp: add_taken)
  qed
qed

text \<open>Adding the variables of a sequence of scopes, the left-most having precedence.\<close>

lemma get_adds_all:
  "ok s \<Longrightarrow> get (foldl (\<lambda>s m. adds act s m) s ms) k b =
    (if get s k False \<noteq> None then get s k b
     else if b \<and> \<not> act then None else map_of (concat ms) k)"
proof (induction ms arbitrary: s)
  case Nil
  then show ?case using active_none by (cases b) auto
next
  case (Cons m ms)
  then show ?case by (auto simp: get_adds ok_adds map_add_def split: option.splits)
qed

lemma ok_adds_all: "ok s \<Longrightarrow> ok (foldl (\<lambda>s m. adds act s m) s ms)"
  by (induction ms arbitrary: s) (auto simp: ok_adds)

end

section \<open>Scopes\<close>

record Scope =
  s_variables :: "(string \<times> string) list"
  s_activeVariables :: "(string \<times> bool) list"

definition NewScope :: Scope where
  "NewScope = \<lparr>s_variables = [], s_activeVariables = []\<rparr>"

definition isActive :: "Scope \<Rightarrow> string \<Rightarrow> bool" where
  "isActive s k \<longleftrightarrow> map_of (s_activeVariables s) k = Some True"

definition Scope_Clone :: "Scope \<Rightarrow> Scope" where
  "Scope_Clone s = \<lparr>s_variables = s_variables s,
     s_activeVariables = map (\<lambda>(k, _). (k, True)) (s_activeVariables s)\<rparr>"

definition Scope_Get :: "Scope \<Rightarrow> string \<Rightarrow> bool \<Rightarrow> string option" where
  "Scope_Get s name active =
    (case map_of (s_variables s) name of
       None \<Rightarrow> None
     | Some v \<Rightarrow> if active \<and> \<not> isActive s name then None else Some v)"

definition Scope_Add :: "Scope \<Rightarrow> string \<Rightarrow> string \<Rightarrow> bool \<Rightarrow> bool \<Rightarrow> bool \<times> Scope" where
  "Scope_Add s name val active noOverride =
    (if noOverride \<and> map_of (s_variables s) name \<noteq> None then (False, s)
     else
       (True, s\<lparr>s_variables := AList.update name val (s_variables s),
                s_activeVariables := (if active then AList.update name True (s_activeVariables s)
                                      else s_activeVariables s)\<rparr>))"

definition Scope_Remove :: "Scope \<Rightarrow> string \<Rightarrow> Scope" where
  "Scope_Remove s name = s\<lparr>s_variables := AList.delete name (s_variables s),
     s_activeVariables := AList.delete name (s_activeVariables s)\<rparr>"

definition Scope_Map :: "Scope \<Rightarrow> bool \<Rightarrow> (string \<times> string) list" where
  "Scope_Map s active = filter (\<lambda>(k, v). \<not> (active \<and> \<not> isActive s k)) (s_variables s)"

definition Scope_Sorted :: "Scope \<Rightarrow> bool \<Rightarrow> string list" where
  "Scope_Sorted s active = sort (map fst (filter (\<lambda>(k, v). \<not> (active \<and> \<not> isActive s k)) (s_variables s)))"

definition BuildArgs :: "Scope \<Rightarrow> bool \<Rightarrow> string list" where
  "BuildArgs s active =
    map (\<lambda>v. v @ ''='' @ (case Scope_Get s v False of None \<Rightarrow> [] | Some val \<Rightarrow> val)) (Scope_Sorted s active)"

definition addAll :: "bool \<Rightarrow> Scope \<Rightarrow> (string \<times> string) list \<Rightarrow> Scope" where
  "addAll active s kvs = foldl (\<lambda>s (k, v). snd (Scope_Add s k v active True)) s kvs"

text \<open>The two passes of \<open>CombineScopes\<close> with \<open>{WithActive(), NoOverride()}\<close> and
  \<open>{NoOverride()}\<close>.\<close>

definition CombineScopes :: "Scope list \<Rightarrow> Scope" where
  "CombineScopes scopes =
    (let s1 = foldl (\<lambda>s scope. addAll True s (Scope_Map scope True)) NewScope scopes
     in foldl (\<lambda>s scope. addAll False s (Scope_Map scope False)) s1 scopes)"

definition CombineScopesInactive :: "Scope list \<Rightarrow> Scope" where
  "CombineScopesInactive scopes =
    foldl (\<lambda>s scope. addAll False s (Scope_Map scope False)) NewScope scopes"

section \<open>Reserved names\<close>

definition earth_suffixes :: "string list" where
  "earth_suffixes = [''BUILD_SHA'', ''GIT_BRANCH'', ''GIT_COMMIT_TIMESTAMP'', ''GIT_COMMIT_AUTHOR_TIMESTAMP'',
     ''GIT_HASH'', ''GIT_ORIGIN_URL'', ''GIT_ORIGIN_URL_SCRUBBED'', ''GIT_PROJECT_NAME'', ''GIT_AUTHOR'',
     ''GIT_AUTHOR_EMAIL'', ''GIT_AUTHOR_NAME'', ''GIT_CO_AUTHORS'', ''GIT_SHORT_HASH'', ''GIT_TAG'', ''GIT_REFS'',
     ''LOCALLY'', ''PUSH'', ''CI'', ''CI_RUNNER'', ''SOURCE_DATE_EPOCH'', ''TARGET'', ''TARGET_NAME'',
     ''TARGET_PROJECT'', ''TARGET_PROJECT_NO_TAG'', ''TARGET_TAG'', ''TARGET_TAG_DOCKER'', ''VERSION'']"

definition reserved_args :: "string list" where
  "reserved_args = map (\<lambda>s. ''EARTH_'' @ s) (''GIT_CONTENT_HASH'' # earth_suffixes) @
     map (\<lambda>s. ''EARTHLY_'' @ s) earth_suffixes @
     [''NATIVEARCH'', ''NATIVEOS'', ''NATIVEPLATFORM'', ''NATIVEVARIANT'',
      ''TARGETARCH'', ''TARGETOS'', ''TARGETPLATFORM'', ''TARGETVARIANT'',
      ''USERARCH'', ''USEROS'', ''USERPLATFORM'', ''USERVARIANT'']"

definition IsBuiltIn :: "string \<Rightarrow> bool" where
  "IsBuiltIn s \<longleftrightarrow> s \<in> set reserved_args"

definition DeprecatedBuiltin :: "string \<Rightarrow> string option" where
  "DeprecatedBuiltin name =
    (if \<not> prefix ''EARTHLY_'' name \<or> \<not> IsBuiltIn name then None
     else let replacement = ''EARTH_'' @ drop (length ''EARTHLY_'') name in
       if \<not> IsBuiltIn replacement then None else Some replacement)"

definition copyUnreserved :: "Scope \<Rightarrow> Scope \<Rightarrow> string \<times> string \<Rightarrow> Scope" where
  "copyUnreserved scope0 s kv = (case kv of (k, v) \<Rightarrow>
    if IsBuiltIn k then s
    else s\<lparr>s_variables := AList.update k v (s_variables s),
           s_activeVariables := (if isActive scope0 k then AList.update k True (s_activeVariables s)
                                 else s_activeVariables s)\<rparr>)"

definition RemoveReservedArgsFromScope :: "Scope \<Rightarrow> Scope" where
  "RemoveReservedArgsFromScope scope0 = foldl (copyUnreserved scope0) NewScope (s_variables scope0)"

section \<open>The scopes keep the laws\<close>

text \<open>A scope as the code builds it: the keys are those of Go maps, and only variables are
  active.\<close>

definition scope_wf :: "Scope \<Rightarrow> bool" where
  "scope_wf s \<longleftrightarrow> distinct (map fst (s_variables s)) \<and> distinct (map fst (s_activeVariables s)) \<and>
     fst ` set (s_activeVariables s) \<subseteq> fst ` set (s_variables s) \<and> snd ` set (s_activeVariables s) \<subseteq> {True}"

lemma scope_wf_new [simp, intro]: "scope_wf NewScope"
  by (simp add: scope_wf_def NewScope_def)

lemma set_update_subset: "set (AList.update k v al) \<subseteq> insert (k, v) (set al)"
  by (induction al) auto

lemma set_delete_subset: "set (AList.delete k al) \<subseteq> set al"
  by (induction al) auto

lemma fst_update: "fst ` set (AList.update k v al) = insert k (fst ` set al)"
  using dom_update [of k v al] by simp

lemma scope_wf_Add [keeps_intros]: "scope_wf s \<Longrightarrow> scope_wf (snd (Scope_Add s k v act noOv))"
  using set_update_subset [of k True "s_activeVariables s"]
  by (auto simp: scope_wf_def Scope_Add_def distinct_update fst_update image_subset_iff)

lemma fst_delete: "fst ` set (AList.delete k al) = fst ` set al - {k}"
  using delete_keys [of k al] by (metis image_set set_removeAll)

lemma scope_wf_Remove [keeps_intros]:
  assumes "scope_wf s"
  shows "scope_wf (Scope_Remove s k)"
proof -
  have "snd ` set (AList.delete k (s_activeVariables s)) \<subseteq> {True}"
    using assms set_delete_subset [of k "s_activeVariables s"] by (auto simp: scope_wf_def)
  then show ?thesis
    using assms by (auto simp: scope_wf_def Scope_Remove_def distinct_delete fst_delete)
qed

lemma scope_wf_Clone [keeps_intros]: "scope_wf s \<Longrightarrow> scope_wf (Scope_Clone s)"
  by (auto simp: scope_wf_def Scope_Clone_def comp_def case_prod_beta image_image)

lemma isActive_var: "scope_wf s \<Longrightarrow> isActive s k \<Longrightarrow> map_of (s_variables s) k \<noteq> None"
  unfolding scope_wf_def isActive_def map_of_eq_None_iff by (metis fst_conv image_eqI map_of_SomeD subsetD)

interpretation scope: scope_laws scope_wf Scope_Get Scope_Add Scope_Remove NewScope
proof
  fix s :: Scope and k v j :: string and act noOv b :: bool
  assume wf: "scope_wf s" and free: "\<not> noOv \<or> Scope_Get s k False = None"
  have "map_of (s_variables s) k = None \<Longrightarrow> \<not> isActive s k" using isActive_var [OF wf, of k] by auto
  then show "Scope_Get (snd (Scope_Add s k v act noOv)) j b =
      (if j = k then if b \<and> \<not> act \<and> Scope_Get s k True = None then None else Some v else Scope_Get s j b)"
    using free by (auto simp: Scope_Get_def Scope_Add_def isActive_def update_conv' split: option.splits)
next
  fix s :: Scope and k j :: string and b :: bool
  show "Scope_Get (Scope_Remove s k) j b = (if j = k then None else Scope_Get s j b)"
    by (auto simp: Scope_Get_def Scope_Remove_def isActive_def delete_conv' split: option.splits)
next
  show "scope_wf NewScope" by (rule scope_wf_new)
next
  fix s :: Scope and k v :: string and act noOv :: bool
  assume "scope_wf s"
  then show "scope_wf (snd (Scope_Add s k v act noOv))" by (rule scope_wf_Add)
qed (auto simp: Scope_Get_def Scope_Add_def NewScope_def intro: scope_wf_Remove
       split: option.splits if_splits)

lemma addAll_adds: "addAll act s kvs = scope.adds act s kvs"
  by (simp add: addAll_def scope.adds_def)

section \<open>Combined scopes\<close>

text \<open>What the comment of \<open>CombineScopes\<close> promises: the left-most scope that has the name.\<close>

primrec leftmost :: "bool \<Rightarrow> Scope list \<Rightarrow> string \<Rightarrow> string option" where
  "leftmost act [] k = None"
| "leftmost act (s # ss) k = (case Scope_Get s k act of None \<Rightarrow> leftmost act ss k | Some v \<Rightarrow> Some v)"

lemma map_of_filter_key: "map_of (filter (\<lambda>(k, v). P k) al) k = (if P k then map_of al k else None)"
  by (induction al) auto

lemma map_of_Scope_Map: "map_of (Scope_Map s act) k = Scope_Get s k act"
  unfolding Scope_Map_def Scope_Get_def map_of_filter_key by (simp split: option.splits)

lemma map_of_concat_Scope_Map: "map_of (concat (map (\<lambda>s. Scope_Map s act) ss)) k = leftmost act ss k"
  by (induction ss) (auto simp: map_of_Scope_Map map_add_def split: option.splits)

lemma addAll_scopes:
  "foldl (\<lambda>s scope. addAll act s (Scope_Map scope act)) s scopes =
    foldl (\<lambda>s m. scope.adds act s m) s (map (\<lambda>x. Scope_Map x act) scopes)"
  by (induction scopes arbitrary: s) (auto simp: addAll_adds)

lemma leftmost_active: "leftmost True ss k \<noteq> None \<Longrightarrow> leftmost False ss k \<noteq> None"
  by (induction ss) (auto dest: scope.get_active split: option.splits)

lemma Get_CombineScopes:
  "Scope_Get (CombineScopes scopes) k b =
    (case leftmost True scopes k of Some v \<Rightarrow> Some v | None \<Rightarrow> if b then None else leftmost False scopes k)"
  unfolding CombineScopes_def Let_def addAll_scopes
  by (auto simp: scope.get_adds_all scope.ok_adds_all scope.get_new map_of_concat_Scope_Map split: option.splits)

lemma scope_wf_CombineScopes [keeps_intros]: "scope_wf (CombineScopes scopes)"
  unfolding CombineScopes_def Let_def addAll_scopes by (intro scope.ok_adds_all scope_wf_new)

lemma Get_CombineScopesInactive:
  "Scope_Get (CombineScopesInactive scopes) k b = (if b then None else leftmost False scopes k)"
  unfolding CombineScopesInactive_def addAll_scopes
  by (simp add: scope.get_adds_all scope.get_new map_of_concat_Scope_Map)

lemma leftmost_cong:
  "list_all2 (\<lambda>s t. \<forall>k b. Scope_Get s k b = Scope_Get t k b) ss ts \<Longrightarrow> leftmost b ss k = leftmost b ts k"
  by (induction rule: list_all2_induct) (auto split: option.splits)

text \<open>
  \<open>CombineScopes\<close> has the precedence its comment states: an active lookup gives the
  value of the left-most scope in which the variable is active; any other lookup falls back,
  when no scope has it active, to the left-most scope that has it at all. The iteration order
  of the Go maps has no influence: scopes with the same lookups combine to scopes with the
  same lookups.
\<close>

theorem CombineScopes_precedence:
  "Scope_Get (CombineScopes scopes) k True = leftmost True scopes k \<and>
   Scope_Get (CombineScopes scopes) k False =
     (case leftmost True scopes k of Some v \<Rightarrow> Some v | None \<Rightarrow> leftmost False scopes k) \<and>
   (list_all2 (\<lambda>s t. \<forall>k b. Scope_Get s k b = Scope_Get t k b) scopes scopes' \<longrightarrow>
     (\<forall>k b. Scope_Get (CombineScopes scopes) k b = Scope_Get (CombineScopes scopes') k b))"
  using leftmost_cong [of scopes scopes'] by (auto simp: Get_CombineScopes split: option.split)

definition ex_scopes :: "Scope list" where
  "ex_scopes = [\<lparr>s_variables = [(''a'', ''1''), (''b'', ''2'')], s_activeVariables = [(''b'', True)]\<rparr>,
     \<lparr>s_variables = [(''a'', ''3''), (''c'', ''4'')], s_activeVariables = [(''a'', True)]\<rparr>]"

theorem CombineScopes_precedence_witness:
  "\<forall>k b. Scope_Get (CombineScopes ex_scopes) k b = Scope_Get (CombineScopes (map Scope_Clone ex_scopes)) k b"
  using CombineScopes_precedence [of ex_scopes "''a''" "map Scope_Clone ex_scopes"]
  by (simp add: ex_scopes_def Scope_Clone_def Scope_Get_def isActive_def)

section \<open>Reserved names in a scope\<close>

lemma copyUnreserved_keeps:
  "(\<And>k. isActive s k \<Longrightarrow> isActive scope0 k) \<Longrightarrow>
    isActive (copyUnreserved scope0 s kv) k \<Longrightarrow> isActive scope0 k"
  by (auto simp: copyUnreserved_def isActive_def update_conv' split: if_splits prod.splits)

lemma Get_copyUnreserved:
  "(\<And>k. isActive s k \<Longrightarrow> isActive scope0 k) \<Longrightarrow> Scope_Get (copyUnreserved scope0 s (j, v)) k b =
    (if k = j \<and> \<not> IsBuiltIn j then if b \<and> \<not> isActive scope0 j then None else Some v
     else Scope_Get s k b)"
  by (auto simp: Scope_Get_def copyUnreserved_def isActive_def update_conv' split: option.splits)

lemma Get_copyUnreserved_foldl:
  "(\<And>k. isActive s k \<Longrightarrow> isActive scope0 k) \<Longrightarrow>
    Scope_Get (foldl (copyUnreserved scope0) s kvs) k b =
    (if IsBuiltIn k then Scope_Get s k b
     else case map_of (rev kvs) k of None \<Rightarrow> Scope_Get s k b
       | Some v \<Rightarrow> if b \<and> \<not> isActive scope0 k then None else Some v)"
proof (induction kvs arbitrary: s)
  case (Cons kv kvs)
  obtain j v where kv: "kv = (j, v)" by fastforce
  let ?s = "copyUnreserved scope0 s kv"
  have "isActive ?s k \<Longrightarrow> isActive scope0 k" for k
    using Cons.prems by (rule copyUnreserved_keeps)
  from Cons.IH [of ?s, OF this] show ?case
    using Get_copyUnreserved [of s scope0 j v k b, OF Cons.prems]
    by (auto simp: kv map_add_def split: option.split)
qed simp

lemma map_of_rev_distinct: "distinct (map fst xs) \<Longrightarrow> map_of (rev xs) = map_of xs"
  by (induction xs) (auto simp: map_add_upd_left dom_map_of_conv_image_fst)

text \<open>
  \<open>RemoveReservedArgsFromScope\<close> removes the built-in names and nothing else: every other
  variable keeps its value and whether it is active.
\<close>

theorem RemoveReservedArgs_spec:
  "scope_wf scope0 \<Longrightarrow> Scope_Get (RemoveReservedArgsFromScope scope0) k b =
    (if IsBuiltIn k then None else Scope_Get scope0 k b)"
  unfolding RemoveReservedArgsFromScope_def
  by (subst Get_copyUnreserved_foldl)
    (simp_all add: scope_wf_def map_of_rev_distinct Scope_Get_def NewScope_def isActive_def split: option.split)

theorem RemoveReservedArgs_spec_witness:
  "Scope_Get (RemoveReservedArgsFromScope \<lparr>s_variables = [(''EARTH_CI'', ''true''), (''x'', ''1'')],
      s_activeVariables = [(''x'', True)]\<rparr>) ''x'' True = Some ''1''"
  by (subst RemoveReservedArgs_spec)
    (simp_all add: scope_wf_def IsBuiltIn_def reserved_args_def earth_suffixes_def Scope_Get_def isActive_def)

lemma DeprecatedBuiltin_SomeD:
  "DeprecatedBuiltin name = Some r \<Longrightarrow>
    IsBuiltIn name \<and> IsBuiltIn r \<and> name = ''EARTHLY_'' @ drop 8 name \<and> r = ''EARTH_'' @ drop 8 name"
  by (auto simp: DeprecatedBuiltin_def Let_def prefix_def split: if_splits)

end
