(* ===== verification/Features.thy ===== *)
theory Features
  imports Go_Strconv Earthfile_AST "HOL-Library.AList" "HOL-Library.List_Lexorder" "HOL-Library.Char_ord"
begin

text \<open>
  Feature flags, \<^verbatim>\<open>features/features.go\<close>. The fields of the struct \<open>Features\<close> are named by their
  \<open>long\<close> tag, since the code only reaches them through reflection on that tag;
  \<open>feature_fields\<close> lists them with their \<open>enabled_in_version\<close> tag, in the order of the
  struct. The flag parser of the package go-flags is the parameter \<open>goflags\<close>: it gives
  the flags it found and the remaining arguments. \<open>None\<close> is a run-time panic.
\<close>

section \<open>The struct\<close>

definition feature_fields :: "(string \<times> string) list" where
  "feature_fields =
    [(''no-use-registry-for-with-docker'', ''''), (''earthly-ci-runner-arg'', ''''),
     (''exec-after-parallel'', ''0.5''), (''parallel-load'', ''0.5''), (''use-registry-for-with-docker'', ''0.5''),
     (''for-in'', ''0.6''), (''no-implicit-ignore'', ''0.6''), (''referenced-save-only'', ''0.6''),
     (''require-force-for-unsafe-saves'', ''0.6''), (''use-copy-include-patterns'', ''0.6''),
     (''check-duplicate-images'', ''0.7''), (''ci-arg'', ''0.7''), (''earthly-git-author-args'', ''0.7''),
     (''earthly-locally-arg'', ''0.7''), (''earthly-version-arg'', ''0.7''), (''explicit-global'', ''0.7''),
     (''git-commit-author-timestamp'', ''0.7''), (''new-platform'', ''0.7''), (''no-tar-build-output'', ''0.7''),
     (''save-artifact-keep-own'', ''0.7''), (''shell-out-anywhere'', ''0.7''), (''use-cache-command'', ''0.7''),
     (''use-chmod'', ''0.7''), (''use-copy-link'', ''0.7''), (''use-host-command'', ''0.7''),
     (''use-no-manifest-list'', ''0.7''), (''use-project-secrets'', ''0.7''), (''wait-block'', ''0.7''),
     (''no-network'', ''0.8''), (''arg-scope-and-set'', ''0.8''), (''use-docker-ignore'', ''0.8''),
     (''pass-args'', ''0.8''), (''global-cache'', ''0.8''), (''cache-persist-option'', ''0.8''),
     (''git-refs'', ''0.8''), (''use-visited-upfront-hash-collection'', ''0.8''), (''use-function-keyword'', ''0.8''),
     (''try'', ''''), (''wildcard-builds'', ''''), (''build-auto-skip'', ''''),
     (''allow-privileged-from-dockerfile'', ''''), (''run-with-aws'', ''''), (''wildcard-copy'', ''''),
     (''raw-output'', ''''), (''git-author-email-name-args'', ''''), (''allow-without-earthly-labels'', ''''),
     (''docker-cache'', ''''), (''run-with-aws-oidc'', '''')]"

record Features =
  fe_on :: "string \<Rightarrow> bool"
  fe_Major :: int
  fe_Minor :: int

datatype features_error =
    ErrUnexpectedArgs
  | ErrGoFlags string
  | ErrMajorVersion strconv_error
  | ErrMinorVersion strconv_error
  | ErrInvalidFlag string
  | ErrArgScopeRequiresShellOut

abbreviation flag_on :: "string \<Rightarrow> Features \<Rightarrow> Features" where
  "flag_on k f \<equiv> f\<lparr>fe_on := (fe_on f)(k := True)\<rparr>"

definition Features_Version :: "Features \<Rightarrow> string" where
  "Features_Version f = Itoa (fe_Major f) @ ''.'' @ Itoa (fe_Minor f)"

definition Features_String :: "Features \<Rightarrow> string" where
  "Features_String f =
    (let flags = sort (map (\<lambda>(long, _). ''--'' @ long) (filter (\<lambda>(long, _). fe_on f long) feature_fields));
         args = ''VERSION'' # (if flags \<noteq> [] then [Join flags '' ''] else []) @ [Features_Version f]
     in Join args '' '')"

section \<open>Overrides\<close>

definition parseFlagOverrides :: "string \<Rightarrow> (string \<times> string) list" where
  "parseFlagOverrides env0 =
    (let env = TrimSpace env0 in
     if env = [] then []
     else foldl (\<lambda>m flag.
       let flagNameAndValue = SplitN2 flag (CHR ''='');
           flagName = TrimPrefix (TrimSpace (hd flagNameAndValue)) ''--'';
           flagValue = (if length flagNameAndValue > 1 then TrimSpace (flagNameAndValue ! 1) else [])
       in AList.update flagName flagValue m) [] (Split env (CHR '','')))"

definition processNegativeFlags :: "Features \<Rightarrow> Features" where
  "processNegativeFlags f =
    (if fe_on f ''no-use-registry-for-with-docker''
     then f\<lparr>fe_on := (fe_on f)(''use-registry-for-with-docker'' := False)\<rparr> else f)"

fun applyOverrides :: "(string \<times> string) list \<Rightarrow> Features \<Rightarrow> Features \<times> features_error option" where
  "applyOverrides [] f = (processNegativeFlags f, None)"
| "applyOverrides ((key, val) # overrides) f =
    (if key \<notin> fst ` set feature_fields then (f, Some (ErrInvalidFlag key))
     else applyOverrides overrides (flag_on key f))"

definition ApplyFlagOverrides :: "Features \<Rightarrow> string \<Rightarrow> Features \<times> features_error option" where
  "ApplyFlagOverrides f envOverrides = applyOverrides (parseFlagOverrides envOverrides) f"

section \<open>Versions\<close>

definition Features_Get ::
  "(string list \<Rightarrow> string + ((string \<Rightarrow> bool) \<times> string list)) \<Rightarrow> Version option \<Rightarrow>
    features_error + (Features \<times> bool)" where
  "Features_Get goflags version =
    (let hasVersion = (version \<noteq> None);
         args = (case version of None \<Rightarrow> [''0.5''] | Some v \<Rightarrow> ver_Args v) in
     if args = [] then Inl ErrUnexpectedArgs
     else case goflags args of
       Inl e \<Rightarrow> Inl (ErrGoFlags e)
     | Inr (on, parsedArgs) \<Rightarrow>
         (if length parsedArgs \<noteq> 1 then Inl ErrUnexpectedArgs
          else let majorAndMinor = Split (parsedArgs ! 0) (CHR ''.'') in
            if length majorAndMinor \<noteq> 2 then Inl ErrUnexpectedArgs
            else case Atoi (majorAndMinor ! 0) of
              Inl e \<Rightarrow> Inl (ErrMajorVersion e)
            | Inr major \<Rightarrow>
                (case Atoi (majorAndMinor ! 1) of
                   Inl e \<Rightarrow> Inl (ErrMinorVersion e)
                 | Inr minor \<Rightarrow> Inr (\<lparr>fe_on = on, fe_Major = major, fe_Minor = minor\<rparr>, hasVersion))))"

definition versionAtLeast :: "Features \<Rightarrow> int \<Rightarrow> int \<Rightarrow> bool" where
  "versionAtLeast f majorVersion minorVersion \<longleftrightarrow>
    fe_Major f > majorVersion \<or> (fe_Major f = majorVersion \<and> fe_Minor f \<ge> minorVersion)"

definition mustParseVersion :: "string \<Rightarrow> (int \<times> int) option" where
  "mustParseVersion version =
    (let parts = Split version (CHR ''.'') in
     if length parts \<noteq> 2 then None
     else case (Atoi (parts ! 0), Atoi (parts ! 1)) of
       (Inr major, Inr minor) \<Rightarrow> Some (major, minor)
     | _ \<Rightarrow> None)"

fun enableByVersion :: "(string \<times> string) list \<Rightarrow> Features \<Rightarrow> string list \<Rightarrow> (Features \<times> string list) option" where
  "enableByVersion [] f warningStrs = Some (f, warningStrs)"
| "enableByVersion ((long, version) # fs) f warningStrs =
    (if version = [] then enableByVersion fs f warningStrs
     else case mustParseVersion version of
       None \<Rightarrow> None
     | Some (majorVersion, minorVersion) \<Rightarrow>
         if versionAtLeast f majorVersion minorVersion
         then enableByVersion fs (flag_on long f)
                (if fe_on f long then warningStrs @ [''--'' @ ToLower long] else warningStrs)
         else enableByVersion fs f warningStrs)"

definition ProcessFlags :: "Features \<Rightarrow> (Features \<times> (features_error + string list)) option" where
  "ProcessFlags f =
    (case enableByVersion feature_fields f [] of
       None \<Rightarrow> None
     | Some (f1, warningStrs) \<Rightarrow>
         let f2 = processNegativeFlags f1 in
         if fe_on f2 ''arg-scope-and-set'' \<and> \<not> fe_on f2 ''shell-out-anywhere''
         then Some (f2, Inl ErrArgScopeRequiresShellOut)
         else Some (f2, Inr warningStrs))"

section \<open>Properties\<close>

text \<open>The version of \<open>f\<close> is at least the one the tag names; no tag is never reached.\<close>

definition reaches :: "Features \<Rightarrow> string \<Rightarrow> bool" where
  "reaches f version \<longleftrightarrow> (case mustParseVersion version of
     None \<Rightarrow> False | Some (major, minor) \<Rightarrow> versionAtLeast f major minor)"

definition default_on :: "Features \<Rightarrow> string \<Rightarrow> bool" where
  "default_on f k \<longleftrightarrow> (case map_of feature_fields k of None \<Rightarrow> False | Some version \<Rightarrow> reaches f version)"

lemma reaches_flag_on [simp]: "reaches (flag_on k f) v = reaches f v"
  by (simp add: reaches_def versionAtLeast_def split: option.split)

lemma reaches_empty [simp]: "\<not> reaches f []"
  by (simp add: reaches_def mustParseVersion_def)

text \<open>The flags given although the version enables them.\<close>

definition redundant :: "Features \<Rightarrow> (string \<times> string) list \<Rightarrow> string list" where
  "redundant f fs = map (\<lambda>(k, v). ''--'' @ ToLower k) (filter (\<lambda>(k, v). fe_on f k \<and> reaches f v) fs)"

lemma redundant_flag_on: "k \<notin> fst ` set fs \<Longrightarrow> redundant (flag_on k f) fs = redundant f fs"
  unfolding redundant_def by (intro arg_cong [where f = "map _"] filter_cong) force+

lemma enableByVersion_step:
  assumes "v = [] \<or> mustParseVersion v \<noteq> None"
  shows "enableByVersion ((k, v) # fs) f ws =
    (if reaches f v then enableByVersion fs (flag_on k f) (if fe_on f k then ws @ [''--'' @ ToLower k] else ws)
     else enableByVersion fs f ws)"
  using assms by (auto simp: reaches_def mustParseVersion_def)

definition enabled_by :: "(string \<times> string) list \<Rightarrow> Features \<Rightarrow> Features" where
  "enabled_by fs f = f\<lparr>fe_on := \<lambda>k. fe_on f k \<or> (case map_of fs k of None \<Rightarrow> False | Some v \<Rightarrow> reaches f v)\<rparr>"

lemma enableByVersion_spec:
  assumes "distinct (map fst fs)" "list_all (\<lambda>(k, v). v = [] \<or> mustParseVersion v \<noteq> None) fs"
  shows "enableByVersion fs f ws = Some (enabled_by fs f, ws @ redundant f fs)"
  using assms
proof (induction fs arbitrary: f ws)
  case Nil
  then show ?case by (simp add: redundant_def enabled_by_def)
next
  case (Cons kv fs)
  obtain k v where kv: "kv = (k, v)" by fastforce
  have fresh: "k \<notin> fst ` set fs" using Cons.prems kv by simp
  then have "map_of fs k = None" by (simp add: map_of_eq_None_iff)
  then have "enabled_by (kv # fs) f = (if reaches f v then enabled_by fs (flag_on k f) else enabled_by fs f)"
    by (auto simp: enabled_by_def kv fun_eq_iff split: option.split)
  moreover have "redundant f (kv # fs) =
      (if reaches f v \<and> fe_on f k then (''--'' @ ToLower k) # redundant f fs else redundant f fs)"
    by (simp add: redundant_def kv)
  ultimately show ?case
    using Cons kv redundant_flag_on [OF fresh] by (simp add: enableByVersion_step del: enableByVersion.simps)
qed

lemma feature_fields_ok:
  "distinct (map fst feature_fields)"
  "list_all (\<lambda>(k, v). v = [] \<or> mustParseVersion v \<noteq> None) feature_fields"
  by (simp add: feature_fields_def)
    (simp add: feature_fields_def mustParseVersion_def Atoi_def is_digit_def digits_value_def)

lemma negative_not_default: "\<not> default_on f ''no-use-registry-for-with-docker''"
  by (simp add: default_on_def feature_fields_def)

lemma ProcessFlags_eq:
  "ProcessFlags f = (let f' = processNegativeFlags (enabled_by feature_fields f) in
    Some (f', if fe_on f' ''arg-scope-and-set'' \<and> \<not> fe_on f' ''shell-out-anywhere''
              then Inl ErrArgScopeRequiresShellOut else Inr (redundant f feature_fields)))"
  by (simp add: ProcessFlags_def enableByVersion_spec [OF feature_fields_ok] Let_def)

lemma fe_on_processed:
  "fe_on (processNegativeFlags (enabled_by feature_fields f)) k \<longleftrightarrow>
    (fe_on f k \<or> default_on f k) \<and>
    \<not> (k = ''use-registry-for-with-docker'' \<and> fe_on f ''no-use-registry-for-with-docker'')"
  using negative_not_default [of f]
  by (auto simp: processNegativeFlags_def enabled_by_def default_on_def)

text \<open>
  \<open>ProcessFlags\<close> never panics on the tags of the struct. Afterwards a feature is on exactly
  when it was given as a flag or its version tag is reached, except that
  \<open>--no-use-registry-for-with-docker\<close> switches the registry off; the warnings name the flags
  that were given although the version enables them, in the order of the struct; the only
  error is \<open>--arg-scope-and-set\<close> without \<open>--shell-out-anywhere\<close>.
\<close>

theorem ProcessFlags_spec:
  "\<exists>f' r. ProcessFlags f = Some (f', r) \<and>
    (\<forall>k. fe_on f' k \<longleftrightarrow> (fe_on f k \<or> default_on f k) \<and>
       \<not> (k = ''use-registry-for-with-docker'' \<and> fe_on f ''no-use-registry-for-with-docker'')) \<and>
    r = (if fe_on f' ''arg-scope-and-set'' \<and> \<not> fe_on f' ''shell-out-anywhere''
         then Inl ErrArgScopeRequiresShellOut else Inr (redundant f feature_fields))"
  unfolding ProcessFlags_eq Let_def using fe_on_processed [of f] by blast

lemma versionAtLeast_trans:
  "versionAtLeast g (fe_Major f) (fe_Minor f) \<Longrightarrow> versionAtLeast f a b \<Longrightarrow> versionAtLeast g a b"
  by (auto simp: versionAtLeast_def)

lemma default_on_mono:
  "versionAtLeast g (fe_Major f) (fe_Minor f) \<Longrightarrow> default_on f k \<Longrightarrow> default_on g k"
  by (auto simp: default_on_def reaches_def intro: versionAtLeast_trans split: option.splits)

text \<open>
  Raising the version of an Earthfile only switches features on: with a version that is at
  least as high and no fewer flags, every feature stays on unless the negative flag removes
  it. From VERSION 0.8 on, \<open>ProcessFlags\<close> reports no error.
\<close>

theorem ProcessFlags_mono:
  assumes "versionAtLeast g (fe_Major f) (fe_Minor f)" "\<forall>k. fe_on f k \<longrightarrow> fe_on g k"
    and "\<not> fe_on g ''no-use-registry-for-with-docker''"
    and "ProcessFlags f = Some (f', r)" "ProcessFlags g = Some (g', q)"
  shows "(\<forall>k. fe_on f' k \<longrightarrow> fe_on g' k) \<and> (versionAtLeast g 0 8 \<longrightarrow> is_ok q)"
proof (intro conjI allI impI)
  fix k
  assume "fe_on f' k"
  then show "fe_on g' k"
    using assms default_on_mono [OF assms(1)] by (auto simp: ProcessFlags_eq Let_def fe_on_processed)
next
  assume "versionAtLeast g 0 8"
  then have "default_on g ''shell-out-anywhere''"
    by (auto simp: default_on_def feature_fields_def reaches_def mustParseVersion_def Atoi_def is_digit_def
        digits_value_def versionAtLeast_def)
  then show "is_ok q" using assms(5) by (auto simp: ProcessFlags_eq Let_def fe_on_processed)
qed

definition ex_features :: "int \<Rightarrow> Features" where
  "ex_features minor = \<lparr>fe_on = (\<lambda>k. k = ''try''), fe_Major = 0, fe_Minor = minor\<rparr>"

theorem ProcessFlags_mono_witness:
  "fe_on (fst (the (ProcessFlags (ex_features 6)))) ''try'' \<and>
   fe_on (fst (the (ProcessFlags (ex_features 8)))) ''try'' \<and>
   is_ok (snd (the (ProcessFlags (ex_features 8))))"
proof -
  have ex: "ProcessFlags f = Some (fst (the (ProcessFlags f)), snd (the (ProcessFlags f)))" for f
    by (simp add: ProcessFlags_eq Let_def)
  have on6: "fe_on (fst (the (ProcessFlags (ex_features 6)))) ''try''"
    by (simp add: ProcessFlags_eq Let_def fe_on_processed ex_features_def)
  then show ?thesis
    using ProcessFlags_mono [OF _ _ _ ex [of "ex_features 6"] ex [of "ex_features 8"]]
    by (simp add: ex_features_def versionAtLeast_def)
qed

lemma applyOverrides_ok:
  "fst ` set os \<subseteq> fst ` set feature_fields \<Longrightarrow>
    applyOverrides os f = (processNegativeFlags (f\<lparr>fe_on := \<lambda>k. k \<in> fst ` set os \<or> fe_on f k\<rparr>), None)"
proof (induction os f rule: applyOverrides.induct)
  case (2 key val os f)
  have "(\<lambda>k. k \<in> fst ` set os \<or> ((fe_on f)(key := True)) k) =
      (\<lambda>k. k \<in> fst ` set ((key, val) # os) \<or> fe_on f k)"
    by auto
  then show ?case using 2 by simp
qed simp

lemma applyOverrides_bad:
  "\<not> fst ` set os \<subseteq> fst ` set feature_fields \<Longrightarrow>
    \<exists>k \<in> fst ` set os. k \<notin> fst ` set feature_fields \<and> snd (applyOverrides os f) = Some (ErrInvalidFlag k)"
  by (induction os f rule: applyOverrides.induct) auto

text \<open>
  \<open>ApplyFlagOverrides\<close>: when every name of the list is a feature, these features are
  switched on beside those already on (then the negative flag is applied), and otherwise the
  error names a flag that does not exist. The value after \<open>=\<close> is read and ignored, so
  \<open>for-in=false\<close> switches \<open>for-in\<close> on.
\<close>

theorem ApplyFlagOverrides_spec:
  "(if fst ` set (parseFlagOverrides env0) \<subseteq> fst ` set feature_fields
    then ApplyFlagOverrides f env0 =
      (processNegativeFlags (f\<lparr>fe_on := \<lambda>k. k \<in> fst ` set (parseFlagOverrides env0) \<or> fe_on f k\<rparr>), None)
    else \<exists>k. k \<notin> fst ` set feature_fields \<and> snd (ApplyFlagOverrides f env0) = Some (ErrInvalidFlag k)) \<and>
   fe_on (fst (ApplyFlagOverrides f ''for-in=false'')) ''for-in''"
proof
  show "if fst ` set (parseFlagOverrides env0) \<subseteq> fst ` set feature_fields
    then ApplyFlagOverrides f env0 =
      (processNegativeFlags (f\<lparr>fe_on := \<lambda>k. k \<in> fst ` set (parseFlagOverrides env0) \<or> fe_on f k\<rparr>), None)
    else \<exists>k. k \<notin> fst ` set feature_fields \<and> snd (ApplyFlagOverrides f env0) = Some (ErrInvalidFlag k)"
    using applyOverrides_ok [of "parseFlagOverrides env0" f] applyOverrides_bad [of "parseFlagOverrides env0" f]
    by (auto simp: ApplyFlagOverrides_def)
  have "parseFlagOverrides ''for-in=false'' = [(''for-in'', ''false'')]" by code_simp
  then show "fe_on (fst (ApplyFlagOverrides f ''for-in=false'')) ''for-in''"
    by (simp add: ApplyFlagOverrides_def processNegativeFlags_def feature_fields_def)
qed

end
