(* ===== verification/Platform.thy ===== *)
theory Platform
  imports Prelude
begin

text \<open>
  Platforms, \<^verbatim>\<open>util/platutil/platform.go\<close> and \<^verbatim>\<open>resolver.go\<close>. The package containerd/platforms is
  outside the sources: \<open>Normalize\<close>, \<open>Format\<close> and \<open>Parse\<close> of it are arguments of the
  definitions that call them. The pointer field of a \<open>Platform\<close> is only ever compared with
  nil, so it is an option.
\<close>

record SpecsPlatform =
  sp_OS :: string
  sp_Architecture :: string
  sp_Variant :: string

record Platform =
  pl_p :: "SpecsPlatform option"
  pl_user :: bool
  pl_native :: bool

definition DefaultPlatform :: Platform where
  "DefaultPlatform = \<lparr>pl_p = None, pl_user = False, pl_native = False\<rparr>"

definition NativePlatform :: Platform where
  "NativePlatform = \<lparr>pl_p = None, pl_user = False, pl_native = True\<rparr>"

definition UserPlatform :: Platform where
  "UserPlatform = \<lparr>pl_p = None, pl_user = True, pl_native = False\<rparr>"

definition IsPlatformDefined :: "Platform \<Rightarrow> bool" where
  "IsPlatformDefined p \<longleftrightarrow> p \<noteq> DefaultPlatform"

definition FromLLBPlatform :: "(SpecsPlatform \<Rightarrow> SpecsPlatform) \<Rightarrow> SpecsPlatform \<Rightarrow> Platform" where
  "FromLLBPlatform Normalize p = \<lparr>pl_p = Some (Normalize p), pl_user = False, pl_native = False\<rparr>"

definition Platform_String :: "(SpecsPlatform \<Rightarrow> string) \<Rightarrow> Platform \<Rightarrow> string" where
  "Platform_String Format p =
    (case pl_p p of
       Some sp \<Rightarrow> Format sp
     | None \<Rightarrow> if pl_native p then ''native'' else if pl_user p then ''user'' else [])"

section \<open>The resolver\<close>

record Resolver =
  rs_currentPlatform :: Platform
  rs_defaultPlatform :: Platform
  rs_userPlatform :: SpecsPlatform
  rs_nativePlatform :: SpecsPlatform
  rs_AllowNativeAndUser :: bool

definition NewResolver :: "SpecsPlatform \<Rightarrow> SpecsPlatform \<Rightarrow> Resolver" where
  "NewResolver getUserPlatform nativePlatform =
    \<lparr>rs_currentPlatform = DefaultPlatform, rs_defaultPlatform = DefaultPlatform,
     rs_userPlatform = getUserPlatform, rs_nativePlatform = nativePlatform, rs_AllowNativeAndUser = False\<rparr>"

definition SubResolver :: "Resolver \<Rightarrow> Platform \<Rightarrow> Resolver" where
  "SubResolver r newPlatform =
    (let np = (if newPlatform = DefaultPlatform then rs_defaultPlatform r else newPlatform) in
     \<lparr>rs_currentPlatform = np, rs_defaultPlatform = np, rs_userPlatform = rs_userPlatform r,
      rs_nativePlatform = rs_nativePlatform r, rs_AllowNativeAndUser = rs_AllowNativeAndUser r\<rparr>)"

definition SubPlatform :: "Resolver \<Rightarrow> Platform \<Rightarrow> Platform" where
  "SubPlatform r inp = (if inp = DefaultPlatform then rs_currentPlatform r else inp)"

definition UpdatePlatform :: "Resolver \<Rightarrow> Platform \<Rightarrow> Platform \<times> Resolver" where
  "UpdatePlatform r newPlatform =
    (let np = (if newPlatform = DefaultPlatform then rs_defaultPlatform r else newPlatform) in
     (np, r\<lparr>rs_currentPlatform := np\<rparr>))"

definition ParseAllowNativeAndUser ::
  "(string \<Rightarrow> 'e + SpecsPlatform) \<Rightarrow> (SpecsPlatform \<Rightarrow> SpecsPlatform) \<Rightarrow> string \<Rightarrow> 'e + Platform" where
  "ParseAllowNativeAndUser Parse Normalize str =
    (if str = ''native'' then Inr NativePlatform
     else if str = ''user'' then Inr UserPlatform
     else if str = [] then Inr DefaultPlatform
     else rbind (Parse str) (\<lambda>p. Inr \<lparr>pl_p = Some (Normalize p), pl_user = False, pl_native = False\<rparr>))"

definition Resolver_Parse ::
  "(string \<Rightarrow> 'e + SpecsPlatform) \<Rightarrow> (SpecsPlatform \<Rightarrow> SpecsPlatform) \<Rightarrow> Resolver \<Rightarrow> string \<Rightarrow> 'e + Platform" where
  "Resolver_Parse Parse Normalize r str =
    (if rs_AllowNativeAndUser r then ParseAllowNativeAndUser Parse Normalize str
     else if str = [] then Inr DefaultPlatform
     else rbind (Parse str) (\<lambda>p. Inr \<lparr>pl_p = Some (Normalize p), pl_user = False, pl_native = False\<rparr>))"

definition Materialize :: "(SpecsPlatform \<Rightarrow> SpecsPlatform) \<Rightarrow> Resolver \<Rightarrow> Platform \<Rightarrow> Platform" where
  "Materialize Normalize r inp =
    (let out = (case pl_p inp of
        Some p \<Rightarrow> p
      | None \<Rightarrow> if pl_user inp then rs_userPlatform r else rs_nativePlatform r)
     in \<lparr>pl_p = Some (Normalize out), pl_user = False, pl_native = False\<rparr>)"

definition ToLLBPlatform :: "(SpecsPlatform \<Rightarrow> SpecsPlatform) \<Rightarrow> Resolver \<Rightarrow> Platform \<Rightarrow> SpecsPlatform" where
  "ToLLBPlatform Normalize r inp = the (pl_p (Materialize Normalize r inp))"

definition PlatformEquals ::
  "(SpecsPlatform \<Rightarrow> SpecsPlatform) \<Rightarrow> Resolver \<Rightarrow> Platform \<Rightarrow> Platform \<Rightarrow> bool" where
  "PlatformEquals Normalize r p1 p2 =
    (let q1 = the (pl_p (Materialize Normalize r p1)); q2 = the (pl_p (Materialize Normalize r p2)) in
     sp_OS q1 = sp_OS q2 \<and> sp_Architecture q1 = sp_Architecture q2 \<and> sp_Variant q1 = sp_Variant q2)"

section \<open>Properties\<close>

text \<open>The dereferences of \<open>ToLLBPlatform\<close> and \<open>PlatformEquals\<close> are of a pointer that is set.\<close>

lemma Materialize_concrete: "\<exists>sp. pl_p (Materialize Normalize r inp) = Some sp"
  by (simp add: Materialize_def Let_def)

text \<open>
  Platform resolution is stable: materialising twice is materialising once when
  normalisation is idempotent, what a resolver parses back from the text of a special
  platform is that platform, and two platforms are equal for a resolver exactly when they
  materialise to the same concrete platform, so that a default platform equals \<open>native\<close>.
\<close>

theorem Materialize_stable:
  assumes "\<And>p. Normalize (Normalize p) = Normalize p"
  shows "Materialize Normalize r (Materialize Normalize r inp) = Materialize Normalize r inp \<and>
    (PlatformEquals Normalize r inp inq \<longleftrightarrow> Materialize Normalize r inp = Materialize Normalize r inq) \<and>
    PlatformEquals Normalize r DefaultPlatform NativePlatform \<and>
    (inp \<in> {DefaultPlatform, NativePlatform, UserPlatform} \<longrightarrow>
      ParseAllowNativeAndUser Parse Normalize (Platform_String Format inp) = Inr inp)"
  using assms
  by (auto simp: Materialize_def PlatformEquals_def Let_def DefaultPlatform_def NativePlatform_def
      UserPlatform_def ParseAllowNativeAndUser_def Platform_String_def split: option.splits)

definition ex_resolver :: Resolver where
  "ex_resolver = NewResolver \<lparr>sp_OS = ''linux'', sp_Architecture = ''amd64'', sp_Variant = []\<rparr>
     \<lparr>sp_OS = ''linux'', sp_Architecture = ''arm64'', sp_Variant = []\<rparr>"

theorem Materialize_stable_witness:
  "Materialize id ex_resolver (Materialize id ex_resolver UserPlatform) = Materialize id ex_resolver UserPlatform"
  using Materialize_stable [of id ex_resolver UserPlatform UserPlatform "\<lambda>_. Inl ()" "\<lambda>_. []"]
  by simp

end
