(* ===== verification/Git_Meta.thy ===== *)
theory Git_Meta
  imports Domain_Reference
begin

text \<open>
  Git metadata, the pure part of \<^verbatim>\<open>util/gitutil/detectgit.go\<close>: the metadata record, the
  normalisation of a remote URL, the co-authors of a commit message and the reference that
  carries the metadata. The detection functions only run the git binary and are not
  modelled.
\<close>

record GitMetadata =
  gm_CommitterTimestamp :: string
  gm_AuthorTimestamp :: string
  gm_RemoteURL :: string
  gm_GitURL :: string
  gm_Hash :: string
  gm_ShortHash :: string
  gm_ContentHash :: string
  gm_RelDir :: string
  gm_AuthorName :: string
  gm_AuthorEmail :: string
  gm_BaseDir :: string
  gm_Branch :: "string list"
  gm_Tags :: "string list"
  gm_CoAuthors :: "string list"
  gm_Refs :: "string list"
  gm_BranchOverrideTagArg :: bool

text \<open>\<open>strings.Cut\<close> and \<open>strings.SplitN(s, sep, 2)\<close> at the first place the separator occurs, and
  \<open>strings.Replace(s, a, b, 1)\<close> of one byte by another.\<close>

fun strings_Cut :: "string \<Rightarrow> string \<Rightarrow> (string \<times> string) option" where
  "strings_Cut s sep =
    (if prefix sep s then Some ([], drop (length sep) s)
     else case s of [] \<Rightarrow> None
     | c # t \<Rightarrow> map_option (\<lambda>(a, b). (c # a, b)) (strings_Cut t sep))"

declare strings_Cut.simps [simp del]

definition afterSep :: "string \<Rightarrow> string \<Rightarrow> string" where
  "afterSep s sep = (case strings_Cut s sep of None \<Rightarrow> s | Some (_, b) \<Rightarrow> b)"

fun replaceOne :: "string \<Rightarrow> char \<Rightarrow> char \<Rightarrow> string" where
  "replaceOne [] a b = []"
| "replaceOne (c # s) a b = (if c = a then b # s else c # replaceOne s a b)"

definition ParseGitRemoteURL :: "string \<Rightarrow> string" where
  "ParseGitRemoteURL gitURL =
    (let s = afterSep gitURL ''://''; s = afterSep s ''@''; s = replaceOne s (CHR '':'') (CHR ''/'')
     in TrimSuffix s ''.git'')"

text \<open>One line of the message: the email between the angle brackets of a co-author line.\<close>

definition coAuthorOf :: "string \<Rightarrow> string option" where
  "coAuthorOf line =
    (let splits = Split (TrimSpace line) ch_space; n = length splits in
     if n \<le> 2 \<or> splits ! 0 \<noteq> ''Co-authored-by:'' then None
     else let email = splits ! (n - 1); m = length email in
       if m > 2 \<and> email ! 0 = CHR ''<'' \<and> email ! (m - 1) = CHR ''>'' then Some (slice email 1 (m - 1)) else None)"

fun collectCoAuthors :: "string list \<Rightarrow> string list \<Rightarrow> string list" where
  "collectCoAuthors [] coAuthors = coAuthors"
| "collectCoAuthors (line # ls) coAuthors =
    (case coAuthorOf line of
       None \<Rightarrow> collectCoAuthors ls coAuthors
     | Some email \<Rightarrow> collectCoAuthors ls (if email \<in> set coAuthors then coAuthors else coAuthors @ [email]))"

definition ParseCoAuthorsFromBody :: "string \<Rightarrow> string list" where
  "ParseCoAuthorsFromBody body = collectCoAuthors (Split body ch_nl) []"

definition ReferenceWithGitMeta :: "Reference \<Rightarrow> GitMetadata option \<Rightarrow> Reference" where
  "ReferenceWithGitMeta ref gitMeta =
    (case gitMeta of
       None \<Rightarrow> ref
     | Some gm \<Rightarrow>
         if gm_GitURL gm = [] then ref
         else let gitURL = (if gm_RelDir gm \<noteq> [] then path_Join (gm_GitURL gm) (gm_RelDir gm) else gm_GitURL gm);
                  tag = (if GetTag ref = [] then
                           (if gm_Tags gm \<noteq> [] then gm_Tags gm ! 0
                            else if gm_Branch gm \<noteq> [] then gm_Branch gm ! 0 else gm_Hash gm)
                         else GetTag ref)
           in case ref of
             RefTarget _ \<Rightarrow> RefTarget \<lparr>t_GitURL = gitURL, t_Tag = tag, t_LocalPath = GetLocalPath ref,
               t_ImportRef = GetImportRef ref, t_Target = GetName ref\<rparr>
           | RefCommand _ \<Rightarrow> RefCommand \<lparr>c_GitURL = gitURL, c_Tag = tag, c_LocalPath = GetLocalPath ref,
               c_ImportRef = GetImportRef ref, c_Command = GetName ref\<rparr>)"

section \<open>Properties\<close>

lemma strings_Cut_SomeD: "strings_Cut s sep = Some (a, b) \<Longrightarrow> s = a @ sep @ b"
proof (induction s arbitrary: a)
  case (Cons c s)
  then show ?case by (subst (asm) strings_Cut.simps) (auto simp: prefix_def split: if_splits)
qed (auto simp: strings_Cut.simps split: if_splits)

lemma strings_Cut_none: "sep \<noteq> [] \<Longrightarrow> (\<And>a b. s \<noteq> a @ sep @ b) \<Longrightarrow> strings_Cut s sep = None"
  using strings_Cut_SomeD [of s sep] by (cases "strings_Cut s sep") auto

lemma strings_Cut_first: "c \<notin> set a \<Longrightarrow> strings_Cut (a @ (c # sep) @ b) (c # sep) = Some (a, b)"
proof (induction a)
  case (Cons x a)
  then show ?case by (subst strings_Cut.simps) simp
qed (subst strings_Cut.simps, simp)

lemma afterSep_first: "c \<notin> set a \<Longrightarrow> afterSep (a @ (c # sep) @ b) (c # sep) = b"
  using strings_Cut_first [of c a sep b] by (simp add: afterSep_def)

lemma afterSep_char_none: "c \<notin> set s \<Longrightarrow> afterSep s (c # sep) = s"
proof -
  assume "c \<notin> set s"
  then have "strings_Cut s (c # sep) = None" by (intro strings_Cut_none) auto
  then show ?thesis by (simp add: afterSep_def)
qed

lemma replaceOne_first: "a \<notin> set s \<Longrightarrow> replaceOne (s @ a # t) a b = s @ b # t"
  by (induction s) auto

lemma replaceOne_none: "a \<notin> set s \<Longrightarrow> replaceOne s a b = s"
  by (induction s) auto

lemma TrimSuffix_app: "TrimSuffix (s @ t) t = s"
  by (simp add: TrimSuffix_def suffix_def)

text \<open>The scp form has one colon only, which no \<open>//\<close> follows.\<close>

lemma scp_no_transport:
  assumes "CHR '':'' \<notin> set a" "CHR '':'' \<notin> set b" "\<not> prefix ''//'' b"
  shows "afterSep (a @ CHR '':'' # b) ''://'' = a @ CHR '':'' # b"
proof -
  have "a @ CHR '':'' # b \<noteq> x @ ''://'' @ y" for x y
  proof
    assume eq: "a @ CHR '':'' # b = x @ ''://'' @ y"
    from eq assms(1,2) have "a = x \<and> b = ''//'' @ y"
      by (auto simp: append_eq_append_conv2 append_eq_Cons_conv Cons_eq_append_conv)
    then show False using assms(3) by simp
  qed
  then have "strings_Cut (a @ CHR '':'' # b) ''://'' = None" by (intro strings_Cut_none) auto
  then show ?thesis by (simp add: afterSep_def)
qed

text \<open>
  \<open>ParseGitRemoteURL\<close> gives the same repository for the forms in which git names a remote:
  \<open>https://host/path.git\<close>, \<open>ssh://user@host/path.git\<close> and \<open>user@host:path.git\<close> all become
  \<open>host/path\<close>.
\<close>

theorem ParseGitRemoteURL_forms:
  assumes "CHR '':'' \<notin> set (user @ host @ rp)" "CHR ''@'' \<notin> set (user @ host @ rp)" "\<not> prefix ''//'' rp"
  shows "ParseGitRemoteURL (''https://'' @ host @ ''/'' @ rp @ ''.git'') = host @ ''/'' @ rp \<and>
    ParseGitRemoteURL (''ssh://'' @ user @ ''@'' @ host @ ''/'' @ rp @ ''.git'') = host @ ''/'' @ rp \<and>
    ParseGitRemoteURL (user @ ''@'' @ host @ '':'' @ rp @ ''.git'') = host @ ''/'' @ rp"
proof -
  have t: "TrimSuffix (host @ CHR ''/'' # rp @ ''.git'') ''.git'' = host @ CHR ''/'' # rp"
    using TrimSuffix_app [of "host @ CHR ''/'' # rp" "''.git''"] by simp
  have "afterSep (''https://'' @ host @ ''/'' @ rp @ ''.git'') ''://'' = host @ ''/'' @ rp @ ''.git''"
       "afterSep (''ssh://'' @ user @ ''@'' @ host @ ''/'' @ rp @ ''.git'') ''://'' =
          user @ ''@'' @ host @ ''/'' @ rp @ ''.git''"
    using afterSep_first [of "CHR '':''" "''https''" "''//''"] afterSep_first [of "CHR '':''" "''ssh''" "''//''"]
    by simp_all
  moreover have "afterSep (user @ ''@'' @ host @ '':'' @ rp @ ''.git'') ''://'' =
      user @ ''@'' @ host @ '':'' @ rp @ ''.git''"
    using scp_no_transport [of "user @ ''@'' @ host" "rp @ ''.git''"] assms by (cases rp; cases "tl rp") auto
  moreover have "afterSep (user @ ''@'' @ x) ''@'' = x" for x
    using afterSep_first [of "CHR ''@''" user "[]" x] assms by simp
  moreover have "afterSep (host @ ''/'' @ rp @ ''.git'') ''@'' = host @ ''/'' @ rp @ ''.git''"
    using assms by (intro afterSep_char_none) simp
  moreover have "replaceOne (host @ ''/'' @ rp @ ''.git'') (CHR '':'') (CHR ''/'') = host @ ''/'' @ rp @ ''.git''"
    using assms by (intro replaceOne_none) simp
  moreover have "replaceOne (host @ '':'' @ rp @ ''.git'') (CHR '':'') (CHR ''/'') = host @ ''/'' @ rp @ ''.git''"
    using replaceOne_first [of "CHR '':''" host] assms by simp
  ultimately show ?thesis using t by (simp add: ParseGitRemoteURL_def Let_def)
qed

theorem ParseGitRemoteURL_forms_witness:
  "ParseGitRemoteURL ''git@github.com:earthly/earthly.git'' = ''github.com/earthly/earthly''"
  using ParseGitRemoteURL_forms [of "''git''" "''github.com''" "''earthly/earthly''"] by simp

text \<open>The port of a URL is taken for the start of a path.\<close>

lemma ParseGitRemoteURL_port:
  "ParseGitRemoteURL ''ssh://git@example.com:2222/org/repo.git'' = ''example.com/2222/org/repo''"
  by code_simp

lemma collectCoAuthors_spec:
  "distinct cs \<Longrightarrow> distinct (collectCoAuthors ls cs) \<and>
    set (collectCoAuthors ls cs) = set cs \<union> {e. \<exists>l \<in> set ls. coAuthorOf l = Some e}"
  by (induction ls cs rule: collectCoAuthors.induct) (auto split: option.splits)

text \<open>
  \<open>ParseCoAuthorsFromBody\<close> lists the email of every co-author line of the message, each
  once.
\<close>

theorem ParseCoAuthorsFromBody_spec:
  "distinct (ParseCoAuthorsFromBody body) \<and>
   set (ParseCoAuthorsFromBody body) = {e. \<exists>l \<in> set (Split body ch_nl). coAuthorOf l = Some e}"
  using collectCoAuthors_spec [of "[]"] by (simp add: ParseCoAuthorsFromBody_def)

lemma ReferenceWithGitMeta_keeps:
  "GetName (ReferenceWithGitMeta ref gm) = GetName ref \<and> GetLocalPath (ReferenceWithGitMeta ref gm) = GetLocalPath ref \<and>
   GetImportRef (ReferenceWithGitMeta ref gm) = GetImportRef ref \<and>
   (GetTag ref \<noteq> [] \<longrightarrow> GetTag (ReferenceWithGitMeta ref gm) = GetTag ref)"
  by (auto simp: ReferenceWithGitMeta_def Let_def GetName_def GetLocalPath_def GetImportRef_def GetTag_def
      split: option.splits Reference.splits)

end
