(* ===== verification/Var_Builtin.thy ===== *)
theory Var_Builtin
  imports Var_Scope Features Platform Git_Meta Util_Text
begin

text \<open>
  The built-in arguments of a target, \<^verbatim>\<open>variables/builtin.go\<close>. \<open>ret.Add(k, v)\<close> one after the
  other is \<open>addArgs\<close> of the list of pairs; most arguments exist under the current and the
  deprecated prefix, which is \<open>both\<close>. \<open>Normalize\<close> and \<open>Format\<close> are the functions of the
  package containerd/platforms.
\<close>

record DefaultArgs =
  da_EarthVersion :: string
  da_EarthBuildSha :: string

definition addArgs :: "Scope \<Rightarrow> (string \<times> string) list \<Rightarrow> Scope" where
  "addArgs s kvs = foldl (\<lambda>s (k, v). snd (Scope_Add s k v False False)) s kvs"

definition both :: "string \<Rightarrow> string \<Rightarrow> (string \<times> string) list" where
  "both suff v = [(''EARTHLY_'' @ suff, v), (''EARTH_'' @ suff, v)]"

definition firstOrZero :: "string list \<Rightarrow> string" where
  "firstOrZero s = (if s \<noteq> [] then s ! 0 else [])"

definition SetPlatformArgs ::
  "(SpecsPlatform \<Rightarrow> SpecsPlatform) \<Rightarrow> (SpecsPlatform \<Rightarrow> string) \<Rightarrow> Scope \<Rightarrow> Resolver \<Rightarrow> Scope" where
  "SetPlatformArgs Normalize Format s platr =
    (let platform = Materialize Normalize platr (rs_currentPlatform platr);
         llbPlatform = ToLLBPlatform Normalize platr platform
     in addArgs s [(''TARGETPLATFORM'', Platform_String Format platform), (''TARGETOS'', sp_OS llbPlatform),
          (''TARGETARCH'', sp_Architecture llbPlatform), (''TARGETVARIANT'', sp_Variant llbPlatform)])"

definition setUserPlatformArgs :: "(SpecsPlatform \<Rightarrow> string) \<Rightarrow> Scope \<Rightarrow> Resolver \<Rightarrow> Scope" where
  "setUserPlatformArgs Format s platr =
    (let platform = rs_userPlatform platr
     in addArgs s [(''USERPLATFORM'', Format platform), (''USEROS'', sp_OS platform),
          (''USERARCH'', sp_Architecture platform), (''USERVARIANT'', sp_Variant platform)])"

definition setNativePlatformArgs :: "(SpecsPlatform \<Rightarrow> string) \<Rightarrow> Scope \<Rightarrow> Resolver \<Rightarrow> Scope" where
  "setNativePlatformArgs Format s platr =
    (let platform = rs_nativePlatform platr
     in addArgs s [(''NATIVEPLATFORM'', Format platform), (''NATIVEOS'', sp_OS platform),
          (''NATIVEARCH'', sp_Architecture platform), (''NATIVEVARIANT'', sp_Variant platform)])"

definition SetLocally :: "Scope \<Rightarrow> bool \<Rightarrow> Scope" where
  "SetLocally s locally = addArgs s (both ''LOCALLY'' (FormatBool locally))"

definition getProjectName :: "string \<Rightarrow> string" where
  "getProjectName s0 =
    (let (protocol, s) = (case strings_Cut s0 ''://'' of None \<Rightarrow> (''unknown'', s0) | Some (a, b) \<Rightarrow> (a, b));
         s = afterSep s ''@'';
         s = (if protocol = ''unknown'' then replaceOne s (CHR '':'') (CHR ''/'') else s);
         s = TrimSuffix s ''.git''
     in afterSep s ''/'')"

definition setTargetTag :: "Scope \<Rightarrow> Target_ref \<Rightarrow> GitMetadata option \<Rightarrow> Scope" where
  "setTargetTag ret target gitMeta =
    (let tag = (case gitMeta of
        Some gm \<Rightarrow> if gm_BranchOverrideTagArg gm \<and> gm_Branch gm \<noteq> [] then gm_Branch gm ! 0 else t_Tag target
      | None \<Rightarrow> t_Tag target)
     in addArgs ret (both ''TARGET_TAG'' tag @ both ''TARGET_TAG_DOCKER'' (DockerTagSafe tag)))"

text \<open>The arguments that come from git, once there is metadata.\<close>

definition gitArgs :: "GitMetadata \<Rightarrow> Features \<Rightarrow> (string \<times> string) list" where
  "gitArgs gm ftrs =
    both ''GIT_HASH'' (gm_Hash gm) @ both ''GIT_SHORT_HASH'' (gm_ShortHash gm) @
    [(''EARTH_GIT_CONTENT_HASH'', gm_ContentHash gm)] @
    both ''GIT_BRANCH'' (firstOrZero (gm_Branch gm)) @ both ''GIT_TAG'' (firstOrZero (gm_Tags gm)) @
    both ''GIT_ORIGIN_URL'' (gm_RemoteURL gm) @
    both ''GIT_ORIGIN_URL_SCRUBBED'' (ScrubCredentials (gm_RemoteURL gm)) @
    both ''GIT_PROJECT_NAME'' (getProjectName (gm_RemoteURL gm)) @
    both ''GIT_COMMIT_TIMESTAMP'' (gm_CommitterTimestamp gm) @
    (if fe_on ftrs ''git-commit-author-timestamp''
     then both ''GIT_COMMIT_AUTHOR_TIMESTAMP'' (gm_AuthorTimestamp gm) else []) @
    both ''SOURCE_DATE_EPOCH'' (max (gm_CommitterTimestamp gm) ''0'') @
    (if fe_on ftrs ''earthly-git-author-args''
     then both ''GIT_AUTHOR'' (gm_AuthorEmail gm) @ both ''GIT_CO_AUTHORS'' (Join (gm_CoAuthors gm) '' '') else []) @
    (if fe_on ftrs ''git-author-email-name-args''
     then (if gm_AuthorName gm \<noteq> [] \<and> gm_AuthorEmail gm \<noteq> []
           then both ''GIT_AUTHOR'' (gm_AuthorName gm @ '' <'' @ gm_AuthorEmail gm @ ''>'') else []) @
          both ''GIT_AUTHOR_EMAIL'' (gm_AuthorEmail gm) @ both ''GIT_AUTHOR_NAME'' (gm_AuthorName gm) else []) @
    (if fe_on ftrs ''git-refs'' then both ''GIT_REFS'' (Join (gm_Refs gm) '' '') else [])"

definition BuiltinArgs ::
  "(SpecsPlatform \<Rightarrow> SpecsPlatform) \<Rightarrow> (SpecsPlatform \<Rightarrow> string) \<Rightarrow> Target_ref \<Rightarrow> Resolver option \<Rightarrow>
   GitMetadata option \<Rightarrow> DefaultArgs \<Rightarrow> Features \<Rightarrow> bool \<Rightarrow> bool \<Rightarrow> Scope" where
  "BuiltinArgs Normalize Format target platr gitMeta defaultArgs ftrs push ci =
    (let ret = addArgs NewScope
           (both ''TARGET'' (referenceStringCanonical (RefTarget target)) @
            both ''TARGET_PROJECT'' (referenceProjectCanonical (RefTarget target)) @
            both ''TARGET_PROJECT_NO_TAG'' (referenceProjectCanonical (RefTarget (target\<lparr>t_Tag := []\<rparr>))) @
            both ''TARGET_NAME'' (t_Target target));
         ret = setTargetTag ret target gitMeta;
         ret = (case platr of
             None \<Rightarrow> ret
           | Some r \<Rightarrow>
               let ret = setUserPlatformArgs Format (SetPlatformArgs Normalize Format ret r) r
               in if fe_on ftrs ''new-platform'' then setNativePlatformArgs Format ret r else ret);
         ret = (if fe_on ftrs ''wait-block'' then addArgs ret (both ''PUSH'' (FormatBool push)) else ret);
         ret = (if fe_on ftrs ''earthly-version-arg''
                then addArgs ret (both ''VERSION'' (da_EarthVersion defaultArgs) @
                                  both ''BUILD_SHA'' (da_EarthBuildSha defaultArgs)) else ret);
         ret = (if fe_on ftrs ''ci-arg'' then addArgs ret (both ''CI'' (FormatBool ci)) else ret);
         ret = (if fe_on ftrs ''earthly-locally-arg'' then SetLocally ret False else ret);
         ret = (if fe_on ftrs ''earthly-ci-runner-arg''
                then addArgs ret (both ''CI_RUNNER'' (FormatBool False)) else ret)
     in case gitMeta of
          None \<Rightarrow> addArgs ret (both ''SOURCE_DATE_EPOCH'' ''0'')
        | Some gm \<Rightarrow> addArgs ret (gitArgs gm ftrs))"

section \<open>Properties\<close>

text \<open>A scope of built-in arguments: nothing is active, every name is reserved and the
  deprecated name of an argument has the value of the current one.\<close>

definition builtin_inv :: "Scope \<Rightarrow> bool" where
  "builtin_inv s \<longleftrightarrow> scope_wf s \<and> s_activeVariables s = [] \<and> list_all IsBuiltIn (map fst (s_variables s)) \<and>
    list_all (\<lambda>suff. map_of (s_variables s) (''EARTHLY_'' @ suff) = map_of (s_variables s) (''EARTH_'' @ suff))
      earth_suffixes"

lemma addArgs_simps:
  "addArgs s [] = s"
  "addArgs s ((k, v) # kvs) = addArgs (snd (Scope_Add s k v False False)) kvs"
  "addArgs s (xs @ ys) = addArgs (addArgs s xs) ys"
  by (simp_all add: addArgs_def)

lemma IsBuiltIn_both: "suff \<in> set earth_suffixes \<Longrightarrow> IsBuiltIn (''EARTHLY_'' @ suff) \<and> IsBuiltIn (''EARTH_'' @ suff)"
  by (simp add: IsBuiltIn_def reserved_args_def)

lemma keys_add: "list_all P (map fst (s_variables s)) \<Longrightarrow> P k \<Longrightarrow>
    list_all P (map fst (s_variables (snd (Scope_Add s k v False False))))"
  using fst_update [of k v "s_variables s"] by (auto simp: Scope_Add_def list_all_iff)

lemma vars_add: "map_of (s_variables (snd (Scope_Add s k v False False))) = (map_of (s_variables s))(k \<mapsto> v)"
  "s_activeVariables (snd (Scope_Add s k v False False)) = s_activeVariables s"
  by (simp_all add: Scope_Add_def update_conv')

lemma builtin_inv_both [keeps_intros]:
  assumes "builtin_inv s" "suff \<in> set earth_suffixes"
  shows "builtin_inv (addArgs s (both suff v))"
  using assms IsBuiltIn_both [OF assms(2)]
  by (auto simp: builtin_inv_def both_def addArgs_simps vars_add list_all_iff [of _ earth_suffixes]
      intro: scope_wf_Add keys_add)

lemma builtin_inv_plain:
  assumes "builtin_inv s" "IsBuiltIn k" "\<not> prefix ''EARTH'' k \<or> k = ''EARTH_GIT_CONTENT_HASH''"
  shows "builtin_inv (addArgs s [(k, v)])"
proof -
  have "''EARTHLY_'' @ suff \<noteq> k \<and> ''EARTH_'' @ suff \<noteq> k" if "suff \<in> set earth_suffixes" for suff
    using assms(3) that by (auto simp: earth_suffixes_def)
  then show ?thesis using assms
    by (auto simp: builtin_inv_def addArgs_simps vars_add list_all_iff [of _ earth_suffixes]
        intro: scope_wf_Add keys_add)
qed

lemma builtin_inv_new [intro]: "builtin_inv NewScope"
  by (auto simp: builtin_inv_def NewScope_def scope_wf_def list_all_iff)

lemma builtin_inv_platform:
  assumes "builtin_inv s" "p \<in> {''TARGET'', ''USER'', ''NATIVE''}"
  shows "builtin_inv (addArgs s [(p @ ''PLATFORM'', a), (p @ ''OS'', b), (p @ ''ARCH'', c), (p @ ''VARIANT'', d)])"
proof -
  have one: "builtin_inv (addArgs t [(p @ x, v)])"
    if "builtin_inv t" "x \<in> {''PLATFORM'', ''OS'', ''ARCH'', ''VARIANT''}" for t x v
    by (rule builtin_inv_plain) (use that assms(2) in \<open>auto simp: IsBuiltIn_def reserved_args_def\<close>)
  show ?thesis
    using one [OF one [OF one [OF one [OF assms(1)]]], of "''PLATFORM''" "''OS''" "''ARCH''" "''VARIANT''" a b c d]
    by (simp add: addArgs_simps)
qed

lemma builtin_inv_SetPlatformArgs [keeps_intros]:
  "builtin_inv s \<Longrightarrow> builtin_inv (SetPlatformArgs Normalize Format s r)"
  "builtin_inv s \<Longrightarrow> builtin_inv (setUserPlatformArgs Format s r)"
  "builtin_inv s \<Longrightarrow> builtin_inv (setNativePlatformArgs Format s r)"
  using builtin_inv_platform [of s "''TARGET''"] builtin_inv_platform [of s "''USER''"]
    builtin_inv_platform [of s "''NATIVE''"]
  by (simp_all add: SetPlatformArgs_def setUserPlatformArgs_def setNativePlatformArgs_def Let_def)

lemma builtin_inv_SetLocally [keeps_intros]: "builtin_inv s \<Longrightarrow> builtin_inv (SetLocally s l)"
  by (auto simp: SetLocally_def earth_suffixes_def intro: builtin_inv_both)

lemma builtin_inv_content_hash: "builtin_inv s \<Longrightarrow> builtin_inv (addArgs s [(''EARTH_GIT_CONTENT_HASH'', v)])"
  by (rule builtin_inv_plain) (simp_all add: IsBuiltIn_def reserved_args_def)

definition args_ok :: "(string \<times> string) list \<Rightarrow> bool" where
  "args_ok kvs \<longleftrightarrow> (\<forall>s. builtin_inv s \<longrightarrow> builtin_inv (addArgs s kvs))"

lemma args_okI:
  "args_ok []"
  "suff \<in> set earth_suffixes \<Longrightarrow> args_ok (both suff v)"
  "args_ok [(''EARTH_GIT_CONTENT_HASH'', v)]"
  "args_ok xs \<Longrightarrow> args_ok ys \<Longrightarrow> args_ok (xs @ ys)"
  "args_ok xs \<Longrightarrow> args_ok ys \<Longrightarrow> args_ok (if b then xs else ys)"
  using builtin_inv_both builtin_inv_content_hash by (auto simp: args_ok_def addArgs_simps)

lemma builtin_inv_args: "builtin_inv s \<Longrightarrow> args_ok kvs \<Longrightarrow> builtin_inv (addArgs s kvs)"
  by (simp add: args_ok_def)

lemma builtin_inv_if: "builtin_inv s \<Longrightarrow> builtin_inv t \<Longrightarrow> builtin_inv (if b then s else t)"
  by simp

lemma builtin_inv_let: "builtin_inv s \<Longrightarrow> (\<And>x. builtin_inv x \<Longrightarrow> builtin_inv (f x)) \<Longrightarrow> builtin_inv (let x = s in f x)"
  by simp

lemma builtin_inv_option:
  "builtin_inv s \<Longrightarrow> (\<And>x. builtin_inv (f x)) \<Longrightarrow> builtin_inv (case x of None \<Rightarrow> s | Some x \<Rightarrow> f x)"
  by (cases x) auto

lemmas builtin_rules = builtin_inv_let builtin_inv_option builtin_inv_if builtin_inv_args args_okI

lemma suffixes_mem:
  "list_all (\<lambda>x. x \<in> set earth_suffixes) [''TARGET'', ''TARGET_PROJECT'', ''TARGET_PROJECT_NO_TAG'', ''TARGET_NAME'',
    ''TARGET_TAG'', ''TARGET_TAG_DOCKER'', ''PUSH'', ''VERSION'', ''BUILD_SHA'', ''CI'', ''CI_RUNNER'',
    ''SOURCE_DATE_EPOCH'', ''GIT_HASH'', ''GIT_SHORT_HASH'', ''GIT_BRANCH'', ''GIT_TAG'', ''GIT_ORIGIN_URL'',
    ''GIT_ORIGIN_URL_SCRUBBED'', ''GIT_PROJECT_NAME'', ''GIT_COMMIT_TIMESTAMP'', ''GIT_COMMIT_AUTHOR_TIMESTAMP'',
    ''GIT_AUTHOR'', ''GIT_CO_AUTHORS'', ''GIT_AUTHOR_EMAIL'', ''GIT_AUTHOR_NAME'', ''GIT_REFS'']"
  by (simp add: earth_suffixes_def)

lemma builtin_inv_setTargetTag [keeps_intros]: "builtin_inv s \<Longrightarrow> builtin_inv (setTargetTag s target gm)"
  unfolding setTargetTag_def Let_def using suffixes_mem by (intro builtin_rules) simp_all

lemma args_ok_gitArgs: "args_ok (gitArgs gm ftrs)"
  unfolding gitArgs_def using suffixes_mem by (intro builtin_rules) simp_all

lemma builtin_inv_BuiltinArgs:
  "builtin_inv (BuiltinArgs Normalize Format target platr gitMeta defaultArgs ftrs push ci)"
  unfolding BuiltinArgs_def using suffixes_mem
  by (intro builtin_rules args_ok_gitArgs keeps_intros builtin_inv_new) simp_all

lemma builtin_inv_Get:
  assumes "builtin_inv s"
  shows "Scope_Get s k True = None"
    and "Scope_Get s k False \<noteq> None \<Longrightarrow> IsBuiltIn k"
    and "suff \<in> set earth_suffixes \<Longrightarrow> Scope_Get s (''EARTHLY_'' @ suff) b = Scope_Get s (''EARTH_'' @ suff) b"
proof -
  show "Scope_Get s k True = None"
    using assms by (simp add: builtin_inv_def Scope_Get_def isActive_def split: option.split)
  show "IsBuiltIn k" if "Scope_Get s k False \<noteq> None"
    using assms that by (force simp: builtin_inv_def Scope_Get_def list_all_iff dest: map_of_SomeD split: option.splits)
  show "Scope_Get s (''EARTHLY_'' @ suff) b = Scope_Get s (''EARTH_'' @ suff) b" if "suff \<in> set earth_suffixes"
    using assms that by (simp add: builtin_inv_def Scope_Get_def isActive_def list_all_iff split: option.split)
qed

lemma DeprecatedBuiltin_suffix:
  "DeprecatedBuiltin name = Some r \<longleftrightarrow>
    (\<exists>suff \<in> set earth_suffixes. name = ''EARTHLY_'' @ suff \<and> r = ''EARTH_'' @ suff)"
proof
  assume "DeprecatedBuiltin name = Some r"
  from DeprecatedBuiltin_SomeD [OF this] show "\<exists>suff \<in> set earth_suffixes. name = ''EARTHLY_'' @ suff \<and> r = ''EARTH_'' @ suff"
    by (auto simp: IsBuiltIn_def reserved_args_def)
next
  assume "\<exists>suff \<in> set earth_suffixes. name = ''EARTHLY_'' @ suff \<and> r = ''EARTH_'' @ suff"
  then show "DeprecatedBuiltin name = Some r" using IsBuiltIn_both by (auto simp: DeprecatedBuiltin_def Let_def)
qed

text \<open>
  The built-in scope of a target, whatever the features and the metadata: nothing in it is
  active, every name in it is reserved, and a deprecated \<open>EARTHLY_\<close> name always has the value
  of the \<open>EARTH_\<close> name that \<open>DeprecatedBuiltin\<close> reports as its replacement.
\<close>

theorem BuiltinArgs_spec:
  fixes Normalize Format target platr gitMeta defaultArgs ftrs push ci
  defines "s \<equiv> BuiltinArgs Normalize Format target platr gitMeta defaultArgs ftrs push ci"
  shows "Scope_Get s k True = None \<and> (IsBuiltIn k \<or> Scope_Get s k False = None) \<and>
    (case DeprecatedBuiltin k of Some r \<Rightarrow> Scope_Get s k b = Scope_Get s r b | None \<Rightarrow> True)"
proof -
  have inv: "builtin_inv s" unfolding s_def by (rule builtin_inv_BuiltinArgs)
  have "case DeprecatedBuiltin k of Some r \<Rightarrow> Scope_Get s k b = Scope_Get s r b | None \<Rightarrow> True"
    using builtin_inv_Get(3) [OF inv] by (auto simp: DeprecatedBuiltin_suffix split: option.split)
  then show ?thesis using builtin_inv_Get(1,2) [OF inv, of k] by blast
qed

end
