(* ===== verification/Domain_Correct.thy ===== *)
theory Domain_Correct
  imports Domain_Reference
begin

text \<open>
  References round-trip through their text, and joining them is well-behaved. The splitter
  reads runes; on valid UTF-8 it is a splitter of bytes (\<open>splitPlusLoop_bytes\<close>), and the
  rest is about bytes. \<open>round_trip\<close> is the interface of a printer and a parser, which
  targets and commands provide.
\<close>

locale round_trip =
  fixes print :: "'a \<Rightarrow> string"
    and parse :: "string \<Rightarrow> 'e + 'a"
    and ok :: "'a \<Rightarrow> bool"
  assumes parse_print: "ok x \<Longrightarrow> parse (print x) = Inr x"
begin

lemma print_inj: "ok x \<Longrightarrow> ok y \<Longrightarrow> print x = print y \<Longrightarrow> x = y"
  by (metis parse_print sum.inject(2))

lemma parse_onto: "ok x \<Longrightarrow> \<exists>s. parse s = Inr x"
  using parse_print by blast

lemma reparse: "parse s = Inr x \<Longrightarrow> ok x \<Longrightarrow> parse (print x) = parse s"
  using parse_print by simp

end

section \<open>Splitting bytes\<close>

definition valid_utf8 :: "string \<Rightarrow> bool" where
  "valid_utf8 s \<longleftrightarrow> list_all (\<lambda>x. \<not> (fst x = RuneError \<and> length (snd x) = 1)) (runes s)"

abbreviation byte_chunks :: "string \<Rightarrow> (rune \<times> string) list" where
  "byte_chunks s \<equiv> map (\<lambda>c. (of_char c, [c])) s"

lemma of_char_eq_int: "(of_char c :: int) = of_char d \<longleftrightarrow> c = d"
  by (metis of_char_eq_iff of_nat_of_char of_nat_eq_iff)

lemma byte_not_error: "(of_char c :: int) \<noteq> RuneError"
proof -
  have "(of_char c :: nat) < 256" by simp
  then have "(of_char c :: int) < 256" by (metis of_nat_less_iff of_nat_numeral of_nat_of_char)
  then show ?thesis by (simp add: RuneError_def)
qed

lemma decode_multi_bytes:
  assumes "DecodeRuneInString (c # t) = (r, w)" "\<not> (of_char c :: int) < 128" "\<not> (r = RuneError \<and> w = 1)"
  shows "\<forall>b \<in> set (take w (c # t)). 128 \<le> (of_char b :: int)"
  using assms
  by (auto simp: DecodeRuneInString_def Let_def is_cont_def split: list.splits if_splits)

lemma of_char_CHR: "(of_char c :: int) = 0xEF \<Longrightarrow> c = CHR 0xEF" "(of_char c :: int) = 0xBF \<Longrightarrow> c = CHR 0xBF"
  "(of_char c :: int) = 0xBD \<Longrightarrow> c = CHR 0xBD"
  using of_char_eq_int [of c "CHR 0xEF"] of_char_eq_int [of c "CHR 0xBF"] of_char_eq_int [of c "CHR 0xBD"]
  by simp_all

lemma error_digits:
  assumes "b0 * 4096 + (b1 * 64 + b2) = (991357 :: int)" "128 \<le> b1" "b1 \<le> 191" "128 \<le> b2" "b2 \<le> 191"
  shows "b0 = 0xEF \<and> b1 = 0xBF \<and> b2 = 0xBD"
proof -
  have "239 \<le> b0" "b0 \<le> 239" using assms by linarith+
  then have b0: "b0 = 239" by simp
  have "191 \<le> b1" using assms b0 by linarith
  with assms(3) have b1: "b1 = 191" by simp
  then have "b2 = 189" using assms(1) b0 by simp
  then show ?thesis using b0 b1 by simp
qed

lemma decode_error_bytes:
  assumes "DecodeRuneInString (c # t) = (RuneError, w)" "w \<noteq> 1"
  shows "take w (c # t) = [CHR 0xEF, CHR 0xBF, CHR 0xBD]"
  using assms byte_not_error [of c]
  by (auto simp: DecodeRuneInString_def Let_def is_cont_def RuneError_def
      split: list.splits if_splits dest!: error_digits dest: of_char_CHR)

lemma splitPlusLoop_word:
  assumes "bs \<noteq> []" "\<forall>b \<in> set bs. b \<noteq> CHR ''+'' \<and> b \<noteq> ch_bslash"
  shows "splitPlusLoop (byte_chunks bs @ cs) escape word ret =
    splitPlusLoop cs False (word @ (if escape then [ch_bslash] else []) @ bs) ret"
proof -
  have plain: "splitPlusLoop (byte_chunks xs @ cs) False v ret = splitPlusLoop cs False (v @ xs) ret"
    if "\<forall>b \<in> set xs. b \<noteq> CHR ''+'' \<and> b \<noteq> ch_bslash" for xs v
    using that by (induction xs arbitrary: v)
      (auto simp: of_char_eq_int rune_bytes_def byte_not_error simp del: of_char_Char)
  obtain b xs where bs: "bs = b # xs" using assms(1) by (cases bs) auto
  then show ?thesis using assms(2) plain
    by (auto simp: of_char_eq_int rune_bytes_def byte_not_error simp del: of_char_Char)
qed

lemma splitPlusLoop_bytes:
  "valid_utf8 s \<Longrightarrow> splitPlusLoop (runes s @ cs) escape word ret = splitPlusLoop (byte_chunks s @ cs) escape word ret"
proof (induction s arbitrary: escape word ret rule: runes.induct)
  case (1 s)
  show ?case
  proof (cases s)
    case Nil
    then show ?thesis by (simp add: runes.simps)
  next
    case (Cons c t)
    obtain r w where d: "DecodeRuneInString s = (r, w)" by fastforce
    have r: "runes s = (r, take w s) # runes (drop w s)" using Cons d by (subst runes.simps) simp
    have w: "1 \<le> w" "w \<le> length s" using DecodeRune_width [of s] d Cons by auto
    have v: "valid_utf8 (drop w s)" "\<not> (r = RuneError \<and> w = 1)"
      using "1.prems" w by (auto simp: valid_utf8_def r)
    note ih = "1.IH" [OF _ d [symmetric] refl v(1)]
    have s: "byte_chunks s = byte_chunks (take w s) @ byte_chunks (drop w s)"
      by (metis append_take_drop_id map_append)
    show ?thesis
    proof (cases "(of_char c :: int) < 128")
      case True
      then have "r = of_char c" "w = 1" using d Cons by (simp_all add: DecodeRune_ascii)
      then show ?thesis using Cons r ih by simp
    next
      case False
      have b: "\<forall>b \<in> set (take w s). 128 \<le> (of_char b :: int)"
        using decode_multi_bytes [OF _ False v(2)] d Cons by simp
      then have nb: "\<forall>b \<in> set (take w s). b \<noteq> CHR ''+'' \<and> b \<noteq> ch_bslash" by fastforce
      have rb: "rune_bytes (r, take w s) = take w s"
        using decode_error_bytes [of c t w] d Cons v(2) by (auto simp: rune_bytes_def)
      have "128 \<le> r" using DecodeRune_nonascii [OF False, of t] d Cons by simp
      then have "splitPlusLoop ((r, take w s) # runes (drop w s) @ cs) escape word ret =
        splitPlusLoop (runes (drop w s) @ cs) False (word @ (if escape then [ch_bslash] else []) @ take w s) ret"
        using rb by simp
      then show ?thesis
        using splitPlusLoop_word [OF _ nb, of "byte_chunks (drop w s) @ cs"] w Cons ih r s by simp
    qed
  qed
qed

section \<open>Escaping\<close>

text \<open>A text whose backslashes come in pairs with a byte other than a plus sign: the texts
  that escaping and splitting give back.\<close>

fun plus_safe :: "string \<Rightarrow> bool" where
  "plus_safe [] = True"
| "plus_safe [c] = (c \<noteq> ch_bslash)"
| "plus_safe (c # d # s) = (if c = ch_bslash then d \<noteq> CHR ''+'' \<and> plus_safe s else plus_safe (d # s))"

lemma plus_safe_no_backslash: "ch_bslash \<notin> set s \<Longrightarrow> plus_safe s"
  by (induction s rule: plus_safe.induct) auto

lemma escapePlus_simps [simp]:
  "escapePlus [] = []" "escapePlus (c # s) = (if c = CHR ''+'' then [ch_bslash, c] else [c]) @ escapePlus s"
  by (simp_all add: escapePlus_def)

lemma splitPlusLoop_escaped:
  "plus_safe s \<Longrightarrow> splitPlusLoop (byte_chunks (escapePlus s) @ cs) False word ret = splitPlusLoop cs False (word @ s) ret"
  by (induction s arbitrary: word rule: plus_safe.induct)
    (auto simp: of_char_eq_int rune_bytes_def byte_not_error simp del: of_char_Char)

lemma splitUnescapePlus_chunks:
  assumes "valid_utf8 str"
  shows "splitUnescapePlus str =
    (case splitPlusLoop (byte_chunks str) False [] [] of None \<Rightarrow> Inl (UnterminatedEscape str) | Some ret \<Rightarrow> Inr ret)"
  using splitPlusLoop_bytes [OF assms, of "[]"] by (simp add: splitUnescapePlus_def)

text \<open>Words made of safe parts, joined by bytes that need no escape.\<close>

lemma splitUnescapePlus_word:
  assumes "valid_utf8 (escapePlus s @ ''+'' @ name)" "plus_safe s" "name \<noteq> []"
    and "set name \<inter> {CHR ''+'', ch_bslash} = {}"
  shows "splitUnescapePlus (escapePlus s @ ''+'' @ name) = Inr [s, name]"
proof -
  have "splitPlusLoop (byte_chunks (escapePlus s @ ''+'' @ name)) False [] [] =
      splitPlusLoop (byte_chunks name @ []) False [] [s]"
    using splitPlusLoop_escaped [OF assms(2), of "byte_chunks (''+'' @ name)" "[]" "[]"] by simp
  also have "\<dots> = Some [s, name]"
    using splitPlusLoop_word [OF assms(3), of "[]" False "[]" "[s]"] assms(3,4) by auto
  finally show ?thesis by (simp only: splitUnescapePlus_chunks [OF assms(1)] option.case)
qed

lemma escapePlus_append: "escapePlus (a @ b) = escapePlus a @ escapePlus b"
  by (simp add: escapePlus_def)

lemma plus_safe_append: "plus_safe a \<Longrightarrow> plus_safe b \<Longrightarrow> plus_safe (a @ b)"
proof (induction a rule: plus_safe.induct)
  case (2 c)
  then show ?case by (cases b) auto
qed auto

section \<open>Round trips\<close>

abbreviation local_word :: "string \<Rightarrow> bool" where
  "local_word p \<equiv> prefix ''.'' p \<or> prefix ''~/'' p \<or> path_IsAbs p"

text \<open>The parts a parsed reference has: of the local file, of another directory in normal
  form, of a repository, or of an import that is not resolved yet.\<close>

definition parts_wf :: "string \<Rightarrow> string \<Rightarrow> string \<Rightarrow> string \<Rightarrow> bool" where
  "parts_wf gitURL tag localPath importRef \<longleftrightarrow>
    plus_safe gitURL \<and> plus_safe tag \<and> plus_safe localPath \<and> plus_safe importRef \<and>
    (if importRef \<noteq> [] then
       gitURL = [] \<and> tag = [] \<and> localPath = [] \<and> \<not> local_word importRef \<and> \<not> ContainsAny importRef ''/:''
     else if localPath = ''.'' then gitURL = [] \<and> tag = []
     else if localPath \<noteq> [] then
       gitURL = [] \<and> tag = [] \<and> local_word localPath \<and> \<not> prefix ''~/'' localPath \<and> localPart [] localPath = localPath
     else
       gitURL \<noteq> [] \<and> \<not> local_word gitURL \<and> CHR '':'' \<notin> set gitURL \<and> (tag \<noteq> [] \<or> ch_slash \<in> set gitURL))"

definition ref_wf :: "Reference \<Rightarrow> bool" where
  "ref_wf r \<longleftrightarrow>
    parts_wf (GetGitURL r) (GetTag r) (GetLocalPath r) (GetImportRef r) \<and>
    GetName r \<noteq> [] \<and> set (GetName r) \<inter> {CHR ''+'', ch_bslash} = {} \<and> valid_utf8 (referenceString r)"

lemma prefix_word: "a \<noteq> [] \<Longrightarrow> \<not> local_word a \<Longrightarrow> \<not> local_word (a @ CHR '':'' # b)"
  by (cases a; cases "tl a") (auto simp: path_IsAbs_def prefix_Cons)

lemma parseCommon_word:
  assumes "valid_utf8 (escapePlus w @ ''+'' @ name)" "plus_safe w" "name \<noteq> []"
    "set name \<inter> {CHR ''+'', ch_bslash} = {}"
  shows "parseCommon home (escapePlus w @ ''+'' @ name) =
    (if w = [] then Inr ([], [], ''.'', [], name)
     else if local_word w then Inr ([], [], localPart home w, [], name)
     else if ContainsAny w ''/:'' then
       let partsColon = SplitN2 w (CHR '':'') in
       Inr (partsColon ! 0, if length partsColon = 2 then partsColon ! 1 else [], [], [], name)
     else Inr ([], [], [], w, name))"
  using splitUnescapePlus_word [OF assms] by (simp add: parseCommon_def)

lemma localPart_home: "\<not> prefix ''~/'' p \<Longrightarrow> localPart home p = localPart [] p"
  by (simp add: localPart_def)

lemma parseCommon_String:
  assumes "ref_wf r"
  shows "parseCommon home (referenceString r) =
    Inr (GetGitURL r, GetTag r, GetLocalPath r, GetImportRef r, GetName r)"
proof -
  note wf = assms [unfolded ref_wf_def parts_wf_def]
  consider (import) "IsImportReference r" | (int) "\<not> IsImportReference r" "GetLocalPath r = ''.''"
    | (ext) "\<not> IsImportReference r" "IsLocalExternal r" | (remote) "\<not> IsImportReference r" "GetLocalPath r = []"
    by (auto simp: ref_kinds)
  then show ?thesis
  proof cases
    case import
    then have s: "referenceString r = escapePlus (GetImportRef r) @ ''+'' @ GetName r" by (simp add: referenceString_def)
    show ?thesis using parseCommon_word [of "GetImportRef r" "GetName r" home] wf import s
      by (auto simp: ref_kinds)
  next
    case int
    then have s: "referenceString r = escapePlus [] @ ''+'' @ GetName r"
      by (simp add: referenceString_def ref_kinds)
    show ?thesis using parseCommon_word [of "[]" "GetName r" home] wf int s by (auto simp: ref_kinds)
  next
    case ext
    then have s: "referenceString r = escapePlus (GetLocalPath r) @ ''+'' @ GetName r"
      by (simp add: referenceString_def)
    show ?thesis using parseCommon_word [of "GetLocalPath r" "GetName r" home] wf ext s
      by (auto simp: ref_kinds localPart_home)
  next
    case remote
    let ?g = "GetGitURL r" and ?t = "GetTag r"
    let ?w = "?g @ (if ?t \<noteq> [] then CHR '':'' # ?t else [])"
    have g: "?g \<noteq> []" "\<not> local_word ?g" "CHR '':'' \<notin> set ?g" "plus_safe ?g" "plus_safe ?t" "?t \<noteq> [] \<or> ch_slash \<in> set ?g"
      using wf remote by (auto simp: ref_kinds)
    have s: "referenceString r = escapePlus ?w @ ''+'' @ GetName r"
      using remote g(1) by (simp add: referenceString_def ref_kinds remote_string_def escapePlus_append)
    have "plus_safe ?w"
      using g(4,5) plus_safe_append [of ?g "'':'' @ ?t"] plus_safe_append [of "'':''" ?t] by simp
    moreover have "SplitN2 ?w (CHR '':'') = (if ?t \<noteq> [] then [?g, ?t] else [?g])"
      using g(3) by (simp add: SplitN2_append SplitN2_none)
    moreover have "ContainsAny ?w ''/:''" using g(6) by (auto simp: ContainsAny_iff)
    moreover have "\<not> local_word ?w" using g(1,2) prefix_word by simp
    ultimately show ?thesis
      using parseCommon_word [of ?w "GetName r" home] wf remote s g(1) by (auto simp: ref_kinds)
  qed
qed

lemma name_char: "\<not> lower c" "\<not> upper c" "\<not> digit c" if "c \<in> {CHR ''+'', ch_bslash}"
  using that by (auto simp: lower_def upper_def digit_def)

lemma name_chars:
  assumes "s \<noteq> []" "lower (hd s) \<or> upper (hd s)"
    and "\<forall>c \<in> set (tl s). lower c \<or> upper c \<or> digit c \<or> c \<in> {CHR ''.'', CHR ''-'', CHR ''_''}"
  shows "s \<noteq> [] \<and> set s \<inter> {CHR ''+'', ch_bslash} = {}"
proof -
  have "set s = insert (hd s) (set (tl s))" using assms(1) by (cases s) auto
  moreover have "hd s \<notin> {CHR ''+'', ch_bslash}" using assms(2) name_char [of "hd s"] by blast
  moreover have "c \<notin> {CHR ''+'', ch_bslash}" if "c \<in> set (tl s)" for c
    using bspec [OF assms(3) that] name_char [of c] by auto
  ultimately have "c \<notin> {CHR ''+'', ch_bslash}" if "c \<in> set s" for c
    using that by (metis insertE)
  then show ?thesis using assms(1) by (auto simp only: disjoint_iff)
qed

lemma name_no_plus:
  "targetNameRegex s \<Longrightarrow> s \<noteq> [] \<and> set s \<inter> {CHR ''+'', ch_bslash} = {}"
  "commandNameRegex s \<Longrightarrow> s \<noteq> [] \<and> set s \<inter> {CHR ''+'', ch_bslash} = {}"
  by (rule name_chars; auto simp: targetNameRegex_def commandNameRegex_def list_all_iff)+

definition target_ref_ok :: "Target_ref \<Rightarrow> bool" where
  "target_ref_ok t \<longleftrightarrow> ref_wf (RefTarget t) \<and> targetNameRegex (t_Target t)"

definition command_ref_ok :: "Command_ref \<Rightarrow> bool" where
  "command_ref_ok c \<longleftrightarrow> ref_wf (RefCommand c) \<and> commandNameRegex (c_Command c)"

interpretation target_text: round_trip "\<lambda>t. referenceString (RefTarget t)" "ParseTarget home" target_ref_ok for home
  by unfold_locales
    (use parseCommon_String in \<open>simp add: target_ref_ok_def ParseTarget_def ref_getters\<close>)

interpretation command_text: round_trip "\<lambda>c. referenceString (RefCommand c)" "ParseCommand home" command_ref_ok for home
  by unfold_locales
    (use parseCommon_String in \<open>simp add: command_ref_ok_def ParseCommand_def ref_getters\<close>)



text \<open>
  The same for command references.
\<close>

theorem ParseCommand_String:
  assumes "command_ref_ok c"
  shows "ParseCommand home (referenceString (RefCommand c)) = Inr c"
  by (rule command_text.parse_print [OF assms])

theorem ParseCommand_String_witness:
  "(let c = \<lparr>c_GitURL = [], c_Tag = [], c_LocalPath = ''./a+b'', c_ImportRef = [], c_Command = ''DO_IT''\<rparr> in
    ParseCommand ''/root'' (referenceString (RefCommand c)) = Inr c)"
  unfolding Let_def by (rule ParseCommand_String) code_simp

section \<open>The kinds of a reference\<close>

lemma localPart_nonempty: "p \<noteq> [] \<Longrightarrow> localPart home p \<noteq> []"
  by (simp add: localPart_def Let_def)

lemma parseCommon_Inr:
  assumes "parseCommon home s = Inr (g, tg, lp, im, nm)"
  shows "lp \<noteq> [] \<and> g = [] \<and> im = [] \<or> lp = [] \<and> im = [] \<or> lp = [] \<and> g = [] \<and> im \<noteq> []"
  using assms localPart_nonempty
  by (auto simp: parseCommon_def rbind_eq_Inr_iff Let_def split: if_splits)

text \<open>
  A parsed target reference is of exactly one kind: in the same file, in another
  directory, in a repository, or through an import, unless all its places are empty.
\<close>

theorem ParseTarget_one_kind:
  assumes "ParseTarget home s = Inr t"
  shows "length (filter (\<lambda>is. is (RefTarget t))
      [IsLocalInternal, IsLocalExternal, IsRemote, IsUnresolvedImportReference]) =
    (if t_GitURL t = [] \<and> t_LocalPath t = [] \<and> t_ImportRef t = [] then 0 else 1)"
proof -
  obtain nm where "parseCommon home s = Inr (t_GitURL t, t_Tag t, t_LocalPath t, t_ImportRef t, nm)"
    using assms by (auto simp: ParseTarget_def rbind_eq_Inr_iff split: if_splits)
  from parseCommon_Inr [OF this] show ?thesis by (auto simp: ref_kinds ref_getters)
qed

theorem ParseTarget_one_kind_witness:
  "(let t = \<lparr>t_GitURL = [], t_Tag = [], t_LocalPath = ''./a'', t_ImportRef = [], t_Target = ''b''\<rparr> in
    length (filter (\<lambda>is. is (RefTarget t))
      [IsLocalInternal, IsLocalExternal, IsRemote, IsUnresolvedImportReference]) =
    (if t_GitURL t = [] \<and> t_LocalPath t = [] \<and> t_ImportRef t = [] then 0 else 1))"
proof -
  have "ParseTarget [] ''./a+b'' =
    Inr \<lparr>t_GitURL = [], t_Tag = [], t_LocalPath = ''./a'', t_ImportRef = [], t_Target = ''b''\<rparr>" by code_simp
  then show ?thesis unfolding Let_def by (rule ParseTarget_one_kind)
qed

text \<open>
  A reference that is only a tag, such as \<open>:v1+build\<close>, is accepted and is of no kind:
  it has a tag but no repository, and it prints as the local target \<open>+build\<close>.
\<close>

theorem ParseTarget_only_tag:
  "(let t = \<lparr>t_GitURL = [], t_Tag = ''v1'', t_LocalPath = [], t_ImportRef = [], t_Target = ''build''\<rparr> in
    ParseTarget home '':v1+build'' = Inr t \<and> referenceString (RefTarget t) = ''+build'' \<and>
    \<not> IsLocalInternal (RefTarget t) \<and> \<not> IsExternal (RefTarget t))"
proof -
  have "splitUnescapePlus '':v1+build'' = Inr ['':v1'', ''build'']" by code_simp
  moreover have "targetNameRegex ''build''" by code_simp
  ultimately show ?thesis
    by (simp add: Let_def ParseTarget_def parseCommon_def path_IsAbs_def ContainsAny_def SplitN2_def
        referenceString_def IsExternal_def ref_kinds ref_getters)
qed

section \<open>Joining references\<close>

lemma same_type_getters [simp]:
  "GetGitURL (same_type r g t l) = g" "GetTag (same_type r g t l) = t" "GetLocalPath (same_type r g t l) = l"
  "GetImportRef (same_type r g t l) = GetImportRef r" "GetName (same_type r g t l) = GetName r"
  "same_type (same_type r g' t' l') g t l = same_type r g t l"
  by (cases r; simp add: same_type_def ref_getters)+

lemma path_Join_ne [simp]: "a \<noteq> [] \<Longrightarrow> path_Join a b \<noteq> []"
  by (simp add: path_Join_nonempty)

text \<open>
  A relative reference inside a remote Earthfile stays in that repository at that tag,
  and keeps its own name, import and type.
\<close>

theorem JoinReferences_remote:
  assumes "JoinReferences r1 r2 = Inr r" "IsRemote r1" "IsLocalInternal r2 \<or> IsLocalExternal r2"
  shows "IsRemote r \<and> GetTag r = GetTag r1 \<and> GetName r = GetName r2 \<and> GetImportRef r = GetImportRef r2 \<and>
    (\<exists>g t l. r = same_type r2 g t l)"
  using assms by (auto simp: JoinReferences_def IsRemote_def IsLocalInternal_def IsLocalExternal_def split: if_splits)

theorem JoinReferences_remote_witness:
  "(let r1 = RefTarget \<lparr>t_GitURL = ''github.com/a/b'', t_Tag = ''v1'', t_LocalPath = [], t_ImportRef = [], t_Target = ''x''\<rparr>;
        r2 = RefTarget \<lparr>t_GitURL = [], t_Tag = [], t_LocalPath = ''./c'', t_ImportRef = [], t_Target = ''y''\<rparr>;
        r = RefTarget \<lparr>t_GitURL = ''github.com/a/b/c'', t_Tag = ''v1'', t_LocalPath = [], t_ImportRef = [], t_Target = ''y''\<rparr> in
    IsRemote r \<and> GetTag r = GetTag r1 \<and> GetName r = GetName r2 \<and> GetImportRef r = GetImportRef r2 \<and>
    (\<exists>g t l. r = same_type r2 g t l))"
  unfolding Let_def by (rule JoinReferences_remote; code_simp)

text \<open>The place of a reference in normal form.\<close>

definition clean_place :: "Reference \<Rightarrow> bool" where
  "clean_place r \<longleftrightarrow>
    IsRemote r \<and> path_Clean (GetGitURL r) = GetGitURL r \<or>
    GetLocalPath r \<noteq> [] \<and> dot_slash (path_Clean (GetLocalPath r)) = GetLocalPath r"

definition relative_local :: "Reference \<Rightarrow> bool" where
  "relative_local r \<longleftrightarrow> GetLocalPath r \<noteq> [] \<and> \<not> path_IsAbs (GetLocalPath r)"

lemma path_Join_dot_clean: "a \<noteq> [] \<Longrightarrow> path_Join a ''.'' = path_Clean a"
  by (simp add: path_Join_nonempty)
    (rule path_Clean_cong, simp_all add: Split_append path_step_def)

lemma join_into_remote:
  assumes "IsRemote r1" "path_Clean (GetGitURL r1) = GetGitURL r1" "relative_local r2"
  shows "JoinReferences r1 r2 = Inr (same_type r2 (path_Join (GetGitURL r1) (GetLocalPath r2)) (GetTag r1) [])"
  using assms by (auto simp: JoinReferences_def ref_kinds relative_local_def path_Join_dot_clean)

lemma join_into_local:
  assumes "GetLocalPath r1 \<noteq> []" "dot_slash (path_Clean (GetLocalPath r1)) = GetLocalPath r1" "relative_local r2"
  shows "JoinReferences r1 r2 =
    Inr (same_type r2 (GetGitURL r2) (GetTag r2) (dot_slash (path_Join (GetLocalPath r1) (GetLocalPath r2))))"
  using assms by (auto simp: JoinReferences_def ref_kinds relative_local_def path_Join_dot_clean)

lemma dot_slash_cases: "dot_slash p = p \<or> dot_slash p = ''./'' @ p \<and> \<not> path_IsAbs p"
  by (auto simp: dot_slash_def path_IsAbs_def) (metis hd_Cons_tl prefix_Cons Nil_prefix)

lemma dot_slash_props [simp]:
  "p \<noteq> [] \<Longrightarrow> dot_slash p \<noteq> []" "p \<noteq> [] \<Longrightarrow> path_IsAbs (dot_slash p) = path_IsAbs p"
  "p \<noteq> [] \<Longrightarrow> path_Join (dot_slash p) c = path_Join p c" "a \<noteq> [] \<Longrightarrow> path_Join a (dot_slash p) = path_Join a p"
  "p \<noteq> [] \<Longrightarrow> path_Clean (dot_slash p) = path_Clean p"
proof -
  show "a \<noteq> [] \<Longrightarrow> path_Join a (dot_slash p) = path_Join a p"
    using dot_slash_cases [of p] path_Join_dot_right by auto
  assume p: "p \<noteq> []"
  show "dot_slash p \<noteq> []" "path_Join (dot_slash p) c = path_Join p c" "path_Clean (dot_slash p) = path_Clean p"
    using dot_slash_cases [of p] p path_Join_dot_prefix [of p c] path_Clean_dot [of p] by auto
  show "path_IsAbs (dot_slash p) = path_IsAbs p"
    using dot_slash_cases [of p] p by (auto simp: path_IsAbs_def)
qed

lemma path_IsAbs_Join [simp]: "a \<noteq> [] \<Longrightarrow> path_IsAbs (path_Join a b) = path_IsAbs a"
  by (simp add: path_Join_nonempty)

lemma path_Clean_Join [simp]: "path_Clean (path_Join a b) = path_Join a b" if "a \<noteq> []"
  using that by (simp add: path_Join_nonempty)

lemma path_Join_clean_right:
  assumes "a \<noteq> []" "b \<noteq> []" "\<not> path_IsAbs b"
  shows "path_Join a (path_Clean b) = path_Join a b"
  using path_Join_assoc [OF assms, of "''.''"] assms by (simp add: path_Join_dot_clean)

lemma join_relative:
  assumes "relative_local r2" "relative_local r3"
  obtains q where "JoinReferences r2 r3 = Inr (same_type r3 (GetGitURL r3) (GetTag r3) q)"
    "q \<noteq> []" "\<not> path_IsAbs q" "\<And>a. a \<noteq> [] \<Longrightarrow> path_Join a q = path_Join a (path_Join (GetLocalPath r2) (GetLocalPath r3))"
proof (cases "GetLocalPath r3 = ''.''")
  case True
  then show thesis using assms that [of "GetLocalPath r2"]
    by (simp add: JoinReferences_def ref_kinds relative_local_def path_Join_dot_clean path_Join_clean_right)
next
  case False
  then show thesis using assms that [of "dot_slash (path_Join (GetLocalPath r2) (GetLocalPath r3))"]
    by (simp add: JoinReferences_def ref_kinds relative_local_def)
qed

text \<open>
  Resolving references is associative: for two relative local references, joining them
  first and then resolving them from a place in normal form, local or remote, is resolving
  one after the other.
\<close>

theorem JoinReferences_assoc:
  assumes "clean_place r1" "relative_local r2" "relative_local r3"
  shows "rbind (JoinReferences r1 r2) (\<lambda>r12. JoinReferences r12 r3) =
    rbind (JoinReferences r2 r3) (\<lambda>r23. JoinReferences r1 r23)"
proof -
  have l2: "GetLocalPath r2 \<noteq> []" "\<not> path_IsAbs (GetLocalPath r2)" using assms(2) by (simp_all add: relative_local_def)
  obtain q where q: "JoinReferences r2 r3 = Inr (same_type r3 (GetGitURL r3) (GetTag r3) q)"
    "q \<noteq> []" "\<not> path_IsAbs q" "\<And>a. a \<noteq> [] \<Longrightarrow> path_Join a q = path_Join a (path_Join (GetLocalPath r2) (GetLocalPath r3))"
    using join_relative [OF assms(2,3)] by blast
  have r23: "relative_local (same_type r3 (GetGitURL r3) (GetTag r3) q)" using q(2,3) by (simp add: relative_local_def)
  from assms(1) consider "IsRemote r1" "path_Clean (GetGitURL r1) = GetGitURL r1"
    | "GetLocalPath r1 \<noteq> []" "dot_slash (path_Clean (GetLocalPath r1)) = GetLocalPath r1"
    unfolding clean_place_def by blast
  then show ?thesis
  proof cases
    case 1
    then have g: "GetGitURL r1 \<noteq> []" by (simp add: IsRemote_def)
    let ?r12 = "same_type r2 (path_Join (GetGitURL r1) (GetLocalPath r2)) (GetTag r1) []"
    have "IsRemote ?r12" "path_Clean (GetGitURL ?r12) = GetGitURL ?r12" using g by (simp_all add: ref_kinds)
    note j = join_into_remote [OF this assms(3)]
    show ?thesis using join_into_remote [OF 1 assms(2)] join_into_remote [OF 1 r23] j q g l2
      by (simp add: path_Join_assoc)
  next
    case 2
    let ?r12 = "same_type r2 (GetGitURL r2) (GetTag r2) (dot_slash (path_Join (GetLocalPath r1) (GetLocalPath r2)))"
    have "GetLocalPath ?r12 \<noteq> []" "dot_slash (path_Clean (GetLocalPath ?r12)) = GetLocalPath ?r12"
      using 2 by simp_all
    note j = join_into_local [OF this assms(3)]
    show ?thesis using join_into_local [OF 2 assms(2)] join_into_local [OF 2 r23] j q 2 l2
      by (simp add: path_Join_assoc)
  qed
qed

theorem JoinReferences_assoc_witness:
  "(let r1 = RefTarget \<lparr>t_GitURL = ''github.com/a/b'', t_Tag = ''v1'', t_LocalPath = [], t_ImportRef = [], t_Target = ''x''\<rparr>;
        r2 = RefTarget \<lparr>t_GitURL = [], t_Tag = [], t_LocalPath = ''../c'', t_ImportRef = [], t_Target = ''y''\<rparr>;
        r3 = RefCommand \<lparr>c_GitURL = [], c_Tag = [], c_LocalPath = ''./d'', c_ImportRef = [], c_Command = ''Z''\<rparr> in
    rbind (JoinReferences r1 r2) (\<lambda>r12. JoinReferences r12 r3) =
    rbind (JoinReferences r2 r3) (\<lambda>r23. JoinReferences r1 r23))"
  unfolding Let_def by (rule JoinReferences_assoc; code_simp)

end
