(* ===== verification/Domain_Imports.thy ===== *)
theory Domain_Imports
  imports Domain_Correct
begin

text \<open>
  The import tracker of an Earthfile, \<^verbatim>\<open>domain/importtracker.go\<close>. The two Go maps are
  HOL maps; \<open>maps.Copy\<close> into a fresh map gives an equal map. The messages printed to the
  console logger are collected in \<open>ir_log\<close>. \<open>Add\<close> returns the tracker it leaves behind and the
  error, \<open>None\<close> for success.
\<close>

record ImportTrackerVal =
  iv_fullPath :: string
  iv_allowPrivileged :: bool

record ImportTracker =
  ir_local :: "string \<rightharpoonup> ImportTrackerVal"
  ir_global :: "string \<rightharpoonup> ImportTrackerVal"
  ir_log :: "string list"

definition NewImportTracker :: "string list \<Rightarrow> (string \<rightharpoonup> ImportTrackerVal) \<Rightarrow> ImportTracker" where
  "NewImportTracker log global = \<lparr>ir_local = Map.empty, ir_global = global, ir_log = log\<rparr>"

definition SetGlobal :: "ImportTracker \<Rightarrow> (string \<rightharpoonup> ImportTrackerVal) \<Rightarrow> ImportTracker" where
  "SetGlobal ir gi = ir\<lparr>ir_global := gi\<rparr>"

abbreviation no_effect_msg :: string where
  "no_effect_msg \<equiv> ''the --allow-privileged flag has no effect when referencing a local target'' @ [ch_nl]"

text \<open>The last part of \<open>Add\<close>: the name of the import and its entry.\<close>

definition addEntry ::
  "ImportTracker \<Rightarrow> string \<Rightarrow> string \<Rightarrow> string \<Rightarrow> bool \<Rightarrow> bool \<Rightarrow> ImportTracker \<times> ref_error option" where
  "addEntry ir importStr path as global allowPrivileged =
    (let pathParts = Split path ch_slash; defaultAs = pathParts ! (length pathParts - 1) in
     if defaultAs = [] then (ir, Some (ImportNotSupported importStr))
     else if (defaultAs = ''.'' \<or> defaultAs = ''..'') \<and> as = [] then (ir, Some ImportRequiresAs)
     else
       let as' = (if as \<noteq> [] then as else defaultAs);
           v = \<lparr>iv_fullPath = importStr, iv_allowPrivileged = allowPrivileged\<rparr> in
       if ContainsAny as' ''/:'' then (ir, Some (InvalidImportAs as'))
       else if global then
         if ir_global ir as' \<noteq> None then (ir, Some (ImportExists as'))
         else (ir\<lparr>ir_global := (ir_global ir)(as' \<mapsto> v)\<rparr>, None)
       else if ir_local ir as' \<noteq> None then (ir, Some (ImportExists as'))
       else (ir\<lparr>ir_local := (ir_local ir)(as' \<mapsto> v)\<rparr>, None))"

definition Import_Add ::
  "string \<Rightarrow> ImportTracker \<Rightarrow> string \<Rightarrow> string \<Rightarrow> bool \<Rightarrow> bool \<Rightarrow> bool \<Rightarrow> ImportTracker \<times> ref_error option" where
  "Import_Add home ir importStr as global currentlyPrivileged allowPrivilegedFlag =
    (if importStr = [] then (ir, Some ImportEmpty)
     else
       (case ParseTarget home (importStr @ ''+none'') of
          Inl err \<Rightarrow> (ir, Some (ImportUnparsed importStr err))
        | Inr parsedImport \<Rightarrow>
            let r = RefTarget parsedImport; canonical = referenceProjectCanonical r in
            if IsImportReference r then (ir, Some (ImportNotSupported canonical))
            else if IsRemote r then
              addEntry ir canonical (GetGitURL r) as global (currentlyPrivileged \<and> allowPrivilegedFlag)
            else if IsLocalExternal r then
              addEntry (if allowPrivilegedFlag then ir\<lparr>ir_log := ir_log ir @ [no_effect_msg]\<rparr> else ir)
                canonical (GetLocalPath r) as global currentlyPrivileged
            else (ir, Some (ImportNotSupported canonical))))"

definition lookupImport :: "ImportTracker \<Rightarrow> string \<Rightarrow> ImportTrackerVal option" where
  "lookupImport ir k = (case ir_local ir k of Some v \<Rightarrow> Some v | None \<Rightarrow> ir_global ir k)"

definition Deref :: "string \<Rightarrow> ImportTracker \<Rightarrow> Reference \<Rightarrow> ref_error + (Reference \<times> bool \<times> bool)" where
  "Deref home ir ref =
    (if \<not> IsImportReference ref then Inr (ref, False, False)
     else
       (case lookupImport ir (GetImportRef ref) of
          None \<Rightarrow> Inl (ImportUnresolved (GetImportRef ref))
        | Some resolvedImport \<Rightarrow>
            let resolvedRefStr = iv_fullPath resolvedImport @ ''+'' @ GetName ref in
            rbind
              (case ref of
                 RefTarget _ \<Rightarrow> rbind (ParseTarget home resolvedRefStr) (\<lambda>ref2.
                   Inr (RefTarget \<lparr>t_GitURL = t_GitURL ref2, t_Tag = t_Tag ref2, t_LocalPath = t_LocalPath ref2,
                     t_ImportRef = GetImportRef ref, t_Target = t_Target ref2\<rparr>))
               | RefCommand _ \<Rightarrow> rbind (ParseCommand home resolvedRefStr) (\<lambda>ref2.
                   Inr (RefCommand \<lparr>c_GitURL = c_GitURL ref2, c_Tag = c_Tag ref2, c_LocalPath = c_LocalPath ref2,
                     c_ImportRef = GetImportRef ref, c_Command = c_Command ref2\<rparr>)))
              (\<lambda>resolvedRef. Inr (resolvedRef, iv_allowPrivileged resolvedImport, True))))"

section \<open>Adding keeps what is there\<close>

lemma addEntry_frame:
  assumes "addEntry ir importStr path as global priv = (ir', err)"
  shows "ir_local ir \<subseteq>\<^sub>m ir_local ir'" "ir_global ir \<subseteq>\<^sub>m ir_global ir'" "err \<noteq> None \<Longrightarrow> ir' = ir"
    "global \<Longrightarrow> ir_local ir' = ir_local ir" "\<not> global \<Longrightarrow> ir_global ir' = ir_global ir"
  using assms by (auto simp: addEntry_def Let_def map_le_def split: if_splits)

lemma Import_Add_frame:
  assumes "Import_Add home ir importStr as global cur flag = (ir', err)"
  shows "ir_local ir \<subseteq>\<^sub>m ir_local ir'" "ir_global ir \<subseteq>\<^sub>m ir_global ir'"
    "err \<noteq> None \<Longrightarrow> ir_local ir' = ir_local ir \<and> ir_global ir' = ir_global ir"
    "global \<Longrightarrow> ir_local ir' = ir_local ir" "\<not> global \<Longrightarrow> ir_global ir' = ir_global ir"
proof -
  consider "ir' = ir" "err \<noteq> None"
    | log s p priv where "addEntry (ir\<lparr>ir_log := log\<rparr>) s p as global priv = (ir', err)"
    using assms
    by (auto simp: Import_Add_def Let_def split: if_splits sum.splits)
      (metis ImportTracker.surjective ImportTracker.update_convs(3))+
  then have "ir_local ir \<subseteq>\<^sub>m ir_local ir' \<and> ir_global ir \<subseteq>\<^sub>m ir_global ir' \<and>
    (err \<noteq> None \<longrightarrow> ir_local ir' = ir_local ir \<and> ir_global ir' = ir_global ir) \<and>
    (global \<longrightarrow> ir_local ir' = ir_local ir) \<and> (\<not> global \<longrightarrow> ir_global ir' = ir_global ir)"
  proof cases
    case 2
    then show ?thesis using addEntry_frame [OF 2] by auto
  qed simp
  then show "ir_local ir \<subseteq>\<^sub>m ir_local ir'" "ir_global ir \<subseteq>\<^sub>m ir_global ir'"
    "err \<noteq> None \<Longrightarrow> ir_local ir' = ir_local ir \<and> ir_global ir' = ir_global ir"
    "global \<Longrightarrow> ir_local ir' = ir_local ir" "\<not> global \<Longrightarrow> ir_global ir' = ir_global ir"
    by blast+
qed

text \<open>
  Adding an import never changes an import that is there, changes only the map it was
  asked to change, and changes neither map when it fails.
\<close>

theorem Import_Add_keeps:
  assumes "Import_Add home ir importStr as global cur flag = (ir', err)"
  shows "ir_local ir \<subseteq>\<^sub>m ir_local ir' \<and> ir_global ir \<subseteq>\<^sub>m ir_global ir' \<and>
    (err \<noteq> None \<longrightarrow> ir_local ir' = ir_local ir \<and> ir_global ir' = ir_global ir) \<and>
    (if global then ir_local ir' = ir_local ir else ir_global ir' = ir_global ir)"
  using Import_Add_frame [OF assms] by auto

theorem Import_Add_keeps_witness:
  "(let ir = NewImportTracker [] Map.empty;
        ir' = ir\<lparr>ir_local := [''lib'' \<mapsto> \<lparr>iv_fullPath = ''./lib'', iv_allowPrivileged = True\<rparr>]\<rparr> in
    ir_local ir \<subseteq>\<^sub>m ir_local ir' \<and> ir_global ir \<subseteq>\<^sub>m ir_global ir' \<and>
    (None \<noteq> (None :: ref_error option) \<longrightarrow> ir_local ir' = ir_local ir \<and> ir_global ir' = ir_global ir) \<and>
    (if False then ir_local ir' = ir_local ir else ir_global ir' = ir_global ir))"
proof -
  have "ParseTarget [] (''./lib'' @ ''+none'') =
      Inr \<lparr>t_GitURL = [], t_Tag = [], t_LocalPath = ''./lib'', t_ImportRef = [], t_Target = ''none''\<rparr>"
    by code_simp
  then have "Import_Add [] (NewImportTracker [] Map.empty) ''./lib'' [] False True False =
    ((NewImportTracker [] Map.empty)\<lparr>ir_local := [''lib'' \<mapsto> \<lparr>iv_fullPath = ''./lib'', iv_allowPrivileged = True\<rparr>]\<rparr>, None)"
    by (simp add: Import_Add_def addEntry_def NewImportTracker_def ref_kinds ref_getters
        referenceProjectCanonical_def ContainsAny_def)
  from Import_Add_keeps [OF this] show ?thesis unfolding Let_def .
qed

section \<open>What an import resolves to\<close>

lemma addEntry_success:
  assumes "addEntry ir importStr path as global priv = (ir', None)"
  obtains k where "as \<noteq> [] \<Longrightarrow> k = as"
    "(if global then ir_global ir else ir_local ir) k = None"
    "(if global then ir_global ir' else ir_local ir') k =
       Some \<lparr>iv_fullPath = importStr, iv_allowPrivileged = priv\<rparr>"
proof (rule that [of "if as \<noteq> [] then as else Split path ch_slash ! (length (Split path ch_slash) - 1)"])
qed (use assms in \<open>auto simp: addEntry_def Let_def split: if_splits\<close>)

lemma Import_Add_success:
  assumes "Import_Add home ir importStr as global cur flag = (ir', None)"
  obtains p k where "ParseTarget home (importStr @ ''+none'') = Inr p" "\<not> IsImportReference (RefTarget p)"
    "IsRemote (RefTarget p) \<or> IsLocalExternal (RefTarget p)" "as \<noteq> [] \<Longrightarrow> k = as"
    "(if global then ir_global ir else ir_local ir) k = None"
    "(if global then ir_global ir' else ir_local ir') k =
       Some \<lparr>iv_fullPath = referenceProjectCanonical (RefTarget p),
             iv_allowPrivileged = (cur \<and> (IsRemote (RefTarget p) \<longrightarrow> flag))\<rparr>"
proof -
  obtain p where p: "ParseTarget home (importStr @ ''+none'') = Inr p"
    using assms by (auto simp: Import_Add_def split: if_splits sum.splits)
  let ?c = "referenceProjectCanonical (RefTarget p)"
  consider (remote) "IsRemote (RefTarget p)"
      "addEntry ir ?c (GetGitURL (RefTarget p)) as global (cur \<and> flag) = (ir', None)"
    | (local) log where "IsLocalExternal (RefTarget p)" "\<not> IsRemote (RefTarget p)"
      "addEntry (ir\<lparr>ir_log := log\<rparr>) ?c (GetLocalPath (RefTarget p)) as global cur = (ir', None)"
    using assms p
    by (auto simp: Import_Add_def Let_def split: if_splits)
      (metis ImportTracker.surjective ImportTracker.update_convs(3))
  moreover have "\<not> IsImportReference (RefTarget p)" using assms p by (auto simp: Import_Add_def Let_def split: if_splits)
  ultimately show thesis
  proof cases
    case remote
    from remote(2) show thesis
      by (rule addEntry_success) (rule that [OF p], use remote \<open>\<not> IsImportReference (RefTarget p)\<close> in auto)
  next
    case local
    from local(3) show thesis
      by (rule addEntry_success) (rule that [OF p], use local \<open>\<not> IsImportReference (RefTarget p)\<close> in auto)
  qed
qed

text \<open>
  An import is never more privileged than its importer: the entry that a successful
  \<open>Add\<close> makes allows privileged operations only if the importer may use them, and, for a
  remote import, only if the flag of the import says so too.
\<close>

theorem Import_Add_privilege:
  assumes "Import_Add home ir importStr as global cur flag = (ir', None)"
  shows "\<exists>p k v. ParseTarget home (importStr @ ''+none'') = Inr p \<and>
    (if global then ir_global ir else ir_local ir) k = None \<and>
    (if global then ir_global ir' else ir_local ir') k = Some v \<and>
    (iv_allowPrivileged v \<longleftrightarrow> cur \<and> (IsRemote (RefTarget p) \<longrightarrow> flag))"
  using assms by (rule Import_Add_success) auto

lemma sample_import:
  "Import_Add [] (NewImportTracker [] Map.empty) ''./lib'' ''l'' False True False =
    ((NewImportTracker [] Map.empty)\<lparr>ir_local := [''l'' \<mapsto> \<lparr>iv_fullPath = ''./lib'', iv_allowPrivileged = True\<rparr>]\<rparr>, None)"
  "ParseTarget [] (''./lib'' @ ''+none'') =
    Inr \<lparr>t_GitURL = [], t_Tag = [], t_LocalPath = ''./lib'', t_ImportRef = [], t_Target = ''none''\<rparr>"
proof -
  show p: "ParseTarget [] (''./lib'' @ ''+none'') =
      Inr \<lparr>t_GitURL = [], t_Tag = [], t_LocalPath = ''./lib'', t_ImportRef = [], t_Target = ''none''\<rparr>"
    by code_simp
  then show "Import_Add [] (NewImportTracker [] Map.empty) ''./lib'' ''l'' False True False =
    ((NewImportTracker [] Map.empty)\<lparr>ir_local := [''l'' \<mapsto> \<lparr>iv_fullPath = ''./lib'', iv_allowPrivileged = True\<rparr>]\<rparr>, None)"
    by (simp add: Import_Add_def addEntry_def NewImportTracker_def ref_kinds ref_getters
        referenceProjectCanonical_def ContainsAny_def)
qed

theorem Import_Add_privilege_witness:
  "(let ir = NewImportTracker [] Map.empty;
        ir' = ir\<lparr>ir_local := [''l'' \<mapsto> \<lparr>iv_fullPath = ''./lib'', iv_allowPrivileged = True\<rparr>]\<rparr> in
    \<exists>p k v. ParseTarget [] (''./lib'' @ ''+none'') = Inr p \<and>
      (if False then ir_global ir else ir_local ir) k = None \<and>
      (if False then ir_global ir' else ir_local ir') k = Some v \<and>
      (iv_allowPrivileged v \<longleftrightarrow> True \<and> (IsRemote (RefTarget p) \<longrightarrow> False)))"
  unfolding Let_def by (rule Import_Add_privilege [OF sample_import(1)])

lemma canonical_string:
  assumes "target_ref_ok (p\<lparr>t_Target := n\<rparr>)" "\<not> IsImportReference (RefTarget p)"
    "IsRemote (RefTarget p) \<or> IsLocalExternal (RefTarget p)"
  shows "referenceProjectCanonical (RefTarget p) @ ''+'' @ n = referenceString (RefTarget (p\<lparr>t_Target := n\<rparr>))"
  using assms
  by (auto simp: referenceProjectCanonical_def referenceString_def target_ref_ok_def ref_wf_def parts_wf_def
      ref_kinds ref_getters remote_string_def split: if_splits)

text \<open>
  An import resolves: after a successful \<open>Add\<close> under a name, a reference through that
  name becomes the imported place with the target of the reference, with the privileges
  recorded, when no local import shadows a global one.
\<close>

theorem Deref_after_Add:
  assumes "Import_Add home ir importStr as global cur flag = (ir', None)" "as \<noteq> []"
    and "global \<Longrightarrow> ir_local ir as = None"
    and "ParseTarget home (importStr @ ''+none'') = Inr p" "target_ref_ok (p\<lparr>t_Target := n\<rparr>)"
  shows "Deref home ir' (RefTarget \<lparr>t_GitURL = [], t_Tag = [], t_LocalPath = [], t_ImportRef = as, t_Target = n\<rparr>) =
    Inr (RefTarget (p\<lparr>t_Target := n, t_ImportRef := as\<rparr>), cur \<and> (IsRemote (RefTarget p) \<longrightarrow> flag), True)"
proof -
  obtain q k where q: "ParseTarget home (importStr @ ''+none'') = Inr q" "\<not> IsImportReference (RefTarget q)"
    "IsRemote (RefTarget q) \<or> IsLocalExternal (RefTarget q)" "as \<noteq> [] \<Longrightarrow> k = as"
    "(if global then ir_global ir' else ir_local ir') k =
       Some \<lparr>iv_fullPath = referenceProjectCanonical (RefTarget q),
             iv_allowPrivileged = (cur \<and> (IsRemote (RefTarget q) \<longrightarrow> flag))\<rparr>"
    using assms(1) by (rule Import_Add_success) blast
  have [simp]: "q = p" "k = as" using q(1,4) assms(2,4) by simp_all
  have l: "lookupImport ir' as = Some \<lparr>iv_fullPath = referenceProjectCanonical (RefTarget p),
             iv_allowPrivileged = (cur \<and> (IsRemote (RefTarget p) \<longrightarrow> flag))\<rparr>"
    using q(5) assms(3) Import_Add_frame(4) [OF assms(1)] by (cases global) (auto simp: lookupImport_def)
  have "ParseTarget home (referenceProjectCanonical (RefTarget p) @ ''+'' @ n) = Inr (p\<lparr>t_Target := n\<rparr>)"
    using canonical_string [OF assms(5)] q(2,3) target_text.parse_print [OF assms(5)] by simp
  then show ?thesis using l assms(2) by (simp add: Deref_def ref_kinds ref_getters)
qed

theorem Deref_after_Add_witness:
  "Deref [] ((NewImportTracker [] Map.empty)\<lparr>ir_local := [''l'' \<mapsto> \<lparr>iv_fullPath = ''./lib'', iv_allowPrivileged = True\<rparr>]\<rparr>)
      (RefTarget \<lparr>t_GitURL = [], t_Tag = [], t_LocalPath = [], t_ImportRef = ''l'', t_Target = ''t''\<rparr>) =
    Inr (RefTarget (\<lparr>t_GitURL = [], t_Tag = [], t_LocalPath = ''./lib'', t_ImportRef = [], t_Target = ''none''\<rparr>
        \<lparr>t_Target := ''t'', t_ImportRef := ''l''\<rparr>),
      True \<and> (IsRemote (RefTarget \<lparr>t_GitURL = [], t_Tag = [], t_LocalPath = ''./lib'', t_ImportRef = [],
        t_Target = ''none''\<rparr>) \<longrightarrow> False), True)"
  by (rule Deref_after_Add [OF sample_import(1) _ _ sample_import(2)]) (simp, simp, code_simp)

end
