(* ===== verification/Var_Collection.thy ===== *)
theory Var_Collection
  imports Var_Builtin Domain_Imports "HOL-Library.Monad_Syntax"
begin

text \<open>
  Variable collections, \<^verbatim>\<open>variables/collection.go\<close>, with \<open>parseArgValue\<close> of \<^verbatim>\<open>variables/parse.go\<close>.
  A collection holds the scopes of the stack of frames of a target and a cache of their
  combination. An operation that may panic (an access to the top frame of an empty stack)
  gives \<open>None\<close>; an error of Go is \<open>Inl\<close>, returned beside the state, which keeps what was
  written before the error. Scopes are values: the callers hand over scopes they have just
  built or cloned.
\<close>

datatype var_error =
    ErrRedeclared string
  | ErrGlobalRedeclared string
  | ErrVarNotFound string
  | ErrSetArg string
  | ErrLetFeature
  | ErrShellOutFeature
  | ErrNonConstant string
  | ErrParseSet var_error
  | ErrInvalidBuildArg string
  | ErrBuiltinOnCommandLine string
  | ErrEnvNotSet string
  | ErrBuiltinValue string
  | ErrNotInferred string
  | ErrParseBuildArg string var_error

text \<open>\<open>ProcessNonConstantVariableFunc\<close>, \<open>None\<close> for nil.\<close>

type_synonym pncvf = "(string \<Rightarrow> string \<Rightarrow> var_error + (string \<times> int)) option"

definition parseArgValue :: "string \<Rightarrow> string \<Rightarrow> pncvf \<Rightarrow> var_error + string" where
  "parseArgValue name val pncvf =
    (case pncvf of
       None \<Rightarrow> Inr val
     | Some f \<Rightarrow>
         if prefix ''$('' val
         then (case f name val of Inl e \<Rightarrow> Inl e | Inr (v, _) \<Rightarrow> Inr v)
         else Inr val)"

section \<open>State\<close>

record stackFrame =
  sf_absRef :: Reference
  sf_imports :: ImportTracker
  sf_overriding :: Scope
  sf_args :: Scope
  sf_globals :: Scope
  sf_vars :: Scope
  sf_frameName :: string

record Collection =
  co_builtin :: Scope
  co_envs :: Scope
  co_effectiveCache :: "Scope option"
  co_log :: "string list"
  co_project :: string
  co_org :: string
  co_stack :: "stackFrame list"
  co_errorOnRedeclare :: bool
  co_shelloutAnywhere :: bool

record NewCollectionOpt =
  no_PlatformResolver :: "Resolver option"
  no_GitMeta :: "GitMetadata option"
  no_OverridingVars :: "Scope option"
  no_Features :: Features
  no_GlobalImports :: "string \<rightharpoonup> ImportTrackerVal"
  no_Log :: "string list"
  no_Target :: Target_ref
  no_BuiltinArgs :: DefaultArgs
  no_Push :: bool
  no_CI :: bool

definition NewCollection ::
  "(SpecsPlatform \<Rightarrow> SpecsPlatform) \<Rightarrow> (SpecsPlatform \<Rightarrow> string) \<Rightarrow> NewCollectionOpt \<Rightarrow> Collection" where
  "NewCollection Normalize Format opts =
    (let target = no_Target opts;
         overriding = (case no_OverridingVars opts of None \<Rightarrow> NewScope | Some s \<Rightarrow> s);
         args = BuiltinArgs Normalize Format target (no_PlatformResolver opts) (no_GitMeta opts)
                  (no_BuiltinArgs opts) (no_Features opts) (no_Push opts) (no_CI opts)
     in \<lparr>co_builtin = args, co_envs = NewScope, co_effectiveCache = None, co_log = no_Log opts,
         co_project = [], co_org = [],
         co_stack = [\<lparr>sf_absRef = RefTarget target, sf_imports = NewImportTracker (no_Log opts) (no_GlobalImports opts),
                      sf_overriding = overriding, sf_args = NewScope, sf_globals = NewScope, sf_vars = NewScope,
                      sf_frameName = referenceStringCanonical (RefTarget target)\<rparr>],
         co_errorOnRedeclare = fe_on (no_Features opts) ''arg-scope-and-set'',
         co_shelloutAnywhere = fe_on (no_Features opts) ''shell-out-anywhere''\<rparr>)"

text \<open>\<open>c.stack[len(c.stack)-1]\<close>, and an assignment through the pointer it returns.\<close>

definition topFrame :: "Collection \<Rightarrow> stackFrame option" where
  "topFrame c = (if co_stack c = [] then None else Some (last (co_stack c)))"

definition updFrame :: "(stackFrame \<Rightarrow> stackFrame) \<Rightarrow> Collection \<Rightarrow> Collection option" where
  "updFrame f c = (if co_stack c = [] then None
     else Some (c\<lparr>co_stack := butlast (co_stack c) @ [f (last (co_stack c))]\<rparr>))"

abbreviation noCache :: "Collection \<Rightarrow> Collection" where
  "noCache c \<equiv> c\<lparr>co_effectiveCache := None\<rparr>"

definition combined :: "Collection \<Rightarrow> stackFrame \<Rightarrow> Scope" where
  "combined c f = CombineScopes [sf_vars f, sf_overriding f, co_builtin c, sf_args f, co_envs c, sf_globals f]"

definition effective :: "Collection \<Rightarrow> (Scope \<times> Collection) option" where
  "effective c =
    (case co_effectiveCache c of
       Some s \<Rightarrow> Some (s, c)
     | None \<Rightarrow> do { f \<leftarrow> topFrame c; let s = combined c f; Some (s, c\<lparr>co_effectiveCache := Some s\<rparr>) })"

section \<open>Operations\<close>

definition ResetEnvVars :: "Collection \<Rightarrow> Scope option \<Rightarrow> Collection" where
  "ResetEnvVars c envs = noCache (c\<lparr>co_envs := (case envs of None \<Rightarrow> NewScope | Some s \<Rightarrow> s)\<rparr>)"

definition SetOrg :: "Collection \<Rightarrow> string \<Rightarrow> Collection" where "SetOrg c org = c\<lparr>co_org := org\<rparr>"

definition SetProject :: "Collection \<Rightarrow> string \<Rightarrow> Collection" where "SetProject c project = c\<lparr>co_project := project\<rparr>"

definition EnvVars :: "Collection \<Rightarrow> Scope" where "EnvVars c = Scope_Clone (co_envs c)"

definition Coll_Args :: "Collection \<Rightarrow> Scope option" where
  "Coll_Args c = map_option (\<lambda>f. Scope_Clone (sf_args f)) (topFrame c)"

definition Coll_Globals :: "Collection \<Rightarrow> Scope option" where
  "Coll_Globals c = map_option (\<lambda>f. Scope_Clone (sf_globals f)) (topFrame c)"

definition SetGlobals :: "Collection \<Rightarrow> Scope \<Rightarrow> Collection option" where
  "SetGlobals c globals = map_option noCache (updFrame (\<lambda>f. f\<lparr>sf_globals := globals\<rparr>) c)"

definition TopOverriding :: "Collection \<Rightarrow> Scope" where
  "TopOverriding c = (case co_stack c of [] \<Rightarrow> NewScope | f # _ \<Rightarrow> Scope_Clone (sf_overriding f))"

definition Coll_Overriding :: "Collection \<Rightarrow> Scope option" where
  "Coll_Overriding c = map_option (\<lambda>f. Scope_Clone (sf_overriding f)) (topFrame c)"

definition SetOverriding :: "Collection \<Rightarrow> Scope \<Rightarrow> Collection option" where
  "SetOverriding c overriding = map_option noCache (updFrame (\<lambda>f. f\<lparr>sf_overriding := overriding\<rparr>) c)"

definition SetPlatform ::
  "(SpecsPlatform \<Rightarrow> SpecsPlatform) \<Rightarrow> (SpecsPlatform \<Rightarrow> string) \<Rightarrow> Collection \<Rightarrow> Resolver \<Rightarrow> Collection" where
  "SetPlatform Normalize Format c platr =
    noCache (c\<lparr>co_builtin := SetPlatformArgs Normalize Format (co_builtin c) platr\<rparr>)"

definition Coll_SetLocally :: "Collection \<Rightarrow> bool \<Rightarrow> Collection" where
  "Coll_SetLocally c locally = noCache (c\<lparr>co_builtin := SetLocally (co_builtin c) locally\<rparr>)"

definition Coll_Get :: "Collection \<Rightarrow> string \<Rightarrow> bool \<Rightarrow> (string option \<times> Collection) option" where
  "Coll_Get c name active = do { (s, c) \<leftarrow> effective c; Some (Scope_Get s name active, c) }"

definition SortedVariables :: "Collection \<Rightarrow> bool \<Rightarrow> (string list \<times> Collection) option" where
  "SortedVariables c active = do { (s, c) \<leftarrow> effective c; Some (Scope_Sorted s active, c) }"

definition SortedOverridingVariables :: "Collection \<Rightarrow> string list option" where
  "SortedOverridingVariables c = map_option (\<lambda>f. Scope_Sorted (sf_overriding f) False) (topFrame c)"

definition overridingOrDefault :: "Collection \<Rightarrow> string \<Rightarrow> string \<Rightarrow> pncvf \<Rightarrow> (var_error + string) option" where
  "overridingOrDefault c name defaultValue pncvf = do {
     f \<leftarrow> topFrame c;
     Some (case Scope_Get (sf_overriding f) name False of
             Some v \<Rightarrow> Inr v
           | None \<Rightarrow> (case Scope_Get (co_builtin c) name False of
               Some v \<Rightarrow> Inr v
             | None \<Rightarrow> parseArgValue name defaultValue pncvf))}"

definition declareOldArg ::
  "Collection \<Rightarrow> string \<Rightarrow> string \<Rightarrow> bool \<Rightarrow> pncvf \<Rightarrow> ((var_error + (string \<times> string)) \<times> Collection) option" where
  "declareOldArg c name defaultValue global pncvf = do {
     (ef, c) \<leftarrow> effective c;
     case (case Scope_Get ef name False of
             Some existing \<Rightarrow> Inr (existing, defaultValue)
           | None \<Rightarrow> rbind (parseArgValue name defaultValue pncvf) (\<lambda>v. Inr (v, v))) of
       Inl e \<Rightarrow> Some (Inl e, c)
     | Inr (finalValue, finalDefaultValue) \<Rightarrow> do {
         c \<leftarrow> updFrame (\<lambda>f. f\<lparr>sf_args := snd (Scope_Add (sf_args f) name finalValue True False)\<rparr>) c;
         c \<leftarrow> (if global then updFrame (\<lambda>f. f\<lparr>sf_globals := snd (Scope_Add (sf_globals f) name finalValue True False)\<rparr>) c
               else Some c);
         Some (Inr (finalValue, finalDefaultValue), noCache c) }}"

record declarePrefs =
  dp_pncvf :: pncvf
  dp_val :: string
  dp_global :: bool
  dp_arg :: bool

definition WithValue :: "string \<Rightarrow> declarePrefs \<Rightarrow> declarePrefs" where "WithValue val p = p\<lparr>dp_val := val\<rparr>"
definition AsGlobal :: "declarePrefs \<Rightarrow> declarePrefs" where "AsGlobal p = p\<lparr>dp_global := True\<rparr>"
definition AsArg :: "declarePrefs \<Rightarrow> declarePrefs" where "AsArg p = p\<lparr>dp_arg := True\<rparr>"
definition WithPNCVFunc :: "pncvf \<Rightarrow> declarePrefs \<Rightarrow> declarePrefs" where "WithPNCVFunc f p = p\<lparr>dp_pncvf := f\<rparr>"

definition declare_prefs :: "(declarePrefs \<Rightarrow> declarePrefs) list \<Rightarrow> declarePrefs" where
  "declare_prefs opts = foldl (\<lambda>p f. f p) \<lparr>dp_pncvf = None, dp_val = [], dp_global = False, dp_arg = False\<rparr> opts"

definition declareScoped ::
  "Collection \<Rightarrow> string \<Rightarrow> declarePrefs \<Rightarrow> ((var_error + (string \<times> string)) \<times> Collection) option" where
  "declareScoped c name prefs =
    (if \<not> dp_arg prefs then do {
       f \<leftarrow> topFrame c;
       let (ok, vars) = Scope_Add (sf_vars f) name (dp_val prefs) True True;
       c \<leftarrow> updFrame (\<lambda>f. f\<lparr>sf_vars := vars\<rparr>) c;
       Some (if ok then Inr (dp_val prefs, dp_val prefs) else Inl (ErrRedeclared name), c) }
     else do {
       f \<leftarrow> topFrame c;
       if Scope_Get (sf_vars f) name True \<noteq> None then Some (Inl (ErrRedeclared name), c)
       else do {
         r \<leftarrow> overridingOrDefault c name (dp_val prefs) (dp_pncvf prefs);
         case r of
           Inl e \<Rightarrow> Some (Inl e, c)
         | Inr v \<Rightarrow>
             if dp_global prefs then
               (if Scope_Get (sf_args f) name False \<noteq> None then Some (Inl (ErrGlobalRedeclared name), c)
                else do {
                  let (ok, globals) = Scope_Add (sf_globals f) name v True True;
                  c \<leftarrow> updFrame (\<lambda>f. f\<lparr>sf_globals := globals\<rparr>) c;
                  Some (if ok then Inr (v, v) else Inl (ErrRedeclared name), c) })
             else do {
               let (ok, args) = Scope_Add (sf_args f) name v True True;
               c \<leftarrow> updFrame (\<lambda>f. f\<lparr>sf_args := args\<rparr>) c;
               Some (if ok then Inr (v, dp_val prefs) else Inl (ErrRedeclared name), c) }}})"

definition DeclareVar ::
  "Collection \<Rightarrow> string \<Rightarrow> (declarePrefs \<Rightarrow> declarePrefs) list \<Rightarrow>
    ((var_error + (string \<times> string)) \<times> Collection) option" where
  "DeclareVar c name opts =
    (let prefs = declare_prefs opts in
     if \<not> co_errorOnRedeclare c then
       (if \<not> dp_arg prefs then Some (Inl ErrLetFeature, c)
        else declareOldArg c name (dp_val prefs) (dp_global prefs) (dp_pncvf prefs))
     else if \<not> co_shelloutAnywhere c then Some (Inl ErrShellOutFeature, c)
     else declareScoped (noCache c) name prefs)"

definition SetArg :: "Collection \<Rightarrow> string \<Rightarrow> string \<Rightarrow> Collection option" where
  "SetArg c name val =
    map_option noCache (updFrame (\<lambda>f. f\<lparr>sf_args := snd (Scope_Add (sf_args f) name val True False)\<rparr>) c)"

definition UnsetArg :: "Collection \<Rightarrow> string \<Rightarrow> Collection option" where
  "UnsetArg c name = map_option noCache (updFrame (\<lambda>f. f\<lparr>sf_args := Scope_Remove (sf_args f) name\<rparr>) c)"

definition DeclareEnv :: "Collection \<Rightarrow> string \<Rightarrow> string \<Rightarrow> Collection" where
  "DeclareEnv c name val = noCache (c\<lparr>co_envs := snd (Scope_Add (co_envs c) name val True False)\<rparr>)"

definition UpdateVar :: "Collection \<Rightarrow> string \<Rightarrow> string \<Rightarrow> pncvf \<Rightarrow> (var_error option \<times> Collection) option" where
  "UpdateVar c name val pncvf = do {
     (ef, c) \<leftarrow> effective c;
     if Scope_Get ef name True = None then Some (Some (ErrVarNotFound name), c)
     else do {
       f \<leftarrow> topFrame c;
       if Scope_Get (sf_vars f) name True = None then Some (Some (ErrSetArg name), c)
       else case parseArgValue name val pncvf of
         Inl e \<Rightarrow> Some (Some (ErrParseSet e), c)
       | Inr v \<Rightarrow> do {
           c \<leftarrow> updFrame (\<lambda>f. f\<lparr>sf_vars := snd (Scope_Add (sf_vars f) name v True False)\<rparr>) c;
           Some (None, noCache c) }}}"

definition EnterFrame ::
  "Collection \<Rightarrow> string \<Rightarrow> Reference \<Rightarrow> Scope \<Rightarrow> Scope \<Rightarrow> (string \<rightharpoonup> ImportTrackerVal) \<Rightarrow> Collection" where
  "EnterFrame c frameName absRef overriding globals globalImports =
    noCache (c\<lparr>co_stack := co_stack c @
      [\<lparr>sf_absRef = absRef, sf_imports = NewImportTracker (co_log c) globalImports, sf_overriding = overriding,
        sf_args = NewScope, sf_globals = globals, sf_vars = NewScope, sf_frameName = frameName\<rparr>]\<rparr>)"

definition ExitFrame :: "Collection \<Rightarrow> Collection option" where
  "ExitFrame c = (if co_stack c = [] then None else Some (noCache (c\<lparr>co_stack := butlast (co_stack c)\<rparr>)))"

definition Coll_Imports :: "Collection \<Rightarrow> ImportTracker option" where
  "Coll_Imports c = map_option sf_imports (topFrame c)"

definition AbsRef :: "Collection \<Rightarrow> Reference option" where
  "AbsRef c = map_option sf_absRef (topFrame c)"

definition IsStackAtBase :: "Collection \<Rightarrow> bool" where
  "IsStackAtBase c \<longleftrightarrow> length (co_stack c) = 1"

definition frame_string :: "stackFrame \<Rightarrow> string" where
  "frame_string f =
    Join (sf_frameName f # map (\<lambda>k. ''--'' @ k @ ''='' @
        (case Scope_Get (sf_overriding f) k False of None \<Rightarrow> [] | Some v \<Rightarrow> v))
      (Scope_Sorted (sf_args f) True)) '' ''"

definition StackString :: "Collection \<Rightarrow> string" where
  "StackString c = Join (map frame_string (rev (co_stack c))) ([ch_nl] @ ''called from'' @ [ch_tab])"

end
