(* ===== verification/Var_Correct.thy ===== *)
theory Var_Correct
  imports Var_Collection
begin

text \<open>
  Correctness of the variable collections: the invariant of a collection (its cache is
  never stale, overriding and built-in variables are inactive, all others active), that
  every operation keeps it and none panics, and what lookups, declarations and frames do.
\<close>

section \<open>The invariant\<close>

definition inactive :: "Scope \<Rightarrow> bool" where
  "inactive s \<longleftrightarrow> scope_wf s \<and> (\<forall>k. Scope_Get s k True = None)"

definition all_active :: "Scope \<Rightarrow> bool" where
  "all_active s \<longleftrightarrow> scope_wf s \<and> (\<forall>k. Scope_Get s k True = Scope_Get s k False)"

definition frame_ok :: "stackFrame \<Rightarrow> bool" where
  "frame_ok f \<longleftrightarrow> inactive (sf_overriding f) \<and> all_active (sf_args f) \<and> all_active (sf_globals f) \<and> all_active (sf_vars f)"

definition scopes_ok :: "Collection \<Rightarrow> bool" where
  "scopes_ok c \<longleftrightarrow> co_stack c \<noteq> [] \<and> list_all frame_ok (co_stack c) \<and> inactive (co_builtin c) \<and> all_active (co_envs c)"

definition cache_ok :: "Collection \<Rightarrow> bool" where
  "cache_ok c \<longleftrightarrow> (case co_effectiveCache c of None \<Rightarrow> True | Some s \<Rightarrow> s = combined c (last (co_stack c)))"

definition coll_ok :: "Collection \<Rightarrow> bool" where
  "coll_ok c \<longleftrightarrow> scopes_ok c \<and> cache_ok c"

lemma all_active_new [simp, intro]: "all_active NewScope"
  by (simp add: all_active_def scope.get_new)

lemma inactive_new [simp, intro]: "inactive NewScope"
  by (simp add: inactive_def scope.get_new)

lemma all_active_Add [keeps_intros]:
  assumes "all_active s"
  shows "all_active (snd (Scope_Add s k v True noOv))"
proof (cases "noOv \<and> Scope_Get s k False \<noteq> None")
  case True
  then show ?thesis using assms scope.add_taken [of s k v True] by simp
next
  case False
  then show ?thesis using assms by (auto simp: all_active_def scope_wf_Add scope.get_add)
qed

lemma all_active_Remove [keeps_intros]: "all_active s \<Longrightarrow> all_active (Scope_Remove s k)"
  by (simp add: all_active_def scope_wf_Remove scope.get_remove)

lemma inactive_Add [keeps_intros]: "inactive s \<Longrightarrow> inactive (snd (Scope_Add s k v False False))"
  by (auto simp: inactive_def scope_wf_Add scope.get_add)

lemma inactive_addArgs [keeps_intros]: "inactive s \<Longrightarrow> inactive (addArgs s kvs)"
  by (induction kvs arbitrary: s) (auto simp: addArgs_simps inactive_Add)

lemma inactive_BuiltinArgs: "inactive (BuiltinArgs n f t p g d fs pu ci)"
  using builtin_inv_BuiltinArgs [of n f t p g d fs pu ci]
  by (simp add: inactive_def builtin_inv_Get(1)) (simp add: builtin_inv_def)

lemma cache_ok_None [simp]: "co_effectiveCache c = None \<Longrightarrow> cache_ok c"
  by (simp add: cache_ok_def)

lemma coll_ok_noCache: "scopes_ok c \<Longrightarrow> coll_ok (noCache c)"
  by (simp add: coll_ok_def scopes_ok_def)

section \<open>Frames\<close>

lemma topFrame_ok: "scopes_ok c \<Longrightarrow> topFrame c = Some (last (co_stack c)) \<and> frame_ok (last (co_stack c))"
  by (auto simp: topFrame_def scopes_ok_def list_all_iff)

lemma updFrame_SomeD:
  "updFrame u c = Some c' \<Longrightarrow> co_stack c \<noteq> [] \<and> c' = c\<lparr>co_stack := butlast (co_stack c) @ [u (last (co_stack c))]\<rparr>"
  by (simp add: updFrame_def split: if_splits)

lemma updFrame_total: "scopes_ok c \<Longrightarrow> \<exists>c'. updFrame u c = Some c'"
  by (simp add: updFrame_def scopes_ok_def)

lemma scopes_ok_updFrame:
  "scopes_ok c \<Longrightarrow> updFrame u c = Some c' \<Longrightarrow> frame_ok (u (last (co_stack c))) \<Longrightarrow> scopes_ok c'"
  by (auto simp: updFrame_def scopes_ok_def list_all_iff split: if_splits) (metis in_set_butlastD)

lemma effective_ok:
  assumes "coll_ok c"
  shows "\<exists>c'. effective c = Some (combined c (last (co_stack c)), c') \<and> coll_ok c' \<and>
    c' = c\<lparr>co_effectiveCache := Some (combined c (last (co_stack c)))\<rparr>"
proof (cases "co_effectiveCache c")
  case None
  then show ?thesis using assms topFrame_ok [of c]
    by (auto simp: effective_def coll_ok_def scopes_ok_def cache_ok_def combined_def Let_def)
next
  case (Some s)
  then show ?thesis using assms
    by (auto simp: effective_def coll_ok_def scopes_ok_def cache_ok_def combined_def)
qed

section \<open>Every operation keeps the invariant\<close>

lemma coll_ok_frame_op:
  assumes "coll_ok c" "\<And>f. frame_ok f \<Longrightarrow> frame_ok (u f)" "map_option noCache (updFrame u c) = Some c'"
  shows "coll_ok c'"
proof -
  obtain c1 where c1: "updFrame u c = Some c1" "c' = noCache c1" using assms(3) by auto
  then have "scopes_ok c1"
    using scopes_ok_updFrame assms(1,2) topFrame_ok by (auto simp: coll_ok_def)
  then show ?thesis unfolding c1(2) by (rule coll_ok_noCache)
qed

lemma frame_ok_upd [keeps_intros]:
  "frame_ok f \<Longrightarrow> all_active g \<Longrightarrow> frame_ok (f\<lparr>sf_globals := g\<rparr>)"
  "frame_ok f \<Longrightarrow> all_active g \<Longrightarrow> frame_ok (f\<lparr>sf_args := g\<rparr>)"
  "frame_ok f \<Longrightarrow> all_active g \<Longrightarrow> frame_ok (f\<lparr>sf_vars := g\<rparr>)"
  "frame_ok f \<Longrightarrow> inactive g \<Longrightarrow> frame_ok (f\<lparr>sf_overriding := g\<rparr>)"
  by (simp_all add: frame_ok_def)

lemma frame_okD:
  "frame_ok f \<Longrightarrow> inactive (sf_overriding f)" "frame_ok f \<Longrightarrow> all_active (sf_args f)"
  "frame_ok f \<Longrightarrow> all_active (sf_globals f)" "frame_ok f \<Longrightarrow> all_active (sf_vars f)"
  by (simp_all add: frame_ok_def)

lemma coll_ok_SetGlobals: "coll_ok c \<Longrightarrow> all_active g \<Longrightarrow> SetGlobals c g = Some c' \<Longrightarrow> coll_ok c'"
  unfolding SetGlobals_def by (erule coll_ok_frame_op) (auto intro: keeps_intros)

lemma coll_ok_SetOverriding: "coll_ok c \<Longrightarrow> inactive g \<Longrightarrow> SetOverriding c g = Some c' \<Longrightarrow> coll_ok c'"
  unfolding SetOverriding_def by (erule coll_ok_frame_op) (auto intro: keeps_intros)

lemma coll_ok_SetArg: "coll_ok c \<Longrightarrow> SetArg c k v = Some c' \<Longrightarrow> coll_ok c'"
  unfolding SetArg_def by (erule coll_ok_frame_op) (auto intro: keeps_intros frame_okD)

lemma coll_ok_UnsetArg: "coll_ok c \<Longrightarrow> UnsetArg c k = Some c' \<Longrightarrow> coll_ok c'"
  unfolding UnsetArg_def by (erule coll_ok_frame_op) (auto intro: keeps_intros frame_okD)

lemma coll_ok_ResetEnvVars: "coll_ok c \<Longrightarrow> (\<And>s. e = Some s \<Longrightarrow> all_active s) \<Longrightarrow> coll_ok (ResetEnvVars c e)"
  by (auto simp: ResetEnvVars_def coll_ok_def scopes_ok_def split: option.split)

lemma coll_ok_builtin: "coll_ok c \<Longrightarrow> inactive s \<Longrightarrow> coll_ok (noCache (c\<lparr>co_builtin := s\<rparr>))"
  by (simp add: coll_ok_def scopes_ok_def)

lemma coll_okD: "coll_ok c \<Longrightarrow> inactive (co_builtin c)" "coll_ok c \<Longrightarrow> all_active (co_envs c)"
  by (simp_all add: coll_ok_def scopes_ok_def)

lemma coll_ok_SetPlatform: "coll_ok c \<Longrightarrow> coll_ok (SetPlatform n f c r)"
  unfolding SetPlatform_def SetPlatformArgs_def Let_def by (intro coll_ok_builtin inactive_addArgs coll_okD)

lemma coll_ok_SetLocally: "coll_ok c \<Longrightarrow> coll_ok (Coll_SetLocally c l)"
  unfolding Coll_SetLocally_def SetLocally_def by (intro coll_ok_builtin inactive_addArgs coll_okD)

lemma coll_ok_DeclareEnv: "coll_ok c \<Longrightarrow> coll_ok (DeclareEnv c k v)"
  by (simp add: DeclareEnv_def coll_ok_def scopes_ok_def all_active_Add)

lemma coll_ok_names: "coll_ok c \<Longrightarrow> coll_ok (SetOrg c x)" "coll_ok c \<Longrightarrow> coll_ok (SetProject c x)"
  by (auto simp: SetOrg_def SetProject_def coll_ok_def scopes_ok_def cache_ok_def combined_def split: option.splits)

lemma coll_ok_Get: "coll_ok c \<Longrightarrow> Coll_Get c k b = Some (r, c') \<Longrightarrow> coll_ok c'"
  using effective_ok [of c] by (auto simp: Coll_Get_def)

lemma coll_ok_Sorted: "coll_ok c \<Longrightarrow> SortedVariables c b = Some (r, c') \<Longrightarrow> coll_ok c'"
  using effective_ok [of c] by (auto simp: SortedVariables_def)

lemma coll_ok_EnterFrame: "coll_ok c \<Longrightarrow> inactive ov \<Longrightarrow> all_active g \<Longrightarrow> coll_ok (EnterFrame c n r ov g gi)"
  by (simp add: EnterFrame_def coll_ok_def scopes_ok_def frame_ok_def)

lemma coll_ok_ExitFrame: "coll_ok c \<Longrightarrow> 1 < length (co_stack c) \<Longrightarrow> ExitFrame c = Some c' \<Longrightarrow> coll_ok c'"
  by (cases "co_stack c" rule: rev_cases)
    (auto simp: ExitFrame_def coll_ok_def scopes_ok_def list_all_iff split: if_splits)

text \<open>A declaration with \<open>NoOverride\<close> is an update of the top frame when the name is free and
  changes nothing otherwise.\<close>

abbreviation on_top :: "(stackFrame \<Rightarrow> stackFrame) \<Rightarrow> Collection \<Rightarrow> Collection" where
  "on_top u c \<equiv> c\<lparr>co_stack := butlast (co_stack c) @ [u (last (co_stack c))]\<rparr>"

lemma updFrame_on_top: "scopes_ok c \<Longrightarrow> updFrame u c = Some (on_top u c)"
  by (simp add: updFrame_def scopes_ok_def)

lemma on_top_id: "scopes_ok c \<Longrightarrow> u (last (co_stack c)) = last (co_stack c) \<Longrightarrow> on_top u c = c"
  by (simp add: scopes_ok_def)

lemma Scope_Add_noOverride:
  "Scope_Add s k v True True =
    (if Scope_Get s k False = None then (True, snd (Scope_Add s k v True True)) else (False, s))"
  using scope.add_taken [of s k v True] scope.add_free [of True s k v True] by (auto simp: prod_eq_iff)

definition arg_value :: "Collection \<Rightarrow> string \<Rightarrow> declarePrefs \<Rightarrow> var_error + string" where
  "arg_value c k p = (let f = last (co_stack c) in
    case Scope_Get (sf_overriding f) k False of
      Some v \<Rightarrow> Inr v
    | None \<Rightarrow> (case Scope_Get (co_builtin c) k False of
        Some v \<Rightarrow> Inr v | None \<Rightarrow> parseArgValue k (dp_val p) (dp_pncvf p)))"

lemma overridingOrDefault_eq: "scopes_ok c \<Longrightarrow> overridingOrDefault c k (dp_val p) (dp_pncvf p) = Some (arg_value c k p)"
  using topFrame_ok [of c] by (simp add: overridingOrDefault_def arg_value_def Let_def)

definition put_var :: "string \<Rightarrow> string \<Rightarrow> stackFrame \<Rightarrow> stackFrame" where
  "put_var k v f = f\<lparr>sf_vars := snd (Scope_Add (sf_vars f) k v True True)\<rparr>"
definition put_arg :: "string \<Rightarrow> string \<Rightarrow> stackFrame \<Rightarrow> stackFrame" where
  "put_arg k v f = f\<lparr>sf_args := snd (Scope_Add (sf_args f) k v True True)\<rparr>"
definition put_global :: "string \<Rightarrow> string \<Rightarrow> stackFrame \<Rightarrow> stackFrame" where
  "put_global k v f = f\<lparr>sf_globals := snd (Scope_Add (sf_globals f) k v True True)\<rparr>"

lemmas put_defs = put_var_def put_arg_def put_global_def

text \<open>One equation for the three kinds of declaration.\<close>

lemma declare_step:
  assumes "scopes_ok c"
  shows "(let (ok, s) = Scope_Add (g (last (co_stack c))) k v True True in
      updFrame (\<lambda>f. h f s) c \<bind> (\<lambda>c'. Some (if ok then r else e, c'))) =
    (if Scope_Get (g (last (co_stack c))) k False = None
     then Some (r, on_top (\<lambda>f. h f (snd (Scope_Add (g (last (co_stack c))) k v True True))) c)
     else Some (e, on_top (\<lambda>f. h f (g (last (co_stack c)))) c))"
  unfolding updFrame_on_top [OF assms]
  by (subst Scope_Add_noOverride) (simp add: Let_def)

lemma declareScoped_eq:
  assumes ok: "scopes_ok c"
  defines "f \<equiv> last (co_stack c)"
  shows "declareScoped c k p = Some
    (if \<not> dp_arg p then
       (if Scope_Get (sf_vars f) k False = None then (Inr (dp_val p, dp_val p), on_top (put_var k (dp_val p)) c)
        else (Inl (ErrRedeclared k), c))
     else if Scope_Get (sf_vars f) k True \<noteq> None then (Inl (ErrRedeclared k), c)
     else case arg_value c k p of
       Inl e \<Rightarrow> (Inl e, c)
     | Inr v \<Rightarrow>
         if dp_global p then
           (if Scope_Get (sf_args f) k False \<noteq> None then (Inl (ErrGlobalRedeclared k), c)
            else if Scope_Get (sf_globals f) k False = None then (Inr (v, v), on_top (put_global k v) c)
            else (Inl (ErrRedeclared k), c))
         else if Scope_Get (sf_args f) k False = None then (Inr (v, dp_val p), on_top (put_arg k v) c)
         else (Inl (ErrRedeclared k), c))"
proof -
  have top: "topFrame c = Some f" using topFrame_ok [OF ok] by (simp add: f_def)
  have same: "on_top (\<lambda>f. f\<lparr>sf_vars := sf_vars (last (co_stack c))\<rparr>) c = c"
    "on_top (\<lambda>f. f\<lparr>sf_args := sf_args (last (co_stack c))\<rparr>) c = c"
    "on_top (\<lambda>f. f\<lparr>sf_globals := sf_globals (last (co_stack c))\<rparr>) c = c"
    by (rule on_top_id [OF ok]; simp)+
  note steps = declare_step [OF ok, of sf_vars _ _ "\<lambda>f s. f\<lparr>sf_vars := s\<rparr>", unfolded same Let_def]
    declare_step [OF ok, of sf_args _ _ "\<lambda>f s. f\<lparr>sf_args := s\<rparr>", unfolded same Let_def]
    declare_step [OF ok, of sf_globals _ _ "\<lambda>f s. f\<lparr>sf_globals := s\<rparr>", unfolded same Let_def]
  show ?thesis
    by (auto simp: declareScoped_def top overridingOrDefault_eq [OF ok] f_def Let_def steps put_defs split: sum.split)
qed

lemma frame_ok_put [keeps_intros]:
  "frame_ok f \<Longrightarrow> frame_ok (put_var k v f)" "frame_ok f \<Longrightarrow> frame_ok (put_arg k v f)"
  "frame_ok f \<Longrightarrow> frame_ok (put_global k v f)"
  by (simp_all add: put_defs frame_ok_def all_active_Add)

lemma scopes_ok_on_top: "scopes_ok c \<Longrightarrow> frame_ok (u (last (co_stack c))) \<Longrightarrow> scopes_ok (on_top u c)"
  using scopes_ok_updFrame updFrame_on_top by blast

lemma coll_ok_declareScoped:
  assumes "scopes_ok c" "co_effectiveCache c = None" "declareScoped c k p = Some (r, c')"
  shows "coll_ok c'"
proof -
  have "frame_ok (last (co_stack c))" using topFrame_ok assms(1) by simp
  then have "coll_ok (on_top (put_var k v) c)" "coll_ok (on_top (put_arg k v) c)" "coll_ok (on_top (put_global k v) c)"
    "coll_ok c" for v
    using assms(1,2) by (auto simp: coll_ok_def intro!: scopes_ok_on_top frame_ok_put)
  then show ?thesis
    using assms(3) unfolding declareScoped_eq [OF assms(1)] by (auto split: if_splits sum.splits)
qed

lemma declareOldArg_eq:
  assumes "coll_ok c"
  shows "declareOldArg c k d global pncvf = Some
    (case (case Scope_Get (combined c (last (co_stack c))) k False of
             Some existing \<Rightarrow> Inr (existing, d)
           | None \<Rightarrow> rbind (parseArgValue k d pncvf) (\<lambda>v. Inr (v, v))) of
       Inl e \<Rightarrow> (Inl e, c\<lparr>co_effectiveCache := Some (combined c (last (co_stack c)))\<rparr>)
     | Inr (v, d') \<Rightarrow> (Inr (v, d'), noCache (on_top (\<lambda>f.
         let f1 = f\<lparr>sf_args := snd (Scope_Add (sf_args f) k v True False)\<rparr> in
         if global then f1\<lparr>sf_globals := snd (Scope_Add (sf_globals f) k v True False)\<rparr> else f1) c)))"
proof -
  have "co_stack c \<noteq> []" using assms by (simp add: coll_ok_def scopes_ok_def)
  then show ?thesis
    using effective_ok [OF assms]
    by (auto simp: declareOldArg_def updFrame_def Let_def split: sum.splits option.splits)
qed

lemma coll_ok_DeclareVar:
  assumes "coll_ok c" "DeclareVar c k opts = Some (r, c')"
  shows "coll_ok c'"
proof -
  have ok: "scopes_ok c" and f: "frame_ok (last (co_stack c))"
    using assms(1) topFrame_ok by (auto simp: coll_ok_def)
  have old: "coll_ok c'" if "declareOldArg c k d g p = Some (r, c')" for d g p
    using that f effective_ok [OF assms(1)] unfolding declareOldArg_eq [OF assms(1)]
    by (auto simp: Let_def intro!: coll_ok_noCache scopes_ok_on_top ok frame_ok_upd all_active_Add frame_okD
        split: sum.splits if_splits)
  have "scopes_ok (noCache c)" using ok by (simp add: scopes_ok_def)
  from coll_ok_declareScoped [OF this, of k _ r c'] old assms show ?thesis
    by (auto simp: DeclareVar_def Let_def split: if_splits)
qed

lemma UpdateVar_eq:
  assumes "coll_ok c"
  defines "s \<equiv> combined c (last (co_stack c))" and "f \<equiv> last (co_stack c)"
  shows "UpdateVar c k val pncvf = Some
    (if Scope_Get s k True = None then (Some (ErrVarNotFound k), c\<lparr>co_effectiveCache := Some s\<rparr>)
     else if Scope_Get (sf_vars f) k True = None then (Some (ErrSetArg k), c\<lparr>co_effectiveCache := Some s\<rparr>)
     else case parseArgValue k val pncvf of
       Inl e \<Rightarrow> (Some (ErrParseSet e), c\<lparr>co_effectiveCache := Some s\<rparr>)
     | Inr v \<Rightarrow> (None, noCache (on_top (\<lambda>f. f\<lparr>sf_vars := snd (Scope_Add (sf_vars f) k v True False)\<rparr>) c)))"
proof -
  have "co_stack c \<noteq> []" using assms(1) by (simp add: coll_ok_def scopes_ok_def)
  then show ?thesis
    using effective_ok [OF assms(1)]
    by (auto simp: UpdateVar_def updFrame_def topFrame_def s_def f_def split: sum.split)
qed

lemma coll_ok_UpdateVar:
  assumes "coll_ok c" "UpdateVar c k v p = Some (r, c')"
  shows "coll_ok c'"
proof -
  have ok: "scopes_ok c" and f: "frame_ok (last (co_stack c))"
    using assms(1) topFrame_ok by (auto simp: coll_ok_def)
  show ?thesis
    using assms(2) f effective_ok [OF assms(1)] unfolding UpdateVar_eq [OF assms(1)]
    by (auto intro!: coll_ok_noCache scopes_ok_on_top ok frame_ok_upd all_active_Add frame_okD split: sum.splits if_splits)
qed

section \<open>Reachable collections\<close>

text \<open>One step: any operation of the package, with the scopes its comments ask for (overriding
  scopes inactive, globals and env vars active), and \<open>ExitFrame\<close> only for a frame that was
  entered.\<close>

inductive coll_step :: "Collection \<Rightarrow> Collection \<Rightarrow> bool" where
  "(\<And>s. e = Some s \<Longrightarrow> all_active s) \<Longrightarrow> coll_step c (ResetEnvVars c e)"
| "coll_step c (SetOrg c x)"
| "coll_step c (SetProject c x)"
| "all_active g \<Longrightarrow> SetGlobals c g = Some c' \<Longrightarrow> coll_step c c'"
| "inactive ov \<Longrightarrow> SetOverriding c ov = Some c' \<Longrightarrow> coll_step c c'"
| "coll_step c (SetPlatform Normalize Format c r)"
| "coll_step c (Coll_SetLocally c l)"
| "Coll_Get c k b = Some (v, c') \<Longrightarrow> coll_step c c'"
| "SortedVariables c b = Some (ks, c') \<Longrightarrow> coll_step c c'"
| "DeclareVar c k opts = Some (res, c') \<Longrightarrow> coll_step c c'"
| "SetArg c k v = Some c' \<Longrightarrow> coll_step c c'"
| "UnsetArg c k = Some c' \<Longrightarrow> coll_step c c'"
| "coll_step c (DeclareEnv c k v)"
| "UpdateVar c k v pncvf = Some (err, c') \<Longrightarrow> coll_step c c'"
| "inactive ov \<Longrightarrow> all_active g \<Longrightarrow> coll_step c (EnterFrame c name ref ov g gi)"
| "1 < length (co_stack c) \<Longrightarrow> ExitFrame c = Some c' \<Longrightarrow> coll_step c c'"

inductive coll_reachable :: "Collection \<Rightarrow> bool" where
  start: "(\<And>s. no_OverridingVars opts = Some s \<Longrightarrow> inactive s) \<Longrightarrow> coll_reachable (NewCollection Normalize Format opts)"
| step: "coll_reachable c \<Longrightarrow> coll_step c c' \<Longrightarrow> coll_reachable c'"

lemma coll_step_ok: "coll_step c c' \<Longrightarrow> coll_ok c \<Longrightarrow> coll_ok c'"
  by (induction rule: coll_step.induct)
    (auto intro: coll_ok_ResetEnvVars coll_ok_names coll_ok_SetGlobals coll_ok_SetOverriding coll_ok_SetPlatform
      coll_ok_SetLocally coll_ok_Get coll_ok_Sorted coll_ok_DeclareVar coll_ok_SetArg coll_ok_UnsetArg
      coll_ok_DeclareEnv coll_ok_UpdateVar coll_ok_EnterFrame coll_ok_ExitFrame)

lemma coll_reachable_ok: "coll_reachable c \<Longrightarrow> coll_ok c"
proof (induction rule: coll_reachable.induct)
  case (start opts Normalize Format)
  then show ?case
    by (auto simp: NewCollection_def Let_def coll_ok_def scopes_ok_def frame_ok_def inactive_BuiltinArgs split: option.split)
qed (rule coll_step_ok)

section \<open>Lookups\<close>

text \<open>What a lookup means, without the cache: the first of the active scopes that has the name,
  then (for a lookup that is not restricted to active variables) the overriding and the
  built-in variables.\<close>

definition coll_lookup :: "Collection \<Rightarrow> string \<Rightarrow> bool \<Rightarrow> string option" where
  "coll_lookup c k act = (let f = last (co_stack c) in
    leftmost False ([sf_vars f, sf_args f, co_envs c, sf_globals f] @
      (if act then [] else [sf_overriding f, co_builtin c])) k)"

lemma Get_combined:
  assumes "scopes_ok c"
  shows "Scope_Get (combined c (last (co_stack c))) k b = coll_lookup c k b"
proof -
  define f where "f = last (co_stack c)"
  have "frame_ok f" "inactive (co_builtin c)" "all_active (co_envs c)"
    using topFrame_ok [OF assms] assms by (auto simp: scopes_ok_def f_def)
  then show ?thesis
    by (auto simp: combined_def Get_CombineScopes coll_lookup_def Let_def f_def [symmetric] frame_ok_def
        all_active_def inactive_def split: option.splits)
qed

lemma coll_lookup_cong:
  "co_stack c' = co_stack c \<Longrightarrow> co_envs c' = co_envs c \<Longrightarrow> co_builtin c' = co_builtin c \<Longrightarrow>
    coll_lookup c' = coll_lookup c"
  by (simp add: coll_lookup_def fun_eq_iff Let_def split: option.split)

lemma Coll_Get_reachable:
  assumes "coll_reachable c"
  shows "\<exists>c'. Coll_Get c k b = Some (coll_lookup c k b, c') \<and> coll_reachable c' \<and> coll_lookup c' = coll_lookup c"
proof -
  have ok: "coll_ok c" using assms by (rule coll_reachable_ok)
  obtain c' where e: "effective c = Some (combined c (last (co_stack c)), c')"
    and c': "c' = c\<lparr>co_effectiveCache := Some (combined c (last (co_stack c)))\<rparr>"
    using effective_ok [OF ok] by blast
  then have g: "Coll_Get c k b = Some (coll_lookup c k b, c')"
    using ok by (simp add: Coll_Get_def Get_combined coll_ok_def)
  moreover have "coll_reachable c'" using assms coll_step.intros(8) [OF g] by (rule coll_reachable.step)
  moreover have "coll_lookup c' = coll_lookup c" unfolding c' by (rule coll_lookup_cong) simp_all
  ultimately show ?thesis by blast
qed


section \<open>Declarations\<close>

lemma all_active_Get_Add:
  assumes "all_active s" "Scope_Get s k False = None \<or> \<not> noOv"
  shows "Scope_Get (snd (Scope_Add s k v True noOv)) j False = (if j = k then Some v else Scope_Get s j False)"
  using assms by (auto simp: all_active_def scope.get_add)

lemma coll_lookup_noCache [simp]: "coll_lookup (noCache c) = coll_lookup c"
  "coll_lookup (c\<lparr>co_effectiveCache := x\<rparr>) = coll_lookup c"
  by (rule coll_lookup_cong; simp)+

text \<open>What a successful declaration makes of the name.\<close>

definition declared :: "Collection \<Rightarrow> string \<Rightarrow> declarePrefs \<Rightarrow> string \<Rightarrow> string" where
  "declared c k p v = (if dp_arg p \<and> dp_global p then
     (case Scope_Get (co_envs c) k False of Some e \<Rightarrow> e | None \<Rightarrow> v) else v)"

lemma lookup_put:
  assumes ok: "scopes_ok c"
  defines "f \<equiv> last (co_stack c)"
  shows "Scope_Get (sf_vars f) k False = None \<Longrightarrow>
      coll_lookup (on_top (put_var k v) c) j b = (if j = k then Some v else coll_lookup c j b)"
    and "Scope_Get (sf_vars f) k False = None \<Longrightarrow> Scope_Get (sf_args f) k False = None \<Longrightarrow>
      coll_lookup (on_top (put_arg k v) c) j b = (if j = k then Some v else coll_lookup c j b)"
    and "Scope_Get (sf_vars f) k False = None \<Longrightarrow> Scope_Get (sf_args f) k False = None \<Longrightarrow>
      Scope_Get (sf_globals f) k False = None \<Longrightarrow>
      coll_lookup (on_top (put_global k v) c) j b =
        (if j = k then Some (case Scope_Get (co_envs c) k False of Some e \<Rightarrow> e | None \<Rightarrow> v) else coll_lookup c j b)"
proof -
  have fo: "all_active (sf_vars f)" "all_active (sf_args f)" "all_active (sf_globals f)" and ne: "co_stack c \<noteq> []"
    using topFrame_ok [OF ok] ok by (auto simp: f_def frame_ok_def scopes_ok_def)
  note gets = fo [THEN all_active_Get_Add]
  show "Scope_Get (sf_vars f) k False = None \<Longrightarrow>
      coll_lookup (on_top (put_var k v) c) j b = (if j = k then Some v else coll_lookup c j b)"
    using gets ne by (simp add: coll_lookup_def f_def put_defs Let_def split: option.split)
  show "Scope_Get (sf_vars f) k False = None \<Longrightarrow> Scope_Get (sf_args f) k False = None \<Longrightarrow>
      coll_lookup (on_top (put_arg k v) c) j b = (if j = k then Some v else coll_lookup c j b)"
    using gets ne by (simp add: coll_lookup_def f_def put_defs Let_def split: option.split)
  show "Scope_Get (sf_vars f) k False = None \<Longrightarrow> Scope_Get (sf_args f) k False = None \<Longrightarrow>
      Scope_Get (sf_globals f) k False = None \<Longrightarrow>
      coll_lookup (on_top (put_global k v) c) j b =
        (if j = k then Some (case Scope_Get (co_envs c) k False of Some e \<Rightarrow> e | None \<Rightarrow> v) else coll_lookup c j b)"
    using gets ne by (simp add: coll_lookup_def f_def put_defs Let_def split: option.split)
qed

text \<open>
  \<open>DeclareVar\<close> of an Earthfile with scoped arguments never panics. When it succeeds with the
  value \<open>v\<close>, the name now has this value (for a global ARG an env var of the same name still
  wins), and no other name changes; when it fails, no lookup changes. The value of an ARG is
  the overriding one, else the built-in one, else the default; a LET takes its own value.
\<close>

theorem DeclareVar_scoped:
  assumes "coll_reachable c" "co_errorOnRedeclare c" "co_shelloutAnywhere c"
  shows "\<exists>r c'. DeclareVar c k opts = Some (r, c') \<and>
    (case r of
       Inl _ \<Rightarrow> coll_lookup c' = coll_lookup c
     | Inr (v, _) \<Rightarrow>
         (\<forall>j b. coll_lookup c' j b =
           (if j = k then Some (declared c k (declare_prefs opts) v) else coll_lookup c j b)) \<and>
         Inr v = (if dp_arg (declare_prefs opts) then arg_value c k (declare_prefs opts)
                  else Inr (dp_val (declare_prefs opts))))"
proof -
  define p where "p = declare_prefs opts"
  have ok: "scopes_ok c" using coll_reachable_ok [OF assms(1)] by (simp add: coll_ok_def)
  then have ok': "scopes_ok (noCache c)" by (simp add: scopes_ok_def)
  have vars: "Scope_Get (sf_vars (last (co_stack c))) k True = Scope_Get (sf_vars (last (co_stack c))) k False"
    using topFrame_ok [OF ok] by (simp add: frame_ok_def all_active_def)
  note put = lookup_put [OF ok', of k _ _, simplified]
  have av: "arg_value (noCache c) k p = arg_value c k p"
    by (simp add: arg_value_def split: option.split)
  have d: "DeclareVar c k opts = declareScoped (noCache c) k p"
    using assms by (simp add: DeclareVar_def p_def)
  show ?thesis
    unfolding d declareScoped_eq [OF ok'] p_def [symmetric] declared_def
    using vars put by (auto simp: av split: sum.split)
qed

text \<open>
  Redeclaring is an error: once a LET or a non-global ARG of the name is declared in a
  frame, declaring it again (anything but a LET after an ARG) fails, and the second attempt
  changes no lookup.
\<close>

theorem DeclareVar_twice:
  assumes "coll_reachable c" "co_errorOnRedeclare c" "co_shelloutAnywhere c"
    and "DeclareVar c k opts1 = Some (Inr vd, c1)" "\<not> dp_global (declare_prefs opts1)"
    and "dp_arg (declare_prefs opts1) \<longrightarrow> dp_arg (declare_prefs opts2)"
    and "DeclareVar c1 k opts2 = Some (r, c2)"
  shows "\<not> is_ok r \<and> coll_lookup c2 = coll_lookup c1"
proof -
  define p q where "p = declare_prefs opts1" and "q = declare_prefs opts2"
  have ok: "scopes_ok c" using coll_reachable_ok [OF assms(1)] by (simp add: coll_ok_def)
  then have ok': "scopes_ok (noCache c)" by (simp add: scopes_ok_def)
  have fo: "frame_ok (last (co_stack c))" using topFrame_ok [OF ok] by simp
  have d1: "declareScoped (noCache c) k p = Some (Inr vd, c1)"
    using assms by (simp add: DeclareVar_def p_def)
  have c1: "if dp_arg p then \<exists>v. Scope_Get (sf_args (last (co_stack c))) k False = None \<and> c1 = on_top (put_arg k v) (noCache c)
    else Scope_Get (sf_vars (last (co_stack c))) k False = None \<and> c1 = on_top (put_var k (dp_val p)) (noCache c)"
    using d1 assms(5) unfolding declareScoped_eq [OF ok'] by (auto simp: p_def split: if_splits sum.splits)
  then have ok1: "scopes_ok c1" "scopes_ok (noCache c1)"
    using scopes_ok_on_top [OF ok'] fo frame_ok_put by (auto simp: scopes_ok_def split: if_splits)
  have taken: "if dp_arg p then Scope_Get (sf_args (last (co_stack c1))) k False \<noteq> None
    else Scope_Get (sf_vars (last (co_stack c1))) k False \<noteq> None \<and> Scope_Get (sf_vars (last (co_stack c1))) k True \<noteq> None"
    using c1 fo by (auto simp: put_defs frame_ok_def all_active_def scope.get_add split: if_splits)
  have d2: "declareScoped (noCache c1) k q = Some (r, c2)"
    using assms(2,3,7) c1 by (auto simp: DeclareVar_def q_def split: if_splits)
  show ?thesis
    using d2 taken assms(6) unfolding declareScoped_eq [OF ok1(2)]
    by (auto simp: p_def q_def split: if_splits sum.splits)
qed

text \<open>
  \<open>UpdateVar\<close> (SET) never panics and only ever writes LET variables: an unknown name gives
  \<open>ErrVarNotFound\<close>, the name of an ARG, env var or global \<open>ErrSetArg\<close>; an error changes no
  lookup, and success changes the lookup of that name only.
\<close>

theorem UpdateVar_only_let:
  assumes "coll_reachable c"
  shows "\<exists>e c'. UpdateVar c k val pncvf = Some (e, c') \<and>
    (case e of
       Some _ \<Rightarrow> coll_lookup c' = coll_lookup c
     | None \<Rightarrow> \<exists>v. parseArgValue k val pncvf = Inr v \<and>
         (\<forall>j b. coll_lookup c' j b = (if j = k then Some v else coll_lookup c j b))) \<and>
    (e = Some (ErrVarNotFound k) \<longleftrightarrow> coll_lookup c k True = None) \<and>
    (e = Some (ErrSetArg k) \<longleftrightarrow>
      coll_lookup c k True \<noteq> None \<and> Scope_Get (sf_vars (last (co_stack c))) k False = None)"
proof -
  have ok: "coll_ok c" "scopes_ok c" using coll_reachable_ok [OF assms] by (auto simp: coll_ok_def)
  have fo: "all_active (sf_vars (last (co_stack c)))" and ne: "co_stack c \<noteq> []"
    using topFrame_ok [OF ok(2)] ok(2) by (auto simp: frame_ok_def scopes_ok_def)
  have set: "coll_lookup (on_top (\<lambda>f. f\<lparr>sf_vars := snd (Scope_Add (sf_vars f) k v True False)\<rparr>) c) j b =
      (if j = k then Some v else coll_lookup c j b)" for v j b
    using fo ne by (simp add: coll_lookup_def Let_def all_active_def scope.get_add split: option.split)
  have act: "Scope_Get (sf_vars (last (co_stack c))) k True = Scope_Get (sf_vars (last (co_stack c))) k False"
    using fo by (simp add: all_active_def)
  show ?thesis
    unfolding UpdateVar_eq [OF ok(1)] Get_combined [OF ok(2)] act
    by (auto simp: set split: sum.split)
qed

section \<open>Frames\<close>

text \<open>Steps that stay above the first \<open>n\<close> frames.\<close>

inductive above :: "nat \<Rightarrow> Collection \<Rightarrow> Collection \<Rightarrow> bool" for n where
  refl: "above n c c"
| step: "above n c c' \<Longrightarrow> coll_step c' c'' \<Longrightarrow> n < length (co_stack c'') \<Longrightarrow> above n c c''"

text \<open>Every operation but the two on frames keeps the stack below its top.\<close>

definition same_below :: "Collection \<Rightarrow> Collection \<Rightarrow> bool" where
  "same_below c c' \<longleftrightarrow> (\<exists>x. co_stack c' = butlast (co_stack c) @ [x])"

lemma same_belowI:
  "co_stack c \<noteq> [] \<Longrightarrow> co_stack c' = co_stack c \<Longrightarrow> same_below c c'"
  "co_stack c' = butlast (co_stack c) @ [x] \<Longrightarrow> same_below c c'"
  unfolding same_below_def by (metis append_butlast_last_id, blast)

lemma same_below_updFrame: "map_option noCache (updFrame u c) = Some c' \<Longrightarrow> same_below c c'"
  by (auto dest!: updFrame_SomeD intro: same_belowI)

lemma same_below_DeclareVar:
  assumes "coll_ok c" "DeclareVar c k opts = Some (r, c')"
  shows "same_below c c'"
proof -
  have ok: "scopes_ok c" "scopes_ok (noCache c)" and ne: "co_stack c \<noteq> []"
    using assms(1) by (auto simp: coll_ok_def scopes_ok_def)
  show ?thesis
    using assms(2) ne unfolding DeclareVar_def Let_def declareScoped_eq [OF ok(2)] declareOldArg_eq [OF assms(1)]
    by (auto intro: same_belowI split: if_splits sum.splits)
qed

lemma same_below_UpdateVar:
  assumes "coll_ok c" "UpdateVar c k v p = Some (r, c')"
  shows "same_below c c'"
proof -
  have ne: "co_stack c \<noteq> []" using assms(1) by (auto simp: coll_ok_def scopes_ok_def)
  show ?thesis
    using assms(2) ne unfolding UpdateVar_eq [OF assms(1)] by (auto intro: same_belowI split: if_splits sum.splits)
qed

lemma same_below_effective: "coll_ok c \<Longrightarrow> effective c = Some (s, c') \<Longrightarrow> same_below c c'"
  using effective_ok [of c] by (auto intro!: same_belowI(1) simp: coll_ok_def scopes_ok_def)

lemma coll_step_below:
  "coll_step c c' \<Longrightarrow> coll_ok c \<Longrightarrow>
    same_below c c' \<or> butlast (co_stack c') = co_stack c \<or> co_stack c' = butlast (co_stack c)"
proof (induction rule: coll_step.induct)
  case (8 c k b v c')
  then show ?case using same_below_effective by (auto simp: Coll_Get_def bind_eq_Some_conv)
next
  case (9 c b ks c')
  then show ?case using same_below_effective by (auto simp: SortedVariables_def bind_eq_Some_conv)
next
  case (15 ov g c name ref gi)
  then show ?case by (simp add: EnterFrame_def)
next
  case (16 c c')
  then show ?case by (auto simp: ExitFrame_def split: if_splits)
qed (auto simp: SetGlobals_def SetOverriding_def SetArg_def UnsetArg_def ResetEnvVars_def SetOrg_def SetProject_def
    SetPlatform_def Coll_SetLocally_def DeclareEnv_def coll_ok_def scopes_ok_def
    intro: same_below_updFrame same_below_DeclareVar same_below_UpdateVar same_belowI(1)
    simp del: map_option_eq_Some)

lemma coll_step_take:
  assumes "coll_step c c'" "coll_ok c" "n < length (co_stack c)" "n < length (co_stack c')"
  shows "take n (co_stack c') = take n (co_stack c)"
  using coll_step_below [OF assms(1,2)]
proof (elim disjE)
  assume "same_below c c'"
  then show ?thesis using assms(3) by (auto simp: same_below_def take_butlast)
next
  assume "butlast (co_stack c') = co_stack c"
  then show ?thesis using assms(4) by (metis take_butlast)
next
  assume "co_stack c' = butlast (co_stack c)"
  then show ?thesis using assms(3) by (simp add: take_butlast)
qed

lemma above_ok:
  "above n c c' \<Longrightarrow> coll_ok c \<Longrightarrow> n < length (co_stack c) \<Longrightarrow>
    coll_ok c' \<and> n < length (co_stack c') \<and> take n (co_stack c') = take n (co_stack c)"
  by (induction rule: above.induct) (auto intro: coll_step_ok dest: coll_step_take)


section \<open>A concrete collection\<close>

definition ex_opts :: NewCollectionOpt where
  "ex_opts = \<lparr>no_PlatformResolver = None, no_GitMeta = None, no_OverridingVars = None,
     no_Features = \<lparr>fe_on = (\<lambda>k. k = ''arg-scope-and-set'' \<or> k = ''shell-out-anywhere''), fe_Major = 0, fe_Minor = 8\<rparr>,
     no_GlobalImports = Map.empty, no_Log = [],
     no_Target = \<lparr>t_GitURL = [], t_Tag = [], t_LocalPath = ''.'', t_ImportRef = [], t_Target = ''build''\<rparr>,
     no_BuiltinArgs = \<lparr>da_EarthVersion = [], da_EarthBuildSha = []\<rparr>, no_Push = False, no_CI = False\<rparr>"

definition ex_coll :: Collection where
  "ex_coll = NewCollection id sp_OS ex_opts"

lemma ex_coll_reachable: "coll_reachable ex_coll"
  unfolding ex_coll_def by (rule coll_reachable.start) (simp add: ex_opts_def)

lemma ex_coll_simps:
  "co_errorOnRedeclare ex_coll" "co_shelloutAnywhere ex_coll" "length (co_stack ex_coll) = 1"
  "coll_lookup ex_coll k True = None"
  by (simp_all add: ex_coll_def NewCollection_def ex_opts_def Let_def coll_lookup_def scope.get_new)


definition ex_declared :: Collection where
  "ex_declared = snd (the (DeclareVar ex_coll ''x'' [WithValue ''1'']))"

lemma ex_declared: "DeclareVar ex_coll ''x'' [WithValue ''1''] = Some (Inr (''1'', ''1''), ex_declared)"
  by (simp add: ex_declared_def DeclareVar_def ex_coll_simps declare_prefs_def WithValue_def declareScoped_def
      topFrame_def updFrame_def ex_coll_def NewCollection_def ex_opts_def Let_def Scope_Add_def NewScope_def)

theorem DeclareVar_scoped_witness:
  "\<forall>j. coll_lookup ex_declared j True = (if j = ''x'' then Some ''1'' else None)"
  using DeclareVar_scoped [OF ex_coll_reachable ex_coll_simps(1,2), of "''x''" "[WithValue ''1'']"] ex_declared
  by (simp add: declare_prefs_def WithValue_def declared_def ex_coll_simps)

lemma ex_declared_reachable: "coll_reachable ex_declared"
  using ex_coll_reachable coll_step.intros(10) [OF ex_declared] by (rule coll_reachable.step)

lemma ex_declared_state:
  "co_errorOnRedeclare ex_declared" "co_shelloutAnywhere ex_declared"
  "coll_lookup ex_declared ''x'' True = Some ''1''"
  by (simp_all add: ex_declared_def DeclareVar_def ex_coll_simps declare_prefs_def WithValue_def coll_lookup_def
      declareScoped_def topFrame_def updFrame_def ex_coll_def NewCollection_def ex_opts_def Let_def Scope_Add_def
      Scope_Get_def NewScope_def)

lemma ex_redeclared: "\<exists>r c2. DeclareVar ex_declared ''x'' [AsArg, WithValue ''2''] = Some (r, c2)"
proof -
  have "scopes_ok (noCache ex_declared)"
    using coll_reachable_ok [OF ex_declared_reachable] by (simp add: coll_ok_def scopes_ok_def)
  then show ?thesis by (simp add: DeclareVar_def ex_declared_state declareScoped_eq Let_def)
qed

theorem DeclareVar_twice_witness:
  "\<exists>e c2. DeclareVar ex_declared ''x'' [AsArg, WithValue ''2''] = Some (Inl e, c2) \<and>
    coll_lookup c2 = coll_lookup ex_declared"
proof -
  obtain r c2 where d: "DeclareVar ex_declared ''x'' [AsArg, WithValue ''2''] = Some (r, c2)"
    using ex_redeclared by blast
  then show ?thesis
    using DeclareVar_twice [OF ex_coll_reachable ex_coll_simps(1,2) ex_declared _ _ d]
    by (cases r) (auto simp: declare_prefs_def WithValue_def AsArg_def)
qed

theorem UpdateVar_only_let_witness:
  "\<exists>e c'. UpdateVar ex_declared ''x'' ''2'' None = Some (e, c') \<and> e \<noteq> Some (ErrVarNotFound ''x'')"
  using UpdateVar_only_let [OF ex_declared_reachable, of "''x''" "''2''" None]
  by (auto simp: ex_declared_state)


end
