(* ===== verification/Var_Args.thy ===== *)
theory Var_Args
  imports Var_Correct
begin

text \<open>
  Arguments and their text: \<^verbatim>\<open>variables/util.go\<close> (key-value strings), \<^verbatim>\<open>variables/parsenew.go\<close>
  (flag arguments) and \<^verbatim>\<open>variables/parse.go\<close> (scopes from arguments). The environment of the
  process, which \<open>ParseCommandLineArgs\<close> reads, is the map \<open>env\<close>.
\<close>

section \<open>Key-value strings\<close>

fun unescapeLoop :: "string \<Rightarrow> bool \<Rightarrow> string" where
  "unescapeLoop [] escaped = []"
| "unescapeLoop (c # s) escaped =
    (if escaped then c # unescapeLoop s False
     else if c = ch_bslash then unescapeLoop s True
     else c # unescapeLoop s False)"

definition unescapeKey :: "string \<Rightarrow> string" where
  "unescapeKey s = (if ch_bslash \<notin> set s then s else unescapeLoop s False)"

text \<open>The index of the first \<open>=\<close> that is not escaped.\<close>

fun keyEnd :: "string \<Rightarrow> bool \<Rightarrow> nat \<Rightarrow> nat option" where
  "keyEnd [] escaped i = None"
| "keyEnd (c # s) escaped i =
    (if escaped then keyEnd s False (i + 1)
     else if c = ch_bslash then keyEnd s True (i + 1)
     else if c = CHR ''='' then Some i
     else keyEnd s False (i + 1))"

definition ParseKeyValue :: "string \<Rightarrow> string \<times> string \<times> bool" where
  "ParseKeyValue s =
    (if ch_bslash \<notin> set s then
       (case SplitN2 s (CHR ''='') of [a, b] \<Rightarrow> (a, b, True) | _ \<Rightarrow> (s, [], False))
     else case keyEnd s False 0 of
       Some i \<Rightarrow> (unescapeKey (take i s), drop (i + 1) s, True)
     | None \<Rightarrow> (unescapeKey s, [], False))"

fun addEnvLoop :: "string list \<Rightarrow> string \<Rightarrow> string \<Rightarrow> string list option" where
  "addEnvLoop [] key val = None"
| "addEnvLoop (envVar # envVars) key val =
    (if fst (ParseKeyValue envVar) = key then Some ((key @ ''='' @ val) # envVars)
     else map_option ((#) envVar) (addEnvLoop envVars key val))"

definition AddEnv :: "string list \<Rightarrow> string \<Rightarrow> string \<Rightarrow> string list" where
  "AddEnv envVars key val =
    (case addEnvLoop envVars key val of Some r \<Rightarrow> r | None \<Rightarrow> envVars @ [key @ ''='' @ val])"

section \<open>Flag arguments\<close>

datatype flag_error =
    InvalidFlagError string string
  | NoValueProvided string
  | InvalidArgument string

definition checkInvalidFlag :: "string \<Rightarrow> flag_error option" where
  "checkInvalidFlag arg =
    (let i = length (takeWhile (\<lambda>c. c = CHR ''-'') arg) in
     if i > 0 \<and> i < length arg \<and> i \<noteq> 2 then
       (let firstChar = (of_char (arg ! i) :: nat);
            isFlag = (97 \<le> firstChar \<and> firstChar \<le> 122) \<or> (65 \<le> firstChar \<and> firstChar \<le> 90) \<or> firstChar = 95
        in if isFlag then Some (InvalidFlagError (hd (SplitN2 arg (CHR ''=''))) (''--'' @ drop i arg)) else None)
     else None)"

definition escapeEquals :: "string \<Rightarrow> string" where
  "escapeEquals k = concat (map (\<lambda>c. if c = CHR ''='' then [ch_bslash, CHR ''=''] else [c]) k)"

text \<open>The loop over the arguments: the pending key, the flags and the other arguments.\<close>

fun flagLoop :: "string list \<Rightarrow> string \<Rightarrow> string list \<Rightarrow> string list \<Rightarrow> flag_error + (string list \<times> string list)" where
  "flagLoop [] keyFromPrev flags nonFlags =
    (if keyFromPrev \<noteq> [] then Inl (NoValueProvided keyFromPrev) else Inr (flags, nonFlags))"
| "flagLoop (arg # args) keyFromPrev flags nonFlags =
    (if keyFromPrev \<noteq> [] then flagLoop args [] (flags @ [escapeEquals keyFromPrev @ ''='' @ arg]) nonFlags
     else case checkInvalidFlag arg of
       Some e \<Rightarrow> Inl e
     | None \<Rightarrow>
         if \<not> prefix ''--'' arg then flagLoop args [] flags (nonFlags @ [arg])
         else (case ParseKeyValue (drop 2 arg) of (k, v, hasValue) \<Rightarrow>
           if \<not> hasValue then flagLoop args k flags nonFlags
           else flagLoop args [] (flags @ [escapeEquals k @ ''='' @ v]) nonFlags))"

definition ParseFlagArgsWithNonFlags :: "string list \<Rightarrow> flag_error + (string list \<times> string list)" where
  "ParseFlagArgsWithNonFlags args = flagLoop args [] [] []"

definition ParseFlagArgs :: "string list \<Rightarrow> flag_error + string list" where
  "ParseFlagArgs args = rbind (ParseFlagArgsWithNonFlags args) (\<lambda>(flags, nonFlags).
     if nonFlags \<noteq> [] then Inl (InvalidArgument (nonFlags ! 0)) else Inr flags)"

section \<open>Scopes from arguments\<close>

fun commandLineLoop :: "(string \<rightharpoonup> string) \<Rightarrow> string list \<Rightarrow> Scope \<Rightarrow> var_error + Scope" where
  "commandLineLoop env [] ret = Inr ret"
| "commandLineLoop env (arg # args) ret =
    (let splitArg = SplitN2 arg (CHR ''=''); key = hd splitArg in
     if IsBuiltIn key then Inl (ErrBuiltinOnCommandLine key)
     else case (if length splitArg = 2 then Some (splitArg ! 1) else env key) of
       None \<Rightarrow> Inl (ErrEnvNotSet key)
     | Some v \<Rightarrow> commandLineLoop env args (snd (Scope_Add ret key v False False)))"

definition ParseCommandLineArgs :: "(string \<rightharpoonup> string) \<Rightarrow> string list \<Rightarrow> var_error + Scope" where
  "ParseCommandLineArgs env args = commandLineLoop env args NewScope"

definition parseArg ::
  "string \<Rightarrow> pncvf \<Rightarrow> Collection \<Rightarrow> ((var_error + (string \<times> string)) \<times> Collection) option" where
  "parseArg arg pncvf current =
    (let splitArg = SplitN2 arg (CHR ''=''); name = hd splitArg in
     if length splitArg = 2 then
       (if IsBuiltIn name then Some (Inl (ErrBuiltinValue name), current)
        else Some (rbind (parseArgValue name (splitArg ! 1) pncvf) (\<lambda>v. Inr (name, v)), current))
     else do {
       (v, current) \<leftarrow> Coll_Get current name True;
       Some (case v of None \<Rightarrow> Inl (ErrNotInferred name) | Some v \<Rightarrow> Inr (name, v), current) })"

fun buildArgsLoop :: "string list \<Rightarrow> pncvf \<Rightarrow> Collection \<Rightarrow> Scope \<Rightarrow> ((var_error + Scope) \<times> Collection) option" where
  "buildArgsLoop [] pncvf current ret = Some (Inr ret, current)"
| "buildArgsLoop (arg # args) pncvf current ret = do {
     (r, current) \<leftarrow> parseArg arg pncvf current;
     case r of
       Inl e \<Rightarrow> Some (Inl (ErrParseBuildArg arg e), current)
     | Inr (name, v) \<Rightarrow> buildArgsLoop args pncvf current (snd (Scope_Add ret name v False False)) }"

definition Var_ParseArgs :: "string list \<Rightarrow> pncvf \<Rightarrow> Collection \<Rightarrow> ((var_error + Scope) \<times> Collection) option" where
  "Var_ParseArgs args pncvf current = buildArgsLoop args pncvf current NewScope"

definition ParseEnvVars :: "string list \<Rightarrow> Scope" where
  "ParseEnvVars envVars =
    foldl (\<lambda>ret envVar. case ParseKeyValue envVar of (k, v, _) \<Rightarrow> snd (Scope_Add ret k v True False)) NewScope envVars"

section \<open>Properties of key-value strings\<close>

lemma unescapeLoop_plain: "ch_bslash \<notin> set s \<Longrightarrow> unescapeLoop s False = s"
  by (induction s) auto

lemma unescapeKey_loop: "unescapeKey s = unescapeLoop s False"
  by (simp add: unescapeKey_def unescapeLoop_plain)

definition escapeKey :: "string \<Rightarrow> string" where
  "escapeKey k = concat (map (\<lambda>c. if c = ch_bslash \<or> c = CHR ''='' then [ch_bslash, c] else [c]) k)"

lemma escapeKey_simps [simp]:
  "escapeKey [] = []"
  "escapeKey (c # k) = (if c = ch_bslash \<or> c = CHR ''='' then [ch_bslash, c] else [c]) @ escapeKey k"
  by (simp_all add: escapeKey_def)

lemma keyEnd_escapeKey: "keyEnd (escapeKey k @ CHR ''='' # v) False i = Some (i + length (escapeKey k))"
  by (induction k arbitrary: i) auto

lemma keyEnd_escapeKey_none: "keyEnd (escapeKey k) False i = None"
  by (induction k arbitrary: i) auto

lemma unescapeLoop_escapeKey: "unescapeLoop (escapeKey k) False = k"
  by (induction k) auto

lemma escapeKey_plain: "ch_bslash \<notin> set k \<Longrightarrow> CHR ''='' \<notin> set k \<Longrightarrow> escapeKey k = k"
  by (induction k) auto

text \<open>What the slow path computes.\<close>

definition scanKeyValue :: "string \<Rightarrow> string \<times> string \<times> bool" where
  "scanKeyValue s = (case keyEnd s False 0 of
     Some i \<Rightarrow> (unescapeLoop (take i s) False, drop (i + 1) s, True)
   | None \<Rightarrow> (unescapeLoop s False, [], False))"

lemma ParseKeyValue_scan: "ParseKeyValue s = scanKeyValue s"
proof (cases "ch_bslash \<in> set s")
  case True
  then show ?thesis by (simp add: ParseKeyValue_def scanKeyValue_def unescapeKey_loop split: option.split)
next
  case False
  show ?thesis
  proof (cases rule: SplitN2_cases [of "CHR ''=''" s])
    case none
    then have "keyEnd s False 0 = None" using False keyEnd_escapeKey_none [of s 0] by (simp add: escapeKey_plain)
    then show ?thesis using none False by (simp add: ParseKeyValue_def scanKeyValue_def unescapeLoop_plain)
  next
    case (some a b)
    then have "keyEnd s False 0 = Some (length a)"
      using False keyEnd_escapeKey [of a b 0] by (simp add: escapeKey_plain)
    then show ?thesis using some False by (simp add: ParseKeyValue_def scanKeyValue_def unescapeLoop_plain)
  qed
qed

text \<open>
  \<open>ParseKeyValue\<close>: the fast path for strings without a backslash gives what the byte scan
  gives, and parsing inverts escaping: for every key and value, \<open>escaped key = value\<close> parses
  to the key and the value, and an escaped key alone to the key without a value.
\<close>

theorem ParseKeyValue_roundtrip:
  "ParseKeyValue s = scanKeyValue s \<and>
   ParseKeyValue (escapeKey k @ ''='' @ v) = (k, v, True) \<and> ParseKeyValue (escapeKey k) = (k, [], False)"
  by (simp add: ParseKeyValue_scan scanKeyValue_def keyEnd_escapeKey keyEnd_escapeKey_none unescapeLoop_escapeKey)

lemma ParseKeyValue_plain:
  "ch_bslash \<notin> set k \<Longrightarrow> CHR ''='' \<notin> set k \<Longrightarrow> ParseKeyValue (k @ CHR ''='' # v) = (k, v, True)"
  "ch_bslash \<notin> set k \<Longrightarrow> CHR ''='' \<notin> set k \<Longrightarrow> ParseKeyValue k = (k, [], False)"
  using ParseKeyValue_scan keyEnd_escapeKey [of k v 0] keyEnd_escapeKey_none [of k 0]
  by (simp_all add: scanKeyValue_def escapeKey_plain unescapeLoop_plain)

section \<open>Properties of flag arguments\<close>

text \<open>A name as the flags of a build have it: it starts with a letter or an underscore and
  holds no character with a meaning of its own.\<close>

definition flag_name :: "string \<Rightarrow> bool" where
  "flag_name k \<longleftrightarrow> k \<noteq> [] \<and> ch_bslash \<notin> set k \<and> CHR ''='' \<notin> set k \<and> hd k \<noteq> CHR ''-''"

lemma checkInvalidFlag_two: "hd k \<noteq> CHR ''-'' \<Longrightarrow> k \<noteq> [] \<Longrightarrow> checkInvalidFlag (CHR ''-'' # CHR ''-'' # k @ t) = None"
  by (cases k) (simp_all add: checkInvalidFlag_def Let_def)

lemma escapeEquals_plain: "CHR ''='' \<notin> set k \<Longrightarrow> escapeEquals k = k"
  by (induction k) (auto simp: escapeEquals_def)

lemma flagLoop_eq: "flag_name k \<Longrightarrow> flagLoop ((''--'' @ k @ ''='' @ v) # args) [] fs ns = flagLoop args [] (fs @ [k @ ''='' @ v]) ns"
  using checkInvalidFlag_two [of k "CHR ''='' # v"] ParseKeyValue_plain(1) [of k v]
  by (simp add: flag_name_def escapeEquals_plain)

lemma flagLoop_two: "flag_name k \<Longrightarrow> flagLoop ((''--'' @ k) # v # args) [] fs ns = flagLoop args [] (fs @ [k @ ''='' @ v]) ns"
  using checkInvalidFlag_two [of k "[]"] ParseKeyValue_plain(2) [of k]
  by (simp add: flag_name_def escapeEquals_plain)

text \<open>The two ways to write a flag, one per element of the list.\<close>

primrec flag_text :: "(bool \<times> string \<times> string) list \<Rightarrow> string list" where
  "flag_text [] = []"
| "flag_text (x # xs) = (case x of (eq, k, v) \<Rightarrow>
     (if eq then [''--'' @ k @ ''='' @ v] else [''--'' @ k, v]) @ flag_text xs)"

lemma flagLoop_text:
  "\<forall>(eq, k, v) \<in> set xs. flag_name k \<Longrightarrow>
    flagLoop (flag_text xs) [] fs ns = Inr (fs @ map (\<lambda>(eq, k, v). k @ ''='' @ v) xs, ns)"
proof (induction xs arbitrary: fs)
  case (Cons x xs)
  obtain eq k v where x: "x = (eq, k, v)" by (cases x)
  have "flag_name k" using Cons.prems x by auto
  then show ?case using Cons x by (simp add: flagLoop_eq [simplified] flagLoop_two [simplified])
qed simp

text \<open>
  \<open>ParseFlagArgs\<close> accepts \<open>--name=value\<close> and \<open>--name value\<close>, in any mixture and with any
  values, and gives the same list of \<open>name=value\<close> for both.
\<close>

theorem ParseFlagArgs_forms:
  "\<forall>(eq, k, v) \<in> set xs. flag_name k \<Longrightarrow>
    ParseFlagArgs (flag_text xs) = Inr (map (\<lambda>(eq, k, v). k @ ''='' @ v) xs)"
  using flagLoop_text [of xs "[]" "[]"] by (simp add: ParseFlagArgs_def ParseFlagArgsWithNonFlags_def)

theorem ParseFlagArgs_forms_witness:
  "ParseFlagArgs [''--a=1'', ''--b'', ''--x''] = Inr [''a=1'', ''b=--x'']"
  using ParseFlagArgs_forms [of "[(True, ''a'', ''1''), (False, ''b'', ''--x'')]"] by (simp add: flag_name_def)

text \<open>An equals sign in the name of a flag does not survive: \<open>ParseFlagArgs\<close> escapes it, and
  the scopes are built with a split that knows no escapes.\<close>

lemma ParseFlagArgs_equals_lost:
  "ParseFlagArgs [''--a'' @ [ch_bslash] @ ''=b=c''] = Inr [''a'' @ [ch_bslash] @ ''=b=c'']"
  "map_option (\<lambda>s. s_variables s) (case ParseCommandLineArgs env [''a'' @ [ch_bslash] @ ''=b=c''] of
     Inl _ \<Rightarrow> None | Inr s \<Rightarrow> Some s) = Some [(''a'' @ [ch_bslash], ''b=c'')]"
  by (simp_all add: ParseFlagArgs_def ParseFlagArgsWithNonFlags_def checkInvalidFlag_def ParseKeyValue_def
      unescapeKey_def escapeEquals_def ParseCommandLineArgs_def SplitN2_def Scope_Add_def NewScope_def
      IsBuiltIn_def reserved_args_def earth_suffixes_def Let_def)

section \<open>Properties of scopes from arguments\<close>

lemma Get_addArgs:
  "scope_wf s \<Longrightarrow> Scope_Get (addArgs s kvs) k False =
    (case map_of (rev kvs) k of Some v \<Rightarrow> Some v | None \<Rightarrow> Scope_Get s k False)"
  by (induction kvs arbitrary: s)
    (auto simp: addArgs_simps scope.get_add scope_wf_Add map_add_def split: option.splits)

lemma commandLineLoop_addArgs:
  "\<forall>k \<in> set ks. CHR ''='' \<notin> set k \<and> \<not> IsBuiltIn k \<Longrightarrow>
    commandLineLoop env (map (\<lambda>k. k @ CHR ''='' # f k) ks) ret = Inr (addArgs ret (map (\<lambda>k. (k, f k)) ks))"
  by (induction ks arbitrary: ret) (simp_all add: addArgs_simps SplitN2_append)

lemma map_of_pairs: "map_of (rev (map (\<lambda>k. (k, f k)) ks)) k = (if k \<in> set ks then Some (f k) else None)"
  by (induction ks) (auto simp: map_add_def split: option.splits)

text \<open>
  \<open>BuildArgs\<close> and \<open>ParseCommandLineArgs\<close> are inverse: the build arguments printed from a
  scope, read back from the command line, give a scope with the same values (none of them
  active), whatever the environment of the process, provided no name is reserved or holds an
  equals sign.
\<close>

theorem BuildArgs_roundtrip:
  assumes "scope_wf s" "\<forall>k \<in> fst ` set (s_variables s). CHR ''='' \<notin> set k \<and> \<not> IsBuiltIn k"
  shows "\<exists>s'. ParseCommandLineArgs env (BuildArgs s False) = Inr s' \<and>
    (\<forall>k. Scope_Get s' k True = None \<and> Scope_Get s' k False = Scope_Get s k False)"
proof -
  define f where "f k = (case Scope_Get s k False of None \<Rightarrow> [] | Some v \<Rightarrow> v)" for k
  define ks where "ks = Scope_Sorted s False"
  have ks: "set ks = fst ` set (s_variables s)" by (auto simp: ks_def Scope_Sorted_def)
  define t where "t = addArgs NewScope (map (\<lambda>k. (k, f k)) ks)"
  have "BuildArgs s False = map (\<lambda>k. k @ CHR ''='' # f k) ks"
    by (simp add: BuildArgs_def f_def ks_def)
  then have "ParseCommandLineArgs env (BuildArgs s False) = Inr t"
    using commandLineLoop_addArgs [of ks env f NewScope] assms(2) ks by (simp add: ParseCommandLineArgs_def t_def)
  moreover have "Scope_Get t k True = None" for k
    using inactive_addArgs [OF inactive_new] by (simp add: inactive_def t_def)
  moreover have "Scope_Get t k False = Scope_Get s k False" for k
  proof (cases "k \<in> set ks")
    case True
    then have "Scope_Get s k False \<noteq> None"
      using ks by (force simp: Scope_Get_def map_of_eq_None_iff split: option.split)
    then show ?thesis using True by (auto simp: t_def Get_addArgs map_of_pairs f_def)
  next
    case False
    then have "Scope_Get s k False = None"
      using ks by (auto simp: Scope_Get_def map_of_eq_None_iff split: option.split dest: map_of_SomeD)
    then show ?thesis using False by (simp add: t_def Get_addArgs map_of_pairs scope.get_new)
  qed
  ultimately show ?thesis by blast
qed

theorem BuildArgs_roundtrip_witness:
  "\<exists>s'. ParseCommandLineArgs Map.empty
      (BuildArgs \<lparr>s_variables = [(''b'', ''2=3''), (''a'', ''1'')], s_activeVariables = []\<rparr> False) = Inr s' \<and>
    Scope_Get s' ''b'' False = Some ''2=3''"
  using BuildArgs_roundtrip [of "\<lparr>s_variables = [(''b'', ''2=3''), (''a'', ''1'')], s_activeVariables = []\<rparr>" Map.empty]
  by (auto simp: scope_wf_def IsBuiltIn_def reserved_args_def earth_suffixes_def Scope_Get_def)

text \<open>The arguments of a BUILD or FROM never panic in a reachable collection, and give an
  inactive scope, as \<open>SetOverriding\<close> and \<open>EnterFrame\<close> need it.\<close>

lemma parseArg_ok:
  assumes "coll_reachable c"
  shows "\<exists>r c'. parseArg arg p c = Some (r, c') \<and> coll_reachable c' \<and> coll_lookup c' = coll_lookup c"
  using assms Coll_Get_reachable [OF assms, of "hd (SplitN2 arg (CHR ''=''))" True] by (auto simp: parseArg_def Let_def)

lemma buildArgsLoop_ok:
  "coll_reachable c \<Longrightarrow> inactive ret \<Longrightarrow> \<exists>r c'. buildArgsLoop args p c ret = Some (r, c') \<and> coll_reachable c' \<and>
    coll_lookup c' = coll_lookup c \<and> (case r of Inl _ \<Rightarrow> True | Inr s \<Rightarrow> inactive s)"
proof (induction args arbitrary: c ret)
  case (Cons arg args)
  obtain r c1 where a: "parseArg arg p c = Some (r, c1)" "coll_reachable c1" "coll_lookup c1 = coll_lookup c"
    using parseArg_ok [OF Cons.prems(1)] by blast
  show ?case
  proof (cases r)
    case (Inr nv)
    obtain name v where "nv = (name, v)" by fastforce
    then show ?thesis
      using a Inr Cons.IH [OF a(2) inactive_Add [OF Cons.prems(2)], of name v] by simp
  qed (use a in simp)
qed simp

text \<open>
  C31. \<open>ParseArgs\<close> never panics in a collection the package can reach, changes no lookup of it,
  and the scope it builds has no active variable, which is what \<open>SetOverriding\<close>, \<open>EnterFrame\<close>
  and \<open>NewCollection\<close> rely on.
\<close>

theorem ParseArgs_inactive:
  "coll_reachable c \<Longrightarrow> \<exists>r c'. Var_ParseArgs args p c = Some (r, c') \<and> coll_reachable c' \<and>
    coll_lookup c' = coll_lookup c \<and> (case r of Inl _ \<Rightarrow> True | Inr s \<Rightarrow> inactive s)"
  unfolding Var_ParseArgs_def by (rule buildArgsLoop_ok) simp_all

theorem ParseArgs_inactive_witness:
  "\<exists>s c'. Var_ParseArgs [''a=1''] None ex_coll = Some (Inr s, c') \<and> inactive s"
  using ParseArgs_inactive [OF ex_coll_reachable, of "[''a=1'']" None]
  by (auto simp: Var_ParseArgs_def parseArg_def SplitN2_def parseArgValue_def IsBuiltIn_def reserved_args_def
      earth_suffixes_def Let_def)

section \<open>Environment variables\<close>

lemma ParseEnvVars_snoc:
  "ParseEnvVars (es @ [e]) = (case ParseKeyValue e of (k, v, _) \<Rightarrow> snd (Scope_Add (ParseEnvVars es) k v True False))"
  by (simp add: ParseEnvVars_def)

lemma ParseEnvVars_ok: "all_active (ParseEnvVars es)"
  by (induction es rule: rev_induct)
    (auto simp: ParseEnvVars_snoc all_active_Add split: prod.split, simp add: ParseEnvVars_def)

definition env_pairs :: "string list \<Rightarrow> (string \<times> string) list" where
  "env_pairs es = map (\<lambda>e. case ParseKeyValue e of (k, v, _) \<Rightarrow> (k, v)) es"

lemma Get_ParseEnvVars: "Scope_Get (ParseEnvVars es) k b = map_of (rev (env_pairs es)) k"
proof (induction es rule: rev_induct)
  case (snoc e es)
  obtain j v h where "ParseKeyValue e = (j, v, h)" by (cases "ParseKeyValue e")
  then show ?case using snoc ParseEnvVars_ok [of es]
    by (auto simp: ParseEnvVars_snoc env_pairs_def all_active_def scope.get_add)
qed (simp add: ParseEnvVars_def env_pairs_def scope.get_new)

lemma env_pairs_AddEnv:
  assumes "ParseKeyValue (key @ CHR ''='' # v) = (key, v, True)"
  shows "env_pairs (AddEnv es key v) = AList.update key v (env_pairs es)"
proof -
  have "case addEnvLoop es key v of None \<Rightarrow> AList.update key v (env_pairs es) = env_pairs es @ [(key, v)]
    | Some r \<Rightarrow> env_pairs r = AList.update key v (env_pairs es)"
    using assms by (induction es) (auto simp: env_pairs_def split: prod.splits option.splits)
  then show ?thesis using assms by (auto simp: AddEnv_def env_pairs_def split: option.splits)
qed

text \<open>
  \<open>AddEnv\<close> sets an env var: in a list without duplicate names, the variables read back are
  those of the list with the new value for that one name.
\<close>

theorem AddEnv_sets:
  assumes "distinct (map fst (env_pairs es))" "ch_bslash \<notin> set key" "CHR ''='' \<notin> set key"
  shows "Scope_Get (ParseEnvVars (AddEnv es key v)) k True =
    (if k = key then Some v else Scope_Get (ParseEnvVars es) k True)"
proof -
  have p: "env_pairs (AddEnv es key v) = AList.update key v (env_pairs es)"
    by (rule env_pairs_AddEnv) (rule ParseKeyValue_plain(1) [OF assms(2,3)])
  have "distinct (map fst (AList.update key v (env_pairs es)))" using assms(1) by (rule distinct_update)
  then show ?thesis
    using assms(1) by (simp add: Get_ParseEnvVars p map_of_rev_distinct update_conv')
qed

theorem AddEnv_sets_witness:
  "Scope_Get (ParseEnvVars (AddEnv [''PATH=/bin'', ''HOME=/root''] ''PATH'' ''/usr/bin'')) ''PATH'' True = Some ''/usr/bin''"
  using AddEnv_sets [of "[''PATH=/bin'', ''HOME=/root'']" "''PATH''" "''/usr/bin''" "''PATH''"]
  by (simp add: env_pairs_def ParseKeyValue_def SplitN2_def)

end
