(* ===== verification/Shell_Lex.thy ===== *)
theory Shell_Lex
  imports Domain_Reference
begin

text \<open>
  Shell word expansion, \<^verbatim>\<open>util/shell/lex.go\<close>. The \<open>text/scanner\<close> of the code is the list of the runes
  still to be read, each with its bytes; a byte order mark at the start is skipped, an
  invalid byte reads as \<open>RuneError\<close>. The callback \<open>ShellOut\<close> and the Unicode tables of
  letters and digits are fields of the configuration. \<open>process\<close> calls itself through
  \<open>${name:-word}\<close>, so the recursion is bounded by a fuel; \<open>process_total\<close> shows that three
  units per rune are always enough. An error carries the rest of the input, which the code
  inspects after an error inside braces.
\<close>

type_synonym scanner = "(rune \<times> string) list"

abbreviation EOF :: rune where "EOF \<equiv> -1"

datatype sh_error =
    MissingSingleQuote
  | MissingDoubleQuote
  | MissingStop rune
  | MissingParen
  | MissingBrace
  | MissingColon
  | BadSubstitution
  | UnsupportedModifier rune
  | VarMessage string string
  | ErrNoShellOut
  | ShellOutError string
  | OutOfFuel

record shellWord =
  sw_envs :: "string \<rightharpoonup> string"
  sw_shellOutEnvs :: "string list"
  sw_shellOut :: "(string \<Rightarrow> string + string) option"
  sw_escapeToken :: rune
  sw_rawQuotes :: bool
  sw_rawEscapes :: bool
  sw_skipUnsetEnv :: bool
  sw_skipProcessQuotes :: bool
  sw_IsLetter :: "rune \<Rightarrow> bool"
  sw_IsDigit :: "rune \<Rightarrow> bool"

type_synonym 'a sh_result = "(sh_error \<times> scanner) + ('a \<times> scanner)"

definition sh_bind :: "'a sh_result \<Rightarrow> ('a \<Rightarrow> scanner \<Rightarrow> 'b sh_result) \<Rightarrow> 'b sh_result" where
  "sh_bind r f = (case r of Inl e \<Rightarrow> Inl e | Inr (x, sc) \<Rightarrow> f x sc)"

definition sc_peek :: "scanner \<Rightarrow> rune" where
  "sc_peek sc = (case sc of [] \<Rightarrow> EOF | x # _ \<Rightarrow> fst x)"

section \<open>Words\<close>

record wordsStruct =
  ws_word :: string
  ws_words :: "string list"
  ws_inWord :: bool

definition no_words :: wordsStruct where
  "no_words = \<lparr>ws_word = [], ws_words = [], ws_inWord = False\<rparr>"

definition addRawChar :: "wordsStruct \<Rightarrow> rune \<times> string \<Rightarrow> wordsStruct" where
  "addRawChar w x = w\<lparr>ws_word := ws_word w @ rune_bytes x, ws_inWord := True\<rparr>"

definition addChar :: "wordsStruct \<Rightarrow> rune \<times> string \<Rightarrow> wordsStruct" where
  "addChar w x =
    (if unicode_IsSpace (fst x) \<and> ws_inWord w then
       (if ws_word w \<noteq> [] then w\<lparr>ws_words := ws_words w @ [ws_word w], ws_word := [], ws_inWord := False\<rparr> else w)
     else if \<not> unicode_IsSpace (fst x) then addRawChar w x
     else w)"

definition addString :: "wordsStruct \<Rightarrow> string \<Rightarrow> wordsStruct" where
  "addString w str = foldl addChar w (runes str)"

definition addRawString :: "wordsStruct \<Rightarrow> string \<Rightarrow> wordsStruct" where
  "addRawString w str = w\<lparr>ws_word := ws_word w @ str, ws_inWord := True\<rparr>"

definition getWords :: "wordsStruct \<Rightarrow> string list" where
  "getWords w = (if ws_word w \<noteq> [] then ws_words w @ [ws_word w] else ws_words w)"

section \<open>Quotes, names and shell-outs\<close>

fun singleQuoteLoop :: "bool \<Rightarrow> string \<Rightarrow> scanner \<Rightarrow> string sh_result" where
  "singleQuoteLoop raw res [] = Inl (MissingSingleQuote, [])"
| "singleQuoteLoop raw res (x # sc) =
    (if fst x = 0x27 then Inr (if raw then res @ rune_bytes x else res, sc)
     else singleQuoteLoop raw (res @ rune_bytes x) sc)"

definition processSingleQuote :: "bool \<Rightarrow> scanner \<Rightarrow> string sh_result" where
  "processSingleQuote raw sc =
    singleQuoteLoop raw (case sc of [] \<Rightarrow> [] | x # _ \<Rightarrow> if raw then rune_bytes x else []) (tl sc)"

fun doubleQuoteIgnoringDollarLoop :: "shellWord \<Rightarrow> string \<Rightarrow> scanner \<Rightarrow> string sh_result" where
  "doubleQuoteIgnoringDollarLoop sw res [] = Inl (MissingDoubleQuote, [])"
| "doubleQuoteIgnoringDollarLoop sw res (x # sc) =
    (if fst x = 0x22 then Inr (res @ rune_bytes x, sc)
     else if fst x = sw_escapeToken sw then
       (case sc of
          [] \<Rightarrow> doubleQuoteIgnoringDollarLoop sw (res @ rune_bytes x) []
        | y # sc' \<Rightarrow>
            if fst y = 0x22 \<or> fst y = 0x24 \<or> fst y = sw_escapeToken sw
            then doubleQuoteIgnoringDollarLoop sw (res @ rune_bytes x @ rune_bytes y) sc'
            else doubleQuoteIgnoringDollarLoop sw (res @ rune_bytes x @ rune_bytes x) (y # sc'))
     else doubleQuoteIgnoringDollarLoop sw (res @ rune_bytes x) sc)"

definition processDoubleQuoteIgnoringDollar :: "shellWord \<Rightarrow> scanner \<Rightarrow> string sh_result" where
  "processDoubleQuoteIgnoringDollar sw sc = doubleQuoteIgnoringDollarLoop sw [ch_dquote] sc"

definition runShellOut :: "shellWord \<Rightarrow> string \<Rightarrow> scanner \<Rightarrow> string sh_result" where
  "runShellOut sw command sc =
    (case sw_shellOut sw of
       None \<Rightarrow> Inl (ErrNoShellOut, sc)
     | Some f \<Rightarrow> (case f command of Inl e \<Rightarrow> Inl (ShellOutError e, sc) | Inr v \<Rightarrow> Inr (v, sc)))"

lemma singleQuoteLoop_length: "singleQuoteLoop raw res sc = Inr (v, sc') \<Longrightarrow> length sc' < length sc"
  by (induction raw res sc rule: singleQuoteLoop.induct) (auto split: if_splits)

lemma processSingleQuote_length: "processSingleQuote raw sc = Inr (v, sc') \<Longrightarrow> length sc' < length sc"
  by (cases sc) (auto simp: processSingleQuote_def dest: singleQuoteLoop_length)

lemma doubleQuoteIgnoringDollar_length:
  "doubleQuoteIgnoringDollarLoop sw res sc = Inr (v, sc') \<Longrightarrow> length sc' < length sc"
  by (induction sw res sc rule: doubleQuoteIgnoringDollarLoop.induct) (force split: if_splits list.splits)+

function (sequential) shellOutLoop ::
  "shellWord \<Rightarrow> nat \<Rightarrow> bool \<Rightarrow> string \<Rightarrow> scanner \<Rightarrow> string sh_result" where
  "shellOutLoop sw seen escaped res [] = Inl (MissingParen, [])"
| "shellOutLoop sw seen escaped res (x # sc) =
    (if escaped then shellOutLoop sw seen False (res @ rune_bytes x) sc
     else if fst x = 0x5C then shellOutLoop sw seen True res sc
     else if fst x = 0x29 then
       (if seen - 1 = 0 then runShellOut sw res sc
        else shellOutLoop sw (seen - 1) False (res @ rune_bytes x) sc)
     else if fst x = 0x28 then shellOutLoop sw (seen + 1) False (res @ rune_bytes x) sc
     else if fst x = 0x27 then
       (case processSingleQuote True (x # sc) of
          Inl e \<Rightarrow> Inl e
        | Inr (s, sc') \<Rightarrow> shellOutLoop sw seen False (res @ s) sc')
     else if fst x = 0x22 then
       (case processDoubleQuoteIgnoringDollar sw sc of
          Inl e \<Rightarrow> Inl e
        | Inr (s, sc') \<Rightarrow> shellOutLoop sw seen False (res @ s) sc')
     else shellOutLoop sw seen False (res @ rune_bytes x) sc)"
  by pat_completeness auto
termination
  by (relation "measure (\<lambda>(sw, seen, escaped, res, sc). length sc)")
    (auto simp: processDoubleQuoteIgnoringDollar_def
      dest: doubleQuoteIgnoringDollar_length processSingleQuote_length)

definition processDollarShellOut :: "shellWord \<Rightarrow> scanner \<Rightarrow> string sh_result" where
  "processDollarShellOut sw sc = shellOutLoop sw 1 False [] sc"

definition isSpecialParam :: "rune \<Rightarrow> bool" where
  "isSpecialParam r \<longleftrightarrow> r \<in> {0x40, 0x2A, 0x23, 0x3F, 0x2D, 0x24, 0x21, 0x30}"

definition runes_text :: "scanner \<Rightarrow> string" where
  "runes_text sc = concat (map rune_bytes sc)"

definition processName :: "shellWord \<Rightarrow> scanner \<Rightarrow> string \<times> scanner" where
  "processName sw sc =
    (let digit = (\<lambda>x. sw_IsDigit sw (fst x));
         part = (\<lambda>x. sw_IsLetter sw (fst x) \<or> sw_IsDigit sw (fst x) \<or> fst x = 0x5F) in
     if sc \<noteq> [] \<and> digit (hd sc) then (runes_text (takeWhile digit sc), dropWhile digit sc)
     else if sc \<noteq> [] \<and> isSpecialParam (fst (hd sc)) then (rune_bytes (hd sc), tl sc)
     else (runes_text (takeWhile part sc), dropWhile part sc))"

definition getEnv :: "shellWord \<Rightarrow> string \<Rightarrow> sh_error + string option" where
  "getEnv sw name =
    (case sw_envs sw name of
       Some v \<Rightarrow> Inr (Some v)
     | None \<Rightarrow>
         (case sw_shellOut sw of
            Some f \<Rightarrow> if name \<in> set (sw_shellOutEnvs sw)
              then (case f (''echo $'' @ name) of Inl e \<Rightarrow> Inl (ShellOutError e) | Inr v \<Rightarrow> Inr (Some v))
              else Inr None
          | None \<Rightarrow> Inr None))"

text \<open>The value of a variable and whether it was found; an error stops.\<close>

definition lookup_env :: "shellWord \<Rightarrow> string \<Rightarrow> (string \<Rightarrow> bool \<Rightarrow> scanner \<Rightarrow> string sh_result) \<Rightarrow> scanner \<Rightarrow> string sh_result" where
  "lookup_env sw name f sc =
    (case getEnv sw name of
       Inl e \<Rightarrow> Inl (e, sc)
     | Inr None \<Rightarrow> f [] False sc
     | Inr (Some v) \<Rightarrow> f v True sc)"

section \<open>Expansion\<close>

datatype sh_call = CStop rune string wordsStruct | CDouble string | CDollar

definition stopWord :: "(sh_call \<Rightarrow> scanner \<Rightarrow> (string \<times> string list) sh_result) \<Rightarrow> scanner \<Rightarrow> string sh_result" where
  "stopWord rec sc =
    (case rec (CStop 0x7D [] no_words) sc of
       Inl (e, sc') \<Rightarrow> Inl (if e \<noteq> OutOfFuel \<and> sc' = [] then MissingBrace else e, sc')
     | Inr ((word, _), sc') \<Rightarrow> Inr (word, sc'))"

definition unset_text :: "string \<Rightarrow> string \<Rightarrow> string \<Rightarrow> string" where
  "unset_text name modifier word = ''${'' @ name @ modifier @ word @ ''}''"

definition modifierValue :: "shellWord \<Rightarrow> string \<Rightarrow> rune \<Rightarrow> string \<Rightarrow> string \<Rightarrow> bool \<Rightarrow> scanner \<Rightarrow> string sh_result" where
  "modifierValue sw name modifier word newValue found sc =
    (if modifier = 0x2B then
       (if \<not> found \<and> sw_skipUnsetEnv sw then Inr (unset_text name '':+'' word, sc)
        else Inr (if newValue \<noteq> [] then word else newValue, sc))
     else if modifier = 0x2D then
       (if \<not> found \<and> sw_skipUnsetEnv sw then Inr (unset_text name '':-'' word, sc)
        else Inr (if newValue = [] then word else newValue, sc))
     else if modifier = 0x3F then
       (if \<not> found then
          (if sw_skipUnsetEnv sw then Inr (unset_text name '':?'' word, sc)
           else Inl (VarMessage name (if word \<noteq> [] then word else ''is not allowed to be unset''), sc))
        else if newValue = [] then
          Inl (VarMessage name (if word \<noteq> [] then word else ''is not allowed to be empty''), sc)
        else Inr (newValue, sc))
     else Inl (UnsupportedModifier modifier, sc))"

definition processDollarCurlyBracket ::
  "(sh_call \<Rightarrow> scanner \<Rightarrow> (string \<times> string list) sh_result) \<Rightarrow> shellWord \<Rightarrow> scanner \<Rightarrow> string sh_result" where
  "processDollarCurlyBracket rec sw sc =
    (if sc = [] then Inl (MissingBrace, [])
     else if sc_peek sc = 0x7B \<or> sc_peek sc = 0x7D \<or> sc_peek sc = 0x3A then Inl (BadSubstitution, sc)
     else
       (case processName sw sc of (name, sc1) \<Rightarrow>
          let ch = sc_peek sc1; sc2 = tl sc1 in
          if ch = 0x7D then
            lookup_env sw name (\<lambda>v found sc.
              Inr (if \<not> found \<and> sw_skipUnsetEnv sw then unset_text name [] [] else v, sc)) sc2
          else if ch = 0x3F then
            sh_bind (stopWord rec sc2) (\<lambda>word. lookup_env sw name (\<lambda>v found sc.
              if \<not> found then
                (if sw_skipUnsetEnv sw then Inr (unset_text name ''?'' word, sc)
                 else Inl (VarMessage name (if word \<noteq> [] then word else ''is not allowed to be unset''), sc))
              else Inr (v, sc)))
          else if ch = 0x25 then
            sh_bind (stopWord rec sc2) (\<lambda>word. lookup_env sw name (\<lambda>v found sc.
              if \<not> found \<and> sw_skipUnsetEnv sw then Inr (unset_text name ''%'' word, sc)
              else if length word > length v then Inr (v, sc)
              else if drop (length v - length word) v = word then Inr (take (length v - length word) v, sc)
              else Inr (v, sc)))
          else if ch = 0x23 then
            sh_bind (stopWord rec sc2) (\<lambda>word. lookup_env sw name (\<lambda>v found sc.
              if \<not> found \<and> sw_skipUnsetEnv sw then Inr (unset_text name ''#'' word, sc)
              else if length word > length v then Inr (v, sc)
              else if take (length word) v = word then Inr (drop (length word) v, sc)
              else Inr (v, sc)))
          else if ch = 0x3A then
            (let modifier = sc_peek sc2; sc3 = tl sc2 in
             sh_bind (stopWord rec sc3) (\<lambda>word. lookup_env sw name (\<lambda>v found sc.
               modifierValue sw name modifier word v found sc)))
          else Inl (MissingColon, sc2)))"

definition processDollar ::
  "(sh_call \<Rightarrow> scanner \<Rightarrow> (string \<times> string list) sh_result) \<Rightarrow> shellWord \<Rightarrow> scanner \<Rightarrow> string sh_result" where
  "processDollar rec sw sc =
    (let sc = tl sc in
     if sc_peek sc = 0x28 then processDollarShellOut sw (tl sc)
     else if sc_peek sc = 0x7B then processDollarCurlyBracket rec sw (tl sc)
     else
       (case processName sw sc of (name, sc1) \<Rightarrow>
          if name = [] then Inr (''$'', sc1)
          else lookup_env sw name (\<lambda>v found sc.
            Inr (if \<not> found \<and> sw_skipUnsetEnv sw then ''$'' @ name else v, sc)) sc1))"

text \<open>One round of the loop of \<open>processDoubleQuote\<close>, and of the loop of \<open>processStopOn\<close>.\<close>

definition processDoubleQuote ::
  "(sh_call \<Rightarrow> scanner \<Rightarrow> (string \<times> string list) sh_result) \<Rightarrow> shellWord \<Rightarrow> string \<Rightarrow> scanner \<Rightarrow>
    (string \<times> string list) sh_result" where
  "processDoubleQuote rec sw res sc =
    (case sc of
       [] \<Rightarrow> Inl (MissingDoubleQuote, [])
     | x # sc1 \<Rightarrow>
         if fst x = 0x22 then Inr ((if sw_rawQuotes sw then res @ rune_bytes x else res, []), sc1)
         else if fst x = 0x24 then sh_bind (rec CDollar sc) (\<lambda>(v, _). rec (CDouble (res @ v)))
         else if fst x = sw_escapeToken sw then
           (let res1 = (if sw_rawEscapes sw then res @ rune_bytes x else res) in
            case sc1 of
              [] \<Rightarrow> rec (CDouble res1) []
            | y # sc2 \<Rightarrow>
                if fst y = 0x22 \<or> fst y = 0x24 \<or> fst y = sw_escapeToken sw
                then rec (CDouble (res1 @ rune_bytes y)) sc2
                else rec (CDouble (res1 @ rune_bytes x)) sc1)
         else rec (CDouble (res @ rune_bytes x)) sc1)"

definition stopOn_end :: "rune \<Rightarrow> string \<Rightarrow> wordsStruct \<Rightarrow> (string \<times> string list) sh_result" where
  "stopOn_end stopChar res w =
    (if stopChar \<noteq> EOF then Inl (MissingStop stopChar, []) else Inr ((res, getWords w), []))"

definition processStopOn ::
  "(sh_call \<Rightarrow> scanner \<Rightarrow> (string \<times> string list) sh_result) \<Rightarrow> shellWord \<Rightarrow> rune \<Rightarrow> string \<Rightarrow> wordsStruct \<Rightarrow> scanner \<Rightarrow>
    (string \<times> string list) sh_result" where
  "processStopOn rec sw stopChar res w sc =
    (case sc of
       [] \<Rightarrow> stopOn_end stopChar res w
     | x # sc1 \<Rightarrow>
         if stopChar \<noteq> EOF \<and> fst x = stopChar then Inr ((res, getWords w), sc1)
         else if fst x = 0x24 then
           sh_bind (rec CDollar sc) (\<lambda>(tmp, _). rec (CStop stopChar (res @ tmp) (addString w tmp)))
         else if \<not> sw_skipProcessQuotes sw \<and> fst x = 0x27 then
           sh_bind (processSingleQuote (sw_rawQuotes sw) sc) (\<lambda>tmp. rec (CStop stopChar (res @ tmp) (addRawString w tmp)))
         else if \<not> sw_skipProcessQuotes sw \<and> fst x = 0x22 then
           sh_bind (rec (CDouble (if sw_rawQuotes sw then rune_bytes x else [])) sc1)
             (\<lambda>(tmp, _). rec (CStop stopChar (res @ tmp) (addRawString w tmp)))
         else if fst x = sw_escapeToken sw then
           (let res1 = (if sw_rawEscapes sw then res @ rune_bytes x else res);
                w1 = (if sw_rawEscapes sw then addRawChar w x else w) in
            case sc1 of
              [] \<Rightarrow> stopOn_end stopChar res1 w1
            | y # sc2 \<Rightarrow> rec (CStop stopChar (res1 @ rune_bytes y) (addRawChar w1 y)) sc2)
         else rec (CStop stopChar (res @ rune_bytes x) (addChar w x)) sc1)"

primrec sh_run :: "nat \<Rightarrow> shellWord \<Rightarrow> sh_call \<Rightarrow> scanner \<Rightarrow> (string \<times> string list) sh_result" where
  "sh_run 0 sw call sc = Inl (OutOfFuel, sc)"
| "sh_run (Suc n) sw call sc =
    (case call of
       CStop stopChar res w \<Rightarrow> processStopOn (sh_run n sw) sw stopChar res w sc
     | CDouble res \<Rightarrow> processDoubleQuote (sh_run n sw) sw res sc
     | CDollar \<Rightarrow> sh_bind (processDollar (sh_run n sw) sw sc) (\<lambda>v sc. Inr ((v, []), sc)))"

definition scanner_Init :: "string \<Rightarrow> scanner" where
  "scanner_Init word = (case runes word of x # sc \<Rightarrow> if fst x = 0xFEFF then sc else x # sc | [] \<Rightarrow> [])"

definition sh_fuel :: "scanner \<Rightarrow> nat" where
  "sh_fuel sc = 3 * length sc + 3"

definition sh_process :: "shellWord \<Rightarrow> string \<Rightarrow> sh_error + (string \<times> string list)" where
  "sh_process sw word =
    (let sc = scanner_Init word in
     case sh_run (sh_fuel sc) sw (CStop EOF [] no_words) sc of
       Inl (e, _) \<Rightarrow> Inl e
     | Inr (r, _) \<Rightarrow> Inr r)"

definition ProcessWordWithMap :: "shellWord \<Rightarrow> string \<Rightarrow> sh_error + string" where
  "ProcessWordWithMap sw word = rbind (sh_process sw word) (\<lambda>(w, ws). Inr w)"

definition ProcessWordsWithMap :: "shellWord \<Rightarrow> string \<Rightarrow> sh_error + string list" where
  "ProcessWordsWithMap sw word = rbind (sh_process sw word) (\<lambda>(w, ws). Inr ws)"

text \<open>The lists of \<open>ProcessWord\<close> and \<open>ProcessWords\<close> as maps.\<close>

definition BuildEnvs :: "string list \<Rightarrow> (string \<rightharpoonup> string)" where
  "BuildEnvs env = foldl (\<lambda>envs e. case SplitN2 e (CHR ''='') of [k, v] \<Rightarrow> envs(k \<mapsto> v) | _ \<Rightarrow> envs(e \<mapsto> [])) Map.empty env"

text \<open>\<^verbatim>\<open>util/shell/env_var_name.go\<close>\<close>

definition IsValidEnvVarName :: "string \<Rightarrow> bool" where
  "IsValidEnvVarName name =
    (let letter = (\<lambda>c. let r = (of_char c :: int) in (0x61 \<le> r \<and> r \<le> 0x7A) \<or> (0x41 \<le> r \<and> r \<le> 0x5A));
         dig = (\<lambda>c. let r = (of_char c :: int) in 0x30 \<le> r \<and> r \<le> 0x39) in
     if name = [] then False
     else if \<not> letter (hd name) \<and> hd name \<noteq> CHR ''_'' then False
     else list_all (\<lambda>c. letter c \<or> dig c \<or> c = CHR ''_'') (tl name))"

section \<open>Termination\<close>

text \<open>A result that leaves at most \<open>m\<close> runes and is not the lack of fuel.\<close>

definition leaves :: "nat \<Rightarrow> 'a sh_result \<Rightarrow> bool" where
  "leaves m r = (case r of Inl (e, sc) \<Rightarrow> e \<noteq> OutOfFuel \<and> length sc \<le> m | Inr (_, sc) \<Rightarrow> length sc \<le> m)"

lemma leaves_simps [simp]: "leaves m (Inl (e, sc)) \<longleftrightarrow> e \<noteq> OutOfFuel \<and> length sc \<le> m" "leaves m (Inr (x, sc)) \<longleftrightarrow> length sc \<le> m"
  by (simp_all add: leaves_def)

lemma leaves_mono: "leaves m r \<Longrightarrow> m \<le> k \<Longrightarrow> leaves k r"
  by (auto simp: leaves_def split: sum.splits)

lemma leaves_bind:
  assumes "leaves m r" "\<And>x sc. length sc \<le> m \<Longrightarrow> leaves k (f x sc)" "m \<le> k"
  shows "leaves k (sh_bind r f)"
proof (cases r)
  case (Inl a)
  then show ?thesis using assms(1,3) by (cases a) (simp add: sh_bind_def)
next
  case (Inr b)
  then show ?thesis using assms by (cases b) (simp add: sh_bind_def)
qed

lemma leaves_Suc: "leaves m r \<Longrightarrow> leaves (Suc m) r"
  by (rule leaves_mono) auto

lemma leaves_singleQuote: "leaves (length sc) (singleQuoteLoop raw res sc)"
  by (induction raw res sc rule: singleQuoteLoop.induct) (simp_all add: leaves_Suc)

lemma leaves_processSingleQuote: "leaves (length sc - 1) (processSingleQuote raw sc)"
  using leaves_singleQuote [of "tl sc"] by (simp add: processSingleQuote_def)

lemma leaves_doubleQuoteIgnoringDollar: "leaves (length sc) (doubleQuoteIgnoringDollarLoop sw res sc)"
  by (induction sw res sc rule: doubleQuoteIgnoringDollarLoop.induct)
    (simp_all add: leaves_Suc split: list.split)

lemma leaves_runShellOut: "leaves (length sc) (runShellOut sw command sc)"
  by (simp add: runShellOut_def split: option.split sum.split)

lemma leaves_shellOutLoop: "leaves (length sc) (shellOutLoop sw seen escaped res sc)"
proof (induction sw seen escaped res sc rule: shellOutLoop.induct)
  case (2 sw seen escaped res x sc)
  have q: "leaves (length sc) (processSingleQuote True (x # sc))"
    using leaves_processSingleQuote [of "x # sc" True] by simp
  have d: "leaves (length sc) (processDoubleQuoteIgnoringDollar sw sc)"
    using leaves_doubleQuoteIgnoringDollar [of sc sw] by (simp add: processDoubleQuoteIgnoringDollar_def)
  have k: "leaves (Suc (length sc)) (case r of Inl e \<Rightarrow> Inl e | Inr (s, sc') \<Rightarrow> f s sc')"
    if "leaves (length sc) r" "\<And>s sc'. r = Inr (s, sc') \<Longrightarrow> leaves (length sc') (f s sc')"
    for r :: "string sh_result" and f :: "string \<Rightarrow> scanner \<Rightarrow> string sh_result"
  proof (cases r)
    case (Inl a)
    then show ?thesis using that(1) by (cases a) simp
  next
    case (Inr b)
    then obtain t sc' where b: "r = Inr (t, sc')" by (cases b) auto
    then show ?thesis using that leaves_mono [OF that(2) [OF b], of "Suc (length sc)"] by simp
  qed
  show ?case
    using 2 leaves_runShellOut [of sc sw res] k [OF q] k [OF d] by (simp add: leaves_Suc)
qed simp

lemma leaves_lookup_env:
  "(\<And>v found. leaves m (f v found sc)) \<Longrightarrow> length sc \<le> m \<Longrightarrow> leaves m (lookup_env sw name f sc)"
  by (auto simp: lookup_env_def getEnv_def split: option.split sum.split)

lemma leaves_modifierValue: "length sc \<le> m \<Longrightarrow> leaves m (modifierValue sw name md word v found sc)"
  by (simp add: modifierValue_def)

lemma processName_length: "processName sw sc = (name, sc') \<Longrightarrow> length sc' \<le> length sc"
  using length_dropWhile_le by (auto simp: processName_def Let_def split: if_splits)

text \<open>How much fuel a call needs beyond three units per rune of its input.\<close>

definition call_slack :: "sh_call \<Rightarrow> nat" where
  "call_slack call = (case call of CDollar \<Rightarrow> 1 | _ \<Rightarrow> 2)"

definition call_leaves :: "sh_call \<Rightarrow> scanner \<Rightarrow> nat" where
  "call_leaves call sc = (case call of CDollar \<Rightarrow> length sc - 1 | _ \<Rightarrow> length sc)"

definition rec_ok :: "nat \<Rightarrow> (sh_call \<Rightarrow> scanner \<Rightarrow> (string \<times> string list) sh_result) \<Rightarrow> bool" where
  "rec_ok n rec \<longleftrightarrow> (\<forall>call sc. 3 * length sc + call_slack call < n \<longrightarrow> leaves (call_leaves call sc) (rec call sc))"

lemma rec_ok_call:
  "rec_ok n rec \<Longrightarrow> 3 * length sc + call_slack call < n \<Longrightarrow> call_leaves call sc \<le> m \<Longrightarrow> leaves m (rec call sc)"
  unfolding rec_ok_def using leaves_mono by blast

lemma rec_okD:
  "rec_ok n rec \<Longrightarrow> 3 * length sc + 2 < n \<Longrightarrow> length sc \<le> m \<Longrightarrow> leaves m (rec (CStop c res w) sc)"
  "rec_ok n rec \<Longrightarrow> 3 * length sc + 2 < n \<Longrightarrow> length sc \<le> m \<Longrightarrow> leaves m (rec (CDouble res) sc)"
  "rec_ok n rec \<Longrightarrow> 3 * length sc + 1 < n \<Longrightarrow> length sc - 1 \<le> m \<Longrightarrow> leaves m (rec CDollar sc)"
  by (rule rec_ok_call; simp add: call_slack_def call_leaves_def)+

lemma leaves_stopWord:
  "rec_ok n rec \<Longrightarrow> 3 * length sc + 2 < n \<Longrightarrow> length sc \<le> m \<Longrightarrow> leaves m (stopWord rec sc)"
  using rec_okD(1) [of n rec sc m "0x7D" "[]" no_words]
  by (auto simp: stopWord_def leaves_def split: sum.splits prod.splits)

lemma leaves_curly:
  assumes "rec_ok n rec" "3 * length sc + 2 < n"
  shows "leaves (length sc) (processDollarCurlyBracket rec sw sc)"
proof -
  obtain name sc1 where nm: "processName sw sc = (name, sc1)" by fastforce
  have l: "length sc1 \<le> length sc" using nm by (rule processName_length)
  have sw: "leaves (length sc) (sh_bind (stopWord rec t) (\<lambda>word. lookup_env sw name (f word)))"
    if "length t \<le> length sc" "\<And>word v found u. leaves (length u) (f word v found u)" for t f
  proof (rule leaves_bind)
    show "leaves (length sc) (stopWord rec t)" using assms that(1) by (intro leaves_stopWord) auto
  qed (auto intro!: leaves_lookup_env intro: leaves_mono [OF that(2)])
  have e: "leaves (length sc) (lookup_env sw name f (tl sc1))"
    if "\<And>v found u. leaves (length u) (f v found u)" for f
    using l by (intro leaves_lookup_env) (auto intro: leaves_mono [OF that])
  have l2: "length (tl sc1) \<le> length sc" "length (tl (tl sc1)) \<le> length sc" using l by auto
  show ?thesis
    unfolding processDollarCurlyBracket_def nm Let_def prod.case
    using l2 by (auto intro!: sw e leaves_modifierValue)
qed

lemma leaves_processDollar:
  assumes "rec_ok n rec" "3 * length sc < n" "sc \<noteq> []"
  shows "leaves (length sc - 1) (processDollar rec sw sc)"
proof -
  obtain x t where sc: "sc = x # t" using assms(3) by (cases sc) auto
  obtain name sc1 where nm: "processName sw t = (name, sc1)" by fastforce
  have "length sc1 \<le> length t" using nm by (rule processName_length)
  moreover have "leaves (length t) (processDollarShellOut sw (tl t))"
    using leaves_shellOutLoop [of "tl t"] unfolding processDollarShellOut_def by (rule leaves_mono) simp
  moreover have "t \<noteq> [] \<Longrightarrow> leaves (length t) (processDollarCurlyBracket rec sw (tl t))"
    using assms sc leaves_curly [OF assms(1), of "tl t" sw] by (cases t) (auto intro: leaves_Suc)
  moreover have "sc_peek [] = EOF" by (simp add: sc_peek_def)
  ultimately show ?thesis
    unfolding processDollar_def Let_def sc list.sel nm prod.case
    by (cases t) (auto intro!: leaves_lookup_env)
qed

lemma leaves_processDoubleQuote:
  assumes ok: "rec_ok n rec" and n: "3 * length sc + 1 < n"
  shows "leaves (length sc) (processDoubleQuote rec sw res sc)"
proof (cases sc)
  case Nil
  then show ?thesis by (simp add: processDoubleQuote_def)
next
  case (Cons x sc1)
  have d: "leaves (length sc) (sh_bind (rec CDollar sc) (\<lambda>(v, _). rec (CDouble (res @ v))))"
    by (rule leaves_bind [where m = "length sc1"])
      (use ok n Cons in \<open>auto intro!: rec_okD [OF ok]\<close>)
  show ?thesis
    using d n Cons by (auto simp: processDoubleQuote_def Let_def intro!: rec_okD [OF ok] split: list.split)
qed

lemma leaves_processStopOn:
  assumes ok: "rec_ok n rec" and n: "3 * length sc + 1 < n"
  shows "leaves (length sc) (processStopOn rec sw stopChar res w sc)"
proof (cases sc)
  case Nil
  then show ?thesis by (simp add: processStopOn_def stopOn_end_def)
next
  case (Cons x sc1)
  have d: "leaves (length sc) (sh_bind (rec CDollar sc) (\<lambda>(v, _). rec (CStop stopChar (f v) (g v))))" for f g
    by (rule leaves_bind [where m = "length sc1"]) (use ok n Cons in \<open>auto intro!: rec_okD [OF ok]\<close>)
  have q: "leaves (length sc) (sh_bind (processSingleQuote raw sc) (\<lambda>v. rec (CStop stopChar (f v) (g v))))" for raw f g
    by (rule leaves_bind [where m = "length sc1"])
      (use leaves_processSingleQuote [of sc raw] n Cons in \<open>auto intro!: rec_okD [OF ok]\<close>)
  have e: "leaves (length sc) (sh_bind (rec (CDouble r) sc1) (\<lambda>(v, _). rec (CStop stopChar (f v) (g v))))" for r f g
    by (rule leaves_bind [where m = "length sc1"]) (use n Cons in \<open>auto intro!: rec_okD [OF ok]\<close>)
  show ?thesis
    using d [of "\<lambda>v. res @ v" "addString w"] q [of _ "\<lambda>v. res @ v" "addRawString w"] e [of _ "\<lambda>v. res @ v" "addRawString w"] n Cons
    by (auto simp: processStopOn_def stopOn_end_def Let_def intro!: rec_okD [OF ok] split: list.split)
qed

lemma leaves_map_result: "leaves m r \<Longrightarrow> leaves m (sh_bind r (\<lambda>v sc. Inr ((v, []), sc)))"
  by (rule leaves_bind) auto

lemma rec_ok_sh_run: "rec_ok n (sh_run n sw)"
proof (induction n)
  case (Suc n)
  show ?case
    unfolding rec_ok_def
  proof (intro allI impI)
    fix call and sc :: scanner
    assume fuel: "3 * length sc + call_slack call < Suc n"
    show "leaves (call_leaves call sc) (sh_run (Suc n) sw call sc)"
    proof (cases call)
      case (CStop c res w)
      then show ?thesis using leaves_processStopOn [OF Suc] fuel by (simp add: call_slack_def call_leaves_def)
    next
      case (CDouble res)
      then show ?thesis using leaves_processDoubleQuote [OF Suc] fuel by (simp add: call_slack_def call_leaves_def)
    next
      case CDollar
      then show ?thesis using leaves_processDollar [OF Suc, of sc sw] fuel leaves_map_result
        by (cases "sc = []")
          (simp_all add: call_slack_def call_leaves_def processDollar_def processName_def sc_peek_def runes_text_def sh_bind_def)
    qed
  qed
qed (simp add: rec_ok_def)

text \<open>
  Expansion always returns: whatever the word, the environment, the callback and the options,
  \<open>process\<close> ends with an expansion or with one of the errors of the code; the fuel of three
  units per rune is never used up.
\<close>

theorem sh_process_total: "sh_process sw word \<noteq> Inl OutOfFuel"
proof -
  have "leaves (length (scanner_Init word))
      (sh_run (sh_fuel (scanner_Init word)) sw (CStop EOF [] no_words) (scanner_Init word))"
    by (rule rec_okD(1) [OF rec_ok_sh_run]) (simp_all add: sh_fuel_def)
  then show ?thesis by (auto simp: sh_process_def Let_def leaves_def split: sum.splits)
qed

section \<open>Quoting\<close>

definition ascii :: "string \<Rightarrow> bool" where
  "ascii s \<longleftrightarrow> list_all (\<lambda>c. (of_char c :: int) < 128) s"

definition asc :: "string \<Rightarrow> scanner" where
  "asc s = map (\<lambda>c. (of_char c, [c])) s"

lemma asc_simps [simp]: "asc [] = []" "asc (c # s) = (of_char c, [c]) # asc s" "asc (s @ t) = asc s @ asc t"
  by (simp_all add: asc_def)

lemma runes_asc: "ascii s \<Longrightarrow> runes s = asc s"
proof (induction s)
  case (Cons c s)
  then show ?case by (subst runes.simps) (simp add: DecodeRune_ascii ascii_def)
qed (simp add: runes.simps)

lemma scanner_Init_asc: "ascii s \<Longrightarrow> scanner_Init s = asc s"
  by (cases s) (auto simp: scanner_Init_def runes_asc ascii_def)

lemma rune_bytes_asc [simp]: "r < 128 \<Longrightarrow> rune_bytes (r, bs) = bs"
  by (simp add: rune_bytes_def RuneError_def)

lemma of_char_eq_numeral: "((of_char c :: int) = of_char d) = (c = d)"
  by (simp add: of_char_eq_iff)

text \<open>The options with which the Earthfile interpreter expands words.\<close>

definition plain_lex :: "shellWord \<Rightarrow> bool" where
  "plain_lex sw \<longleftrightarrow> sw_escapeToken sw = 0x5C \<and> \<not> sw_rawQuotes sw \<and> \<not> sw_rawEscapes sw \<and> \<not> sw_skipUnsetEnv sw \<and>
     \<not> sw_skipProcessQuotes sw \<and>
     (\<forall>r. 0 \<le> r \<and> r < 128 \<longrightarrow>
        (sw_IsLetter sw r \<longleftrightarrow> (0x41 \<le> r \<and> r \<le> 0x5A) \<or> (0x61 \<le> r \<and> r \<le> 0x7A)) \<and>
        (sw_IsDigit sw r \<longleftrightarrow> 0x30 \<le> r \<and> r \<le> 0x39))"

definition backslashed :: "string \<Rightarrow> string" where
  "backslashed s = concat (map (\<lambda>c. [ch_bslash, c]) s)"

definition put_raw :: "wordsStruct \<Rightarrow> string \<Rightarrow> wordsStruct" where
  "put_raw w s = w\<lparr>ws_word := ws_word w @ s, ws_inWord := ws_inWord w \<or> s \<noteq> []\<rparr>"

lemma sh_run_backslashed:
  "plain_lex sw \<Longrightarrow> ascii s \<Longrightarrow> length s < n \<Longrightarrow>
    sh_run n sw (CStop EOF res w) (asc (backslashed s)) = Inr ((res @ s, getWords (put_raw w s)), [])"
proof (induction s arbitrary: n res w)
  case Nil
  then obtain k where "n = Suc k" by (cases n) auto
  then show ?case by (simp add: backslashed_def processStopOn_def stopOn_end_def put_raw_def)
next
  case (Cons c s)
  then obtain k where n: "n = Suc k" "length s < k" by (cases n) auto
  have step: "sh_run n sw (CStop EOF res w) (asc (backslashed (c # s))) =
      sh_run k sw (CStop EOF (res @ [c]) (addRawChar w (of_char c, [c]))) (asc (backslashed s))"
    using Cons.prems n by (simp add: backslashed_def processStopOn_def plain_lex_def ascii_def)
  have "put_raw (addRawChar w (of_char c, [c])) s = put_raw w (c # s)"
    using Cons.prems by (simp add: put_raw_def addRawChar_def ascii_def)
  then show ?case using step Cons.IH [of k "res @ [c]"] Cons.prems n by (simp add: ascii_def)
qed

lemma singleQuoteLoop_asc:
  "ch_squote \<notin> set s \<Longrightarrow> ascii s \<Longrightarrow> singleQuoteLoop False res (asc s @ (0x27, ch) # sc) = Inr (res @ s, sc)"
proof (induction s arbitrary: res)
  case (Cons c s)
  then have "(of_char c :: int) \<noteq> 0x27" using of_char_eq_numeral [of c ch_squote] by auto
  then show ?case using Cons by (simp add: ascii_def)
qed simp

text \<open>Inside double quotes a backslash, a double quote and a dollar are escaped.\<close>

definition double_quoted :: "string \<Rightarrow> string" where
  "double_quoted s = concat (map (\<lambda>c. if c = ch_bslash \<or> c = ch_dquote \<or> c = CHR ''$'' then [ch_bslash, c] else [c]) s)"

lemma sh_run_double:
  "plain_lex sw \<Longrightarrow> ascii s \<Longrightarrow> length s < n \<Longrightarrow>
    sh_run n sw (CDouble res) (asc (double_quoted s) @ (0x22, ch) # sc) = Inr ((res @ s, []), sc)"
proof (induction s arbitrary: n res)
  case Nil
  then obtain k where "n = Suc k" by (cases n) auto
  then show ?case using Nil by (simp add: double_quoted_def processDoubleQuote_def plain_lex_def)
next
  case (Cons c s)
  then obtain k where n: "n = Suc k" "length s < k" by (cases n) auto
  have ne: "c \<noteq> ch_bslash \<Longrightarrow> (of_char c :: int) \<noteq> 0x5C" "c \<noteq> ch_dquote \<Longrightarrow> (of_char c :: int) \<noteq> 0x22"
    "c \<noteq> CHR ''$'' \<Longrightarrow> (of_char c :: int) \<noteq> 0x24"
    using of_char_eq_numeral [of c ch_bslash] of_char_eq_numeral [of c ch_dquote] of_char_eq_numeral [of c "CHR ''$''"]
    by auto
  have "sh_run n sw (CDouble res) (asc (double_quoted (c # s)) @ (0x22, ch) # sc) =
      sh_run k sw (CDouble (res @ [c])) (asc (double_quoted s) @ (0x22, ch) # sc)"
    using Cons.prems n ne by (auto simp: double_quoted_def processDoubleQuote_def plain_lex_def ascii_def Let_def)
  then show ?case using Cons.IH [of k "res @ [c]"] Cons.prems n by (simp add: ascii_def)
qed

lemma ascii_simps [simp]:
  "ascii []" "ascii (c # s) \<longleftrightarrow> (of_char c :: int) < 128 \<and> ascii s" "ascii (s @ t) \<longleftrightarrow> ascii s \<and> ascii t"
  by (auto simp: ascii_def)

lemma ascii_backslashed [simp]: "ascii (backslashed s) \<longleftrightarrow> ascii s"
  by (induction s) (auto simp: backslashed_def)

lemma ascii_double_quoted [simp]: "ascii (double_quoted s) \<longleftrightarrow> ascii s"
  by (induction s) (auto simp: double_quoted_def)

lemma length_asc [simp]: "length (asc s) = length s"
  by (simp add: asc_def)

lemma length_quoted: "length s \<le> length (backslashed s)" "length s \<le> length (double_quoted s)"
  by (induction s) (auto simp: backslashed_def double_quoted_def)

text \<open>One quoted part that fills the word.\<close>

lemma process_quoted:
  assumes "ascii word" "sh_run (sh_fuel (asc word)) sw (CStop EOF [] no_words) (asc word) = Inr ((s, ws), [])"
  shows "sh_process sw word = Inr (s, ws)"
  using assms by (simp add: sh_process_def scanner_Init_asc)

lemma getWords_raw: "getWords (put_raw no_words s) = (if s = [] then [] else [s])"
  "getWords (addRawString no_words s) = (if s = [] then [] else [s])"
  by (simp_all add: getWords_def put_raw_def addRawString_def no_words_def)

lemma sh_run_end: "0 < n \<Longrightarrow> sh_run n sw (CStop EOF res w) [] = Inr ((res, getWords w), [])"
  by (cases n) (simp_all add: processStopOn_def stopOn_end_def)

text \<open>
  Quoting is exact: for every ASCII text, putting a backslash in front of each character,
  or single quotes around it (when it has none inside), or double quotes around it with
  backslash, double quote and dollar escaped, expands to that very text, as one word (no word
  when it is empty), whatever the environment.
\<close>

theorem sh_process_quoting:
  assumes "plain_lex sw" "ascii s"
  shows "sh_process sw (backslashed s) = Inr (s, if s = [] then [] else [s]) \<and>
    sh_process sw ([ch_dquote] @ double_quoted s @ [ch_dquote]) = Inr (s, if s = [] then [] else [s]) \<and>
    (ch_squote \<notin> set s \<longrightarrow> sh_process sw ([ch_squote] @ s @ [ch_squote]) = Inr (s, if s = [] then [] else [s]))"
proof (intro conjI impI)
  show "sh_process sw (backslashed s) = Inr (s, if s = [] then [] else [s])"
    using sh_run_backslashed [OF assms, of "sh_fuel (asc (backslashed s))" "[]" no_words] length_quoted(1) [of s] assms
    by (intro process_quoted) (simp_all add: sh_fuel_def getWords_raw)
  let ?d = "[ch_dquote] @ double_quoted s @ [ch_dquote]"
  obtain n where n: "sh_fuel (asc ?d) = Suc n" "length s < n" "0 < n"
    using length_quoted(2) [of s] by (simp add: sh_fuel_def)
  have "sh_run n sw (CDouble []) (asc (double_quoted s) @ [(0x22, [ch_dquote])]) = Inr ((s, []), [])"
    using sh_run_double [OF assms n(2), of "[]" "[ch_dquote]" "[]"] by simp
  then have "sh_run (sh_fuel (asc ?d)) sw (CStop EOF [] no_words) (asc ?d) = Inr ((s, if s = [] then [] else [s]), [])"
    using assms(1) n by (simp add: processStopOn_def plain_lex_def sh_bind_def sh_run_end getWords_raw)
  then show "sh_process sw ?d = Inr (s, if s = [] then [] else [s])"
    using assms by (intro process_quoted) simp_all
  assume q: "ch_squote \<notin> set s"
  let ?q = "[ch_squote] @ s @ [ch_squote]"
  obtain m where m: "sh_fuel (asc ?q) = Suc m" "0 < m" by (simp add: sh_fuel_def)
  have "processSingleQuote False (asc ?q) = Inr (s, [])"
    using singleQuoteLoop_asc [OF q assms(2), of "[]" "[ch_squote]" "[]"] by (simp add: processSingleQuote_def)
  then have "sh_run (sh_fuel (asc ?q)) sw (CStop EOF [] no_words) (asc ?q) = Inr ((s, if s = [] then [] else [s]), [])"
    using assms(1) m by (simp add: processStopOn_def plain_lex_def sh_bind_def sh_run_end getWords_raw)
  then show "sh_process sw ?q = Inr (s, if s = [] then [] else [s])"
    using assms by (intro process_quoted) simp_all
qed

definition ex_shell :: "(string \<rightharpoonup> string) \<Rightarrow> shellWord" where
  "ex_shell envs = \<lparr>sw_envs = envs, sw_shellOutEnvs = [], sw_shellOut = None, sw_escapeToken = 0x5C,
     sw_rawQuotes = False, sw_rawEscapes = False, sw_skipUnsetEnv = False, sw_skipProcessQuotes = False,
     sw_IsLetter = (\<lambda>r. (0x41 \<le> r \<and> r \<le> 0x5A) \<or> (0x61 \<le> r \<and> r \<le> 0x7A)), sw_IsDigit = (\<lambda>r. 0x30 \<le> r \<and> r \<le> 0x39)\<rparr>"

lemma plain_ex_shell: "plain_lex (ex_shell envs)"
  by (simp add: plain_lex_def ex_shell_def)

theorem sh_process_quoting_witness:
  "sh_process (ex_shell [''x'' \<mapsto> ''1'']) (backslashed ''a $x'') = Inr (''a $x'', [''a $x''])"
  using sh_process_quoting [OF plain_ex_shell, of "''a $x''" "[''x'' \<mapsto> ''1'']"] by (simp add: ascii_def)

section \<open>Substitution\<close>

definition name_rune :: "rune \<Rightarrow> bool" where
  "name_rune r \<longleftrightarrow> (0x41 \<le> r \<and> r \<le> 0x5A) \<or> (0x61 \<le> r \<and> r \<le> 0x7A) \<or> (0x30 \<le> r \<and> r \<le> 0x39) \<or> r = 0x5F"

definition sh_name :: "string \<Rightarrow> bool" where
  "sh_name name \<longleftrightarrow> name \<noteq> [] \<and> list_all (\<lambda>c. name_rune (of_char c)) name \<and>
     \<not> (0x30 \<le> (of_char (hd name) :: int) \<and> (of_char (hd name) :: int) \<le> 0x39)"

text \<open>The names the lexer reads after a dollar are the valid names of variables.\<close>

lemma sh_name_valid: "sh_name name \<longleftrightarrow> IsValidEnvVarName name"
proof -
  have "c = CHR ''_'' \<longleftrightarrow> (of_char c :: int) = 0x5F" for c using of_char_eq_numeral [of c "CHR ''_''"] by simp
  then show ?thesis
    by (cases name) (auto simp: sh_name_def IsValidEnvVarName_def name_rune_def Let_def list_all_iff)
qed

lemma sh_name_ascii: "sh_name name \<Longrightarrow> ascii name"
  by (auto simp: sh_name_def ascii_def list_all_iff name_rune_def)

lemma runes_text_asc: "ascii s \<Longrightarrow> runes_text (asc s) = s"
  by (induction s) (auto simp: runes_text_def)

lemma plain_tables:
  "plain_lex sw \<Longrightarrow> 0 \<le> r \<Longrightarrow> r < 128 \<Longrightarrow> (sw_IsLetter sw r \<or> sw_IsDigit sw r \<or> r = 0x5F) = name_rune r"
  "plain_lex sw \<Longrightarrow> 0 \<le> r \<Longrightarrow> r < 128 \<Longrightarrow> sw_IsDigit sw r = (0x30 \<le> r \<and> r \<le> 0x39)"
  by (auto simp: plain_lex_def name_rune_def)

lemma takeWhile_asc:
  assumes "\<forall>c \<in> set s. P (of_char c)" "rest = [] \<or> \<not> P (fst (hd rest))"
  shows "takeWhile (\<lambda>x. P (fst x)) (asc s @ rest) = asc s" "dropWhile (\<lambda>x. P (fst x)) (asc s @ rest) = rest"
proof -
  show "takeWhile (\<lambda>x. P (fst x)) (asc s @ rest) = asc s"
    using assms by (induction s) (cases rest; auto)+
  show "dropWhile (\<lambda>x. P (fst x)) (asc s @ rest) = rest"
    using assms by (induction s) (cases rest; auto)+
qed

lemma processName_asc:
  assumes "plain_lex sw" "sh_name name" "rest = [] \<or> 0 \<le> fst (hd rest) \<and> fst (hd rest) < 128 \<and> \<not> name_rune (fst (hd rest))"
  shows "processName sw (asc name @ rest) = (name, rest)"
proof -
  let ?P = "\<lambda>r. sw_IsLetter sw r \<or> sw_IsDigit sw r \<or> r = 0x5F"
  have a: "ascii name" using assms(2) by (rule sh_name_ascii)
  have p: "\<forall>c \<in> set name. ?P (of_char c)"
    using assms(1,2) a plain_tables(1) by (auto simp: sh_name_def ascii_def list_all_iff)
  have q: "rest = [] \<or> \<not> ?P (fst (hd rest))" using assms(1,3) plain_tables(1) by blast
  obtain c t where name: "name = c # t" using assms(2) by (cases name) (auto simp: sh_name_def)
  have "\<not> sw_IsDigit sw (of_char c)" "\<not> isSpecialParam (of_char c)"
    using assms(1,2) a plain_tables(2) [OF assms(1), of "of_char c"]
    by (auto simp: name sh_name_def isSpecialParam_def name_rune_def)
  then show ?thesis
    using takeWhile_asc [OF p q] a by (simp add: processName_def name Let_def runes_text_asc [of "c # t", simplified])
qed

definition literal :: "string \<Rightarrow> bool" where
  "literal s \<longleftrightarrow> ascii s \<and> set s \<inter> {CHR ''$'', ch_squote, ch_dquote, ch_bslash, CHR ''}''} = {}"

lemma sh_run_literal:
  "plain_lex sw \<Longrightarrow> literal s \<Longrightarrow> length s < n \<Longrightarrow>
    \<exists>ws. sh_run n sw (CStop 0x7D res w) (asc s @ (0x7D, ch) # sc) = Inr ((res @ s, ws), sc)"
proof (induction s arbitrary: n res w)
  case Nil
  then obtain k where "n = Suc k" by (cases n) auto
  then show ?case by (simp add: processStopOn_def)
next
  case (Cons c s)
  then obtain k where n: "n = Suc k" "length s < k" by (cases n) auto
  have "(of_char c :: int) \<noteq> 0x24" "(of_char c :: int) \<noteq> 0x27" "(of_char c :: int) \<noteq> 0x22" "(of_char c :: int) \<noteq> 0x5C"
    "(of_char c :: int) \<noteq> 0x7D"
    using Cons.prems(2) of_char_eq_numeral [of c "CHR ''$''"] of_char_eq_numeral [of c ch_squote]
      of_char_eq_numeral [of c ch_dquote] of_char_eq_numeral [of c ch_bslash] of_char_eq_numeral [of c "CHR ''}''"]
    by (auto simp: literal_def)
  then show ?case
    using Cons.prems n Cons.IH [of k "res @ [c]" "addChar w (of_char c, [c])"]
    by (auto simp: processStopOn_def plain_lex_def literal_def)
qed

lemma stopWord_literal:
  "plain_lex sw \<Longrightarrow> literal s \<Longrightarrow> length s < n \<Longrightarrow> stopWord (sh_run n sw) (asc s @ (0x7D, ch) # sc) = Inr (s, sc)"
  using sh_run_literal [of sw s n "[]" no_words ch sc] by (auto simp: stopWord_def)

text \<open>A word that is one substitution.\<close>

lemma process_dollar:
  assumes "ascii t" "\<And>m. length t < m \<Longrightarrow> processDollar (sh_run m sw) sw (asc (CHR ''$'' # t)) = r"
  shows "r = Inr (v, []) \<Longrightarrow> ProcessWordWithMap sw (CHR ''$'' # t) = Inr v"
    and "r = Inl (e, sc) \<Longrightarrow> ProcessWordWithMap sw (CHR ''$'' # t) = Inl e"
proof -
  obtain m where m: "sh_fuel (asc (CHR ''$'' # t)) = Suc (Suc m)" "length t < m" by (simp add: sh_fuel_def)
  have "ProcessWordWithMap sw (CHR ''$'' # t) =
      (case sh_run (Suc (Suc m)) sw (CStop EOF [] no_words) (asc (CHR ''$'' # t)) of
         Inl (e, _) \<Rightarrow> Inl e | Inr ((v, _), _) \<Rightarrow> Inr v)"
    using assms(1) m(1)
    by (simp add: ProcessWordWithMap_def sh_process_def scanner_Init_asc split: sum.split prod.split)
  moreover have "processDollar (sh_run m sw) sw (asc (CHR ''$'' # t)) = r" using m(2) by (rule assms(2))
  ultimately show "r = Inr (v, []) \<Longrightarrow> ProcessWordWithMap sw (CHR ''$'' # t) = Inr v"
    and "r = Inl (e, sc) \<Longrightarrow> ProcessWordWithMap sw (CHR ''$'' # t) = Inl e"
    by (simp_all add: processStopOn_def sh_bind_def stopOn_end_def)
qed

definition env_value :: "shellWord \<Rightarrow> string \<Rightarrow> string" where
  "env_value sw name = (case sw_envs sw name of None \<Rightarrow> [] | Some v \<Rightarrow> v)"

lemma lookup_env_plain:
  "name \<notin> set (sw_shellOutEnvs sw) \<Longrightarrow> lookup_env sw name f sc = f (env_value sw name) (sw_envs sw name \<noteq> None) sc"
  by (auto simp: lookup_env_def getEnv_def env_value_def split: option.split)

lemma dollar_curly:
  "processDollar rec sw (asc (CHR ''$'' # CHR ''{'' # t)) = processDollarCurlyBracket rec sw (asc t)"
  by (simp add: processDollar_def sc_peek_def)

lemma curly_name:
  assumes "plain_lex sw" "sh_name name" "\<not> name_rune (of_char c)" "(of_char c :: int) < 128"
  shows "processName sw (asc (name @ c # t)) = (name, (of_char c, [c]) # asc t)"
    and "sc_peek (asc (name @ c # t)) \<notin> {0x7B, 0x7D, 0x3A}" "asc (name @ c # t) \<noteq> []"
  using processName_asc [OF assms(1,2), of "(of_char c, [c]) # asc t"] assms
  by (auto simp: sh_name_def sc_peek_def name_rune_def neq_Nil_conv split: list.split)

lemmas curly_simps = processDollarCurlyBracket_def name_rune_def sc_peek_def lookup_env_plain sh_bind_def modifierValue_def

lemma trim_by_length:
  "(if length w > length v then v else if drop (length v - length w) v = w then take (length v - length w) v else v) =
    TrimSuffix v w"
  "(if length w > length v then v else if take (length w) v = w then drop (length w) v else v) = TrimPrefix v w"
  for v w :: string
  by (auto simp: TrimSuffix_def TrimPrefix_def suffix_def prefix_def dest: arg_cong [where f = length])
    (metis append_take_drop_id, metis append_take_drop_id)

text \<open>What follows the name of a braced substitution, up to the closing brace, and the value.\<close>

definition brace_value :: "string \<Rightarrow> string \<Rightarrow> string option \<Rightarrow> string + string" where
  "brace_value modifier lit ev =
    (let v = (case ev of None \<Rightarrow> [] | Some v \<Rightarrow> v) in
     if modifier = '':-'' then Inr (if v = [] then lit else v)
     else if modifier = '':+'' then Inr (if v = [] then [] else lit)
     else if modifier = ''%'' then Inr (TrimSuffix v lit)
     else if modifier = ''#'' then Inr (TrimPrefix v lit)
     else if v \<noteq> [] then Inr v
     else Inl (if lit \<noteq> [] then lit else if ev = None then ''is not allowed to be unset''
               else ''is not allowed to be empty''))"

lemma curly_eval:
  assumes sw: "plain_lex sw" and nm: "sh_name name" "name \<notin> set (sw_shellOutEnvs sw)" and lit: "literal lit"
    and m: "length lit < m" and md: "md \<in> {'':-'', '':+'', '':?'', ''%'', ''#''}"
  defines "r \<equiv> processDollarCurlyBracket (sh_run m sw) sw (asc (name @ md @ lit @ ''}''))"
  shows "r = (case brace_value md lit (sw_envs sw name) of
      Inr x \<Rightarrow> Inr (x, []) | Inl msg \<Rightarrow> Inl (VarMessage name msg, []))"
proof -
  have st: "stopWord (sh_run m sw) (asc lit @ [(0x7D, ''}'')]) = Inr (lit, [])"
    using stopWord_literal [OF sw lit m, of "''}''" "[]"] .
  have us: "\<not> sw_skipUnsetEnv sw" using sw by (simp add: plain_lex_def)
  note c = curly_name [OF sw nm(1)] and simps = r_def brace_value_def curly_simps nm(2) us st env_value_def Let_def
  from md consider "md = '':-''" | "md = '':+''" | "md = '':?''" | "md = ''%''" | "md = ''#''" by auto
  then show ?thesis
  proof cases
    case 1 then show ?thesis using c [of "CHR '':''" "''-'' @ lit @ ''}''"] by (simp add: simps)
  next
    case 2 then show ?thesis using c [of "CHR '':''" "''+'' @ lit @ ''}''"] by (simp add: simps)
  next
    case 3 then show ?thesis using c [of "CHR '':''" "''?'' @ lit @ ''}''"] by (simp add: simps split: option.split)
  next
    case 4 then show ?thesis
      using c [of "CHR ''%''" "lit @ ''}''"] by (simp add: simps trim_by_length(1) [symmetric])
  next
    case 5 then show ?thesis
      using c [of "CHR ''#''" "lit @ ''}''"] by (simp add: simps trim_by_length(2) [symmetric])
  qed
qed

text \<open>
  Substitution: with \<open>v\<close> the value of a variable (empty when it is unset), \<open>$name\<close> and
  \<open>${name}\<close> expand to \<open>v\<close>; \<open>:-\<close> gives the word for an empty value, \<open>:+\<close> the word for any other,
  \<open>%\<close> and \<open>#\<close> cut the word off the end or the start of the value, and \<open>:?\<close> is an error for an
  empty value.
\<close>

lemma ProcessWord_substitution:
  assumes "plain_lex sw" "sh_name name" "name \<notin> set (sw_shellOutEnvs sw)" "literal lit"
    and "md \<in> {'':-'', '':+'', '':?'', ''%'', ''#''}"
  shows "ProcessWordWithMap sw (''$'' @ name) = Inr (env_value sw name) \<and>
    ProcessWordWithMap sw (''${'' @ name @ ''}'') = Inr (env_value sw name) \<and>
    ProcessWordWithMap sw (''${'' @ name @ md @ lit @ ''}'') =
      (case brace_value md lit (sw_envs sw name) of Inr x \<Rightarrow> Inr x | Inl msg \<Rightarrow> Inl (VarMessage name msg))"
proof (intro conjI)
  have an: "ascii name" and al: "ascii lit" and us: "\<not> sw_skipUnsetEnv sw" and ne: "name \<noteq> []"
    using assms sh_name_ascii by (auto simp: literal_def plain_lex_def sh_name_def)
  have "processDollar rec sw (asc (CHR ''$'' # name)) = Inr (env_value sw name, [])" for rec
    using processName_asc [OF assms(1,2), of "[]"] assms(2,3) us
    by (cases name) (auto simp: processDollar_def sc_peek_def lookup_env_plain sh_name_def name_rune_def)
  from process_dollar(1) [OF an this refl] show "ProcessWordWithMap sw (''$'' @ name) = Inr (env_value sw name)" by simp
  have "processDollar rec sw (asc (CHR ''$'' # CHR ''{'' # name @ ''}'')) = Inr (env_value sw name, [])" for rec
    unfolding dollar_curly using curly_name [OF assms(1,2), of "CHR ''}''" "[]"] us assms(3) by (simp add: curly_simps)
  from process_dollar(1) [OF _ this refl] an
  show "ProcessWordWithMap sw (''${'' @ name @ ''}'') = Inr (env_value sw name)" by simp
  define t where "t = CHR ''{'' # name @ md @ lit @ ''}''"
  have at: "ascii t" using an al assms(5) by (auto simp: t_def)
  have d: "processDollar (sh_run m sw) sw (asc (CHR ''$'' # t)) =
      (case brace_value md lit (sw_envs sw name) of Inr x \<Rightarrow> Inr (x, []) | Inl msg \<Rightarrow> Inl (VarMessage name msg, []))"
    if "length t < m" for m
    unfolding t_def dollar_curly using that by (intro curly_eval assms) (simp add: t_def)
  show "ProcessWordWithMap sw (''${'' @ name @ md @ lit @ ''}'') =
      (case brace_value md lit (sw_envs sw name) of Inr x \<Rightarrow> Inr x | Inl msg \<Rightarrow> Inl (VarMessage name msg))"
    using process_dollar [OF at d] by (cases "brace_value md lit (sw_envs sw name)") (simp_all add: t_def)
qed

end
