(* ===== verification/Var_Expand.thy ===== *)
theory Var_Expand
  imports Var_Args Shell_Lex
begin

text \<open>
  Expansion of a word with the variables of a collection, \<open>Expand\<close> of
  \<^verbatim>\<open>variables/collection.go\<close>, which composes the collection with the shell lexer.
\<close>

definition ShellOutEnvs :: "string list" where
  "ShellOutEnvs = [''HOME'', ''PATH'']"

text \<open>\<open>tables\<close> are the Unicode tables of letters and digits.\<close>

definition Expand ::
  "(rune \<Rightarrow> bool) \<times> (rune \<Rightarrow> bool) \<Rightarrow> Collection \<Rightarrow> string \<Rightarrow> (string \<Rightarrow> string + string) option \<Rightarrow>
    ((sh_error + string) \<times> Collection) option" where
  "Expand tables c word shellOut = do {
     (ef, c) \<leftarrow> effective c;
     let varMap = map_of (Scope_Map ef True);
     Some (ProcessWordWithMap
       \<lparr>sw_envs = varMap, sw_shellOutEnvs = ShellOutEnvs, sw_shellOut = shellOut, sw_escapeToken = 0x5C,
        sw_rawQuotes = False, sw_rawEscapes = False, sw_skipUnsetEnv = False, sw_skipProcessQuotes = False,
        sw_IsLetter = fst tables, sw_IsDigit = snd tables\<rparr> word, c) }"

definition ascii_tables :: "(rune \<Rightarrow> bool) \<times> (rune \<Rightarrow> bool) \<Rightarrow> bool" where
  "ascii_tables tables \<longleftrightarrow> (\<forall>r. 0 \<le> r \<and> r < 128 \<longrightarrow>
     (fst tables r \<longleftrightarrow> (0x41 \<le> r \<and> r \<le> 0x5A) \<or> (0x61 \<le> r \<and> r \<le> 0x7A)) \<and>
     (snd tables r \<longleftrightarrow> 0x30 \<le> r \<and> r \<le> 0x39))"

lemma Expand_eq:
  assumes "coll_reachable c"
  shows "\<exists>c'. Expand tables c word shellOut = Some (ProcessWordWithMap
       \<lparr>sw_envs = (\<lambda>k. coll_lookup c k True), sw_shellOutEnvs = ShellOutEnvs, sw_shellOut = shellOut, sw_escapeToken = 0x5C,
        sw_rawQuotes = False, sw_rawEscapes = False, sw_skipUnsetEnv = False, sw_skipProcessQuotes = False,
        sw_IsLetter = fst tables, sw_IsDigit = snd tables\<rparr> word, c') \<and> coll_lookup c' = coll_lookup c"
proof -
  have ok: "coll_ok c" using assms by (rule coll_reachable_ok)
  then have "scopes_ok c" by (simp add: coll_ok_def)
  then have "map_of (Scope_Map (combined c (last (co_stack c))) True) = (\<lambda>k. coll_lookup c k True)"
    by (simp add: fun_eq_iff map_of_Scope_Map Get_combined)
  then show ?thesis using effective_ok [OF ok] by (auto simp: Expand_def)
qed

text \<open>
  Expanding a substitution in a reachable collection uses the variable lookup: \<open>$name\<close> and
  \<open>${name}\<close> expand to the active value of the variable (empty when there is none), and the
  modifiers \<open>:-\<close>, \<open>:+\<close>, \<open>:?\<close>, \<open>%\<close> and \<open>#\<close> choose, check or cut that value; expanding changes no
  lookup. \<open>HOME\<close> and \<open>PATH\<close>, which may be asked of the shell, are excluded.
\<close>

theorem Expand_substitution:
  assumes "coll_reachable c" "ascii_tables tables" "IsValidEnvVarName name" "name \<notin> set ShellOutEnvs" "literal lit"
    and "md \<in> {'':-'', '':+'', '':?'', ''%'', ''#''}"
  shows "\<exists>c'. Expand tables c (''$'' @ name) so = Some (Inr (case coll_lookup c name True of None \<Rightarrow> [] | Some v \<Rightarrow> v), c') \<and>
    Expand tables c (''${'' @ name @ ''}'') so = Some (Inr (case coll_lookup c name True of None \<Rightarrow> [] | Some v \<Rightarrow> v), c') \<and>
    Expand tables c (''${'' @ name @ md @ lit @ ''}'') so = Some
      (case brace_value md lit (coll_lookup c name True) of Inr x \<Rightarrow> Inr x | Inl msg \<Rightarrow> Inl (VarMessage name msg), c') \<and>
    coll_lookup c' = coll_lookup c"
proof -
  let ?sw = "\<lparr>sw_envs = (\<lambda>k. coll_lookup c k True), sw_shellOutEnvs = ShellOutEnvs, sw_shellOut = so, sw_escapeToken = 0x5C,
        sw_rawQuotes = False, sw_rawEscapes = False, sw_skipUnsetEnv = False, sw_skipProcessQuotes = False,
        sw_IsLetter = fst tables, sw_IsDigit = snd tables\<rparr>"
  have "plain_lex ?sw" using assms(2) by (simp add: plain_lex_def ascii_tables_def)
  from ProcessWord_substitution [OF this, of name lit md] assms(3-6)
  have p: "ProcessWordWithMap ?sw (''$'' @ name) = Inr (case coll_lookup c name True of None \<Rightarrow> [] | Some v \<Rightarrow> v)"
    "ProcessWordWithMap ?sw (''${'' @ name @ ''}'') = Inr (case coll_lookup c name True of None \<Rightarrow> [] | Some v \<Rightarrow> v)"
    "ProcessWordWithMap ?sw (''${'' @ name @ md @ lit @ ''}'') =
      (case brace_value md lit (coll_lookup c name True) of Inr x \<Rightarrow> Inr x | Inl msg \<Rightarrow> Inl (VarMessage name msg))"
    by (simp_all add: sh_name_valid env_value_def)
  obtain c' where e: "effective c = Some (combined c (last (co_stack c)), c')"
    using effective_ok [OF coll_reachable_ok [OF assms(1)]] by blast
  have "Expand tables c w so = Some (ProcessWordWithMap ?sw w, c')" and "coll_lookup c' = coll_lookup c" for w
    using Expand_eq [OF assms(1), of tables w so] e by (auto simp: Expand_def)
  then show ?thesis using p by (intro exI [of _ c']) simp
qed

theorem Expand_substitution_witness:
  "\<exists>c'. Expand (sw_IsLetter (ex_shell Map.empty), sw_IsDigit (ex_shell Map.empty)) ex_declared ''${x:-2}'' None =
    Some (Inr ''1'', c')"
  using Expand_substitution [OF ex_declared_reachable, of "(sw_IsLetter (ex_shell Map.empty), sw_IsDigit (ex_shell Map.empty))"
    "''x''" "''2''" "'':-''" None]
  by (auto simp: ascii_tables_def ex_shell_def IsValidEnvVarName_def ShellOutEnvs_def literal_def ex_declared_state
      brace_value_def)

end
