(* ===== verification/Interp_Base.thy ===== *)
theory Interp_Base
  imports Flag_Util Build_Matrix Oidc_Info Go_Net Var_Expand
begin

text \<open>
  What \<^verbatim>\<open>earthfile2llb/interpreter.go\<close> works on: the interpreter's fields, its errors, and the
  methods of the converter it calls. The interpreter turns an Earthfile into a sequence of
  calls of the converter; a call is a value of \<open>conv_call\<close>, and the state of the converter is
  the list of the calls made so far, so that what a call returns is a function \<open>ev_answer\<close> of
  the calls before it and the call. The same holds for what the interpreter reads from the
  converter: the platform resolver, the working directory of the image and the list of local
  artifacts. Everything the interpreter gets from outside is a field of \<open>env\<close>: the answers of
  the converter, the go-flags parser of every command, containerd's platforms, the port
  specifications of the Docker library, the Unicode tables and the home directory.
\<close>

section \<open>Errors\<close>

text \<open>The text of an error is its format; the values printed into it are left out, as the
  location and the stack are not read again. \<open>Wrapped\<close> keeps the cause, which \<open>errors.Is\<close>
  looks at; a \<open>nil\<close> cause is \<open>None\<close>.\<close>

datatype ierror =
    Errorf Loc string
  | Wrapped "ierror option" Loc string
  | Plain string
  | FlagutilError flagutil_error
  | FlagError flag_error
  | RefError ref_error
  | ErrCannotAsync
  | ErrShellOutNotPermitted
  | Foreign string

text \<open>A handler ends with an error, or panics, or (in the model) has no fuel left. Only an error
  is handled by its callers.\<close>

datatype abort = Err ierror | Panic string | NoFuel

fun Is_CannotAsync :: "ierror \<Rightarrow> bool" where
  "Is_CannotAsync ErrCannotAsync = True"
| "Is_CannotAsync (Wrapped (Some e) _ _) = Is_CannotAsync e"
| "Is_CannotAsync _ = False"

fun Is_ShellOutNotPermitted :: "ierror \<Rightarrow> bool" where
  "Is_ShellOutNotPermitted ErrShellOutNotPermitted = True"
| "Is_ShellOutNotPermitted (Wrapped (Some e) _ _) = Is_ShellOutNotPermitted e"
| "Is_ShellOutNotPermitted _ = False"

definition on_err :: "(ierror \<Rightarrow> ierror) \<Rightarrow> abort \<Rightarrow> abort" where
  "on_err f a = (case a of Err e \<Rightarrow> Err (f e) | _ \<Rightarrow> a)"

section \<open>The calls of the converter\<close>

record SaveFilesSettings =
  sf_Src :: string
  sf_Dst :: string
  sf_IfExists :: bool

record ConvertRunOpts =
  ro_CommandName :: string
  ro_Args :: "string list"
  ro_Locally :: bool
  ro_Mounts :: "string list"
  ro_Secrets :: "string list"
  ro_WithEntrypoint :: bool
  ro_WithShell :: bool
  ro_Privileged :: bool
  ro_NoNetwork :: bool
  ro_Push :: bool
  ro_Transient :: bool
  ro_WithSSH :: bool
  ro_NoCache :: bool
  ro_Interactive :: bool
  ro_InteractiveKeep :: bool
  ro_InteractiveSaveFiles :: "SaveFilesSettings list"
  ro_WithAWSCredentials :: bool
  ro_OIDCInfo :: "AWSOIDCInfo option"
  ro_RawOutput :: bool

definition no_run_opts :: ConvertRunOpts where
  "no_run_opts = \<lparr>ro_CommandName = [], ro_Args = [], ro_Locally = False, ro_Mounts = [], ro_Secrets = [],
     ro_WithEntrypoint = False, ro_WithShell = False, ro_Privileged = False, ro_NoNetwork = False, ro_Push = False,
     ro_Transient = False, ro_WithSSH = False, ro_NoCache = False, ro_Interactive = False, ro_InteractiveKeep = False,
     ro_InteractiveSaveFiles = [], ro_WithAWSCredentials = False, ro_OIDCInfo = None, ro_RawOutput = False\<rparr>"

record DockerLoadOpt =
  dl_Target :: string
  dl_ImageName :: string
  dl_Platform :: Platform
  dl_BuildArgs :: "string list"
  dl_AllowPrivileged :: bool
  dl_PassArgs :: bool

record DockerPullOpt =
  dp_Platform :: Platform
  dp_ImageName :: string

record WithDockerOpt =
  wd_OIDCInfo :: "AWSOIDCInfo option"
  wd_CacheID :: string
  wd_Pulls :: "DockerPullOpt list"
  wd_Secrets :: "string list"
  wd_Mounts :: "string list"
  wd_TryCatchSaveArtifacts :: "SaveFilesSettings list"
  wd_ComposeServices :: "string list"
  wd_ComposeFiles :: "string list"
  wd_Loads :: "DockerLoadOpt list"
  wd_WithSSH :: bool
  wd_WithAWSCredentials :: bool
  wd_interactiveKeep :: bool
  wd_Interactive :: bool
  wd_NoCache :: bool
  wd_WithEntrypoint :: bool
  wd_WithShell :: bool

definition new_WithDockerOpt :: "string list \<Rightarrow> string list \<Rightarrow> SaveFilesSettings list \<Rightarrow> WithDockerOpt" where
  "new_WithDockerOpt files services saves = \<lparr>wd_OIDCInfo = None, wd_CacheID = [], wd_Pulls = [], wd_Secrets = [],
     wd_Mounts = [], wd_TryCatchSaveArtifacts = saves, wd_ComposeServices = services, wd_ComposeFiles = files,
     wd_Loads = [], wd_WithSSH = False, wd_WithAWSCredentials = False, wd_interactiveKeep = False,
     wd_Interactive = False, wd_NoCache = False, wd_WithEntrypoint = False, wd_WithShell = False\<rparr>"

text \<open>The methods of \<open>Converter\<close> that the interpreter calls, with their arguments in order, and
  \<open>ConvertCloneURL\<close> of the git lookup. The callback of a \<open>Build\<close> is the number of successes it
  waits for and whether \<open>--auto-skip\<close> made it save a hash then.\<close>

datatype conv_call =
    CFrom string Platform bool bool "string list"
  | CFromDockerfile string string string Platform bool "string list"
  | CLocally
  | CCopyArtifactLocal string string Platform bool bool "string list" bool
  | CCopyArtifact string string Platform bool bool "string list" bool bool bool string "nat option" bool bool
  | CCopyClassical "string list" string bool bool bool string "nat option" bool
  | CRun ConvertRunOpts
  | CRunExitCode ConvertRunOpts
  | CRunExpression string ConvertRunOpts
  | CSaveArtifact string string string bool bool bool bool bool bool
  | CSaveArtifactFromLocal string string bool bool string
  | CPushWaitBlock
  | CPopWaitBlock
  | CSaveImage "string list" bool bool bool "string list" bool
  | CBuild string Platform bool bool "string list" "nat \<times> bool"
  | CBuildAsync string Platform bool bool "string list"
  | CWorkdir string
  | CUser string
  | CCmd "string list" bool
  | CEntrypoint "string list" bool
  | CExpose "string list"
  | CVolume "string list"
  | CEnv string string
  | CArg string string Arg_opts
  | CLet string string
  | CUpdateArg string string
  | CSetArg string string
  | CUnsetArg string
  | CLabel "(string \<times> string) list"
  | CGitClone string string string string bool
  | CWithDockerRun "string list" WithDockerOpt bool
  | CWithDockerRunLocal "string list" WithDockerOpt bool
  | CHealthcheck bool "string list" int int int int int
  | CImport string string bool bool bool
  | CCache string Cache_opts
  | CHost string "nat list"
  | CProject string string
  | CExpandWildcardCmds string Command
  | CExpandWildcardArtifacts Artifact
  | CResolveReference Command_ref
  | CEnterScopeDo Command_ref Target_ref bool bool string "string list"
  | CExitScope
  | CExpandArgs ConvertRunOpts string bool
  | CcheckAutoSkip string bool bool "string list"
  | CConvertCloneURL string
  | CRecordTargetFailure

text \<open>What a call returns; a call fills the fields that its method returns.\<close>

record answer =
  an_text :: string
  an_text2 :: string
  an_code :: int
  an_skip :: bool
  an_cmds :: "Command list"
  an_artifacts :: "Artifact list"
  an_Ref :: Reference
  an_Earthfile :: Tree
  an_Features :: Features
  an_allowPrivileged :: bool
  an_allowPrivilegedSet :: bool

section \<open>The environment\<close>

record goflags =
  gf_If :: "If_opts flag_parser"
  gf_For :: "For_opts flag_parser"
  gf_Run :: "Run_opts flag_parser"
  gf_From :: "From_opts flag_parser"
  gf_FromDockerfile :: "FromDockerfile_opts flag_parser"
  gf_Copy :: "Copy_opts flag_parser"
  gf_SaveArtifact :: "SaveArtifact_opts flag_parser"
  gf_SaveImage :: "SaveImage_opts flag_parser"
  gf_Build :: "Build_opts flag_parser"
  gf_GitClone :: "GitClone_opts flag_parser"
  gf_HealthCheck :: "HealthCheck_opts flag_parser"
  gf_WithDocker :: "WithDocker_opts flag_parser"
  gf_Do :: "Do_opts flag_parser"
  gf_Import :: "Import_opts flag_parser"
  gf_Arg :: "Arg_opts flag_parser"
  gf_Let :: "unit flag_parser"
  gf_Set :: "unit flag_parser"
  gf_Cache :: "Cache_opts flag_parser"

record env =
  ev_answer :: "conv_call list \<Rightarrow> conv_call \<Rightarrow> ierror + answer"
  ev_platr :: "conv_call list \<Rightarrow> Resolver"
  ev_WorkingDir :: "conv_call list \<Rightarrow> string"
  ev_LocalArtifactWhiteList :: "conv_call list \<Rightarrow> string \<Rightarrow> bool"
  ev_ftrs :: Features
  ev_optFeatures :: Features
  ev_goflags :: goflags
  ev_platforms_Parse :: "string \<Rightarrow> string + SpecsPlatform"
  ev_platforms_Normalize :: "SpecsPlatform \<Rightarrow> SpecsPlatform"
  ev_ParsePortSpecs :: "string list \<Rightarrow> string + string list"
  ev_arn_Parse :: "string \<Rightarrow> string + ARN"
  ev_ParseDuration :: "string \<Rightarrow> string + int"
  ev_tables :: "(rune \<Rightarrow> bool) \<times> (rune \<Rightarrow> bool)"
  ev_grow :: "nat \<Rightarrow> nat"
  ev_home :: string
  ev_defaultZeroStringFlag :: string
  ev_labels :: "(string \<times> string) list"

section \<open>The interpreter\<close>

text \<open>\<open>i_calls\<close> is the converter, \<open>i_log\<close> the console logger (the formats of its messages), and
  \<open>i_renameWarnings\<close> the keys of \<open>opt.FilesWithCommandRenameWarning\<close>.\<close>

record Interpreter =
  i_calls :: "conv_call list"
  i_withDocker :: "WithDockerOpt option"
  i_log :: "string list"
  i_target :: Target_ref
  i_interactiveSaveFiles :: "SaveFilesSettings list"
  i_allowPrivileged :: bool
  i_local :: bool
  i_withDockerRan :: bool
  i_parallelConversion :: bool
  i_pushOnlyAllowed :: bool
  i_isWith :: bool
  i_isBase :: bool
  i_renameWarnings :: "string list"

type_synonym 'a im = "(Interpreter, abort, 'a) rs"

definition newInterpreter :: "Target_ref \<Rightarrow> bool \<Rightarrow> bool \<Rightarrow> Interpreter" where
  "newInterpreter t allowPrivileged parallelConversion =
    \<lparr>i_calls = [], i_withDocker = None, i_log = [], i_target = t, i_interactiveSaveFiles = [],
     i_allowPrivileged = allowPrivileged, i_local = False, i_withDockerRan = False,
     i_parallelConversion = parallelConversion, i_pushOnlyAllowed = False, i_isWith = False, i_isBase = False,
     i_renameWarnings = []\<rparr>"

definition add_call :: "conv_call \<Rightarrow> Interpreter \<Rightarrow> Interpreter" where
  "add_call c i = i\<lparr>i_calls := i_calls i @ [c]\<rparr>"

definition conv :: "env \<Rightarrow> conv_call \<Rightarrow> answer im" where
  "conv ev c i =
    (case ev_answer ev (i_calls i) c of Inl e \<Rightarrow> Inl (Err e) | Inr a \<Rightarrow> Inr a, add_call c i)"

definition convU :: "env \<Rightarrow> conv_call \<Rightarrow> unit im" where
  "convU ev c = bindR (conv ev c) (\<lambda>_. retR ())"

definition errorf :: "Loc \<Rightarrow> string \<Rightarrow> 'a im" where
  "errorf sl fmt = failR (Err (Errorf sl fmt))"

definition errR :: "ierror \<Rightarrow> 'a im" where
  "errR e = failR (Err e)"

definition panicR :: "string \<Rightarrow> 'a im" where
  "panicR msg = failR (Panic msg)"

text \<open>\<open>if err != nil { return i.wrapError(err, sl, fmt) }\<close> and
  \<open>if err != nil { return i.errorf(sl, fmt) }\<close>\<close>

definition wrapError :: "Loc \<Rightarrow> string \<Rightarrow> 'a im \<Rightarrow> 'a im" where
  "wrapError sl fmt m = onErrR (on_err (\<lambda>e. Wrapped (Some e) sl fmt)) m"

definition replaceError :: "Loc \<Rightarrow> string \<Rightarrow> 'a im \<Rightarrow> 'a im" where
  "replaceError sl fmt m = onErrR (on_err (\<lambda>_. Errorf sl fmt)) m"

definition resR :: "('x \<Rightarrow> ierror) \<Rightarrow> 'x + 'a \<Rightarrow> 'a im" where
  "resR f r = (case r of Inl e \<Rightarrow> errR (f e) | Inr x \<Rightarrow> retR x)"

definition logf :: "string \<Rightarrow> unit im" where
  "logf fmt = modR (\<lambda>i. i\<lparr>i_log := i_log i @ [fmt]\<rparr>)"

definition ftr :: "env \<Rightarrow> string \<Rightarrow> bool" where
  "ftr ev name = fe_on (ev_ftrs ev) name"

abbreviation push_only_msg :: string where
  "push_only_msg \<equiv> ''no non-push commands allowed after a --push''"

text \<open>The guard that most handlers start with: \<open>if i.pushOnlyAllowed { return i.pushOnlyErr(sl) }\<close>\<close>

definition notPushOnly :: "Loc \<Rightarrow> 'a im \<Rightarrow> 'a im" where
  "notPushOnly sl m = readR i_pushOnlyAllowed (\<lambda>push. if push then errorf sl push_only_msg else m)"

end
