(* ===== verification/Interpreter.thy ===== *)
theory Interpreter
  imports Interp_Base
begin

text \<open>
  The interpreter of \<^verbatim>\<open>earthfile2llb/interpreter.go\<close>: one definition per handler. The handlers of
  commands come first, then the blocks. A handler that runs a nested block, a statement or a
  generated BUILD command gets the interpreter of these as the argument \<open>rc\<close>; \<open>irun\<close> ties
  the knot with one unit of fuel per level, since a DO command may call its own function.
  The check of \<open>handleCommand\<close> that no handler changed the arguments of its command is left out:
  arguments are values here.
\<close>

section \<open>Words\<close>

fun replaceSlashPlus :: "string \<Rightarrow> string \<Rightarrow> string" where
  "replaceSlashPlus by (c # d # s) =
    (if c = ch_bslash \<and> d = CHR ''+'' then by @ replaceSlashPlus by s else c # replaceSlashPlus by (d # s))"
| "replaceSlashPlus by s = s"

definition escapeSlashPlus :: "string \<Rightarrow> string" where
  "escapeSlashPlus str = replaceSlashPlus [ch_bslash, ch_bslash, CHR ''+''] str"

definition unescapeSlashPlus :: "string \<Rightarrow> string" where
  "unescapeSlashPlus str = replaceSlashPlus ''+'' str"

definition expandArgs :: "env \<Rightarrow> string \<Rightarrow> bool \<Rightarrow> bool \<Rightarrow> string im" where
  "expandArgs ev word keepPlusEscape async =
    readR i_local (\<lambda>locally.
    bindR (onErrR (on_err (\<lambda>e. if async \<and> Is_ShellOutNotPermitted e then ErrCannotAsync else e))
      (conv ev (CExpandArgs (no_run_opts\<lparr>ro_CommandName := ''expandargs'', ro_Locally := locally,
        ro_Transient := \<not> locally, ro_WithShell := True\<rparr>) (escapeSlashPlus word) (\<not> async)))) (\<lambda>ret.
    retR (if keepPlusEscape then an_text ret else unescapeSlashPlus (an_text ret))))"

definition expandArgsSlice :: "env \<Rightarrow> string list \<Rightarrow> bool \<Rightarrow> string list im" where
  "expandArgsSlice ev words async = mapR (\<lambda>word. expandArgs ev word True async) words"

text \<open>The callback that \<open>requiresShellOutOrCmdInvalid\<close> gives to the lexer records that it was
  called. It makes no difference to the result that the callback here fails instead: the
  lexer then fails, and the answer is the same.\<close>

definition requiresShellOutOrCmdInvalid :: "env \<Rightarrow> string \<Rightarrow> bool" where
  "requiresShellOutOrCmdInvalid ev s =
    (\<not> is_ok (ProcessWordWithMap
       \<lparr>sw_envs = Map.empty, sw_shellOutEnvs = ShellOutEnvs, sw_shellOut = Some (\<lambda>_. Inl ''required''),
        sw_escapeToken = 0x5C, sw_rawQuotes = False, sw_rawEscapes = False, sw_skipUnsetEnv = False,
        sw_skipProcessQuotes = False, sw_IsLetter = fst (ev_tables ev), sw_IsDigit = snd (ev_tables ev)\<rparr> s))"

definition isSafeAsyncBuildArgsKVStyle :: "env \<Rightarrow> string list \<Rightarrow> bool" where
  "isSafeAsyncBuildArgsKVStyle ev args =
    list_all (\<lambda>arg. \<not> requiresShellOutOrCmdInvalid ev (fst (snd (ParseKeyValue arg)))) args"

definition isSafeAsyncBuildArgs :: "env \<Rightarrow> string list \<Rightarrow> bool" where
  "isSafeAsyncBuildArgs ev args =
    list_all (\<lambda>arg. prefix ''--'' arg \<and> \<not> requiresShellOutOrCmdInvalid ev (fst (snd (ParseKeyValue (drop 2 arg))))) args"

definition baseTarget :: "Reference \<Rightarrow> Target_ref" where
  "baseTarget ref = \<lparr>t_GitURL = GetGitURL ref, t_Tag = GetTag ref, t_LocalPath = GetLocalPath ref,
     t_ImportRef = GetImportRef ref, t_Target = ''base''\<rparr>"

definition parsePlatform :: "env \<Rightarrow> Loc \<Rightarrow> string \<Rightarrow> Platform im" where
  "parsePlatform ev sl s =
    readR i_calls (\<lambda>calls.
    wrapError sl ''parse platform %s'' (resR Foreign
      (Resolver_Parse (ev_platforms_Parse ev) (ev_platforms_Normalize ev) (ev_platr ev calls) s)))"

definition parseFlagArgs :: "Loc \<Rightarrow> string list \<Rightarrow> string list im" where
  "parseFlagArgs sl args = wrapError sl ''parse flag args'' (resR FlagError (ParseFlagArgs args))"

definition parseOpts :: "Loc \<Rightarrow> string \<Rightarrow> 'o flag_parser \<Rightarrow> 'o \<Rightarrow> string list \<Rightarrow> ('o \<times> string list) im" where
  "parseOpts sl fmt parse opts args = wrapError sl fmt (resR FlagutilError (ParseArgsCleaned parse opts args))"

section \<open>Privileges\<close>

definition getAllowPrivileged :: "Target_ref \<Rightarrow> bool \<Rightarrow> bool im" where
  "getAllowPrivileged depTarget allowPrivileged =
    readR i_allowPrivileged (\<lambda>mine.
    if IsRemote (RefTarget depTarget) then retR (mine \<and> allowPrivileged)
    else bindR (if allowPrivileged then logf ''the --allow-privileged flag has no effect when referencing a local target''
                else retR ()) (\<lambda>_. retR mine))"

definition getAllowPrivilegedTarget :: "env \<Rightarrow> string \<Rightarrow> bool \<Rightarrow> bool im" where
  "getAllowPrivilegedTarget ev targetName allowPrivileged =
    (if CHR ''+'' \<notin> set targetName then retR False
     else bindR (resR (\<lambda>e. Wrapped (Some (RefError e)) None ''parse target name %s: %w'') (ParseTarget (ev_home ev) targetName))
       (\<lambda>depTarget. getAllowPrivileged depTarget allowPrivileged))"

definition getAllowPrivilegedArtifact :: "env \<Rightarrow> string \<Rightarrow> bool \<Rightarrow> bool im" where
  "getAllowPrivilegedArtifact ev artifactName allowPrivileged =
    bindR (resR (\<lambda>e. Wrapped (Some (RefError e)) None ''parse artifact name %s: %w'') (ParseArtifact (ev_home ev) artifactName))
      (\<lambda>artifact. getAllowPrivileged (a_Target artifact) allowPrivileged)"

section \<open>FROM, FROM DOCKERFILE and LOCALLY\<close>

definition handleFrom :: "env \<Rightarrow> Command \<Rightarrow> unit im" where
  "handleFrom ev cmd = (let sl = cmd_SourceLocation cmd in
    notPushOnly sl (
    bindR (parseOpts sl ''invalid FROM arguments %v'' (gf_From (ev_goflags ev)) zero_From (cmd_Args cmd)) (\<lambda>(opts, args).
    if length args = 3 \<and> args ! 1 = ''AS'' then errorf sl ''AS not supported, use earth targets instead''
    else if length args < 1 then errorf sl ''invalid number of arguments for FROM: %s''
    else
    bindR (replaceError sl ''unable to expand image name for FROM: %s'' (expandArgs ev (args ! 0) True False)) (\<lambda>imageName.
    bindR (replaceError sl ''unable to expand platform for FROM: %s'' (expandArgs ev (from_Platform opts) False False)) (\<lambda>expandedPlatform.
    bindR (parsePlatform ev sl expandedPlatform) (\<lambda>platform.
    bindR (replaceError sl ''unable to expand build args for FROM: %v'' (expandArgsSlice ev (from_BuildArgs opts) False)) (\<lambda>expandedBuildArgs.
    bindR (replaceError sl ''unable to expand flag args for FROM: %v'' (expandArgsSlice ev (tl args) False)) (\<lambda>expandedFlagArgs.
    bindR (parseFlagArgs sl expandedFlagArgs) (\<lambda>parsedFlagArgs.
    bindR (getAllowPrivilegedTarget ev imageName (from_AllowPrivileged opts)) (\<lambda>allowPrivileged.
    if \<not> ftr ev ''pass-args'' \<and> from_PassArgs opts then
      errorf sl ''the FROM --pass-args flag must be enabled with the VERSION --pass-args feature flag.''
    else
    bindR (modR (\<lambda>i. i\<lparr>i_local := False\<rparr>)) (\<lambda>_.
    wrapError sl ''apply FROM %s''
      (convU ev (CFrom imageName platform allowPrivileged (from_PassArgs opts) (parsedFlagArgs @ expandedBuildArgs))))))))))))))"

definition handleFromDockerfile :: "env \<Rightarrow> Command \<Rightarrow> unit im" where
  "handleFromDockerfile ev cmd = (let sl = cmd_SourceLocation cmd in
    notPushOnly sl (
    bindR (parseOpts sl ''invalid FROM DOCKERFILE arguments %v'' (gf_FromDockerfile (ev_goflags ev)) zero_FromDockerfile (cmd_Args cmd)) (\<lambda>(opts, args).
    if length args < 1 then errorf sl ''invalid number of arguments for FROM DOCKERFILE''
    else if \<not> ftr ev ''allow-privileged-from-dockerfile'' \<and> fdf_AllowPrivileged opts then
      errorf sl ''the FROM DOCKERFILE --allow-privileged flag must be enabled with the VERSION --allow-privileged-from-dockerfile feature flag.''
    else
    readR i_allowPrivileged (\<lambda>mine.
    let allowPrivileged = fdf_AllowPrivileged opts \<and> mine in
    bindR (replaceError sl ''failed to expand FROM DOCKERFILE path arg %s'' (expandArgs ev (args ! 0) False False)) (\<lambda>path.
    bindR (case ParseArtifact (ev_home ev) path of
        Inl _ \<Rightarrow> replaceError sl ''failed to expand FROM DOCKERFILE path arg %s'' (expandArgs ev (args ! 0) False False)
      | Inr _ \<Rightarrow> retR path) (\<lambda>path.
    bindR (replaceError sl ''failed to expand FROM DOCKERFILE build args %s'' (expandArgsSlice ev (fdf_BuildArgs opts) False)) (\<lambda>expandedBuildArgs.
    bindR (replaceError sl ''failed to expand FROM DOCKERFILE flag args %s'' (expandArgsSlice ev (tl args) False)) (\<lambda>expandedFlagArgs.
    bindR (parseFlagArgs sl expandedFlagArgs) (\<lambda>parsedFlagArgs.
    bindR (replaceError sl ''failed to expand FROM DOCKERFILE platform %s'' (expandArgs ev (fdf_Platform opts) False False)) (\<lambda>expandedPlatform.
    bindR (parsePlatform ev sl expandedPlatform) (\<lambda>platform.
    bindR (wrapError sl ''failed to expand path %s'' (expandArgs ev (fdf_Path opts) False False)) (\<lambda>expandedPath.
    bindR (wrapError sl ''failed to expand target %s'' (expandArgs ev (fdf_Target opts) False False)) (\<lambda>expandedTarget.
    bindR (modR (\<lambda>i. i\<lparr>i_local := False\<rparr>)) (\<lambda>_.
    wrapError sl ''from dockerfile''
      (convU ev (CFromDockerfile path expandedPath expandedTarget platform allowPrivileged (parsedFlagArgs @ expandedBuildArgs)))))))))))))))))"

definition handleLocally :: "env \<Rightarrow> Command \<Rightarrow> unit im" where
  "handleLocally ev cmd = (let sl = cmd_SourceLocation cmd in
    readR i_allowPrivileged (\<lambda>mine.
    if \<not> mine then errorf sl ''Permission denied: unwilling to allow locally directive from remote Earthfile''
    else notPushOnly sl (
    bindR (modR (\<lambda>i. i\<lparr>i_local := True\<rparr>)) (\<lambda>_.
    wrapError sl ''apply LOCALLY'' (convU ev CLocally)))))"

section \<open>RUN\<close>

text \<open>The boolean flags of \<open>cmdopts.Run\<close> (\<open>getBoolFlagNames\<close>).\<close>

definition Run_boolFlags :: "string list" where
  "Run_boolFlags = [''push'', ''privileged'', ''entrypoint'', ''with-docker'', ''ssh'', ''aws'', ''no-cache'',
     ''interactive'', ''interactive-keep'', ''raw-output'']"

definition flagValModifierFunc :: "env \<Rightarrow> string \<Rightarrow> string \<Rightarrow> string option im" where
  "flagValModifierFunc ev flagName flagVal =
    bindR (expandArgs ev flagVal False False) (\<lambda>newFlag. retR (Some newFlag))"

definition parseRunOpts :: "env \<Rightarrow> string list \<Rightarrow> (Run_opts \<times> string list) im" where
  "parseRunOpts ev args =
    bindR (preprocessArgs (ProcessParamsAndQuotes args) (\<lambda>name. name \<in> set Run_boolFlags) (flagValModifierFunc ev)) (\<lambda>args.
    resR (\<lambda>e. FlagutilError (GoFlags e)) (gf_Run (ev_goflags ev) (zero_Run (ev_defaultZeroStringFlag ev)) args))"

definition handleOIDC :: "env \<Rightarrow> Loc \<Rightarrow> Run_opts \<Rightarrow> AWSOIDCInfo option im" where
  "handleOIDC ev sl opts =
    (if run_OIDC opts = ev_defaultZeroStringFlag ev then retR None
     else if \<not> fe_on (ev_optFeatures ev) ''run-with-aws-oidc'' then
       errorf sl ''RUN --aws-oidc requires the --run-with-aws-oidc feature flag''
     else if \<not> run_WithAWS opts then errorf sl ''RUN --oidc also requires the --aws RUN flag''
     else
       bindR (replaceError sl ''failed to expand oidc arg in RUN: %s'' (expandArgs ev (run_OIDC opts) False False)) (\<lambda>expanded.
       case ParseAWSOIDCInfo (ev_arn_Parse ev) (ev_ParseDuration ev) expanded of
         Inl _ \<Rightarrow> errorf sl ''invalid value for oidc flag: %v''
       | Inr info \<Rightarrow> retR (Some info)))"

definition runNetwork :: "env \<Rightarrow> Loc \<Rightarrow> Run_opts \<Rightarrow> bool im" where
  "runNetwork ev sl opts =
    (if run_Network opts \<noteq> [] then
       if \<not> ftr ev ''no-network'' then
         errorf sl ''the RUN --network=none flag must be enabled with the VERSION --no-network feature flag.''
       else if run_Network opts \<noteq> ''none'' then errorf sl ''invalid network value %s; only none is currently supported''
       else retR True
     else retR False)"

definition runPlain :: "env \<Rightarrow> Command \<Rightarrow> Run_opts \<Rightarrow> string list \<Rightarrow> string list \<Rightarrow> string list \<Rightarrow> bool \<Rightarrow> AWSOIDCInfo option \<Rightarrow> unit im" where
  "runPlain ev cmd opts args secrets mounts noNetwork awsOIDCInfo = (let sl = cmd_SourceLocation cmd in
    if run_WithDocker opts then errorf sl ''--with-docker is obsolete. Please use WITH DOCKER ... RUN ... END instead''
    else
    readR i_local (\<lambda>locally.
    readR i_interactiveSaveFiles (\<lambda>saves.
    bindR (wrapError sl ''apply RUN'' (convU ev (CRun (no_run_opts\<lparr>
        ro_CommandName := cmd_Name cmd, ro_Args := args, ro_Locally := locally, ro_Mounts := mounts,
        ro_Secrets := secrets, ro_WithShell := \<not> cmd_ExecMode cmd, ro_WithEntrypoint := run_WithEntrypoint opts,
        ro_Privileged := run_Privileged opts, ro_NoNetwork := noNetwork, ro_Push := run_Push opts,
        ro_WithSSH := run_WithSSH opts, ro_NoCache := run_NoCache opts, ro_Interactive := run_Interactive opts,
        ro_InteractiveKeep := run_InteractiveKeep opts, ro_InteractiveSaveFiles := saves,
        ro_WithAWSCredentials := run_WithAWS opts, ro_OIDCInfo := awsOIDCInfo, ro_RawOutput := run_RawOutput opts\<rparr>)))) (\<lambda>_.
    if run_Push opts \<and> \<not> ftr ev ''wait-block'' then modR (\<lambda>i. i\<lparr>i_pushOnlyAllowed := True\<rparr>) else retR ()))))"

definition runInDocker :: "env \<Rightarrow> Command \<Rightarrow> Run_opts \<Rightarrow> string list \<Rightarrow> string list \<Rightarrow> string list \<Rightarrow> AWSOIDCInfo option \<Rightarrow> WithDockerOpt \<Rightarrow> unit im" where
  "runInDocker ev cmd opts args secrets mounts awsOIDCInfo docker = (let sl = cmd_SourceLocation cmd in
    readR i_withDockerRan (\<lambda>ran.
    if ran then errorf sl ''only one RUN command allowed in WITH DOCKER''
    else if run_Push opts then errorf sl ''RUN --push not allowed in WITH DOCKER''
    else
    let docker = docker\<lparr>wd_Mounts := mounts, wd_Secrets := secrets, wd_WithShell := \<not> cmd_ExecMode cmd,
          wd_WithEntrypoint := run_WithEntrypoint opts, wd_WithSSH := run_WithSSH opts, wd_NoCache := run_NoCache opts,
          wd_Interactive := run_Interactive opts, wd_interactiveKeep := run_InteractiveKeep opts,
          wd_WithAWSCredentials := run_WithAWS opts, wd_OIDCInfo := awsOIDCInfo\<rparr>;
        allowParallel = list_all (\<lambda>l. isSafeAsyncBuildArgsKVStyle ev (dl_BuildArgs l)) (wd_Loads docker)
    in
    bindR (modR (\<lambda>i. i\<lparr>i_withDocker := Some docker\<rparr>)) (\<lambda>_.
    readR i_local (\<lambda>locally.
    bindR (wrapError sl ''with docker run''
      (convU ev (if locally then CWithDockerRunLocal args docker allowParallel else CWithDockerRun args docker allowParallel))) (\<lambda>_.
    modR (\<lambda>i. i\<lparr>i_withDockerRan := True\<rparr>))))))"

definition handleRun :: "env \<Rightarrow> Command \<Rightarrow> unit im" where
  "handleRun ev cmd = (let sl = cmd_SourceLocation cmd in
    if length (cmd_Args cmd) < 1 then errorf sl ''not enough arguments for RUN''
    else
    bindR (wrapError sl ''invalid RUN arguments %v'' (parseRunOpts ev (cmd_Args cmd))) (\<lambda>(opts, args).
    let opts = (if run_WithDocker opts then opts\<lparr>run_Privileged := True\<rparr> else opts) in
    readR i_pushOnlyAllowed (\<lambda>push.
    if \<not> run_Push opts \<and> push then errorf sl push_only_msg
    else
    bindR (mapR (\<lambda>s. replaceError sl ''failed to expand secrets arg in RUN: %s'' (expandArgs ev s True False)) (run_Secrets opts)) (\<lambda>secrets.
    bindR (mapR (\<lambda>m. replaceError sl ''failed to expand mount arg in RUN: %s'' (expandArgs ev m False False)) (run_Mounts opts)) (\<lambda>mounts.
    readR i_allowPrivileged (\<lambda>mine.
    if run_Privileged opts \<and> \<not> mine then
      errorf sl ''Permission denied: unwilling to run privileged command''
    else
    bindR (runNetwork ev sl opts) (\<lambda>noNetwork.
    if run_WithAWS opts \<and> \<not> fe_on (ev_optFeatures ev) ''run-with-aws'' then
      errorf sl ''RUN --aws requires the --run-with-aws feature flag''
    else
    bindR (handleOIDC ev sl opts) (\<lambda>awsOIDCInfo.
    if run_RawOutput opts \<and> \<not> fe_on (ev_optFeatures ev) ''raw-output'' then
      errorf sl ''RUN --raw-output requires the --raw-output feature flag''
    else
    readR i_withDocker (\<lambda>withDocker.
    case withDocker of
      None \<Rightarrow> runPlain ev cmd opts args secrets mounts noNetwork awsOIDCInfo
    | Some docker \<Rightarrow> runInDocker ev cmd opts args secrets mounts awsOIDCInfo docker)))))))))"

section \<open>COPY\<close>

text \<open>\<open>strconv.ParseUint(s, 8, 32)\<close>\<close>

definition parseMode :: "string \<Rightarrow> ierror + nat" where
  "parseMode s =
    (if s \<noteq> [] \<and> list_all (\<lambda>c. c \<in> set ''01234567'') s \<and> foldl (\<lambda>a c. 8 * a + (of_char c - 0x30)) 0 s < (2 ^ 32 :: nat)
     then Inr (foldl (\<lambda>a c. 8 * a + (of_char c - 0x30)) 0 s)
     else Inl (Foreign ''strconv.ParseUint''))"

definition zero_Target_ref :: Target_ref where
  "zero_Target_ref = \<lparr>t_GitURL = [], t_Tag = [], t_LocalPath = [], t_ImportRef = [], t_Target = []\<rparr>"

definition zero_Artifact :: Artifact where
  "zero_Artifact = \<lparr>a_Target = zero_Target_ref, a_Artifact = []\<rparr>"

text \<open>One source of a COPY: its text, the artifact, the flag arguments, and whether it is an
  artifact.\<close>

definition copySource :: "env \<Rightarrow> Loc \<Rightarrow> string \<Rightarrow> (string \<times> Artifact \<times> string list \<times> bool) im" where
  "copySource ev sl src =
    bindR (if IsInParamsForm src then
        bindR (wrapError sl ''parse params %s'' (resR FlagutilError (ParseParams src))) (\<lambda>(artifactStr, flagArgs).
        bindR (wrapError sl ''failed to expand COPY artifact %s'' (expandArgs ev artifactStr True False)) (\<lambda>expandedArtifact.
        case ParseArtifact (ev_home ev) expandedArtifact of
          Inl _ \<Rightarrow> errR (Wrapped None sl ''parse artifact'')
        | Inr artifactSrc \<Rightarrow> retR (Some artifactSrc, flagArgs)))
      else
        bindR (wrapError sl ''failed to expand COPY src %s'' (expandArgs ev src True False)) (\<lambda>expandedSrc.
        retR (case ParseArtifact (ev_home ev) expandedSrc of Inl _ \<Rightarrow> None | Inr artifactSrc \<Rightarrow> Some artifactSrc, []))) (\<lambda>(parsed, flagArgs).
    case parsed of
      Some artifactSrc \<Rightarrow> retR (Artifact_String artifactSrc, artifactSrc, flagArgs, True)
    | None \<Rightarrow>
        bindR (wrapError sl ''failed to expand COPY src %s'' (expandArgs ev src False False)) (\<lambda>expandedSrc.
        readR i_calls (\<lambda>calls.
        if ev_LocalArtifactWhiteList ev calls expandedSrc then
          errorf sl ''unable to copy file %s, which has is outputted elsewhere by SAVE ARTIFACT AS LOCAL''
        else retR (expandedSrc, zero_Artifact, flagArgs, False))))"

text \<open>One artifact of a COPY that has only artifacts.\<close>

definition copyArtifact ::
  "env \<Rightarrow> Loc \<Rightarrow> Copy_opts \<Rightarrow> string \<Rightarrow> Platform \<Rightarrow> string list \<Rightarrow> string \<Rightarrow> nat option \<Rightarrow> string \<times> Artifact \<times> string list \<times> bool \<Rightarrow> unit im" where
  "copyArtifact ev sl opts dest platform expandedBuildArgs expandedChown fileModeParsed s =
    (case s of (src, srcArtifact, srcFlagArgs, _) \<Rightarrow>
    bindR (getAllowPrivilegedArtifact ev src (copy_AllowPrivileged opts)) (\<lambda>allowPrivileged.
    bindR (wrapError sl ''failed to expand COPY flag %s'' (expandArgsSlice ev srcFlagArgs False)) (\<lambda>expandedFlagArgs.
    bindR (parseFlagArgs sl expandedFlagArgs) (\<lambda>parsedFlagArgs.
    let srcBuildArgs = parsedFlagArgs @ expandedBuildArgs in
    if \<not> ftr ev ''pass-args'' \<and> copy_PassArgs opts then
      errorf sl ''the COPY --pass-args flag must be enabled with the VERSION --pass-args feature flag.''
    else
    bindR (if CHR ''*'' \<in> set (referenceString (RefTarget (a_Target srcArtifact))) then
        if \<not> ftr ev ''wildcard-copy'' then errorf sl ''wildcard COPY commands are not enabled''
        else bindR (wrapError sl ''failed to expand wildcard COPY %q'' (conv ev (CExpandWildcardArtifacts srcArtifact))) (\<lambda>a.
          retR (map Artifact_String (an_artifacts a)))
      else retR [src]) (\<lambda>expandedSrcs.
    forR expandedSrcs (\<lambda>expandedSrc.
    readR i_local (\<lambda>locally.
    if locally then wrapError sl ''copy artifact locally'' (convU ev (CCopyArtifactLocal expandedSrc dest platform
      allowPrivileged (copy_PassArgs opts) srcBuildArgs (copy_IsDirCopy opts)))
    else wrapError sl ''copy artifact'' (convU ev (CCopyArtifact expandedSrc dest platform allowPrivileged
      (copy_PassArgs opts) srcBuildArgs (copy_IsDirCopy opts) (copy_KeepTs opts) (copy_KeepOwn opts) expandedChown
      fileModeParsed (copy_IfExists opts) (copy_SymlinkNoFollow opts))))))))))"

definition handleCopy :: "env \<Rightarrow> Command \<Rightarrow> unit im" where
  "handleCopy ev cmd = (let sl = cmd_SourceLocation cmd in
    notPushOnly sl (
    bindR (parseOpts sl ''invalid COPY arguments %v'' (gf_Copy (ev_goflags ev)) zero_Copy (cmd_Args cmd)) (\<lambda>(opts, args).
    if length args < 2 then errorf sl ''not enough COPY arguments %v''
    else if copy_From opts \<noteq> [] then errorf sl ''COPY --from not implemented. Use COPY artifacts form instead''
    else
    bindR (wrapError sl ''failed to expand COPY args %v'' (expandArgs ev (last args) False False)) (\<lambda>dest.
    bindR (wrapError sl ''failed to expand COPY buildargs %v'' (expandArgsSlice ev (copy_BuildArgs opts) False)) (\<lambda>expandedBuildArgs.
    bindR (wrapError sl ''failed to expand COPY chown: %v'' (expandArgs ev (copy_Chown opts) False False)) (\<lambda>expandedChown.
    bindR (if copy_Chmod opts \<noteq> [] then
        bindR (wrapError sl ''failed to expand COPY chmod: %v'' (expandArgs ev (copy_Chmod opts) False False)) (\<lambda>expandedMode.
        bindR (wrapError sl ''failed to parse COPY chmod: %v'' (resR id (parseMode expandedMode))) (\<lambda>mode. retR (Some mode)))
      else retR None) (\<lambda>fileModeParsed.
    bindR (wrapError sl ''failed to expand COPY platform: %v'' (expandArgs ev (copy_Platform opts) False False)) (\<lambda>expandedPlatform.
    bindR (parsePlatform ev sl expandedPlatform) (\<lambda>platform.
    bindR (mapR (copySource ev sl) (butlast args)) (\<lambda>srcs.
    let allClassical = list_all (\<lambda>s. \<not> snd (snd (snd s))) srcs; allArtifacts = list_all (\<lambda>s. snd (snd (snd s))) srcs in
    if \<not> allClassical \<and> \<not> allArtifacts then
      errorf sl ''combining artifacts and build context arguments in a single COPY command is not allowed: %v''
    else
    bindR (if list_ex (\<lambda>p. prefix ''~'' p) (Split dest CHR ''/'') then
        logf ''destination path contains a ~ which does not expand to a home directory'' else retR ()) (\<lambda>_.
    if \<not> allArtifacts then
      if expandedBuildArgs \<noteq> [] then errorf sl ''build args not supported for non +artifact arguments case %v''
      else
      readR i_local (\<lambda>locally.
      if locally then errorf sl ''unhandled locally artifact copy when allArtifacts is false''
      else wrapError sl ''copy classical'' (convU ev (CCopyClassical (map fst srcs) dest (copy_IsDirCopy opts)
        (copy_KeepTs opts) (copy_KeepOwn opts) expandedChown fileModeParsed (copy_IfExists opts))))
    else
      let dest = (if dest = [] \<or> dest = ''.'' \<or> length srcs > 1 then dest @ ''/'' else dest) in
      forR srcs (copyArtifact ev sl opts dest platform expandedBuildArgs expandedChown fileModeParsed))))))))))))"

section \<open>SAVE ARTIFACT and SAVE IMAGE\<close>

definition parseSaveArtifactArgs :: "string list \<Rightarrow> (string \<times> string \<times> string) option" where
  "parseSaveArtifactArgs args =
    (let n = length args in
     if n \<ge> 4 then
       if Join (slice args (n - 3) (n - 1)) '' '' = ''AS LOCAL'' then
         Some (args ! 0, if n = 5 then args ! 1 else ''./'', args ! (n - 1))
       else None
     else if n = 2 then Some (args ! 0, args ! 1, [])
     else if n = 0 \<or> n = 3 then None
     else Some (args ! 0, ''./'', []))"

definition handleSaveArtifact :: "env \<Rightarrow> Command \<Rightarrow> unit im" where
  "handleSaveArtifact ev cmd = (let sl = cmd_SourceLocation cmd in
    bindR (parseOpts sl ''invalid SAVE ARTIFACT arguments %v'' (gf_SaveArtifact (ev_goflags ev)) zero_SaveArtifact (cmd_Args cmd)) (\<lambda>(opts, args).
    if length args = 0 then errorf sl ''no arguments provided to the SAVE ARTIFACT command''
    else if length args > 5 then errorf sl ''too many arguments provided to the SAVE ARTIFACT command: %v''
    else case parseSaveArtifactArgs args of
      None \<Rightarrow> errorf sl ''invalid arguments for SAVE ARTIFACT command: %v''
    | Some (saveFrom, saveTo, saveAsLocalTo) \<Rightarrow>
    bindR (replaceError sl ''failed to expand SAVE ARTIFACT src: %s'' (expandArgs ev saveFrom False False)) (\<lambda>saveFrom.
    bindR (replaceError sl ''failed to expand SAVE ARTIFACT dst: %s'' (expandArgs ev saveTo False False)) (\<lambda>expandedSaveTo.
    bindR (replaceError sl ''failed to expand SAVE ARTIFACT local dst: %s'' (expandArgs ev saveAsLocalTo False False)) (\<lambda>expandedSaveAsLocalTo.
    readR i_local (\<lambda>locally.
    if locally then
      if expandedSaveAsLocalTo \<noteq> [] then errorf sl ''SAVE ARTIFACT AS LOCAL is not implemented under LOCALLY targets''
      else wrapError sl ''apply SAVE ARTIFACT''
        (convU ev (CSaveArtifactFromLocal saveFrom expandedSaveTo (sa_KeepTs opts) (sa_IfExists opts) []))
    else
    let keepOwn = (sa_KeepOwn opts \<or> ftr ev ''save-artifact-keep-own'') in
    readR i_pushOnlyAllowed (\<lambda>push.
    wrapError sl ''apply SAVE ARTIFACT'' (convU ev (CSaveArtifact saveFrom expandedSaveTo expandedSaveAsLocalTo
      (sa_KeepTs opts) keepOwn (sa_IfExists opts) (sa_SymlinkNoFollow opts) (sa_Force opts) push)))))))))"

definition handleSaveImage :: "env \<Rightarrow> Command \<Rightarrow> unit im" where
  "handleSaveImage ev cmd = (let sl = cmd_SourceLocation cmd in
    bindR (parseOpts sl ''invalid SAVE IMAGE arguments %v'' (gf_SaveImage (ev_goflags ev)) zero_SaveImage (cmd_Args cmd)) (\<lambda>(opts, args).
    bindR (mapR (\<lambda>cf. wrapError sl ''failed to expand SAVE IMAGE cache-from: %s'' (expandArgs ev cf False False)) (si_CacheFrom opts)) (\<lambda>cacheFrom.
    if si_Push opts \<and> length args = 0 then errorf sl ''invalid number of arguments for SAVE IMAGE --push: %v''
    else
    bindR (mapR (\<lambda>img. wrapError sl ''failed to expand SAVE IMAGE img: %s'' (expandArgs ev img False False)) args) (\<lambda>imageNames.
    if length imageNames = 0 \<and> \<not> si_CacheHint opts \<and> length cacheFrom = 0 then retR ()
    else
    bindR (if si_WithoutEarthLabels opts then
        if \<not> ftr ev ''allow-without-earthly-labels'' then
          errorf sl ''the SAVE IMAGE --without-earthly-labels flag must be enabled with the VERSION --allow-without-earthly-labels feature flag.''
        else retR ()
      else wrapError sl ''failed to create dev.earthly.* labels during SAVE IMAGE'' (convU ev (CLabel (ev_labels ev)))) (\<lambda>_.
    bindR (wrapError sl ''save image'' (convU ev (CSaveImage imageNames (si_Push opts) (si_Insecure opts)
      (si_CacheHint opts) cacheFrom (si_NoManifestList opts)))) (\<lambda>_.
    if si_Push opts \<and> \<not> ftr ev ''wait-block'' then modR (\<lambda>i. i\<lparr>i_pushOnlyAllowed := True\<rparr>) else retR ()))))))"

section \<open>BUILD\<close>

text \<open>What \<open>handleBuild\<close> and the handlers of nested statements ask the interpreter for.\<close>

datatype icall = IBlock Block | IStmt Statement | IBuild Command bool

type_synonym interp = "icall \<Rightarrow> unit im"

text \<open>\<open>newOnExecutionSuccess\<close>: the successes still required, and whether \<open>saveHashFn\<close> runs at a
  success.\<close>

definition onExecutionSuccess :: "int \<Rightarrow> int \<times> bool" where
  "onExecutionSuccess numSuccessRequired = (let n = numSuccessRequired - 1 in (n, n = 0))"

definition handleWildcardBuilds :: "env \<Rightarrow> interp \<Rightarrow> string \<Rightarrow> Command \<Rightarrow> bool \<Rightarrow> unit im" where
  "handleWildcardBuilds ev rc fullTargetName cmd async =
    bindR (wrapError (cmd_SourceLocation cmd) ''failed to expand wildcard BUILD %q'' (conv ev (CExpandWildcardCmds fullTargetName cmd))) (\<lambda>a.
    forR (an_cmds a) (\<lambda>child. rc (IBuild child async)))"

definition handleBuild :: "env \<Rightarrow> interp \<Rightarrow> Command \<Rightarrow> bool \<Rightarrow> unit im" where
  "handleBuild ev rc cmd async = (let sl = cmd_SourceLocation cmd in
    notPushOnly sl (
    bindR (parseOpts sl ''invalid BUILD arguments %v'' (gf_Build (ev_goflags ev)) zero_Build (cmd_Args cmd)) (\<lambda>(opts, args).
    if length args < 1 then errorf sl ''invalid number of arguments for BUILD: %s''
    else
    bindR (wrapError sl ''failed to expand BUILD target %s'' (expandArgs ev (args ! 0) True async)) (\<lambda>fullTargetName.
    if CHR ''*'' \<in> set fullTargetName then
      if \<not> ftr ev ''wildcard-builds'' then errorf sl ''wildcard BUILD commands are not enabled''
      else handleWildcardBuilds ev rc fullTargetName cmd async
    else
    bindR (mapR (\<lambda>p. bindR (wrapError sl ''failed to expand BUILD platform %s'' (expandArgs ev p False async)) (parsePlatform ev sl))
      (build_Platforms opts)) (\<lambda>platformsSlice.
    let asyncSafeArgs = (isSafeAsyncBuildArgsKVStyle ev (build_BuildArgs opts) \<and> isSafeAsyncBuildArgs ev (tl args)) in
    if async \<and> (\<not> asyncSafeArgs \<or> build_AutoSkip opts) then errR ErrCannotAsync
    else
    readR i_local (\<lambda>locally.
    if locally \<and> \<not> asyncSafeArgs then
      errorf sl ''BUILD args do not currently support shelling-out in combination with LOCALLY''
    else
    bindR (wrapError sl ''failed to expand BUILD args %v'' (expandArgsSlice ev (build_BuildArgs opts) async)) (\<lambda>expandedBuildArgs.
    bindR (wrapError sl ''failed to expand BUILD flags %v'' (expandArgsSlice ev (tl args) async)) (\<lambda>expandedFlagArgs.
    bindR (parseFlagArgs sl expandedFlagArgs) (\<lambda>parsedFlagArgs.
    let expandedBuildArgs = parsedFlagArgs @ expandedBuildArgs;
        platformsSlice = (if platformsSlice = [] then [DefaultPlatform] else platformsSlice);
        crossProductBuildArgs = BuildArgMatrix (ev_grow ev) expandedBuildArgs
    in
    bindR (getAllowPrivilegedTarget ev fullTargetName (build_AllowPrivileged opts)) (\<lambda>allowPrivileged.
    if \<not> ftr ev ''pass-args'' \<and> build_PassArgs opts then
      errorf sl ''the BUILD --pass-args flag must be enabled with the VERSION --pass-args feature flag.''
    else if \<not> ftr ev ''build-auto-skip'' \<and> build_AutoSkip opts then
      errorf sl ''the BUILD --auto-skip flag must be enabled with the VERSION --build-auto-skip feature flag.''
    else
    forR crossProductBuildArgs (\<lambda>buildArgs.
    bindR (if build_AutoSkip opts then
        bindR (wrapError sl ''failed to determine whether target can be skipped''
          (conv ev (CcheckAutoSkip fullTargetName allowPrivileged (build_PassArgs opts) buildArgs))) (\<lambda>a. retR (an_skip a))
      else retR False) (\<lambda>skip.
    if skip then retR ()
    else
    forR platformsSlice (\<lambda>platform.
    if async then wrapError sl ''apply BUILD %s''
      (convU ev (CBuildAsync fullTargetName platform allowPrivileged (build_PassArgs opts) buildArgs))
    else wrapError sl ''apply BUILD %s''
      (convU ev (CBuild fullTargetName platform allowPrivileged (build_PassArgs opts) buildArgs
        (length platformsSlice, build_AutoSkip opts))))))))))))))))"

section \<open>Image settings\<close>

definition handleWorkdir :: "env \<Rightarrow> Command \<Rightarrow> unit im" where
  "handleWorkdir ev cmd = (let sl = cmd_SourceLocation cmd in
    notPushOnly sl (
    if length (cmd_Args cmd) \<noteq> 1 then errorf sl ''invalid number of arguments for WORKDIR: %v''
    else
    bindR (wrapError sl ''failed to expand WORKDIR path %s'' (expandArgs ev (cmd_Args cmd ! 0) False False)) (\<lambda>workdirPath.
    wrapError sl ''apply WORKDIR'' (convU ev (CWorkdir workdirPath)))))"

definition handleUser :: "env \<Rightarrow> Command \<Rightarrow> unit im" where
  "handleUser ev cmd = (let sl = cmd_SourceLocation cmd in
    notPushOnly sl (
    if length (cmd_Args cmd) \<noteq> 1 then errorf sl ''invalid number of arguments for USER: %v''
    else
    bindR (wrapError sl ''failed to expand USER %s'' (expandArgs ev (cmd_Args cmd ! 0) False False)) (\<lambda>user.
    wrapError sl ''apply USER'' (convU ev (CUser user)))))"

definition handleCmd :: "env \<Rightarrow> Command \<Rightarrow> unit im" where
  "handleCmd ev cmd = (let sl = cmd_SourceLocation cmd; withShell = (\<not> cmd_ExecMode cmd) in
    notPushOnly sl (
    bindR (if withShell then mapR (\<lambda>arg. wrapError sl ''failed to expand CMD %s'' (expandArgs ev arg False False)) (cmd_Args cmd)
           else retR (cmd_Args cmd)) (\<lambda>cmdArgs.
    wrapError sl ''apply CMD'' (convU ev (CCmd cmdArgs withShell)))))"

definition handleEntrypoint :: "env \<Rightarrow> Command \<Rightarrow> unit im" where
  "handleEntrypoint ev cmd = (let sl = cmd_SourceLocation cmd; withShell = (\<not> cmd_ExecMode cmd) in
    notPushOnly sl (
    bindR (if withShell then mapR (\<lambda>arg. wrapError sl ''failed to expand ENTRYPOINT %s'' (expandArgs ev arg False False)) (cmd_Args cmd)
           else retR (cmd_Args cmd)) (\<lambda>entArgs.
    wrapError sl ''apply ENTRYPOINT'' (convU ev (CEntrypoint entArgs withShell)))))"

definition handleExpose :: "env \<Rightarrow> Command \<Rightarrow> unit im" where
  "handleExpose ev cmd = (let sl = cmd_SourceLocation cmd in
    notPushOnly sl (
    if cmd_Args cmd = [] then errorf sl ''no arguments provided to the EXPOSE command''
    else
    bindR (mapR (\<lambda>port. wrapError sl ''failed to expand EXPOSE %s'' (expandArgs ev port False False)) (cmd_Args cmd)) (\<lambda>ports.
    bindR (wrapError sl ''failed to parse EXPOSE command'' (resR Foreign (ev_ParsePortSpecs ev ports))) (\<lambda>parsedPorts.
    wrapError sl ''apply EXPOSE'' (convU ev (CExpose parsedPorts))))))"

definition handleVolume :: "env \<Rightarrow> Command \<Rightarrow> unit im" where
  "handleVolume ev cmd = (let sl = cmd_SourceLocation cmd in
    notPushOnly sl (
    if cmd_Args cmd = [] then errorf sl ''no arguments provided to the VOLUME command''
    else
    bindR (mapR (\<lambda>volume. wrapError sl ''failed to expand VOLUME %s'' (expandArgs ev volume False False)) (cmd_Args cmd)) (\<lambda>volumes.
    wrapError sl ''apply VOLUME'' (convU ev (CVolume volumes)))))"

definition handleEnv :: "env \<Rightarrow> Command \<Rightarrow> unit im" where
  "handleEnv ev cmd = (let sl = cmd_SourceLocation cmd; args = cmd_Args cmd in
    notPushOnly sl (
    bindR (if length args = 3 then
        if args ! 1 \<noteq> ''='' then errorf sl ''invalid syntax''
        else wrapError sl ''failed to expand ENV %s'' (expandArgs ev (args ! 2) False False)
      else if length args = 1 then retR []
      else errorf sl ''invalid syntax'') (\<lambda>value.
    wrapError sl ''apply ENV'' (convU ev (CEnv (args ! 0) value)))))"

definition handleHealthcheck :: "env \<Rightarrow> Command \<Rightarrow> unit im" where
  "handleHealthcheck ev cmd = (let sl = cmd_SourceLocation cmd in
    notPushOnly sl (
    bindR (parseOpts sl ''invalid HEALTHCHECK arguments %v'' (gf_HealthCheck (ev_goflags ev)) zero_HealthCheck (cmd_Args cmd)) (\<lambda>(opts, args).
    if args = [] then errorf sl ''invalid number of arguments for HEALTHCHECK: %s''
    else
    bindR (if args ! 0 = ''NONE'' then
        if length args \<noteq> 1 then errorf sl ''invalid arguments for HEALTHCHECK: %s'' else retR (True, [])
      else if args ! 0 = ''CMD'' then
        if length args = 1 then errorf sl ''invalid number of arguments for HEALTHCHECK CMD: %s'' else retR (False, tl args)
      else if prefix ''['' (args ! 0) then errorf sl ''exec form not yet supported for HEALTHCHECK CMD: %s''
      else errorf sl ''invalid arguments for HEALTHCHECK: %s'') (\<lambda>(isNone, cmdArgs).
    bindR (mapR (\<lambda>arg. wrapError sl ''failed to expand HEALTHCHECK arguments %s'' (expandArgs ev arg False False)) cmdArgs) (\<lambda>cmdArgs.
    wrapError sl ''apply HEALTHCHECK'' (convU ev (CHealthcheck isNone cmdArgs (hc_Interval opts) (hc_Timeout opts)
      (hc_StartPeriod opts) (hc_Retries opts) (hc_StartInterval opts))))))))"

text \<open>The loop of LABEL over the words: \<open>nextKey\<close>, \<open>nextEqual\<close>, the key and the labels so far.
  A reserved key is reported with the \<open>nil\<close> error of its expansion as the cause.\<close>

fun labelLoop :: "env \<Rightarrow> Loc \<Rightarrow> string list \<Rightarrow> bool \<Rightarrow> bool \<Rightarrow> string \<Rightarrow> (string \<times> string) list \<Rightarrow> (bool \<times> (string \<times> string) list) im" where
  "labelLoop ev sl [] nextKey nextEqual key labels = retR (nextKey, labels)"
| "labelLoop ev sl (arg # args) nextKey nextEqual key labels =
    (if nextKey then
       bindR (wrapError sl ''failed to expand LABEL key %s'' (expandArgs ev arg False False)) (\<lambda>key.
       if prefix ''dev.earthly.'' key then errR (Wrapped None sl ''LABEL keys starting with dev.earthly. are reserved'')
       else labelLoop ev sl args False True key labels)
     else if nextEqual then
       if arg \<noteq> ''='' then errorf sl ''syntax error'' else labelLoop ev sl args False False key labels
     else
       bindR (wrapError sl ''failed to expand LABEL value %s'' (expandArgs ev arg False False)) (\<lambda>value.
       labelLoop ev sl args True nextEqual key (AList.update key value labels)))"

definition handleLabel :: "env \<Rightarrow> Command \<Rightarrow> unit im" where
  "handleLabel ev cmd = (let sl = cmd_SourceLocation cmd in
    notPushOnly sl (
    bindR (labelLoop ev sl (cmd_Args cmd) True False [] []) (\<lambda>(nextKey, labels).
    if \<not> nextKey then errorf sl ''syntax error''
    else if labels = [] then errorf sl ''no labels provided in LABEL command''
    else wrapError sl ''apply LABEL'' (convU ev (CLabel labels)))))"

section \<open>Variables\<close>

definition handleArg :: "env \<Rightarrow> Command \<Rightarrow> unit im" where
  "handleArg ev cmd = (let sl = cmd_SourceLocation cmd in
    notPushOnly sl (
    readR i_isBase (\<lambda>isBase.
    bindR (wrapError sl ''invalid ARG arguments %v'' (resR FlagutilError
      (ParseArgArgs (gf_Arg (ev_goflags ev)) cmd isBase (ftr ev ''explicit-global'')))) (\<lambda>(opts, key, valueOrNil).
    bindR (case DeprecatedBuiltin key of
        Some _ \<Rightarrow> logf ''WARNING: the built-in ARG %s is deprecated. Use %s.''
      | None \<Rightarrow> retR ()) (\<lambda>_.
    bindR (case valueOrNil of
        Some v \<Rightarrow> wrapError sl ''failed to expand ARG %s'' (expandArgs ev v True False)
      | None \<Rightarrow> retR []) (\<lambda>value.
    wrapError sl ''apply ARG'' (convU ev (CArg key value opts))))))))"

definition handleLet :: "env \<Rightarrow> Command \<Rightarrow> unit im" where
  "handleLet ev cmd = (let sl = cmd_SourceLocation cmd in
    notPushOnly sl (
    bindR (parseOpts None ''failed to parse LET args: %w'' (gf_Let (ev_goflags ev)) () (cmd_Args cmd)) (\<lambda>(_, args).
    if length args \<noteq> 3 \<or> args ! 1 \<noteq> ''='' then
      errR (Wrapped (Some (FlagutilError ErrInvalidSyntax)) None ''LET requires a variable assignment, e.g. LET foo = bar'')
    else
    bindR (wrapError sl ''failed to expand LET value %q'' (expandArgs ev (args ! 2) True False)) (\<lambda>val.
    wrapError sl ''apply LET'' (convU ev (CLet (args ! 0) val))))))"

definition parseSetArgs :: "env \<Rightarrow> Command \<Rightarrow> (string \<times> string) im" where
  "parseSetArgs ev cmd =
    bindR (parseOpts None ''failed to parse SET args: %w'' (gf_Set (ev_goflags ev)) () (cmd_Args cmd)) (\<lambda>(_, args).
    if length args \<noteq> 3 then errR (FlagutilError ErrInvalidSyntax)
    else if args ! 1 \<noteq> ''='' then errR (FlagutilError ErrInvalidSyntax)
    else retR (args ! 0, args ! 2))"

definition handleSet :: "env \<Rightarrow> Command \<Rightarrow> unit im" where
  "handleSet ev cmd =
    (if \<not> ftr ev ''arg-scope-and-set'' then errR (Plain ''unknown command SET'')
     else
     bindR (wrapError None ''failed to parse SET arguments: %w'' (parseSetArgs ev cmd)) (\<lambda>(key, value).
     bindR (wrapError (cmd_SourceLocation cmd) ''failed to expand SET %s'' (expandArgs ev value True False)) (\<lambda>newVal.
     convU ev (CUpdateArg key newVal))))"

section \<open>Other commands\<close>

definition handleGitClone :: "env \<Rightarrow> Command \<Rightarrow> unit im" where
  "handleGitClone ev cmd = (let sl = cmd_SourceLocation cmd in
    notPushOnly sl (
    bindR (parseOpts sl ''invalid GIT CLONE arguments %v'' (gf_GitClone (ev_goflags ev)) zero_GitClone (cmd_Args cmd)) (\<lambda>(opts, args).
    if length args \<noteq> 2 then errorf sl ''invalid number of arguments for GIT CLONE: %s''
    else
    bindR (wrapError sl ''failed to expand GIT CLONE url: %s'' (expandArgs ev (args ! 0) False False)) (\<lambda>gitURL.
    bindR (wrapError sl ''failed to expand GIT CLONE dest: %s'' (expandArgs ev (args ! 1) False False)) (\<lambda>gitCloneDest.
    bindR (wrapError sl ''failed to expand GIT CLONE dest: %s'' (expandArgs ev (gc_Branch opts) False False)) (\<lambda>gitBranch.
    bindR (wrapError sl ''unable to use %v with configured earthly credentials from ~/.earthly/config.yml''
      (conv ev (CConvertCloneURL gitURL))) (\<lambda>a.
    wrapError sl ''git clone'' (convU ev (CGitClone (an_text a) (an_text2 a) gitBranch gitCloneDest (gc_KeepTs opts))))))))))"

definition handleImport :: "env \<Rightarrow> Command \<Rightarrow> unit im" where
  "handleImport ev cmd = (let sl = cmd_SourceLocation cmd in
    bindR (parseOpts sl ''invalid IMPORT arguments %v'' (gf_Import (ev_goflags ev)) zero_Import (cmd_Args cmd)) (\<lambda>(opts, args).
    if length args \<noteq> 1 \<and> length args \<noteq> 3 then errorf sl ''invalid number of arguments for IMPORT: %s''
    else if length args = 3 \<and> args ! 1 \<noteq> ''AS'' then errorf sl ''invalid arguments for IMPORT: %s''
    else
    bindR (wrapError sl ''failed to expand IMPORT %s'' (expandArgs ev (args ! 0) False False)) (\<lambda>importStr.
    bindR (if length args = 3 then wrapError sl ''failed to expand IMPORT as: %s'' (expandArgs ev (args ! 2) False False)
           else retR []) (\<lambda>as.
    readR i_target (\<lambda>target.
    readR i_allowPrivileged (\<lambda>mine.
    wrapError sl ''apply IMPORT''
      (convU ev (CImport importStr as (t_Target target = ''base'') mine (imp_AllowPrivileged opts)))))))))"

definition handleProject :: "env \<Rightarrow> Command \<Rightarrow> unit im" where
  "handleProject ev cmd = (let sl = cmd_SourceLocation cmd in
    bindR (logf ''Deprecation: the PROJECT command is deprecated.'') (\<lambda>_.
    case cmd_Args cmd of
      [] \<Rightarrow> panicR ''index out of range''
    | projectVal # _ \<Rightarrow>
        let parts = Split projectVal CHR ''/'' in
        if length parts \<noteq> 2 then errorf sl ''unexpected format for PROJECT statement, should be: <organization>/<project>''
        else wrapError sl ''failed to process PROJECT'' (convU ev (CProject (parts ! 0) (parts ! 1)))))"

definition handleCache :: "env \<Rightarrow> Command \<Rightarrow> unit im" where
  "handleCache ev cmd = (let sl = cmd_SourceLocation cmd in
    if \<not> ftr ev ''use-cache-command'' then errorf sl ''the CACHE command is not supported in this version''
    else
    bindR (parseOpts sl ''invalid CACHE arguments %v'' (gf_Cache (ev_goflags ev)) zero_Cache (cmd_Args cmd)) (\<lambda>(opts, args).
    if length args \<noteq> 1 then errorf sl ''invalid number of arguments for CACHE: %s''
    else
    readR i_local (\<lambda>locally.
    if locally then errorf sl ''CACHE command not supported with LOCALLY''
    else
    bindR (wrapError sl ''failed to expand CACHE directory %s'' (expandArgs ev (args ! 0) False False)) (\<lambda>dir.
    bindR (wrapError sl ''failed to expand CACHE mode %s'' (expandArgs ev (cache_Mode opts) False False)) (\<lambda>expandedMode.
    readR i_calls (\<lambda>calls.
    let dir = (if \<not> path_IsAbs dir then path_Clean (path_Join (path_Join ''/'' (ev_WorkingDir ev calls)) dir) else dir) in
    bindR (if cache_ID opts \<noteq> [] then wrapError sl ''failed to expand CACHE id %s'' (expandArgs ev (cache_ID opts) False False)
           else retR []) (\<lambda>cacheID.
    wrapError sl ''apply CACHE'' (convU ev (CCache dir (opts\<lparr>cache_Mode := expandedMode, cache_ID := cacheID\<rparr>))))))))))"

definition handleHost :: "env \<Rightarrow> Command \<Rightarrow> unit im" where
  "handleHost ev cmd = (let sl = cmd_SourceLocation cmd; args = cmd_Args cmd in
    if \<not> ftr ev ''use-host-command'' then errorf sl ''the HOST command is not supported in this version''
    else if length args \<noteq> 2 then errorf sl ''invalid number of arguments for HOST: %s''
    else
    readR i_local (\<lambda>locally.
    if locally then errorf sl ''HOST command not supported with LOCALLY''
    else
    bindR (replaceError sl ''unable to expand host name for HOST: %s'' (expandArgs ev (args ! 0) True False)) (\<lambda>host.
    bindR (replaceError sl ''unable to expand IP addr for HOST: %s'' (expandArgs ev (args ! 1) True False)) (\<lambda>ipStr.
    case ParseIP ipStr of
      None \<Rightarrow> errorf sl ''invalid HOST ip %s''
    | Some ip \<Rightarrow> wrapError sl ''apply HOST'' (convU ev (CHost host ip))))))"

definition dockerLoad :: "env \<Rightarrow> Loc \<Rightarrow> WithDocker_opts \<Rightarrow> Platform \<Rightarrow> string list \<Rightarrow> string \<Rightarrow> unit im" where
  "dockerLoad ev sl opts platform expandedBuildArgs loadStr =
    bindR (wrapError sl ''parse load'' (resR FlagutilError (ParseLoad loadStr))) (\<lambda>(loadImg, loadTarget, flagArgs).
    bindR (wrapError sl ''failed to expand WITH DOCKER load flag: %s'' (expandArgsSlice ev flagArgs False)) (\<lambda>expandedFlagArgs.
    bindR (parseFlagArgs sl expandedFlagArgs) (\<lambda>parsedFlagArgs.
    bindR (getAllowPrivilegedTarget ev loadTarget (wdo_AllowPrivileged opts)) (\<lambda>allowPrivileged.
    if \<not> ftr ev ''pass-args'' \<and> wdo_PassArgs opts then
      errorf sl ''the WITH DOCKER --pass-args flag must be enabled with the VERSION --pass-args feature flag.''
    else modR (\<lambda>i. i\<lparr>i_withDocker := map_option (\<lambda>docker. docker\<lparr>wd_Loads := wd_Loads docker @
      [\<lparr>dl_Target = loadTarget, dl_ImageName = loadImg, dl_Platform = platform,
        dl_BuildArgs = parsedFlagArgs @ expandedBuildArgs, dl_AllowPrivileged = allowPrivileged,
        dl_PassArgs = wdo_PassArgs opts\<rparr>]\<rparr>) (i_withDocker i)\<rparr>)))))"

definition handleWithDocker :: "env \<Rightarrow> Command \<Rightarrow> unit im" where
  "handleWithDocker ev cmd = (let sl = cmd_SourceLocation cmd in
    notPushOnly sl (
    readR i_withDocker (\<lambda>withDocker.
    if withDocker \<noteq> None then errorf sl ''cannot use WITH DOCKER within WITH DOCKER''
    else
    bindR (parseOpts sl ''invalid WITH DOCKER arguments %v'' (gf_WithDocker (ev_goflags ev)) zero_WithDocker (cmd_Args cmd)) (\<lambda>(opts, args).
    if args \<noteq> [] then errorf sl ''invalid WITH DOCKER arguments %v''
    else
    bindR (wrapError sl ''failed to expand WITH DOCKER platform %s'' (expandArgs ev (wdo_Platform opts) False False)) (\<lambda>expandedPlatform.
    bindR (parsePlatform ev sl expandedPlatform) (\<lambda>platform.
    bindR (mapR (\<lambda>cf. wrapError sl ''failed to expand WITH DOCKER compose: %s'' (expandArgs ev cf False False)) (wdo_ComposeFiles opts)) (\<lambda>composeFiles.
    bindR (mapR (\<lambda>cs. wrapError sl ''failed to expand WITH DOCKER compose service: %s'' (expandArgs ev cs False False)) (wdo_ComposeServices opts)) (\<lambda>composeServices.
    bindR (mapR (\<lambda>load. wrapError sl ''failed to expand WITH DOCKER load: %s'' (expandArgs ev load True False)) (wdo_Loads opts)) (\<lambda>loads.
    bindR (wrapError sl ''failed to expand WITH DOCKER build args %v'' (expandArgsSlice ev (wdo_BuildArgs opts) False)) (\<lambda>expandedBuildArgs.
    bindR (mapR (\<lambda>p. wrapError sl ''failed to expand WITH DOCKER pull: %s'' (expandArgs ev p False False)) (wdo_Pulls opts)) (\<lambda>pulls.
    readR i_interactiveSaveFiles (\<lambda>saves.
    bindR (modR (\<lambda>i. i\<lparr>i_withDocker := Some ((new_WithDockerOpt composeFiles composeServices saves)
      \<lparr>wd_Pulls := map (\<lambda>p. \<lparr>dp_Platform = platform, dp_ImageName = p\<rparr>) pulls\<rparr>)\<rparr>)) (\<lambda>_.
    bindR (forR loads (dockerLoad ev sl opts platform expandedBuildArgs)) (\<lambda>_.
    if wdo_CacheID opts \<noteq> [] then
      if \<not> ftr ev ''docker-cache'' then
        errorf sl ''the WITH DOCKER --cache-id flag must be enabled with the VERSION --docker-cache feature flag.''
      else modR (\<lambda>i. i\<lparr>i_withDocker := map_option (\<lambda>docker. docker\<lparr>wd_CacheID := wdo_CacheID opts\<rparr>) (i_withDocker i)\<rparr>)
    else retR ()))))))))))))))"

section \<open>DO\<close>

definition renameWarning :: "bool \<Rightarrow> string \<Rightarrow> unit im" where
  "renameWarning useFunctionCmd sourceLocationFile =
    readR i_renameWarnings (\<lambda>seen.
    if \<not> useFunctionCmd \<and> length seen < 3 \<and> sourceLocationFile \<notin> set seen then
      bindR (logf ''Note that the COMMAND keyword will be replaced by FUNCTION starting with VERSION 0.8.'') (\<lambda>_.
      modR (\<lambda>i. i\<lparr>i_renameWarnings := i_renameWarnings i @ [sourceLocationFile]\<rparr>))
    else retR ())"

definition handleDoFunction ::
  "env \<Rightarrow> interp \<Rightarrow> Command_ref \<Rightarrow> Command_ref \<Rightarrow> Function \<Rightarrow> Command \<Rightarrow> string list \<Rightarrow> bool \<Rightarrow> bool \<Rightarrow> string \<Rightarrow> bool \<Rightarrow> unit im" where
  "handleDoFunction ev rc command relCommand uc doCmd buildArgs allowPrivileged passArgs sourceLocationFile useFunctionCmd =
    (let cmdName = (if useFunctionCmd then CmdFunction else CmdCommand) in
    readR i_allowPrivileged (\<lambda>mine.
    if allowPrivileged \<and> \<not> mine then errorf (fn_SourceLocation uc) ''invalid privileged in %s''
    else
    case fn_Recipe uc of
      Statement loc0 (KCommand c) # recipe \<Rightarrow>
        if cmd_Name c \<noteq> cmdName then errorf (fn_SourceLocation uc) ''%s recipes must start with %s''
        else
        bindR (renameWarning useFunctionCmd sourceLocationFile) (\<lambda>_.
        if cmd_Args c \<noteq> [] then errorf loc0 ''%s takes no arguments''
        else
        case cmd_SourceLocation doCmd of
          None \<Rightarrow> panicR ''nil pointer dereference''
        | Some l \<Rightarrow>
        let scopeName = referenceStringCanonical (RefCommand command) @ '' ('' @ File l @ '':'' @ FormatUint (StartLine l) @
              '':'' @ FormatUint (StartColumn l) @ '')'' in
        bindR (wrapError (fn_SourceLocation uc) ''enter scope'' (convU ev (CEnterScopeDo command
          (baseTarget (RefCommand relCommand)) allowPrivileged passArgs scopeName buildArgs))) (\<lambda>_.
        bindR (modR (\<lambda>i. i\<lparr>i_allowPrivileged := allowPrivileged\<rparr>)) (\<lambda>_.
        bindR (rc (IBlock recipe)) (\<lambda>_.
        bindR (wrapError (fn_SourceLocation uc) ''exit scope'' (convU ev CExitScope)) (\<lambda>_.
        modR (\<lambda>i. i\<lparr>i_allowPrivileged := mine\<rparr>))))))
    | _ \<Rightarrow> errorf (fn_SourceLocation uc) ''%s recipes must start with %s''))"

definition handleDo :: "env \<Rightarrow> interp \<Rightarrow> Command \<Rightarrow> unit im" where
  "handleDo ev rc cmd = (let sl = cmd_SourceLocation cmd in
    bindR (parseOpts sl ''invalid DO arguments %v'' (gf_Do (ev_goflags ev)) zero_Do (cmd_Args cmd)) (\<lambda>(opts, args).
    if length args < 1 then errorf sl ''invalid number of arguments for DO: %s''
    else
    bindR (wrapError sl ''failed to expand DO flags %v'' (expandArgsSlice ev (tl args) False)) (\<lambda>expandedFlagArgs.
    bindR (parseFlagArgs sl expandedFlagArgs) (\<lambda>parsedFlagArgs.
    bindR (wrapError sl ''failed to expand user command %v'' (expandArgs ev (args ! 0) False False)) (\<lambda>ucName.
    bindR (wrapError sl ''unable to parse user command reference %s'' (resR RefError (ParseCommand (ev_home ev) ucName))) (\<lambda>relCommand.
    readR i_allowPrivileged (\<lambda>mine.
    bindR (if \<not> IsRemote (RefCommand relCommand) \<and> do_AllowPrivileged opts then
        logf ''the --allow-privileged flag has no effect when referencing a local target'' else retR ()) (\<lambda>_.
    let allowPrivileged = (if IsRemote (RefCommand relCommand) then mine \<and> do_AllowPrivileged opts else mine) in
    bindR (wrapError sl ''unable to resolve user command %s'' (conv ev (CResolveReference relCommand))) (\<lambda>bc.
    case an_Ref bc of
      RefTarget _ \<Rightarrow> errorf sl ''want domain.Command, got %T''
    | RefCommand command \<Rightarrow>
    let allowPrivileged = (if an_allowPrivilegedSet bc then allowPrivileged \<and> an_allowPrivileged bc else allowPrivileged) in
    if \<not> ftr ev ''pass-args'' \<and> do_PassArgs opts then
      errorf sl ''the DO --pass-args flag must be enabled with the VERSION --pass-args feature flag.''
    else
    case find (\<lambda>uc. fn_Name uc = c_Command command) (tree_Functions (an_Earthfile bc)) of
      None \<Rightarrow> errorf sl ''user command %s not found (available functions: %v)''
    | Some uc \<Rightarrow> handleDoFunction ev rc command relCommand uc cmd parsedFlagArgs allowPrivileged (do_PassArgs opts)
        (referenceProjectCanonical (an_Ref bc) @ ''/Earthfile'') (fe_on (an_Features bc) ''use-function-keyword''))))))))))"

section \<open>Commands\<close>

definition handleCommand :: "env \<Rightarrow> interp \<Rightarrow> Command \<Rightarrow> unit im" where
  "handleCommand ev rc cmd = (let sl = cmd_SourceLocation cmd; name = cmd_Name cmd in
    readR i_isWith (\<lambda>isWith.
    if isWith then
      if name = CmdDocker then handleWithDocker ev cmd else errorf sl ''unexpected WITH command %s''
    else if name = CmdFrom then handleFrom ev cmd
    else if name = CmdRun then handleRun ev cmd
    else if name = CmdFromDockerfile then handleFromDockerfile ev cmd
    else if name = CmdLocally then handleLocally ev cmd
    else if name = CmdCopy then handleCopy ev cmd
    else if name = CmdSaveArtifact then handleSaveArtifact ev cmd
    else if name = CmdSaveImage then handleSaveImage ev cmd
    else if name = CmdBuild then handleBuild ev rc cmd False
    else if name = CmdWorkdir then handleWorkdir ev cmd
    else if name = CmdUser then handleUser ev cmd
    else if name = CmdCmd then handleCmd ev cmd
    else if name = CmdEntrypoint then handleEntrypoint ev cmd
    else if name = CmdExpose then handleExpose ev cmd
    else if name = CmdVolume then handleVolume ev cmd
    else if name = CmdEnv then handleEnv ev cmd
    else if name = CmdArg then handleArg ev cmd
    else if name = CmdLet then handleLet ev cmd
    else if name = CmdSet then handleSet ev cmd
    else if name = CmdLabel then handleLabel ev cmd
    else if name = CmdGitClone then handleGitClone ev cmd
    else if name = CmdHealthCheck then handleHealthcheck ev cmd
    else if name = CmdAdd then errorf sl ''command ADD not yet supported''
    else if name = CmdStopSignal then errorf sl ''command STOPSIGNAL not yet supported''
    else if name = CmdOnBuild then errorf sl ''command ONBUILD not supported''
    else if name = CmdShell then errorf sl ''command SHELL not yet supported''
    else if name = CmdCommand then errorf sl ''command COMMAND not allowed in a target definition''
    else if name = CmdFunction then errorf sl ''command FUNCTION not allowed in a target definition''
    else if name = CmdDo then handleDo ev rc cmd
    else if name = CmdImport then handleImport ev cmd
    else if name = CmdCache then handleCache ev cmd
    else if name = CmdHost then handleHost ev cmd
    else if name = CmdProject then handleProject ev cmd
    else errorf sl ''unexpected command %q''))"

section \<open>Statements\<close>

definition handleWith :: "env \<Rightarrow> interp \<Rightarrow> Loc \<Rightarrow> Command \<Rightarrow> Block \<Rightarrow> unit im" where
  "handleWith ev rc loc command body =
    bindR (modR (\<lambda>i. i\<lparr>i_isWith := True\<rparr>)) (\<lambda>_.
    bindR (tryR (handleCommand ev rc command)) (\<lambda>res.
    bindR (modR (\<lambda>i. i\<lparr>i_isWith := False\<rparr>)) (\<lambda>_.
    bindR (liftR res) (\<lambda>_.
    readR i_withDocker (\<lambda>withDocker.
    if withDocker \<noteq> None \<and> length body > 1 then
      errorf loc ''only one command is allowed in WITH DOCKER and it has to be RUN''
    else
    bindR (rc (IBlock body)) (\<lambda>_.
    bindR (modR (\<lambda>i. i\<lparr>i_withDocker := None\<rparr>)) (\<lambda>_.
    readR i_withDockerRan (\<lambda>ran.
    if \<not> ran then errorf loc ''no RUN command found in WITH DOCKER''
    else modR (\<lambda>i. i\<lparr>i_withDockerRan := False\<rparr>)))))))))"

definition handleIfExpression :: "env \<Rightarrow> string list \<Rightarrow> bool \<Rightarrow> Loc \<Rightarrow> bool im" where
  "handleIfExpression ev expression execMode sl =
    (if length expression < 1 then errorf sl ''not enough arguments for IF''
     else
     bindR (parseOpts sl ''invalid IF arguments %v'' (gf_If (ev_goflags ev)) zero_If expression) (\<lambda>(opts, args).
     bindR (mapR (\<lambda>s. wrapError sl ''failed to expand IF secret %v'' (expandArgs ev s True False)) (if_Secrets opts)) (\<lambda>secrets.
     bindR (mapR (\<lambda>m. wrapError sl ''failed to expand IF mount %v'' (expandArgs ev m False False)) (if_Mounts opts)) (\<lambda>mounts.
     readR i_local (\<lambda>locally.
     bindR (wrapError sl ''apply IF'' (conv ev (CRunExitCode (no_run_opts\<lparr>ro_CommandName := ''IF'', ro_Args := args,
       ro_Locally := locally, ro_Mounts := mounts, ro_Secrets := secrets, ro_WithShell := \<not> execMode,
       ro_Privileged := if_Privileged opts, ro_WithSSH := if_WithSSH opts, ro_NoCache := if_NoCache opts,
       ro_Transient := \<not> locally\<rparr>)))) (\<lambda>a. retR (an_code a = 0)))))))"

fun elseIfLoop :: "env \<Rightarrow> interp \<Rightarrow> ElseIfStatement list \<Rightarrow> Block option \<Rightarrow> unit im" where
  "elseIfLoop ev rc [] elseBody = (case elseBody of None \<Rightarrow> retR () | Some b \<Rightarrow> rc (IBlock b))"
| "elseIfLoop ev rc (ElseIfStatement loc expr execMode body # eis) elseBody =
    bindR (handleIfExpression ev expr execMode loc) (\<lambda>isZero.
    if isZero then rc (IBlock body) else elseIfLoop ev rc eis elseBody)"

definition handleIf :: "env \<Rightarrow> interp \<Rightarrow> Loc \<Rightarrow> string list \<Rightarrow> bool \<Rightarrow> Block \<Rightarrow> ElseIfStatement list \<Rightarrow> Block option \<Rightarrow> unit im" where
  "handleIf ev rc loc expr execMode ifBody elseIf elseBody =
    notPushOnly loc (
    bindR (handleIfExpression ev expr execMode loc) (\<lambda>isZero.
    if isZero then rc (IBlock ifBody) else elseIfLoop ev rc elseIf elseBody))"

definition handleForArgs :: "env \<Rightarrow> string list \<Rightarrow> Loc \<Rightarrow> (string \<times> string list) im" where
  "handleForArgs ev forArgs sl =
    bindR (parseOpts sl ''invalid FOR arguments %v'' (gf_For (ev_goflags ev)) NewFor forArgs) (\<lambda>(opts, args).
    if length args < 3 then errorf sl ''not enough arguments for FOR''
    else if args ! 1 \<noteq> ''IN'' then errorf sl ''expected IN, got %s''
    else
    readR i_local (\<lambda>locally.
    bindR (wrapError sl ''apply FOR ... IN'' (conv ev (CRunExpression (args ! 0) (no_run_opts\<lparr>ro_CommandName := ''FOR'',
      ro_Args := drop 2 args, ro_Locally := locally, ro_Mounts := for_Mounts opts, ro_Secrets := for_Secrets opts,
      ro_WithShell := True, ro_Privileged := for_Privileged opts, ro_WithSSH := for_WithSSH opts,
      ro_NoCache := for_NoCache opts, ro_Transient := \<not> locally\<rparr>)))) (\<lambda>a.
    retR (args ! 0, FieldsFunc (an_text a) (\<lambda>r. r \<in> fst ` set (runes (for_Separators opts)))))))"

definition handleFor :: "env \<Rightarrow> interp \<Rightarrow> Loc \<Rightarrow> string list \<Rightarrow> Block \<Rightarrow> unit im" where
  "handleFor ev rc loc args body =
    (if \<not> ftr ev ''for-in'' then errorf loc ''the FOR command is not supported in this version''
     else
     bindR (handleForArgs ev args loc) (\<lambda>(variable, instances).
     forR instances (\<lambda>ins.
     bindR (wrapError loc ''set %s=%s'' (convU ev (CSetArg variable ins))) (\<lambda>_.
     bindR (rc (IBlock body)) (\<lambda>_.
     wrapError loc ''unset %s'' (convU ev (CUnsetArg variable)))))))"

definition handleWait :: "env \<Rightarrow> interp \<Rightarrow> Loc \<Rightarrow> string list \<Rightarrow> Block \<Rightarrow> unit im" where
  "handleWait ev rc loc args body =
    (if \<not> ftr ev ''wait-block'' then errorf loc ''the WAIT command is not supported in this version''
     else if \<not> ftr ev ''referenced-save-only'' then errorf loc ''the WAIT command requires the --referenced-save-only feature''
     else if args \<noteq> [] then errorf loc ''WAIT does not accept any options''
     else
     bindR (convU ev CPushWaitBlock) (\<lambda>_.
     bindR (rc (IBlock body)) (\<lambda>_.
     convU ev CPopWaitBlock)))"

text \<open>\<open>path.Base\<close>\<close>

definition path_Base :: "string \<Rightarrow> string" where
  "path_Base p =
    (if p = [] then ''.''
     else let t = rev (dropWhile (\<lambda>c. c = CHR ''/'') (rev p)) in
       if t = [] then ''/'' else rev (takeWhile (\<lambda>c. c \<noteq> CHR ''/'') (rev t)))"

text \<open>One statement of a FINALLY body. The error for a statement that is not a command reads
  \<open>cmd.Command.Name\<close> of the \<open>nil\<close> command.\<close>

definition finallySave :: "env \<Rightarrow> Loc \<Rightarrow> Statement \<Rightarrow> SaveFilesSettings im" where
  "finallySave ev loc stmt =
    (case stmt of Statement _ k \<Rightarrow> (case k of
       KCommand cmd \<Rightarrow>
         (let sl = cmd_SourceLocation cmd in
         if cmd_Name cmd \<noteq> ''SAVE ARTIFACT'' then
           errorf loc ''CATCH/FINALLY body only (currently) supports SAVE ARTIFACT ... AS LOCAL commands; got %s''
         else
         bindR (parseOpts sl ''invalid SAVE ARTIFACT arguments %v'' (gf_SaveArtifact (ev_goflags ev)) zero_SaveArtifact (cmd_Args cmd)) (\<lambda>(opts, args).
         if sa_KeepTs opts \<or> sa_KeepOwn opts \<or> sa_SymlinkNoFollow opts \<or> sa_Force opts then
           errR (Wrapped None sl ''only the SAVE ARTIFACT --if-exists option is allowed in a TRY/FINALLY block: %v'')
         else case parseSaveArtifactArgs args of
           None \<Rightarrow> errorf sl ''invalid arguments for SAVE ARTIFACT command: %v''
         | Some (saveFrom, _, saveAsLocalTo) \<Rightarrow>
             if CHR ''*'' \<in> set saveFrom then
               errorf sl ''TRY/CATCH/FINALLY does not (currently) support wildcard SAVE ARTIFACT paths''
             else if saveAsLocalTo = [] then
               errorf sl ''missing local name for SAVE ARTIFACT within TRY/CATCH/FINALLY''
             else if CHR ''$'' \<in> set saveAsLocalTo then
               errorf sl ''TRY/CATCH/FINALLY does not (currently) support expanding args for SAVE ARTIFACT paths''
             else
               let destIsDir = (suffix ''/'' saveAsLocalTo \<or> saveAsLocalTo = ''.'') in
               retR \<lparr>sf_Src = saveFrom,
                 sf_Dst = (if destIsDir then path_Join saveAsLocalTo (path_Base saveFrom) else saveAsLocalTo),
                 sf_IfExists = sa_IfExists opts\<rparr>))
     | _ \<Rightarrow> panicR ''nil pointer dereference''))"

definition handleTry :: "env \<Rightarrow> interp \<Rightarrow> Loc \<Rightarrow> Block \<Rightarrow> Block option \<Rightarrow> Block option \<Rightarrow> unit im" where
  "handleTry ev rc loc tryBody catchBody finallyBody =
    (if \<not> ftr ev ''try'' then errorf loc ''the TRY/CATCH/FINALLY commands are not supported in this version''
     else case tryBody of
       [] \<Rightarrow> errorf loc ''TRY body is empty''
     | stmt # others \<Rightarrow>
     if others \<noteq> [] then errorf loc ''TRY body can (currently) only contain a single command''
     else if catchBody \<noteq> None then errorf loc ''TRY/FINALLY does not (currently) support CATCH statements''
     else
     bindR (case stmt of Statement _ k \<Rightarrow> (case k of
         KCommand c \<Rightarrow> if cmd_Name c = ''RUN'' then retR ()
           else errorf loc ''TRY body must (currently) be a RUN command (or a RUN inside a WITH DOCKER)''
       | KWith _ body c \<Rightarrow> if cmd_Name c = ''DOCKER'' then
             if length body \<noteq> 1 then errorf loc ''TRY body can (currently) only contain a single command'' else retR ()
           else errorf loc ''TRY body must (currently) be a RUN command (or a RUN inside a WITH DOCKER)''
       | _ \<Rightarrow> errorf loc ''TRY body must (currently) be a RUN command (or a RUN inside a WITH DOCKER)'')) (\<lambda>_.
     case finallyBody of
       None \<Rightarrow> panicR ''nil pointer dereference''
     | Some fin \<Rightarrow>
     bindR (mapR (finallySave ev loc) fin) (\<lambda>saveArtifacts.
     bindR (modR (\<lambda>i. i\<lparr>i_interactiveSaveFiles := saveArtifacts\<rparr>)) (\<lambda>_.
     bindR (rc (IStmt stmt)) (\<lambda>_.
     forR fin (\<lambda>cmd. rc (IStmt cmd)))))))"

definition handleStatement :: "env \<Rightarrow> interp \<Rightarrow> Statement \<Rightarrow> unit im" where
  "handleStatement ev rc stmt =
    (case stmt of Statement _ k \<Rightarrow> (case k of
       KCommand cmd \<Rightarrow> handleCommand ev rc cmd
     | KWith loc body command \<Rightarrow> handleWith ev rc loc command body
     | KIf loc expr execMode ifBody elseIf elseBody \<Rightarrow> handleIf ev rc loc expr execMode ifBody elseIf elseBody
     | KFor loc args body \<Rightarrow> handleFor ev rc loc args body
     | KWait loc args body \<Rightarrow> handleWait ev rc loc args body
     | KTry loc tryBody catchBody finallyBody \<Rightarrow> handleTry ev rc loc tryBody catchBody finallyBody))"

section \<open>Blocks\<close>

definition isArgLike :: "Statement \<Rightarrow> bool" where
  "isArgLike stmt =
    (case stmt of Statement _ k \<Rightarrow> (case k of KCommand c \<Rightarrow> cmd_Name c \<in> {CmdArg, CmdLet, CmdSet} | _ \<Rightarrow> False))"

definition stops_lookahead :: "Cmd \<Rightarrow> bool" where
  "stops_lookahead name \<longleftrightarrow> name \<in> {CmdArg, CmdLocally, CmdFrom, CmdFromDockerfile, CmdLet, CmdSet}"

fun parallelLoop :: "env \<Rightarrow> interp \<Rightarrow> Block \<Rightarrow> unit im" where
  "parallelLoop ev rc [] = retR ()"
| "parallelLoop ev rc (Statement _ k # b) =
    (case k of
       KCommand c \<Rightarrow>
         if stops_lookahead (cmd_Name c) then retR ()
         else if cmd_Name c = CmdBuild then
           bindR (tryR (handleBuild ev rc c True)) (\<lambda>res.
           case res of
             Inl a \<Rightarrow> (case a of
                 Err e \<Rightarrow> if Is_CannotAsync e then parallelLoop ev rc b else failR a
               | _ \<Rightarrow> failR a)
           | Inr _ \<Rightarrow> parallelLoop ev rc b)
         else parallelLoop ev rc b
     | KWith _ _ _ \<Rightarrow> parallelLoop ev rc b
     | _ \<Rightarrow> retR ())"

definition handleBlockParallel :: "env \<Rightarrow> interp \<Rightarrow> Block \<Rightarrow> unit im" where
  "handleBlockParallel ev rc b =
    readR i_local (\<lambda>locally. if locally then retR () else parallelLoop ev rc b)"

fun blockLoop :: "env \<Rightarrow> interp \<Rightarrow> bool \<Rightarrow> Block \<Rightarrow> unit im" where
  "blockLoop ev rc prevWasArgLike [] = retR ()"
| "blockLoop ev rc prevWasArgLike (stmt # b) =
    readR i_parallelConversion (\<lambda>parallel.
    bindR (if parallel \<and> prevWasArgLike then handleBlockParallel ev rc (stmt # b) else retR ()) (\<lambda>_.
    bindR (handleStatement ev rc stmt) (\<lambda>_.
    blockLoop ev rc (isArgLike stmt) b)))"

definition handleBlock :: "env \<Rightarrow> interp \<Rightarrow> Block \<Rightarrow> unit im" where
  "handleBlock ev rc b = blockLoop ev rc True b"

primrec irun :: "env \<Rightarrow> nat \<Rightarrow> interp" where
  "irun ev 0 = (\<lambda>c. failR NoFuel)"
| "irun ev (Suc n) = (\<lambda>c. case c of
     IBlock b \<Rightarrow> handleBlock ev (irun ev n) b
   | IStmt s \<Rightarrow> handleStatement ev (irun ev n) s
   | IBuild cmd async \<Rightarrow> handleBuild ev (irun ev n) cmd async)"

definition handleTarget :: "env \<Rightarrow> nat \<Rightarrow> Target \<Rightarrow> unit im" where
  "handleTarget ev n t =
    readR i_allowPrivileged (\<lambda>mine.
    bindR (wrapError (tgt_SourceLocation t) ''apply FROM'' (convU ev (CFrom ''+base'' DefaultPlatform mine False []))) (\<lambda>_.
    irun ev n (IBlock (tgt_Recipe t))))"

text \<open>\<open>Run\<close>, whose deferred function reports the error to the converter.\<close>

definition Run :: "env \<Rightarrow> nat \<Rightarrow> Tree \<Rightarrow> unit im" where
  "Run ev n ef =
    bindR (tryR (
      readR i_target (\<lambda>target.
      if t_Target target = ''base'' then
        bindR (modR (\<lambda>i. i\<lparr>i_isBase := True\<rparr>)) (\<lambda>_.
        bindR (tryR (irun ev n (IBlock (tree_BaseRecipe ef)))) (\<lambda>err.
        bindR (modR (\<lambda>i. i\<lparr>i_isBase := False\<rparr>)) (\<lambda>_.
        liftR err)))
      else
        case find (\<lambda>t. tgt_Name t = t_Target target) (tree_Targets ef) of
          Some t \<Rightarrow> handleTarget ev n t
        | None \<Rightarrow> errorf (tree_SourceLocation ef) ''target %s not found''))) (\<lambda>retErr.
    bindR (modR (case retErr of Inl (Err _) \<Rightarrow> add_call CRecordTargetFailure | _ \<Rightarrow> (\<lambda>i. i))) (\<lambda>_.
    liftR retErr))"

end
