(* ===== verification/Interp_Safe.thy ===== *)
theory Interp_Safe
  imports Interpreter
begin

text \<open>
  What the interpreter may ask the converter for. \<open>permitted\<close> says for every call when an
  interpreter may make it: a privileged call only with privileges, and after a \<open>--push\<close> only
  the calls that are still allowed. \<open>nest\<close> reads the calls that open and close wait blocks,
  scopes and loop variables as brackets. The relation \<open>bal_ext\<close> holds between two states when
  the calls in between are permitted and their brackets are balanced, and \<open>part_ext\<close> when the
  calls are permitted and no bracket closes one that is not open; the first is shown for
  operations that return, the second for operations that fail.
\<close>

section \<open>Permitted calls\<close>

definition docker_priv_of :: "WithDockerOpt option \<Rightarrow> bool" where
  "docker_priv_of d = (case d of None \<Rightarrow> False | Some w \<Rightarrow> list_ex dl_AllowPrivileged (wd_Loads w))"

text \<open>\<open>allow\<close>: the interpreter has privileges; \<open>push\<close>: a \<open>--push\<close> came before; \<open>dp\<close>: the current WITH
  DOCKER loads a privileged target.\<close>

fun permits :: "bool \<Rightarrow> bool \<Rightarrow> bool \<Rightarrow> conv_call \<Rightarrow> bool" where
  "permits allow push dp (CFrom _ _ ap _ _) = (\<not> push \<and> (ap \<longrightarrow> allow))"
| "permits allow push dp (CFromDockerfile _ _ _ _ ap _) = (\<not> push \<and> (ap \<longrightarrow> allow))"
| "permits allow push dp CLocally = (\<not> push \<and> allow)"
| "permits allow push dp (CCopyArtifactLocal _ _ _ ap _ _ _) = (\<not> push \<and> (ap \<longrightarrow> allow))"
| "permits allow push dp (CCopyArtifact _ _ _ ap _ _ _ _ _ _ _ _ _) = (\<not> push \<and> (ap \<longrightarrow> allow))"
| "permits allow push dp (CCopyClassical _ _ _ _ _ _ _ _) = (\<not> push)"
| "permits allow push dp (CRun opts) = ((push \<longrightarrow> ro_Push opts) \<and> (ro_Privileged opts \<longrightarrow> allow))"
| "permits allow push dp (CRunExitCode _) = (\<not> push)"
| "permits allow push dp (CBuild _ _ ap _ _ _) = (\<not> push \<and> (ap \<longrightarrow> allow))"
| "permits allow push dp (CBuildAsync _ _ ap _ _) = (\<not> push \<and> (ap \<longrightarrow> allow))"
| "permits allow push dp (CcheckAutoSkip _ ap _ _) = (\<not> push \<and> (ap \<longrightarrow> allow))"
| "permits allow push dp (CWorkdir _) = (\<not> push)"
| "permits allow push dp (CUser _) = (\<not> push)"
| "permits allow push dp (CCmd _ _) = (\<not> push)"
| "permits allow push dp (CEntrypoint _ _) = (\<not> push)"
| "permits allow push dp (CExpose _) = (\<not> push)"
| "permits allow push dp (CVolume _) = (\<not> push)"
| "permits allow push dp (CEnv _ _) = (\<not> push)"
| "permits allow push dp (CArg _ _ _) = (\<not> push)"
| "permits allow push dp (CLet _ _) = (\<not> push)"
| "permits allow push dp (CGitClone _ _ _ _ _) = (\<not> push)"
| "permits allow push dp (CHealthcheck _ _ _ _ _ _ _) = (\<not> push)"
| "permits allow push dp (CWithDockerRun _ w _) = (\<not> push \<and> (docker_priv_of (Some w) \<longrightarrow> allow \<or> dp))"
| "permits allow push dp (CWithDockerRunLocal _ w _) = (\<not> push \<and> (docker_priv_of (Some w) \<longrightarrow> allow \<or> dp))"
| "permits allow push dp (CImport _ _ _ cur _) = (cur \<longrightarrow> allow)"
| "permits allow push dp (CEnterScopeDo _ _ ap _ _ _) = (ap \<longrightarrow> allow)"
| "permits allow push dp _ = True"

definition permitted :: "Interpreter \<Rightarrow> conv_call \<Rightarrow> bool" where
  "permitted i c = permits (i_allowPrivileged i) (i_pushOnlyAllowed i) (docker_priv_of (i_withDocker i)) c"

lemma permits_mono:
  "permits allow push dp c \<Longrightarrow> (allow \<longrightarrow> allow') \<Longrightarrow> (push' \<longrightarrow> push) \<Longrightarrow> (dp \<longrightarrow> allow' \<or> dp') \<Longrightarrow> permits allow' push' dp' c"
  by (cases c) auto

section \<open>Brackets\<close>

datatype bracket = BWait | BScope | BLoop string

fun nest_step :: "conv_call \<Rightarrow> bracket list \<Rightarrow> bracket list option" where
  "nest_step CPushWaitBlock k = Some (BWait # k)"
| "nest_step CPopWaitBlock k = (case k of BWait # k' \<Rightarrow> Some k' | _ \<Rightarrow> None)"
| "nest_step (CEnterScopeDo _ _ _ _ _ _) k = Some (BScope # k)"
| "nest_step CExitScope k = (case k of BScope # k' \<Rightarrow> Some k' | _ \<Rightarrow> None)"
| "nest_step (CSetArg v _) k = Some (BLoop v # k)"
| "nest_step (CUnsetArg v) k = (case k of BLoop w # k' \<Rightarrow> if w = v then Some k' else None | _ \<Rightarrow> None)"
| "nest_step _ k = Some k"

primrec nest :: "conv_call list \<Rightarrow> bracket list \<Rightarrow> bracket list option" where
  "nest [] k = Some k"
| "nest (c # cs) k = Option.bind (nest_step c k) (nest cs)"

lemma nest_append: "nest (as @ bs) k = Option.bind (nest as k) (nest bs)"
  by (induction as arbitrary: k) (auto split: Option.bind_split)

definition balanced :: "conv_call list \<Rightarrow> bool" where
  "balanced cs \<longleftrightarrow> (\<forall>k. nest cs k = Some k)"

definition open_brackets :: "conv_call list \<Rightarrow> bool" where
  "open_brackets cs \<longleftrightarrow> (\<exists>o'. \<forall>k. nest cs k = Some (o' @ k))"

definition plain_call :: "conv_call \<Rightarrow> bool" where
  "plain_call c \<longleftrightarrow> (\<forall>k. nest_step c k = Some k)"

lemma balanced_simps [simp]: "balanced []" "plain_call c \<Longrightarrow> balanced [c]"
  by (auto simp: balanced_def plain_call_def)

lemma balanced_append: "balanced as \<Longrightarrow> balanced bs \<Longrightarrow> balanced (as @ bs)"
  by (simp add: balanced_def nest_append)

lemma balanced_open: "balanced cs \<Longrightarrow> open_brackets cs"
  by (auto simp: balanced_def open_brackets_def intro: exI [of _ "[]"])

lemma open_append: "open_brackets as \<Longrightarrow> open_brackets bs \<Longrightarrow> open_brackets (as @ bs)"
  unfolding open_brackets_def nest_append by (metis append_assoc bind.bind_lunit)

lemma balanced_wait: "balanced cs \<Longrightarrow> balanced (CPushWaitBlock # cs @ [CPopWaitBlock])"
  by (simp add: balanced_def nest_append)

lemma balanced_scope: "balanced cs \<Longrightarrow> balanced (CEnterScopeDo a b c d e f # cs @ [CExitScope])"
  by (simp add: balanced_def nest_append)

lemma balanced_loop: "balanced cs \<Longrightarrow> balanced (CSetArg v x # cs @ [CUnsetArg v])"
  by (simp add: balanced_def nest_append)

lemma open_one: "open_brackets [CPushWaitBlock]" "open_brackets [CEnterScopeDo a b c d e f]" "open_brackets [CSetArg v x]"
  by (auto simp: open_brackets_def intro: exI [of _ "[_]"])

section \<open>Extensions\<close>

definition calls_ext :: "(conv_call list \<Rightarrow> bool) \<Rightarrow> Interpreter \<Rightarrow> Interpreter \<Rightarrow> bool" where
  "calls_ext P s t \<longleftrightarrow>
    (\<exists>cs. i_calls t = i_calls s @ cs \<and> P cs \<and> (\<forall>c \<in> set cs. permitted s c)) \<and>
    (i_allowPrivileged t \<longrightarrow> i_allowPrivileged s) \<and>
    (i_pushOnlyAllowed s \<longrightarrow> i_pushOnlyAllowed t) \<and>
    (docker_priv_of (i_withDocker t) \<longrightarrow> i_allowPrivileged s \<or> docker_priv_of (i_withDocker s))"

abbreviation bal_ext :: "Interpreter \<Rightarrow> Interpreter \<Rightarrow> bool" where
  "bal_ext \<equiv> calls_ext balanced"

abbreviation part_ext :: "Interpreter \<Rightarrow> Interpreter \<Rightarrow> bool" where
  "part_ext \<equiv> calls_ext open_brackets"

lemma calls_ext_trans:
  assumes "calls_ext P s t" "calls_ext Q t u" "\<And>as bs. P as \<Longrightarrow> Q bs \<Longrightarrow> R (as @ bs)"
  shows "calls_ext R s u"
proof -
  obtain as bs where cs: "i_calls t = i_calls s @ as" "P as" "\<forall>c \<in> set as. permitted s c"
      "i_calls u = i_calls t @ bs" "Q bs" "\<forall>c \<in> set bs. permitted t c"
    using assms(1,2) by (auto simp: calls_ext_def)
  have "permitted s c" if "c \<in> set bs" for c
    using cs(6) that assms(1) permits_mono by (fastforce simp: permitted_def calls_ext_def)
  then have "\<exists>cs. i_calls u = i_calls s @ cs \<and> R cs \<and> (\<forall>c \<in> set cs. permitted s c)"
    using cs assms(3) by (intro exI [of _ "as @ bs"]) auto
  then show ?thesis using assms(1,2) by (auto simp: calls_ext_def)
qed

lemma calls_ext_refl: "P [] \<Longrightarrow> calls_ext P s s"
  by (auto simp: calls_ext_def)

lemma open_nil: "open_brackets []"
  by (rule balanced_open) simp

lemma bal_refl: "bal_ext s s"
  by (rule calls_ext_refl) simp

lemma part_refl: "part_ext s s"
  by (rule calls_ext_refl) (rule open_nil)

lemma bal_trans: "bal_ext s t \<Longrightarrow> bal_ext t u \<Longrightarrow> bal_ext s u"
  by (erule (1) calls_ext_trans) (rule balanced_append)

lemma bal_part_trans: "bal_ext s t \<Longrightarrow> part_ext t u \<Longrightarrow> part_ext s u"
  by (erule (1) calls_ext_trans) (blast intro: open_append balanced_open)

interpretation iq: run_rel bal_ext bal_ext
  by unfold_locales (rule bal_refl | erule (1) bal_trans)+

interpretation ir: run_rel bal_ext part_ext
  by unfold_locales (rule bal_refl part_refl | erule (1) bal_trans bal_part_trans)+

lemma ir_quiet: "iq.ok s m \<Longrightarrow> ir.quiet s m"
  unfolding ir.quiet_def
proof (intro allI impI)
  fix t
  assume ok: "iq.ok s m" and t: "bal_ext s t"
  obtain r u where "m t = (r, u)" by (cases "m t")
  then show "bal_ext s (snd (m t))" using iq.okD [OF ok t] by (cases r) auto
qed

lemma iq_ir: "iq.ok s m \<Longrightarrow> ir.ok s m"
  by (rule ir.quiet_ok [OF ir_quiet])

lemma bal_ext_mono:
  assumes "bal_ext s t"
  shows "i_allowPrivileged t \<Longrightarrow> i_allowPrivileged s" "\<not> i_pushOnlyAllowed t \<Longrightarrow> \<not> i_pushOnlyAllowed s"
    "docker_priv_of (i_withDocker t) \<Longrightarrow> i_allowPrivileged s \<or> docker_priv_of (i_withDocker s)"
  using assms by (auto simp: calls_ext_def)

section \<open>Steps\<close>

lemma bal_ext_same:
  "bal_ext s t \<Longrightarrow> i_calls u = i_calls t \<Longrightarrow> i_allowPrivileged u = i_allowPrivileged t \<Longrightarrow>
    (i_pushOnlyAllowed t \<longrightarrow> i_pushOnlyAllowed u) \<Longrightarrow>
    (docker_priv_of (i_withDocker u) \<longrightarrow> i_allowPrivileged s \<or> docker_priv_of (i_withDocker s)) \<Longrightarrow> bal_ext s u"
  by (auto simp: calls_ext_def)

text \<open>Fields that neither relation reads.\<close>

lemma bal_ext_upd:
  assumes "bal_ext s t"
  shows "bal_ext s (t\<lparr>i_local := l\<rparr>)" "bal_ext s (t\<lparr>i_log := g\<rparr>)" "bal_ext s (t\<lparr>i_isWith := w\<rparr>)"
    "bal_ext s (t\<lparr>i_withDockerRan := r\<rparr>)" "bal_ext s (t\<lparr>i_interactiveSaveFiles := f\<rparr>)"
    "bal_ext s (t\<lparr>i_renameWarnings := n\<rparr>)" "bal_ext s (t\<lparr>i_isBase := b\<rparr>)"
    "bal_ext s (t\<lparr>i_pushOnlyAllowed := True\<rparr>)"
  by (auto intro!: bal_ext_same [OF assms] dest: bal_ext_mono(3) [OF assms])

lemma bal_ext_docker:
  "bal_ext s t \<Longrightarrow> (docker_priv_of d \<longrightarrow> i_allowPrivileged s \<or> docker_priv_of (i_withDocker s)) \<Longrightarrow>
    bal_ext s (t\<lparr>i_withDocker := d\<rparr>)"
  by (rule bal_ext_same) auto

text \<open>Settings of the current WITH DOCKER.\<close>

lemma bal_ext_docker_map:
  "bal_ext s t \<Longrightarrow> (\<And>d. docker_priv_of (Some (f d)) \<Longrightarrow> docker_priv_of (Some d) \<or> i_allowPrivileged s) \<Longrightarrow>
    bal_ext s (t\<lparr>i_withDocker := map_option f (i_withDocker t)\<rparr>)"
  by (rule bal_ext_docker, assumption, cases "i_withDocker t")
    (auto simp: docker_priv_of_def dest: bal_ext_mono(3))

lemma bal_ext_call:
  assumes "bal_ext s t" "permitted s c" "plain_call c"
  shows "bal_ext s (add_call c t)"
proof -
  obtain cs where cs: "i_calls t = i_calls s @ cs" "balanced cs" "\<forall>c \<in> set cs. permitted s c"
    using assms(1) by (auto simp: calls_ext_def)
  have "\<exists>cs'. i_calls (add_call c t) = i_calls s @ cs' \<and> balanced cs' \<and> (\<forall>c \<in> set cs'. permitted s c)"
    using cs assms(2,3) by (intro exI [of _ "cs @ [c]"]) (auto simp: add_call_def intro: balanced_append)
  then show ?thesis using assms(1) by (simp add: calls_ext_def add_call_def)
qed

lemma iq_conv: "permitted s c \<Longrightarrow> plain_call c \<Longrightarrow> iq.ok s (conv ev c)"
  by (rule iq.okI) (auto simp: conv_def intro: bal_ext_call split: sum.splits)

lemma iq_convU: "permitted s c \<Longrightarrow> plain_call c \<Longrightarrow> iq.ok s (convU ev c)"
  unfolding convU_def by (intro iq.ok_bind iq.ok_ret iq_conv)

lemma iq_errorf: "iq.ok s (errorf sl fmt)" "iq.ok s (errR e)" "iq.ok s (panicR m)"
  by (simp_all add: errorf_def errR_def panicR_def iq.ok_fail)

lemma iq_wrap: "iq.ok s m \<Longrightarrow> iq.ok s (wrapError sl fmt m)" "iq.ok s m \<Longrightarrow> iq.ok s (replaceError sl fmt m)"
  by (simp_all add: wrapError_def replaceError_def iq.ok_onErr)

lemma iq_resR: "iq.ok s (resR f r)"
  by (simp add: resR_def iq_errorf iq.ok_ret split: sum.split)

lemma iq_logf: "iq.ok s (logf fmt)"
  by (simp add: logf_def iq.ok_mod bal_ext_upd)

lemma iq_notPushOnly:
  assumes "\<not> i_pushOnlyAllowed s \<Longrightarrow> iq.ok s m"
  shows "iq.ok s (notPushOnly sl m)"
  unfolding notPushOnly_def
  by (intro iq.ok_read iq.ok_if iq_errorf) (rule assms, erule bal_ext_mono(2))

lemma iq_parsers: "iq.ok s (parseFlagArgs sl args)" "iq.ok s (parseOpts sl fmt parse opts args)"
  "iq.ok s (parsePlatform ev sl p)"
  unfolding parseFlagArgs_def parseOpts_def parsePlatform_def by (intro iq_wrap iq_resR iq.ok_read)+

lemma permitted_simps [simp]:
  "permitted s (CExpandArgs o' w b)" "plain_call (CExpandArgs o' w b)"
  by (simp_all add: permitted_def plain_call_def)

lemma iq_expandArgs: "iq.ok s (expandArgs ev w k a)"
  unfolding expandArgs_def by (intro iq.ok_read iq.ok_bind iq.ok_onErr iq.ok_ret iq_conv permitted_simps)

lemma iq_expandArgsSlice: "iq.ok s (expandArgsSlice ev ws a)"
  unfolding expandArgsSlice_def by (intro iq.ok_map iq_expandArgs)

lemma iq_getAllowPrivileged: "iq.ok s (getAllowPrivileged t ap)"
  unfolding getAllowPrivileged_def by (intro iq.ok_read iq.ok_if iq.ok_bind iq.ok_ret iq_logf)

lemma iq_getAllowPrivilegedTarget: "iq.ok s (getAllowPrivilegedTarget ev n ap)"
  unfolding getAllowPrivilegedTarget_def by (intro iq.ok_if iq.ok_bind iq.ok_ret iq_resR iq_getAllowPrivileged)

lemma iq_getAllowPrivilegedArtifact: "iq.ok s (getAllowPrivilegedArtifact ev n ap)"
  unfolding getAllowPrivilegedArtifact_def by (intro iq.ok_bind iq_resR iq_getAllowPrivileged)

text \<open>The privileges that are passed on are never more than the interpreter has.\<close>

lemma gives_privileged:
  "iq.gives s (getAllowPrivileged t ap) (\<lambda>x. x \<longrightarrow> i_allowPrivileged s)"
  "iq.gives s (getAllowPrivilegedTarget ev n ap) (\<lambda>x. x \<longrightarrow> i_allowPrivileged s)"
  "iq.gives s (getAllowPrivilegedArtifact ev a ap) (\<lambda>x. x \<longrightarrow> i_allowPrivileged s)"
proof -
  show *: "iq.gives s (getAllowPrivileged t ap) (\<lambda>x. x \<longrightarrow> i_allowPrivileged s)" for t ap
    by (auto simp: iq.gives_def getAllowPrivileged_def readR_def bindR_def retR_def logf_def modR_def dest: bal_ext_mono(1))
  show "iq.gives s (getAllowPrivilegedTarget ev n ap) (\<lambda>x. x \<longrightarrow> i_allowPrivileged s)"
    using * by (auto simp: iq.gives_def getAllowPrivilegedTarget_def bindR_def resR_def retR_def errR_def failR_def split: sum.splits)
  show "iq.gives s (getAllowPrivilegedArtifact ev a ap) (\<lambda>x. x \<longrightarrow> i_allowPrivileged s)"
    using * by (auto simp: iq.gives_def getAllowPrivilegedArtifact_def bindR_def resR_def retR_def errR_def failR_def split: sum.splits)
qed

lemmas iq_priv_bind =
  iq.ok_bind_gives [OF iq_getAllowPrivilegedTarget gives_privileged(2)]
  iq.ok_bind_gives [OF iq_getAllowPrivilegedArtifact gives_privileged(3)]

text \<open>The rules for a handler, the ones for sequences with a known result first.\<close>

lemmas iq_rules = iq.ok_read iq_priv_bind iq.ok_bind iq.ok_ret iq.ok_fail iq.ok_if iq.ok_option iq.ok_sum iq.ok_prod
  iq.ok_list iq.ok_map iq.ok_for iq.ok_lift iq_errorf iq_wrap iq_resR iq_logf iq_notPushOnly iq_parsers iq_expandArgs
  iq_expandArgsSlice iq_getAllowPrivileged iq_getAllowPrivilegedTarget iq_getAllowPrivilegedArtifact iq_conv iq_convU iq.ok_mod

lemmas call_simps = permitted_def plain_call_def bal_ext_upd bal_ext_mono

lemma iq_handleFrom: "iq.ok s (handleFrom ev cmd)"
  unfolding handleFrom_def Let_def by (intro iq_rules) (auto simp: call_simps)

lemma iq_handleFromDockerfile: "iq.ok s (handleFromDockerfile ev cmd)"
  unfolding handleFromDockerfile_def Let_def by (intro iq_rules) (auto simp: call_simps)

lemma iq_handleLocally: "iq.ok s (handleLocally ev cmd)"
  unfolding handleLocally_def Let_def by (intro iq_rules) (auto simp: call_simps)

lemma iq_preprocessArgs:
  assumes "\<And>n v. iq.ok s (f n v)"
  shows "iq.ok s (preprocessLoop flags f args result)"
proof (induction args arbitrary: result rule: length_induct)
  case (1 args)
  show ?case
  proof (cases args)
    case (Cons arg as)
    have "iq.ok s (preprocessLoop flags f as r)" "iq.ok s (preprocessLoop flags f (tl as) r)" for r
      using 1 Cons by auto
    then show ?thesis
      unfolding Cons preprocessLoop.simps Let_def by (intro iq_rules assms)
  qed (simp add: iq.ok_ret)
qed

lemma iq_parseRunOpts: "iq.ok s (parseRunOpts ev args)"
  unfolding parseRunOpts_def preprocessArgs_def flagValModifierFunc_def
  by (intro iq.ok_bind iq_preprocessArgs iq_rules)

lemma iq_runNetwork: "iq.ok s (runNetwork ev sl opts)"
  unfolding runNetwork_def by (intro iq_rules)

lemma iq_handleOIDC: "iq.ok s (handleOIDC ev sl opts)"
  unfolding handleOIDC_def by (intro iq_rules)

lemma iq_runPlain:
  "(run_Privileged opts \<Longrightarrow> i_allowPrivileged s) \<Longrightarrow> (i_pushOnlyAllowed s \<Longrightarrow> run_Push opts) \<Longrightarrow>
    iq.ok s (runPlain ev cmd opts args secrets mounts net oidc)"
  unfolding runPlain_def Let_def by (intro iq_rules) (auto simp: call_simps)

lemma iq_runInDocker:
  "(docker_priv_of (Some d) \<Longrightarrow> i_allowPrivileged s \<or> docker_priv_of (i_withDocker s)) \<Longrightarrow>
    (i_pushOnlyAllowed s \<Longrightarrow> run_Push opts) \<Longrightarrow> iq.ok s (runInDocker ev cmd opts args secrets mounts oidc d)"
  unfolding runInDocker_def Let_def
  by (intro iq_rules) (auto simp: call_simps docker_priv_of_def intro!: bal_ext_docker)

lemma iq_handleRun: "iq.ok s (handleRun ev cmd)"
  unfolding handleRun_def Let_def
  by (intro iq_rules iq_parseRunOpts iq_runNetwork iq_handleOIDC iq_runPlain iq_runInDocker)
    (auto dest: bal_ext_mono split: if_splits)

lemma iq_copySource: "iq.ok s (copySource ev sl src)"
  unfolding copySource_def by (intro iq_rules)

lemma iq_copyArtifact: "\<not> i_pushOnlyAllowed s \<Longrightarrow> iq.ok s (copyArtifact ev sl opts dest p args chown mode x)"
  unfolding copyArtifact_def Let_def by (intro iq_rules) (auto simp: call_simps)

lemma iq_handleCopy: "iq.ok s (handleCopy ev cmd)"
  unfolding handleCopy_def Let_def
  by (intro iq_rules iq_copySource iq_copyArtifact) (auto simp: call_simps)

lemma iq_handleSaveArtifact: "iq.ok s (handleSaveArtifact ev cmd)"
  unfolding handleSaveArtifact_def Let_def by (intro iq_rules) (auto simp: call_simps)

lemma iq_handleSaveImage: "iq.ok s (handleSaveImage ev cmd)"
  unfolding handleSaveImage_def Let_def by (intro iq_rules) (auto simp: call_simps)

lemma iq_handleWorkdir: "iq.ok s (handleWorkdir ev cmd)"
  unfolding handleWorkdir_def Let_def by (intro iq_rules) (auto simp: call_simps)

lemma iq_handleUser: "iq.ok s (handleUser ev cmd)"
  unfolding handleUser_def Let_def by (intro iq_rules) (auto simp: call_simps)

lemma iq_handleCmd: "iq.ok s (handleCmd ev cmd)"
  unfolding handleCmd_def Let_def by (intro iq_rules) (auto simp: call_simps)

lemma iq_handleEntrypoint: "iq.ok s (handleEntrypoint ev cmd)"
  unfolding handleEntrypoint_def Let_def by (intro iq_rules) (auto simp: call_simps)

lemma iq_handleExpose: "iq.ok s (handleExpose ev cmd)"
  unfolding handleExpose_def Let_def by (intro iq_rules) (auto simp: call_simps)

lemma iq_handleVolume: "iq.ok s (handleVolume ev cmd)"
  unfolding handleVolume_def Let_def by (intro iq_rules) (auto simp: call_simps)

lemma iq_handleEnv: "iq.ok s (handleEnv ev cmd)"
  unfolding handleEnv_def Let_def by (intro iq_rules) (auto simp: call_simps)

lemma iq_handleHealthcheck: "iq.ok s (handleHealthcheck ev cmd)"
  unfolding handleHealthcheck_def Let_def by (intro iq_rules) (auto simp: call_simps)

lemma iq_labelLoop: "iq.ok s (labelLoop ev sl args nk ne key labels)"
  by (induction ev sl args nk ne key labels rule: labelLoop.induct)
    (auto intro!: iq.ok_bind iq.ok_ret iq.ok_if iq_errorf iq_wrap iq_expandArgs)

lemma iq_handleLabel: "iq.ok s (handleLabel ev cmd)"
  unfolding handleLabel_def Let_def by (intro iq_rules iq_labelLoop) (auto simp: call_simps)

lemma iq_handleBuild:
  assumes "\<And>c a. iq.ok s (rc (IBuild c a))"
  shows "iq.ok s (handleBuild ev rc cmd async)"
  unfolding handleBuild_def handleWildcardBuilds_def Let_def
  by (intro iq_rules assms) (auto simp: call_simps)

lemma iq_parseSetArgs: "iq.ok s (parseSetArgs ev cmd)"
  unfolding parseSetArgs_def by (intro iq_rules)

lemma iq_handleSet: "iq.ok s (handleSet ev cmd)"
  unfolding handleSet_def Let_def by (intro iq_rules iq_parseSetArgs) (auto simp: call_simps)

lemma iq_handleArg: "iq.ok s (handleArg ev cmd)"
  unfolding handleArg_def Let_def by (intro iq_rules) (auto simp: call_simps)

lemma iq_handleLet: "iq.ok s (handleLet ev cmd)"
  unfolding handleLet_def Let_def by (intro iq_rules) (auto simp: call_simps)

lemma iq_handleGitClone: "iq.ok s (handleGitClone ev cmd)"
  unfolding handleGitClone_def Let_def by (intro iq_rules) (auto simp: call_simps)

lemma iq_handleImport: "iq.ok s (handleImport ev cmd)"
  unfolding handleImport_def Let_def by (intro iq_rules) (auto simp: call_simps)

lemma iq_handleProject: "iq.ok s (handleProject ev cmd)"
  unfolding handleProject_def Let_def by (intro iq_rules) (auto simp: call_simps)

lemma iq_handleCache: "iq.ok s (handleCache ev cmd)"
  unfolding handleCache_def Let_def by (intro iq_rules) (auto simp: call_simps)

lemma iq_handleHost: "iq.ok s (handleHost ev cmd)"
  unfolding handleHost_def Let_def by (intro iq_rules) (auto simp: call_simps)

lemma iq_dockerLoad: "iq.ok s (dockerLoad ev sl opts p args load)"
  unfolding dockerLoad_def
  by (intro iq_rules bal_ext_docker_map) (auto simp: docker_priv_of_def)

lemma iq_handleWithDocker: "iq.ok s (handleWithDocker ev cmd)"
  unfolding handleWithDocker_def Let_def
  by (intro iq_rules iq_dockerLoad bal_ext_docker_map bal_ext_docker)
    (auto simp: docker_priv_of_def new_WithDockerOpt_def)

end
