(* ===== verification/Interp_Correct.thy ===== *)
theory Interp_Correct
  imports Interp_Safe
begin

text \<open>
  The statements of an Earthfile and the whole run: every call the interpreter makes is
  permitted, the calls are balanced when it returns, and the bracket of a WAIT, FOR or DO that
  fails stays open only as long as the error is passed up.
\<close>

section \<open>Brackets\<close>

text \<open>\<open>t1\<close> is \<open>t\<close> after one call, with no more privileges than \<open>s\<close>.\<close>

definition opened :: "Interpreter \<Rightarrow> conv_call \<Rightarrow> Interpreter \<Rightarrow> Interpreter \<Rightarrow> bool" where
  "opened s c t t1 \<longleftrightarrow>
    i_calls t1 = i_calls t @ [c] \<and> (i_allowPrivileged t1 \<longrightarrow> i_allowPrivileged s) \<and>
    i_pushOnlyAllowed t1 = i_pushOnlyAllowed t \<and> i_withDocker t1 = i_withDocker t"

lemma opened_part:
  assumes "bal_ext s t" "opened s c t t1" "permitted s c" "open_brackets [c]"
  shows "part_ext s t1"
proof -
  obtain cs where "i_calls t = i_calls s @ cs" "balanced cs" "\<forall>c \<in> set cs. permitted s c"
    using assms(1) by (auto simp: calls_ext_def)
  then have "\<exists>cs'. i_calls t1 = i_calls s @ cs' \<and> open_brackets cs' \<and> (\<forall>c \<in> set cs'. permitted s c)"
    using assms(2-4) by (intro exI [of _ "cs @ [c]"]) (auto simp: opened_def intro: open_append balanced_open)
  then show ?thesis using assms(1,2) by (auto simp: calls_ext_def opened_def)
qed

lemma closed_bal:
  assumes "bal_ext s t" "opened s c t t1" "permitted s c" "open_brackets [c]" "bal_ext t1 u" "opened s d u u'" "permitted s d"
    and bal: "\<And>cs. balanced cs \<Longrightarrow> balanced (c # cs @ [d])"
  shows "bal_ext s u'"
proof -
  obtain as where as: "i_calls t = i_calls s @ as" "balanced as" "\<forall>c \<in> set as. permitted s c"
    using assms(1) by (auto simp: calls_ext_def)
  obtain bs where bs: "i_calls u = i_calls t1 @ bs" "balanced bs"
    using assms(5) by (auto simp: calls_ext_def)
  have "part_ext s u"
    by (rule calls_ext_trans [OF opened_part [OF assms(1-4)] assms(5)]) (blast intro: open_append balanced_open)
  then have "\<forall>c \<in> set bs. permitted s c" "i_pushOnlyAllowed s \<longrightarrow> i_pushOnlyAllowed u"
      "docker_priv_of (i_withDocker u) \<longrightarrow> i_allowPrivileged s \<or> docker_priv_of (i_withDocker s)"
    using as(1) bs(1) assms(2) by (auto simp: calls_ext_def opened_def)
  moreover have "balanced (as @ c # bs @ [d])" using as(2) bal [OF bs(2)] by (rule balanced_append)
  moreover have "i_calls u' = i_calls s @ (as @ c # bs @ [d])"
    using as(1) bs(1) assms(2,6) by (simp add: opened_def)
  ultimately show ?thesis
    using as(3) assms(3,6,7) by (auto simp: calls_ext_def opened_def intro!: exI [of _ "as @ c # bs @ [d]"])
qed

lemma ir_bracket:
  assumes E: "\<And>t. bal_ext s t \<Longrightarrow> opened s c t (snd (E t))"
    and M: "\<And>s. ir.ok s M"
    and X: "\<And>u. (i_allowPrivileged u \<Longrightarrow> i_allowPrivileged s) \<Longrightarrow> opened s d u (snd (X u))"
    and c: "permitted s c" "open_brackets [c]" "permitted s d" "\<And>cs. balanced cs \<Longrightarrow> balanced (c # cs @ [d])"
  shows "ir.ok s (bindR E (\<lambda>_. bindR M (\<lambda>_. X)))"
proof (rule ir.okI)
  fix t r u
  assume t: "bal_ext s t" and run: "bindR E (\<lambda>_. bindR M (\<lambda>_. X)) t = (r, u)"
  obtain r1 t1 where 1: "E t = (r1, t1)" by (cases "E t")
  obtain r2 t2 where 2: "M t1 = (r2, t2)" by (cases "M t1")
  have o: "opened s c t t1" using E [OF t] 1 by simp
  have part: "part_ext s t1" using t o c(1,2) by (rule opened_part)
  show "case r of Inl _ \<Rightarrow> part_ext s u | Inr _ \<Rightarrow> bal_ext s u"
  proof (cases "\<exists>x y. r1 = Inr x \<and> r2 = Inr y")
    case True
    then have X3: "X t2 = (r, u)" using run 1 2 by (auto simp: bindR_def)
    have b2: "bal_ext t1 t2" using ir.okD [OF M bal_refl 2] True by auto
    have "opened s d t2 u" using X [of t2] b2 o X3 by (auto simp: calls_ext_def opened_def)
    then have "bal_ext s u" using closed_bal [OF t o c(1,2) b2 _ c(3,4)] by blast
    then show ?thesis by (simp add: ir.B_S split: sum.split)
  next
    case False
    then obtain e where e: "r = Inl e" using run 1 2 by (auto simp: bindR_def split: sum.splits)
    have "u = t1 \<or> (\<exists>e'. r2 = Inl e' \<and> u = t2)" using run 1 2 False by (auto simp: bindR_def split: sum.splits)
    moreover have "part_ext t1 t2" if "r2 = Inl e'" for e' using ir.okD [OF M bal_refl 2] that by simp
    ultimately have "part_ext s u" using part calls_ext_trans [OF part] open_append by blast
    then show ?thesis using e by simp
  qed
qed

section \<open>Statements\<close>

definition rc_ok :: "interp \<Rightarrow> bool" where
  "rc_ok rc \<longleftrightarrow> (\<forall>c s. ir.ok s (rc c)) \<and> (\<forall>c a s. iq.ok s (rc (IBuild c a)))"

lemma rc_okD: "rc_ok rc \<Longrightarrow> ir.ok s (rc c)" "rc_ok rc \<Longrightarrow> iq.ok s (rc (IBuild cmd a))"
  by (auto simp: rc_ok_def)

lemma snd_onErrR: "snd (onErrR f m t) = snd (m t)"
  by (simp add: onErrR_def split: prod.split)

lemma snd_wrap: "snd (wrapError sl fmt m t) = snd (m t)"
  by (simp add: wrapError_def snd_onErrR)

lemma snd_convU: "snd (convU ev c t) = add_call c t"
  by (simp add: convU_def bindR_def conv_def retR_def split: sum.split)

lemmas ir_rules = ir.ok_read ir.ok_bind ir.ok_ret ir.ok_fail ir.ok_if ir.ok_option ir.ok_sum ir.ok_prod
  ir.ok_list ir.ok_map ir.ok_for ir.ok_lift ir.ok_mod

lemma snd_bind_mod: "snd (bindR m (\<lambda>_. modR f) t) = (case m t of (Inl _, u) \<Rightarrow> u | (Inr _, u) \<Rightarrow> f u)"
  by (simp add: bindR_def modR_def split: prod.split sum.split)

lemma opened_conv:
  "(i_allowPrivileged t \<Longrightarrow> i_allowPrivileged s) \<Longrightarrow> opened s c t (snd (convU ev c t))"
  "(i_allowPrivileged t \<Longrightarrow> i_allowPrivileged s) \<Longrightarrow> opened s c t (snd (wrapError sl fmt (convU ev c) t))"
  by (simp_all add: snd_wrap snd_convU opened_def add_call_def)

lemma opened_conv_allow:
  assumes "i_allowPrivileged t \<Longrightarrow> i_allowPrivileged s" "ap \<Longrightarrow> i_allowPrivileged s"
  shows "opened s c t (snd (bindR (wrapError sl fmt (convU ev c)) (\<lambda>_. modR (\<lambda>i. i\<lparr>i_allowPrivileged := ap\<rparr>)) t))"
proof -
  obtain r u where r: "wrapError sl fmt (convU ev c) t = (r, u)" by (cases "wrapError sl fmt (convU ev c) t")
  then have "opened s c t u" using opened_conv(2) [OF assms(1)] by (metis snd_conv)
  then show ?thesis using assms(2) r by (cases r) (auto simp: snd_bind_mod opened_def)
qed

lemma ir_handleDoFunction:
  assumes "rc_ok rc"
  shows "ir.ok s (handleDoFunction ev rc command rel uc cmd args ap pass file useFn)"
proof -
  have body: "ir.ok s
      (bindR (wrapError sl fmt (convU ev (CEnterScopeDo a b ap p n args))) (\<lambda>_.
       bindR (modR (\<lambda>i. i\<lparr>i_allowPrivileged := ap\<rparr>)) (\<lambda>_.
       bindR (rc c) (\<lambda>_.
       bindR (wrapError sl fmt' (convU ev CExitScope)) (\<lambda>_. modR (\<lambda>i. i\<lparr>i_allowPrivileged := mine\<rparr>))))))"
    if "ap \<Longrightarrow> mine" "mine \<Longrightarrow> i_allowPrivileged s" for sl fmt fmt' a b p n args c mine
    unfolding bindR_assoc [symmetric, of "wrapError sl fmt _"]
    by (rule ir_bracket [where c = "CEnterScopeDo a b ap p n args" and d = CExitScope])
      (use that in \<open>auto simp: permitted_def open_one intro!: opened_conv_allow rc_okD assms balanced_scope dest: bal_ext_mono(1)\<close>)
  have warn: "ir.ok s (renameWarning b file)" for b
    unfolding renameWarning_def by (intro ir_rules iq_ir [OF iq_logf]) (simp_all add: bal_ext_upd)
  show ?thesis
    unfolding handleDoFunction_def Let_def
    by (intro ir_rules iq_ir [OF iq_errorf(1)] iq_ir [OF iq_errorf(3)])
      (auto intro!: ir.ok_fail ir.ok_bind warn body ir.ok_if ir.ok_option iq_ir [OF iq_errorf(1)] iq_ir [OF iq_errorf(3)]
        dest: bal_ext_mono(1) split: list.split Statement.split StatementKind.split)
qed

lemma ir_handleDo:
  assumes "rc_ok rc"
  shows "ir.ok s (handleDo ev rc cmd)"
  unfolding handleDo_def Let_def
  by (intro ir_rules iq_ir [OF iq_errorf(1)] iq_ir [OF iq_parsers(1)] iq_ir [OF iq_parsers(2)]
      iq_ir [OF iq_wrap(1)] iq_expandArgsSlice iq_expandArgs iq_resR iq_conv iq_ir [OF iq_logf])
    (auto simp: permitted_def plain_call_def split: Reference.split
      intro!: ir_rules ir_handleDoFunction assms iq_ir [OF iq_errorf(1)])

lemmas iq_handlers = iq_handleFrom iq_handleRun iq_handleFromDockerfile iq_handleLocally iq_handleCopy
  iq_handleSaveArtifact iq_handleSaveImage iq_handleWorkdir iq_handleUser iq_handleCmd iq_handleEntrypoint
  iq_handleExpose iq_handleVolume iq_handleEnv iq_handleArg iq_handleLet iq_handleSet iq_handleLabel iq_handleGitClone
  iq_handleHealthcheck iq_handleImport iq_handleCache iq_handleHost iq_handleProject iq_handleWithDocker iq_errorf

lemma iq_handleBuild_rc: "rc_ok rc \<Longrightarrow> iq.ok s (handleBuild ev rc cmd async)"
  by (rule iq_handleBuild) (rule rc_okD)

lemma ir_handleCommand:
  assumes "rc_ok rc"
  shows "ir.ok s (handleCommand ev rc cmd)"
  unfolding handleCommand_def Let_def
  by (intro ir.ok_read ir.ok_if ir_handleDo [OF assms] iq_ir [OF iq_handleBuild_rc [OF assms]] iq_handlers [THEN iq_ir])

text \<open>Inside \<open>handleWith\<close> only WITH DOCKER is a command.\<close>

lemma handleWith_docker:
  "bindR (modR (\<lambda>i. i\<lparr>i_isWith := True\<rparr>)) (\<lambda>_. bindR (tryR (handleCommand ev rc cmd)) f) =
   bindR (modR (\<lambda>i. i\<lparr>i_isWith := True\<rparr>)) (\<lambda>_. bindR (tryR
     (if cmd_Name cmd = CmdDocker then handleWithDocker ev cmd
      else errorf (cmd_SourceLocation cmd) ''unexpected WITH command %s'')) f)"
  by (rule ext) (simp add: bindR_def modR_def tryR_def handleCommand_def Let_def readR_def)

lemma ir_handleWith:
  assumes "rc_ok rc"
  shows "ir.ok s (handleWith ev rc loc cmd body)"
  unfolding handleWith_def handleWith_docker
  by (intro ir_rules ir.ok_try ir_quiet iq.ok_if iq_handleWithDocker iq_errorf iq_ir [OF iq_errorf(1)] rc_okD(1) [OF assms])
    (auto simp: bal_ext_upd docker_priv_of_def intro: bal_ext_docker)

lemma iq_handleIfExpression: "\<not> i_pushOnlyAllowed s \<Longrightarrow> iq.ok s (handleIfExpression ev expr ex sl)"
  unfolding handleIfExpression_def by (intro iq_rules) (auto simp: call_simps)

lemma ir_elseIfLoop:
  assumes "rc_ok rc" "\<not> i_pushOnlyAllowed s"
  shows "ir.ok s (elseIfLoop ev rc eis els)"
proof (induction eis)
  case Nil
  show ?case unfolding elseIfLoop.simps by (intro ir_rules rc_okD(1) [OF assms(1)])
next
  case (Cons ei eis)
  then show ?case
    using assms
    by (cases ei) (auto intro!: ir.ok_bind ir.ok_if iq_ir [OF iq_handleIfExpression] rc_okD(1) [OF assms(1)])
qed

lemma ir_handleIf:
  assumes "rc_ok rc"
  shows "ir.ok s (handleIf ev rc loc expr ex body eis els)"
  unfolding handleIf_def notPushOnly_def
  by (intro ir.ok_read ir.ok_if iq_ir [OF iq_errorf(1)] ir.ok_bind iq_ir [OF iq_handleIfExpression]
      rc_okD(1) [OF assms] ir_elseIfLoop [OF assms]) (erule (1) bal_ext_mono(2))+

lemma iq_handleForArgs: "iq.ok s (handleForArgs ev args sl)"
  unfolding handleForArgs_def by (intro iq_rules) (auto simp: call_simps)

lemma ir_handleFor:
  assumes "rc_ok rc"
  shows "ir.ok s (handleFor ev rc loc args body)"
proof -
  have body: "ir.ok s (bindR (wrapError loc f (convU ev (CSetArg v x))) (\<lambda>_. bindR (rc (IBlock body)) (\<lambda>_.
      wrapError loc g (convU ev (CUnsetArg v)))))" for f g v x
    by (rule ir_bracket [where c = "CSetArg v x" and d = "CUnsetArg v"])
      (auto simp: permitted_def open_one intro!: opened_conv rc_okD assms balanced_loop dest: bal_ext_mono(1))
  show ?thesis
    unfolding handleFor_def by (intro body ir_rules iq_ir [OF iq_errorf(1)] iq_ir [OF iq_handleForArgs])
qed

lemma ir_handleWait:
  assumes "rc_ok rc"
  shows "ir.ok s (handleWait ev rc loc args body)"
proof -
  have body: "ir.ok s (bindR (convU ev CPushWaitBlock) (\<lambda>_. bindR (rc (IBlock body)) (\<lambda>_. convU ev CPopWaitBlock)))"
    by (rule ir_bracket [where c = CPushWaitBlock and d = CPopWaitBlock])
      (auto simp: permitted_def open_one intro!: opened_conv rc_okD assms balanced_wait dest: bal_ext_mono(1))
  show ?thesis
    unfolding handleWait_def by (intro body ir_rules iq_ir [OF iq_errorf(1)])
qed

lemma iq_finallySave: "iq.ok s (finallySave ev loc stmt)"
  unfolding finallySave_def Let_def
  by (cases stmt; rename_tac l k; case_tac k) (auto intro!: iq_rules)

lemma ir_handleTry:
  assumes "rc_ok rc"
  shows "ir.ok s (handleTry ev rc loc body cat fin)"
  unfolding handleTry_def
  by (intro ir_rules iq_ir [OF iq_errorf(1)] iq_ir [OF iq_errorf(3)] iq_ir [OF iq_finallySave] rc_okD(1) [OF assms] bal_ext_upd)
    (auto intro!: ir_rules iq_ir [OF iq_errorf(1)] split: Statement.split StatementKind.split)

lemma ir_handleStatement:
  assumes "rc_ok rc"
  shows "ir.ok s (handleStatement ev rc stmt)"
  unfolding handleStatement_def
  by (auto intro!: ir_handleCommand ir_handleWith ir_handleIf ir_handleFor ir_handleWait ir_handleTry assms
      split: Statement.split StatementKind.split)

section \<open>Blocks\<close>

lemma iq_parallelLoop:
  assumes "rc_ok rc"
  shows "iq.ok s (parallelLoop ev rc b)"
proof (induction b)
  case Nil
  show ?case by (simp add: iq.ok_ret)
next
  case (Cons stmt b)
  obtain l k where stmt: "stmt = Statement l k" by (cases stmt)
  have "iq.ok s (tryR (handleBuild ev rc c True))" for c
    by (rule iq.ok_try) (auto simp: iq.quiet_def dest: ir_quiet [OF iq_handleBuild_rc [OF assms], unfolded ir.quiet_def, rule_format])
  then show ?case
    using Cons unfolding stmt
    by (cases k) (auto intro!: iq.ok_bind iq.ok_sum iq.ok_ret iq.ok_fail split: abort.split)
qed

lemma iq_handleBlockParallel: "rc_ok rc \<Longrightarrow> iq.ok s (handleBlockParallel ev rc b)"
  unfolding handleBlockParallel_def by (intro iq.ok_read iq.ok_if iq.ok_ret iq_parallelLoop)

lemma ir_handleBlock:
  assumes "rc_ok rc"
  shows "ir.ok s (handleBlock ev rc b)"
proof -
  have "ir.ok s (blockLoop ev rc p b)" for p
  proof (induction b arbitrary: p)
    case Nil
    show ?case by (simp add: ir.ok_ret)
  next
    case (Cons stmt b)
    show ?case
      unfolding blockLoop.simps
      by (intro ir_rules iq_ir [OF iq_handleBlockParallel] ir_handleStatement assms Cons.IH)
  qed
  then show ?thesis by (simp add: handleBlock_def)
qed

lemma irun_ok: "rc_ok (irun ev n)"
proof (induction n)
  case 0
  show ?case by (simp add: rc_ok_def ir.ok_fail iq.ok_fail)
next
  case (Suc n)
  have "ir.ok s (irun ev (Suc n) c)" for s c
    by (cases c) (simp_all add: ir_handleBlock ir_handleStatement iq_ir iq_handleBuild_rc Suc.IH)
  moreover have "iq.ok s (irun ev (Suc n) (IBuild c a))" for s c a
    by (simp add: iq_handleBuild_rc Suc.IH)
  ultimately show ?case by (simp add: rc_ok_def)
qed

text \<open>From any state, a run extends the calls in the way the relations say.\<close>

lemma irun_ext:
  "irun ev n c s = (r, t) \<Longrightarrow> part_ext s t \<and> (is_ok r \<longrightarrow> bal_ext s t)"
  using ir.okD [OF rc_okD(1) [OF irun_ok] bal_refl, of ev n c s r t] ir.B_S
  by (cases r) (auto simp: is_ok_def)

lemma part_ext_same:
  "part_ext s t \<Longrightarrow> i_calls u = i_calls t \<Longrightarrow> i_allowPrivileged u = i_allowPrivileged t \<Longrightarrow>
    i_pushOnlyAllowed u = i_pushOnlyAllowed t \<Longrightarrow> i_withDocker u = i_withDocker t \<Longrightarrow> part_ext s u"
  by (simp add: calls_ext_def)

lemma part_ext_call:
  assumes "part_ext s t" "permitted s c" "plain_call c"
  shows "part_ext s (add_call c t)"
proof -
  obtain cs where cs: "i_calls t = i_calls s @ cs" "open_brackets cs" "\<forall>c \<in> set cs. permitted s c"
    using assms(1) by (auto simp: calls_ext_def)
  have "\<exists>cs'. i_calls (add_call c t) = i_calls s @ cs' \<and> open_brackets cs' \<and> (\<forall>c \<in> set cs'. permitted s c)"
    using cs assms(2,3) by (intro exI [of _ "cs @ [c]"]) (auto simp: add_call_def intro: open_append balanced_open [OF balanced_simps(2)])
  then show ?thesis using assms(1) by (simp add: calls_ext_def add_call_def)
qed

lemma ir_handleTarget:
  assumes "\<not> i_pushOnlyAllowed s"
  shows "ir.ok s (handleTarget ev n t)"
  unfolding handleTarget_def
  by (intro ir_rules iq_ir [OF iq_wrap(1)] iq_convU rc_okD(1) [OF irun_ok])
    (use assms in \<open>auto simp: permitted_def plain_call_def dest: bal_ext_mono(1)\<close>)

lemma ir_Run:
  assumes "\<not> i_pushOnlyAllowed s"
  shows "ir.ok s (Run ev n ef)"
  unfolding Run_def
  by (intro ir.ok_defer ir_rules iq_ir [OF iq_errorf(1)] ir_handleTarget [OF assms] rc_okD(1) [OF irun_ok])
    (auto simp: bal_ext_upd permitted_def plain_call_def split: abort.split
      intro: part_ext_same part_ext_call)

lemma Run_ext:
  "Run ev n ef s = (r, t) \<Longrightarrow> \<not> i_pushOnlyAllowed s \<Longrightarrow> part_ext s t \<and> (is_ok r \<longrightarrow> bal_ext s t)"
  using ir.okD [OF ir_Run bal_refl, of s ev n ef r t] ir.B_S by (cases r) (auto simp: is_ok_def)

end
