(* ===== verification/Interp_Results.thy ===== *)
theory Interp_Results
  imports Interp_Correct
begin

text \<open>
  The results about a run of the interpreter, for every converter, every parser of flags and
  every amount of fuel: privileges, the commands after a \<open>--push\<close>, and the nesting of the calls.
\<close>

section \<open>Privileges\<close>

text \<open>Calls that ask for privileges.\<close>

fun privileged :: "conv_call \<Rightarrow> bool" where
  "privileged (CFrom _ _ ap _ _) = ap"
| "privileged (CFromDockerfile _ _ _ _ ap _) = ap"
| "privileged CLocally = True"
| "privileged (CCopyArtifactLocal _ _ _ ap _ _ _) = ap"
| "privileged (CCopyArtifact _ _ _ ap _ _ _ _ _ _ _ _ _) = ap"
| "privileged (CRun opts) = ro_Privileged opts"
| "privileged (CRunExitCode opts) = ro_Privileged opts"
| "privileged (CRunExpression _ opts) = ro_Privileged opts"
| "privileged (CBuild _ _ ap _ _ _) = ap"
| "privileged (CBuildAsync _ _ ap _ _) = ap"
| "privileged (CcheckAutoSkip _ ap _ _) = ap"
| "privileged (CWithDockerRun _ w _) = list_ex dl_AllowPrivileged (wd_Loads w)"
| "privileged (CWithDockerRunLocal _ w _) = list_ex dl_AllowPrivileged (wd_Loads w)"
| "privileged (CImport _ _ _ cur _) = cur"
| "privileged (CEnterScopeDo _ _ ap _ _ _) = ap"
| "privileged _ = False"

definition is_condition :: "conv_call \<Rightarrow> bool" where
  "is_condition c = (case c of CRunExitCode _ \<Rightarrow> True | CRunExpression _ _ \<Rightarrow> True | _ \<Rightarrow> False)"

lemma permits_privileged: "permits False push False c \<Longrightarrow> privileged c \<Longrightarrow> is_condition c"
  by (cases c) (auto simp: is_condition_def docker_priv_of_def)

text \<open>The calls of a run are those of the state it starts from and the new ones.\<close>

definition new_calls :: "Interpreter \<Rightarrow> Interpreter \<Rightarrow> conv_call list" where
  "new_calls i j = drop (length (i_calls i)) (i_calls j)"

lemma ext_new_calls:
  "calls_ext P i j \<Longrightarrow> i_calls j = i_calls i @ new_calls i j \<and> P (new_calls i j) \<and> (\<forall>c \<in> set (new_calls i j). permitted i c)"
  by (auto simp: calls_ext_def new_calls_def)

definition unprivileged_state :: "Interpreter \<Rightarrow> bool" where
  "unprivileged_state i \<longleftrightarrow> \<not> i_allowPrivileged i \<and> \<not> docker_priv_of (i_withDocker i)"


section \<open>After a push\<close>

text \<open>Calls that change the image or build another target.\<close>

fun build_step :: "conv_call \<Rightarrow> bool" where
  "build_step (CFrom _ _ _ _ _) = True"
| "build_step (CFromDockerfile _ _ _ _ _ _) = True"
| "build_step CLocally = True"
| "build_step (CCopyArtifactLocal _ _ _ _ _ _ _) = True"
| "build_step (CCopyArtifact _ _ _ _ _ _ _ _ _ _ _ _ _) = True"
| "build_step (CCopyClassical _ _ _ _ _ _ _ _) = True"
| "build_step (CRun opts) = (\<not> ro_Push opts)"
| "build_step (CRunExitCode _) = True"
| "build_step (CBuild _ _ _ _ _ _) = True"
| "build_step (CBuildAsync _ _ _ _ _) = True"
| "build_step (CWorkdir _) = True"
| "build_step (CUser _) = True"
| "build_step (CCmd _ _) = True"
| "build_step (CEntrypoint _ _) = True"
| "build_step (CExpose _) = True"
| "build_step (CVolume _) = True"
| "build_step (CEnv _ _) = True"
| "build_step (CArg _ _ _) = True"
| "build_step (CLet _ _) = True"
| "build_step (CGitClone _ _ _ _ _) = True"
| "build_step (CHealthcheck _ _ _ _ _ _ _) = True"
| "build_step (CWithDockerRun _ _ _) = True"
| "build_step (CWithDockerRunLocal _ _ _) = True"
| "build_step _ = False"

lemma permits_build_step: "permits allow True dp c \<Longrightarrow> \<not> build_step c"
  by (cases c) auto


section \<open>Nesting\<close>

text \<open>
  C4. Wait blocks, function scopes and loop variables are used as brackets: in the calls of a run
  every \<open>PopWaitBlock\<close>, \<open>ExitScope\<close> and \<open>UnsetArg\<close> closes the matching call opened last, and
  when the run returns without an error nothing is left open.
\<close>

theorem run_nesting:
  assumes "Run ev n ef i = (r, j)" "\<not> i_pushOnlyAllowed i"
  shows "(\<exists>opn. nest (new_calls i j) [] = Some opn) \<and> (is_ok r \<longrightarrow> nest (new_calls i j) [] = Some [])"
proof -
  have "part_ext i j" "is_ok r \<longrightarrow> bal_ext i j" using Run_ext [OF assms] by auto
  then have "open_brackets (new_calls i j)" "is_ok r \<longrightarrow> balanced (new_calls i j)" using ext_new_calls by blast+
  then show ?thesis by (auto simp: open_brackets_def balanced_def)
qed

section \<open>Conditions\<close>

text \<open>
  C6. The flag \<open>--privileged\<close> of an IF reaches the converter as it is written: an interpreter
  without privileges runs the condition of \<open>IF --privileged\<close> as a privileged command, since
  neither \<open>handleIf\<close> nor \<open>handleIfExpression\<close> compares the flag with its privileges.
\<close>

theorem if_privileged_unchecked:
  assumes "gf_If (ev_goflags ev) zero_If (ProcessParamsAndQuotes expr) = Inr (opts, args)" "expr \<noteq> []"
    and "if_Secrets opts = []" "if_Mounts opts = []" "if_Privileged opts" "\<not> i_allowPrivileged i"
  shows "list_ex privileged (new_calls i (snd (handleIfExpression ev expr ex sl i)))"
proof -
  obtain x xs where "expr = x # xs" using assms(2) by (cases expr) auto
  then show ?thesis
    using assms
    by (auto simp: handleIfExpression_def parseOpts_def ParseArgsCleaned_def resR_def wrapError_def onErrR_def bindR_def
        retR_def readR_def conv_def add_call_def new_calls_def split: sum.split)
qed

section \<open>An example\<close>

text \<open>A converter that accepts every call and expands a word to itself, and flags of which only
  \<open>--privileged\<close> and \<open>--push\<close> are read.\<close>

definition ex_answer :: answer where
  "ex_answer = \<lparr>an_text = [], an_text2 = [], an_code = 0, an_skip = False, an_cmds = [], an_artifacts = [],
     an_Ref = RefTarget zero_Target_ref, an_Earthfile = empty_tree,
     an_Features = \<lparr>fe_on = (\<lambda>_. True), fe_Major = 0, fe_Minor = 8\<rparr>,
     an_allowPrivileged = False, an_allowPrivilegedSet = False\<rparr>"

definition plain_flags :: "'o flag_parser" where
  "plain_flags opts args = Inr (opts, args)"

definition ex_goflags :: goflags where
  "ex_goflags = \<lparr>gf_If = (\<lambda>opts args. if args \<noteq> [] \<and> hd args = ''--privileged'' then Inr (opts\<lparr>if_Privileged := True\<rparr>, tl args)
       else Inr (opts, args)),
     gf_For = plain_flags,
     gf_Run = (\<lambda>opts args. if args \<noteq> [] \<and> hd args = ''--push'' then Inr (opts\<lparr>run_Push := True\<rparr>, tl args) else Inr (opts, args)),
     gf_From = plain_flags, gf_FromDockerfile = plain_flags, gf_Copy = plain_flags, gf_SaveArtifact = plain_flags,
     gf_SaveImage = plain_flags, gf_Build = plain_flags, gf_GitClone = plain_flags, gf_HealthCheck = plain_flags,
     gf_WithDocker = plain_flags, gf_Do = plain_flags, gf_Import = plain_flags, gf_Arg = plain_flags,
     gf_Let = plain_flags, gf_Set = plain_flags, gf_Cache = plain_flags\<rparr>"

definition ex_env :: "(string \<Rightarrow> bool) \<Rightarrow> env" where
  "ex_env on = \<lparr>ev_answer = (\<lambda>_ c. Inr (case c of CExpandArgs _ w _ \<Rightarrow> ex_answer\<lparr>an_text := w\<rparr> | _ \<Rightarrow> ex_answer)),
     ev_platr = (\<lambda>_. ex_resolver), ev_WorkingDir = (\<lambda>_. ''/''), ev_LocalArtifactWhiteList = (\<lambda>_ _. False),
     ev_ftrs = \<lparr>fe_on = on, fe_Major = 0, fe_Minor = 8\<rparr>, ev_optFeatures = \<lparr>fe_on = on, fe_Major = 0, fe_Minor = 8\<rparr>,
     ev_goflags = ex_goflags, ev_platforms_Parse = (\<lambda>s. Inl s), ev_platforms_Normalize = (\<lambda>p. p),
     ev_ParsePortSpecs = Inr, ev_arn_Parse = Inl, ev_ParseDuration = Inl,
     ev_tables = ((\<lambda>_. False), (\<lambda>_. False)), ev_grow = gc_grow, ev_home = ''/root'',
     ev_defaultZeroStringFlag = ''none'', ev_labels = []\<rparr>"

definition ex_cmd :: "Cmd \<Rightarrow> string list \<Rightarrow> Command" where
  "ex_cmd name args = \<lparr>cmd_Name = name, cmd_Docs = [], cmd_SourceLocation = None, cmd_Args = args, cmd_ExecMode = False\<rparr>"

definition ex_interp :: "bool \<Rightarrow> Interpreter" where
  "ex_interp allow = newInterpreter (zero_Target_ref\<lparr>t_Target := ''base''\<rparr>) allow False"

definition ex_if :: Block where
  "ex_if = [Statement None (KIf None [''--privileged'', ''true''] False [Statement None (KCommand (ex_cmd CmdUser [''me'']))] [] None)]"

definition ex_wait :: Tree where
  "ex_wait = empty_tree\<lparr>tree_BaseRecipe := [Statement None (KWait None [] [Statement None (KCommand (ex_cmd CmdUser [''me'']))])]\<rparr>"


theorem if_privileged_unchecked_witness:
  "\<not> i_allowPrivileged (ex_interp False) \<and>
   list_ex privileged (new_calls (ex_interp False)
     (snd (handleIfExpression (ex_env (\<lambda>_. True)) [''--privileged'', ''true''] False None (ex_interp False))))"
proof -
  have pq: "ProcessParamsAndQuotes [''--privileged'', ''true''] = [''--privileged'', ''true'']" by code_simp
  show ?thesis
    using if_privileged_unchecked [of "ex_env (\<lambda>_. True)" "[''--privileged'', ''true'']" "zero_If\<lparr>if_Privileged := True\<rparr>"
        "[''true'']" "ex_interp False" False None]
    by (simp add: pq ex_env_def ex_goflags_def zero_If_def ex_interp_def newInterpreter_def)
qed


text \<open>The calls of \<open>WAIT / USER me / END\<close>.\<close>

lemma ex_wait_run:
  "fst (Run (ex_env (\<lambda>_. True)) 5 ex_wait (ex_interp True)) = Inr () \<and>
   i_calls (snd (Run (ex_env (\<lambda>_. True)) 5 ex_wait (ex_interp True))) =
     [CPushWaitBlock, CExpandArgs (no_run_opts\<lparr>ro_CommandName := ''expandargs'', ro_Transient := True, ro_WithShell := True\<rparr>) ''me'' True,
      CUser ''me'', CPopWaitBlock]"
  by code_simp

theorem run_nesting_witness:
  "nest (new_calls (ex_interp True) (snd (Run (ex_env (\<lambda>_. True)) 5 ex_wait (ex_interp True)))) [] = Some []"
proof -
  have "\<not> i_pushOnlyAllowed (ex_interp True)" by (simp add: ex_interp_def newInterpreter_def)
  then show ?thesis using run_nesting [OF surjective_pairing] ex_wait_run by (metis is_ok_simps(1))
qed

end
