(* ===== verification/Result_Errs.thy ===== *)
theory Result_Errs
  imports Result_State
begin

text \<open>
  Three more calculi for stateful operations that may fail: \<open>errs\<close> bounds the errors an operation
  can end with, \<open>safe\<close> does so for operations that keep an invariant of the state, and \<open>fuel_leR\<close>
  compares an operation with the same operation that has more fuel.
\<close>

section \<open>The errors of an operation\<close>

definition errs :: "('e \<Rightarrow> bool) \<Rightarrow> ('s, 'e, 'a) rs \<Rightarrow> bool" where
  "errs P m \<longleftrightarrow> (\<forall>s e. fst (m s) = Inl e \<longrightarrow> P e)"

lemma errs_simple: "errs P (retR x)" "P e \<Longrightarrow> errs P (failR e)" "errs P (modR f)" "errs P (tryR m)"
  by (auto simp: errs_def rs_defs split: prod.splits)

lemma errs_lift: "(\<And>e. r = Inl e \<Longrightarrow> P e) \<Longrightarrow> errs P (liftR r)"
  by (simp add: errs_def liftR_def)

lemma errs_read: "(\<And>x. errs P (f x)) \<Longrightarrow> errs P (readR g f)"
  by (simp add: errs_def readR_def)

lemma errs_bind: "errs P m \<Longrightarrow> (\<And>x. errs P (f x)) \<Longrightarrow> errs P (bindR m f)"
  unfolding errs_def bindR_def by (auto split: prod.splits sum.splits) (metis fst_conv)

lemma errs_bind_try: "errs P m \<Longrightarrow> (\<And>r. (\<And>e. r = Inl e \<Longrightarrow> P e) \<Longrightarrow> errs P (f r)) \<Longrightarrow> errs P (bindR (tryR m) f)"
  unfolding errs_def bindR_def tryR_def by (auto split: prod.splits) (metis fst_conv)

lemma errs_onErr: "errs P m \<Longrightarrow> (\<And>e. P e \<Longrightarrow> P (g e)) \<Longrightarrow> errs P (onErrR g m)"
  unfolding errs_def onErrR_def by (auto split: prod.splits sum.splits) (metis fst_conv)

lemma errs_if: "(b \<Longrightarrow> errs P m) \<Longrightarrow> (\<not> b \<Longrightarrow> errs P n) \<Longrightarrow> errs P (if b then m else n)"
  by simp

lemma errs_cases:
  "(x = None \<Longrightarrow> errs P m) \<Longrightarrow> (\<And>y. x = Some y \<Longrightarrow> errs P (f y)) \<Longrightarrow> errs P (case x of None \<Rightarrow> m | Some y \<Rightarrow> f y)"
  "(\<And>e. z = Inl e \<Longrightarrow> errs P (g e)) \<Longrightarrow> (\<And>y. z = Inr y \<Longrightarrow> errs P (h y)) \<Longrightarrow> errs P (case z of Inl e \<Rightarrow> g e | Inr y \<Rightarrow> h y)"
  "(\<And>a b. p = (a, b) \<Longrightarrow> errs P (k a b)) \<Longrightarrow> errs P (case p of (a, b) \<Rightarrow> k a b)"
  "(l = [] \<Longrightarrow> errs P m) \<Longrightarrow> (\<And>y ys. l = y # ys \<Longrightarrow> errs P (q y ys)) \<Longrightarrow> errs P (case l of [] \<Rightarrow> m | y # ys \<Rightarrow> q y ys)"
  by (cases x, auto) (cases z, auto, cases p, auto, cases l, auto)

lemma errs_map: "(\<And>x. x \<in> set xs \<Longrightarrow> errs P (f x)) \<Longrightarrow> errs P (mapR f xs)"
  by (induction xs) (auto intro!: errs_bind errs_simple)

lemma errs_for: "(\<And>x. x \<in> set xs \<Longrightarrow> errs P (f x)) \<Longrightarrow> errs P (forR xs f)"
  by (induction xs) (auto intro!: errs_bind errs_simple)

lemmas errs_rules = errs_read errs_bind errs_simple errs_lift errs_if errs_cases errs_map errs_for

section \<open>The errors of an operation under an invariant\<close>

definition safe :: "('s \<Rightarrow> bool) \<Rightarrow> ('e \<Rightarrow> bool) \<Rightarrow> ('s, 'e, 'a) rs \<Rightarrow> bool" where
  "safe I P m \<longleftrightarrow> (\<forall>s. I s \<longrightarrow> I (snd (m s)) \<and> (\<forall>e. fst (m s) = Inl e \<longrightarrow> P e))"

lemma safeD: "safe I P m \<Longrightarrow> I s \<Longrightarrow> fst (m s) = Inl e \<Longrightarrow> P e"
  by (simp add: safe_def)

lemma safe_simple: "safe I P (retR x)" "P e \<Longrightarrow> safe I P (failR e)" "(\<And>s. I s \<Longrightarrow> I (f s)) \<Longrightarrow> safe I P (modR f)"
  by (simp_all add: safe_def rs_defs)

lemma safe_lift: "(\<And>e. r = Inl e \<Longrightarrow> P e) \<Longrightarrow> safe I P (liftR r)"
  by (simp add: safe_def liftR_def)

lemma safe_read: "(\<And>s. I s \<Longrightarrow> safe I P (f (g s))) \<Longrightarrow> safe I P (readR g f)"
  by (simp add: safe_def readR_def)

lemma safe_bind: "safe I P m \<Longrightarrow> (\<And>x. safe I P (f x)) \<Longrightarrow> safe I P (bindR m f)"
  unfolding safe_def bindR_def by (fastforce split: prod.splits sum.splits)

lemma safe_bind_try:
  "safe I P m \<Longrightarrow> (\<And>r. (\<And>e. r = Inl e \<Longrightarrow> P e) \<Longrightarrow> safe I P (f r)) \<Longrightarrow> safe I P (bindR (tryR m) f)"
  unfolding safe_def bindR_def tryR_def by (auto split: prod.splits) (metis fst_conv snd_conv)+

lemma safe_onErr: "safe I P m \<Longrightarrow> (\<And>e. P e \<Longrightarrow> P (g e)) \<Longrightarrow> safe I P (onErrR g m)"
  unfolding safe_def onErrR_def by (fastforce split: prod.splits sum.splits)

lemma safe_if: "(b \<Longrightarrow> safe I P m) \<Longrightarrow> (\<not> b \<Longrightarrow> safe I P n) \<Longrightarrow> safe I P (if b then m else n)"
  by simp

lemma safe_cases:
  "(x = None \<Longrightarrow> safe I P m) \<Longrightarrow> (\<And>y. x = Some y \<Longrightarrow> safe I P (f y)) \<Longrightarrow> safe I P (case x of None \<Rightarrow> m | Some y \<Rightarrow> f y)"
  "(\<And>e. z = Inl e \<Longrightarrow> safe I P (g e)) \<Longrightarrow> (\<And>y. z = Inr y \<Longrightarrow> safe I P (h y)) \<Longrightarrow> safe I P (case z of Inl e \<Rightarrow> g e | Inr y \<Rightarrow> h y)"
  "(\<And>a b. p = (a, b) \<Longrightarrow> safe I P (k a b)) \<Longrightarrow> safe I P (case p of (a, b) \<Rightarrow> k a b)"
  "(l = [] \<Longrightarrow> safe I P m) \<Longrightarrow> (\<And>y ys. l = y # ys \<Longrightarrow> safe I P (q y ys)) \<Longrightarrow> safe I P (case l of [] \<Rightarrow> m | y # ys \<Rightarrow> q y ys)"
  by (cases x, auto) (cases z, auto, cases p, auto, cases l, auto)

lemma safe_map: "(\<And>x. x \<in> set xs \<Longrightarrow> safe I P (f x)) \<Longrightarrow> safe I P (mapR f xs)"
  by (induction xs) (auto intro!: safe_bind safe_simple)

lemma safe_for: "(\<And>x. x \<in> set xs \<Longrightarrow> safe I P (f x)) \<Longrightarrow> safe I P (forR xs f)"
  by (induction xs) (auto intro!: safe_bind safe_simple)

lemmas safe_rules = safe_read safe_bind safe_simple safe_lift safe_if safe_cases safe_map safe_for

section \<open>More fuel\<close>

text \<open>\<open>out\<close> is the error of an operation that ran out of fuel.\<close>

definition fuel_leR :: "'e \<Rightarrow> ('s, 'e, 'a) rs \<Rightarrow> ('s, 'e, 'a) rs \<Rightarrow> bool" where
  "fuel_leR out m m' \<longleftrightarrow> (\<forall>s. fst (m s) = Inl out \<or> m' s = m s)"

lemma fuel_leR_refl: "fuel_leR out m m"
  by (simp add: fuel_leR_def)

lemma fuel_leR_out: "fuel_leR out (failR out) m"
  by (simp add: fuel_leR_def failR_def)

lemma fuel_leR_bind:
  assumes "fuel_leR out m m'" "\<And>x. fuel_leR out (f x) (f' x)"
  shows "fuel_leR out (bindR m f) (bindR m' f')"
  unfolding fuel_leR_def
proof
  fix s
  obtain r t where m: "m s = (r, t)" by (cases "m s")
  show "fst (bindR m f s) = Inl out \<or> bindR m' f' s = bindR m f s"
  proof (cases "r = Inl out")
    case True
    then show ?thesis using m by (simp add: bindR_def)
  next
    case False
    then have "m' s = (r, t)" using assms(1) m by (metis fuel_leR_def fst_conv)
    then show ?thesis using assms(2) m by (cases r) (auto simp: bindR_def fuel_leR_def)
  qed
qed

lemma fuel_leR_bind_try:
  assumes "fuel_leR out m m'" "\<And>x. fuel_leR out (f x) (f' x)" "\<And>s. fst (f (Inl out) s) = Inl out"
  shows "fuel_leR out (bindR (tryR m) f) (bindR (tryR m') f')"
  unfolding fuel_leR_def
proof
  fix s
  obtain r t where m: "m s = (r, t)" by (cases "m s")
  show "fst (bindR (tryR m) f s) = Inl out \<or> bindR (tryR m') f' s = bindR (tryR m) f s"
  proof (cases "r = Inl out")
    case True
    then show ?thesis using m assms(3) by (simp add: bindR_def tryR_def)
  next
    case False
    then have "m' s = (r, t)" using assms(1) m by (metis fuel_leR_def fst_conv)
    then show ?thesis using assms(2) m by (auto simp: bindR_def tryR_def fuel_leR_def)
  qed
qed

lemma fuel_leR_read: "(\<And>x. fuel_leR out (f x) (f' x)) \<Longrightarrow> fuel_leR out (readR g f) (readR g f')"
  by (simp add: fuel_leR_def readR_def)

lemma fuel_leR_if: "(b \<Longrightarrow> fuel_leR out m m') \<Longrightarrow> (\<not> b \<Longrightarrow> fuel_leR out n n') \<Longrightarrow>
    fuel_leR out (if b then m else n) (if b then m' else n')"
  by simp

lemma fuel_leR_cases:
  "fuel_leR out m m' \<Longrightarrow> (\<And>y. fuel_leR out (f y) (f' y)) \<Longrightarrow>
    fuel_leR out (case x of None \<Rightarrow> m | Some y \<Rightarrow> f y) (case x of None \<Rightarrow> m' | Some y \<Rightarrow> f' y)"
  "(\<And>a b. fuel_leR out (k a b) (k' a b)) \<Longrightarrow> fuel_leR out (case p of (a, b) \<Rightarrow> k a b) (case p of (a, b) \<Rightarrow> k' a b)"
  "fuel_leR out m m' \<Longrightarrow> (\<And>y ys. fuel_leR out (q y ys) (q' y ys)) \<Longrightarrow>
    fuel_leR out (case l of [] \<Rightarrow> m | y # ys \<Rightarrow> q y ys) (case l of [] \<Rightarrow> m' | y # ys \<Rightarrow> q' y ys)"
  by (cases x, auto) (cases p, auto, cases l, auto)

lemma fuel_leR_for: "(\<And>x. fuel_leR out (f x) (f' x)) \<Longrightarrow> fuel_leR out (forR xs f) (forR xs f')"
  by (induction xs) (auto intro!: fuel_leR_bind fuel_leR_refl)

lemmas fuel_leR_rules = fuel_leR_read fuel_leR_bind fuel_leR_if fuel_leR_cases fuel_leR_for

lemma fuel_leR_Suc_le:
  assumes "\<And>n. fuel_leR out (F n) (F (Suc n))" "n \<le> m" "fst (F n s) \<noteq> Inl out"
  shows "F m s = F n s"
  using assms(2,3)
proof (induction m rule: dec_induct)
  case (step k)
  then show ?case using assms(1) [of k] by (metis fuel_leR_def)
qed simp

end
