(* ===== verification/Interp_Fuel.thy ===== *)
theory Interp_Fuel
  imports Interp_Results Result_Errs
begin

text \<open>
  Fuel and crashes. A run of the interpreter ends with a result, an error, a panic or no fuel.
  More fuel never changes a run that had enough. For the Earthfiles that \<open>safe_stmt\<close> describes,
  fuel beyond the nesting depth of the blocks is enough and nothing panics: the run returns or
  reports an error.
\<close>

section \<open>More fuel\<close>

definition rc_le :: "interp \<Rightarrow> interp \<Rightarrow> bool" where
  "rc_le rc rc' \<longleftrightarrow> (\<forall>c. fuel_leR NoFuel (rc c) (rc' c))"

lemma rc_leD: "rc_le rc rc' \<Longrightarrow> fuel_leR NoFuel (rc c) (rc' c)"
  by (simp add: rc_le_def)

lemmas fuel_steps = fuel_leR_rules fuel_leR_refl rc_leD

lemma le_handleBuild: "rc_le rc rc' \<Longrightarrow> fuel_leR NoFuel (handleBuild ev rc cmd a) (handleBuild ev rc' cmd a)"
  unfolding handleBuild_def notPushOnly_def handleWildcardBuilds_def Let_def by (intro fuel_steps)

lemma le_handleDoFunction:
  assumes "rc_le rc rc'"
  shows "fuel_leR NoFuel (handleDoFunction ev rc c rel uc cmd args ap pass file fn)
    (handleDoFunction ev rc' c rel uc cmd args ap pass file fn)"
  unfolding handleDoFunction_def Let_def
  by (intro fuel_leR_read fuel_leR_if fuel_leR_refl)
    (auto intro!: fuel_leR_rules fuel_leR_refl rc_leD [OF assms] split: list.split Statement.split StatementKind.split)

lemma le_handleDo:
  assumes "rc_le rc rc'"
  shows "fuel_leR NoFuel (handleDo ev rc cmd) (handleDo ev rc' cmd)"
  unfolding handleDo_def Let_def
  by (intro fuel_leR_rules fuel_leR_refl)
    (auto intro!: fuel_leR_rules fuel_leR_refl le_handleDoFunction [OF assms] split: Reference.split)

lemma le_handleCommand: "rc_le rc rc' \<Longrightarrow> fuel_leR NoFuel (handleCommand ev rc cmd) (handleCommand ev rc' cmd)"
  unfolding handleCommand_def Let_def
  by (intro fuel_leR_read fuel_leR_if le_handleBuild le_handleDo fuel_leR_refl)

lemma le_handleWith: "rc_le rc rc' \<Longrightarrow> fuel_leR NoFuel (handleWith ev rc loc cmd b) (handleWith ev rc' loc cmd b)"
  unfolding handleWith_def handleWith_docker by (intro fuel_steps)

lemma le_elseIfLoop:
  assumes le: "rc_le rc rc'"
  shows "fuel_leR NoFuel (elseIfLoop ev rc eis els) (elseIfLoop ev rc' eis els)"
proof (induction eis)
  case Nil
  show ?case unfolding elseIfLoop.simps by (intro fuel_leR_rules fuel_leR_refl rc_leD [OF le])
next
  case (Cons ei eis)
  show ?case
    by (cases ei) (simp only: elseIfLoop.simps, intro fuel_leR_bind fuel_leR_if fuel_leR_refl rc_leD [OF le] Cons.IH)
qed

lemma le_handleStatement: "rc_le rc rc' \<Longrightarrow> fuel_leR NoFuel (handleStatement ev rc s) (handleStatement ev rc' s)"
  unfolding handleStatement_def handleIf_def notPushOnly_def handleFor_def handleWait_def handleTry_def
  by (cases s; rename_tac l k; case_tac k; simp only: Statement.case StatementKind.case)
    (intro fuel_steps le_handleCommand le_handleWith le_elseIfLoop | assumption)+

lemma le_parallelLoop: "rc_le rc rc' \<Longrightarrow> fuel_leR NoFuel (parallelLoop ev rc b) (parallelLoop ev rc' b)"
proof (induction b)
  case (Cons s b)
  obtain l k where s: "s = Statement l k" by (cases s)
  show ?case
  proof (cases k)
    case (KCommand c)
    show ?thesis
      unfolding s KCommand parallelLoop.simps StatementKind.case
      by (intro fuel_leR_if fuel_leR_refl fuel_leR_bind_try le_handleBuild Cons)
        (use Cons in \<open>auto simp: failR_def fuel_leR_refl split: sum.split abort.split\<close>)
  qed (use Cons s in \<open>simp_all add: fuel_leR_refl\<close>)
qed (simp add: fuel_leR_refl)

lemma le_handleBlock: "rc_le rc rc' \<Longrightarrow> fuel_leR NoFuel (handleBlock ev rc b) (handleBlock ev rc' b)"
proof -
  assume le: "rc_le rc rc'"
  have "fuel_leR NoFuel (blockLoop ev rc p b) (blockLoop ev rc' p b)" for p
  proof (induction b arbitrary: p)
    case (Cons s b)
    show ?case
      unfolding blockLoop.simps handleBlockParallel_def
      by (intro fuel_leR_rules fuel_leR_refl le_parallelLoop le_handleStatement le Cons.IH)
  qed (simp add: fuel_leR_refl)
  then show ?thesis by (simp add: handleBlock_def)
qed

lemma le_step:
  assumes "rc_le rc rc'"
  shows "rc_le
    (\<lambda>c. case c of IBlock b \<Rightarrow> handleBlock ev rc b | IStmt s \<Rightarrow> handleStatement ev rc s | IBuild cmd a \<Rightarrow> handleBuild ev rc cmd a)
    (\<lambda>c. case c of IBlock b \<Rightarrow> handleBlock ev rc' b | IStmt s \<Rightarrow> handleStatement ev rc' s | IBuild cmd a \<Rightarrow> handleBuild ev rc' cmd a)"
  using le_handleBlock [OF assms] le_handleStatement [OF assms] le_handleBuild [OF assms]
  by (simp add: rc_le_def split: icall.split)

lemma irun_le: "rc_le (irun ev n) (irun ev (Suc n))"
proof (induction n)
  case 0
  show ?case by (simp add: rc_le_def fuel_leR_out)
next
  case (Suc n)
  from le_step [OF this, of ev] show ?case by (simp only: irun.simps)
qed

lemma irun_more: "fst (irun ev n c i) \<noteq> Inl NoFuel \<Longrightarrow> n \<le> m \<Longrightarrow> irun ev m c i = irun ev n c i"
  using fuel_leR_Suc_le [of NoFuel "\<lambda>n. irun ev n c" n m i] rc_leD [OF irun_le] by blast

end
