(* ===== verification/Interp_Crash.thy ===== *)
theory Interp_Crash
  imports Interp_Fuel
begin

text \<open>
  Which runs can crash. Every handler of a single command ends with a result or an error, but for
  a bare PROJECT. \<open>fits n\<close> describes the statements with at most \<open>n\<close> nested blocks
  that contain none of the crashing forms; fuel beyond \<open>n\<close> is enough for them.
\<close>

section \<open>Commands\<close>

definition is_Err :: "abort \<Rightarrow> bool" where
  "is_Err a \<longleftrightarrow> (case a of Err _ \<Rightarrow> True | _ \<Rightarrow> False)"

lemma is_Err_simps [simp]: "is_Err (Err e)" "\<not> is_Err (Panic m)" "\<not> is_Err NoFuel" "is_Err (on_err f a) = is_Err a"
  by (simp_all add: is_Err_def on_err_def split: abort.split)

abbreviation ends :: "'a im \<Rightarrow> bool" where
  "ends m \<equiv> errs is_Err m"

lemma endsD: "ends m \<Longrightarrow> fst (m i) \<noteq> Inl NoFuel" "ends m \<Longrightarrow> fst (m i) \<noteq> Inl (Panic msg)"
  using is_Err_simps(2,3) by (auto simp: errs_def simp del: is_Err_simps)

lemma ends_conv: "ends (conv ev c)"
  by (auto simp: errs_def conv_def split: sum.splits)

lemma ends_convU: "ends (convU ev c)"
  unfolding convU_def by (intro errs_rules ends_conv)

lemma ends_errorf: "ends (errorf sl fmt)" "ends (errR e)"
  by (simp_all add: errorf_def errR_def errs_simple)

lemma ends_wrap: "ends m \<Longrightarrow> ends (wrapError sl fmt m)" "ends m \<Longrightarrow> ends (replaceError sl fmt m)"
  by (simp_all add: wrapError_def replaceError_def errs_onErr)

lemma ends_resR: "ends (resR f r)"
  by (simp add: resR_def ends_errorf errs_simple split: sum.split)

lemma ends_logf: "ends (logf fmt)"
  by (simp add: logf_def errs_simple)

lemma ends_notPushOnly: "ends m \<Longrightarrow> ends (notPushOnly sl m)"
  unfolding notPushOnly_def by (intro errs_rules ends_errorf)

lemma ends_parsers: "ends (parseFlagArgs sl args)" "ends (parseOpts sl fmt parse opts args)" "ends (parsePlatform ev sl p)"
  unfolding parseFlagArgs_def parseOpts_def parsePlatform_def by (intro ends_wrap ends_resR errs_rules)+

lemma ends_expandArgs: "ends (expandArgs ev w k a)"
  unfolding expandArgs_def by (intro errs_rules errs_onErr ends_conv) simp

lemma ends_expandArgsSlice: "ends (expandArgsSlice ev ws a)"
  unfolding expandArgsSlice_def by (intro errs_map ends_expandArgs)

lemmas ends_base = errs_read errs_bind errs_simple(1,3) errs_if errs_cases errs_map errs_for ends_conv ends_convU ends_errorf
  ends_wrap ends_resR ends_logf ends_notPushOnly ends_parsers ends_expandArgs ends_expandArgsSlice

lemma ends_getAllowPrivileged:
  "ends (getAllowPrivileged t ap)" "ends (getAllowPrivilegedTarget ev n ap)" "ends (getAllowPrivilegedArtifact ev a ap)"
proof -
  show *: "ends (getAllowPrivileged t ap)" for t ap
    unfolding getAllowPrivileged_def by (intro ends_base)
  show "ends (getAllowPrivilegedTarget ev n ap)" "ends (getAllowPrivilegedArtifact ev a ap)"
    unfolding getAllowPrivilegedTarget_def getAllowPrivilegedArtifact_def by (intro ends_base *)+
qed

lemma ends_preprocessArgs:
  assumes "\<And>n v. ends (f n v)"
  shows "ends (preprocessLoop flags f args result)"
proof (induction args arbitrary: result rule: length_induct)
  case (1 args)
  show ?case
  proof (cases args)
    case (Cons arg as)
    have "ends (preprocessLoop flags f as r)" "ends (preprocessLoop flags f (tl as) r)" for r
      using 1 Cons by auto
    then show ?thesis
      unfolding Cons preprocessLoop.simps Let_def by (intro ends_base assms)
  qed (simp add: errs_simple)
qed

lemma ends_labelLoop: "ends (labelLoop ev sl args nk ne key labels)"
  by (induction ev sl args nk ne key labels rule: labelLoop.induct)
    (auto intro!: errs_bind errs_simple(1) ends_errorf ends_wrap ends_expandArgs)

lemma ends_parts:
  "ends (parseRunOpts ev args)" "ends (runNetwork ev sl ro)" "ends (handleOIDC ev sl ro)"
  "ends (runPlain ev cmd ro args secrets mounts net oidc)" "ends (runInDocker ev cmd ro args secrets mounts oidc d)"
  "ends (copySource ev sl src)" "ends (copyArtifact ev sl co dest p args chown mode x)" "ends (parseSetArgs ev cmd)"
  "ends (dockerLoad ev sl wo p args load)"
  unfolding parseRunOpts_def preprocessArgs_def flagValModifierFunc_def runNetwork_def handleOIDC_def runPlain_def
    runInDocker_def copySource_def copyArtifact_def parseSetArgs_def dockerLoad_def Let_def
  by (intro ends_base ends_preprocessArgs ends_getAllowPrivileged)+

lemmas ends_rules = ends_base ends_getAllowPrivileged ends_parts ends_labelLoop

lemma ends_handlers:
  "ends (handleFrom ev cmd)" "ends (handleFromDockerfile ev cmd)" "ends (handleLocally ev cmd)" "ends (handleRun ev cmd)"
  "ends (handleCopy ev cmd)" "ends (handleSaveArtifact ev cmd)" "ends (handleSaveImage ev cmd)"
  unfolding handleFrom_def handleFromDockerfile_def handleLocally_def handleRun_def handleCopy_def handleSaveArtifact_def
    handleSaveImage_def Let_def
  by (intro ends_rules)+

lemma ends_settings:
  "ends (handleWorkdir ev cmd)" "ends (handleUser ev cmd)" "ends (handleCmd ev cmd)" "ends (handleEntrypoint ev cmd)"
  "ends (handleExpose ev cmd)" "ends (handleVolume ev cmd)" "ends (handleEnv ev cmd)" "ends (handleHealthcheck ev cmd)"
  "ends (handleLabel ev cmd)" "ends (handleArg ev cmd)" "ends (handleLet ev cmd)" "ends (handleSet ev cmd)"
  unfolding handleWorkdir_def handleUser_def handleCmd_def handleEntrypoint_def handleExpose_def handleVolume_def
    handleEnv_def handleHealthcheck_def handleLabel_def handleArg_def handleLet_def handleSet_def Let_def
  by (intro ends_rules)+

lemma ends_others:
  "ends (handleGitClone ev cmd)" "ends (handleImport ev cmd)" "ends (handleCache ev cmd)" "ends (handleHost ev cmd)"
  "ends (handleWithDocker ev cmd)" "ends (handleIfExpression ev expr ex sl)" "ends (handleForArgs ev args sl)"
  unfolding handleGitClone_def handleImport_def handleCache_def handleHost_def handleWithDocker_def handleIfExpression_def
    handleForArgs_def Let_def
  by (intro ends_rules)+

lemma ends_handleProject: "cmd_Args cmd \<noteq> [] \<Longrightarrow> ends (handleProject ev cmd)"
  unfolding handleProject_def Let_def by (intro ends_rules) simp_all

lemma ends_handleBuild:
  assumes "\<not> ftr ev ''wildcard-builds''"
  shows "ends (handleBuild ev rc cmd async)"
  unfolding handleBuild_def Let_def if_P [OF assms] by (intro ends_rules)


section \<open>Statements\<close>

text \<open>The commands that \<open>fits\<close> allows: no DO, whose function may call itself, and no PROJECT
  without a value.\<close>

definition fits_cmd :: "Command \<Rightarrow> bool" where
  "fits_cmd cmd \<longleftrightarrow> cmd_Name cmd \<noteq> CmdDo \<and> (cmd_Name cmd = CmdProject \<longrightarrow> cmd_Args cmd \<noteq> [])"

lemma ends_handleCommand:
  "\<not> ftr ev ''wildcard-builds'' \<Longrightarrow> fits_cmd cmd \<Longrightarrow> ends (handleCommand ev rc cmd)"
  unfolding handleCommand_def Let_def
  by (intro errs_read errs_if ends_errorf ends_handlers ends_settings ends_others ends_handleBuild ends_handleProject)
    (simp_all add: fits_cmd_def)

definition is_command :: "Statement \<Rightarrow> bool" where
  "is_command s \<longleftrightarrow> (case s of Statement _ (KCommand _) \<Rightarrow> True | _ \<Rightarrow> False)"

primrec fits :: "nat \<Rightarrow> Statement \<Rightarrow> bool" where
  "fits 0 s = (case s of Statement _ (KCommand c) \<Rightarrow> fits_cmd c | _ \<Rightarrow> False)"
| "fits (Suc n) s = (case s of Statement _ k \<Rightarrow> (case k of
     KCommand c \<Rightarrow> fits_cmd c
   | KWith _ body c \<Rightarrow> list_all (fits n) body
   | KIf _ _ _ ifBody elseIf elseBody \<Rightarrow> list_all (fits n) ifBody \<and>
       list_all (\<lambda>ei. case ei of ElseIfStatement _ _ _ b \<Rightarrow> list_all (fits n) b) elseIf \<and>
       list_all (fits n) (case elseBody of None \<Rightarrow> [] | Some b \<Rightarrow> b)
   | KFor _ _ body \<Rightarrow> list_all (fits n) body
   | KWait _ _ body \<Rightarrow> list_all (fits n) body
   | KTry _ tryBody _ finallyBody \<Rightarrow> list_all (fits n) tryBody \<and>
       (case finallyBody of None \<Rightarrow> False | Some b \<Rightarrow> list_all (fits n) b \<and> list_all is_command b)))"

text \<open>What the interpreter of the blocks below must do.\<close>

definition rc_fits :: "nat \<Rightarrow> interp \<Rightarrow> bool" where
  "rc_fits n rc \<longleftrightarrow> (\<forall>b. list_all (fits n) b \<longrightarrow> ends (rc (IBlock b))) \<and> (\<forall>s. fits n s \<longrightarrow> ends (rc (IStmt s)))"

lemma rc_fitsD: "rc_fits n rc \<Longrightarrow> list_all (fits n) b \<Longrightarrow> ends (rc (IBlock b))" "rc_fits n rc \<Longrightarrow> fits n s \<Longrightarrow> ends (rc (IStmt s))"
  by (simp_all add: rc_fits_def)

lemmas ends_try = errs_bind_try [where P = is_Err]

lemma ends_handleWith:
  assumes "rc_fits n rc" "list_all (fits n) body"
  shows "ends (handleWith ev rc loc cmd body)"
  unfolding handleWith_def handleWith_docker
  by (intro errs_bind [OF errs_simple(3)] ends_try errs_bind errs_read errs_if errs_simple(3) errs_lift ends_errorf
      ends_others rc_fitsD(1) [OF assms])

lemma ends_elseIfLoop:
  assumes "rc_fits n rc" "list_all (\<lambda>ei. case ei of ElseIfStatement _ _ _ b \<Rightarrow> list_all (fits n) b) eis"
    "list_all (fits n) (case els of None \<Rightarrow> [] | Some b \<Rightarrow> b)"
  shows "ends (elseIfLoop ev rc eis els)"
  using assms(2)
proof (induction eis)
  case Nil
  show ?case using assms(1,3) by (cases els) (auto intro: rc_fitsD errs_simple)
next
  case (Cons ei eis)
  then show ?case
    by (cases ei) (auto intro!: errs_bind ends_others rc_fitsD(1) [OF assms(1)])
qed

lemma ends_finallySave:
  assumes "is_command s"
  shows "ends (finallySave ev loc s)"
proof -
  obtain l c where s: "s = Statement l (KCommand c)"
    using assms by (auto simp: is_command_def split: Statement.splits StatementKind.splits)
  show ?thesis
    unfolding s finallySave_def Let_def Statement.case StatementKind.case by (intro ends_base)
qed

lemma ends_handleTry:
  assumes "rc_fits n rc" "list_all (fits n) tryBody" "list_all (fits n) fin" "list_all is_command fin"
  shows "ends (handleTry ev rc loc tryBody catch (Some fin))"
proof -
  have fin: "ends (forR fin (\<lambda>c. rc (IStmt c)))" "ends (mapR (finallySave ev loc) fin)"
    using assms by (auto intro!: errs_for errs_map rc_fitsD(2) ends_finallySave simp: list_all_iff)
  show ?thesis
  proof (cases tryBody)
    case (Cons stmt others)
    then have "ends (rc (IStmt stmt))" using assms(1,2) by (auto intro: rc_fitsD(2))
    moreover have "ends (case stmt of Statement l k \<Rightarrow> (case k of
        KCommand c \<Rightarrow> if cmd_Name c = ''RUN'' then retR () else errorf loc bad
      | KWith _ body c \<Rightarrow> if cmd_Name c = ''DOCKER'' then
          if length body \<noteq> 1 then errorf loc single else retR () else errorf loc bad
      | _ \<Rightarrow> errorf loc bad))" for bad single
      by (cases stmt) (simp add: errs_simple ends_errorf split: StatementKind.split)
    ultimately show ?thesis
      unfolding handleTry_def Cons option.case list.case
      by (intro errs_if errs_bind ends_errorf errs_simple(3) fin)
  qed (simp add: handleTry_def ends_errorf)
qed

lemma ends_handleStatement:
  assumes "\<not> ftr ev ''wildcard-builds''" "rc_fits n rc" "fits (Suc n) s"
  shows "ends (handleStatement ev rc s)"
proof -
  obtain l k where s: "s = Statement l k" by (cases s)
  show ?thesis
  proof (cases k)
    case (KFor loc args body)
    then show ?thesis
      using assms s by (auto simp: handleStatement_def handleFor_def
          intro!: errs_bind errs_for errs_cases(3) ends_others ends_wrap ends_convU ends_errorf rc_fitsD(1) [OF assms(2)])
  next
    case (KTry loc tryBody catch fin)
    then show ?thesis
      using assms s by (auto simp: handleStatement_def intro: ends_handleTry split: option.splits)
  qed (use assms s in \<open>auto simp: handleStatement_def handleIf_def handleWait_def
      intro!: errs_bind ends_handleCommand ends_handleWith ends_notPushOnly ends_others ends_convU ends_errorf
        ends_elseIfLoop rc_fitsD(1) [OF assms(2)]\<close>)
qed

lemma ends_parallelLoop:
  assumes "\<not> ftr ev ''wildcard-builds''"
  shows "ends (parallelLoop ev rc b)"
proof (induction b)
  case (Cons s b)
  obtain l k where s: "s = Statement l k" by (cases s)
  show ?case
  proof (cases k)
    case (KCommand c)
    show ?thesis
      unfolding s KCommand parallelLoop.simps StatementKind.case
      by (intro errs_if errs_simple(1) Cons ends_try ends_handleBuild assms)
        (auto simp: is_Err_def intro!: Cons errs_simple(2) split: sum.split abort.splits)
  qed (use Cons s in \<open>simp_all add: errs_simple\<close>)
qed (simp add: errs_simple)

lemma ends_handleBlock:
  assumes "\<not> ftr ev ''wildcard-builds''" "list_all (\<lambda>s. ends (handleStatement ev rc s)) b"
  shows "ends (handleBlock ev rc b)"
proof -
  have "ends (blockLoop ev rc p b)" for p
    using assms(2)
  proof (induction b arbitrary: p)
    case (Cons s b)
    then have st: "ends (handleStatement ev rc s)" by simp
    show ?case
      unfolding blockLoop.simps handleBlockParallel_def
      by (intro errs_read errs_bind errs_if errs_simple(1) ends_parallelLoop assms(1) st Cons.IH)
        (use Cons.prems in simp)
  qed (simp add: errs_simple)
  then show ?thesis by (simp add: handleBlock_def)
qed

section \<open>Runs\<close>

lemma irun_fits_Suc:
  assumes "\<not> ftr ev ''wildcard-builds''" "\<And>s. fits n s \<Longrightarrow> ends (handleStatement ev (irun ev m) s)"
  shows "rc_fits n (irun ev (Suc m))"
proof -
  have "ends (handleBlock ev (irun ev m) b)" if "list_all (fits n) b" for b
    using that assms(2) by (intro ends_handleBlock [OF assms(1)]) (auto simp: list_all_iff)
  then show ?thesis using assms(2) unfolding rc_fits_def by simp
qed

lemma irun_fits:
  assumes "\<not> ftr ev ''wildcard-builds''"
  shows "rc_fits n (irun ev (Suc n))"
proof (induction n)
  case 0
  have "ends (handleStatement ev rc s)" if "fits 0 s" for rc s
    using that ends_handleCommand [OF assms]
    by (auto simp: handleStatement_def split: Statement.splits StatementKind.splits)
  then show ?case by (rule irun_fits_Suc [OF assms])
next
  case (Suc n)
  show ?case by (rule irun_fits_Suc [OF assms]) (rule ends_handleStatement [OF assms Suc])
qed

lemma irun_ends:
  assumes "\<not> ftr ev ''wildcard-builds''" "list_all (fits n) b" "n < m"
  shows "ends (irun ev m (IBlock b))"
proof -
  have "ends (irun ev (Suc n) (IBlock b))" using irun_fits [OF assms(1)] assms(2) by (rule rc_fitsD(1))
  then have "irun ev m (IBlock b) i = irun ev (Suc n) (IBlock b) i" for i
    using assms(3) by (intro irun_more endsD) auto
  then show ?thesis using \<open>ends (irun ev (Suc n) (IBlock b))\<close> by (simp add: errs_def)
qed

text \<open>The recipes of an Earthfile.\<close>

definition tree_fits :: "nat \<Rightarrow> Tree \<Rightarrow> bool" where
  "tree_fits n ef \<longleftrightarrow> list_all (fits n) (tree_BaseRecipe ef) \<and> list_all (\<lambda>t. list_all (fits n) (tgt_Recipe t)) (tree_Targets ef)"

lemma ends_Run:
  assumes "\<not> ftr ev ''wildcard-builds''" "tree_fits n ef" "n < m"
  shows "ends (Run ev m ef)"
proof -
  have "ends (handleTarget ev m t)" if "find P (tree_Targets ef) = Some t" for P t
    using assms that unfolding handleTarget_def tree_fits_def
    by (intro errs_read errs_bind ends_wrap ends_convU irun_ends [where n = n])
      (auto simp: list_all_iff find_Some_iff)
  moreover have "ends (irun ev m (IBlock (tree_BaseRecipe ef)))"
    using assms by (auto simp: tree_fits_def intro: irun_ends)
  ultimately show ?thesis
    unfolding Run_def
    by (intro ends_try errs_read errs_if errs_bind errs_simple(3) errs_cases(1) errs_lift ends_errorf) simp_all
qed

lemma find_set: "find P xs = Some x \<Longrightarrow> x \<in> set xs"
  by (auto simp: find_Some_iff)

lemma irun_same:
  assumes "\<not> ftr ev ''wildcard-builds''" "list_all (fits n) b" "n < m"
  shows "irun ev m (IBlock b) = irun ev (Suc n) (IBlock b)"
  using assms(3) by (intro ext irun_more endsD irun_ends [OF assms(1,2)]) auto

lemma Run_same:
  assumes "\<not> ftr ev ''wildcard-builds''" "tree_fits n ef" "n < m"
  shows "Run ev m ef = Run ev (Suc n) ef"
proof -
  have "handleTarget ev m t = handleTarget ev (Suc n) t" if "t \<in> set (tree_Targets ef)" for t
    using that assms irun_same [OF assms(1) _ assms(3), of "tgt_Recipe t"]
    unfolding handleTarget_def tree_fits_def by (simp add: list_all_iff del: irun.simps)
  then have tgt: "(case find P (tree_Targets ef) of None \<Rightarrow> e | Some t \<Rightarrow> handleTarget ev m t) =
      (case find P (tree_Targets ef) of None \<Rightarrow> e | Some t \<Rightarrow> handleTarget ev (Suc n) t)" for P e
    using find_set [of P "tree_Targets ef"] by (simp split: option.split)
  have "irun ev m (IBlock (tree_BaseRecipe ef)) = irun ev (Suc n) (IBlock (tree_BaseRecipe ef))"
    using assms(2) by (intro irun_same [OF assms(1) _ assms(3)]) (simp add: tree_fits_def)
  then show ?thesis unfolding Run_def tgt by (simp only:)
qed



end
