(* ===== verification/Input_Hasher.thy ===== *)
theory Input_Hasher
  imports Go_Strconv Earthfile_AST
begin

text \<open>
  The hasher of build inputs, \<^verbatim>\<open>util/buildkitskipper/hasher/hasher.go\<close>, and the methods of
  \<^verbatim>\<open>inputgraph/loader_hashing.go\<close>. The state of a hasher is the text written to the hash
  function so far; the hash function itself is applied by \<open>GetHash\<close>. The argument \<open>json\<close> is
  \<open>json.Marshal\<close> on a list of strings. The main result is that the writes can be read back
  from the text: two sequences of tagged writes with the same text are the same sequence.
\<close>

section \<open>The hasher\<close>

type_synonym hasher = string

definition New_hasher :: hasher where
  "New_hasher = []"

definition GetHash :: "(string \<Rightarrow> string) \<Rightarrow> hasher \<Rightarrow> string" where
  "GetHash sha1 h = sha1 h"

definition HashBytes :: "string \<Rightarrow> hasher \<Rightarrow> hasher" where
  "HashBytes b h = h @ FormatUint (length b) @ b"

definition HashInt :: "int \<Rightarrow> hasher \<Rightarrow> hasher" where
  "HashInt i = HashBytes (''int:'' @ Itoa i)"

definition HashBool :: "bool \<Rightarrow> hasher \<Rightarrow> hasher" where
  "HashBool v = HashBytes (''bool:'' @ FormatBool v)"

definition HashString :: "string \<Rightarrow> hasher \<Rightarrow> hasher" where
  "HashString s = HashBytes (''str:'' @ s)"

definition HashJSONMarshalled :: "('a \<Rightarrow> string) \<Rightarrow> 'a \<Rightarrow> hasher \<Rightarrow> hasher" where
  "HashJSONMarshalled json v = HashBytes (json v)"

section \<open>Statements\<close>

definition hashIfStatement ::
  "(string list \<Rightarrow> string) \<Rightarrow> string list \<Rightarrow> bool \<Rightarrow> Block \<Rightarrow> ElseIfStatement list \<Rightarrow> Block option \<Rightarrow> hasher \<Rightarrow> hasher" where
  "hashIfStatement json expr execMode ifBody elseIf elseBody h =
    (let h = HashString ''IF'' h;
         h = HashJSONMarshalled json expr h;
         h = HashBool execMode h;
         h = HashInt (int (length ifBody)) h;
         h = HashInt (int (length elseIf)) h
     in case elseBody of None \<Rightarrow> h | Some b \<Rightarrow> HashInt (int (length b)) h)"

definition hashElseIf :: "(string list \<Rightarrow> string) \<Rightarrow> string list \<Rightarrow> bool \<Rightarrow> Block \<Rightarrow> hasher \<Rightarrow> hasher" where
  "hashElseIf json expr execMode body h =
    HashInt (int (length body)) (HashBool execMode (HashJSONMarshalled json expr (HashString ''ELSE IF'' h)))"

definition hashWaitStatement :: "(string list \<Rightarrow> string) \<Rightarrow> string list \<Rightarrow> Block \<Rightarrow> hasher \<Rightarrow> hasher" where
  "hashWaitStatement json args body h =
    HashJSONMarshalled json args (HashInt (int (length body)) (HashString ''WAIT'' h))"

definition hashVersion :: "(string list \<Rightarrow> string) \<Rightarrow> Version \<Rightarrow> hasher \<Rightarrow> hasher" where
  "hashVersion json v h = HashJSONMarshalled json (ver_Args v) (HashString ''VERSION'' h)"

definition hashCommand :: "(string list \<Rightarrow> string) \<Rightarrow> Command \<Rightarrow> hasher \<Rightarrow> hasher" where
  "hashCommand json c h =
    HashBool (cmd_ExecMode c) (HashJSONMarshalled json (cmd_Args c) (HashString (cmd_Name c) h))"

definition hashForStatement :: "(string list \<Rightarrow> string) \<Rightarrow> string list \<Rightarrow> hasher \<Rightarrow> hasher" where
  "hashForStatement json args h = HashJSONMarshalled json args (HashString ''FOR'' h)"

definition hashTryStatement :: "hasher \<Rightarrow> hasher" where
  "hashTryStatement h = HashString ''TRY'' h"

section \<open>Reading the writes back\<close>

text \<open>A write is tagged when its bytes do not start with a digit, as those of all methods but a
  bare \<open>HashBytes\<close>.\<close>

definition tagged :: "string \<Rightarrow> bool" where
  "tagged b \<longleftrightarrow> b \<noteq> [] \<and> \<not> is_digit (hd b)"

definition writes :: "string list \<Rightarrow> hasher" where
  "writes bs = concat (map (\<lambda>b. FormatUint (length b) @ b) bs)"

lemma writes_append [simp]: "writes (xs @ ys) = writes xs @ writes ys" "writes [] = []"
  by (simp_all add: writes_def)

lemma HashBytes_writes: "HashBytes b (h @ writes bs) = h @ writes (bs @ [b])"
  by (simp add: HashBytes_def writes_def)

lemma writes_eq_Nil: "writes (x # xs) \<noteq> []"
  by (simp add: writes_def FormatUint_nonempty)

lemma digits_prefix:
  assumes "list_all is_digit a" "list_all is_digit b" "tagged x" "tagged y" "a @ x @ r = b @ y @ s"
  shows "a = b \<and> x @ r = y @ s"
proof -
  have tw: "takeWhile is_digit (ds @ z @ t) = ds" "dropWhile is_digit (ds @ z @ t) = z @ t"
    if "list_all is_digit ds" "tagged z" for ds z t
    using that by (induction ds) (auto simp: tagged_def neq_Nil_conv)
  from tw [OF assms(1,3), of r] tw [OF assms(2,4), of s] assms(5) show ?thesis by simp
qed

lemma writes_inj:
  "list_all tagged xs \<Longrightarrow> list_all tagged ys \<Longrightarrow> writes xs = writes ys \<Longrightarrow> xs = ys"
proof (induction xs arbitrary: ys)
  case Nil
  then show ?case using writes_eq_Nil by (cases ys) (metis writes_append(2))+
next
  case (Cons x xs)
  then obtain y ys' where ys: "ys = y # ys'" using writes_eq_Nil [of x xs] by (cases ys) auto
  have eq: "FormatUint (length x) @ x @ writes xs = FormatUint (length y) @ y @ writes ys'"
    using Cons.prems(3) ys by (simp add: writes_def)
  have "FormatUint (length x) = FormatUint (length y) \<and> x @ writes xs = y @ writes ys'"
    using Cons.prems ys by (intro digits_prefix [OF FormatUint_digits FormatUint_digits _ _ eq]) auto
  moreover from this have "length x = length y" by (metis digits_value_FormatUint)
  ultimately show ?case using Cons.IH [of ys'] Cons.prems ys by auto
qed

lemma tagged_writes: "tagged (''int:'' @ t)" "tagged (''bool:'' @ t)" "tagged (''str:'' @ t)"
  by (simp_all add: tagged_def is_digit_def)

lemma FormatUint_inj: "FormatUint m = FormatUint n \<Longrightarrow> m = n"
  by (metis digits_value_FormatUint)

lemma FormatUint_not_minus: "CHR ''-'' # ds \<noteq> FormatUint n"
proof
  assume "CHR ''-'' # ds = FormatUint n"
  then have "is_digit (CHR ''-'')" using FormatUint_digits [of n] by (metis list.pred_inject(2))
  then show False by (simp add: is_digit_def)
qed

lemma Itoa_inj:
  assumes "Itoa i = Itoa j"
  shows "i = j"
proof (cases "i < 0"; cases "j < 0")
  assume "i < 0" "j < 0"
  then have "FormatUint (nat (- i)) = FormatUint (nat (- j))" using assms by (simp add: Itoa_def)
  then have "nat (- i) = nat (- j)" by (rule FormatUint_inj)
  then show ?thesis using \<open>i < 0\<close> \<open>j < 0\<close> by simp
next
  assume "\<not> i < 0" "\<not> j < 0"
  then have "FormatUint (nat i) = FormatUint (nat j)" using assms by (simp add: Itoa_def)
  then have "nat i = nat j" by (rule FormatUint_inj)
  then show ?thesis using \<open>\<not> i < 0\<close> \<open>\<not> j < 0\<close> by simp
qed (use assms FormatUint_not_minus in \<open>auto simp: Itoa_def dest: sym\<close>)

text \<open>The three writes of a command.\<close>

definition command_writes :: "(string list \<Rightarrow> string) \<Rightarrow> Command \<Rightarrow> string list" where
  "command_writes json c = [''str:'' @ cmd_Name c, json (cmd_Args c), ''bool:'' @ FormatBool (cmd_ExecMode c)]"

lemma hashCommand_writes: "hashCommand json c (h @ writes bs) = h @ writes (bs @ command_writes json c)"
  by (simp add: hashCommand_def HashBool_def HashString_def HashJSONMarshalled_def HashBytes_def writes_def command_writes_def)

end
