(* ===== verification/Input_Graph.thy ===== *)
theory Input_Graph
  imports Input_Hasher Interp_Base
begin

text \<open>
  The hash of the inputs of a target, \<^verbatim>\<open>inputgraph/loader.go\<close>, \<^verbatim>\<open>inputgraph/hash.go\<close>,
  \<^verbatim>\<open>inputgraph/error.go\<close> and \<^verbatim>\<open>inputgraph/util.go\<close>. A loader walks the recipe of a target without
  running it and writes what the target depends on to its hasher; for a target it refers to it
  makes a loader of its own. The loaders of a walk share the cache of hashes and the counters,
  which are handed from one to the next.

  From outside come the resolver of Earthfiles, the file system, the parsers of go-flags, the
  hash function, \<open>json.Marshal\<close>, the environment of the process, and the platform functions of
  a collection. Blocks and targets are loaded by the argument \<open>rc\<close>; \<open>lrun\<close> ties the knot with
  fuel. Names that the interpreter has too carry the prefix \<open>loader_\<close>.
\<close>

section \<open>Errors\<close>

datatype os_error = NotExist | OtherOS string

text \<open>\<open>LMsg\<close> is \<open>newError\<close>, \<open>LWrap\<close> is \<open>wrapError\<close> and \<open>addErrorSrc\<close>; their type has no method \<open>Unwrap\<close>, so
  that \<open>errors.Is\<close> does not look below them. \<open>LFmt\<close> is \<open>fmt.Errorf\<close> with the verb \<open>%w\<close>, below which it
  does look.\<close>

datatype lerror =
    LMsg Loc string
  | LWrap lerror Loc string
  | LFmt lerror string
  | LPlain string
  | ErrComplexCondition
  | ErrCannotLoadRemoteTarget
  | ErrInvalidRemoteTarget
  | LFlagutil flagutil_error
  | LRef ref_error
  | LShell sh_error
  | LVar var_error
  | LFlag flag_error
  | LOS os_error
  | LResolve string

fun Is_ComplexCondition :: "lerror \<Rightarrow> bool" where
  "Is_ComplexCondition ErrComplexCondition = True"
| "Is_ComplexCondition (LFmt e _) = Is_ComplexCondition e"
| "Is_ComplexCondition _ = False"

datatype labort = LErr lerror | LPanic string | LNoFuel

section \<open>The state\<close>

text \<open>The start time and the duration are left out of the counters.\<close>

record Stats =
  st_TargetsHashed :: nat
  st_TargetCacheHits :: nat
  st_TargetsVisited :: nat

record BuildContext =
  bc_Earthfile :: Tree
  bc_Features :: Features
  bc_GitMetadata :: "GitMetadata option"

text \<open>\<open>ld_varCollection\<close> and \<open>ld_features\<close> are set by \<open>load\<close>; they are \<open>nil\<close> before. The map of visited
  targets is the list of its keys.\<close>

record loader =
  ld_varCollection :: "Collection option"
  ld_features :: "Features option"
  ld_hashCache :: "string \<rightharpoonup> string"
  ld_stats :: Stats
  ld_globalImports :: "string \<rightharpoonup> ImportTrackerVal"
  ld_hasher :: hasher
  ld_visited :: "string list"
  ld_overridingVars :: "Scope option"
  ld_target :: Target_ref
  ld_builtinArgs :: DefaultArgs
  ld_baseProcessed :: bool
  ld_ci :: bool
  ld_primaryTarget :: bool

type_synonym 'a lm = "(loader, labort, 'a) rs"

record FileInfo =
  fi_Name :: string
  fi_Size :: int
  fi_IsDir :: bool

record lenv =
  le_resolve :: "Target_ref \<Rightarrow> string + BuildContext"
  le_Stat :: "string \<Rightarrow> os_error + FileInfo"
  le_ReadDir :: "string \<Rightarrow> os_error + string list"
  le_Glob :: "string \<Rightarrow> string + string list"
  le_ReadFile :: "string \<Rightarrow> os_error + string"
  le_dirFuel :: nat
  le_goflags :: goflags
  le_sha1 :: "string \<Rightarrow> string"
  le_json :: "string list \<Rightarrow> string"
  le_jsonArgs :: "DefaultArgs \<Rightarrow> string"
  le_environ :: "string \<rightharpoonup> string"
  le_Normalize :: "SpecsPlatform \<Rightarrow> SpecsPlatform"
  le_Format :: "SpecsPlatform \<Rightarrow> string"
  le_tables :: "(rune \<Rightarrow> bool) \<times> (rune \<Rightarrow> bool)"
  le_grow :: "nat \<Rightarrow> nat"
  le_home :: string

definition failL :: "lerror \<Rightarrow> 'a lm" where
  "failL e = failR (LErr e)"

definition panicL :: "string \<Rightarrow> 'a lm" where
  "panicL msg = failR (LPanic msg)"

definition on_lerr :: "(lerror \<Rightarrow> lerror) \<Rightarrow> labort \<Rightarrow> labort" where
  "on_lerr f a = (case a of LErr e \<Rightarrow> LErr (f e) | _ \<Rightarrow> a)"

definition newErrorL :: "Loc \<Rightarrow> string \<Rightarrow> 'a lm" where
  "newErrorL sl fmt = failL (LMsg sl fmt)"

definition wrapErrorL :: "Loc \<Rightarrow> string \<Rightarrow> 'a lm \<Rightarrow> 'a lm" where
  "wrapErrorL sl fmt = onErrR (on_lerr (\<lambda>e. LWrap e sl fmt))"

definition addErrorSrc :: "Loc \<Rightarrow> 'a lm \<Rightarrow> 'a lm" where
  "addErrorSrc sl = wrapErrorL sl []"

definition fmtErrorL :: "string \<Rightarrow> 'a lm \<Rightarrow> 'a lm" where
  "fmtErrorL fmt = onErrR (on_lerr (\<lambda>e. LFmt e fmt))"

definition resL :: "('x \<Rightarrow> lerror) \<Rightarrow> 'x + 'a \<Rightarrow> 'a lm" where
  "resL f r = (case r of Inl e \<Rightarrow> failL (f e) | Inr x \<Rightarrow> retR x)"

definition hashL :: "(hasher \<Rightarrow> hasher) \<Rightarrow> unit lm" where
  "hashL f = modR (\<lambda>l. l\<lparr>ld_hasher := f (ld_hasher l)\<rparr>)"

text \<open>An operation on \<open>l.varCollection\<close>: reading through the \<open>nil\<close> pointer panics, as does an
  operation on a collection without frames.\<close>

definition collL :: "(Collection \<Rightarrow> ('a \<times> Collection) option) \<Rightarrow> 'a lm" where
  "collL f =
    readR ld_varCollection (\<lambda>c.
    case Option.bind c f of
      None \<Rightarrow> panicL ''nil pointer dereference''
    | Some (x, c') \<Rightarrow> bindR (modR (\<lambda>l. l\<lparr>ld_varCollection := Some c'\<rparr>)) (\<lambda>_. retR x))"

definition parseL :: "'o flag_parser \<Rightarrow> 'o \<Rightarrow> string list \<Rightarrow> ('o \<times> string list) lm" where
  "parseL parse opts args = resL LFlagutil (ParseArgsCleaned parse opts args)"

section \<open>Expansion\<close>

text \<open>A shell-out expands to the whole word it occurs in.\<close>

definition loader_expandArgs :: "lenv \<Rightarrow> string \<Rightarrow> string lm" where
  "loader_expandArgs ev args =
    bindR (collL (\<lambda>c. Expand (le_tables ev) c args (Some (\<lambda>_. Inr args)))) (resL LShell)"

definition loader_expandArgsSlice :: "lenv \<Rightarrow> string list \<Rightarrow> string list lm" where
  "loader_expandArgsSlice ev args = mapR (loader_expandArgs ev) args"

fun shellExprLoop :: "rune list \<Rightarrow> rune option \<Rightarrow> int \<Rightarrow> bool \<Rightarrow> bool" where
  "shellExprLoop [] lastc depth hasExpr = (depth = 0 \<and> hasExpr)"
| "shellExprLoop (c # cs) lastc depth hasExpr =
    (let (depth, hasExpr) =
        (if c = rn (CHR ''('') \<and> lastc = Some (rn (CHR ''$'')) then (depth + 1, True)
         else if c = rn (CHR '')'') then (depth - 1, hasExpr)
         else (depth, hasExpr))
     in if depth < 0 then False else shellExprLoop cs (Some c) depth hasExpr)"

definition containsShellExpr :: "string \<Rightarrow> bool" where
  "containsShellExpr s = shellExprLoop (map fst (runes s)) None 0 False"

section \<open>Conditions\<close>

definition trimQuote :: "string \<Rightarrow> string" where
  "trimQuote v = (let q = (\<lambda>c. c = CHR '' '' \<or> c = CHR 0x22) in rev (dropWhile q (rev (dropWhile q v))))"

text \<open>The result is \<open>None\<close> when the second result of the Go function is false.\<close>

definition evalCondition :: "string list \<Rightarrow> bool option" where
  "evalCondition c0 = (let c = map trimQuote c0 in
    case c of
      [a] \<Rightarrow> if a = ''true'' then Some True else if a = ''false'' then Some False else Some (length a > 0)
    | [a, b] \<Rightarrow> if a = ''-z'' then Some (b = []) else if a = ''-n'' then Some (b \<noteq> []) else None
    | [a, op, b] \<Rightarrow>
        if op = ''=='' \<or> op = ''='' then Some (a = b)
        else if op = ''!='' then Some (a \<noteq> b)
        else if op = ''>'' then Some (a > b)
        else if op = ''>='' then Some (a \<ge> b)
        else if op = ''<'' then Some (a < b)
        else if op = ''<='' then Some (a \<le> b)
        else if op \<in> {''-eq'', ''-ne'', ''-gt'', ''-lt'', ''-le'', ''-ge''} then
          (case (Atoi a, Atoi b) of
             (Inr x, Inr y) \<Rightarrow> Some
               (if op = ''-eq'' then x = y else if op = ''-ne'' then x \<noteq> y else if op = ''-gt'' then x > y
                else if op = ''-lt'' then x < y else if op = ''-le'' then x \<le> y else x \<ge> y)
           | _ \<Rightarrow> None)
        else None
    | _ \<Rightarrow> None)"

text \<open>\<open>strings.Split(s, "||")\<close>\<close>

fun SplitOr :: "string \<Rightarrow> string list" where
  "SplitOr [] = [[]]"
| "SplitOr [x] = [[x]]"
| "SplitOr (x # y # s) =
    (if x = CHR ''|'' \<and> y = CHR ''|'' then [] # SplitOr s
     else case SplitOr (y # s) of [] \<Rightarrow> [[x]] | w # ws \<Rightarrow> (x # w) # ws)"

lemma SplitOr_length: "g \<in> set (SplitOr s) \<Longrightarrow> length g \<le> length s"
proof (induction s arbitrary: g rule: SplitOr.induct)
  case (3 x y s)
  show ?case
  proof (cases "x = CHR ''|'' \<and> y = CHR ''|''")
    case True
    then show ?thesis using 3 by force
  next
    case False
    show ?thesis
    proof (cases "SplitOr (y # s)")
      case (Cons w ws)
      then show ?thesis using 3(2) [OF False, of w] 3(2) [OF False, of g] 3(3) False by auto
    qed (use 3 False in auto)
  qed
qed auto

lemma Join_Cons_length: "length (Join ws sep) \<le> length (Join (w # ws) sep)"
  "length w + length (Join ws sep) \<le> length (Join (w # ws) sep)"
  by (cases ws; simp)+

text \<open>The loop over the parts of a group does not stop at \<open>&&\<close>: it goes on with the parts that
  the recursive call has looked at.\<close>

function (sequential) evalConditions :: "string list \<Rightarrow> bool option"
  and orGroupLoop :: "string list \<Rightarrow> bool option"
  and partsLoop :: "string list \<Rightarrow> string list \<Rightarrow> bool \<Rightarrow> bool \<Rightarrow> bool option" where
  "evalConditions c = orGroupLoop (SplitOr (Join c '' ''))"
| "orGroupLoop [] = Some False"
| "orGroupLoop (orGroup # gs) =
    (case partsLoop (Split orGroup CHR '' '') [] False False of
       None \<Rightarrow> None
     | Some result \<Rightarrow> if result then Some True else orGroupLoop gs)"
| "partsLoop [] cur result inExpr = Some result"
| "partsLoop (v # vs) cur result inExpr =
    (if v = ''[['' \<or> v = '']]'' then None
     else if v = ''['' then partsLoop vs [] result True
     else if v = '']'' then
       if \<not> inExpr then None
       else (case evalCondition cur of
               None \<Rightarrow> None
             | Some r \<Rightarrow> partsLoop vs (map trimQuote cur) r inExpr)
     else if v = ''&&'' then
       (case evalConditions vs of
          None \<Rightarrow> None
        | Some r \<Rightarrow> partsLoop vs cur (result \<and> r) inExpr)
     else partsLoop vs (cur @ [v]) result inExpr)"
  by pat_completeness auto

termination
proof (relation "measures
    [\<lambda>x. case x of Inl c \<Rightarrow> length (Join c '' '') | Inr (Inl gs) \<Rightarrow> foldr max (map length gs) 0
       | Inr (Inr (vs, _)) \<Rightarrow> length (Join vs '' ''),
     \<lambda>x. case x of Inl _ \<Rightarrow> 2 | Inr (Inl _) \<Rightarrow> 1 | Inr (Inr _) \<Rightarrow> 0,
     \<lambda>x. case x of Inl _ \<Rightarrow> 0 | Inr (Inl gs) \<Rightarrow> length gs | Inr (Inr (vs, _)) \<Rightarrow> length vs]", goal_cases)
  case (2 c)
  have "foldr max (map length gs) 0 \<le> n" if "\<And>g. g \<in> set gs \<Longrightarrow> length g \<le> n" for gs :: "string list" and n
    using that by (induction gs) auto
  then have "foldr max (map length (SplitOr (Join c '' ''))) 0 \<le> length (Join c '' '')"
    using SplitOr_length by blast
  then show ?case by (auto simp: le_less)
next
  case (3 orGroup gs)
  then show ?case using Join_Split [of orGroup "CHR '' ''"] by auto
next
  case (4 orGroup gs r)
  then show ?case by auto
next
  case (5 v vs cur result inExpr)
  then show ?case using Join_Cons_length(1) [of vs "'' ''" v] by (auto simp: le_less)
next
  case (6 v vs cur result inExpr r)
  then show ?case using Join_Cons_length(1) [of vs "'' ''" v] by (auto simp: le_less)
next
  case (7 v vs cur result inExpr)
  then show ?case using Join_Cons_length(2) [of v vs "'' ''"] by auto
next
  case (8 v vs cur result inExpr r)
  then show ?case using Join_Cons_length(1) [of vs "'' ''" v] by (auto simp: le_less)
next
  case (9 v vs cur result inExpr)
  then show ?case using Join_Cons_length(1) [of vs "'' ''" v] by (auto simp: le_less)
qed simp

section \<open>Files\<close>

fun mapL :: "('a \<Rightarrow> 'e + 'b) \<Rightarrow> 'a list \<Rightarrow> 'e + 'b list" where
  "mapL f [] = Inr []"
| "mapL f (x # xs) = rbind (f x) (\<lambda>y. rbind (mapL f xs) (\<lambda>ys. Inr (y # ys)))"

text \<open>The keys of a map in the order of insertion. The caller sorts the files before it uses them.\<close>

definition uniqStrs :: "string list \<Rightarrow> string list" where
  "uniqStrs xs = rev (remdups (rev xs))"

text \<open>The fuel bounds the depth of the directories.\<close>

primrec expandDirs :: "lenv \<Rightarrow> nat \<Rightarrow> string list \<Rightarrow> labort + string list" where
  "expandDirs ev 0 dirs = Inl LNoFuel"
| "expandDirs ev (Suc n) dirs =
    rbind (mapL (\<lambda>dir.
        case le_Stat ev dir of
          Inl e \<Rightarrow> Inl (LErr (LFmt (LOS e) ''failed to stat file''))
        | Inr stat \<Rightarrow>
            if fi_IsDir stat then
              (case le_ReadDir ev dir of
                 Inl e \<Rightarrow> Inl (LErr (LFmt (LOS e) ''failed to read dir''))
               | Inr entries \<Rightarrow> expandDirs ev n (map (path_Join dir) entries))
            else Inr [dir]) dirs)
      (\<lambda>found. Inr (uniqStrs (concat found)))"

definition contains2 :: "char \<Rightarrow> string \<Rightarrow> bool" where
  "contains2 c s = sublist [c, c] s"

definition expandCopyFiles :: "lenv \<Rightarrow> string \<Rightarrow> bool \<Rightarrow> string list lm" where
  "expandCopyFiles ev src mustExist =
    (if contains2 CHR ''*'' src then failL (LPlain ''globstar (**) not supported'')
     else if CHR ''*'' \<in> set src then
       (case le_Glob ev src of
          Inl e \<Rightarrow> failL (LFmt (LPlain e) ''unable to expand glob pattern'')
        | Inr matches \<Rightarrow> liftR (expandDirs ev (le_dirFuel ev) matches))
     else case le_Stat ev src of
       Inl e \<Rightarrow> if e = NotExist \<and> \<not> mustExist then retR [src] else failL (LFmt (LOS e) ''failed to stat file'')
     | Inr stat \<Rightarrow> if fi_IsDir stat then liftR (expandDirs ev (le_dirFuel ev) [src]) else retR [src])"

text \<open>\<open>HashFile\<close> writes the name and the size before it opens the file.\<close>

definition HashFile :: "lenv \<Rightarrow> string \<Rightarrow> hasher \<Rightarrow> (os_error + unit) \<times> hasher" where
  "HashFile ev src h =
    (case le_Stat ev src of
       Inl e \<Rightarrow> (Inl e, h)
     | Inr stat \<Rightarrow>
         let h = HashString (''name: '' @ fi_Name stat @ '';'') h;
             h = HashString (''size: '' @ Itoa (fi_Size stat) @ '';'') h
         in case le_ReadFile ev src of Inl e \<Rightarrow> (Inl e, h) | Inr content \<Rightarrow> (Inr (), h @ content))"

definition hashFileL :: "lenv \<Rightarrow> string \<Rightarrow> (os_error + unit) lm" where
  "hashFileL ev file l = (case HashFile ev file (ld_hasher l) of (r, h) \<Rightarrow> (Inr r, l\<lparr>ld_hasher := h\<rparr>))"

section \<open>Targets\<close>

text \<open>\<open>^[0-9a-f]{40}$\<close>\<close>

definition sha1RE :: "string \<Rightarrow> bool" where
  "sha1RE s \<longleftrightarrow> length s = 40 \<and> list_all (\<lambda>c. is_digit c \<or> (CHR ''a'' \<le> c \<and> c \<le> CHR ''f'')) s"

definition supportedRemoteTarget :: "Target_ref \<Rightarrow> bool" where
  "supportedRemoteTarget t \<longleftrightarrow> prefix ''tags/'' (t_Tag t) \<or> sha1RE (t_Tag t)"

definition hex_digit :: "nat \<Rightarrow> char" where
  "hex_digit d = (if d < 10 then digit_char d else char_of (87 + d))"

definition hexEncode :: "string \<Rightarrow> string" where
  "hexEncode bs = concat (map (\<lambda>c. [hex_digit (of_char c div 16), hex_digit (of_char c mod 16)]) bs)"

definition derefedTarget :: "lenv \<Rightarrow> string \<Rightarrow> Target_ref lm" where
  "derefedTarget ev targetName =
    bindR (fmtErrorL ''failed to parse target %s: %w'' (resL LRef (ParseTarget (le_home ev) targetName))) (\<lambda>target.
    bindR (collL (\<lambda>c. map_option (\<lambda>i. (i, c)) (Coll_Imports c))) (\<lambda>imports.
    bindR (fmtErrorL ''failed to deref target %s: %w'' (resL LRef (Deref (le_home ev) imports (RefTarget target)))) (\<lambda>(derefed, _).
    bindR (collL (\<lambda>c. map_option (\<lambda>r. (r, c)) (AbsRef c))) (\<lambda>absRef.
    bindR (fmtErrorL ''failed to join %s and %s: %w'' (resL LRef (JoinReferences absRef derefed))) (\<lambda>targetRef.
    case targetRef of
      RefTarget t \<Rightarrow> retR t
    | RefCommand _ \<Rightarrow> failL (LPlain ''want domain.Target, got %T''))))))"

text \<open>The loaders of blocks and of targets.\<close>

record lrec =
  lr_block :: "Block \<Rightarrow> unit lm"
  lr_load :: "string lm"

definition forTarget :: "lenv \<Rightarrow> Target_ref \<Rightarrow> string list \<Rightarrow> bool \<Rightarrow> loader lm" where
  "forTarget ev target args passArgs =
    bindR (resL LFlag (ParseFlagArgs args)) (\<lambda>flagArgs.
    bindR (resL LVar (ParseCommandLineArgs (le_environ ev) flagArgs)) (\<lambda>overriding.
    readR (\<lambda>l. l) (\<lambda>l.
    bindR (if passArgs then
        (case ld_overridingVars l of
           None \<Rightarrow> panicL ''nil pointer dereference''
         | Some own \<Rightarrow> retR (CombineScopes [overriding, own]))
      else retR overriding) (\<lambda>overriding.
    bindR (if IsLocalInternal (RefTarget target) then
        bindR (collL (\<lambda>c. map_option (\<lambda>i. (i, c)) (Coll_Imports c))) (\<lambda>i. retR (ir_global i))
      else retR Map.empty) (\<lambda>globalImports.
    retR \<lparr>ld_varCollection = None, ld_features = None, ld_hashCache = ld_hashCache l, ld_stats = ld_stats l,
      ld_globalImports = globalImports, ld_hasher = New_hasher,
      ld_visited = referenceString (RefTarget target) # ld_visited l, ld_overridingVars = Some overriding,
      ld_target = target, ld_builtinArgs = ld_builtinArgs l,
      ld_baseProcessed = IsLocalInternal (RefTarget target), ld_ci = ld_ci l, ld_primaryTarget = False\<rparr>)))))"

text \<open>\<open>newLoader.load(ctx)\<close>: the new loader has the cache and the counters of its maker.\<close>

definition callLoad :: "lrec \<Rightarrow> loader \<Rightarrow> string lm" where
  "callLoad rc child l =
    (case lr_load rc child of (r, child') \<Rightarrow>
       (r, l\<lparr>ld_hashCache := ld_hashCache child', ld_stats := ld_stats child'\<rparr>))"

definition loadTargetFromString :: "lenv \<Rightarrow> lrec \<Rightarrow> string \<Rightarrow> string list \<Rightarrow> bool \<Rightarrow> Loc \<Rightarrow> unit lm" where
  "loadTargetFromString ev rc targetName args passArgs sl =
    bindR (wrapErrorL sl ''failed to expand args'' (loader_expandArgs ev targetName)) (\<lambda>targetName.
    bindR (wrapErrorL sl ''failed to expand args'' (loader_expandArgsSlice ev args)) (\<lambda>args.
    if containsShellExpr targetName then newErrorL sl ''dynamic target %q cannot be resolved''
    else
    bindR (addErrorSrc sl (derefedTarget ev targetName)) (\<lambda>target.
    if IsRemote (RefTarget target) then
      if supportedRemoteTarget target then hashL (HashString (referenceStringCanonical (RefTarget target)))
      else failL (LWrap ErrInvalidRemoteTarget sl [])
    else
    let fullTargetName = referenceString (RefTarget target) in
    if fullTargetName = [] then newErrorL sl ''missing target string''
    else
    readR ld_visited (\<lambda>visited.
    if fullTargetName \<in> set visited then newErrorL sl ''circular dependency detected; %s already called''
    else
    bindR (wrapErrorL sl ''failed to create loader for target %q'' (forTarget ev target args passArgs)) (\<lambda>newLoader.
    bindR (callLoad rc newLoader) (\<lambda>hash.
    hashL (HashBytes hash)))))))"

section \<open>Commands\<close>

definition loader_handleFrom :: "lenv \<Rightarrow> lrec \<Rightarrow> Command \<Rightarrow> unit lm" where
  "loader_handleFrom ev rc cmd =
    bindR (parseL (gf_From (le_goflags ev)) zero_From (cmd_Args cmd)) (\<lambda>(opts, args).
    case args of
      [] \<Rightarrow> panicL ''index out of range''
    | fromTarget # args \<Rightarrow>
        if CHR ''+'' \<notin> set fromTarget then retR ()
        else loadTargetFromString ev rc fromTarget args False (cmd_SourceLocation cmd))"

definition loader_handleBuild :: "lenv \<Rightarrow> lrec \<Rightarrow> Command \<Rightarrow> unit lm" where
  "loader_handleBuild ev rc cmd =
    bindR (parseL (gf_Build (le_goflags ev)) zero_Build (cmd_Args cmd)) (\<lambda>(opts, args).
    case args of
      [] \<Rightarrow> newErrorL (cmd_SourceLocation cmd) ''missing BUILD arg''
    | targetName # _ \<Rightarrow>
        forR (BuildArgMatrix (le_grow ev) args) (\<lambda>row.
        case row of
          [] \<Rightarrow> panicL ''slice bounds out of range''
        | _ # args \<Rightarrow> loadTargetFromString ev rc targetName args (build_PassArgs opts) (cmd_SourceLocation cmd)))"

text \<open>A file of a COPY whose name could not be read is passed over when it need not exist.\<close>

definition hashCopyFile :: "lenv \<Rightarrow> Loc \<Rightarrow> bool \<Rightarrow> string \<Rightarrow> unit lm" where
  "hashCopyFile ev sl mustExist file =
    bindR (hashFileL ev file) (\<lambda>r.
    case r of
      Inl e \<Rightarrow> if e = NotExist \<and> \<not> mustExist then retR () else failL (LWrap (LOS e) sl ''failed to hash file %s'')
    | Inr _ \<Rightarrow> retR ())"

definition copyClassicalSrc :: "lenv \<Rightarrow> Loc \<Rightarrow> string \<Rightarrow> bool \<Rightarrow> unit lm" where
  "copyClassicalSrc ev sl src mustExist =
    bindR (wrapErrorL sl ''failed to expand args'' (loader_expandArgs ev src)) (\<lambda>src.
    if containsShellExpr src then newErrorL sl ''dynamic COPY source %q cannot be resolved''
    else
    readR ld_target (\<lambda>target.
    bindR (addErrorSrc sl (expandCopyFiles ev (path_Join (t_LocalPath target) src) mustExist)) (\<lambda>files.
    forR (sort files) (hashCopyFile ev sl mustExist))))"

definition copyArtifactSrc :: "lenv \<Rightarrow> lrec \<Rightarrow> Loc \<Rightarrow> Artifact \<Rightarrow> string list \<Rightarrow> unit lm" where
  "copyArtifactSrc ev rc sl artifactSrc extraArgs =
    bindR (wrapErrorL sl ''failed to expand args'' (loader_expandArgsSlice ev extraArgs)) (\<lambda>extraArgs.
    loadTargetFromString ev rc (referenceString (RefTarget (a_Target artifactSrc))) extraArgs False sl)"

definition handleCopySrc :: "lenv \<Rightarrow> lrec \<Rightarrow> Command \<Rightarrow> string \<Rightarrow> bool \<Rightarrow> unit lm" where
  "handleCopySrc ev rc cmd src mustExist = (let sl = cmd_SourceLocation cmd in
    if IsInParamsForm src then
      bindR (wrapErrorL sl ''failed to parse COPY params'' (resL LFlagutil (ParseParams src))) (\<lambda>(artifactName, extraArgs).
      bindR (wrapErrorL sl ''failed to expand COPY artifact'' (loader_expandArgs ev artifactName)) (\<lambda>expandedArtifact.
      bindR (wrapErrorL sl ''failed to parse artifact'' (resL LRef (ParseArtifact (le_home ev) expandedArtifact))) (\<lambda>artifactSrc.
      copyArtifactSrc ev rc sl artifactSrc extraArgs)))
    else
      bindR (wrapErrorL sl ''failed to expand COPY artifact'' (loader_expandArgs ev src)) (\<lambda>expandedSrc.
      case ParseArtifact (le_home ev) expandedSrc of
        Inr artifactSrc \<Rightarrow> copyArtifactSrc ev rc sl artifactSrc []
      | Inl _ \<Rightarrow> copyClassicalSrc ev sl src mustExist))"

definition loader_handleCopy :: "lenv \<Rightarrow> lrec \<Rightarrow> Command \<Rightarrow> unit lm" where
  "loader_handleCopy ev rc cmd =
    bindR (parseL (gf_Copy (le_goflags ev)) zero_Copy (cmd_Args cmd)) (\<lambda>(opts, args).
    if copy_From opts \<noteq> [] then newErrorL (cmd_SourceLocation cmd) ''COPY --from is not supported''
    else if length args < 2 then newErrorL (cmd_SourceLocation cmd) ''COPY must include a source and destination''
    else forR (butlast args) (\<lambda>src. handleCopySrc ev rc cmd src (\<not> copy_IfExists opts)))"

definition loader_handleImport :: "lenv \<Rightarrow> Command \<Rightarrow> bool \<Rightarrow> unit lm" where
  "loader_handleImport ev cmd isBase =
    (case cmd_Args cmd of
       [] \<Rightarrow> panicL ''index out of range''
     | importStr # _ \<Rightarrow>
         let alias = (if length (cmd_Args cmd) = 3 then cmd_Args cmd ! 2 else []) in
         bindR (collL (\<lambda>c.
           Option.bind (topFrame c) (\<lambda>f.
           case Import_Add (le_home ev) (sf_imports f) importStr alias isBase False False of (imports, err) \<Rightarrow>
           map_option (\<lambda>c'. (err, c')) (updFrame (\<lambda>f. f\<lparr>sf_imports := imports\<rparr>) c)))) (\<lambda>err.
         case err of
           None \<Rightarrow> retR ()
         | Some e \<Rightarrow> failL (LWrap (LRef e) (cmd_SourceLocation cmd) ''failed to add import'')))"

definition loader_handleFromDockerfile :: "lenv \<Rightarrow> lrec \<Rightarrow> Command \<Rightarrow> unit lm" where
  "loader_handleFromDockerfile ev rc cmd =
    bindR (wrapErrorL (cmd_SourceLocation cmd) ''failed to parse args''
      (parseL (gf_FromDockerfile (le_goflags ev)) zero_FromDockerfile (cmd_Args cmd))) (\<lambda>(opts, args).
    bindR (if fdf_Path opts \<noteq> [] then handleCopySrc ev rc cmd (fdf_Path opts) False else retR ()) (\<lambda>_.
    case args of [] \<Rightarrow> retR () | arg # _ \<Rightarrow> handleCopySrc ev rc cmd arg False))"

definition declareL :: "Loc \<Rightarrow> string \<Rightarrow> (declarePrefs \<Rightarrow> declarePrefs) list \<Rightarrow> unit lm" where
  "declareL sl key opts =
    bindR (collL (\<lambda>c. DeclareVar c key opts)) (\<lambda>r.
    bindR (wrapErrorL sl ''failed to declare variable'' (resL LVar r)) (\<lambda>_. retR ()))"

definition loader_handleArg :: "lenv \<Rightarrow> Command \<Rightarrow> bool \<Rightarrow> unit lm" where
  "loader_handleArg ev cmd isBase = (let sl = cmd_SourceLocation cmd in
    readR ld_features (\<lambda>ftrs.
    case ftrs of
      None \<Rightarrow> panicL ''nil pointer dereference''
    | Some ftrs \<Rightarrow>
    bindR (wrapErrorL sl ''failed to parse args''
      (resL LFlagutil (ParseArgArgs (gf_Arg (le_goflags ev)) cmd isBase (fe_on ftrs ''explicit-global'')))) (\<lambda>(opts, key, valueOrNil).
    bindR (case valueOrNil of
        None \<Rightarrow> retR ([], [])
      | Some v \<Rightarrow> bindR (wrapErrorL sl ''failed to expand args'' (loader_expandArgs ev v)) (\<lambda>expanded.
          retR (expanded, [WithValue expanded]))) (\<lambda>(expanded, valueOpt).
    bindR (hashL (HashString (''ARG '' @ key @ ''='' @ expanded))) (\<lambda>_.
    declareL sl key (AsArg # valueOpt @ (if arg_Global opts then [AsGlobal] else [])))))))"

definition loader_handleLet :: "lenv \<Rightarrow> Command \<Rightarrow> unit lm" where
  "loader_handleLet ev cmd = (let sl = cmd_SourceLocation cmd in
    bindR (wrapErrorL sl ''failed to parse LET args'' (parseL (gf_Let (le_goflags ev)) () (cmd_Args cmd))) (\<lambda>(_, args).
    if length args \<noteq> 3 then newErrorL sl ''failed to parse LET args''
    else
    bindR (wrapErrorL sl ''failed to expand LET value %q'' (loader_expandArgs ev (args ! 2))) (\<lambda>val.
    bindR (hashL (HashString (''LET '' @ args ! 0 @ ''='' @ val))) (\<lambda>_.
    declareL sl (args ! 0) [WithValue val]))))"

definition loader_handleSet :: "lenv \<Rightarrow> Command \<Rightarrow> unit lm" where
  "loader_handleSet ev cmd = (let sl = cmd_SourceLocation cmd in
    bindR (wrapErrorL sl ''failed to parse SET args'' (parseL (gf_Set (le_goflags ev)) () (cmd_Args cmd))) (\<lambda>(_, args).
    if length args \<noteq> 3 then newErrorL sl ''failed to parse SET args''
    else
    bindR (wrapErrorL sl ''failed to expand SET value %q'' (loader_expandArgs ev (args ! 2))) (\<lambda>val.
    bindR (hashL (HashString (''SET '' @ args ! 0 @ ''='' @ val))) (\<lambda>_.
    bindR (collL (\<lambda>c. UpdateVar c (args ! 0) val None)) (\<lambda>err.
    case err of
      None \<Rightarrow> retR ()
    | Some e \<Rightarrow> failL (LWrap (LVar e) sl ''failed to declare variable''))))))"

definition loader_handleCommand :: "lenv \<Rightarrow> lrec \<Rightarrow> Command \<Rightarrow> unit lm" where
  "loader_handleCommand ev rc cmd =
    bindR (hashL (hashCommand (le_json ev) cmd)) (\<lambda>_.
    if cmd_Name cmd = CmdFrom then loader_handleFrom ev rc cmd
    else if cmd_Name cmd = CmdBuild then loader_handleBuild ev rc cmd
    else if cmd_Name cmd = CmdCopy then loader_handleCopy ev rc cmd
    else if cmd_Name cmd = CmdArg then loader_handleArg ev cmd False
    else if cmd_Name cmd = CmdLet then loader_handleLet ev cmd
    else if cmd_Name cmd = CmdSet then loader_handleSet ev cmd
    else if cmd_Name cmd = CmdFromDockerfile then loader_handleFromDockerfile ev rc cmd
    else if cmd_Name cmd = CmdImport then loader_handleImport ev cmd False
    else retR ())"

section \<open>Statements\<close>

definition loader_handleWithDocker :: "lenv \<Rightarrow> lrec \<Rightarrow> Command \<Rightarrow> unit lm" where
  "loader_handleWithDocker ev rc cmd = (let sl = cmd_SourceLocation cmd in
    bindR (wrapErrorL sl ''failed to expand args'' (loader_expandArgsSlice ev (cmd_Args cmd))) (\<lambda>args.
    bindR (hashL (hashCommand (le_json ev) (cmd\<lparr>cmd_Args := args\<rparr>))) (\<lambda>_.
    bindR (onErrR (on_lerr (\<lambda>_. LMsg sl ''failed to parse WITH DOCKER flags''))
      (parseL (gf_WithDocker (le_goflags ev)) zero_WithDocker args)) (\<lambda>(opts, _).
    forR (wdo_Loads opts) (\<lambda>load.
    bindR (wrapErrorL sl ''failed to parse --load value'' (resL LFlagutil (ParseLoad load))) (\<lambda>(_, target, extraArgs).
    loadTargetFromString ev rc target extraArgs False sl))))))"

definition loader_handleWith :: "lenv \<Rightarrow> lrec \<Rightarrow> Command \<Rightarrow> Block \<Rightarrow> unit lm" where
  "loader_handleWith ev rc cmd body =
    (if cmd_Name cmd \<noteq> CmdDocker then newErrorL (cmd_SourceLocation cmd) ''expected WITH DOCKER''
     else bindR (loader_handleWithDocker ev rc cmd) (\<lambda>_. lr_block rc body))"

definition expandAndEval :: "lenv \<Rightarrow> string list \<Rightarrow> bool lm" where
  "expandAndEval ev expr =
    bindR (loader_expandArgsSlice ev expr) (\<lambda>expr.
    case evalConditions expr of None \<Rightarrow> failL ErrComplexCondition | Some result \<Rightarrow> retR result)"

fun elseIfEval :: "lenv \<Rightarrow> lrec \<Rightarrow> ElseIfStatement list \<Rightarrow> Block option \<Rightarrow> unit lm" where
  "elseIfEval ev rc [] elseBody = (case elseBody of None \<Rightarrow> retR () | Some b \<Rightarrow> lr_block rc b)"
| "elseIfEval ev rc (ElseIfStatement _ expr _ body # eis) elseBody =
    bindR (expandAndEval ev expr) (\<lambda>result.
    if result then lr_block rc body else elseIfEval ev rc eis elseBody)"

definition handleIfEval :: "lenv \<Rightarrow> lrec \<Rightarrow> string list \<Rightarrow> Block \<Rightarrow> ElseIfStatement list \<Rightarrow> Block option \<Rightarrow> unit lm" where
  "handleIfEval ev rc expr ifBody elseIf elseBody =
    bindR (expandAndEval ev expr) (\<lambda>result.
    if result then lr_block rc ifBody else elseIfEval ev rc elseIf elseBody)"

definition handleIfDefault :: "lenv \<Rightarrow> lrec \<Rightarrow> Block \<Rightarrow> ElseIfStatement list \<Rightarrow> Block option \<Rightarrow> unit lm" where
  "handleIfDefault ev rc ifBody elseIf elseBody =
    bindR (lr_block rc ifBody) (\<lambda>_.
    bindR (forR elseIf (\<lambda>ei. case ei of ElseIfStatement _ expr execMode body \<Rightarrow>
      bindR (hashL (hashElseIf (le_json ev) expr execMode body)) (\<lambda>_. lr_block rc body))) (\<lambda>_.
    case elseBody of None \<Rightarrow> retR () | Some b \<Rightarrow> lr_block rc b))"

definition loader_handleIf ::
  "lenv \<Rightarrow> lrec \<Rightarrow> string list \<Rightarrow> bool \<Rightarrow> Block \<Rightarrow> ElseIfStatement list \<Rightarrow> Block option \<Rightarrow> unit lm" where
  "loader_handleIf ev rc expr execMode ifBody elseIf elseBody =
    bindR (hashL (hashIfStatement (le_json ev) expr execMode ifBody elseIf elseBody)) (\<lambda>_.
    bindR (tryR (handleIfEval ev rc expr ifBody elseIf elseBody)) (\<lambda>err.
    case err of
      Inr _ \<Rightarrow> retR ()
    | Inl a \<Rightarrow> (case a of
          LErr e \<Rightarrow> if Is_ComplexCondition e then handleIfDefault ev rc ifBody elseIf elseBody else failR a
        | _ \<Rightarrow> failR a)))"

definition flattenForArgs :: "string list \<Rightarrow> string \<Rightarrow> string list" where
  "flattenForArgs args seps =
    (let sep = (\<lambda>r. r \<in> fst ` set (runes seps)) in
     concat (map (\<lambda>arg. if list_ex (\<lambda>r. sep (fst r)) (runes arg) then FieldsFunc arg sep else [arg]) (drop 2 args)))"

definition loader_handleFor :: "lenv \<Rightarrow> lrec \<Rightarrow> string list \<Rightarrow> Block \<Rightarrow> unit lm" where
  "loader_handleFor ev rc forArgs body =
    bindR (hashL (hashForStatement (le_json ev) forArgs)) (\<lambda>_.
    bindR (fmtErrorL ''failed to parse FOR args: %w'' (parseL (gf_For (le_goflags ev)) NewFor forArgs)) (\<lambda>(opts, args).
    bindR (loader_expandArgsSlice ev args) (\<lambda>expandedArgs.
    case expandedArgs of
      [] \<Rightarrow> panicL ''index out of range''
    | name # _ \<Rightarrow>
        let vals = flattenForArgs expandedArgs (for_Separators opts) in
        bindR (hashL (HashInt (int (length vals)))) (\<lambda>_.
        forR vals (\<lambda>val.
        bindR (hashL (HashString (''FOR '' @ name @ ''='' @ val))) (\<lambda>_.
        bindR (collL (\<lambda>c. map_option (\<lambda>c. ((), c)) (SetArg c name val))) (\<lambda>_.
        bindR (lr_block rc body) (\<lambda>_.
        collL (\<lambda>c. map_option (\<lambda>c. ((), c)) (UnsetArg c name))))))))))"

definition loader_handleWait :: "lenv \<Rightarrow> lrec \<Rightarrow> string list \<Rightarrow> Block \<Rightarrow> unit lm" where
  "loader_handleWait ev rc args body =
    bindR (hashL (hashWaitStatement (le_json ev) args body)) (\<lambda>_. lr_block rc body)"

definition loader_handleTry :: "lrec \<Rightarrow> Block \<Rightarrow> Block option \<Rightarrow> Block option \<Rightarrow> unit lm" where
  "loader_handleTry rc tryBody catchBody finallyBody =
    bindR (hashL hashTryStatement) (\<lambda>_.
    bindR (lr_block rc tryBody) (\<lambda>_.
    bindR (case catchBody of None \<Rightarrow> retR () | Some b \<Rightarrow> lr_block rc b) (\<lambda>_.
    case finallyBody of None \<Rightarrow> retR () | Some b \<Rightarrow> lr_block rc b)))"

definition loader_handleStatement :: "lenv \<Rightarrow> lrec \<Rightarrow> Statement \<Rightarrow> unit lm" where
  "loader_handleStatement ev rc stmt =
    (case stmt of Statement _ k \<Rightarrow> (case k of
       KCommand cmd \<Rightarrow> loader_handleCommand ev rc cmd
     | KWith _ body command \<Rightarrow> loader_handleWith ev rc command body
     | KIf _ expr execMode ifBody elseIf elseBody \<Rightarrow> loader_handleIf ev rc expr execMode ifBody elseIf elseBody
     | KFor _ args body \<Rightarrow> loader_handleFor ev rc args body
     | KWait _ args body \<Rightarrow> loader_handleWait ev rc args body
     | KTry _ tryBody catchBody finallyBody \<Rightarrow> loader_handleTry rc tryBody catchBody finallyBody))"

definition handleStatements :: "lenv \<Rightarrow> lrec \<Rightarrow> Block \<Rightarrow> unit lm" where
  "handleStatements ev rc stmts =
    bindR (hashL (HashInt (int (length stmts)))) (\<lambda>_. forR stmts (loader_handleStatement ev rc))"

section \<open>Loading\<close>

definition hashOverriding :: "Scope option \<Rightarrow> hasher \<Rightarrow> hasher" where
  "hashOverriding vars h =
    (case vars of None \<Rightarrow> h | Some s \<Rightarrow> foldl (\<lambda>h val. HashString (''VAR '' @ val) h) h (BuildArgs s False))"

definition targetCacheKey :: "lenv \<Rightarrow> loader \<Rightarrow> string" where
  "targetCacheKey ev l =
    hexEncode (GetHash (le_sha1 ev)
      (hashOverriding (ld_overridingVars l) (HashString (referenceStringCanonical (RefTarget (ld_target l))) New_hasher)))"

definition countL :: "(Stats \<Rightarrow> Stats) \<Rightarrow> unit lm" where
  "countL f = modR (\<lambda>l. l\<lparr>ld_stats := f (ld_stats l)\<rparr>)"

definition baseStatement :: "lenv \<Rightarrow> lrec \<Rightarrow> Statement \<Rightarrow> unit lm" where
  "baseStatement ev rc stmt =
    (case stmt of Statement _ k \<Rightarrow> (case k of
       KCommand cmd \<Rightarrow>
         if cmd_Name cmd = CmdImport then loader_handleImport ev cmd True
         else if cmd_Name cmd = CmdArg then loader_handleArg ev cmd True
         else if cmd_Name cmd = CmdFrom then loader_handleFrom ev rc cmd
         else retR ()
     | _ \<Rightarrow> retR ()))"

text \<open>The recipe of a target. A recipe without statements is the \<open>nil\<close> slice.\<close>

definition targetRecipe :: "Tree \<Rightarrow> string \<Rightarrow> Block option" where
  "targetRecipe ef name =
    (case find (\<lambda>t. tgt_Name t = name) (tree_Targets ef) of
       None \<Rightarrow> None
     | Some t \<Rightarrow> if tgt_Recipe t = [] then None else Some (tgt_Recipe t))"

definition loadRecipe :: "lenv \<Rightarrow> lrec \<Rightarrow> Tree \<Rightarrow> unit lm" where
  "loadRecipe ev rc ef =
    bindR (hashL (case tree_Version ef of None \<Rightarrow> (\<lambda>h. h) | Some v \<Rightarrow> hashVersion (le_json ev) v)) (\<lambda>_.
    readR ld_baseProcessed (\<lambda>baseProcessed.
    bindR (if baseProcessed then retR () else forR (tree_BaseRecipe ef) (baseStatement ev rc)) (\<lambda>_.
    readR ld_target (\<lambda>target.
    if t_Target target = ''base'' then retR ()
    else case targetRecipe ef (t_Target target) of
      None \<Rightarrow> failL (LPlain ''target %q not found'')
    | Some block \<Rightarrow> lr_block rc block))))"

text \<open>The part of \<open>load\<close> after the Earthfile has been resolved.\<close>

definition loadResolved :: "lenv \<Rightarrow> lrec \<Rightarrow> loader \<Rightarrow> string \<Rightarrow> BuildContext \<Rightarrow> string lm" where
  "loadResolved ev rc l cacheKey buildCtx =
    (let coll = NewCollection (le_Normalize ev) (le_Format ev)
          \<lparr>no_PlatformResolver = None, no_GitMeta = bc_GitMetadata buildCtx, no_OverridingVars = ld_overridingVars l,
           no_Features = bc_Features buildCtx, no_GlobalImports = ld_globalImports l, no_Log = [],
           no_Target = ld_target l, no_BuiltinArgs = ld_builtinArgs l, no_Push = False, no_CI = ld_ci l\<rparr>
    in
    bindR (modR (\<lambda>l. l\<lparr>ld_features := Some (bc_Features buildCtx), ld_varCollection := Some coll\<rparr>)) (\<lambda>_.
    bindR (hashL (hashOverriding (ld_overridingVars l))) (\<lambda>_.
    bindR (loadRecipe ev rc (bc_Earthfile buildCtx)) (\<lambda>_.
    readR ld_hasher (\<lambda>h.
    let v = GetHash (le_sha1 ev) h in
    bindR (modR (\<lambda>l. l\<lparr>ld_hashCache := (ld_hashCache l)(cacheKey \<mapsto> v)\<rparr>)) (\<lambda>_.
    bindR (countL (\<lambda>s. s\<lparr>st_TargetsHashed := st_TargetsHashed s + 1\<rparr>)) (\<lambda>_.
    retR v)))))))"

definition loader_load :: "lenv \<Rightarrow> lrec \<Rightarrow> string lm" where
  "loader_load ev rc =
    readR (\<lambda>l. l) (\<lambda>l.
    if IsRemote (RefTarget (ld_target l)) then failL ErrCannotLoadRemoteTarget
    else
    bindR (countL (\<lambda>s. s\<lparr>st_TargetsVisited := st_TargetsVisited s + 1\<rparr>)) (\<lambda>_.
    case ld_hashCache l (targetCacheKey ev l) of
      Some b \<Rightarrow> bindR (countL (\<lambda>s. s\<lparr>st_TargetCacheHits := st_TargetCacheHits s + 1\<rparr>)) (\<lambda>_. retR b)
    | None \<Rightarrow>
        bindR (resL LResolve (le_resolve ev (ld_target l))) (loadResolved ev rc l (targetCacheKey ev l))))"

primrec lrun :: "lenv \<Rightarrow> nat \<Rightarrow> lrec" where
  "lrun ev 0 = \<lparr>lr_block = (\<lambda>_. failR LNoFuel), lr_load = failR LNoFuel\<rparr>"
| "lrun ev (Suc n) = \<lparr>lr_block = handleStatements ev (lrun ev n), lr_load = loader_load ev (lrun ev n)\<rparr>"

section \<open>The hash of a target\<close>

record HashOpt =
  ho_OverridingVars :: "Scope option"
  ho_Target :: Target_ref
  ho_BuiltinArgs :: DefaultArgs
  ho_CI :: bool

definition zero_Stats :: Stats where
  "zero_Stats = \<lparr>st_TargetsHashed = 0, st_TargetCacheHits = 0, st_TargetsVisited = 0\<rparr>"

definition newLoader :: "lenv \<Rightarrow> HashOpt \<Rightarrow> loader" where
  "newLoader ev opt =
    \<lparr>ld_varCollection = None, ld_features = None, ld_hashCache = Map.empty, ld_stats = zero_Stats,
     ld_globalImports = Map.empty, ld_hasher = HashJSONMarshalled (le_jsonArgs ev) (ho_BuiltinArgs opt) New_hasher,
     ld_visited = [], ld_overridingVars = ho_OverridingVars opt, ld_target = ho_Target opt,
     ld_builtinArgs = ho_BuiltinArgs opt, ld_baseProcessed = False, ld_ci = ho_CI opt, ld_primaryTarget = True\<rparr>"

definition HashTarget :: "lenv \<Rightarrow> nat \<Rightarrow> HashOpt \<Rightarrow> labort + (string \<times> Stats)" where
  "HashTarget ev n opt =
    (if IsRemote (RefTarget (ho_Target opt)) then
       if supportedRemoteTarget (ho_Target opt) then
         Inr (GetHash (le_sha1 ev) (HashString (referenceStringCanonical (RefTarget (ho_Target opt))) New_hasher), zero_Stats)
       else Inl (LErr ErrInvalidRemoteTarget)
     else case lr_load (lrun ev n) (newLoader ev opt) of
       (Inl e, _) \<Rightarrow> Inl e
     | (Inr b, l) \<Rightarrow> Inr (b, ld_stats l))"

text \<open>\<open>ParseProjectCommand\<close> on the base recipe of the resolved Earthfile.\<close>

definition ParseProjectCommand :: "lenv \<Rightarrow> Target_ref \<Rightarrow> lerror + (string \<times> string)" where
  "ParseProjectCommand ev target =
    (if IsRemote (RefTarget target) then Inl ErrCannotLoadRemoteTarget
     else case le_resolve ev target of
       Inl e \<Rightarrow> Inl (LResolve e)
     | Inr buildCtx \<Rightarrow>
         (case find (\<lambda>c. cmd_Name c = CmdProject)
             (List.map_filter (\<lambda>s. case s of Statement _ (KCommand c) \<Rightarrow> Some c | _ \<Rightarrow> None) (tree_BaseRecipe (bc_Earthfile buildCtx))) of
            None \<Rightarrow> Inl (LPlain ''PROJECT command is required for remote storage'')
          | Some cmd \<Rightarrow>
              (case cmd_Args cmd of
                 [arg] \<Rightarrow> (case Split arg CHR ''/'' of
                     [org, project] \<Rightarrow> Inr (org, project)
                   | _ \<Rightarrow> Inl (LPlain ''failed to parse PROJECT command''))
               | _ \<Rightarrow> Inl (LPlain ''failed to parse PROJECT command''))))"

end
