(* ===== verification/Input_Correct.thy ===== *)
theory Input_Correct
  imports Input_Graph Result_Errs
begin

text \<open>
  What the hash of a target depends on: the conditions the loader decides, the end of the walk
  over the graph of targets, and the statements that reach the hasher.
\<close>

section \<open>Conditions\<close>

text \<open>The words of a condition between brackets.\<close>

definition cond_words :: "string list \<Rightarrow> bool" where
  "cond_words ws \<longleftrightarrow> list_all (\<lambda>w. w \<notin> {''['', '']'', ''[['', '']]'', ''&&''} \<and> CHR '' '' \<notin> set w \<and> CHR ''|'' \<notin> set w) ws"

definition brackets :: "string list \<Rightarrow> string list" where
  "brackets ws = ''['' # ws @ ['']'']"

lemma partsLoop_words:
  "cond_words ws \<Longrightarrow> partsLoop (ws @ vs) cur result inExpr = partsLoop vs (cur @ ws) result inExpr"
  by (induction ws arbitrary: cur) (auto simp: cond_words_def)

lemma partsLoop_brackets:
  assumes "cond_words ws"
  shows "partsLoop (brackets ws @ vs) cur result inExpr =
    (case evalCondition ws of None \<Rightarrow> None | Some r \<Rightarrow> partsLoop vs (map trimQuote ws) r True)"
  using partsLoop_words [OF assms, of "'']'' # vs"] by (simp add: brackets_def split: option.split)

lemma Split_single: "c \<notin> set w \<Longrightarrow> Split w c = [w]"
  by (induction w) auto

lemma Split_cons: "c \<notin> set w \<Longrightarrow> Split (w @ c # s) c = w # Split s c"
  by (induction w) auto

lemma Split_joined:
  "ws \<noteq> [] \<Longrightarrow> list_all (\<lambda>w. c \<notin> set w) ws \<Longrightarrow> Split (Join ws [c]) c = ws"
  by (induction ws "[c]" rule: Join.induct) (simp_all add: Split_single Split_cons)

lemma SplitOr_no: "CHR ''|'' \<notin> set s \<Longrightarrow> SplitOr s = [s]"
  by (induction s rule: SplitOr.induct) auto

lemma SplitOr_cons: "CHR ''|'' \<notin> set g \<Longrightarrow> SplitOr (g @ ''||'' @ s) = g # SplitOr s"
proof (induction g)
  case (Cons x g)
  then have IH: "SplitOr (g @ ''||'' @ s) = g # SplitOr s" and x: "x \<noteq> CHR ''|''" by auto
  show ?case
  proof (cases "g @ ''||'' @ s")
    case (Cons y t)
    then show ?thesis using IH x by simp
  qed simp
qed simp

lemma set_Join: "set (Join ws sep) \<subseteq> (\<Union>w \<in> set ws. set w) \<union> set sep"
  by (induction ws sep rule: Join.induct) auto

lemma Join_no_bar: "list_all (\<lambda>w. CHR ''|'' \<notin> set w) ws \<Longrightarrow> CHR ''|'' \<notin> set (Join ws '' '')"
  using set_Join [of ws "'' ''"] by (auto simp: list_all_iff)

lemma cond_words_chars: "cond_words ws \<Longrightarrow> list_all (\<lambda>w. CHR '' '' \<notin> set w) ws" "cond_words ws \<Longrightarrow> list_all (\<lambda>w. CHR ''|'' \<notin> set w) ws"
  by (auto simp: cond_words_def list_all_iff)

text \<open>
  C10. A conjunction is decided by its last part: \<open>[ a ] && [ b ]\<close> has the value of \<open>[ b ]\<close> whatever
  \<open>a\<close> is, since the loop over the words goes on after the recursive call for the words behind \<open>&&\<close>
  and overwrites the result. So \<open>[ false ] && [ true ]\<close> counts as true.
\<close>

theorem evalConditions_last_conjunct:
  assumes "cond_words a" "cond_words b" "evalCondition a = Some x" "evalCondition b = Some y"
  shows "evalConditions (brackets a @ ''&&'' # brackets b) = Some y"
proof -
  let ?ws = "brackets a @ ''&&'' # brackets b"
  have sp: "list_all (\<lambda>w. CHR '' '' \<notin> set w) (brackets b)" "list_all (\<lambda>w. CHR '' '' \<notin> set w) ?ws"
    "list_all (\<lambda>w. CHR ''|'' \<notin> set w) (brackets b)" "list_all (\<lambda>w. CHR ''|'' \<notin> set w) ?ws"
    using assms(1,2) [THEN cond_words_chars(1)] assms(1,2) [THEN cond_words_chars(2)] by (auto simp: brackets_def)
  have one: "evalConditions ws = (case partsLoop ws [] False False of None \<Rightarrow> None | Some r \<Rightarrow> Some r)"
    if "list_all (\<lambda>w. CHR '' '' \<notin> set w) ws" "list_all (\<lambda>w. CHR ''|'' \<notin> set w) ws" "ws \<noteq> []" for ws
    using that Split_joined [of ws "CHR '' ''"] by (simp add: SplitOr_no Join_no_bar split: option.split)
  have nb: "brackets b \<noteq> []" "?ws \<noteq> []" by (simp_all add: brackets_def)
  have "evalConditions (brackets b) = Some y"
    using one [OF sp(1,3) nb(1)] partsLoop_brackets [OF assms(2), of "[]"] assms(4) by simp
  then show ?thesis
    using one [OF sp(2,4) nb(2)] partsLoop_brackets [OF assms(1), of "''&&'' # brackets b"]
      partsLoop_brackets [OF assms(2), of "[]"] assms(3,4)
    by simp
qed

theorem evalConditions_last_conjunct_witness:
  "evalConditions [''['', ''false'', '']'', ''&&'', ''['', ''true'', '']''] = Some True"
  using evalConditions_last_conjunct [of "[''false'']" "[''true'']" False True]
  by (simp add: cond_words_def evalCondition_def trimQuote_def brackets_def)

text \<open>Conditions joined by \<open>||\<close>.\<close>

fun or_words :: "string list list \<Rightarrow> string list" where
  "or_words [] = []"
| "or_words [c] = brackets c"
| "or_words (c # cs) = brackets c @ ''||'' # or_words cs"

text \<open>Their meaning: the parts are decided in order up to the first true one, and the whole is
  undecided when an undecided part comes first.\<close>

fun or_value :: "string list list \<Rightarrow> bool option" where
  "or_value [] = Some False"
| "or_value (c # cs) = (case evalCondition c of
     None \<Rightarrow> None | Some True \<Rightarrow> Some True | Some False \<Rightarrow> or_value cs)"

lemma Join_joined: "xs \<noteq> [] \<Longrightarrow> ys \<noteq> [] \<Longrightarrow> Join (xs @ ys) sep = Join xs sep @ sep @ Join ys sep"
proof (induction xs)
  case (Cons x xs)
  then show ?case by (cases xs; cases ys) auto
qed simp

lemma group_parts:
  assumes "cond_words c" "pre \<in> {[], '' ''}" "post \<in> {[], '' ''}"
  shows "partsLoop (Split (pre @ Join (brackets c) '' '' @ post) CHR '' '') [] False False = evalCondition c"
proof -
  let ?l = "if pre = [] then [] else [[]]" and ?r = "if post = [] then [] else [[]]"
  have nb: "brackets c \<noteq> []" by (simp add: brackets_def)
  have "list_all (\<lambda>w. CHR '' '' \<notin> set w) (?l @ brackets c @ ?r)"
    using cond_words_chars(1) [OF assms(1)] by (auto simp: brackets_def)
  then have "Split (Join (?l @ brackets c @ ?r) '' '') CHR '' '' = ?l @ brackets c @ ?r"
    using nb by (intro Split_joined) auto
  moreover have "Join (?l @ brackets c @ ?r) '' '' = pre @ Join (brackets c) '' '' @ post"
    using assms(2,3) nb Join_joined [of "brackets c" "[[]]" "'' ''"] by (cases "brackets c") auto
  moreover have "partsLoop (?l @ brackets c @ ?r) [] False False = evalCondition c"
    using partsLoop_brackets [OF assms(1), of ?r] by (auto split: option.split)
  ultimately show ?thesis by simp
qed

lemma brackets_no_bar: "cond_words c \<Longrightarrow> CHR ''|'' \<notin> set (Join (brackets c) '' '')"
  using cond_words_chars(2) [of c] by (intro Join_no_bar) (auto simp: brackets_def)

lemma orGroupLoop_words:
  "cs \<noteq> [] \<Longrightarrow> list_all cond_words cs \<Longrightarrow> pre \<in> {[], '' ''} \<Longrightarrow>
    orGroupLoop (SplitOr (pre @ Join (or_words cs) '' '')) = or_value cs"
proof (induction cs arbitrary: pre rule: or_words.induct)
  case (2 c)
  then have "CHR ''|'' \<notin> set (pre @ Join (brackets c) '' '')" using brackets_no_bar [of c] by auto
  note no = SplitOr_no [OF this]
  have "partsLoop (Split (pre @ Join (brackets c) '' '') CHR '' '') [] False False = evalCondition c"
    using 2 group_parts [of c pre "[]"] by simp
  then show ?case unfolding or_words.simps no orGroupLoop.simps by (simp split: option.split bool.split)
next
  case (3 c d cs)
  have "or_words (d # cs) \<noteq> []" by (cases cs) (auto simp: brackets_def)
  then have j: "pre @ Join (or_words (c # d # cs)) '' '' =
      (pre @ Join (brackets c) '' '' @ '' '') @ ''||'' @ ('' '' @ Join (or_words (d # cs)) '' '')"
    using Join_joined [of "brackets c" "''||'' # or_words (d # cs)" "'' ''"]
    by (cases "or_words (d # cs)") (simp_all add: brackets_def)
  have "CHR ''|'' \<notin> set (pre @ Join (brackets c) '' '' @ '' '')" using 3(3,4) brackets_no_bar [of c] by auto
  note sp = SplitOr_cons [OF this]
  have IH: "orGroupLoop (SplitOr ('' '' @ Join (or_words (d # cs)) '' '')) = or_value (d # cs)"
    using 3(3) by (intro 3(1)) auto
  have "partsLoop (Split (pre @ Join (brackets c) '' '' @ '' '') CHR '' '') [] False False = evalCondition c"
    using 3(3,4) by (intro group_parts) auto
  then show ?case
    unfolding j sp orGroupLoop.simps using IH by (simp split: option.split bool.split)
qed simp

text \<open>
  Conditions joined by \<open>||\<close> are decided as the shell does: from left to right up to the first
  true one; an undecidable condition makes the whole undecidable only when no true one comes before.
\<close>

theorem evalConditions_or:
  assumes "cs \<noteq> []" "list_all cond_words cs"
  shows "evalConditions (or_words cs) = or_value cs"
  using orGroupLoop_words [OF assms, of "[]"] by simp

theorem evalConditions_or_witness:
  "evalConditions [''['', ''2'', ''-lt'', ''1'', '']'', ''||'', ''['', ''-n'', ''x'', '']'', ''||'', ''['', ''-f'', ''y'', '']''] = Some True"
proof -
  have "list_all cond_words [[''2'', ''-lt'', ''1''], [''-n'', ''x''], [''-f'', ''y'']]"
    "or_value [[''2'', ''-lt'', ''1''], [''-n'', ''x''], [''-f'', ''y'']] = Some True"
    by code_simp+
  then show ?thesis
    using evalConditions_or [of "[[''2'', ''-lt'', ''1''], [''-n'', ''x''], [''-f'', ''y'']]"] by (simp add: brackets_def)
qed

section \<open>What is hashed\<close>

text \<open>The commands that the loader only hashes.\<close>

definition plain_cmd :: "Command \<Rightarrow> bool" where
  "plain_cmd c \<longleftrightarrow> cmd_Name c \<notin> {CmdFrom, CmdBuild, CmdCopy, CmdArg, CmdLet, CmdSet, CmdFromDockerfile, CmdImport}"

definition plain_block :: "Command list \<Rightarrow> Block" where
  "plain_block cs = map (\<lambda>c. Statement (cmd_SourceLocation c) (KCommand c)) cs"

definition block_writes :: "(string list \<Rightarrow> string) \<Rightarrow> Command list \<Rightarrow> string list" where
  "block_writes json cs = (''int:'' @ Itoa (int (length cs))) # concat (map (command_writes json) cs)"

lemma handlePlain_hasher:
  assumes "list_all plain_cmd cs" "ld_hasher l = h @ writes bs"
  shows "ld_hasher (snd (forR (plain_block cs) (loader_handleStatement ev rc) l)) =
    h @ writes (bs @ concat (map (command_writes (le_json ev)) cs))"
  using assms
proof (induction cs arbitrary: l bs)
  case (Cons c cs)
  have "loader_handleStatement ev rc (Statement loc (KCommand c)) l =
      (Inr (), l\<lparr>ld_hasher := h @ writes (bs @ command_writes (le_json ev) c)\<rparr>)" for loc
    using Cons.prems by (simp add: loader_handleStatement_def loader_handleCommand_def plain_cmd_def hashL_def rs_defs
        hashCommand_writes del: writes_append)
  then show ?case
    using Cons.IH [of "l\<lparr>ld_hasher := h @ writes (bs @ command_writes (le_json ev) c)\<rparr>" "bs @ command_writes (le_json ev) c"] Cons.prems
    by (simp add: plain_block_def bindR_def)
qed (simp add: plain_block_def rs_defs)

lemma handleStatements_hasher:
  assumes "list_all plain_cmd cs"
  shows "ld_hasher (snd (handleStatements ev rc (plain_block cs) l)) = ld_hasher l @ writes (block_writes (le_json ev) cs)"
proof -
  have "ld_hasher l @ writes [''int:'' @ Itoa (int (length cs))] = HashInt (int (length cs)) (ld_hasher l)"
    by (simp add: HashInt_def HashBytes_def writes_def)
  then show ?thesis
    using handlePlain_hasher [OF assms, of "l\<lparr>ld_hasher := HashInt (int (length cs)) (ld_hasher l)\<rparr>" "ld_hasher l"
        "[''int:'' @ Itoa (int (length cs))]" ev rc]
    by (simp add: handleStatements_def block_writes_def hashL_def rs_defs plain_block_def)
qed

definition cmd_key :: "Command \<Rightarrow> Cmd \<times> string list \<times> bool" where
  "cmd_key c = (cmd_Name c, cmd_Args c, cmd_ExecMode c)"

lemma command_writes_inj:
  "inj json \<Longrightarrow> concat (map (command_writes json) cs) = concat (map (command_writes json) ds) \<Longrightarrow> map cmd_key cs = map cmd_key ds"
proof (induction cs arbitrary: ds)
  case Nil
  then show ?case by (cases ds) (auto simp: command_writes_def)
next
  case (Cons c cs)
  then obtain d ds' where "ds = d # ds'" by (cases ds) (auto simp: command_writes_def)
  then show ?case
    using Cons by (auto simp: command_writes_def cmd_key_def FormatBool_def dest: injD split: if_splits)
qed


section \<open>The base recipe\<close>

text \<open>The statements of a base recipe that \<open>load\<close> looks at, and an Earthfile without the others.\<close>

definition base_input :: "Statement \<Rightarrow> bool" where
  "base_input s \<longleftrightarrow> (case s of Statement _ (KCommand c) \<Rightarrow> cmd_Name c \<in> {CmdImport, CmdArg, CmdFrom} | _ \<Rightarrow> False)"

definition strip_base :: "BuildContext \<Rightarrow> BuildContext" where
  "strip_base bc = bc\<lparr>bc_Earthfile := (bc_Earthfile bc)\<lparr>tree_BaseRecipe := filter base_input (tree_BaseRecipe (bc_Earthfile bc))\<rparr>\<rparr>"

definition strip_bases :: "lenv \<Rightarrow> lenv" where
  "strip_bases ev = ev\<lparr>le_resolve := (\<lambda>t. map_sum id strip_base (le_resolve ev t))\<rparr>"

lemma strip_fields [simp]:
  "le_Stat (strip_bases ev) = le_Stat ev" "le_ReadDir (strip_bases ev) = le_ReadDir ev" "le_Glob (strip_bases ev) = le_Glob ev"
  "le_ReadFile (strip_bases ev) = le_ReadFile ev" "le_dirFuel (strip_bases ev) = le_dirFuel ev"
  "le_goflags (strip_bases ev) = le_goflags ev" "le_sha1 (strip_bases ev) = le_sha1 ev" "le_json (strip_bases ev) = le_json ev"
  "le_jsonArgs (strip_bases ev) = le_jsonArgs ev" "le_environ (strip_bases ev) = le_environ ev"
  "le_Normalize (strip_bases ev) = le_Normalize ev" "le_Format (strip_bases ev) = le_Format ev"
  "le_tables (strip_bases ev) = le_tables ev" "le_grow (strip_bases ev) = le_grow ev" "le_home (strip_bases ev) = le_home ev"
  by (simp_all add: strip_bases_def)

text \<open>No handler asks the resolver.\<close>

lemma strip_expandArgs: "loader_expandArgs (strip_bases ev) = loader_expandArgs ev"
  by (intro ext, unfold loader_expandArgs_def strip_fields) (rule HOL.refl)

lemma strip_expandArgsSlice: "loader_expandArgsSlice (strip_bases ev) = loader_expandArgsSlice ev"
  by (intro ext, unfold loader_expandArgsSlice_def strip_expandArgs) (rule HOL.refl)

lemma strip_expandDirs: "expandDirs (strip_bases ev) n = expandDirs ev n"
proof (induction n)
  case (Suc n)
  show ?case by (intro ext, unfold expandDirs.simps strip_fields Suc) (rule HOL.refl)
qed (simp add: fun_eq_iff)

lemma strip_files: "expandCopyFiles (strip_bases ev) = expandCopyFiles ev" "hashCopyFile (strip_bases ev) = hashCopyFile ev"
  by (unfold expandCopyFiles_def hashCopyFile_def hashFileL_def HashFile_def strip_expandDirs strip_fields) (rule HOL.refl)+

lemmas strip_base_rules = strip_fields strip_expandArgs strip_expandArgsSlice strip_files

lemma strip_loadTargetFromString: "loadTargetFromString (strip_bases ev) = loadTargetFromString ev"
  by (intro ext, unfold loadTargetFromString_def derefedTarget_def forTarget_def strip_base_rules) (rule HOL.refl)

lemma strip_handleCopySrc: "handleCopySrc (strip_bases ev) = handleCopySrc ev"
  by (intro ext, unfold handleCopySrc_def copyClassicalSrc_def copyArtifactSrc_def strip_base_rules strip_loadTargetFromString) (rule HOL.refl)

lemmas strip_rules = strip_base_rules strip_loadTargetFromString strip_handleCopySrc

lemma strip_handlers:
  "loader_handleFrom (strip_bases ev) = loader_handleFrom ev" "loader_handleArg (strip_bases ev) = loader_handleArg ev"
  "loader_handleImport (strip_bases ev) = loader_handleImport ev"
  by (unfold loader_handleFrom_def loader_handleArg_def loader_handleImport_def strip_rules) (rule HOL.refl)+

lemma strip_handleCommand: "loader_handleCommand (strip_bases ev) = loader_handleCommand ev"
  by (intro ext, unfold loader_handleCommand_def loader_handleBuild_def loader_handleCopy_def loader_handleLet_def
      loader_handleSet_def loader_handleFromDockerfile_def strip_rules strip_handlers) (rule HOL.refl)

lemma strip_expandAndEval: "expandAndEval (strip_bases ev) = expandAndEval ev"
  by (intro ext, unfold expandAndEval_def strip_rules) (rule HOL.refl)

lemma strip_elseIfEval: "elseIfEval (strip_bases ev) rc eis els = elseIfEval ev rc eis els"
proof (induction eis)
  case (Cons ei eis)
  show ?case by (cases ei) (simp only: elseIfEval.simps strip_expandAndEval Cons)
qed simp

lemma strip_handleStatement: "loader_handleStatement (strip_bases ev) = loader_handleStatement ev"
  by (intro ext, unfold loader_handleStatement_def loader_handleWith_def loader_handleWithDocker_def loader_handleIf_def
      handleIfEval_def handleIfDefault_def loader_handleFor_def loader_handleWait_def strip_rules strip_handleCommand
      strip_elseIfEval strip_expandAndEval) (rule HOL.refl)

lemma strip_statements:
  "handleStatements (strip_bases ev) = handleStatements ev" "baseStatement (strip_bases ev) = baseStatement ev"
  by (unfold handleStatements_def baseStatement_def strip_handleStatement strip_handlers) (rule HOL.refl)+

lemma forR_base: "forR (filter base_input stmts) (baseStatement ev rc) = forR stmts (baseStatement ev rc)"
proof (induction stmts)
  case (Cons s stmts)
  have "\<not> base_input s \<Longrightarrow> baseStatement ev rc s = retR ()"
    by (auto simp: base_input_def baseStatement_def split: Statement.splits StatementKind.splits)
  then show ?case using Cons by (auto simp: bindR_def retR_def)
qed simp

lemma strip_loadRecipe:
  "loadRecipe (strip_bases ev) rc (ef\<lparr>tree_BaseRecipe := filter base_input (tree_BaseRecipe ef)\<rparr>) = loadRecipe ev rc ef"
proof -
  have ef: "tree_Version (ef\<lparr>tree_BaseRecipe := b\<rparr>) = tree_Version ef" "targetRecipe (ef\<lparr>tree_BaseRecipe := b\<rparr>) = targetRecipe ef"
    "tree_BaseRecipe (ef\<lparr>tree_BaseRecipe := b\<rparr>) = b" for b
    by (simp_all add: targetRecipe_def fun_eq_iff)
  show ?thesis by (unfold loadRecipe_def strip_fields strip_statements ef forR_base) (rule HOL.refl)
qed

lemma strip_loadResolved: "loadResolved (strip_bases ev) rc l k (strip_base bc) = loadResolved ev rc l k bc"
proof -
  have bc: "bc_Features (strip_base bc) = bc_Features bc" "bc_GitMetadata (strip_base bc) = bc_GitMetadata bc"
    "bc_Earthfile (strip_base bc) = (bc_Earthfile bc)\<lparr>tree_BaseRecipe := filter base_input (tree_BaseRecipe (bc_Earthfile bc))\<rparr>"
    by (simp_all add: strip_base_def)
  show ?thesis by (unfold loadResolved_def strip_fields bc strip_loadRecipe) (rule HOL.refl)
qed

lemma strip_resolve:
  "bindR (resL LResolve (le_resolve (strip_bases ev) t)) (loadResolved (strip_bases ev) rc l k) =
   bindR (resL LResolve (le_resolve ev t)) (loadResolved ev rc l k)"
  by (cases "le_resolve ev t")
    (simp_all add: strip_bases_def [of ev] resL_def bindR_def fun_eq_iff failL_def failR_def retR_def
      strip_loadResolved [unfolded strip_bases_def])

lemma strip_load: "loader_load (strip_bases ev) = loader_load ev"
proof -
  have key: "targetCacheKey (strip_bases ev) = targetCacheKey ev" by (simp add: fun_eq_iff targetCacheKey_def)
  show ?thesis by (unfold loader_load_def key strip_resolve) (rule HOL.refl)
qed

lemma strip_lrun: "lrun (strip_bases ev) n = lrun ev n"
  by (induction n) (simp_all add: strip_load strip_statements)

text \<open>
  The commands of a base recipe other than IMPORT, ARG and FROM are no inputs of the hash: with all
  of them removed from every Earthfile, the hash of every target is the same. A RUN or COPY in the
  base recipe, from which the targets of the file start, can change without changing any hash.
\<close>

theorem base_recipe_not_hashed: "HashTarget (strip_bases ev) n opt = HashTarget ev n opt"
  by (simp add: HashTarget_def strip_lrun newLoader_def)

end
