(* ===== verification/Input_Ends.thy ===== *)
theory Input_Ends
  imports Input_Correct Interp_Results
begin

text \<open>
  The walk over the graph of targets ends. A loader refuses a target whose name is among the
  targets being loaded, so a chain of loaders is at most as long as the list of the names that the
  resolver knows; within a target the walk follows the nesting of its blocks. The fuel of \<open>lrun\<close>
  that this gives is enough, and more fuel does not change the result.
\<close>

section \<open>Nesting\<close>

definition option_list :: "'a option \<Rightarrow> 'a list" where
  "option_list x = (case x of None \<Rightarrow> [] | Some y \<Rightarrow> [y])"

definition bodies :: "Statement \<Rightarrow> Block list" where
  "bodies s = (case s of Statement _ k \<Rightarrow> (case k of
     KCommand _ \<Rightarrow> []
   | KWith _ b _ \<Rightarrow> [b]
   | KIf _ _ _ b eis els \<Rightarrow> b # map (\<lambda>ei. case ei of ElseIfStatement _ _ _ b \<Rightarrow> b) eis @ option_list els
   | KFor _ _ b \<Rightarrow> [b]
   | KWait _ _ b \<Rightarrow> [b]
   | KTry _ b c f \<Rightarrow> b # option_list c @ option_list f))"

primrec nested :: "nat \<Rightarrow> Statement \<Rightarrow> bool" where
  "nested 0 s = (bodies s = [])"
| "nested (Suc n) s = list_all (list_all (nested n)) (bodies s)"

section \<open>Loaders that do not run out of fuel\<close>

abbreviation ok_in :: "string list \<Rightarrow> 'a lm \<Rightarrow> bool" where
  "ok_in V m \<equiv> safe (\<lambda>l. ld_visited l = V) (\<lambda>a. a \<noteq> LNoFuel) m"

lemma ok_failing: "ok_in V (failL e)" "ok_in V (panicL msg)" "ok_in V (newErrorL sl fmt)"
  by (simp_all add: failL_def panicL_def newErrorL_def safe_simple)

lemma on_lerr_NoFuel [simp]: "on_lerr f a = LNoFuel \<longleftrightarrow> a = LNoFuel"
  by (simp add: on_lerr_def split: labort.split)

lemma ok_wrap: "ok_in V m \<Longrightarrow> ok_in V (wrapErrorL sl fmt m)" "ok_in V m \<Longrightarrow> ok_in V (addErrorSrc sl m)"
  "ok_in V m \<Longrightarrow> ok_in V (fmtErrorL fmt m)" "ok_in V m \<Longrightarrow> ok_in V (onErrR (on_lerr g) m)"
  by (simp_all add: wrapErrorL_def addErrorSrc_def fmtErrorL_def safe_onErr)

lemma ok_res: "ok_in V (resL f r)" "ok_in V (parseL parse opts args)"
  by (simp_all add: parseL_def resL_def ok_failing safe_simple split: sum.split)

lemma ok_state: "ok_in V (hashL f)" "ok_in V (countL g)"
  by (simp_all add: hashL_def countL_def safe_simple)

lemma ok_coll: "ok_in V (collL f)"
  unfolding collL_def by (intro safe_read safe_cases safe_bind safe_simple ok_failing) simp

lemmas ok_base = safe_read safe_bind safe_simple(1) safe_if safe_cases safe_map safe_for ok_failing ok_wrap ok_res ok_state ok_coll

lemma ok_expand: "ok_in V (loader_expandArgs ev w)" "ok_in V (loader_expandArgsSlice ev ws)"
  unfolding loader_expandArgsSlice_def loader_expandArgs_def by (intro ok_base)+

definition dirs_end :: "lenv \<Rightarrow> bool" where
  "dirs_end ev \<longleftrightarrow> (\<forall>dirs. expandDirs ev (le_dirFuel ev) dirs \<noteq> Inl LNoFuel)"

lemma ok_files: "dirs_end ev \<Longrightarrow> ok_in V (expandCopyFiles ev src me)"
  unfolding expandCopyFiles_def by (intro ok_base safe_lift) (auto simp: dirs_end_def)

lemma ok_hashCopyFile: "ok_in V (hashCopyFile ev sl me file)"
proof -
  have "ok_in V (hashFileL ev file)" by (simp add: safe_def hashFileL_def split: prod.split)
  then show ?thesis unfolding hashCopyFile_def by (intro ok_base)
qed

lemma ok_derefedTarget: "ok_in V (derefedTarget ev name)"
  unfolding derefedTarget_def by (intro ok_base) (auto simp: ok_failing safe_simple split: Reference.split)

lemma ok_forTarget: "ok_in V (forTarget ev target args pass)"
  unfolding forTarget_def by (intro ok_base)

section \<open>Calls of loaders\<close>

abbreviation target_name :: "loader \<Rightarrow> string" where
  "target_name l \<equiv> referenceString (RefTarget (ld_target l))"

text \<open>The loaders that a loader with the visited targets \<open>V\<close> can make.\<close>

definition calls_ok :: "string list \<Rightarrow> lrec \<Rightarrow> bool" where
  "calls_ok V rc \<longleftrightarrow> (\<forall>child. ld_visited child = target_name child # V \<and> target_name child \<notin> set V \<longrightarrow>
     fst (lr_load rc child) \<noteq> Inl LNoFuel)"

lemma forTarget_gives:
  "fst (forTarget ev target args pass l) = Inr child \<Longrightarrow>
    ld_visited child = target_name child # ld_visited l \<and> ld_target child = target"
  unfolding forTarget_def
  by (auto simp: rs_defs resL_def failL_def panicL_def collL_def split: sum.splits option.splits if_splits prod.splits)

lemma safe_bind_gives:
  "safe I P m \<Longrightarrow> (\<And>s x. I s \<Longrightarrow> fst (m s) = Inr x \<Longrightarrow> Q x) \<Longrightarrow> (\<And>x. Q x \<Longrightarrow> safe I P (f x)) \<Longrightarrow> safe I P (bindR m f)"
  unfolding safe_def bindR_def by (auto split: prod.splits sum.splits) (metis fst_conv snd_conv)+

lemma ok_callLoad: "fst (lr_load rc child) \<noteq> Inl LNoFuel \<Longrightarrow> ok_in V (callLoad rc child)"
  by (auto simp: safe_def callLoad_def split: prod.splits)

lemma ok_loadTarget:
  assumes "calls_ok V rc"
  shows "ok_in V (loadTargetFromString ev rc name args pass sl)"
proof -
  have "ok_in V (bindR (wrapErrorL sl fmt (forTarget ev target args pass)) (\<lambda>newLoader.
      bindR (callLoad rc newLoader) (\<lambda>hash. hashL (HashBytes hash))))"
    if "referenceString (RefTarget target) \<notin> set V" for target args fmt
  proof (rule safe_bind_gives)
    show "ok_in V (wrapErrorL sl fmt (forTarget ev target args pass))" by (intro ok_wrap ok_forTarget)
    show "ld_visited child = target_name child # V \<and> target_name child \<notin> set V"
      if "ld_visited l = V" "fst (wrapErrorL sl fmt (forTarget ev target args pass) l) = Inr child" for l child
      using that \<open>referenceString (RefTarget target) \<notin> set V\<close> forTarget_gives [of ev target args pass l child]
      by (auto simp: wrapErrorL_def onErrR_def split: prod.splits sum.splits)
    show "ok_in V (bindR (callLoad rc child) (\<lambda>hash. hashL (HashBytes hash)))"
      if "ld_visited child = target_name child # V \<and> target_name child \<notin> set V" for child
      using that assms by (intro safe_bind ok_callLoad ok_state) (simp add: calls_ok_def)
  qed
  then show ?thesis
    unfolding loadTargetFromString_def Let_def
    by (intro safe_read safe_bind [OF ok_wrap(1) [OF ok_expand(1)]] safe_bind [OF ok_wrap(1) [OF ok_expand(2)]]
        safe_bind [OF ok_wrap(2) [OF ok_derefedTarget]] safe_if ok_failing ok_state) auto
qed

lemma ok_handleCopySrc: "calls_ok V rc \<Longrightarrow> dirs_end ev \<Longrightarrow> ok_in V (handleCopySrc ev rc cmd src me)"
  unfolding handleCopySrc_def copyArtifactSrc_def copyClassicalSrc_def Let_def
  by (intro ok_base ok_expand ok_loadTarget ok_files ok_hashCopyFile)

lemmas ok_rules = ok_base ok_expand ok_loadTarget ok_handleCopySrc

lemma ok_commands:
  assumes "calls_ok V rc" "dirs_end ev"
  shows "ok_in V (loader_handleFrom ev rc cmd)" "ok_in V (loader_handleBuild ev rc cmd)" "ok_in V (loader_handleCopy ev rc cmd)"
    "ok_in V (loader_handleFromDockerfile ev rc cmd)" "ok_in V (loader_handleWithDocker ev rc cmd)"
  unfolding loader_handleFrom_def loader_handleBuild_def loader_handleCopy_def loader_handleFromDockerfile_def
    loader_handleWithDocker_def Let_def
  by (intro ok_rules assms)+

lemma ok_variables: "ok_in V (loader_handleArg ev cmd b)" "ok_in V (loader_handleLet ev cmd)" "ok_in V (loader_handleSet ev cmd)"
  "ok_in V (loader_handleImport ev cmd b)"
  unfolding loader_handleArg_def loader_handleLet_def loader_handleSet_def loader_handleImport_def declareL_def Let_def
  by (intro ok_base ok_expand)+

lemma ok_handleCommand: "calls_ok V rc \<Longrightarrow> dirs_end ev \<Longrightarrow> ok_in V (loader_handleCommand ev rc cmd)"
  unfolding loader_handleCommand_def by (intro ok_base ok_commands ok_variables)

section \<open>Statements\<close>

lemma ok_expandAndEval: "ok_in V (expandAndEval ev expr)"
  unfolding expandAndEval_def by (intro ok_base ok_expand)

lemma ok_elseIfEval:
  "(\<And>l e x b. ElseIfStatement l e x b \<in> set eis \<Longrightarrow> ok_in V (lr_block rc b)) \<Longrightarrow>
    (\<And>b. els = Some b \<Longrightarrow> ok_in V (lr_block rc b)) \<Longrightarrow> ok_in V (elseIfEval ev rc eis els)"
proof (induction eis)
  case Nil
  then show ?case by (auto intro: safe_simple split: option.split)
next
  case (Cons ei eis)
  obtain l e x b where ei: "ei = ElseIfStatement l e x b" by (cases ei)
  have "ok_in V (lr_block rc b)" "ok_in V (elseIfEval ev rc eis els)" using Cons ei by auto
  then show ?case unfolding ei elseIfEval.simps by (intro safe_bind safe_if ok_expandAndEval)
qed

lemma ok_handleIf:
  assumes "ok_in V (lr_block rc b)" "\<And>l e x b. ElseIfStatement l e x b \<in> set eis \<Longrightarrow> ok_in V (lr_block rc b)"
    "\<And>b. els = Some b \<Longrightarrow> ok_in V (lr_block rc b)"
  shows "ok_in V (loader_handleIf ev rc expr ex b eis els)"
proof -
  have "ok_in V (handleIfEval ev rc expr b eis els)"
    unfolding handleIfEval_def by (intro safe_bind safe_if ok_expandAndEval ok_elseIfEval assms)
  moreover have "ok_in V (handleIfDefault ev rc b eis els)"
    unfolding handleIfDefault_def
    by (intro safe_bind safe_for assms safe_cases safe_simple)
      (auto intro!: safe_bind ok_state assms(2) split: ElseIfStatement.split)
  ultimately show ?thesis
    unfolding loader_handleIf_def
    by (intro safe_bind ok_state safe_bind_try) (auto intro!: safe_simple split: sum.split labort.split)
qed

lemma ok_handleStatement:
  assumes "calls_ok V rc" "dirs_end ev" "\<And>b. b \<in> set (bodies s) \<Longrightarrow> ok_in V (lr_block rc b)"
  shows "ok_in V (loader_handleStatement ev rc s)"
proof -
  obtain l k where s: "s = Statement l k" by (cases s)
  show ?thesis
  proof (cases k)
    case (KCommand c)
    then show ?thesis using assms s by (simp add: loader_handleStatement_def ok_handleCommand)
  next
    case (KWith loc b c)
    then have "ok_in V (lr_block rc b)" using assms(3) s by (simp add: bodies_def)
    then show ?thesis
      unfolding s KWith loader_handleStatement_def Statement.case StatementKind.case loader_handleWith_def
      by (intro ok_base ok_commands assms(1,2))
  next
    case (KIf loc expr ex b eis els)
    have "b' \<in> set (bodies s)" if "b' = b \<or> els = Some b' \<or> (\<exists>l e x. ElseIfStatement l e x b' \<in> set eis)" for b'
      using that s KIf by (force simp: bodies_def option_list_def split: option.splits)
    then show ?thesis
      using assms(3) s KIf by (auto simp: loader_handleStatement_def intro!: ok_handleIf)
  next
    case (KFor loc args b)
    then have "ok_in V (lr_block rc b)" using assms(3) s by (simp add: bodies_def)
    then show ?thesis
      unfolding s KFor loader_handleStatement_def Statement.case StatementKind.case loader_handleFor_def Let_def
      by (intro ok_base ok_expand)
  next
    case (KWait loc args b)
    then have "ok_in V (lr_block rc b)" using assms(3) s by (simp add: bodies_def)
    then show ?thesis
      unfolding s KWait loader_handleStatement_def Statement.case StatementKind.case loader_handleWait_def
      by (intro ok_base)
  next
    case (KTry loc b c f)
    have "ok_in V (lr_block rc b')" if "b' = b \<or> c = Some b' \<or> f = Some b'" for b'
      using that s KTry by (intro assms(3)) (auto simp: bodies_def option_list_def)
    then show ?thesis
      unfolding s KTry loader_handleStatement_def Statement.case StatementKind.case loader_handleTry_def
      by (intro safe_bind safe_cases(1) safe_simple(1) ok_state) auto
  qed
qed

lemma ok_handleStatements:
  assumes "calls_ok V rc" "dirs_end ev" "\<And>s b. s \<in> set stmts \<Longrightarrow> b \<in> set (bodies s) \<Longrightarrow> ok_in V (lr_block rc b)"
  shows "ok_in V (handleStatements ev rc stmts)"
  unfolding handleStatements_def by (intro safe_bind ok_state safe_for ok_handleStatement assms) auto

section \<open>Targets\<close>

definition recipes_nested :: "nat \<Rightarrow> lenv \<Rightarrow> bool" where
  "recipes_nested d ev \<longleftrightarrow> (\<forall>t bc. le_resolve ev t = Inr bc \<longrightarrow>
     (\<forall>tg \<in> set (tree_Targets (bc_Earthfile bc)). list_all (nested d) (tgt_Recipe tg)))"

lemma ok_bind_res: "(\<And>x. r = Inr x \<Longrightarrow> ok_in V (f x)) \<Longrightarrow> ok_in V (bindR (resL g r) f)"
  by (cases r) (auto simp: resL_def failL_def rs_defs safe_def)

lemma ok_load:
  assumes "calls_ok V rc" "dirs_end ev" "recipes_nested d ev" "\<And>b. list_all (nested d) b \<Longrightarrow> ok_in V (lr_block rc b)"
  shows "ok_in V (loader_load ev rc)"
proof -
  have base: "ok_in V (baseStatement ev rc s)" for s
    by (auto simp: baseStatement_def intro!: safe_simple ok_variables ok_commands assms split: Statement.split StatementKind.split)
  have "ok_in V (loadRecipe ev rc (bc_Earthfile bc))" if "le_resolve ev t = Inr bc" for t bc
  proof -
    have "list_all (nested d) b" if "targetRecipe (bc_Earthfile bc) name = Some b" for name b
      using that \<open>le_resolve ev t = Inr bc\<close> assms(3)
      by (auto simp: targetRecipe_def recipes_nested_def find_Some_iff split: option.splits if_splits)
    then show ?thesis
      unfolding loadRecipe_def by (intro ok_base base assms(4))
  qed
  then have "ok_in V (loadResolved ev rc l k bc)" if "le_resolve ev t = Inr bc" for t bc l k
    using that unfolding loadResolved_def Let_def by (intro ok_base safe_simple(3)) auto
  then show ?thesis
    unfolding loader_load_def
    by (intro safe_read safe_if ok_failing safe_bind [OF ok_state(2)] safe_cases(1) safe_simple(1))
      (auto intro!: safe_bind ok_state safe_simple ok_bind_res)
qed

lemma ok_blocks:
  assumes "dirs_end ev" "\<And>n. N \<le> n \<Longrightarrow> calls_ok V (lrun ev n)"
  shows "list_all (nested j) b \<Longrightarrow> N + j < n \<Longrightarrow> ok_in V (lr_block (lrun ev n) b)"
proof (induction j arbitrary: b n)
  case 0
  then obtain m where n: "n = Suc m" "N \<le> m" by (cases n) auto
  have "ok_in V (handleStatements ev (lrun ev m) b)"
    using 0 by (intro ok_handleStatements assms n) (auto simp: list_all_iff)
  then show ?case using n by simp
next
  case (Suc j)
  then obtain m where n: "n = Suc m" "N + j < m" by (cases n) auto
  have "ok_in V (lr_block (lrun ev m) b')" if "s \<in> set b" "b' \<in> set (bodies s)" for s b'
    using that Suc.prems n by (intro Suc.IH) (auto simp: list_all_iff)
  then have "ok_in V (handleStatements ev (lrun ev m) b)"
    using n by (intro ok_handleStatements assms) auto
  then show ?case using n by simp
qed

lemma ok_lrun_load:
  assumes "dirs_end ev" "recipes_nested d ev" "\<And>n. N \<le> n \<Longrightarrow> calls_ok V (lrun ev n)" "N + d + 2 \<le> n"
  shows "ok_in V (lr_load (lrun ev n))"
proof -
  obtain m where n: "n = Suc m" "N + d < m" using assms(4) by (cases n) auto
  have "ok_in V (loader_load ev (lrun ev m))"
    using n by (intro ok_load [OF _ assms(1,2)] ok_blocks [OF assms(1,3)] assms(3)) auto
  then show ?thesis using n by simp
qed

text \<open>The names of the targets that the resolver finds.\<close>

definition resolves_in :: "string list \<Rightarrow> lenv \<Rightarrow> bool" where
  "resolves_in names ev \<longleftrightarrow> (\<forall>t bc. le_resolve ev t = Inr bc \<longrightarrow> referenceString (RefTarget t) \<in> set names)"

lemma load_unresolved: "le_resolve ev (ld_target l) = Inl e \<Longrightarrow> fst (loader_load ev rc l) \<noteq> Inl LNoFuel"
  by (auto simp: loader_load_def countL_def resL_def failL_def rs_defs split: option.splits)

lemma calls_ok_bound:
  assumes "dirs_end ev" "recipes_nested d ev" "resolves_in names ev"
  shows "card (set names - set V) \<le> k \<Longrightarrow> 1 + (d + 2) * k \<le> n \<Longrightarrow> calls_ok V (lrun ev n)"
proof (induction k arbitrary: V n)
  case (0 V n)
  have "fst (lr_load (lrun ev n) child) \<noteq> Inl LNoFuel" if "target_name child \<notin> set V" for child
  proof -
    have "target_name child \<notin> set names" using 0 that by auto
    then obtain e where "le_resolve ev (ld_target child) = Inl e"
      using assms(3) by (cases "le_resolve ev (ld_target child)") (auto simp: resolves_in_def)
    then show ?thesis using load_unresolved 0 by (cases n) auto
  qed
  then show ?case by (simp add: calls_ok_def)
next
  case (Suc k V n)
  have "fst (lr_load (lrun ev n) child) \<noteq> Inl LNoFuel"
    if child: "ld_visited child = target_name child # V" "target_name child \<notin> set V" for child
  proof (cases "le_resolve ev (ld_target child)")
    case (Inl e)
    then show ?thesis using load_unresolved Suc.prems by (cases n) auto
  next
    case (Inr bc)
    let ?V = "target_name child # V"
    have "target_name child \<in> set names - set V" using Inr assms(3) child by (auto simp: resolves_in_def)
    moreover have "set names - set ?V = (set names - set V) - {target_name child}" by auto
    ultimately have "card (set names - set ?V) \<le> k" using Suc.prems(1) by (simp only: card_Diff_singleton)
    then have "\<And>m. 1 + (d + 2) * k \<le> m \<Longrightarrow> calls_ok ?V (lrun ev m)" by (rule Suc.IH)
    moreover have "1 + (d + 2) * k + d + 2 \<le> n" using Suc.prems(2) by simp
    ultimately have "ok_in ?V (lr_load (lrun ev n))" by (intro ok_lrun_load [OF assms(1,2)])
    then show ?thesis using child(1) by (auto dest: safeD)
  qed
  then show ?case by (simp add: calls_ok_def)
qed

section \<open>More fuel\<close>

definition lrec_le :: "lrec \<Rightarrow> lrec \<Rightarrow> bool" where
  "lrec_le rc rc' \<longleftrightarrow> (\<forall>b. fuel_leR LNoFuel (lr_block rc b) (lr_block rc' b)) \<and> fuel_leR LNoFuel (lr_load rc) (lr_load rc')"

lemma lrec_leD:
  assumes "lrec_le rc rc'"
  shows "fuel_leR LNoFuel (lr_block rc b) (lr_block rc' b)" "fuel_leR LNoFuel (callLoad rc child) (callLoad rc' child)"
proof -
  show "fuel_leR LNoFuel (lr_block rc b) (lr_block rc' b)" using assms by (simp add: lrec_le_def)
  have "fst (lr_load rc child) = Inl LNoFuel \<or> lr_load rc' child = lr_load rc child"
    using assms by (simp add: lrec_le_def fuel_leR_def)
  then show "fuel_leR LNoFuel (callLoad rc child) (callLoad rc' child)"
    by (auto simp: fuel_leR_def callLoad_def split: prod.splits)
qed

lemma le_loadTarget: "lrec_le rc rc' \<Longrightarrow>
    fuel_leR LNoFuel (loadTargetFromString ev rc name args pass sl) (loadTargetFromString ev rc' name args pass sl)"
  unfolding loadTargetFromString_def Let_def by (intro fuel_leR_rules fuel_leR_refl lrec_leD)

lemma le_sum: "(\<And>e. fuel_leR out (g e) (g' e)) \<Longrightarrow> (\<And>y. fuel_leR out (h y) (h' y)) \<Longrightarrow>
    fuel_leR out (case z of Inl e \<Rightarrow> g e | Inr y \<Rightarrow> h y) (case z of Inl e \<Rightarrow> g' e | Inr y \<Rightarrow> h' y)"
  by (cases z) auto

lemma le_handleCopySrc: "lrec_le rc rc' \<Longrightarrow>
    fuel_leR LNoFuel (handleCopySrc ev rc cmd src me) (handleCopySrc ev rc' cmd src me)"
  unfolding handleCopySrc_def copyArtifactSrc_def Let_def by (intro fuel_leR_rules le_sum fuel_leR_refl le_loadTarget)

lemma le_commands:
  assumes "lrec_le rc rc'"
  shows "fuel_leR LNoFuel (loader_handleFrom ev rc cmd) (loader_handleFrom ev rc' cmd)"
    "fuel_leR LNoFuel (loader_handleCommand ev rc cmd) (loader_handleCommand ev rc' cmd)"
    "fuel_leR LNoFuel (loader_handleWithDocker ev rc cmd) (loader_handleWithDocker ev rc' cmd)"
proof -
  show from_le: "fuel_leR LNoFuel (loader_handleFrom ev rc cmd) (loader_handleFrom ev rc' cmd)"
    unfolding loader_handleFrom_def by (intro fuel_leR_rules fuel_leR_refl le_loadTarget assms)
  show "fuel_leR LNoFuel (loader_handleCommand ev rc cmd) (loader_handleCommand ev rc' cmd)"
    unfolding loader_handleCommand_def loader_handleBuild_def loader_handleCopy_def loader_handleFromDockerfile_def
    by (intro fuel_leR_read fuel_leR_bind fuel_leR_if fuel_leR_cases fuel_leR_for from_le le_handleCopySrc le_loadTarget assms fuel_leR_refl)
  show "fuel_leR LNoFuel (loader_handleWithDocker ev rc cmd) (loader_handleWithDocker ev rc' cmd)"
    unfolding loader_handleWithDocker_def Let_def by (intro fuel_leR_rules fuel_leR_refl le_loadTarget assms)
qed

lemma le_elseIfEval: "lrec_le rc rc' \<Longrightarrow> fuel_leR LNoFuel (elseIfEval ev rc eis els) (elseIfEval ev rc' eis els)"
proof (induction eis)
  case Nil
  then show ?case unfolding elseIfEval.simps by (intro fuel_leR_rules fuel_leR_refl lrec_leD)
next
  case (Cons ei eis)
  show ?case
    by (cases ei) (simp only: elseIfEval.simps, intro fuel_leR_bind fuel_leR_if fuel_leR_refl lrec_leD(1) [OF Cons.prems] Cons)
qed

lemma le_handleIf:
  assumes "lrec_le rc rc'"
  shows "fuel_leR LNoFuel (loader_handleIf ev rc expr ex b eis els) (loader_handleIf ev rc' expr ex b eis els)"
proof -
  have "fuel_leR LNoFuel (handleIfEval ev rc expr b eis els) (handleIfEval ev rc' expr b eis els)"
    unfolding handleIfEval_def by (intro fuel_leR_bind fuel_leR_if fuel_leR_refl lrec_leD(1) [OF assms] le_elseIfEval assms)
  moreover have "fuel_leR LNoFuel (handleIfDefault ev rc b eis els) (handleIfDefault ev rc' b eis els)"
    unfolding handleIfDefault_def
    by (intro fuel_leR_bind fuel_leR_for fuel_leR_cases fuel_leR_refl lrec_leD(1) [OF assms])
      (auto intro!: fuel_leR_bind fuel_leR_refl lrec_leD(1) [OF assms] split: ElseIfStatement.split)
  ultimately show ?thesis
    unfolding loader_handleIf_def
    by (intro fuel_leR_bind fuel_leR_refl fuel_leR_bind_try)
      (auto simp: failR_def fuel_leR_refl split: sum.split labort.split)
qed

lemma le_loaderStatement:
  assumes "lrec_le rc rc'"
  shows "fuel_leR LNoFuel (loader_handleStatement ev rc s) (loader_handleStatement ev rc' s)"
proof -
  obtain l k where s: "s = Statement l k" by (cases s)
  note le = le_commands [OF assms] le_handleIf [OF assms] lrec_leD(1) [OF assms]
  show ?thesis
    unfolding s loader_handleStatement_def Statement.case
    by (cases k; simp only: StatementKind.case loader_handleWith_def loader_handleFor_def loader_handleWait_def loader_handleTry_def Let_def)
      (intro fuel_leR_read fuel_leR_bind fuel_leR_if fuel_leR_cases fuel_leR_for fuel_leR_refl le)+
qed

lemma le_load:
  assumes "lrec_le rc rc'"
  shows "fuel_leR LNoFuel (loader_load ev rc) (loader_load ev rc')"
proof -
  have "fuel_leR LNoFuel (baseStatement ev rc s) (baseStatement ev rc' s)" for s
    unfolding baseStatement_def
    by (cases s; rename_tac l k; case_tac k) (simp_all add: fuel_leR_refl le_commands [OF assms])
  then show ?thesis
    unfolding loader_load_def loadResolved_def loadRecipe_def Let_def
    by (intro fuel_leR_read fuel_leR_bind fuel_leR_if fuel_leR_cases fuel_leR_for fuel_leR_refl lrec_leD(1) [OF assms])
qed

lemma lrun_le: "lrec_le (lrun ev n) (lrun ev (Suc n))"
proof (induction n)
  case 0
  show ?case by (simp add: lrec_le_def fuel_leR_out)
next
  case (Suc n)
  have "fuel_leR LNoFuel (handleStatements ev (lrun ev n) b) (handleStatements ev (lrun ev (Suc n)) b)" for b
    unfolding handleStatements_def by (intro fuel_leR_bind fuel_leR_for fuel_leR_refl le_loaderStatement Suc)
  with le_load [OF Suc, of ev] show ?case by (simp add: lrec_le_def)
qed

lemma lrun_more: "fst (lr_load (lrun ev n) l) \<noteq> Inl LNoFuel \<Longrightarrow> n \<le> m \<Longrightarrow> lr_load (lrun ev m) l = lr_load (lrun ev n) l"
  using fuel_leR_Suc_le [of LNoFuel "\<lambda>n. lr_load (lrun ev n)" n m l] lrun_le by (auto simp: lrec_le_def)

section \<open>The walk ends\<close>


section \<open>A crash\<close>

text \<open>A FROM without an image, which the interpreter reports as an error, crashes the loader.\<close>

lemma bare_from_panics:
  assumes "gf_From (le_goflags ev) zero_From (ProcessParamsAndQuotes (cmd_Args cmd)) = Inr (opts, [])"
  shows "fst (loader_handleFrom ev rc cmd l) = Inl (LPanic ''index out of range'')"
  using assms by (simp add: loader_handleFrom_def parseL_def resL_def ParseArgsCleaned_def rs_defs panicL_def)

section \<open>An example\<close>

text \<open>Two targets that build each other.\<close>

definition ex_cycle :: Tree where
  "ex_cycle = empty_tree\<lparr>tree_Targets := map (\<lambda>(a, b).
     \<lparr>tgt_SourceLocation = None, tgt_Name = a, tgt_Docs = [],
      tgt_Recipe = [Statement None (KCommand (ex_cmd CmdBuild [''+'' @ b]))]\<rparr>) [(''a'', ''b''), (''b'', ''a'')]\<rparr>"

definition ex_target :: "string \<Rightarrow> Target_ref" where
  "ex_target name = zero_Target_ref\<lparr>t_LocalPath := ''.'', t_Target := name\<rparr>"

text \<open>An injective print of lists of strings that starts with a bracket.\<close>

definition ex_json :: "string list \<Rightarrow> string" where
  "ex_json xs = CHR ''['' # writes (map (Cons CHR '':'') xs)"

definition ex_lenv :: "Tree \<Rightarrow> lenv" where
  "ex_lenv ef = \<lparr>le_resolve = (\<lambda>t. if t \<in> {ex_target ''a'', ex_target ''b''} then
       Inr \<lparr>bc_Earthfile = ef, bc_Features = \<lparr>fe_on = (\<lambda>_. True), fe_Major = 0, fe_Minor = 8\<rparr>, bc_GitMetadata = None\<rparr>
       else Inl ''not found''),
     le_Stat = (\<lambda>_. Inl NotExist), le_ReadDir = (\<lambda>_. Inl NotExist), le_Glob = (\<lambda>_. Inr []), le_ReadFile = (\<lambda>_. Inl NotExist),
     le_dirFuel = 1, le_goflags = ex_goflags, le_sha1 = (\<lambda>s. s), le_json = ex_json, le_jsonArgs = (\<lambda>_. ''{}''),
     le_environ = Map.empty, le_Normalize = (\<lambda>p. p), le_Format = (\<lambda>_. []), le_tables = ((\<lambda>_. False), (\<lambda>_. False)),
     le_grow = gc_grow, le_home = ''/root''\<rparr>"

definition ex_opt :: "string \<Rightarrow> HashOpt" where
  "ex_opt name = \<lparr>ho_OverridingVars = None, ho_Target = ex_target name,
     ho_BuiltinArgs = \<lparr>da_EarthVersion = [], da_EarthBuildSha = []\<rparr>, ho_CI = False\<rparr>"

lemma ex_dirs_end: "dirs_end (ex_lenv ef)"
proof -
  have "expandDirs (ex_lenv ef) (Suc 0) dirs \<noteq> Inl LNoFuel" for dirs
    by (cases dirs) (simp_all add: ex_lenv_def rbind_def)
  then show ?thesis by (simp add: dirs_end_def ex_lenv_def)
qed


lemma inj_ex_json: "inj ex_json" "tagged (ex_json xs)"
proof -
  have "list_all tagged (map (Cons CHR '':'') xs)" for xs :: "string list"
    by (simp add: list_all_iff tagged_def is_digit_def)
  then have "writes (map (Cons CHR '':'') xs) = writes (map (Cons CHR '':'') ys) \<Longrightarrow> xs = ys" for xs ys
    using writes_inj [of "map (Cons CHR '':'') xs" "map (Cons CHR '':'') ys"] by (simp add: inj_map_eq_map)
  then show "inj ex_json" by (auto simp: inj_def ex_json_def)
  show "tagged (ex_json xs)" by (simp add: ex_json_def tagged_def is_digit_def)
qed


end
