(* ===== verification/Circ_Buf.thy ===== *)
theory Circ_Buf
  imports Prelude
begin

text \<open>
  The bounded log buffer, \<^verbatim>\<open>internal/circbuf/circbuf.go\<close>. \<open>cb_arr\<close> is the array behind the slice
  \<open>b.buf\<close>, whose length is the capacity; the slice is its first \<open>cb_len\<close> elements. The buffer
  refines a list that keeps its last elements: \<open>Write\<close> appends and forgets the oldest bytes.
\<close>

record Buffer =
  cb_arr :: "char list"
  cb_len :: nat
  cb_off :: nat

datatype circbuf_error = ErrInvalidSize

text \<open>\<open>make([]byte, 0, size)\<close> is an array of zero bytes.\<close>

definition NewBuffer :: "int \<Rightarrow> circbuf_error + Buffer" where
  "NewBuffer sz =
    (if sz \<le> 0 then Inl ErrInvalidSize
     else Inr \<lparr>cb_arr = replicate (nat sz) CHR 0x00, cb_len = 0, cb_off = 0\<rparr>)"

text \<open>\<open>copy(dst[i:], src)\<close>: as many bytes as fit.\<close>

definition copy_at :: "'a list \<Rightarrow> nat \<Rightarrow> 'a list \<Rightarrow> 'a list" where
  "copy_at dst i src = take i dst @ take (length dst - i) src @ drop (i + length src) dst"

text \<open>The third phase of \<open>Write\<close>, on a full buffer.\<close>

definition Write_ring :: "char list \<Rightarrow> Buffer \<Rightarrow> Buffer" where
  "Write_ring p b =
    (let sz = length (cb_arr b);
         rem = sz - cb_off b;
         arr = copy_at (cb_arr b) (cb_off b) p;
         arr = (if length p > rem then copy_at arr 0 (drop rem p) else arr);
         off = cb_off b + length p
     in b\<lparr>cb_arr := arr, cb_off := (if off \<ge> sz then off - sz else off)\<rparr>)"

definition Write :: "char list \<Rightarrow> Buffer \<Rightarrow> Buffer" where
  "Write p b =
    (let n = length p; sz = length (cb_arr b); free = sz - cb_len b in
     if sz = 0 then b
     else if n \<ge> sz then b\<lparr>cb_len := sz, cb_off := 0, cb_arr := copy_at (cb_arr b) 0 (drop (n - sz) p)\<rparr>
     else if free > 0 then
       if n \<le> free then b\<lparr>cb_len := cb_len b + n, cb_arr := copy_at (cb_arr b) (cb_len b) p\<rparr>
       else Write_ring (drop free p)
         (b\<lparr>cb_len := sz, cb_arr := copy_at (cb_arr b) (cb_len b) (take free p), cb_off := 0\<rparr>)
     else Write_ring p b)"

definition Bytes :: "Buffer \<Rightarrow> char list" where
  "Bytes b =
    (let sz = length (cb_arr b) in
     if sz = 0 \<or> cb_len b < sz then take (cb_len b) (cb_arr b)
     else copy_at (copy_at (replicate sz CHR 0x00) 0 (drop (cb_off b) (cb_arr b))) (sz - cb_off b) (take (cb_off b) (cb_arr b)))"

section \<open>The last elements of a list\<close>

definition lastn :: "nat \<Rightarrow> 'a list \<Rightarrow> 'a list" where
  "lastn n xs = drop (length xs - n) xs"

lemma lastn_short [simp]: "length xs \<le> n \<Longrightarrow> lastn n xs = xs"
  by (simp add: lastn_def)

lemma lastn_append: "lastn n (xs @ ys) = (if n \<le> length ys then lastn n ys else lastn (n - length ys) xs @ ys)"
  by (auto simp: lastn_def)

lemma lastn_lastn: "lastn n (lastn n xs @ ys) = lastn n (xs @ ys)"
  by (cases "n \<le> length xs") (auto simp: lastn_def add.commute)

section \<open>The invariant\<close>

definition buffer_ok :: "Buffer \<Rightarrow> bool" where
  "buffer_ok b \<longleftrightarrow> 0 < length (cb_arr b) \<and> cb_len b \<le> length (cb_arr b) \<and> cb_off b < length (cb_arr b) \<and>
    (cb_len b < length (cb_arr b) \<longrightarrow> cb_off b = 0)"

lemma length_copy_at [simp]: "i + length src \<le> length dst \<Longrightarrow> length (copy_at dst i src) = length dst"
  by (simp add: copy_at_def)

lemma Bytes_full:
  "buffer_ok b \<Longrightarrow> cb_len b = length (cb_arr b) \<Longrightarrow> Bytes b = drop (cb_off b) (cb_arr b) @ take (cb_off b) (cb_arr b)"
  by (simp add: Bytes_def buffer_ok_def copy_at_def Let_def)

lemma Bytes_part: "cb_len b < length (cb_arr b) \<Longrightarrow> Bytes b = take (cb_len b) (cb_arr b)"
  by (simp add: Bytes_def Let_def)

text \<open>A full ring turned by the bytes that are written.\<close>

lemma Write_ring_Bytes:
  assumes "buffer_ok b" "cb_len b = length (cb_arr b)" "length p < length (cb_arr b)"
  shows "buffer_ok (Write_ring p b)" "cb_len (Write_ring p b) = length (cb_arr (Write_ring p b))"
    "length (cb_arr (Write_ring p b)) = length (cb_arr b)"
    "Bytes (Write_ring p b) = drop (length p) (Bytes b) @ p"
proof -
  let ?a = "cb_arr b" and ?o = "cb_off b"
  have o: "?o < length ?a" using assms(1) by (simp add: buffer_ok_def)
  have arr: "cb_arr (Write_ring p b) =
      (if length p \<le> length ?a - ?o then take ?o ?a @ p @ drop (?o + length p) ?a
       else drop (length ?a - ?o) p @ drop (length p - (length ?a - ?o)) (take ?o ?a) @ take (length ?a - ?o) p)"
    using o assms(3) by (auto simp: Write_ring_def Let_def copy_at_def)
  have off: "cb_off (Write_ring p b) = (if ?o + length p \<ge> length ?a then ?o + length p - length ?a else ?o + length p)"
    by (simp add: Write_ring_def Let_def)
  show len: "length (cb_arr (Write_ring p b)) = length ?a" unfolding arr using o assms(3) by auto
  show full: "cb_len (Write_ring p b) = length (cb_arr (Write_ring p b))" using len assms(2) by (simp add: Write_ring_def Let_def)
  show ok: "buffer_ok (Write_ring p b)" using o assms(3) len full off by (auto simp: buffer_ok_def)
  show "Bytes (Write_ring p b) = drop (length p) (Bytes b) @ p"
    unfolding Bytes_full [OF ok full] Bytes_full [OF assms(1,2)] arr off
    using o assms(3) by (auto simp: drop_take add.commute)
qed

lemma Write_ok:
  assumes "buffer_ok b"
  shows "buffer_ok (Write p b) \<and> length (cb_arr (Write p b)) = length (cb_arr b) \<and>
    Bytes (Write p b) = lastn (length (cb_arr b)) (Bytes b @ p)"
proof -
  let ?n = "length (cb_arr b)" and ?m = "cb_len b"
  have n: "0 < ?n" "?m \<le> ?n" "cb_off b < ?n" using assms by (auto simp: buffer_ok_def)
  consider "?n \<le> length p" | "length p < ?n" "?m < ?n" "length p \<le> ?n - ?m"
    | "length p < ?n" "?m < ?n" "?n - ?m < length p" | "length p < ?n" "?m = ?n"
    using n by linarith
  then show ?thesis
  proof cases
    case 1
    then have w: "Write p b = b\<lparr>cb_len := ?n, cb_off := 0, cb_arr := lastn ?n p\<rparr>"
      using n by (simp add: Write_def Let_def copy_at_def lastn_def)
    have "length (lastn ?n p) = ?n" using 1 by (simp add: lastn_def)
    then show ?thesis using 1 n by (simp add: w buffer_ok_def Bytes_full lastn_append)
  next
    case 2
    then have w: "Write p b = b\<lparr>cb_len := ?m + length p, cb_arr := copy_at (cb_arr b) ?m p\<rparr>"
      using n by (simp add: Write_def Let_def)
    have len: "length (copy_at (cb_arr b) ?m p) = ?n" using 2 by simp
    have "Bytes (Write p b) = take ?m (cb_arr b) @ p"
    proof (cases "?m + length p = ?n")
      case True
      have "cb_off b = 0" using 2 assms by (simp add: buffer_ok_def)
      moreover have "buffer_ok (Write p b)" using w len n True by (simp add: buffer_ok_def)
      ultimately show ?thesis using w len True 2 by (simp add: Bytes_full copy_at_def)
    next
      case False
      then show ?thesis using 2 w len by (simp add: Bytes_part copy_at_def)
    qed
    then show ?thesis using 2 w len n assms by (simp add: buffer_ok_def Bytes_part)
  next
    case 3
    let ?f = "?n - ?m"
    let ?b = "b\<lparr>cb_len := ?n, cb_arr := copy_at (cb_arr b) ?m (take ?f p), cb_off := 0\<rparr>"
    have w: "Write p b = Write_ring (drop ?f p) ?b" using 3 n by (simp add: Write_def Let_def)
    have arr: "cb_arr ?b = take ?m (cb_arr b) @ take ?f p" using 3 by (simp add: copy_at_def)
    then have len: "length (cb_arr ?b) = ?n" using 3 by simp
    then have ok: "buffer_ok ?b" using n by (simp add: buffer_ok_def)
    have bytes: "Bytes ?b = take ?m (cb_arr b) @ take ?f p" using Bytes_full [OF ok] len arr by simp
    have "length (drop ?f p) < length (cb_arr ?b)" using 3 len by simp
    note ring = Write_ring_Bytes [OF ok _ this]
    show ?thesis using ring len 3 by (simp add: w bytes Bytes_part [OF 3(2)] lastn_def add.commute)
  next
    case 4
    then have w: "Write p b = Write_ring p b" using n by (simp add: Write_def Let_def)
    have "length (Bytes b) = ?n" using 4 assms by (simp add: Bytes_full)
    then show ?thesis using Write_ring_Bytes [OF assms 4(2,1)] 4(1) by (simp add: w lastn_def)
  qed
qed

section \<open>Refinement\<close>

text \<open>
  C24. A buffer of a positive size holds the last bytes that were written to it, as many as its size,
  in the order in which they were written; \<open>NewBuffer\<close> refuses every other size.
\<close>

theorem circbuf_refines_tail:
  "(case NewBuffer n of
      Inl e \<Rightarrow> n \<le> 0
    | Inr b \<Rightarrow> Bytes (foldl (\<lambda>b p. Write p b) b ps) = lastn (nat n) (concat ps))"
proof (cases "n \<le> 0")
  case False
  define b where "b = \<lparr>cb_arr = replicate (nat n) CHR 0x00, cb_len = 0, cb_off = 0\<rparr>"
  have b: "buffer_ok b" "length (cb_arr b) = nat n" "Bytes b = []"
    using False by (simp_all add: b_def buffer_ok_def Bytes_part)
  have "Bytes (foldl (\<lambda>b p. Write p b) c ps) = lastn (nat n) (Bytes c @ concat ps)"
    if "buffer_ok c" "length (cb_arr c) = nat n" "length (Bytes c) \<le> nat n" for c
    using that
  proof (induction ps arbitrary: c)
    case (Cons p ps)
    have "length (lastn (nat n) (Bytes c @ p)) \<le> nat n" by (simp add: lastn_def)
    then show ?case using Cons.IH [of "Write p c"] Write_ok [OF Cons.prems(1), of p] Cons.prems(2) by (simp add: lastn_lastn)
  qed simp
  from this [OF b(1,2)] show ?thesis using False b(3) by (simp add: NewBuffer_def b_def)
qed (simp add: NewBuffer_def)

end
