(* ===== verification/Sync_Cache.thy ===== *)
theory Sync_Cache
  imports Prelude
begin

text \<open>
  The shared cache of loaded values, \<^verbatim>\<open>internal/synccache/cache.go\<close>, with the cancellation of
  loads of \<^verbatim>\<open>internal/synccache/inflight.go\<close>. The callers of \<open>Load\<close> and the goroutines that
  load run concurrently: a state holds the store, the entries with the phase of their loading
  goroutine, the callers with their place in \<open>Load\<close>, and the set of contexts that are done.
  A step is one section under a lock, one operation on a channel, or one call of a loader, whose
  outcome is arbitrary. Contexts, callers and entries are numbers; an entry has a number that no
  entry had before, as a pointer of Go.
\<close>

section \<open>Loads in flight\<close>

text \<open>\<open>inf_stops\<close> has an element for every context that was added, with a mark when its callback has
  run. \<open>inf_canceled\<close> is the state of the context of the load. \<open>inf_firstDone\<close> says whether the
  first error is set.\<close>

record inflight =
  inf_stops :: "(nat \<times> bool) list"
  inf_numDone :: nat
  inf_firstDone :: bool
  inf_closed :: bool
  inf_canceled :: bool

definition empty_inflight :: inflight where
  "empty_inflight = \<lparr>inf_stops = [], inf_numDone = 0, inf_firstDone = False, inf_closed = False, inf_canceled = False\<rparr>"

text \<open>\<open>add\<close> tells whether the context was added; the error it returns is not used.\<close>

definition inf_add :: "nat set \<Rightarrow> nat \<Rightarrow> inflight \<Rightarrow> bool \<times> inflight" where
  "inf_add done ctx i =
    (if inf_closed i then (False, i)
     else if ctx \<in> done then (False, i)
     else (True, i\<lparr>inf_stops := inf_stops i @ [(ctx, False)]\<rparr>))"

definition newInflight :: "nat set \<Rightarrow> nat \<Rightarrow> bool \<times> inflight" where
  "newInflight done firstCtx =
    (case inf_add done firstCtx empty_inflight of (ok, i) \<Rightarrow>
       (ok, if ok then i else i\<lparr>inf_closed := True, inf_firstDone := True, inf_canceled := True\<rparr>))"

definition inf_close :: "inflight \<Rightarrow> inflight" where
  "inf_close i = (if inf_closed i then i else i\<lparr>inf_closed := True, inf_stops := [], inf_canceled := True\<rparr>)"

text \<open>The callback of the context at an index of \<open>inf_stops\<close>.\<close>

definition onSubDone :: "nat \<Rightarrow> inflight \<Rightarrow> inflight" where
  "onSubDone idx i =
    (if inf_closed i then i
     else
       let i = i\<lparr>inf_stops := (inf_stops i)[idx := (fst (inf_stops i ! idx), True)],
                 inf_numDone := inf_numDone i + 1, inf_firstDone := True\<rparr>
       in if inf_numDone i = length (inf_stops i) then i\<lparr>inf_closed := True, inf_canceled := True\<rparr> else i)"

section \<open>Entries and callers\<close>

text \<open>What a loader returns: a value, an error of a context, or another error. A loader that
  panics or exits leaves another error.\<close>

datatype 'v outcome = Val 'v | CtxErr | OtherErr string

text \<open>The phases of the goroutine that loads an entry: created but not yet started, in the loader,
  back from the loader, past the eviction of a failed load, past the closing of \<open>loaded\<close>, past
  \<open>clearInflight\<close>, and finished. An entry made by \<open>Store\<close> has no goroutine.\<close>

datatype phase = Stored | Created | Running | Returned | Evicted | Published | Cleared | Finished

record ('k, 'v) entry =
  en_key :: 'k
  en_result :: "'v outcome option"
  en_phase :: phase
  en_inf :: inflight

definition en_loaded :: "('k, 'v) entry \<Rightarrow> bool" where
  "en_loaded en \<longleftrightarrow> en_phase en \<in> {Stored, Published, Cleared, Finished}"

definition en_inflight :: "('k, 'v) entry \<Rightarrow> bool" where
  "en_inflight en \<longleftrightarrow> en_phase en \<in> {Created, Running, Returned, Evicted, Published}"

text \<open>What \<open>await\<close> and \<open>Load\<close> return: the outcome of the load, or the error of the own context.\<close>

datatype 'v answer = Loaded "'v outcome" | OwnCtx

text \<open>The places of a caller in \<open>Load\<close>. \<open>found\<close> is the result of \<open>getEntry\<close>; the last component of
  \<open>Waiting\<close> says whether the context of the caller was added to the load.\<close>

datatype ('k, 'v) caller =
    Idle
  | Getting 'k nat
  | Missed 'k nat
  | Got 'k nat nat bool bool
  | Waiting 'k nat nat bool bool
  | Awaited 'k nat nat bool "'v answer"
  | Returning 'k nat bool "'v answer"

record ('k, 'v) cache =
  ca_store :: "'k \<rightharpoonup> nat"
  ca_entries :: "nat \<rightharpoonup> ('k, 'v) entry"
  ca_callers :: "nat \<Rightarrow> ('k, 'v) caller"
  ca_done :: "nat set"

definition NewCache :: "('k, 'v) cache" where
  "NewCache = \<lparr>ca_store = Map.empty, ca_entries = Map.empty, ca_callers = (\<lambda>_. Idle), ca_done = {}\<rparr>"

section \<open>Steps\<close>

definition set_caller :: "nat \<Rightarrow> ('k, 'v) caller \<Rightarrow> ('k, 'v) cache \<Rightarrow> ('k, 'v) cache" where
  "set_caller i c s = s\<lparr>ca_callers := (ca_callers s)(i := c)\<rparr>"

definition set_entry :: "nat \<Rightarrow> ('k, 'v) entry \<Rightarrow> ('k, 'v) cache \<Rightarrow> ('k, 'v) cache" where
  "set_entry e en s = s\<lparr>ca_entries := (ca_entries s)(e \<mapsto> en)\<rparr>"

text \<open>The two halves of \<open>getEntry\<close>; \<open>e\<close> is the number of a new entry.\<close>

definition getEntry_read :: "nat \<Rightarrow> 'k \<Rightarrow> nat \<Rightarrow> ('k, 'v) cache \<Rightarrow> ('k, 'v) cache" where
  "getEntry_read i key ctx s =
    (case ca_store s key of
       Some e \<Rightarrow> set_caller i (Got key ctx e True False) s
     | None \<Rightarrow> set_caller i (Missed key ctx) s)"

definition getEntry_lock :: "nat \<Rightarrow> 'k \<Rightarrow> nat \<Rightarrow> nat \<Rightarrow> ('k, 'v) cache \<Rightarrow> ('k, 'v) cache" where
  "getEntry_lock i key ctx e s =
    (case ca_store s key of
       Some e' \<Rightarrow> set_caller i (Got key ctx e' True False) s
     | None \<Rightarrow>
         (case newInflight (ca_done s) ctx of (ok, fl) \<Rightarrow>
            set_caller i (Got key ctx e False ok)
              (set_entry e \<lparr>en_key = key, en_result = None, en_phase = Created, en_inf = fl\<rparr>
                (s\<lparr>ca_store := (ca_store s)(key \<mapsto> e)\<rparr>))))"

text \<open>\<open>go c.load\<close>, or the attachment to the load of another caller. A load that is closed refuses to
  be attached to, so it does not matter when the pointer \<open>e.inflight\<close> was read.\<close>

definition startOrAttach :: "nat \<Rightarrow> 'k \<Rightarrow> nat \<Rightarrow> nat \<Rightarrow> bool \<Rightarrow> bool \<Rightarrow> ('k, 'v) entry \<Rightarrow> ('k, 'v) cache \<Rightarrow> ('k, 'v) cache" where
  "startOrAttach i key ctx e found att en s =
    (if \<not> found then set_caller i (Waiting key ctx e False att) (set_entry e (en\<lparr>en_phase := Running\<rparr>) s)
     else if en_inflight en then
       (case inf_add (ca_done s) ctx (en_inf en) of (ok, fl) \<Rightarrow>
          set_caller i (Waiting key ctx e True ok) (set_entry e (en\<lparr>en_inf := fl\<rparr>) s))
     else set_caller i (Waiting key ctx e True False) s)"

text \<open>The end of the loop of \<open>Load\<close>.\<close>

definition afterAwait :: "nat \<Rightarrow> 'k \<Rightarrow> nat \<Rightarrow> bool \<Rightarrow> 'v answer \<Rightarrow> ('k, 'v) cache \<Rightarrow> ('k, 'v) cache" where
  "afterAwait i key ctx found a s =
    (case a of
       Loaded (Val v) \<Rightarrow> set_caller i (Returning key ctx found a) s
     | _ \<Rightarrow>
         if ctx \<in> ca_done s then set_caller i (Returning key ctx found OwnCtx) s
         else if found \<and> a = Loaded CtxErr then set_caller i (Getting key ctx) s
         else set_caller i (Returning key ctx found a) s)"

text \<open>The loading goroutine after its loader has returned.\<close>

definition evict :: "nat \<Rightarrow> ('k, 'v) entry \<Rightarrow> ('k, 'v) cache \<Rightarrow> ('k, 'v) cache" where
  "evict e en s =
    set_entry e (en\<lparr>en_phase := Evicted\<rparr>)
      (if en_result en = Some CtxErr then s\<lparr>ca_store := (ca_store s)(en_key en := None)\<rparr> else s)"

text \<open>\<open>Store\<close> returns whether the key was free.\<close>

definition Cache_Store :: "'k \<Rightarrow> 'v \<Rightarrow> nat \<Rightarrow> ('k, 'v) cache \<Rightarrow> bool \<times> ('k, 'v) cache" where
  "Cache_Store key v e s =
    (if ca_store s key \<noteq> None then (False, s)
     else (True, set_entry e \<lparr>en_key = key, en_result = Some (Val v), en_phase = Stored, en_inf = empty_inflight\<rparr>
       (s\<lparr>ca_store := (ca_store s)(key \<mapsto> e)\<rparr>)))"

text \<open>The steps of the cache itself: of the callers, the loading goroutines and the callbacks.\<close>

inductive internal :: "('k, 'v) cache \<Rightarrow> ('k, 'v) cache \<Rightarrow> bool" where
  read: "ca_callers s i = Getting key ctx \<Longrightarrow> internal s (getEntry_read i key ctx s)"
| lock: "ca_callers s i = Missed key ctx \<Longrightarrow> ca_entries s e = None \<Longrightarrow> internal s (getEntry_lock i key ctx e s)"
| start: "ca_callers s i = Got key ctx e found att \<Longrightarrow> ca_entries s e = Some en \<Longrightarrow>
    internal s (startOrAttach i key ctx e found att en s)"
| loader: "ca_entries s e = Some en \<Longrightarrow> en_phase en = Running \<Longrightarrow>
    internal s (set_entry e (en\<lparr>en_result := Some r, en_phase := Returned\<rparr>) s)"
| eviction: "ca_entries s e = Some en \<Longrightarrow> en_phase en = Returned \<Longrightarrow> internal s (evict e en s)"
| publish: "ca_entries s e = Some en \<Longrightarrow> en_phase en = Evicted \<Longrightarrow> internal s (set_entry e (en\<lparr>en_phase := Published\<rparr>) s)"
| clear: "ca_entries s e = Some en \<Longrightarrow> en_phase en = Published \<Longrightarrow> internal s (set_entry e (en\<lparr>en_phase := Cleared\<rparr>) s)"
| close_inf: "ca_entries s e = Some en \<Longrightarrow> en_phase en = Cleared \<Longrightarrow>
    internal s (set_entry e (en\<lparr>en_phase := Finished, en_inf := inf_close (en_inf en)\<rparr>) s)"
| callback: "ca_entries s e = Some en \<Longrightarrow> idx < length (inf_stops (en_inf en)) \<Longrightarrow>
    inf_stops (en_inf en) ! idx = (ctx, False) \<Longrightarrow> ctx \<in> ca_done s \<Longrightarrow>
    internal s (set_entry e (en\<lparr>en_inf := onSubDone idx (en_inf en)\<rparr>) s)"
| await_loaded: "ca_callers s i = Waiting key ctx e found att \<Longrightarrow> ca_entries s e = Some en \<Longrightarrow> en_loaded en \<Longrightarrow>
    en_result en = Some r \<Longrightarrow> internal s (set_caller i (Awaited key ctx e found (Loaded r)) s)"
| await_done: "ca_callers s i = Waiting key ctx e found att \<Longrightarrow> ca_entries s e = Some en \<Longrightarrow> \<not> en_loaded en \<Longrightarrow>
    ctx \<in> ca_done s \<Longrightarrow> internal s (set_caller i (Awaited key ctx e found OwnCtx) s)"
| after: "ca_callers s i = Awaited key ctx e found a \<Longrightarrow> internal s (afterAwait i key ctx found a s)"

text \<open>The steps of the world around it: a call of \<open>Load\<close> or \<open>Store\<close>, and a context that ends.\<close>

inductive cache_step :: "('k, 'v) cache \<Rightarrow> ('k, 'v) cache \<Rightarrow> bool" where
  internal: "internal s t \<Longrightarrow> cache_step s t"
| call: "ca_callers s i = Idle \<Longrightarrow> cache_step s (set_caller i (Getting key ctx) s)"
| storing: "ca_entries s e = None \<Longrightarrow> cache_step s (snd (Cache_Store key v e s))"
| ending: "cache_step s (s\<lparr>ca_done := insert ctx (ca_done s)\<rparr>)"

inductive cache_reachable :: "('k, 'v) cache \<Rightarrow> bool" where
  cache_init: "cache_reachable NewCache"
| cache_next: "cache_reachable s \<Longrightarrow> cache_step s t \<Longrightarrow> cache_reachable t"

end
