(* ===== verification/Sync_Correct.thy ===== *)
theory Sync_Correct
  imports Sync_Cache
begin

text \<open>
  The invariant of the shared cache and what follows from it: a key has one load at a time, an
  eviction removes the entry of its own load, a load is only cancelled when every context that was
  added to it is done, and every call of \<open>Load\<close> can return.
\<close>

inductive_cases internalE: "internal s t"
inductive_cases cache_stepE: "cache_step s t"

section \<open>The invariant of a load in flight\<close>

definition inf_ok :: "nat set \<Rightarrow> inflight \<Rightarrow> bool" where
  "inf_ok ds i \<longleftrightarrow> inf_numDone i = length (filter snd (inf_stops i)) \<and>
     (\<forall>(c, f) \<in> set (inf_stops i). f \<longrightarrow> c \<in> ds) \<and> inf_canceled i = inf_closed i"

text \<open>A load that is cancelled before it has ended has only contexts that are done.\<close>

definition inf_lively :: "nat set \<Rightarrow> inflight \<Rightarrow> bool" where
  "inf_lively ds i \<longleftrightarrow> (inf_canceled i \<longrightarrow> fst ` set (inf_stops i) \<subseteq> ds)"

lemma empty_inflight_ok [simp]: "inf_ok ds empty_inflight" "inf_lively ds empty_inflight"
  by (auto simp: inf_ok_def inf_lively_def empty_inflight_def)

lemma inf_add_ok:
  assumes "inf_ok ds i" "inf_lively ds i" "inf_add ds ctx i = (b, i')"
  shows "inf_ok ds i' \<and> inf_lively ds i' \<and> fst ` set (inf_stops i) \<subseteq> fst ` set (inf_stops i') \<and>
    (b \<longrightarrow> ctx \<in> fst ` set (inf_stops i')) \<and> (\<not> b \<longrightarrow> ctx \<in> ds \<or> inf_closed i) \<and> inf_closed i' = inf_closed i"
  using assms by (auto simp: inf_add_def inf_ok_def inf_lively_def split: if_splits)

lemma newInflight_ok:
  assumes "newInflight ds ctx = (b, i)"
  shows "inf_ok ds i \<and> inf_lively ds i \<and> (b \<longrightarrow> ctx \<in> fst ` set (inf_stops i)) \<and> (\<not> b \<longrightarrow> ctx \<in> ds)"
  using assms by (auto simp: newInflight_def inf_add_def inf_ok_def inf_lively_def empty_inflight_def split: if_splits)

lemma filter_snd_update:
  "idx < length xs \<Longrightarrow> xs ! idx = (c, False) \<Longrightarrow> length (filter snd (xs[idx := (c, True)])) = Suc (length (filter snd xs))"
  by (induction xs arbitrary: idx) (auto split: nat.splits)

lemma all_fired: "length (filter snd xs) = length xs \<Longrightarrow> (c, f) \<in> set xs \<Longrightarrow> f"
  by (metis filter_True length_filter_less less_irrefl snd_conv)

lemma onSubDone_ok:
  assumes "inf_ok ds i" "inf_lively ds i" "idx < length (inf_stops i)" "inf_stops i ! idx = (ctx, False)" "ctx \<in> ds"
  shows "inf_ok ds (onSubDone idx i)" "inf_lively ds (onSubDone idx i)"
    "fst ` set (inf_stops (onSubDone idx i)) = fst ` set (inf_stops i)"
proof -
  let ?xs = "(inf_stops i)[idx := (ctx, True)]"
  have fst: "map fst ?xs = map fst (inf_stops i)"
    using assms(3,4) by (simp add: map_update list_update_same_conv nth_map)
  have num: "length (filter snd ?xs) = Suc (length (filter snd (inf_stops i)))"
    using assms by (simp add: filter_snd_update)
  have mem: "\<forall>(c, f) \<in> set ?xs. f \<longrightarrow> c \<in> ds"
    using assms set_update_subset_insert [of "inf_stops i" idx "(ctx, True)"] by (fastforce simp: inf_ok_def)
  show stops: "fst ` set (inf_stops (onSubDone idx i)) = fst ` set (inf_stops i)"
    using arg_cong [OF fst, of set] assms(4) by (simp add: onSubDone_def Let_def)
  show "inf_ok ds (onSubDone idx i)"
    using assms num mem by (auto simp: inf_ok_def onSubDone_def Let_def)
  have "fst ` set ?xs \<subseteq> ds" if "length (filter snd ?xs) = length ?xs"
    using mem all_fired [OF that] by fastforce
  then show "inf_lively ds (onSubDone idx i)"
    using assms num by (auto simp: inf_lively_def onSubDone_def Let_def inf_ok_def)
qed

section \<open>The invariant of the cache\<close>

definition uncached :: "('k, 'v) entry \<Rightarrow> bool" where
  "uncached en \<longleftrightarrow> en_phase en \<in> {Evicted, Published, Cleared, Finished} \<and> en_result en = Some CtxErr"

definition entry_ok :: "('k, 'v) cache \<Rightarrow> nat \<Rightarrow> ('k, 'v) entry \<Rightarrow> bool" where
  "entry_ok s e en \<longleftrightarrow>
     (en_result en = None \<longleftrightarrow> en_phase en \<in> {Created, Running}) \<and>
     (en_phase en = Stored \<longrightarrow> (\<exists>v. en_result en = Some (Val v))) \<and>
     (ca_store s (en_key en) = Some e \<longleftrightarrow> \<not> uncached en) \<and>
     (en_phase en \<noteq> Finished \<longrightarrow> inf_ok (ca_done s) (en_inf en) \<and> inf_lively (ca_done s) (en_inf en))"

text \<open>What a caller knows of the entry it has.\<close>

fun caller_ok :: "(nat \<rightharpoonup> ('k, 'v) entry) \<Rightarrow> nat set \<Rightarrow> ('k, 'v) caller \<Rightarrow> bool" where
  "caller_ok es ds (Got key ctx e found att) \<longleftrightarrow>
     (\<exists>en. es e = Some en \<and> en_key en = key \<and> (if found then \<not> att else
        en_phase en = Created \<and> (if att then ctx \<in> fst ` set (inf_stops (en_inf en)) else ctx \<in> ds)))"
| "caller_ok es ds (Waiting key ctx e found att) \<longleftrightarrow>
     (\<exists>en. es e = Some en \<and> en_key en = key \<and> (\<not> found \<longrightarrow> en_phase en \<notin> {Created, Stored}) \<and>
        (att \<longrightarrow> en_phase en = Finished \<or> ctx \<in> fst ` set (inf_stops (en_inf en))) \<and> (\<not> att \<and> \<not> found \<longrightarrow> ctx \<in> ds))"
| "caller_ok es ds (Awaited key ctx e found a) \<longleftrightarrow>
     (\<exists>en. es e = Some en \<and> en_key en = key \<and> (case a of OwnCtx \<Rightarrow> ctx \<in> ds | Loaded r \<Rightarrow> en_result en = Some r \<and> en_loaded en))"
| "caller_ok es ds (Returning key ctx found a) \<longleftrightarrow>
     (case a of OwnCtx \<Rightarrow> ctx \<in> ds | Loaded r \<Rightarrow> (r = CtxErr \<longrightarrow> \<not> found) \<and> (\<exists>e en. es e = Some en \<and> en_key en = key \<and> en_result en = Some r))"
| "caller_ok es ds c \<longleftrightarrow> True"

text \<open>The caller that has made an entry and has not yet started its load.\<close>

fun owner_of :: "nat \<Rightarrow> ('k, 'v) caller \<Rightarrow> bool" where
  "owner_of e (Got key ctx e' found att) \<longleftrightarrow> e' = e \<and> \<not> found"
| "owner_of e c \<longleftrightarrow> False"

definition cache_inv :: "('k, 'v) cache \<Rightarrow> bool" where
  "cache_inv s \<longleftrightarrow>
     (\<forall>e en. ca_entries s e = Some en \<longrightarrow> entry_ok s e en) \<and>
     (\<forall>k e. ca_store s k = Some e \<longrightarrow> (\<exists>en. ca_entries s e = Some en \<and> en_key en = k)) \<and>
     (\<forall>i. caller_ok (ca_entries s) (ca_done s) (ca_callers s i)) \<and>
     (\<forall>i j e. owner_of e (ca_callers s i) \<longrightarrow> owner_of e (ca_callers s j) \<longrightarrow> i = j) \<and>
     (\<forall>e en. ca_entries s e = Some en \<longrightarrow> en_phase en = Created \<longrightarrow> (\<exists>i. owner_of e (ca_callers s i)))"

lemma cache_invD:
  assumes "cache_inv s"
  shows "ca_entries s e = Some en \<Longrightarrow> entry_ok s e en"
    "ca_store s k = Some e \<Longrightarrow> \<exists>en. ca_entries s e = Some en \<and> en_key en = k"
    "caller_ok (ca_entries s) (ca_done s) (ca_callers s i)"
    "ca_callers s i = c \<Longrightarrow> caller_ok (ca_entries s) (ca_done s) c"
    "owner_of e (ca_callers s i) \<Longrightarrow> owner_of e (ca_callers s j) \<Longrightarrow> i = j"
    "ca_entries s e = Some en \<Longrightarrow> en_phase en = Created \<Longrightarrow> \<exists>i. owner_of e (ca_callers s i)"
  using assms unfolding cache_inv_def by blast+

lemma cache_invI:
  assumes "\<And>e en. ca_entries s e = Some en \<Longrightarrow> entry_ok s e en"
    "\<And>k e. ca_store s k = Some e \<Longrightarrow> \<exists>en. ca_entries s e = Some en \<and> en_key en = k"
    "\<And>i. caller_ok (ca_entries s) (ca_done s) (ca_callers s i)"
    "\<And>i j e. owner_of e (ca_callers s i) \<Longrightarrow> owner_of e (ca_callers s j) \<Longrightarrow> i = j"
    "\<And>e en. ca_entries s e = Some en \<Longrightarrow> en_phase en = Created \<Longrightarrow> \<exists>i. owner_of e (ca_callers s i)"
  shows "cache_inv s"
  using assms unfolding cache_inv_def by blast

text \<open>How an entry may change.\<close>

definition grows :: "('k, 'v) entry \<Rightarrow> ('k, 'v) entry \<Rightarrow> bool" where
  "grows en en' \<longleftrightarrow> en_key en' = en_key en \<and>
     (en_result en \<noteq> None \<longrightarrow> en_result en' = en_result en) \<and>
     (en_loaded en \<longrightarrow> en_loaded en') \<and>
     (en_phase en \<notin> {Created, Stored} \<longrightarrow> en_phase en' \<notin> {Created, Stored}) \<and>
     (en_phase en' = Finished \<or> en_phase en \<noteq> Finished \<and> fst ` set (inf_stops (en_inf en)) \<subseteq> fst ` set (inf_stops (en_inf en')))"

lemma grows_refl [simp]: "grows en en"
  by (auto simp: grows_def)

lemma caller_ok_mono:
  assumes "caller_ok es ds c" and sub: "ds \<subseteq> ds'"
    and "\<And>e en. es e = Some en \<Longrightarrow> \<exists>en'. es' e = Some en' \<and> grows en en' \<and>
      (owner_of e c \<longrightarrow> en_phase en = Created \<longrightarrow> en_phase en' = Created)"
  shows "caller_ok es' ds' c"
proof (cases c)
  case (Got key ctx e found att)
  with assms(1) obtain en where en: "es e = Some en" by auto
  from assms(3) [OF this] obtain en' where "es' e = Some en'" "grows en en'"
    "\<not> found \<longrightarrow> en_phase en = Created \<longrightarrow> en_phase en' = Created" by (auto simp: Got)
  with en assms(1) sub show ?thesis by (cases found; cases att) (auto simp: Got grows_def)
next
  case (Waiting key ctx e found att)
  with assms(1) obtain en where en: "es e = Some en" by auto
  from assms(3) [OF this] obtain en' where "es' e = Some en'" "grows en en'" by auto
  with en assms(1) sub show ?thesis by (auto simp: Waiting grows_def)
next
  case (Awaited key ctx e found a)
  with assms(1) obtain en where en: "es e = Some en" by auto
  from assms(3) [OF this] obtain en' where "es' e = Some en'" "grows en en'" by auto
  with en assms(1) sub show ?thesis by (auto simp: Awaited grows_def split: answer.splits)
next
  case (Returning key ctx found a)
  show ?thesis
  proof (cases a)
    case (Loaded r)
    with assms(1) Returning obtain e en where en: "es e = Some en" "en_key en = key" "en_result en = Some r" by auto
    from assms(3) [OF en(1)] obtain en' where "es' e = Some en'" "grows en en'" by auto
    with en assms(1) show ?thesis by (auto simp: Returning Loaded grows_def)
  qed (use assms(1) sub Returning in auto)
qed auto

section \<open>Every step keeps the invariant\<close>

lemma set_simps [simp]:
  "ca_store (set_caller i c s) = ca_store s" "ca_entries (set_caller i c s) = ca_entries s"
  "ca_done (set_caller i c s) = ca_done s" "ca_callers (set_caller i c s) = (ca_callers s)(i := c)"
  "ca_store (set_entry e en s) = ca_store s" "ca_entries (set_entry e en s) = (ca_entries s)(e \<mapsto> en)"
  "ca_done (set_entry e en s) = ca_done s" "ca_callers (set_entry e en s) = ca_callers s"
  by (simp_all add: set_caller_def set_entry_def)

lemma entry_ok_cong:
  "ca_store s (en_key en) = ca_store t (en_key en) \<Longrightarrow> ca_done s = ca_done t \<Longrightarrow> entry_ok s e en = entry_ok t e en"
  by (simp add: entry_ok_def)

lemma set_caller_inv:
  assumes inv: "cache_inv s" and ok: "caller_ok (ca_entries s) (ca_done s) c"
    and own: "\<And>e. \<not> owner_of e c" "\<And>e. \<not> owner_of e (ca_callers s i)"
  shows "cache_inv (set_caller i c s)"
proof -
  have "\<exists>j. owner_of e (if j = i then c else ca_callers s j)" if "ca_entries s e = Some en" "en_phase en = Created" for e en
    using cache_invD(6) [OF inv that] own by metis
  with inv ok own show ?thesis
    unfolding cache_inv_def by (simp add: entry_ok_cong [of "set_caller i c s" _ s])
qed

lemma set_entry_inv:
  assumes inv: "cache_inv s" and en: "ca_entries s e = Some en" and ok: "entry_ok s e en'" and gr: "grows en en'"
    and cr: "en_phase en = Created \<longleftrightarrow> en_phase en' = Created"
  shows "cache_inv (set_entry e en' s)"
proof (rule cache_invI)
  fix i
  show "caller_ok (ca_entries (set_entry e en' s)) (ca_done (set_entry e en' s)) (ca_callers (set_entry e en' s) i)"
    using en gr cr by (auto intro!: caller_ok_mono [OF cache_invD(3) [OF inv]])
next
  fix k d assume "ca_store (set_entry e en' s) k = Some d"
  then show "\<exists>en. ca_entries (set_entry e en' s) d = Some en \<and> en_key en = k"
    using cache_invD(2) [OF inv] en gr by (force simp: grows_def)
next
  fix d dn assume "ca_entries (set_entry e en' s) d = Some dn"
  then show "entry_ok (set_entry e en' s) d dn"
    using cache_invD(1) [OF inv] ok by (auto simp: entry_ok_cong [of "set_entry e en' s" _ s] split: if_splits)
next
  fix d dn assume "ca_entries (set_entry e en' s) d = Some dn" "en_phase dn = Created"
  then show "\<exists>i. owner_of d (ca_callers (set_entry e en' s) i)"
    using cache_invD(6) [OF inv] en cr by (auto split: if_splits)
qed (use cache_invD(5) [OF inv] in auto)

text \<open>A new entry for a key that has none: the entries that were there keep what they knew.\<close>

lemma new_entry_ok:
  assumes "cache_inv s" "ca_entries s e = None" "ca_store s k = None" "ca_entries s d = Some dn"
  shows "entry_ok (s\<lparr>ca_store := (ca_store s)(k \<mapsto> e)\<rparr>) d dn"
  using cache_invD(1) [OF assms(1,4)] assms(2-4) by (auto simp: entry_ok_def)

lemma new_caller_ok:
  assumes "cache_inv s" "ca_entries s e = None"
  shows "caller_ok ((ca_entries s)(e \<mapsto> en)) (ca_done s) (ca_callers s i)"
  using assms(2) by (auto intro!: caller_ok_mono [OF cache_invD(3) [OF assms(1)]])

lemma no_owner_yet:
  assumes "cache_inv s" "ca_entries s e = None"
  shows "\<not> owner_of e (ca_callers s i)"
  using cache_invD(3) [OF assms(1), of i] assms(2) by (cases "ca_callers s i") (auto split: if_splits)

lemma Cache_Store_inv:
  assumes inv: "cache_inv s" and fresh: "ca_entries s e = None"
  shows "cache_inv (snd (Cache_Store k v e s))"
proof (cases "ca_store s k")
  case None
  then have "cache_inv (set_entry e \<lparr>en_key = k, en_result = Some (Val v), en_phase = Stored, en_inf = empty_inflight\<rparr>
       (s\<lparr>ca_store := (ca_store s)(k \<mapsto> e)\<rparr>))" (is "cache_inv ?t")
  proof (intro cache_invI)
    fix d dn assume "ca_entries ?t d = Some dn"
    then show "entry_ok ?t d dn"
      using new_entry_ok [OF inv fresh None, of d dn] by (cases "d = e") (auto simp: entry_ok_def uncached_def)
  next
    fix j d assume "ca_store ?t j = Some d"
    then show "\<exists>en. ca_entries ?t d = Some en \<and> en_key en = j"
      using cache_invD(2) [OF inv] fresh by (fastforce split: if_splits)
  next
    fix d dn assume "ca_entries ?t d = Some dn" "en_phase dn = Created"
    then show "\<exists>i. owner_of d (ca_callers ?t i)"
      using cache_invD(6) [OF inv] by (auto split: if_splits)
  qed (use new_caller_ok [OF inv fresh] cache_invD(5) [OF inv] in auto)
  with None show ?thesis by (simp add: Cache_Store_def)
qed (simp add: Cache_Store_def inv)

lemma getEntry_lock_inv:
  assumes inv: "cache_inv s" and fresh: "ca_entries s e = None" and c: "ca_callers s i = Missed k ctx"
  shows "cache_inv (getEntry_lock i k ctx e s)"
proof (cases "ca_store s k")
  case (Some d)
  then show ?thesis
    using cache_invD(2) [OF inv Some] c by (auto simp: getEntry_lock_def intro!: set_caller_inv inv)
next
  case None
  obtain ok fl where fl: "newInflight (ca_done s) ctx = (ok, fl)" by (cases "newInflight (ca_done s) ctx")
  note flok = newInflight_ok [OF fl]
  let ?t = "set_caller i (Got k ctx e False ok)
     (set_entry e \<lparr>en_key = k, en_result = None, en_phase = Created, en_inf = fl\<rparr> (s\<lparr>ca_store := (ca_store s)(k \<mapsto> e)\<rparr>))"
  have "cache_inv ?t"
  proof (intro cache_invI)
    fix d dn assume "ca_entries ?t d = Some dn"
    then show "entry_ok ?t d dn"
      using new_entry_ok [OF inv fresh None, of d dn] flok by (cases "d = e") (auto simp: entry_ok_def uncached_def)
  next
    fix j d assume "ca_store ?t j = Some d"
    then show "\<exists>en. ca_entries ?t d = Some en \<and> en_key en = j"
      using cache_invD(2) [OF inv] fresh by (fastforce split: if_splits)
  next
    fix d dn assume "ca_entries ?t d = Some dn" "en_phase dn = Created"
    then show "\<exists>i. owner_of d (ca_callers ?t i)"
      using cache_invD(6) [OF inv] c by (fastforce split: if_splits)
  next
    fix j
    show "caller_ok (ca_entries ?t) (ca_done ?t) (ca_callers ?t j)"
      using new_caller_ok [OF inv fresh] flok by auto
  next
    fix j j' d assume "owner_of d (ca_callers ?t j)" "owner_of d (ca_callers ?t j')"
    then show "j = j'"
      using no_owner_yet [OF inv fresh] cache_invD(5) [OF inv] by (auto split: if_splits)
  qed
  with None fl show ?thesis by (simp add: getEntry_lock_def)
qed

lemma getEntry_read_inv:
  assumes "cache_inv s" "ca_callers s i = Getting k ctx"
  shows "cache_inv (getEntry_read i k ctx s)"
  using assms cache_invD(2) [OF assms(1), of k]
  by (auto simp: getEntry_read_def intro!: set_caller_inv split: option.split)

lemma startOrAttach_inv:
  assumes inv: "cache_inv s" and c: "ca_callers s i = Got k ctx e found att" and en: "ca_entries s e = Some en"
  shows "cache_inv (startOrAttach i k ctx e found att en s)"
proof (cases found)
  case True
  note ok = cache_invD(1) [OF inv en] cache_invD(4) [OF inv c]
  show ?thesis
  proof (cases "en_inflight en")
    case infl: True
    obtain b fl where fl: "inf_add (ca_done s) ctx (en_inf en) = (b, fl)" by (cases "inf_add (ca_done s) ctx (en_inf en)")
    have flok: "inf_ok (ca_done s) fl \<and> inf_lively (ca_done s) fl \<and> fst ` set (inf_stops (en_inf en)) \<subseteq> fst ` set (inf_stops fl) \<and>
        (b \<longrightarrow> ctx \<in> fst ` set (inf_stops fl))"
      using ok(1) infl inf_add_ok [OF _ _ fl] by (auto simp: entry_ok_def en_inflight_def)
    have "cache_inv (set_entry e (en\<lparr>en_inf := fl\<rparr>) s)"
      using ok(1) flok infl
      by (intro set_entry_inv [OF inv en]) (auto simp: entry_ok_def grows_def uncached_def en_loaded_def en_inflight_def)
    then have "cache_inv (set_caller i (Waiting k ctx e True b) (set_entry e (en\<lparr>en_inf := fl\<rparr>) s))"
      by (rule set_caller_inv) (use c ok(2) en flok True in auto)
    with infl fl True show ?thesis by (simp add: startOrAttach_def)
  next
    case False
    with True ok en c show ?thesis by (auto simp: startOrAttach_def intro!: set_caller_inv inv)
  qed
next
  case False
  let ?en = "en\<lparr>en_phase := Running\<rparr>"
  let ?t = "set_caller i (Waiting k ctx e False att) (set_entry e ?en s)"
  note ok = cache_invD(1) [OF inv en] cache_invD(4) [OF inv c]
  have others: "\<not> owner_of e (ca_callers s j)" if "j \<noteq> i" for j
    using cache_invD(5) [OF inv, of e i j] c False that by auto
  have "cache_inv ?t"
  proof (intro cache_invI)
    fix d dn assume "ca_entries ?t d = Some dn"
    then show "entry_ok ?t d dn"
      using cache_invD(1) [OF inv, of d dn] ok False en by (cases "d = e") (auto simp: entry_ok_def uncached_def)
  next
    fix j d assume "ca_store ?t j = Some d"
    then show "\<exists>en. ca_entries ?t d = Some en \<and> en_key en = j"
      using cache_invD(2) [OF inv] en by fastforce
  next
    fix d dn assume "ca_entries ?t d = Some dn" "en_phase dn = Created"
    then have "d \<noteq> e" "ca_entries s d = Some dn" by (auto split: if_splits)
    moreover from this obtain j where "owner_of d (ca_callers s j)"
      using cache_invD(6) [OF inv _ \<open>en_phase dn = Created\<close>] by blast
    ultimately have "owner_of d (ca_callers ?t j)" using c by auto
    then show "\<exists>i. owner_of d (ca_callers ?t i)" ..
  next
    fix j
    show "caller_ok (ca_entries ?t) (ca_done ?t) (ca_callers ?t j)"
    proof (cases "j = i")
      case False
      have "caller_ok ((ca_entries s)(e \<mapsto> ?en)) (ca_done s) (ca_callers s j)"
        by (rule caller_ok_mono [OF cache_invD(3) [OF inv]])
          (use en others [OF False] ok(2) \<open>\<not> found\<close> in \<open>auto simp: grows_def en_loaded_def\<close>)
      with False show ?thesis by simp
    qed (use ok(2) en False in auto)
  next
    fix j j' d assume "owner_of d (ca_callers ?t j)" "owner_of d (ca_callers ?t j')"
    then show "j = j'"
      using cache_invD(5) [OF inv] by (auto split: if_splits)
  qed
  with False show ?thesis by (simp add: startOrAttach_def)
qed

lemma evict_simps:
  "ca_entries (evict e en s) = (ca_entries s)(e \<mapsto> en\<lparr>en_phase := Evicted\<rparr>)"
  "ca_done (evict e en s) = ca_done s" "ca_callers (evict e en s) = ca_callers s"
  "ca_store (evict e en s) = (if en_result en = Some CtxErr then (ca_store s)(en_key en := None) else ca_store s)"
  by (simp_all add: evict_def)

lemma evict_inv:
  assumes inv: "cache_inv s" and en: "ca_entries s e = Some en" and ph: "en_phase en = Returned"
  shows "cache_inv (evict e en s)"
proof (intro cache_invI)
  note ok = cache_invD(1) [OF inv en]
  have st: "ca_store s (en_key en) = Some e" using ok ph by (auto simp: entry_ok_def uncached_def)
  fix d dn assume "ca_entries (evict e en s) d = Some dn"
  then show "entry_ok (evict e en s) d dn"
    using cache_invD(1) [OF inv, of d dn] ok st ph by (cases "d = e") (auto simp: entry_ok_def uncached_def evict_simps)
next
  fix j d assume "ca_store (evict e en s) j = Some d"
  then show "\<exists>en'. ca_entries (evict e en s) d = Some en' \<and> en_key en' = j"
    using cache_invD(2) [OF inv, of j d] en by (auto simp: evict_simps split: if_splits)
next
  fix i
  have "caller_ok ((ca_entries s)(e \<mapsto> en\<lparr>en_phase := Evicted\<rparr>)) (ca_done s) (ca_callers s i)"
    by (rule caller_ok_mono [OF cache_invD(3) [OF inv]]) (use en ph in \<open>auto simp: grows_def en_loaded_def\<close>)
  then show "caller_ok (ca_entries (evict e en s)) (ca_done (evict e en s)) (ca_callers (evict e en s) i)"
    by (simp add: evict_simps)
next
  fix d dn assume "ca_entries (evict e en s) d = Some dn" "en_phase dn = Created"
  then show "\<exists>i. owner_of d (ca_callers (evict e en s) i)"
    using cache_invD(6) [OF inv] by (auto simp: evict_simps split: if_splits)
qed (use cache_invD(5) [OF inv] in \<open>auto simp: evict_simps\<close>)

lemma afterAwait_inv:
  assumes inv: "cache_inv s" and c: "ca_callers s i = Awaited k ctx e found a"
  shows "cache_inv (afterAwait i k ctx found a s)"
proof -
  have "cache_inv (set_caller i (Getting k ctx) s)"
    using c by (intro set_caller_inv inv) auto
  moreover have "cache_inv (set_caller i (Returning k ctx found OwnCtx) s)" if "ctx \<in> ca_done s"
    using c that by (intro set_caller_inv inv) auto
  moreover have "cache_inv (set_caller i (Returning k ctx found a) s)" if "\<not> (found \<and> a = Loaded CtxErr)"
    using c that cache_invD(4) [OF inv c] by (intro set_caller_inv inv) (auto split: answer.splits)
  ultimately show ?thesis
    by (auto simp: afterAwait_def split: answer.split outcome.split)
qed

lemma entry_step_inv:
  assumes inv: "cache_inv s" and en: "ca_entries s e = Some en"
  shows "en_phase en = Running \<Longrightarrow> cache_inv (set_entry e (en\<lparr>en_result := Some r, en_phase := Returned\<rparr>) s)"
    "en_phase en = Evicted \<Longrightarrow> cache_inv (set_entry e (en\<lparr>en_phase := Published\<rparr>) s)"
    "en_phase en = Published \<Longrightarrow> cache_inv (set_entry e (en\<lparr>en_phase := Cleared\<rparr>) s)"
    "en_phase en = Cleared \<Longrightarrow> cache_inv (set_entry e (en\<lparr>en_phase := Finished, en_inf := inf_close (en_inf en)\<rparr>) s)"
  using cache_invD(1) [OF inv en]
  by (intro set_entry_inv [OF inv en]; auto simp: entry_ok_def uncached_def grows_def en_loaded_def)+

lemma callback_inv:
  assumes inv: "cache_inv s" and en: "ca_entries s e = Some en" and idx: "idx < length (inf_stops (en_inf en))"
    "inf_stops (en_inf en) ! idx = (ctx, False)" "ctx \<in> ca_done s"
  shows "cache_inv (set_entry e (en\<lparr>en_inf := onSubDone idx (en_inf en)\<rparr>) s)"
  using cache_invD(1) [OF inv en] onSubDone_ok [OF _ _ idx]
  by (intro set_entry_inv [OF inv en]) (auto simp: entry_ok_def uncached_def grows_def en_loaded_def)

lemma internal_inv: "internal s t \<Longrightarrow> cache_inv s \<Longrightarrow> cache_inv t"
proof (induction rule: internal.induct)
  case (await_loaded s i key ctx e found att en r)
  then show ?case using cache_invD(4) [OF await_loaded(5,1)] by (intro set_caller_inv) auto
next
  case (await_done s i key ctx e found att en)
  then show ?case using cache_invD(4) [OF await_done(5,1)] by (intro set_caller_inv) auto
qed (simp_all add: getEntry_read_inv getEntry_lock_inv startOrAttach_inv entry_step_inv evict_inv callback_inv afterAwait_inv)

lemma inf_done_mono: "ds \<subseteq> ds' \<Longrightarrow> inf_ok ds i \<Longrightarrow> inf_ok ds' i" "ds \<subseteq> ds' \<Longrightarrow> inf_lively ds i \<Longrightarrow> inf_lively ds' i"
  by (auto simp: inf_ok_def inf_lively_def)

lemma ending_inv:
  assumes inv: "cache_inv s"
  shows "cache_inv (s\<lparr>ca_done := insert ctx (ca_done s)\<rparr>)" (is "cache_inv ?t")
proof (intro cache_invI)
  fix e en assume "ca_entries ?t e = Some en"
  then show "entry_ok ?t e en"
    using cache_invD(1) [OF inv, of e en] inf_done_mono [of "ca_done s" "ca_done ?t"] by (auto simp: entry_ok_def)
next
  fix i show "caller_ok (ca_entries ?t) (ca_done ?t) (ca_callers ?t i)"
    by (auto intro: caller_ok_mono [OF cache_invD(3) [OF inv]])
qed (use cache_invD(2,5,6) [OF inv] in auto)

lemma cache_step_inv: "cache_step s t \<Longrightarrow> cache_inv s \<Longrightarrow> cache_inv t"
  by (induction rule: cache_step.induct)
    (auto intro: internal_inv ending_inv Cache_Store_inv set_caller_inv)

lemma cache_reachable_inv: "cache_reachable s \<Longrightarrow> cache_inv s"
proof (induction rule: cache_reachable.induct)
  case cache_init
  show ?case by (rule cache_invI) (auto simp: NewCache_def)
qed (rule cache_step_inv)

section \<open>What the cache promises\<close>

lemma cached_entry: "cache_inv s \<Longrightarrow> ca_entries s e = Some en \<Longrightarrow> \<not> uncached en \<Longrightarrow> ca_store s (en_key en) = Some e"
  using cache_invD(1) by (auto simp: entry_ok_def)

text \<open>A key has one load at a time: while an entry is being loaded it is the entry of its key.\<close>

theorem load_single_flight:
  assumes "cache_reachable s" "ca_entries s d = Some dn" "ca_entries s e = Some en" "en_key dn = en_key en"
    "en_phase dn \<in> {Created, Running, Returned}" "en_phase en \<in> {Created, Running, Returned}"
  shows "d = e"
proof -
  have "\<not> uncached dn" "\<not> uncached en" using assms(5,6) by (auto simp: uncached_def)
  with cached_entry [OF cache_reachable_inv [OF assms(1)]] assms(2-4) have "Some d = Some e" by metis
  then show ?thesis by simp
qed

lemma internal_store:
  assumes "internal s t" "cache_inv s" "ca_store s k = Some e" "ca_store t k \<noteq> Some e"
  shows "\<exists>en. ca_entries s e = Some en \<and> en_key en = k \<and> en_phase en = Returned \<and> en_result en = Some CtxErr \<and> t = evict e en s"
  using assms
proof (induction rule: internal.induct)
  case (eviction s d dn)
  have "ca_store s (en_key dn) = Some d"
    using cache_invD(1) [OF eviction(3,1)] eviction(2) by (auto simp: entry_ok_def uncached_def)
  with eviction show ?case by (auto simp: evict_simps split: if_splits)
qed (auto simp: getEntry_read_def getEntry_lock_def startOrAttach_def afterAwait_def split: option.splits prod.splits if_splits answer.splits outcome.splits)

text \<open>
  An entry leaves the cache only by the step of its own loading goroutine, after its loader
  failed with an error of a context: no load removes the entry of another one.\<close>

theorem eviction_own_entry:
  assumes "cache_reachable s" "cache_step s t" "ca_store s k = Some e" "ca_store t k \<noteq> Some e"
  shows "\<exists>en. ca_entries s e = Some en \<and> en_key en = k \<and> en_phase en = Returned \<and> en_result en = Some CtxErr \<and> t = evict e en s"
  using assms(2)
proof cases
  case internal
  then show ?thesis using internal_store [OF _ cache_reachable_inv [OF assms(1)] assms(3,4)] by simp
qed (use assms in \<open>auto simp: Cache_Store_def split: if_splits\<close>)

text \<open>
  C19. A load that a caller has joined is not cancelled while the context of that caller is live.\<close>

theorem joined_load_not_canceled:
  assumes "cache_reachable s" "ca_callers s i = Waiting k ctx e found True" "ctx \<notin> ca_done s"
    "ca_entries s e = Some en" "en_phase en \<noteq> Finished"
  shows "\<not> inf_canceled (en_inf en)"
  using cache_invD(1) [OF cache_reachable_inv [OF assms(1)] assms(4)] cache_invD(4) [OF cache_reachable_inv [OF assms(1)] assms(2)] assms(3-5)
  by (auto simp: entry_ok_def inf_lively_def)

text \<open>
  C20. A caller that shared the load of another is never handed the cancellation of that load, and
  the error of the own context is only returned when that context is done.\<close>

theorem no_foreign_cancellation:
  assumes "cache_reachable s" "ca_callers s i = Returning k ctx found a"
  shows "(a = Loaded CtxErr \<longrightarrow> \<not> found) \<and> (a = OwnCtx \<longrightarrow> ctx \<in> ca_done s)"
  using cache_invD(4) [OF cache_reachable_inv [OF assms(1)] assms(2)] by auto

text \<open>
  C18. All the values returned for a key agree.\<close>

theorem loads_agree:
  assumes "cache_reachable s" "ca_callers s i = Returning k ctx found (Loaded (Val v))"
    "ca_callers s j = Returning k ctx' found' (Loaded (Val v'))"
  shows "v = v'"
proof -
  note inv = cache_reachable_inv [OF assms(1)]
  have "\<exists>e en. ca_store s k = Some e \<and> ca_entries s e = Some en \<and> en_result en = Some (Val w)"
    if "ca_callers s l = Returning k c f (Loaded (Val w))" for l c f w
    using cache_invD(4) [OF inv that] cache_invD(1) [OF inv] by (force simp: entry_ok_def uncached_def)
  from this [OF assms(2)] this [OF assms(3)] show ?thesis by auto
qed

section \<open>Every call can return\<close>

text \<open>Driving the load of an entry to its end, whoever has to start it.\<close>

definition settled :: "'v outcome option \<Rightarrow> 'v outcome option" where
  "settled r = (if r = None then Some (OtherErr ''failed'') else r)"

definition settles :: "('k, 'v) cache \<Rightarrow> nat \<Rightarrow> ('k, 'v) entry \<Rightarrow> ('k, 'v) cache \<Rightarrow> bool" where
  "settles s e en t \<longleftrightarrow> internal\<^sup>*\<^sup>* s t \<and> (\<forall>k. ca_store t k = ca_store s k \<or> ca_store t k = None) \<and>
     (\<forall>i. \<not> owner_of e (ca_callers s i) \<longrightarrow> ca_callers t i = ca_callers s i) \<and>
     (\<exists>en'. ca_entries t e = Some en' \<and> en_loaded en' \<and> en_result en' = settled (en_result en))"

lemma settles_step:
  assumes "internal s s'" "settles s' e en' t" "settled (en_result en') = settled (en_result en)"
    "\<And>k. ca_store s' k = ca_store s k \<or> ca_store s' k = None"
    "\<And>i. \<not> owner_of e (ca_callers s i) \<Longrightarrow> ca_callers s' i = ca_callers s i"
  shows "settles s e en t"
  unfolding settles_def
proof (intro conjI allI impI)
  show "internal\<^sup>*\<^sup>* s t" using assms(1,2) by (simp add: settles_def converse_rtranclp_into_rtranclp)
  show "ca_store t k = ca_store s k \<or> ca_store t k = None" for k using assms(2,4) by (metis settles_def)
  show "ca_callers t i = ca_callers s i" if "\<not> owner_of e (ca_callers s i)" for i
    using assms(2) assms(5) [OF that] that by (simp add: settles_def)
  show "\<exists>en'. ca_entries t e = Some en' \<and> en_loaded en' \<and> en_result en' = settled (en_result en)"
    using assms(2,3) by (simp add: settles_def)
qed

lemma settle_Evicted: "ca_entries s e = Some en \<Longrightarrow> en_phase en = Evicted \<Longrightarrow> en_result en \<noteq> None \<Longrightarrow> \<exists>t. settles s e en t"
  using internal.publish [of s e en]
  by (auto simp: settles_def settled_def en_loaded_def intro!: exI [of _ "set_entry e (en\<lparr>en_phase := Published\<rparr>) s"])

lemma settle_Returned:
  assumes "ca_entries s e = Some en" "en_phase en = Returned" "en_result en \<noteq> None"
  shows "\<exists>t. settles s e en t"
proof -
  obtain t where t: "settles (evict e en s) e (en\<lparr>en_phase := Evicted\<rparr>) t"
    using settle_Evicted [of "evict e en s" e "en\<lparr>en_phase := Evicted\<rparr>"] assms by (auto simp: evict_simps)
  have "settles s e en t"
    by (rule settles_step [OF internal.eviction [OF assms(1,2)] t]) (auto simp: evict_simps)
  then show ?thesis ..
qed

lemma settle_Running:
  assumes "ca_entries s e = Some en" "en_phase en = Running" "en_result en = None"
  shows "\<exists>t. settles s e en t"
proof -
  let ?en = "en\<lparr>en_result := Some (OtherErr ''failed''), en_phase := Returned\<rparr>"
  obtain t where t: "settles (set_entry e ?en s) e ?en t"
    using settle_Returned [of "set_entry e ?en s" e ?en] by auto
  have "settles s e en t"
    by (rule settles_step [OF internal.loader [OF assms(1,2)] t]) (auto simp: assms(3) settled_def)
  then show ?thesis ..
qed

lemma settle_Created:
  assumes inv: "cache_inv s" and en: "ca_entries s e = Some en" "en_phase en = Created" "en_result en = None"
  shows "\<exists>t. settles s e en t"
proof -
  obtain i where "owner_of e (ca_callers s i)" using cache_invD(6) [OF inv en(1,2)] by blast
  then obtain k ctx att where c: "ca_callers s i = Got k ctx e False att" by (cases "ca_callers s i") auto
  let ?s = "startOrAttach i k ctx e False att en s"
  obtain t where "settles ?s e (en\<lparr>en_phase := Running\<rparr>) t"
    using settle_Running [of ?s e "en\<lparr>en_phase := Running\<rparr>"] en by (auto simp: startOrAttach_def)
  then have "settles s e en t"
    by (rule settles_step [OF internal.start [OF c en(1)]]) (use en c in \<open>auto simp: startOrAttach_def\<close>)
  then show ?thesis ..
qed

lemma settle:
  assumes "cache_inv s" "ca_entries s e = Some en"
  shows "\<exists>t. settles s e en t"
proof (cases "en_loaded en")
  case True
  with cache_invD(1) [OF assms] have "settles s e en s"
    using assms by (auto simp: settles_def settled_def entry_ok_def en_loaded_def)
  then show ?thesis ..
next
  case False
  with assms cache_invD(1) [OF assms] show ?thesis
    by (cases "en_phase en") (auto simp: entry_ok_def en_loaded_def intro: settle_Created settle_Running settle_Returned settle_Evicted)
qed


text \<open>The entries are finitely many, so there is always a new one.\<close>

lemma internal_finite: "internal s t \<Longrightarrow> finite (dom (ca_entries s)) \<Longrightarrow> finite (dom (ca_entries t))"
proof (induction rule: internal.induct)
  case (after s i key ctx e found a)
  then show ?case by (simp add: afterAwait_def split: answer.split outcome.split)
qed (simp_all add: getEntry_read_def getEntry_lock_def startOrAttach_def evict_simps split: option.split prod.split)

lemma internals_keep:
  "internal\<^sup>*\<^sup>* s t \<Longrightarrow> cache_inv s \<Longrightarrow> cache_inv t"
  "internal\<^sup>*\<^sup>* s t \<Longrightarrow> finite (dom (ca_entries s)) \<Longrightarrow> finite (dom (ca_entries t))"
  by (induction rule: rtranclp_induct) (auto intro: internal_inv internal_finite)

lemma cache_reachable_finite: "cache_reachable s \<Longrightarrow> finite (dom (ca_entries s))"
proof (induction rule: cache_reachable.induct)
  case (cache_next s t)
  from cache_next(2,3) show ?case
    by (induction rule: cache_step.induct) (auto intro: internal_finite simp: Cache_Store_def)
qed (simp add: NewCache_def)

definition can_return :: "('k, 'v) cache \<Rightarrow> nat \<Rightarrow> 'k \<Rightarrow> nat \<Rightarrow> bool" where
  "can_return s i k ctx \<longleftrightarrow> (\<exists>t found a. internal\<^sup>*\<^sup>* s t \<and> ca_callers t i = Returning k ctx found a)"

lemma can_return_steps: "internal\<^sup>*\<^sup>* s t \<Longrightarrow> can_return t i k ctx \<Longrightarrow> can_return s i k ctx"
  unfolding can_return_def by (meson rtranclp_trans)

lemma can_return_step: "internal s t \<Longrightarrow> can_return t i k ctx \<Longrightarrow> can_return s i k ctx"
  by (blast intro: can_return_steps)

lemma return_Returning: "ca_callers s i = Returning k ctx found a \<Longrightarrow> can_return s i k ctx"
  unfolding can_return_def by blast

lemma afterAwait_caller:
  "ca_callers (afterAwait i k ctx found a s) i =
    (if (\<nexists>v. a = Loaded (Val v)) \<and> ctx \<in> ca_done s then Returning k ctx found OwnCtx
     else if found \<and> a = Loaded CtxErr then Getting k ctx else Returning k ctx found a)"
  by (auto simp: afterAwait_def split: answer.split outcome.split)

lemma return_Awaited_plain:
  assumes "ca_callers s i = Awaited k ctx e found a" "a \<noteq> Loaded CtxErr"
  shows "can_return s i k ctx"
proof (rule can_return_step [OF internal.after [OF assms(1)]])
  have "\<exists>f b. ca_callers (afterAwait i k ctx found a s) i = Returning k ctx f b"
    using assms(2) by (simp add: afterAwait_caller)
  then show "can_return (afterAwait i k ctx found a s) i k ctx" by (metis return_Returning)
qed

text \<open>A caller that waits gets what its entry settles at.\<close>

lemma await_settled:
  assumes inv: "cache_inv s" and c: "ca_callers s i = Waiting k ctx e found att" and en: "ca_entries s e = Some en"
  shows "\<exists>t r. internal\<^sup>*\<^sup>* s t \<and> ca_callers t i = Awaited k ctx e found (Loaded r) \<and> settled (en_result en) = Some r"
proof -
  obtain t en' where t: "internal\<^sup>*\<^sup>* s t" "ca_callers t i = ca_callers s i" "ca_entries t e = Some en'" "en_loaded en'"
    "en_result en' = settled (en_result en)"
    using settle [OF inv en] c by (auto simp: settles_def)
  obtain r where r: "settled (en_result en) = Some r" by (cases "en_result en") (auto simp: settled_def)
  have "internal t (set_caller i (Awaited k ctx e found (Loaded r)) t)"
    using t c r by (intro internal.await_loaded) auto
  with t(1) have "internal\<^sup>*\<^sup>* s (set_caller i (Awaited k ctx e found (Loaded r)) t)" by simp
  with r show ?thesis by fastforce
qed

lemma return_Waiting_plain:
  assumes inv: "cache_inv s" and c: "ca_callers s i = Waiting k ctx e found att" and en: "ca_entries s e = Some en"
    and r: "en_result en \<noteq> Some CtxErr"
  shows "can_return s i k ctx"
proof -
  obtain t r where "internal\<^sup>*\<^sup>* s t" "ca_callers t i = Awaited k ctx e found (Loaded r)" "settled (en_result en) = Some r"
    using await_settled [OF inv c en] by blast
  moreover from this r have "r \<noteq> CtxErr" by (auto simp: settled_def split: if_splits)
  ultimately show ?thesis by (auto intro: can_return_steps return_Awaited_plain)
qed

lemma startOrAttach_waits:
  assumes "ca_entries s e = Some en"
  shows "\<exists>b en'. ca_callers (startOrAttach i k ctx e found att en s) i = Waiting k ctx e found b \<and>
    ca_entries (startOrAttach i k ctx e found att en s) e = Some en' \<and> en_result en' = en_result en"
  using assms by (auto simp: startOrAttach_def split: prod.split)

lemma return_Got_plain:
  assumes inv: "cache_inv s" and c: "ca_callers s i = Got k ctx e found att" and en: "ca_entries s e = Some en"
    and r: "en_result en \<noteq> Some CtxErr"
  shows "can_return s i k ctx"
proof (rule can_return_step [OF internal.start [OF c en]])
  show "can_return (startOrAttach i k ctx e found att en s) i k ctx"
    using startOrAttach_waits [OF en, of i k ctx found att] startOrAttach_inv [OF inv c en] r
    by (metis return_Waiting_plain)
qed

lemma return_Getting_free:
  assumes inv: "cache_inv s" "finite (dom (ca_entries s))" and c: "ca_callers s i = Getting k ctx" and free: "ca_store s k = None"
  shows "can_return s i k ctx"
proof (rule can_return_step [OF internal.read [OF c]])
  let ?s = "getEntry_read i k ctx s"
  have s: "?s = set_caller i (Missed k ctx) s" using free by (simp add: getEntry_read_def)
  obtain e where e: "ca_entries s e = None"
    using ex_new_if_finite [OF infinite_UNIV_nat inv(2)] by blast
  let ?t = "getEntry_lock i k ctx e ?s"
  have st: "internal ?s ?t" and t: "cache_inv ?t"
    using e getEntry_read_inv [OF inv(1) c] by (auto simp: s intro!: internal.lock getEntry_lock_inv)
  have "\<exists>b en. ca_callers ?t i = Got k ctx e False b \<and> ca_entries ?t e = Some en \<and> en_result en = None"
    using free by (auto simp: s getEntry_lock_def split: prod.split)
  then have "can_return ?t i k ctx" by (metis return_Got_plain [OF t] option.distinct(1))
  with st show "can_return ?s i k ctx" by (rule can_return_step)
qed

lemma return_Getting:
  assumes inv: "cache_inv s" "finite (dom (ca_entries s))" and c: "ca_callers s i = Getting k ctx"
  shows "can_return s i k ctx"
proof (cases "ca_store s k")
  case (Some e)
  obtain en where en: "ca_entries s e = Some en" "en_key en = k" using cache_invD(2) [OF inv(1) Some] by blast
  obtain t where set: "settles s e en t" using settle [OF inv(1) en(1)] ..
  have kept: "ca_store t k = Some e \<or> ca_store t k = None" using set Some unfolding settles_def by metis
  obtain en' where t: "internal\<^sup>*\<^sup>* s t" "ca_store t k = Some e \<or> ca_store t k = None" "ca_callers t i = Getting k ctx"
    "ca_entries t e = Some en'" "en_loaded en'"
    using set kept c by (auto simp: settles_def)
  note inv_t = internals_keep(1) [OF t(1) inv(1)] internals_keep(2) [OF t(1) inv(2)]
  have "can_return t i k ctx"
  proof (cases "ca_store t k")
    case None
    then show ?thesis using return_Getting_free [OF inv_t t(3)] by simp
  next
    case (Some d)
    with t(2) have st: "ca_store t k = Some e" by simp
    have "en_result en' \<noteq> Some CtxErr"
      using cache_invD(1) [OF inv_t(1) t(4)] cache_invD(2) [OF inv_t(1) st] st t(4,5)
      by (auto simp: entry_ok_def uncached_def en_loaded_def)
    then have "can_return (getEntry_read i k ctx t) i k ctx"
      using return_Got_plain [OF getEntry_read_inv [OF inv_t(1) t(3)]] st t(4) by (simp add: getEntry_read_def)
    then show ?thesis by (rule can_return_step [OF internal.read [OF t(3)]])
  qed
  with t(1) show ?thesis by (rule can_return_steps)
qed (rule return_Getting_free [OF inv c])

lemma return_Awaited:
  assumes inv: "cache_inv s" "finite (dom (ca_entries s))" and c: "ca_callers s i = Awaited k ctx e found a"
  shows "can_return s i k ctx"
proof (rule can_return_step [OF internal.after [OF c]])
  have "cache_inv (afterAwait i k ctx found a s)" "finite (dom (ca_entries (afterAwait i k ctx found a s)))"
    using afterAwait_inv [OF inv(1) c] internal_finite [OF internal.after [OF c] inv(2)] by auto
  then show "can_return (afterAwait i k ctx found a s) i k ctx"
    using afterAwait_caller [of i k ctx found a s] return_Getting return_Returning by (metis (no_types))
qed

lemma return_Waiting:
  assumes inv: "cache_inv s" "finite (dom (ca_entries s))" and c: "ca_callers s i = Waiting k ctx e found att"
  shows "can_return s i k ctx"
proof -
  obtain en where "ca_entries s e = Some en" using cache_invD(4) [OF inv(1) c] by auto
  then obtain t r where "internal\<^sup>*\<^sup>* s t" "ca_callers t i = Awaited k ctx e found (Loaded r)"
    using await_settled [OF inv(1) c] by blast
  then show ?thesis by (metis return_Awaited can_return_steps internals_keep inv)
qed

lemma return_Got:
  assumes inv: "cache_inv s" "finite (dom (ca_entries s))" and c: "ca_callers s i = Got k ctx e found att"
  shows "can_return s i k ctx"
proof -
  obtain en where en: "ca_entries s e = Some en" using cache_invD(4) [OF inv(1) c] by auto
  note st = internal.start [OF c en]
  show ?thesis
    using startOrAttach_waits [OF en, of i k ctx found att] return_Waiting [OF internal_inv [OF st inv(1)] internal_finite [OF st inv(2)]]
    by (metis can_return_step [OF st])
qed

lemma return_Missed:
  assumes inv: "cache_inv s" "finite (dom (ca_entries s))" and c: "ca_callers s i = Missed k ctx"
  shows "can_return s i k ctx"
proof -
  obtain e where e: "ca_entries s e = None"
    using ex_new_if_finite [OF infinite_UNIV_nat inv(2)] by blast
  note st = internal.lock [OF c e]
  have "\<exists>d f b. ca_callers (getEntry_lock i k ctx e s) i = Got k ctx d f b"
    by (auto simp: getEntry_lock_def split: option.split prod.split)
  then show ?thesis
    using return_Got [OF internal_inv [OF st inv(1)] internal_finite [OF st inv(2)]] by (metis can_return_step [OF st])
qed

text \<open>The key and the context of a call in progress.\<close>

fun calling :: "('k, 'v) caller \<Rightarrow> ('k \<times> nat) option" where
  "calling Idle = None"
| "calling (Getting k ctx) = Some (k, ctx)"
| "calling (Missed k ctx) = Some (k, ctx)"
| "calling (Got k ctx e found att) = Some (k, ctx)"
| "calling (Waiting k ctx e found att) = Some (k, ctx)"
| "calling (Awaited k ctx e found a) = Some (k, ctx)"
| "calling (Returning k ctx found a) = Some (k, ctx)"

text \<open>
  C21. From every reachable state every call in progress can return by steps of the cache alone:
  no interleaving of calls, cancellations and evictions leaves a caller stuck.\<close>

theorem Load_can_return:
  assumes "cache_reachable s" "calling (ca_callers s i) = Some (k, ctx)"
  shows "\<exists>t found a. internal\<^sup>*\<^sup>* s t \<and> ca_callers t i = Returning k ctx found a"
  using assms(2) return_Missed return_Got return_Waiting return_Awaited return_Getting return_Returning
    cache_reachable_inv [OF assms(1)] cache_reachable_finite [OF assms(1)]
  unfolding can_return_def [symmetric] by (cases "ca_callers s i") auto

end
