(* ===== verification/Sync_Examples.thy ===== *)
theory Sync_Examples
  imports Sync_Correct
begin

text \<open>
  Concrete runs of the shared cache. Caller 0 loads key 7 with context 1. In the first run the
  loader succeeds and caller 1 finds the value; in the second the loader fails with the error of
  a context and the entry is evicted; in the third the context has ended before the call.
\<close>

definition ent :: "(nat, nat) cache \<Rightarrow> nat \<Rightarrow> (nat, nat) entry" where
  "ent s e = the (ca_entries s e)"

definition ex_asked :: "(nat, nat) cache \<Rightarrow> nat \<Rightarrow> nat \<Rightarrow> (nat, nat) cache" where
  "ex_asked s i ctx = getEntry_read i 7 ctx (set_caller i (Getting 7 ctx) s)"

definition ex_waiting :: "(nat, nat) cache" where
  "ex_waiting = (let s = getEntry_lock 0 7 1 0 (ex_asked NewCache 0 1) in startOrAttach 0 7 1 0 False True (ent s 0) s)"

definition ex_back :: "nat outcome \<Rightarrow> (nat, nat) cache" where
  "ex_back r = set_entry 0 ((ent ex_waiting 0)\<lparr>en_result := Some r, en_phase := Returned\<rparr>) ex_waiting"

definition ex_evicted :: "nat outcome \<Rightarrow> (nat, nat) cache" where
  "ex_evicted r = evict 0 (ent (ex_back r) 0) (ex_back r)"

definition ex_published :: "(nat, nat) cache" where
  "ex_published = set_entry 0 ((ent (ex_evicted (Val 9)) 0)\<lparr>en_phase := Published\<rparr>) (ex_evicted (Val 9))"

definition ex_first :: "(nat, nat) cache" where
  "ex_first = afterAwait 0 7 1 False (Loaded (Val 9)) (set_caller 0 (Awaited 7 1 0 False (Loaded (Val 9))) ex_published)"

definition ex_joined :: "(nat, nat) cache" where
  "ex_joined = (let s = ex_asked ex_first 1 2 in startOrAttach 1 7 2 0 True False (ent s 0) s)"

definition ex_both :: "(nat, nat) cache" where
  "ex_both = afterAwait 1 7 2 True (Loaded (Val 9)) (set_caller 1 (Awaited 7 2 0 True (Loaded (Val 9))) ex_joined)"

definition ex_over :: "(nat, nat) cache" where
  "ex_over = NewCache\<lparr>ca_done := {1}\<rparr>"

definition ex_late :: "(nat, nat) cache" where
  "ex_late = (let s = getEntry_lock 0 7 1 0 (ex_asked ex_over 0 1);
                  s = startOrAttach 0 7 1 0 False False (ent s 0) s
              in afterAwait 0 7 1 False OwnCtx (set_caller 0 (Awaited 7 1 0 False OwnCtx) s))"

lemma ex_asked_reachable:
  assumes "cache_reachable s" "ca_callers s i = Idle"
  shows "cache_reachable (ex_asked s i ctx)"
  unfolding ex_asked_def
  by (rule cache_next [OF cache_next [OF assms(1) cache_step.call [OF assms(2)]] cache_step.internal [OF internal.read]]) simp

lemma reach_internal: "cache_reachable s \<Longrightarrow> internal s t \<Longrightarrow> cache_reachable t"
  by (rule cache_next [OF _ cache_step.internal])

lemma ex_locked_reachable: "cache_reachable (getEntry_lock 0 7 1 0 (ex_asked NewCache 0 1))"
proof (rule reach_internal [OF ex_asked_reachable internal.lock])
  show "ca_callers (ex_asked NewCache 0 1) 0 = Missed 7 1" "ca_entries (ex_asked NewCache 0 1) 0 = None" by code_simp+
qed (auto simp: cache_init, code_simp)

lemma ex_waiting_reachable: "cache_reachable ex_waiting"
  unfolding ex_waiting_def Let_def
proof (rule reach_internal [OF ex_locked_reachable internal.start])
  show "ca_callers (getEntry_lock 0 7 1 0 (ex_asked NewCache 0 1)) 0 = Got 7 1 0 False True" by code_simp
  show "ca_entries (getEntry_lock 0 7 1 0 (ex_asked NewCache 0 1)) 0 = Some (ent (getEntry_lock 0 7 1 0 (ex_asked NewCache 0 1)) 0)" by code_simp
qed

lemma ex_back_reachable: "cache_reachable (ex_back r)"
  unfolding ex_back_def
proof (rule reach_internal [OF ex_waiting_reachable internal.loader])
  show "ca_entries ex_waiting 0 = Some (ent ex_waiting 0)" "en_phase (ent ex_waiting 0) = Running" by code_simp+
qed

lemma ex_back_entry: "ca_entries (ex_back r) 0 = Some (ent (ex_back r) 0)" "en_phase (ent (ex_back r) 0) = Returned"
  "en_result (ent (ex_back r) 0) = Some r"
  by (simp_all add: ex_back_def ent_def)

lemma ex_eviction: "internal (ex_back r) (ex_evicted r)"
  unfolding ex_evicted_def using ex_back_entry by (intro internal.eviction)

lemma ex_published_reachable: "cache_reachable ex_published"
  unfolding ex_published_def
proof (rule reach_internal [OF reach_internal [OF ex_back_reachable ex_eviction] internal.publish])
  show "ca_entries (ex_evicted (Val 9)) 0 = Some (ent (ex_evicted (Val 9)) 0)" "en_phase (ent (ex_evicted (Val 9)) 0) = Evicted" by code_simp+
qed

lemma ex_first_reachable: "cache_reachable ex_first"
  unfolding ex_first_def
proof (rule reach_internal [OF reach_internal [OF ex_published_reachable internal.await_loaded] internal.after])
  show "ca_callers ex_published 0 = Waiting 7 1 0 False True" "ca_entries ex_published 0 = Some (ent ex_published 0)"
    "en_loaded (ent ex_published 0)" "en_result (ent ex_published 0) = Some (Val 9)" by code_simp+
qed simp

lemma ex_joined_reachable: "cache_reachable ex_joined"
  unfolding ex_joined_def Let_def
proof (rule reach_internal [OF ex_asked_reachable [OF ex_first_reachable] internal.start])
  show "ca_callers ex_first 1 = Idle" "ca_callers (ex_asked ex_first 1 2) 1 = Got 7 2 0 True False"
    "ca_entries (ex_asked ex_first 1 2) 0 = Some (ent (ex_asked ex_first 1 2) 0)" by code_simp+
qed

lemma ex_both_reachable: "cache_reachable ex_both"
  unfolding ex_both_def
proof (rule reach_internal [OF reach_internal [OF ex_joined_reachable internal.await_loaded] internal.after])
  show "ca_callers ex_joined 1 = Waiting 7 2 0 True True" "ca_entries ex_joined 0 = Some (ent ex_joined 0)"
    "en_loaded (ent ex_joined 0)" "en_result (ent ex_joined 0) = Some (Val 9)" by code_simp+
qed simp

definition ex_ended :: "(nat, nat) cache" where
  "ex_ended = getEntry_lock 0 7 1 0 (ex_asked ex_over 0 1)"

lemma ex_ended_reachable: "cache_reachable ex_ended"
  unfolding ex_ended_def
proof (rule reach_internal [OF ex_asked_reachable internal.lock])
  show "cache_reachable ex_over"
    using cache_next [OF cache_init cache_step.ending, of 1] by (simp add: ex_over_def NewCache_def)
  show "ca_callers ex_over 0 = Idle"
    "ca_callers (ex_asked ex_over 0 1) 0 = Missed 7 1"
    "ca_entries (ex_asked ex_over 0 1) 0 = None" by code_simp+
qed

lemma ex_late_reachable: "cache_reachable ex_late"
  unfolding ex_late_def Let_def ex_ended_def [symmetric]
proof (rule reach_internal [OF reach_internal [OF reach_internal [OF ex_ended_reachable internal.start] internal.await_done] internal.after])
  let ?s = "startOrAttach 0 7 1 0 False False (ent ex_ended 0) ex_ended"
  show "ca_callers ex_ended 0 = Got 7 1 0 False False" "ca_entries ex_ended 0 = Some (ent ex_ended 0)"
    "ca_callers ?s 0 = Waiting 7 1 0 False False" "ca_entries ?s 0 = Some (ent ?s 0)" "\<not> en_loaded (ent ?s 0)" "1 \<in> ca_done ?s" by code_simp+
qed simp

section \<open>The theorems on these runs\<close>

text \<open>In the state where caller 0 waits, its entry is the only one that is loaded for key 7.\<close>

theorem load_single_flight_witness:
  "cache_reachable ex_waiting \<and> en_key (ent ex_waiting 0) = 7 \<and> en_phase (ent ex_waiting 0) = Running \<and> (0::nat) = 0"
proof -
  have "ca_entries ex_waiting 0 = Some (ent ex_waiting 0)" "en_phase (ent ex_waiting 0) = Running" "en_key (ent ex_waiting 0) = 7"
    by code_simp+
  with load_single_flight [OF ex_waiting_reachable this(1) this(1)] ex_waiting_reachable show ?thesis by simp
qed

text \<open>The load that failed with the error of a context removes its own entry.\<close>

theorem eviction_own_entry_witness:
  "\<exists>en. ca_entries (ex_back CtxErr) 0 = Some en \<and> en_key en = 7 \<and> en_phase en = Returned \<and> en_result en = Some CtxErr \<and>
    ex_evicted CtxErr = evict 0 en (ex_back CtxErr)"
proof (rule eviction_own_entry [OF ex_back_reachable cache_step.internal [OF ex_eviction]])
  show "ca_store (ex_back CtxErr) 7 = Some 0" "ca_store (ex_evicted CtxErr) 7 \<noteq> Some 0" by code_simp+
qed

text \<open>The load that caller 0 waits for is not cancelled.\<close>

theorem joined_load_not_canceled_witness: "\<not> inf_canceled (en_inf (ent ex_waiting 0))"
proof (rule joined_load_not_canceled [OF ex_waiting_reachable])
  show "ca_callers ex_waiting 0 = Waiting 7 1 0 False True" "1 \<notin> ca_done ex_waiting"
    "ca_entries ex_waiting 0 = Some (ent ex_waiting 0)" "en_phase (ent ex_waiting 0) \<noteq> Finished" by code_simp+
qed

text \<open>The caller whose context had ended returns the error of that context.\<close>

theorem no_foreign_cancellation_witness: "ca_callers ex_late 0 = Returning 7 1 False OwnCtx \<and> 1 \<in> ca_done ex_late"
proof -
  have c: "ca_callers ex_late 0 = Returning 7 1 False OwnCtx" by code_simp
  with no_foreign_cancellation [OF ex_late_reachable c] show ?thesis by simp
qed

text \<open>Both callers return the value that was loaded once.\<close>

theorem loads_agree_witness:
  "ca_callers ex_both 0 = Returning 7 1 False (Loaded (Val 9)) \<and> ca_callers ex_both 1 = Returning 7 2 True (Loaded (Val 9)) \<and> (9::nat) = 9"
proof -
  have c: "ca_callers ex_both 0 = Returning 7 1 False (Loaded (Val 9))" "ca_callers ex_both 1 = Returning 7 2 True (Loaded (Val 9))"
    by code_simp+
  with loads_agree [OF ex_both_reachable c] show ?thesis by simp
qed

text \<open>The waiting caller can return.\<close>

theorem Load_can_return_witness: "\<exists>t found a. internal\<^sup>*\<^sup>* ex_waiting t \<and> ca_callers t 0 = Returning 7 1 found a"
proof (rule Load_can_return [OF ex_waiting_reachable])
  show "calling (ca_callers ex_waiting 0) = Some (7, 1)" by code_simp
qed

end
