(* ===== verification/Go_Json.thy ===== *)
theory Go_Json
  imports Go_Strings
begin

text \<open>
  Strings as \<^verbatim>\<open>encoding/json\<close> writes them, with the escapes of HTML that \<open>json.Marshal\<close> makes, and
  a reader of such strings. The reader shows that the text determines the string when it is valid
  UTF-8; bytes that are not are all written as the replacement character.
\<close>

section \<open>Writing\<close>

definition hexdigit :: "nat \<Rightarrow> char" where
  "hexdigit n = ''0123456789abcdef'' ! (n mod 16)"

definition htmlSafe :: "char \<Rightarrow> bool" where
  "htmlSafe c \<longleftrightarrow> 0x20 \<le> (of_char c :: nat) \<and> c \<notin> {ch_dquote, ch_bslash, CHR ''<'', CHR ''>'', CHR ''&''}"

definition json_ascii :: "char \<Rightarrow> string" where
  "json_ascii c =
    (if htmlSafe c then [c]
     else if c = ch_bslash \<or> c = ch_dquote then [ch_bslash, c]
     else if c = CHR 0x08 then [ch_bslash, CHR ''b'']
     else if c = CHR 0x0C then [ch_bslash, CHR ''f'']
     else if c = CHR 0x0A then [ch_bslash, CHR ''n'']
     else if c = CHR 0x0D then [ch_bslash, CHR ''r'']
     else if c = CHR 0x09 then [ch_bslash, CHR ''t'']
     else [ch_bslash] @ ''u00'' @ [hexdigit (of_char c div 16), hexdigit (of_char c)])"

definition json_rune :: "rune \<times> string \<Rightarrow> string" where
  "json_rune x = (case x of (r, bs) \<Rightarrow>
    if r < 128 then concat (map json_ascii bs)
    else if r = RuneError \<and> length bs = 1 then [ch_bslash] @ ''ufffd''
    else if r = 0x2028 then [ch_bslash] @ ''u2028''
    else if r = 0x2029 then [ch_bslash] @ ''u2029''
    else bs)"

definition json_string :: "string \<Rightarrow> string" where
  "json_string s = [ch_dquote] @ concat (map json_rune (runes s)) @ [ch_dquote]"

text \<open>\<open>utf8.ValidString\<close>\<close>

definition ValidString :: "string \<Rightarrow> bool" where
  "ValidString s \<longleftrightarrow> list_all (\<lambda>(r, bs). \<not> (r = RuneError \<and> length bs = 1)) (runes s)"

section \<open>Reading\<close>

definition hex_value :: "char \<Rightarrow> nat" where
  "hex_value c = (if of_char c < (97::nat) then of_char c - 48 else of_char c - 87)"

definition unescape :: "char \<Rightarrow> char" where
  "unescape c = (if c = CHR ''b'' then CHR 0x08 else if c = CHR ''f'' then CHR 0x0C else if c = CHR ''n'' then CHR 0x0A
     else if c = CHR ''r'' then CHR 0x0D else if c = CHR ''t'' then CHR 0x09 else c)"

definition unescape_u :: "char \<Rightarrow> char \<Rightarrow> char \<Rightarrow> char \<Rightarrow> string" where
  "unescape_u a b c d = (if [a, b] = ''00'' then [char_of (16 * hex_value c + hex_value d)]
     else [CHR 0xE2, CHR 0x80, char_of (0xA0 + hex_value d)])"

definition give :: "string \<Rightarrow> (string \<times> string) option \<Rightarrow> (string \<times> string) option" where
  "give bs x = map_option (\<lambda>(s, r). (bs @ s, r)) x"

fun unquote :: "string \<Rightarrow> (string \<times> string) option" where
  "unquote [] = None"
| "unquote (c # cs) =
    (if c = ch_dquote then Some ([], cs)
     else if c = ch_bslash then
       (case cs of
          [] \<Rightarrow> None
        | e # r \<Rightarrow>
            if e = CHR ''u'' then (case r of a # b # c # d # r' \<Rightarrow> give (unescape_u a b c d) (unquote r') | _ \<Rightarrow> None)
            else give [unescape e] (unquote r))
     else give [c] (unquote cs))"

lemma hex_value_digit: "hex_value (hexdigit n) = n mod 16"
proof -
  have "\<forall>m \<in> set [0..<16]. hex_value (hexdigit m) = m" by (simp add: upt_rec hexdigit_def hex_value_def)
  then have "hex_value (hexdigit (n mod 16)) = n mod 16" by simp
  then show ?thesis by (simp add: hexdigit_def)
qed

lemma hex_round: "n < 256 \<Longrightarrow> 16 * hex_value (hexdigit (n div 16)) + hex_value (hexdigit n) = n"
  by (simp add: hex_value_digit)

lemma unquote_copy: "c \<noteq> ch_dquote \<Longrightarrow> c \<noteq> ch_bslash \<Longrightarrow> unquote (c # cs) = give [c] (unquote cs)"
  by simp

lemma give_give [simp]: "give a (give b x) = give (a @ b) x" "give [] x = x"
  by (cases x; auto simp: give_def)+

lemma unquote_ascii: "unquote (json_ascii c @ rst) = give [c] (unquote rst)"
  using hex_round [of "of_char c"] nat_of_char_less_256 [of c]
  by (auto simp: json_ascii_def htmlSafe_def unescape_def unescape_u_def)

lemma unquote_high: "\<forall>b \<in> set bs. 128 \<le> (of_char b :: int) \<Longrightarrow> unquote (bs @ rst) = give bs (unquote rst)"
proof (induction bs)
  case (Cons b bs)
  then have "b \<noteq> ch_dquote" "b \<noteq> ch_bslash" by auto
  with Cons show ?case by (simp add: unquote_copy del: unquote.simps)
qed simp

text \<open>The bytes of a rune that is not ASCII.\<close>

lemma DecodeRune_multi:
  assumes "DecodeRuneInString (c # t) = (r, w)" "128 \<le> r" "\<not> (r = RuneError \<and> w = 1)"
  shows "\<forall>b \<in> set (take w (c # t)). 128 \<le> (of_char b :: int)"
  using assms
  by (auto simp: DecodeRuneInString_def Let_def is_cont_def split: if_splits list.splits)
lemma line_bytes: "char_of (226::nat) = CHR 0xE2" "char_of (128::nat) = CHR 0x80"
  by code_simp+

lemma DecodeRune_line:
  assumes "DecodeRuneInString (c # t) = (r, w)" "r = 0x2028 \<or> r = 0x2029"
  shows "take w (c # t) = [CHR 0xE2, CHR 0x80, char_of (0xA0 + (if r = 0x2028 then 8 else 9 :: nat))]"
proof -
  have code: "x = char_of n" if "(of_char x :: int) = int n" for x and n :: nat
    using that by (metis char_of_char of_nat_eq_iff of_nat_of_char)
  consider c1 c2 u where "t = c1 # c2 # u" "w = 3" "0xE0 \<le> (of_char c :: int)" "0x80 \<le> (of_char c1 :: int)" "(of_char c1 :: int) \<le> 0xBF"
      "0x80 \<le> (of_char c2 :: int)" "(of_char c2 :: int) \<le> 0xBF"
      "r = (of_char c - 0xE0) * 4096 + (of_char c1 - 0x80) * 64 + (of_char c2 - 0x80)"
    using assms by (auto simp: DecodeRuneInString_def Let_def is_cont_def RuneError_def split: if_splits list.splits)
  then show ?thesis
  proof cases
    case 1
    then have c: "(of_char c :: int) = int 0xE2" using assms(2) by auto
    have "\<not> 0x81 \<le> (of_char c1 :: int)" using 1(6,8) assms(2) unfolding c by auto
    then have c1: "(of_char c1 :: int) = int 0x80" using 1(4) by simp
    have "(of_char c2 :: int) = int (0xA0 + (if r = 0x2028 then 8 else 9))"
      using 1(8) assms(2) unfolding c c1 by auto
    from code [OF c] code [OF c1] code [OF this] show ?thesis
      unfolding 1(1,2) by (simp add: numeral_3_eq_3 line_bytes)
  qed
qed
section \<open>The text determines the string\<close>

lemma runes_Cons: "DecodeRuneInString (c # t) = (r, w) \<Longrightarrow> runes (c # t) = (r, take w (c # t)) # runes (drop w (c # t))"
  by (subst runes.simps) simp

lemma unquote_rune:
  assumes "DecodeRuneInString (c # t) = (r, w)" "\<not> (r = RuneError \<and> length (take w (c # t)) = 1)"
  shows "unquote (json_rune (r, take w (c # t)) @ rst) = give (take w (c # t)) (unquote rst)"
proof (cases "r < 128")
  case True
  then have "(of_char c :: int) < 128" using DecodeRune_nonascii [of c t] assms(1) by (metis fst_conv not_less)
  then have "w = 1" using assms(1) by (simp add: DecodeRune_ascii)
  then show ?thesis using True by (simp add: json_rune_def unquote_ascii)
next
  case False
  have w: "1 \<le> w \<and> w \<le> length (c # t)" using DecodeRune_width [of "c # t"] assms(1) by auto
  then have "length (take w (c # t)) = w" by simp
  then have high: "\<forall>b \<in> set (take w (c # t)). 128 \<le> (of_char b :: int)"
    using DecodeRune_multi [OF assms(1)] False assms(2) by simp
  show ?thesis
  proof (cases "r = 0x2028 \<or> r = 0x2029")
    case True
    then show ?thesis
      using DecodeRune_line [OF assms(1) True] by (auto simp: json_rune_def RuneError_def unescape_u_def hex_value_def)
  next
    case neither: False
    then have "json_rune (r, take w (c # t)) = take w (c # t)"
      using False assms(2) by (auto simp: json_rune_def)
    with high show ?thesis by (simp only: unquote_high)
  qed
qed

lemma unquote_runes: "ValidString s \<Longrightarrow> unquote (concat (map json_rune (runes s)) @ rst) = give s (unquote rst)"
proof (induction s arbitrary: rst rule: runes.induct)
  case (1 s)
  show ?case
  proof (cases s)
    case Nil
    then show ?thesis by (simp add: runes.simps)
  next
    case (Cons c t)
    obtain r w where d: "DecodeRuneInString (c # t) = (r, w)" by fastforce
    note rs = runes_Cons [OF d]
    have ok: "\<not> (r = RuneError \<and> length (take w (c # t)) = 1)" and tl: "ValidString (drop w (c # t))"
      using "1.prems" unfolding Cons ValidString_def rs by auto
    have "unquote (concat (map json_rune (runes (drop w (c # t)))) @ rst) = give (drop w (c # t)) (unquote rst)"
      using "1.IH" [of "(r, w)" r w rst] tl d Cons by simp
    then show ?thesis
      unfolding Cons rs by (simp add: unquote_rune [OF d ok] del: unquote.simps take_Cons' drop_Cons')
  qed
qed

lemma json_string_inj:
  assumes "ValidString s" "ValidString t" "json_string s @ u = json_string t @ v"
  shows "s = t \<and> u = v"
proof -
  have un: "unquote (concat (map json_rune (runes x)) @ [ch_dquote] @ y) = Some (x, y)" if "ValidString x" for x y
    unfolding unquote_runes [OF that] by (simp add: give_def)
  have "concat (map json_rune (runes s)) @ [ch_dquote] @ u = concat (map json_rune (runes t)) @ [ch_dquote] @ v"
    using assms(3) unfolding json_string_def by simp
  from arg_cong [OF this, of unquote] have "Some (s, u) = Some (t, v)"
    unfolding un [OF assms(1)] un [OF assms(2)] .
  then show ?thesis by simp
qed

text \<open>Two strings of one byte each that are written the same.\<close>

lemma json_string_invalid: "json_string [CHR 0xFF] = json_string [CHR 0xFE]"
  by code_simp
end
