(* ===== verification/Target_Dedup.thy ===== *)
theory Target_Dedup
  imports Go_Json Domain_Reference Platform Var_Scope
begin

text \<open>
  The collections of visited targets: \<^verbatim>\<open>states/dedup/targetinput.go\<close>, the part of
  \<^verbatim>\<open>states/states.go\<close> that makes a target state, \<^verbatim>\<open>states/visited-upfront-hash.go\<close> and the section of
  \<^verbatim>\<open>states/visited-legacy.go\<close> that runs under the lock. A target that was visited with the same inputs
  is not converted again. \<open>Normalize\<close>, \<open>Format\<close> and \<open>Parse\<close> are the functions of containerd's
  \<^verbatim>\<open>platforms\<close>, and \<open>sha\<close> is the SHA-256 of a text in hexadecimal. A slice of build arguments is an
  option, as \<open>json.Marshal\<close> tells a nil slice from an empty one.
\<close>

section \<open>Target inputs\<close>

record BuildArgInput =
  bai_Name :: string
  bai_ConstantValue :: string
  bai_DefaultValue :: string

record TargetInput =
  ti_TargetCanonical :: string
  ti_Platform :: string
  ti_BuildArgs :: "BuildArgInput list option"
  ti_AllowPrivileged :: bool

definition ti_args :: "TargetInput \<Rightarrow> BuildArgInput list" where
  "ti_args ti = (case ti_BuildArgs ti of None \<Rightarrow> [] | Some bais \<Rightarrow> bais)"

definition TargetInput_clone :: "TargetInput \<Rightarrow> TargetInput" where
  "TargetInput_clone ti = ti\<lparr>ti_BuildArgs := Some (ti_args ti)\<rparr>"

fun removeFirst :: "string \<Rightarrow> BuildArgInput list \<Rightarrow> BuildArgInput list" where
  "removeFirst name [] = []"
| "removeFirst name (b # bs) = (if bai_Name b = name then bs else b # removeFirst name bs)"

definition WithBuildArgInput :: "TargetInput \<Rightarrow> BuildArgInput \<Rightarrow> TargetInput" where
  "WithBuildArgInput ti bai =
    (let c = TargetInput_clone ti in c\<lparr>ti_BuildArgs := Some (removeFirst (bai_Name bai) (ti_args c) @ [bai])\<rparr>)"

definition WithFilterBuildArgs :: "TargetInput \<Rightarrow> (string \<Rightarrow> bool) \<Rightarrow> TargetInput" where
  "WithFilterBuildArgs ti names =
    (TargetInput_clone ti)\<lparr>ti_BuildArgs := Some (filter (\<lambda>b. names (bai_Name b)) (ti_args ti))\<rparr>"

definition cloneNoTag :: "string \<Rightarrow> TargetInput \<Rightarrow> ref_error + TargetInput" where
  "cloneNoTag home ti =
    rbind (if ti_TargetCanonical ti = [] then Inr []
           else rbind (ParseTarget home (ti_TargetCanonical ti))
             (\<lambda>t. Inr (referenceStringCanonical (RefTarget (t\<lparr>t_Tag := []\<rparr>)))))
      (\<lambda>str. Inr \<lparr>ti_TargetCanonical = str, ti_Platform = ti_Platform ti, ti_BuildArgs = Some (ti_args ti),
                 ti_AllowPrivileged = ti_AllowPrivileged ti\<rparr>)"

text \<open>\<open>json.Marshal\<close> of the two structs. The default value is not written.\<close>

definition json_field :: "string \<Rightarrow> string" where
  "json_field name = [ch_dquote] @ name @ [ch_dquote] @ '':''"

definition json_bool :: "bool \<Rightarrow> string" where
  "json_bool b = (if b then ''true'' else ''false'')"

definition json_bai :: "BuildArgInput \<Rightarrow> string" where
  "json_bai b = ''{'' @ json_field ''name'' @ json_string (bai_Name b) @ '','' @
     json_field ''constantValue'' @ json_string (bai_ConstantValue b) @ ''}''"

fun json_items :: "BuildArgInput list \<Rightarrow> string" where
  "json_items [] = '']''"
| "json_items [b] = json_bai b @ '']''"
| "json_items (b # bs) = json_bai b @ '','' @ json_items bs"

definition json_ti :: "TargetInput \<Rightarrow> string" where
  "json_ti ti = ''{'' @ json_field ''targetCanonical'' @ json_string (ti_TargetCanonical ti) @ '','' @
     json_field ''platform'' @ json_string (ti_Platform ti) @ '','' @
     json_field ''buildArgs'' @ (case ti_BuildArgs ti of None \<Rightarrow> ''null'' | Some bs \<Rightarrow> ''['' @ json_items bs) @ '','' @
     json_field ''allowPrivileged'' @ json_bool (ti_AllowPrivileged ti) @ ''}''"

definition TargetInput_Hash :: "(string \<Rightarrow> string) \<Rightarrow> TargetInput \<Rightarrow> string" where
  "TargetInput_Hash sha ti = sha (json_ti ti)"

definition HashNoTag :: "(string \<Rightarrow> string) \<Rightarrow> string \<Rightarrow> TargetInput \<Rightarrow> ref_error + string" where
  "HashNoTag sha home ti = rbind (cloneNoTag home ti) (\<lambda>c. Inr (sha (json_ti c)))"

definition IsDefaultValue :: "BuildArgInput \<Rightarrow> bool" where
  "IsDefaultValue b \<longleftrightarrow> (if IsBuiltIn (bai_Name b) then True else bai_ConstantValue b = bai_DefaultValue b)"

definition bai_Equals :: "BuildArgInput \<Rightarrow> BuildArgInput \<Rightarrow> bool" where
  "bai_Equals b other \<longleftrightarrow>
    (if bai_Name b \<noteq> bai_Name other then False
     else if bai_ConstantValue b \<noteq> bai_ConstantValue other then False else True)"

section \<open>Target states\<close>

text \<open>What the collections read of a \<open>SingleTarget\<close>. \<open>st_ID\<close> is a random unique string. The identifiers
  that wait in the channel of the parent are consumed by \<open>newSingleTarget\<close>.\<close>

record SingleTarget =
  st_ID :: string
  st_Target :: Target_ref
  st_targetInput :: TargetInput
  st_dependentIDs :: "string list"

text \<open>The conditions in which a target is asked for.\<close>

record Invocation =
  iv_target :: Target_ref
  iv_platr :: Resolver
  iv_allowPrivileged :: bool
  iv_overridingVars :: Scope

definition addOverridingVarsAsBuildArgInputs :: "TargetInput \<Rightarrow> Scope \<Rightarrow> TargetInput" where
  "addOverridingVarsAsBuildArgInputs ti ov =
    foldl (\<lambda>ti key. WithBuildArgInput ti
        \<lparr>bai_Name = key, bai_ConstantValue = (case Scope_Get ov key False of None \<Rightarrow> [] | Some v \<Rightarrow> v), bai_DefaultValue = []\<rparr>)
      ti (Scope_Sorted ov False)"

definition newTargetInput :: "(SpecsPlatform \<Rightarrow> SpecsPlatform) \<Rightarrow> (SpecsPlatform \<Rightarrow> string) \<Rightarrow> Invocation \<Rightarrow> TargetInput" where
  "newTargetInput Normalize Format iv =
    addOverridingVarsAsBuildArgInputs
      \<lparr>ti_TargetCanonical = referenceStringCanonical (RefTarget (iv_target iv)),
       ti_Platform = Platform_String Format (Materialize Normalize (iv_platr iv) (rs_currentPlatform (iv_platr iv))),
       ti_BuildArgs = None, ti_AllowPrivileged = iv_allowPrivileged iv\<rparr> (iv_overridingVars iv)"

definition newSingleTarget ::
  "(SpecsPlatform \<Rightarrow> SpecsPlatform) \<Rightarrow> (SpecsPlatform \<Rightarrow> string) \<Rightarrow> string \<Rightarrow> Invocation \<Rightarrow> string list \<Rightarrow> SingleTarget" where
  "newSingleTarget Normalize Format uuid iv parentDeps =
    \<lparr>st_ID = uuid, st_Target = iv_target iv, st_targetInput = newTargetInput Normalize Format iv, st_dependentIDs = parentDeps\<rparr>"

definition AddBuildArgInput :: "SingleTarget \<Rightarrow> BuildArgInput \<Rightarrow> SingleTarget" where
  "AddBuildArgInput sts bai = sts\<lparr>st_targetInput := WithBuildArgInput (st_targetInput sts) bai\<rparr>"

section \<open>The collection that hashes the inputs upfront\<close>

record visitedUpfrontHash =
  vu_visited :: "string \<rightharpoonup> SingleTarget"
  vu_visitedList :: "SingleTarget list"

definition NewVisitedUpfrontHash :: visitedUpfrontHash where
  "NewVisitedUpfrontHash = \<lparr>vu_visited = Map.empty, vu_visitedList = []\<rparr>"

definition upfront_Add ::
  "(string \<Rightarrow> string) \<Rightarrow> (SpecsPlatform \<Rightarrow> SpecsPlatform) \<Rightarrow> (SpecsPlatform \<Rightarrow> string) \<Rightarrow> string \<Rightarrow> Invocation \<Rightarrow>
    visitedUpfrontHash \<Rightarrow> SingleTarget \<times> bool \<times> visitedUpfrontHash" where
  "upfront_Add sha Normalize Format uuid iv vc =
    (let newSts = newSingleTarget Normalize Format uuid iv []; newKey = TargetInput_Hash sha (st_targetInput newSts) in
     case vu_visited vc newKey of
       Some sts \<Rightarrow> (sts, True, vc)
     | None \<Rightarrow> (newSts, False, vc\<lparr>vu_visited := (vu_visited vc)(newKey \<mapsto> newSts), vu_visitedList := vu_visitedList vc @ [newSts]\<rparr>))"

section \<open>The collection that compares inputs\<close>

definition compareTargetInputs ::
  "(string \<Rightarrow> 'e + SpecsPlatform) \<Rightarrow> (SpecsPlatform \<Rightarrow> SpecsPlatform) \<Rightarrow> Invocation \<Rightarrow> TargetInput \<Rightarrow> 'e + bool" where
  "compareTargetInputs Parse Normalize iv other =
    (if referenceStringCanonical (RefTarget (iv_target iv)) \<noteq> ti_TargetCanonical other then Inr False
     else if iv_allowPrivileged iv \<noteq> ti_AllowPrivileged other then Inr False
     else rbind (ParseAllowNativeAndUser Parse Normalize (ti_Platform other)) (\<lambda>stsPlat.
       if \<not> PlatformEquals Normalize (iv_platr iv) (rs_currentPlatform (iv_platr iv)) stsPlat then Inr False
       else Inr (list_all (\<lambda>bai.
         (case Scope_Get (iv_overridingVars iv) (bai_Name bai) False of
            Some v \<Rightarrow> bai_Equals \<lparr>bai_Name = bai_Name bai, bai_ConstantValue = v, bai_DefaultValue = bai_DefaultValue bai\<rparr> bai
          | None \<Rightarrow> IsDefaultValue bai)) (ti_args other))))"

record legacyVisited =
  vl_visited :: "string \<rightharpoonup> SingleTarget list"
  vl_visitedList :: "SingleTarget list"

definition NewLegacyVisited :: legacyVisited where
  "NewLegacyVisited = \<lparr>vl_visited = Map.empty, vl_visitedList = []\<rparr>"

text \<open>The outcomes of \<open>Add\<close>: a state with whether it was found, an error, or the panic of the sanity
  check that a state with the same inputs is done.\<close>

datatype 'e visit = Visited SingleTarget bool | CompareErr 'e | InfiniteRecursion Target_ref | NotDone

fun legacy_search ::
  "(string \<Rightarrow> 'e + SpecsPlatform) \<Rightarrow> (SpecsPlatform \<Rightarrow> SpecsPlatform) \<Rightarrow> Invocation \<Rightarrow> (string \<Rightarrow> bool) \<Rightarrow> (string \<Rightarrow> bool) \<Rightarrow>
    SingleTarget list \<Rightarrow> 'e visit option" where
  "legacy_search Parse Normalize iv dependents isDone [] = None"
| "legacy_search Parse Normalize iv dependents isDone (sts # rst) =
    (case compareTargetInputs Parse Normalize iv (st_targetInput sts) of
       Inl e \<Rightarrow> Some (CompareErr e)
     | Inr same \<Rightarrow>
         if same then
           (if dependents (st_ID sts) then Some (InfiniteRecursion (iv_target iv))
            else if \<not> isDone (st_ID sts) then Some NotDone
            else Some (Visited sts True))
         else legacy_search Parse Normalize iv dependents isDone rst)"

text \<open>\<open>Add\<close> after \<open>waitAllDoneAndLock\<close> has returned with the dependents and the lock.\<close>

definition legacy_Add ::
  "(string \<Rightarrow> 'e + SpecsPlatform) \<Rightarrow> (SpecsPlatform \<Rightarrow> SpecsPlatform) \<Rightarrow> (SpecsPlatform \<Rightarrow> string) \<Rightarrow> string \<Rightarrow> Invocation \<Rightarrow>
    string list \<Rightarrow> (string \<Rightarrow> bool) \<Rightarrow> legacyVisited \<Rightarrow> 'e visit \<times> legacyVisited" where
  "legacy_Add Parse Normalize Format uuid iv dependents isDone vc =
    (let key = referenceStringCanonical (RefTarget (iv_target iv));
         sts = (case vl_visited vc key of None \<Rightarrow> [] | Some l \<Rightarrow> l) in
     case legacy_search Parse Normalize iv (\<lambda>i. i \<in> set dependents) isDone sts of
       Some r \<Rightarrow> (r, vc)
     | None \<Rightarrow>
         let n = newSingleTarget Normalize Format uuid iv dependents in
         (Visited n False, vc\<lparr>vl_visited := (vl_visited vc)(key \<mapsto> sts @ [n]), vl_visitedList := vl_visitedList vc @ [n]\<rparr>))"

text \<open>\<open>waitAllDoneAndLock\<close> of one caller, with the list of the states of its target, which the other
  callers extend while the lock is free, and the states that get done. \<open>wt_deps\<close> are the dependents
  received so far.\<close>

datatype wait_pc = AtTop | WaitingFor "SingleTarget list" | LockHeld | WaitCanceled

record waiter =
  wt_visited :: "SingleTarget list"
  wt_done :: "string set"
  wt_deps :: "string set"
  wt_prevLen :: nat
  wt_pc :: wait_pc

inductive wait_step :: "waiter \<Rightarrow> waiter \<Rightarrow> bool" where
  top_same: "wt_pc w = AtTop \<Longrightarrow> wt_prevLen w = length (wt_visited w) \<Longrightarrow> wait_step w (w\<lparr>wt_pc := LockHeld\<rparr>)"
| top_new: "wt_pc w = AtTop \<Longrightarrow> wt_prevLen w \<noteq> length (wt_visited w) \<Longrightarrow>
    wait_step w (w\<lparr>wt_prevLen := length (wt_visited w), wt_pc := WaitingFor (wt_visited w)\<rparr>)"
| dependent: "wt_pc w = WaitingFor (sts # rst) \<Longrightarrow> st_ID sts \<in> wt_deps w \<Longrightarrow> wait_step w (w\<lparr>wt_pc := WaitingFor rst\<rparr>)"
| canceled: "wt_pc w = WaitingFor (sts # rst) \<Longrightarrow> st_ID sts \<notin> wt_deps w \<Longrightarrow> wait_step w (w\<lparr>wt_pc := WaitCanceled\<rparr>)"
| received: "wt_pc w = WaitingFor (sts # rst) \<Longrightarrow> st_ID sts \<notin> wt_deps w \<Longrightarrow>
    wait_step w (w\<lparr>wt_deps := insert newID (wt_deps w), wt_pc := WaitingFor (if newID = st_ID sts then rst else sts # rst)\<rparr>)"
| is_done: "wt_pc w = WaitingFor (sts # rst) \<Longrightarrow> st_ID sts \<notin> wt_deps w \<Longrightarrow> st_ID sts \<in> wt_done w \<Longrightarrow>
    wait_step w (w\<lparr>wt_pc := WaitingFor rst\<rparr>)"
| again: "wt_pc w = WaitingFor [] \<Longrightarrow> wait_step w (w\<lparr>wt_pc := AtTop\<rparr>)"
| other_add: "wt_pc w \<noteq> LockHeld \<Longrightarrow> wait_step w (w\<lparr>wt_visited := wt_visited w @ [sts]\<rparr>)"
| other_done: "wait_step w (w\<lparr>wt_done := insert i (wt_done w)\<rparr>)"

inductive wait_reachable :: "waiter \<Rightarrow> bool" where
  wait_init: "wait_reachable \<lparr>wt_visited = vs, wt_done = ds, wt_deps = {}, wt_prevLen = 0, wt_pc = AtTop\<rparr>"
| wait_next: "wait_reachable w \<Longrightarrow> wait_step w w' \<Longrightarrow> wait_reachable w'"


end
