(* ===== verification/Dedup_Correct.thy ===== *)
theory Dedup_Correct
  imports Target_Dedup
begin

text \<open>
  The collections of visited targets deduplicate invocations: the collection that hashes upfront
  finds a target exactly when an earlier invocation was the same, and the collection that compares
  never meets a target with the same inputs that is neither done nor waiting on the caller.
\<close>

section \<open>The input of an invocation\<close>

lemma removeFirst_new: "name \<notin> bai_Name ` set bs \<Longrightarrow> removeFirst name bs = bs"
  by (induction bs) auto

lemma foldl_WithBuildArgInput:
  assumes "distinct ks" "set ks \<inter> bai_Name ` set (ti_args ti) = {}" "\<And>k. bai_Name (mk k) = k"
  shows "foldl (\<lambda>ti k. WithBuildArgInput ti (mk k)) ti ks =
    (if ks = [] then ti else ti\<lparr>ti_BuildArgs := Some (ti_args ti @ map mk ks)\<rparr>)"
  using assms(1,2)
proof (induction ks arbitrary: ti)
  case (Cons k ks)
  have w: "WithBuildArgInput ti (mk k) = ti\<lparr>ti_BuildArgs := Some (ti_args ti @ [mk k])\<rparr>"
    using Cons.prems by (simp add: WithBuildArgInput_def TargetInput_clone_def ti_args_def assms(3) removeFirst_new Let_def)
  show ?case
    using Cons.IH [of "WithBuildArgInput ti (mk k)"] Cons.prems assms(3)
    by (auto simp: w ti_args_def)
qed simp

definition var_input :: "Scope \<Rightarrow> string \<Rightarrow> BuildArgInput" where
  "var_input ov k = \<lparr>bai_Name = k, bai_ConstantValue = (case Scope_Get ov k False of None \<Rightarrow> [] | Some v \<Rightarrow> v), bai_DefaultValue = []\<rparr>"

lemma Scope_Sorted_set: "set (Scope_Sorted s False) = {k. Scope_Get s k False \<noteq> None}"
  by (force simp: Scope_Sorted_def Scope_Get_def map_of_eq_None_iff split: option.splits)

lemma Scope_Sorted_mem: "k \<in> set (Scope_Sorted s False) \<longleftrightarrow> Scope_Get s k False \<noteq> None"
  unfolding Scope_Sorted_set by simp

lemma Scope_Sorted_distinct: "scope_wf s \<Longrightarrow> distinct (Scope_Sorted s False) \<and> sorted (Scope_Sorted s False)"
  by (simp add: Scope_Sorted_def scope_wf_def case_prod_unfold)

lemma newTargetInput_args:
  assumes "scope_wf (iv_overridingVars iv)"
  shows "newTargetInput Normalize Format iv =
    \<lparr>ti_TargetCanonical = referenceStringCanonical (RefTarget (iv_target iv)),
     ti_Platform = Platform_String Format (Materialize Normalize (iv_platr iv) (rs_currentPlatform (iv_platr iv))),
     ti_BuildArgs = (let ks = Scope_Sorted (iv_overridingVars iv) False in
       if ks = [] then None else Some (map (var_input (iv_overridingVars iv)) ks)),
     ti_AllowPrivileged = iv_allowPrivileged iv\<rparr>"
  using foldl_WithBuildArgInput [of "Scope_Sorted (iv_overridingVars iv) False" _ "var_input (iv_overridingVars iv)"]
    Scope_Sorted_distinct [OF assms]
  by (simp add: newTargetInput_def addOverridingVarsAsBuildArgInputs_def var_input_def ti_args_def Let_def)

text \<open>Two invocations are the same when they ask for the same target, on the same platform, with
  the same privileges and the same values of the overriding variables.\<close>

definition same_invocation :: "(SpecsPlatform \<Rightarrow> SpecsPlatform) \<Rightarrow> (SpecsPlatform \<Rightarrow> string) \<Rightarrow> Invocation \<Rightarrow> Invocation \<Rightarrow> bool" where
  "same_invocation Normalize Format a b \<longleftrightarrow>
     referenceStringCanonical (RefTarget (iv_target a)) = referenceStringCanonical (RefTarget (iv_target b)) \<and>
     Platform_String Format (Materialize Normalize (iv_platr a) (rs_currentPlatform (iv_platr a))) =
       Platform_String Format (Materialize Normalize (iv_platr b) (rs_currentPlatform (iv_platr b))) \<and>
     iv_allowPrivileged a = iv_allowPrivileged b \<and>
     (\<forall>k. Scope_Get (iv_overridingVars a) k False = Scope_Get (iv_overridingVars b) k False)"

lemma var_inputs_inj:
  assumes wf: "scope_wf a" "scope_wf b"
    and eq: "map (var_input a) (Scope_Sorted a False) = map (var_input b) (Scope_Sorted b False)"
  shows "Scope_Get a k False = Scope_Get b k False"
proof -
  have ks: "Scope_Sorted a False = Scope_Sorted b False"
    using arg_cong [OF eq, of "map bai_Name"] by (simp add: comp_def var_input_def)
  show ?thesis
  proof (cases "k \<in> set (Scope_Sorted a False)")
    case True
    then have "var_input a k = var_input b k" using eq ks by (simp add: map_eq_conv)
    moreover obtain va where "Scope_Get a k False = Some va" using True Scope_Sorted_mem by blast
    moreover obtain vb where "Scope_Get b k False = Some vb" using True unfolding ks Scope_Sorted_mem by blast
    ultimately show ?thesis by (simp add: var_input_def)
  next
    case False
    then have "Scope_Get a k False = None" using Scope_Sorted_mem by blast
    moreover have "Scope_Get b k False = None" using False unfolding ks Scope_Sorted_mem by simp
    ultimately show ?thesis by simp
  qed
qed

lemma Scope_Sorted_cong:
  assumes "scope_wf a" "scope_wf b" "\<And>k. Scope_Get a k False = Scope_Get b k False"
  shows "Scope_Sorted a False = Scope_Sorted b False"
  by (rule sorted_distinct_set_unique) (use assms Scope_Sorted_distinct Scope_Sorted_set in auto)

lemma same_invocation_input:
  assumes "scope_wf (iv_overridingVars a)" "scope_wf (iv_overridingVars b)"
  shows "same_invocation Normalize Format a b \<longleftrightarrow> newTargetInput Normalize Format a = newTargetInput Normalize Format b"
proof
  assume same: "same_invocation Normalize Format a b"
  then have "var_input (iv_overridingVars a) = var_input (iv_overridingVars b)"
    by (auto simp: same_invocation_def var_input_def)
  with same show "newTargetInput Normalize Format a = newTargetInput Normalize Format b"
    using Scope_Sorted_cong [OF assms] assms by (simp add: same_invocation_def newTargetInput_args Let_def)
next
  assume eq: "newTargetInput Normalize Format a = newTargetInput Normalize Format b"
  then have "map (var_input (iv_overridingVars a)) (Scope_Sorted (iv_overridingVars a) False) =
      map (var_input (iv_overridingVars b)) (Scope_Sorted (iv_overridingVars b) False)"
    using assms by (auto simp: newTargetInput_args Let_def split: if_splits)
  from var_inputs_inj [OF assms this] eq show "same_invocation Normalize Format a b"
    using assms by (auto simp: same_invocation_def newTargetInput_args)
qed

section \<open>The text that is hashed\<close>

definition valid_bai :: "BuildArgInput \<Rightarrow> bool" where
  "valid_bai b \<longleftrightarrow> ValidString (bai_Name b) \<and> ValidString (bai_ConstantValue b)"

definition valid_ti :: "TargetInput \<Rightarrow> bool" where
  "valid_ti ti \<longleftrightarrow> ValidString (ti_TargetCanonical ti) \<and> ValidString (ti_Platform ti) \<and> list_all valid_bai (ti_args ti)"

definition bai_view :: "BuildArgInput \<Rightarrow> string \<times> string" where
  "bai_view b = (bai_Name b, bai_ConstantValue b)"

lemma json_bai_inj:
  assumes "valid_bai b" "valid_bai c" "json_bai b @ u = json_bai c @ v"
  shows "bai_view b = bai_view c \<and> u = v"
proof -
  have "json_string (bai_Name b) @ '','' @ json_field ''constantValue'' @ json_string (bai_ConstantValue b) @ ''}'' @ u =
      json_string (bai_Name c) @ '','' @ json_field ''constantValue'' @ json_string (bai_ConstantValue c) @ ''}'' @ v"
    using assms(3) by (simp add: json_bai_def json_field_def)
  from json_string_inj [OF _ _ this] assms(1,2)
  have "bai_Name b = bai_Name c" "json_string (bai_ConstantValue b) @ ''}'' @ u = json_string (bai_ConstantValue c) @ ''}'' @ v"
    by (auto simp: valid_bai_def json_field_def)
  with json_string_inj [OF _ _ this(2)] assms(1,2) show ?thesis by (auto simp: valid_bai_def bai_view_def)
qed

lemma json_items_Cons: "json_items (b # bs) = json_bai b @ (if bs = [] then '']'' else '','' @ json_items bs)"
  by (cases bs) auto

lemma json_items_hd: "hd (json_items bs @ u) = (if bs = [] then CHR '']'' else CHR ''{'')"
  by (cases bs) (auto simp: json_items_Cons json_bai_def)

lemma json_items_inj:
  assumes "list_all valid_bai bs" "list_all valid_bai cs" "json_items bs @ u = json_items cs @ v"
  shows "map bai_view bs = map bai_view cs \<and> u = v"
  using assms
proof (induction bs arbitrary: cs)
  case Nil
  then have "cs = []" using json_items_hd [of "[]" u] json_items_hd [of cs v] by (auto split: if_splits)
  with Nil show ?case by simp
next
  case (Cons b bs)
  have "cs \<noteq> []" using Cons.prems(3) json_items_hd [of "b # bs" u] json_items_hd [of cs v] by (auto split: if_splits)
  then obtain c cs' where cs: "cs = c # cs'" by (cases cs) auto
  let ?tl = "\<lambda>bs. if bs = [] then '']'' else '','' @ json_items bs"
  have "json_bai b @ ?tl bs @ u = json_bai c @ ?tl cs' @ v"
    using Cons.prems(3) unfolding cs json_items_Cons by simp
  from json_bai_inj [OF _ _ this] Cons.prems cs have "bai_view b = bai_view c" "?tl bs @ u = ?tl cs' @ v" by auto
  then show ?case using Cons.IH [of cs'] Cons.prems cs by (auto split: if_splits)
qed

lemma json_ti_inj:
  assumes "valid_ti a" "valid_ti b" "json_ti a = json_ti b"
  shows "ti_TargetCanonical a = ti_TargetCanonical b \<and> ti_Platform a = ti_Platform b \<and>
    map_option (map bai_view) (ti_BuildArgs a) = map_option (map bai_view) (ti_BuildArgs b) \<and>
    ti_AllowPrivileged a = ti_AllowPrivileged b"
proof -
  define args where "args ti = (case ti_BuildArgs ti of None \<Rightarrow> ''null'' | Some bs \<Rightarrow> ''['' @ json_items bs)" for ti :: TargetInput
  define tail where "tail ti = '','' @ json_field ''allowPrivileged'' @ json_bool (ti_AllowPrivileged ti) @ ''}''" for ti :: TargetInput
  have "json_string (ti_TargetCanonical a) @ '','' @ json_field ''platform'' @ json_string (ti_Platform a) @ '','' @
        json_field ''buildArgs'' @ args a @ tail a =
      json_string (ti_TargetCanonical b) @ '','' @ json_field ''platform'' @ json_string (ti_Platform b) @ '','' @
        json_field ''buildArgs'' @ args b @ tail b"
    using assms(3) by (simp add: json_ti_def args_def tail_def json_field_def)
  from json_string_inj [OF _ _ this] assms(1,2)
  have 1: "ti_TargetCanonical a = ti_TargetCanonical b"
    "json_string (ti_Platform a) @ '','' @ json_field ''buildArgs'' @ args a @ tail a =
     json_string (ti_Platform b) @ '','' @ json_field ''buildArgs'' @ args b @ tail b"
    by (auto simp: valid_ti_def json_field_def)
  from json_string_inj [OF _ _ this(2)] assms(1,2)
  have 2: "ti_Platform a = ti_Platform b" "args a @ tail a = args b @ tail b" by (auto simp: valid_ti_def json_field_def)
  have "map_option (map bai_view) (ti_BuildArgs a) = map_option (map bai_view) (ti_BuildArgs b) \<and> tail a = tail b"
  proof (cases "ti_BuildArgs a"; cases "ti_BuildArgs b")
    fix bs cs assume "ti_BuildArgs a = Some bs" "ti_BuildArgs b = Some cs"
    then show ?thesis using json_items_inj [of bs cs "tail a" "tail b"] 2(2) assms(1,2) by (simp add: args_def valid_ti_def ti_args_def)
  qed (use 2(2) in \<open>simp_all add: args_def\<close>)
  moreover from this have "ti_AllowPrivileged a = ti_AllowPrivileged b"
    by (auto simp: tail_def json_bool_def split: if_splits)
  ultimately show ?thesis using 1(1) 2(1) by simp
qed

section \<open>Deduplication by the hash\<close>

text \<open>A sequence of calls of \<open>Add\<close>, each with the identifier that its new state would get.\<close>

definition upfront_adds ::
  "(string \<Rightarrow> string) \<Rightarrow> (SpecsPlatform \<Rightarrow> SpecsPlatform) \<Rightarrow> (SpecsPlatform \<Rightarrow> string) \<Rightarrow> (string \<times> Invocation) list \<Rightarrow> visitedUpfrontHash" where
  "upfront_adds sha Normalize Format ivs =
    foldl (\<lambda>vc (u, iv). snd (snd (upfront_Add sha Normalize Format u iv vc))) NewVisitedUpfrontHash ivs"

definition iv_hash :: "(string \<Rightarrow> string) \<Rightarrow> (SpecsPlatform \<Rightarrow> SpecsPlatform) \<Rightarrow> (SpecsPlatform \<Rightarrow> string) \<Rightarrow> Invocation \<Rightarrow> string" where
  "iv_hash sha Normalize Format iv = TargetInput_Hash sha (newTargetInput Normalize Format iv)"

lemma find_append: "List.find P (xs @ ys) = (case List.find P xs of None \<Rightarrow> List.find P ys | Some x \<Rightarrow> Some x)"
  by (induction xs) auto

lemma upfront_adds_visited:
  "vu_visited (upfront_adds sha Normalize Format ivs) key =
    map_option (\<lambda>(u, iv). newSingleTarget Normalize Format u iv []) (List.find (\<lambda>(u, iv). iv_hash sha Normalize Format iv = key) ivs)"
proof (induction ivs arbitrary: key rule: rev_induct)
  case (snoc x ivs)
  obtain u iv where x: "x = (u, iv)" by fastforce
  have key: "TargetInput_Hash sha (st_targetInput (newSingleTarget Normalize Format u iv [])) = iv_hash sha Normalize Format iv"
    by (simp add: iv_hash_def newSingleTarget_def)
  have vis: "vu_visited (upfront_adds sha Normalize Format (ivs @ [x])) =
      (let vc = upfront_adds sha Normalize Format ivs; h = iv_hash sha Normalize Format iv in
       case vu_visited vc h of Some sts \<Rightarrow> vu_visited vc
       | None \<Rightarrow> (vu_visited vc)(h \<mapsto> newSingleTarget Normalize Format u iv []))"
    by (simp add: upfront_adds_def x upfront_Add_def Let_def key split: option.split)
  show ?case
    unfolding vis by (auto simp: x find_append snoc Let_def split: option.splits)
qed (simp add: upfront_adds_def NewVisitedUpfrontHash_def)

lemma iv_hash_same:
  assumes "inj_on sha ((\<lambda>iv. json_ti (newTargetInput Normalize Format iv)) ` S)" "a \<in> S" "b \<in> S"
    "scope_wf (iv_overridingVars a)" "scope_wf (iv_overridingVars b)"
    "valid_ti (newTargetInput Normalize Format a)" "valid_ti (newTargetInput Normalize Format b)"
  shows "iv_hash sha Normalize Format a = iv_hash sha Normalize Format b \<longleftrightarrow> same_invocation Normalize Format a b"
proof
  assume "iv_hash sha Normalize Format a = iv_hash sha Normalize Format b"
  then have "json_ti (newTargetInput Normalize Format a) = json_ti (newTargetInput Normalize Format b)"
    using assms(1-3) by (auto simp: iv_hash_def TargetInput_Hash_def dest: inj_onD)
  note eq = json_ti_inj [OF assms(6,7) this]
  have view: "map var_input' ks = map var_input'' ks'"
    if "map bai_view (map var_input' ks) = map bai_view (map var_input'' ks')"
      "\<And>k. bai_DefaultValue (var_input' k) = []" "\<And>k. bai_DefaultValue (var_input'' k) = []"
    for var_input' var_input'' :: "string \<Rightarrow> BuildArgInput" and ks ks'
    using that(1)
  proof (induction ks arbitrary: ks')
    case (Cons k ks)
    then show ?case by (cases ks') (auto simp: bai_view_def that(2,3) intro: BuildArgInput.equality)
  qed auto
  have "map (var_input (iv_overridingVars a)) (Scope_Sorted (iv_overridingVars a) False) =
      map (var_input (iv_overridingVars b)) (Scope_Sorted (iv_overridingVars b) False)"
    by (rule view) (use eq assms(4,5) in \<open>auto simp: newTargetInput_args Let_def var_input_def split: if_splits\<close>)
  from var_inputs_inj [OF assms(4,5) this] eq assms(4,5) show "same_invocation Normalize Format a b"
    by (auto simp: same_invocation_def newTargetInput_args)
next
  assume "same_invocation Normalize Format a b"
  then show "iv_hash sha Normalize Format a = iv_hash sha Normalize Format b"
    using same_invocation_input [OF assms(4,5)] by (simp add: iv_hash_def)
qed

lemma find_cong_set: "(\<And>x. x \<in> set xs \<Longrightarrow> P x = Q x) \<Longrightarrow> List.find P xs = List.find Q xs"
  by (induction xs) auto

text \<open>
  C22. The collection that hashes the inputs finds a target exactly when an earlier call asked for the
  same target, on the same platform, with the same privileges and the same overriding variables, and
  then returns the state of the first such call. The hash has no collision on the inputs at hand, and
  their texts are valid UTF-8.\<close>

theorem upfront_Add_dedup:
  assumes "inj_on sha ((\<lambda>iv. json_ti (newTargetInput Normalize Format iv)) ` insert iv (snd ` set ivs))"
    "\<And>a. a \<in> insert iv (snd ` set ivs) \<Longrightarrow> scope_wf (iv_overridingVars a) \<and> valid_ti (newTargetInput Normalize Format a)"
    "upfront_Add sha Normalize Format u iv (upfront_adds sha Normalize Format ivs) = (sts, found, vc)"
  shows "found = (\<exists>a \<in> snd ` set ivs. same_invocation Normalize Format a iv) \<and>
    Some sts = map_option (\<lambda>(u, a). newSingleTarget Normalize Format u a [])
      (List.find (\<lambda>(u, a). same_invocation Normalize Format a iv) (ivs @ [(u, iv)]))"
proof -
  have same: "iv_hash sha Normalize Format a = iv_hash sha Normalize Format iv \<longleftrightarrow> same_invocation Normalize Format a iv"
    if "a \<in> insert iv (snd ` set ivs)" for a
    using iv_hash_same [OF assms(1) that _ _ _ _ _] assms(2) [OF that] assms(2) [of iv] by simp
  have "List.find (\<lambda>(u, a). iv_hash sha Normalize Format a = iv_hash sha Normalize Format iv) ivs =
      List.find (\<lambda>(u, a). same_invocation Normalize Format a iv) ivs"
  proof (rule find_cong_set, clarify)
    fix u a assume "(u, a) \<in> set ivs"
    then have "a \<in> insert iv (snd ` set ivs)" by force
    then show "(iv_hash sha Normalize Format a = iv_hash sha Normalize Format iv) = same_invocation Normalize Format a iv"
      by (rule same)
  qed
  then have vis: "vu_visited (upfront_adds sha Normalize Format ivs) (iv_hash sha Normalize Format iv) =
      map_option (\<lambda>(u, a). newSingleTarget Normalize Format u a []) (List.find (\<lambda>(u, a). same_invocation Normalize Format a iv) ivs)"
    by (simp add: upfront_adds_visited)
  have key: "TargetInput_Hash sha (st_targetInput (newSingleTarget Normalize Format u iv [])) = iv_hash sha Normalize Format iv"
    by (simp add: iv_hash_def newSingleTarget_def)
  have self: "same_invocation Normalize Format iv iv" by (simp add: same_invocation_def)
  show ?thesis
  proof (cases "List.find (\<lambda>(u, a). same_invocation Normalize Format a iv) ivs")
    case None
    then have "\<not> (\<exists>a \<in> snd ` set ivs. same_invocation Normalize Format a iv)" by (force simp: find_None_iff)
    with None show ?thesis using assms(3) vis self by (auto simp: upfront_Add_def Let_def key find_append)
  next
    case (Some x)
    then have "\<exists>a \<in> snd ` set ivs. same_invocation Normalize Format a iv"
      by (metis (mono_tags, lifting) case_prod_unfold find_Some_iff image_eqI nth_mem)
    with Some show ?thesis using assms(3) vis by (auto simp: upfront_Add_def Let_def key find_append)
  qed
qed

text \<open>Two invocations whose value of a variable differs in a byte that is not valid UTF-8 have the same
  hash, so the second one is taken for the first.\<close>

theorem invalid_utf8_collides:
  "TargetInput_Hash sha (WithBuildArgInput ti \<lparr>bai_Name = k, bai_ConstantValue = [CHR 0xFF], bai_DefaultValue = d\<rparr>) =
   TargetInput_Hash sha (WithBuildArgInput ti \<lparr>bai_Name = k, bai_ConstantValue = [CHR 0xFE], bai_DefaultValue = d\<rparr>)"
proof -
  have "json_items (bs @ [\<lparr>bai_Name = k, bai_ConstantValue = [CHR 0xFF], bai_DefaultValue = d\<rparr>]) =
      json_items (bs @ [\<lparr>bai_Name = k, bai_ConstantValue = [CHR 0xFE], bai_DefaultValue = d\<rparr>])" for bs
    by (induction bs) (simp_all add: json_items_Cons json_bai_def json_string_invalid)
  then show ?thesis by (simp add: TargetInput_Hash_def json_ti_def WithBuildArgInput_def TargetInput_clone_def Let_def)
qed

section \<open>Deduplication by comparison\<close>

text \<open>The texts of platforms read back.\<close>

definition platform_text_ok :: "(string \<Rightarrow> 'e + SpecsPlatform) \<Rightarrow> (SpecsPlatform \<Rightarrow> SpecsPlatform) \<Rightarrow> (SpecsPlatform \<Rightarrow> string) \<Rightarrow> bool" where
  "platform_text_ok Parse Normalize Format \<longleftrightarrow>
    (\<forall>p. Normalize (Normalize p) = Normalize p \<and> Parse (Format (Normalize p)) = Inr (Normalize p) \<and>
       Format (Normalize p) \<notin> {[], ''native'', ''user''})"

lemma compare_platform:
  assumes "platform_text_ok Parse Normalize Format"
  shows "ParseAllowNativeAndUser Parse Normalize (Platform_String Format (Materialize Normalize r inp)) = Inr (Materialize Normalize r inp)"
  using assms by (simp add: ParseAllowNativeAndUser_def Platform_String_def Materialize_def platform_text_ok_def Let_def)

text \<open>An invocation that is the same as the one that made a target input compares as the same, as
  long as the target has declared no further build argument.\<close>

theorem compare_same_invocation:
  assumes "platform_text_ok Parse Normalize Format" "same_invocation Normalize Format a b"
    "scope_wf (iv_overridingVars a)" "scope_wf (iv_overridingVars b)"
  shows "compareTargetInputs Parse Normalize b (newTargetInput Normalize Format a) = Inr True"
proof -
  have eq: "newTargetInput Normalize Format a = newTargetInput Normalize Format b"
    using same_invocation_input assms(2-4) by blast
  have plat: "PlatformEquals Normalize r p (Materialize Normalize r p)" for r p
    using assms(1) by (auto simp: PlatformEquals_def Materialize_def Let_def platform_text_ok_def split: option.splits)
  have "list_all (\<lambda>bai. case Scope_Get (iv_overridingVars b) (bai_Name bai) False of
      Some v \<Rightarrow> bai_Equals \<lparr>bai_Name = bai_Name bai, bai_ConstantValue = v, bai_DefaultValue = bai_DefaultValue bai\<rparr> bai
    | None \<Rightarrow> IsDefaultValue bai) (map (var_input (iv_overridingVars b)) (Scope_Sorted (iv_overridingVars b) False))"
    unfolding list_all_iff
    by (auto simp: var_input_def bai_Equals_def Scope_Sorted_mem split: option.splits)
  then show ?thesis
    unfolding eq newTargetInput_args [OF assms(4)]
    by (auto simp: compareTargetInputs_def compare_platform [OF assms(1)] plat ti_args_def Let_def)
qed

section \<open>The wait before a comparison\<close>

definition settled_sts :: "waiter \<Rightarrow> SingleTarget \<Rightarrow> bool" where
  "settled_sts w sts \<longleftrightarrow> st_ID sts \<in> wt_deps w \<or> st_ID sts \<in> wt_done w"

definition wait_inv :: "waiter \<Rightarrow> bool" where
  "wait_inv w \<longleftrightarrow> wt_prevLen w \<le> length (wt_visited w) \<and>
    (case wt_pc w of
       AtTop \<Rightarrow> list_all (settled_sts w) (take (wt_prevLen w) (wt_visited w))
     | WaitingFor rst \<Rightarrow> (\<exists>pre. take (wt_prevLen w) (wt_visited w) = pre @ rst \<and> list_all (settled_sts w) pre)
     | LockHeld \<Rightarrow> list_all (settled_sts w) (wt_visited w)
     | WaitCanceled \<Rightarrow> True)"

lemma settled_sts_mono: "list_all (settled_sts w) xs \<Longrightarrow> wt_deps w \<subseteq> wt_deps w' \<Longrightarrow> wt_done w \<subseteq> wt_done w' \<Longrightarrow> list_all (settled_sts w') xs"
  by (auto simp: list_all_iff settled_sts_def)

lemma settled_sts_update [simp]: "settled_sts (w\<lparr>wt_pc := p\<rparr>) = settled_sts w" "settled_sts (w\<lparr>wt_prevLen := n\<rparr>) = settled_sts w"
  "settled_sts (w\<lparr>wt_visited := vs\<rparr>) = settled_sts w"
  by (simp_all add: settled_sts_def [abs_def])

lemma wait_step_inv: "wait_step w w' \<Longrightarrow> wait_inv w \<Longrightarrow> wait_inv w'"
proof (induction rule: wait_step.induct)
  case (received w sts rst newID)
  then obtain pre where pre: "take (wt_prevLen w) (wt_visited w) = pre @ sts # rst" "list_all (settled_sts w) pre"
    by (auto simp: wait_inv_def)
  let ?w = "w\<lparr>wt_deps := insert newID (wt_deps w), wt_pc := WaitingFor (if newID = st_ID sts then rst else sts # rst)\<rparr>"
  have "list_all (settled_sts ?w) pre" by (rule settled_sts_mono [OF pre(2)]) auto
  moreover have "newID = st_ID sts \<Longrightarrow> list_all (settled_sts ?w) (pre @ [sts])"
    using calculation by (simp add: settled_sts_def)
  ultimately show ?case
    using received pre(1) by (cases "newID = st_ID sts") (auto simp: wait_inv_def intro: exI [of _ "pre @ [sts]"])
next
  case (dependent w sts rst)
  then obtain pre where "take (wt_prevLen w) (wt_visited w) = (pre @ [sts]) @ rst" "list_all (settled_sts w) (pre @ [sts])"
    by (auto simp: wait_inv_def settled_sts_def)
  with dependent show ?case by (auto simp: wait_inv_def settled_sts_def intro!: exI [of _ "pre @ [sts]"])
next
  case (is_done w sts rst)
  then obtain pre where "take (wt_prevLen w) (wt_visited w) = (pre @ [sts]) @ rst" "list_all (settled_sts w) (pre @ [sts])"
    by (auto simp: wait_inv_def settled_sts_def)
  with is_done show ?case by (auto simp: wait_inv_def settled_sts_def intro!: exI [of _ "pre @ [sts]"])
next
  case (other_done w i)
  have "list_all (settled_sts w) xs \<Longrightarrow> list_all (settled_sts (w\<lparr>wt_done := insert i (wt_done w)\<rparr>)) xs" for xs
    by (erule settled_sts_mono) auto
  with other_done show ?case by (auto simp: wait_inv_def split: wait_pc.splits)
qed (auto simp: wait_inv_def settled_sts_def [abs_def] split: wait_pc.splits)

lemma wait_reachable_inv: "wait_reachable w \<Longrightarrow> wait_inv w"
  by (induction rule: wait_reachable.induct) (simp add: wait_inv_def, erule wait_step_inv)

lemma legacy_search_settled:
  "list_all (\<lambda>sts. dependents (st_ID sts) \<or> isDone (st_ID sts)) stss \<Longrightarrow>
    legacy_search Parse Normalize iv dependents isDone stss \<noteq> Some NotDone"
  by (induction stss) (auto split: sum.split)

text \<open>
  C23. When \<open>waitAllDoneAndLock\<close> holds the lock, the search that follows does not panic: every state of
  the target is done, or waits on the caller and is an infinite recursion.\<close>

theorem legacy_Add_no_panic:
  assumes "wait_reachable w" "wt_pc w = LockHeld"
  shows "legacy_search Parse Normalize iv (\<lambda>i. i \<in> wt_deps w) (\<lambda>i. i \<in> wt_done w) (wt_visited w) \<noteq> Some NotDone"
  by (rule legacy_search_settled)
    (use wait_reachable_inv [OF assms(1)] assms(2) in \<open>simp add: wait_inv_def settled_sts_def [abs_def]\<close>)


section \<open>Concrete invocations\<close>

definition ex_linux :: SpecsPlatform where
  "ex_linux = \<lparr>sp_OS = ''linux'', sp_Architecture = ''amd64'', sp_Variant = []\<rparr>"

definition ex_Normalize :: "SpecsPlatform \<Rightarrow> SpecsPlatform" where
  "ex_Normalize p = ex_linux"

definition ex_Format :: "SpecsPlatform \<Rightarrow> string" where
  "ex_Format p = ''linux/amd64''"

definition ex_ParsePlatform :: "string \<Rightarrow> unit + SpecsPlatform" where
  "ex_ParsePlatform str = Inr ex_linux"

definition ex_build :: "string \<Rightarrow> Invocation" where
  "ex_build v = \<lparr>iv_target = \<lparr>t_GitURL = [], t_Tag = [], t_LocalPath = ''.'', t_ImportRef = [], t_Target = ''build''\<rparr>,
     iv_platr = NewResolver ex_linux ex_linux, iv_allowPrivileged = False,
     iv_overridingVars = snd (Scope_Add NewScope ''VERSION'' v False False)\<rparr>"

lemma ex_build_ok:
  "scope_wf (iv_overridingVars (ex_build v))"
  "valid_ti (newTargetInput ex_Normalize ex_Format (ex_build ''1''))"
  "valid_ti (newTargetInput ex_Normalize ex_Format (ex_build ''2''))"
  by (simp add: ex_build_def scope_wf_Add, code_simp+)

text \<open>The third call asks for the value of the second again, and gets its state.\<close>

theorem upfront_Add_dedup_witness:
  "fst (snd (upfront_Add id ex_Normalize ex_Format ''c'' (ex_build ''2'')
      (upfront_adds id ex_Normalize ex_Format [(''a'', ex_build ''1''), (''b'', ex_build ''2'')]))) \<and>
   st_ID (fst (upfront_Add id ex_Normalize ex_Format ''c'' (ex_build ''2'')
      (upfront_adds id ex_Normalize ex_Format [(''a'', ex_build ''1''), (''b'', ex_build ''2'')]))) = ''b''"
proof -
  have diff: "\<not> same_invocation ex_Normalize ex_Format (ex_build ''1'') (ex_build ''2'')"
    by (auto simp: same_invocation_def ex_build_def Scope_Get_def Scope_Add_def NewScope_def)
  have self: "same_invocation ex_Normalize ex_Format (ex_build ''2'') (ex_build ''2'')" by (simp add: same_invocation_def)
  obtain sts found vc where r: "upfront_Add id ex_Normalize ex_Format ''c'' (ex_build ''2'')
      (upfront_adds id ex_Normalize ex_Format [(''a'', ex_build ''1''), (''b'', ex_build ''2'')]) = (sts, found, vc)"
    by (metis prod.exhaust)
  have "scope_wf (iv_overridingVars a) \<and> valid_ti (newTargetInput ex_Normalize ex_Format a)"
    if "a \<in> insert (ex_build ''2'') (snd ` set [(''a'', ex_build ''1''), (''b'', ex_build ''2'')])" for a
    using that ex_build_ok by auto
  from upfront_Add_dedup [OF inj_on_id this r] diff self show ?thesis
    unfolding r by (simp add: newSingleTarget_def)
qed

text \<open>The same invocation compares as the same.\<close>

theorem compare_same_invocation_witness:
  "compareTargetInputs ex_ParsePlatform ex_Normalize (ex_build ''1'') (newTargetInput ex_Normalize ex_Format (ex_build ''1'')) = Inr True"
proof (rule compare_same_invocation)
  show "platform_text_ok ex_ParsePlatform ex_Normalize ex_Format"
    by (simp add: platform_text_ok_def ex_ParsePlatform_def ex_Normalize_def ex_Format_def)
qed (simp_all add: same_invocation_def ex_build_ok)

text \<open>A caller that found one state, waited for it and holds the lock.\<close>

definition ex_sts :: SingleTarget where
  "ex_sts = newSingleTarget ex_Normalize ex_Format ''a'' (ex_build ''1'') []"

definition ex_locked :: waiter where
  "ex_locked = \<lparr>wt_visited = [ex_sts], wt_done = {''a''}, wt_deps = {}, wt_prevLen = 1, wt_pc = LockHeld\<rparr>"

lemma ex_held_reachable: "wait_reachable ex_locked"
proof -
  let ?w = "\<lparr>wt_visited = [ex_sts], wt_done = {''a''}, wt_deps = {}, wt_prevLen = 0, wt_pc = AtTop\<rparr>"
  have id: "st_ID ex_sts = ''a''" by (simp add: ex_sts_def newSingleTarget_def)
  have "wait_step ?w (?w\<lparr>wt_prevLen := 1, wt_pc := WaitingFor [ex_sts]\<rparr>)"
    using wait_step.top_new [of ?w] by simp
  then have "wait_reachable (?w\<lparr>wt_prevLen := 1, wt_pc := WaitingFor [ex_sts]\<rparr>)" by (rule wait_next [OF wait_init])
  then have "wait_reachable (?w\<lparr>wt_prevLen := 1, wt_pc := WaitingFor []\<rparr>)"
    using wait_next wait_step.is_done [of "?w\<lparr>wt_prevLen := 1, wt_pc := WaitingFor [ex_sts]\<rparr>"] id by fastforce
  then have "wait_reachable (?w\<lparr>wt_prevLen := 1, wt_pc := AtTop\<rparr>)"
    using wait_next wait_step.again [of "?w\<lparr>wt_prevLen := 1, wt_pc := WaitingFor []\<rparr>"] by fastforce
  then show ?thesis
    using wait_next wait_step.top_same [of "?w\<lparr>wt_prevLen := 1, wt_pc := AtTop\<rparr>"] by (fastforce simp: ex_locked_def)
qed

theorem legacy_Add_no_panic_witness:
  "legacy_search ex_ParsePlatform ex_Normalize (ex_build ''1'') (\<lambda>i. i \<in> wt_deps ex_locked) (\<lambda>i. i \<in> wt_done ex_locked) (wt_visited ex_locked) \<noteq> Some NotDone"
  by (rule legacy_Add_no_panic [OF ex_held_reachable]) (simp add: ex_locked_def)


end
