(* ===== verification/Git_Lookup.thy ===== *)
theory Git_Lookup
  imports Go_Strconv Go_Path
begin

text \<open>
  The translation of Earthfile references to the URLs of git repositories,
  \<^verbatim>\<open>buildcontext/gitlookup.go\<close>. A compiled regular expression is a record of its three operations;
  the expression of the catch-all matcher is given by a function. The network, the ssh agent, the
  environment, the files, the hash of host names, base64, \<open>url.Parse\<close>, \<open>regexp.Compile\<close> and the
  functions of \<^verbatim>\<open>golang.org/x/crypto\<close> and of buildkit are the fields of an environment. Log messages
  are left out. Where the code collects the keys of a map the model has them in the order of their
  first insertion; \<open>ge_prefixes\<close> is the order in which \<open>parseGitProtocol\<close> goes through its map.
\<close>

section \<open>Data\<close>

record regexp =
  re_FindString :: "string \<Rightarrow> string"
  re_MatchString :: "string \<Rightarrow> bool"
  re_ReplaceAllString :: "string \<Rightarrow> string \<Rightarrow> string"

datatype gitProtocol = autoProtocol | sshProtocol | httpProtocol | httpsProtocol

record gitMatcher =
  gm_name :: string
  gm_re :: regexp
  gm_sub :: string
  gm_user :: string
  gm_suffix :: string
  gm_protocol :: gitProtocol
  gm_password :: string
  gm_prefix :: string
  gm_sshCommand :: string
  gm_port :: int
  gm_strictHostKeyChecking :: bool

record GitLookup =
  gl_catchAll :: gitMatcher
  gl_autoProtocols :: "string \<rightharpoonup> gitProtocol"
  gl_matchers :: "gitMatcher list"
  gl_keyScans :: "string list"

text \<open>The protocols of \<open>parseGitProtocol\<close>, which are numbers in the code.\<close>

datatype remoteProtocol = HTTPProtocol | HTTPSProtocol | SSHProtocol | GitProtocol | UnknownProtocol

datatype glerror = ErrNoMatch | Insecure string | SubWithPort string | BadRegexp string | UnsupportedGitProtocol string
  | ErrSubNotSupported | NoKnownHosts string | NoGitPath string | NoSplit string | UnsupportedRemote | UrlError string
  | InvalidScan | UnsupportedHash | KeyScanNoMatch | DecodeError string | SplitHostPortError string | GitPanic string

text \<open>What a file holds: nothing, a content, or an error on testing or reading it.\<close>

datatype hosts_file = NoFile | Content string | FileError

record gitenv =
  ge_Compile :: "string \<Rightarrow> regexp option"
  ge_Normalize :: "string \<Rightarrow> string"
  ge_hmac :: "string \<Rightarrow> string \<Rightarrow> string"
  ge_base64 :: "string \<Rightarrow> string option"
  ge_home :: "string option"
  ge_file :: "string \<Rightarrow> hosts_file"
  ge_algs :: "string list"
  ge_agent :: bool
  ge_ssh :: "string \<Rightarrow> string list \<Rightarrow> string list \<Rightarrow> bool"
  ge_USER :: "string option"
  ge_netrc :: "string \<Rightarrow> (string \<times> string) option"
  ge_implicitSSH :: "string \<Rightarrow> bool"
  ge_urlParse :: "string \<Rightarrow> (string \<times> string \<times> string) option"
  ge_prefixes :: "(string \<times> remoteProtocol) list"

section \<open>Texts\<close>

text \<open>\<open>strings.IndexByte\<close>, with \<open>None\<close> for -1, and the slice up to an index, which panics at -1.\<close>

definition IndexByte :: "string \<Rightarrow> char \<Rightarrow> nat option" where
  "IndexByte s c = (if c \<in> set s then Some (length (takeWhile (\<lambda>x. x \<noteq> c) s)) else None)"

definition sliceBefore :: "string \<Rightarrow> char \<Rightarrow> glerror + string" where
  "sliceBefore s c = (case IndexByte s c of None \<Rightarrow> Inl (GitPanic ''slice bounds out of range'') | Some n \<Rightarrow> Inr (take n s))"

text \<open>\<open>strings.Fields\<close>\<close>

fun fieldsLoop :: "(rune \<times> string) list \<Rightarrow> string \<Rightarrow> string list" where
  "fieldsLoop [] cur = (if cur = [] then [] else [cur])"
| "fieldsLoop (x # xs) cur =
    (if unicode_IsSpace (fst x) then (if cur = [] then fieldsLoop xs [] else cur # fieldsLoop xs []) else fieldsLoop xs (cur @ snd x))"

definition Fields :: "string \<Rightarrow> string list" where
  "Fields s = fieldsLoop (runes s) []"

text \<open>\<open>strings.ReplaceAll(s, "\r\n", "\n")\<close>\<close>

fun crlf :: "string \<Rightarrow> string" where
  "crlf (a # b # s) = (if a = CHR 0x0D \<and> b = ch_nl then ch_nl # crlf s else a # crlf (b # s))"
| "crlf s = s"

text \<open>\<open>url.QueryEscape\<close>\<close>

definition upperhex :: "nat \<Rightarrow> char" where
  "upperhex n = ''0123456789ABCDEF'' ! (n mod 16)"

definition QueryEscape :: "string \<Rightarrow> string" where
  "QueryEscape s = concat (map (\<lambda>c.
     if c \<in> set ''abcdefghijklmnopqrstuvwxyzABCDEFGHIJKLMNOPQRSTUVWXYZ0123456789-_.~'' then [c]
     else if c = ch_space then ''+''
     else [CHR ''%'', upperhex (of_char c div 16), upperhex (of_char c)]) s)"

text \<open>\<open>net.SplitHostPort\<close>\<close>

definition SplitHostPort :: "string \<Rightarrow> (string \<times> string) option" where
  "SplitHostPort hp =
    (if CHR '':'' \<notin> set hp then None
     else
       let i = length hp - 1 - length (takeWhile (\<lambda>c. c \<noteq> CHR '':'') (rev hp)); port = drop (Suc i) hp in
       if hd hp = CHR ''['' then
         (case IndexByte hp (CHR '']'') of
            None \<Rightarrow> None
          | Some e \<Rightarrow>
              if Suc e \<noteq> i then None
              else if CHR ''['' \<in> set (drop 1 hp) \<or> CHR '']'' \<in> set (drop (Suc e) hp) then None
              else Some (drop 1 (take e hp), port))
       else if CHR '':'' \<in> set (take i hp) \<or> CHR ''['' \<in> set hp \<or> CHR '']'' \<in> set hp then None
       else Some (take i hp, port))"

section \<open>Matchers\<close>

text \<open>The expression \<^verbatim>\<open>[^/]+/[^/]+/[^/]+\<close>: its match at the beginning of a text, and the leftmost one.\<close>

definition catchAllAt :: "string \<Rightarrow> string option" where
  "catchAllAt s =
    (let seg = takeWhile (\<lambda>c. c \<noteq> ch_slash); rst = dropWhile (\<lambda>c. c \<noteq> ch_slash);
         a = seg s; s1 = rst s; b = seg (drop 1 s1); s2 = rst (drop 1 s1); c = seg (drop 1 s2) in
     if a \<noteq> [] \<and> s1 \<noteq> [] \<and> b \<noteq> [] \<and> s2 \<noteq> [] \<and> c \<noteq> [] then Some (a @ [ch_slash] @ b @ [ch_slash] @ c) else None)"

fun catchAllFind :: "string \<Rightarrow> string" where
  "catchAllFind [] = []"
| "catchAllFind (x # s) = (case catchAllAt (x # s) of Some m \<Rightarrow> m | None \<Rightarrow> catchAllFind s)"

text \<open>The catch-all matcher has no substitution, so its \<open>ReplaceAllString\<close> is never called.\<close>

definition catchAll_re :: regexp where
  "catchAll_re = \<lparr>re_FindString = catchAllFind, re_MatchString = (\<lambda>s. catchAllFind s \<noteq> []), re_ReplaceAllString = (\<lambda>s _. s)\<rparr>"

definition gitUser :: string where
  "gitUser = ''git''"

definition NewGitLookup :: GitLookup where
  "NewGitLookup =
    \<lparr>gl_catchAll = \<lparr>gm_name = [], gm_re = catchAll_re, gm_sub = [], gm_user = gitUser, gm_suffix = ''.git'', gm_protocol = autoProtocol,
       gm_password = [], gm_prefix = [], gm_sshCommand = [], gm_port = 0, gm_strictHostKeyChecking = False\<rparr>,
     gl_autoProtocols = Map.empty, gl_matchers = [], gl_keyScans = []\<rparr>"

definition DisableSSH :: "GitLookup \<Rightarrow> GitLookup" where
  "DisableSSH gl = gl
    \<lparr>gl_matchers := map (\<lambda>m. if gm_protocol m = sshProtocol \<or> gm_protocol m = autoProtocol then m\<lparr>gm_protocol := httpsProtocol\<rparr> else m) (gl_matchers gl),
     gl_catchAll := (if gm_protocol (gl_catchAll gl) = sshProtocol then (gl_catchAll gl)\<lparr>gm_protocol := httpsProtocol\<rparr> else gl_catchAll gl)\<rparr>"

definition knownHostsToKeyScans :: "string \<Rightarrow> string list" where
  "knownHostsToKeyScans knownHosts =
    rev (remdups (rev (filter (\<lambda>s. s \<noteq> [] \<and> \<not> prefix ''#'' s) (map TrimSpace (Split (crlf knownHosts) ch_nl)))))"

definition protocol_of :: "string \<Rightarrow> gitProtocol option" where
  "protocol_of s = map_of [(''http'', httpProtocol), (''https'', httpsProtocol), (''ssh'', sshProtocol), (''auto'', autoProtocol)] s"

fun replaceMatcher :: "gitMatcher \<Rightarrow> gitMatcher list \<Rightarrow> gitMatcher list option" where
  "replaceMatcher gm [] = None"
| "replaceMatcher gm (m # ms) = (if gm_name m = gm_name gm then Some (gm # ms) else map_option ((#) m) (replaceMatcher gm ms))"

type_synonym reference_pattern = string
type_synonym credential = string
type_synonym affix = string

definition AddMatcher ::
  "gitenv \<Rightarrow> string \<Rightarrow> reference_pattern \<Rightarrow> string \<Rightarrow> credential \<Rightarrow> credential \<Rightarrow> affix \<Rightarrow> affix \<Rightarrow> string \<Rightarrow> string \<Rightarrow> bool \<Rightarrow> int \<Rightarrow> string \<Rightarrow>
    GitLookup \<Rightarrow> glerror + GitLookup" where
  "AddMatcher ge name pattern sub user password pre suf protocol knownHosts strict port sshCommand gl =
    (if protocol = ''http'' \<and> password \<noteq> [] then Inl (Insecure name)
     else if sub \<noteq> [] \<and> (port \<noteq> 0 \<or> pre \<noteq> []) then Inl (SubWithPort name)
     else case ge_Compile ge pattern of
       None \<Rightarrow> Inl (BadRegexp pattern)
     | Some re \<Rightarrow>
         (case protocol_of protocol of
            None \<Rightarrow> Inl (UnsupportedGitProtocol protocol)
          | Some p \<Rightarrow>
              let gm = \<lparr>gm_name = name, gm_re = re, gm_sub = sub, gm_user = user, gm_suffix = suf, gm_protocol = p, gm_password = password,
                        gm_prefix = pre, gm_sshCommand = sshCommand, gm_port = port, gm_strictHostKeyChecking = strict\<rparr> in
              (case replaceMatcher gm (gl_matchers gl) of
                 Some ms \<Rightarrow> Inr (gl\<lparr>gl_matchers := ms\<rparr>)
               | None \<Rightarrow> Inr (gl\<lparr>gl_keyScans := gl_keyScans gl @ knownHostsToKeyScans knownHosts, gl_matchers := gl_matchers gl @ [gm]\<rparr>))))"

section \<open>Host keys\<close>

definition hasPort :: "string \<Rightarrow> bool" where
  "hasPort s \<longleftrightarrow>
    (if s = [] then False
     else if hd s = CHR ''['' then sublist '']:'' s
     else CHR '':'' \<in> set s)"

definition isHashedHost :: "gitenv \<Rightarrow> string \<Rightarrow> string \<Rightarrow> glerror + bool" where
  "isHashedHost ge hashAndSalt hostname =
    (if \<not> prefix ''|1|'' hashAndSalt then Inl UnsupportedHash
     else case Split (drop 3 hashAndSalt) (CHR ''|'') of
       [s0, s1] \<Rightarrow>
         (case ge_base64 ge s0 of
            None \<Rightarrow> Inl (DecodeError ''salt'')
          | Some salt \<Rightarrow>
              (case ge_base64 ge s1 of
                 None \<Rightarrow> Inl (DecodeError ''hash'')
               | Some h \<Rightarrow>
                   if ge_hmac ge hostname salt = h then Inr True
                   else if hasPort hostname then
                     (case SplitHostPort hostname of
                        None \<Rightarrow> Inl (SplitHostPortError hostname)
                      | Some (host, _) \<Rightarrow> Inr (ge_hmac ge host salt = h))
                   else Inr False))
     | _ \<Rightarrow> Inl InvalidScan)"

definition parseKeyScanIfHostMatches :: "gitenv \<Rightarrow> string \<Rightarrow> string \<Rightarrow> glerror + (string \<times> string)" where
  "parseKeyScanIfHostMatches ge keyScan host0 =
    (let hostname = ge_Normalize ge host0 in
     case Fields keyScan of
       scanned # alg # data # _ \<Rightarrow>
         if prefix ''|'' scanned then
           rbind (isHashedHost ge scanned hostname) (\<lambda>ok. if ok then Inr (alg, data) else Inl KeyScanNoMatch)
         else if scanned = hostname then Inr (alg, data)
         else if \<not> hasPort hostname then Inl KeyScanNoMatch
         else (case SplitHostPort hostname of
                 None \<Rightarrow> Inl (SplitHostPortError hostname)
               | Some (host, _) \<Rightarrow> if scanned \<noteq> host then Inl KeyScanNoMatch else Inr (alg, data))
     | _ \<Rightarrow> Inl InvalidScan)"

definition loadKnownHostsFromPath :: "gitenv \<Rightarrow> string \<Rightarrow> string list option" where
  "loadKnownHostsFromPath ge path =
    (case ge_file ge path of NoFile \<Rightarrow> Some [] | FileError \<Rightarrow> None | Content b \<Rightarrow> Some (knownHostsToKeyScans b))"

definition loadKnownHosts :: "gitenv \<Rightarrow> string list option" where
  "loadKnownHosts ge =
    (case ge_home ge of
       None \<Rightarrow> None
     | Some home \<Rightarrow>
         (case loadKnownHostsFromPath ge (path_Join home ''.ssh/known_hosts'') of
            None \<Rightarrow> None
          | Some ks \<Rightarrow>
              (case loadKnownHostsFromPath ge ''/etc/ssh/ssh_known_hosts'' of
                 None \<Rightarrow> None
               | Some es \<Rightarrow> Some (ks @ es))))"

definition defaultKeyScans :: "string list" where
  "defaultKeyScans =
    [''|1|+wkzm0y4RAEaLjnuB3lvMyNmqto=|A97DLdg1fwTjawL47CHJqEeE2lw= ssh-rsa AAAAB3NzaC1yc2EAAAADAQABAAABgQCj7ndNxQowgcQnjshcLrqPEiiphnt+VTTvDP6mHBL9j1aNUkY4Ue1gvwnGLVlOhGeYrnZaMgRK6+PKCUXaDbC7qtbW8gIkhL7aGCsOr/C56SJMy/BCZfxd1nWzAOxSDPgVsmerOBYfNqltV9/hWCqBywINIR+5dIg6JTJ72pcEpEjcYgXkE2YEFXV1JHnsKgbLWNlhScqb2UmyRkQyytRLtL+38TGxkxCflmO+5Z8CSSNY7GidjMIZ7Q4zMjA2n1nGrlTDkzwDCsw+wqFPGQA179cnfGWOWRVruj16z6XyvxvjJwbz0wQZ75XK5tKSb7FNyeIEs4TT4jk+S4dhPeAUC5y+bDYirYgM4GC7uEnztnZyaVWQ7B381AK4Qdrwt51ZqExKbQpTUNn+EjqoTwvqNj4kqx5QUCI0ThS/YkOxJCXmPUWZbhjpCg56i+2aB6CmK2JGhn57K5mj0MNdBXA4/WnwH6XoPWJzK5Nyu2zB3nAZp+S5hpQs+p1vN1/wsjk='',
     ''|1|tNJE6wQBmC1c4lJm0wtToe8IHxY=|I7K0Cre2i8VXpAKTS2P6Y7bIdqg= ecdsa-sha2-nistp256 AAAAE2VjZHNhLXNoYTItbmlzdHAyNTYAAAAIbmlzdHAyNTYAAABBBEmKSENjQEezOmxkZMy7opKgwFB9nkt5YRrYMjNuG5N87uRgg6CLrbo5wAdT/y6v0mKV0U2w0WZ2YB/++Tpockg='',
     ''|1|z0g6bpSrCXjh1vZdfzQP634n7SQ=|Xf+7/COPFwsdLXxWptK2/jRP2k0= ssh-ed25519 AAAAC3NzaC1lZDI1NTE5AAAAIOMqqnkVzrm0SdG6UOoqKLsabgH5C9okWi0dh2l9GKJl'',
     ''|1|an1urLLW36WT6FnJoB5BWqVwiEM=|RTcVDky6WhU+S+09yjALNiS4neo= ssh-rsa AAAAB3NzaC1yc2EAAAADAQABAAABAQCsj2bNKTBSpIYDEGk9KxsGh3mySTRgMtXL583qmBpzeQ+jqCMRgBqB98u3z++J1sKlXHWfM9dyhSevkMwSbhoR8XIq/U0tCNyokEi/ueaBMCvbcTHhO7FcwzY92WK4Yt0aGROY5qX2UKSeOvuP4D6TPqKF1onrSzH9bx9XUf2lEdWT/ia1NEKjunUqu1xOB/StKDHMoX4/OKyIzuS0q/T1zOATthvasJFoPrAjkohTyaDUz2LN5JoH839hViyEG82yB+MjcFV5MU3N1l1QL3cVUCh93xSaua1N85qivl+siMkPGbO5xR/En4iEY6K2XPASUEMaieWVNTRCtJ4S8H+9'',
     ''|1|z2nqpVA8ymA2aLuV3ig57xKYDOw=|2JC7T/Oek2fpc/rw+YOfolDdDCI= ecdsa-sha2-nistp256 AAAAE2VjZHNhLXNoYTItbmlzdHAyNTYAAAAIbmlzdHAyNTYAAABBBFSMqzJeV9rUzU4kWitGjeR4PWSa29SPqJ1fVkhtj3Hw9xjLVXVYrU9QlYWrOLXBpQ6KWjbjTDTdDkoohFzgbEY='',
     ''|1|JAhjb/FmPaOSwPtfZlOYRmq7nlg=|MysQCX5GQaSfAKTn5R5AHdskAt4= ssh-ed25519 AAAAC3NzaC1lZDI1NTE5AAAAIAfuCHKVTjquxvt6CM6tdG4SLp1Btn/nOeHHE5UOzRdf'',
     ''|1|5myLBXBnkK609Pb0DTrYhK9hn3k=|7wQiytbsZpu1pDE7AOs7pfBw/4M= ssh-rsa AAAAB3NzaC1yc2EAAAABIwAAAQEAubiN81eDcafrgMeLzaFPsw2kNvEcqTKl/VqLat/MaB33pZy0y3rJZtnqwR2qOOvbwKZYKiEO1O6VqNEBxKvJJelCq0dTXWT5pbO2gDXC6h6QDXCaHo6pOHGPUy+YBaGQRGuSusMEASYiWunYN0vCAI8QaXnWMXNMdFP3jHAJH0eDsoiGnLPBlBp4TNm6rYI74nMzgz3B9IikW4WVK+dc8KZJZWYjAuORU3jc1c/NPskD2ASinf8v3xnfXeukU0sJ5N6m5E8VLjObPEO+mN2t/FZTMZLiFqPWc/ALSqnMnnhwrNi2rbfg/rd/IpL8Le3pSBne8+seeFVBoGqzHM9yXw=='']"

definition matchingScans :: "gitenv \<Rightarrow> string \<Rightarrow> (string \<times> string) list" where
  "matchingScans ge hostname =
    concat (map (\<lambda>scan. case parseKeyScanIfHostMatches ge scan hostname of Inl _ \<Rightarrow> [] | Inr k \<Rightarrow> [k])
      ((case loadKnownHosts ge of None \<Rightarrow> [] | Some ks \<Rightarrow> ks) @ defaultKeyScans))"

definition getHostKeyAlgorithms :: "gitenv \<Rightarrow> string \<Rightarrow> string list \<times> string list" where
  "getHostKeyAlgorithms ge hostname =
    (filter (\<lambda>a. a \<in> fst ` set (matchingScans ge hostname)) (ge_algs ge),
     rev (remdups (rev (map (\<lambda>(alg, data). ge_Normalize ge hostname @ '' '' @ alg @ '' '' @ data) (matchingScans ge hostname)))))"

section \<open>Looking up matchers\<close>

definition getGitMatcherByPath :: "GitLookup \<Rightarrow> string \<Rightarrow> glerror + (string \<times> gitMatcher)" where
  "getGitMatcherByPath gl path =
    (case find (\<lambda>m. re_FindString (gm_re m) path \<noteq> []) (gl_matchers gl @ [gl_catchAll gl]) of
       None \<Rightarrow> Inl ErrNoMatch
     | Some m \<Rightarrow> Inr (re_FindString (gm_re m) path, m))"

definition getGitMatcherByName :: "GitLookup \<Rightarrow> string \<Rightarrow> gitMatcher" where
  "getGitMatcherByName gl name =
    (case find (\<lambda>m. gm_name m = name) (gl_matchers gl) of Some m \<Rightarrow> m | None \<Rightarrow> gl_catchAll gl)"

definition detectProtocol :: "gitenv \<Rightarrow> string \<Rightarrow> GitLookup \<Rightarrow> gitProtocol \<times> GitLookup" where
  "detectProtocol ge host gl =
    (case gl_autoProtocols gl host of
       Some p \<Rightarrow> (p, gl)
     | None \<Rightarrow>
         let p = (if \<not> ge_agent ge then httpsProtocol
                  else case getHostKeyAlgorithms ge host of (algs, keys) \<Rightarrow>
                    if keys = [] then httpsProtocol
                    else if ge_ssh ge host algs keys then sshProtocol else httpsProtocol)
         in (p, gl\<lparr>gl_autoProtocols := (gl_autoProtocols gl)(host \<mapsto> p)\<rparr>))"

definition lookupNetRCCredential :: "gitenv \<Rightarrow> string \<Rightarrow> string \<times> string" where
  "lookupNetRCCredential ge host = (case ge_netrc ge host of None \<Rightarrow> ([], []) | Some lp \<Rightarrow> lp)"

section \<open>Clone URLs\<close>

type_synonym clone = "string \<times> string list \<times> string"

definition sshURL :: "string \<Rightarrow> string \<Rightarrow> int \<Rightarrow> string \<Rightarrow> string" where
  "sshURL user host port gitPath =
    (if prefix [ch_slash] gitPath \<or> port \<noteq> 22 then
       ''ssh://'' @ user @ ''@'' @ host @ (if port \<noteq> 22 then '':'' @ Itoa port else []) @
         (if \<not> prefix [ch_slash] gitPath then [ch_slash] @ gitPath else gitPath)
     else user @ ''@'' @ host @ '':'' @ gitPath)"

definition makeCloneURL :: "gitenv \<Rightarrow> gitMatcher \<Rightarrow> string \<Rightarrow> string \<Rightarrow> GitLookup \<Rightarrow> (glerror + clone) \<times> GitLookup" where
  "makeCloneURL ge m host gitPath gl =
    (if gm_sub m \<noteq> [] then (Inl ErrSubNotSupported, gl)
     else
       let (protocol, gl) = (if gm_protocol m = autoProtocol then detectProtocol ge host gl else (gm_protocol m, gl));
           (user, password) = (if gm_protocol m = autoProtocol then
               (if protocol = sshProtocol then (gitUser, gm_password m)
                else if protocol = httpProtocol \<or> protocol = httpsProtocol then ([], []) else (gm_user m, gm_password m))
             else (gm_user m, gm_password m))
       in
       ((case protocol of
           sshProtocol \<Rightarrow>
             let user = (if user = [] then (case ge_USER ge of None \<Rightarrow> gitUser | Some u \<Rightarrow> u) else user);
                 port = (if gm_port m = 0 then 22 else gm_port m);
                 keyScans = snd (getHostKeyAlgorithms ge host) in
             if keyScans = [] \<and> gm_strictHostKeyChecking m then Inl (NoKnownHosts host)
             else Inr (sshURL user host port gitPath, keyScans, gm_sshCommand m)
         | httpProtocol \<Rightarrow> Inr (''http://'' @ host @ [ch_slash] @ gitPath, [], gm_sshCommand m)
         | httpsProtocol \<Rightarrow>
             let (user, password) = (if user = [] \<and> password = [] then lookupNetRCCredential ge host else (user, password));
                 userAndPass = (if user \<noteq> [] \<and> password \<noteq> [] then QueryEscape user @ '':'' @ QueryEscape password @ ''@'' else []) in
             Inr (''https://'' @ userAndPass @ host @ [ch_slash] @ gitPath, [], gm_sshCommand m)
         | autoProtocol \<Rightarrow> Inl (UnsupportedGitProtocol ''auto'')), gl))"

definition cutPrefixes :: "(string \<times> remoteProtocol) list \<Rightarrow> string \<Rightarrow> string \<times> remoteProtocol" where
  "cutPrefixes ps remote =
    foldl (\<lambda>(r, t) (p, pt). if prefix p r then (drop (length p) r, pt) else (r, t)) (remote, UnknownProtocol) ps"

definition parseGitProtocol :: "gitenv \<Rightarrow> string \<Rightarrow> string \<times> remoteProtocol" where
  "parseGitProtocol ge remote =
    (let (r, t) = cutPrefixes (ge_prefixes ge) remote;
         t = (if t = UnknownProtocol \<and> ge_implicitSSH ge r then SSHProtocol else t)
     in if t = SSHProtocol then
          (case SplitN2 r (CHR ''@'') of [_, r2] \<Rightarrow> (r2, t) | _ \<Rightarrow> (r, t))
        else (r, t))"

text \<open>The end of both lookups when a matcher has a substitution.\<close>

definition substituted :: "gitenv \<Rightarrow> gitMatcher \<Rightarrow> string \<Rightarrow> glerror + clone" where
  "substituted ge m path =
    (if \<not> re_MatchString (gm_re m) path then Inl (NoGitPath path)
     else
       let gitURL = re_ReplaceAllString (gm_re m) path (gm_sub m); (remote, protocol) = parseGitProtocol ge gitURL in
       if protocol = SSHProtocol then
         rbind (sliceBefore remote ch_slash) (\<lambda>subHost.
           let keyScans = snd (getHostKeyAlgorithms ge subHost) in
           if keyScans = [] \<and> gm_strictHostKeyChecking m then Inl (NoKnownHosts subHost)
           else Inr (gitURL, keyScans, gm_sshCommand m))
       else Inr (gitURL, [], gm_sshCommand m))"

definition GetCloneURL :: "gitenv \<Rightarrow> string \<Rightarrow> GitLookup \<Rightarrow> (glerror + (string \<times> clone)) \<times> GitLookup" where
  "GetCloneURL ge path gl =
    (case getGitMatcherByPath gl path of
       Inl e \<Rightarrow> (Inl e, gl)
     | Inr (mat, m) \<Rightarrow>
         let n = length mat;
             subPath = (if length path > n then drop (Suc n) path else []);
             path = (if length path > n then take n path else path) in
         (case sliceBefore path ch_slash of
            Inl e \<Rightarrow> (Inl e, gl)
          | Inr host \<Rightarrow>
              let gitPath = gm_prefix m @ (case IndexByte mat ch_slash of None \<Rightarrow> mat | Some i \<Rightarrow> drop (Suc i) mat) @ gm_suffix m in
              if gm_sub m = [] then
                (case makeCloneURL ge m host gitPath gl of (r, gl) \<Rightarrow> (rbind r (\<lambda>c. Inr (subPath, c)), gl))
              else (rbind (substituted ge m path) (\<lambda>c. Inr (subPath, c)), gl)))"

definition remoteParts :: "gitenv \<Rightarrow> string \<Rightarrow> glerror + (string \<times> string)" where
  "remoteParts ge inURL =
    (let (remote, protocol) = parseGitProtocol ge inURL in
     case protocol of
       HTTPProtocol \<Rightarrow> (case SplitN2 remote ch_slash of [h, p] \<Rightarrow> Inr (h, p) | _ \<Rightarrow> Inl (NoSplit remote))
     | HTTPSProtocol \<Rightarrow> (case SplitN2 remote ch_slash of [h, p] \<Rightarrow> Inr (h, p) | _ \<Rightarrow> Inl (NoSplit remote))
     | SSHProtocol \<Rightarrow>
         if ge_implicitSSH ge inURL then
           (case SplitN2 remote (CHR '':'') of [h, p] \<Rightarrow> Inr (h, p) | _ \<Rightarrow> Inl (NoSplit remote))
         else
           (case ge_urlParse ge inURL of
              None \<Rightarrow> Inl (UrlError inURL)
            | Some (scheme, host, path) \<Rightarrow>
                if scheme \<noteq> ''ssh'' then Inl (GitPanic ''expected scheme of ssh'')
                else Inr (TrimSuffix host '':22'', path))
     | _ \<Rightarrow> Inl UnsupportedRemote)"

definition ConvertCloneURL :: "gitenv \<Rightarrow> string \<Rightarrow> GitLookup \<Rightarrow> (glerror + clone) \<times> GitLookup" where
  "ConvertCloneURL ge inURL gl =
    (case remoteParts ge inURL of
       Inl e \<Rightarrow> (Inl e, gl)
     | Inr (host, gitPath) \<Rightarrow>
         let m = getGitMatcherByName gl host in
         if gm_sub m = [] then makeCloneURL ge m host (gm_prefix m @ gitPath) gl
         else (substituted ge m (host @ TrimSuffix gitPath ''.git''), gl))"

end
