(* ===== verification/Git_Clone.thy ===== *)
theory Git_Clone
  imports Git_Lookup
begin

text \<open>
  What the translation of references to clone URLs promises: the default matcher splits a reference
  into host, repository and path inside it, configured credentials only reach the protocols they are
  meant for, and a matcher replaces the one of its name. The last section has the inputs on which
  the code does something else than it means to.
\<close>

section \<open>References without a configuration\<close>

definition segment :: "string \<Rightarrow> bool" where
  "segment s \<longleftrightarrow> s \<noteq> [] \<and> ch_slash \<notin> set s"

lemma takeWhile_segment:
  assumes "ch_slash \<notin> set a" "rst = [] \<or> hd rst = ch_slash"
  shows "takeWhile (\<lambda>c. c \<noteq> ch_slash) (a @ rst) = a" "dropWhile (\<lambda>c. c \<noteq> ch_slash) (a @ rst) = rst"
proof -
  have "\<forall>c \<in> set a. c \<noteq> ch_slash" using assms(1) by auto
  with assms(2) show "takeWhile (\<lambda>c. c \<noteq> ch_slash) (a @ rst) = a" "dropWhile (\<lambda>c. c \<noteq> ch_slash) (a @ rst) = rst"
    by (cases rst; simp add: takeWhile_append dropWhile_append)+
qed

lemma catchAllFind_reference:
  assumes "segment a" "segment b" "segment c" "rst = [] \<or> hd rst = ch_slash"
  shows "catchAllFind (a @ [ch_slash] @ b @ [ch_slash] @ c @ rst) = a @ [ch_slash] @ b @ [ch_slash] @ c"
proof -
  have "catchAllAt (a @ [ch_slash] @ b @ [ch_slash] @ c @ rst) = Some (a @ [ch_slash] @ b @ [ch_slash] @ c)"
    using assms by (simp add: catchAllAt_def Let_def segment_def takeWhile_segment)
  moreover obtain x s where "a @ [ch_slash] @ b @ [ch_slash] @ c @ rst = x # s" by (cases a) auto
  ultimately show ?thesis by simp
qed

lemma find_snoc: "find P (xs @ [y]) = (case find P xs of None \<Rightarrow> if P y then Some y else None | Some x \<Rightarrow> Some x)"
  by (induction xs) auto

lemma IndexByte_segment: "ch_slash \<notin> set a \<Longrightarrow> IndexByte (a @ ch_slash # s) ch_slash = Some (length a)"
  using takeWhile_segment(1) [of a "ch_slash # s"] by (simp add: IndexByte_def)

lemma GetCloneURL_plain:
  assumes "getGitMatcherByPath gl (r @ rst) = Inr (r, m)" "gm_sub m = []" "sliceBefore r ch_slash = Inr host"
    "IndexByte r ch_slash = Some i" "rst = [] \<and> sub = [] \<or> rst = x # sub"
    "fst (makeCloneURL ge m host (gm_prefix m @ drop (Suc i) r @ gm_suffix m) gl) = Inr c"
  shows "fst (GetCloneURL ge (r @ rst) gl) = Inr (sub, c)"
  using assms(5) unfolding GetCloneURL_def assms(1)
  by (elim disjE; simp add: assms(2-4) assms(6) Let_def case_prod_unfold)

text \<open>The protocols that are ever detected.\<close>

definition detected_ok :: "GitLookup \<Rightarrow> bool" where
  "detected_ok gl \<longleftrightarrow> ran (gl_autoProtocols gl) \<subseteq> {sshProtocol, httpsProtocol}"

lemma detectProtocol_ok:
  assumes "detected_ok gl"
  shows "fst (detectProtocol ge host gl) \<in> {sshProtocol, httpsProtocol}" "detected_ok (snd (detectProtocol ge host gl))"
proof -
  have "p \<in> {sshProtocol, httpsProtocol}" if "gl_autoProtocols gl host = Some p" for p
    using assms that by (auto simp: detected_ok_def ran_def)
  then show "fst (detectProtocol ge host gl) \<in> {sshProtocol, httpsProtocol}"
    by (auto simp: detectProtocol_def Let_def split: option.split prod.split)
  then show "detected_ok (snd (detectProtocol ge host gl))"
    using assms by (auto simp: detected_ok_def detectProtocol_def Let_def ran_def split: option.splits if_splits prod.splits)
qed

definition netrc_userinfo :: "gitenv \<Rightarrow> string \<Rightarrow> string" where
  "netrc_userinfo ge host = (case lookupNetRCCredential ge host of (user, password) \<Rightarrow>
     if user \<noteq> [] \<and> password \<noteq> [] then QueryEscape user @ '':'' @ QueryEscape password @ ''@'' else [])"

section \<open>Credentials\<close>

text \<open>
  The user and the password of a matcher have no influence on a URL that is cloned by http, or by
  whatever protocol is detected.\<close>

theorem credentials_not_leaked:
  assumes "gm_protocol m = autoProtocol \<or> gm_protocol m = httpProtocol"
  shows "makeCloneURL ge (m\<lparr>gm_user := u, gm_password := p\<rparr>) host gitPath gl = makeCloneURL ge m host gitPath gl"
proof (cases "gm_protocol m = httpProtocol")
  case True
  then show ?thesis by (simp add: makeCloneURL_def Let_def)
next
  case False
  with assms have auto: "gm_protocol m = autoProtocol" by simp
  obtain d gl' where "detectProtocol ge host gl = (d, gl')" by fastforce
  then show ?thesis by (cases d) (simp_all add: makeCloneURL_def Let_def auto)
qed

text \<open>The user of a matcher is part of every ssh URL.\<close>

lemma ssh_uses_user:
  assumes "gm_protocol m = sshProtocol" "gm_sub m = []" "gm_user m \<noteq> []" "\<not> gm_strictHostKeyChecking m"
  shows "\<exists>keys. fst (makeCloneURL ge m host gitPath gl) =
    Inr (sshURL (gm_user m) host (if gm_port m = 0 then 22 else gm_port m) gitPath, keys, gm_sshCommand m)"
  using assms by (simp add: makeCloneURL_def Let_def)

section \<open>The table of matchers\<close>

definition gl_wf :: "GitLookup \<Rightarrow> bool" where
  "gl_wf gl \<longleftrightarrow> distinct (map gm_name (gl_matchers gl)) \<and> detected_ok gl \<and>
     (\<forall>m \<in> set (gl_matchers gl). (gm_protocol m = httpProtocol \<longrightarrow> gm_password m = []) \<and>
        (gm_sub m \<noteq> [] \<longrightarrow> gm_port m = 0 \<and> gm_prefix m = []))"

lemma replaceMatcher_cases:
  "(case replaceMatcher gm ms of
      None \<Rightarrow> gm_name gm \<notin> gm_name ` set ms
    | Some ms' \<Rightarrow> map gm_name ms' = map gm_name ms \<and> set ms' \<subseteq> insert gm (set ms) \<and>
        (\<forall>n. find (\<lambda>m. gm_name m = n) ms' = (if n = gm_name gm then Some gm else find (\<lambda>m. gm_name m = n) ms)))"
proof (induction ms)
  case (Cons m ms)
  then show ?case by (cases "replaceMatcher gm ms") (auto split: if_splits)
qed simp

lemma protocol_of_http: "protocol_of s = Some httpProtocol \<longleftrightarrow> s = ''http''"
  by (auto simp: protocol_of_def split: if_splits)

text \<open>
  A matcher that is added keeps the table well formed: its names are distinct, no matcher sends a
  password over http, and none combines a substitution with a port or a prefix. Looked up by its name
  it has the values that were given, and every other name keeps its matcher.\<close>

theorem AddMatcher_table:
  assumes "gl_wf gl" "AddMatcher ge name pattern sub user password pre suf protocol knownHosts strict port sshCommand gl = Inr gl'"
  shows "gl_wf gl' \<and> gl_catchAll gl' = gl_catchAll gl \<and>
    (\<forall>n. n \<noteq> name \<longrightarrow> getGitMatcherByName gl' n = getGitMatcherByName gl n) \<and>
    (\<exists>re p. ge_Compile ge pattern = Some re \<and> protocol_of protocol = Some p \<and>
      getGitMatcherByName gl' name = \<lparr>gm_name = name, gm_re = re, gm_sub = sub, gm_user = user, gm_suffix = suf, gm_protocol = p,
        gm_password = password, gm_prefix = pre, gm_sshCommand = sshCommand, gm_port = port, gm_strictHostKeyChecking = strict\<rparr>)"
proof -
  have g: "\<not> (protocol = ''http'' \<and> password \<noteq> [])" "\<not> (sub \<noteq> [] \<and> (port \<noteq> 0 \<or> pre \<noteq> []))"
    using assms(2) by (auto simp: AddMatcher_def split: if_splits)
  then obtain re p where re: "ge_Compile ge pattern = Some re" and p: "protocol_of protocol = Some p"
    using assms(2) by (auto simp: AddMatcher_def Let_def split: if_splits option.splits)
  define gm where "gm = \<lparr>gm_name = name, gm_re = re, gm_sub = sub, gm_user = user, gm_suffix = suf, gm_protocol = p,
        gm_password = password, gm_prefix = pre, gm_sshCommand = sshCommand, gm_port = port, gm_strictHostKeyChecking = strict\<rparr>"
  have add: "AddMatcher ge name pattern sub user password pre suf protocol knownHosts strict port sshCommand gl =
      (case replaceMatcher gm (gl_matchers gl) of
         Some ms \<Rightarrow> Inr (gl\<lparr>gl_matchers := ms\<rparr>)
       | None \<Rightarrow> Inr (gl\<lparr>gl_keyScans := gl_keyScans gl @ knownHostsToKeyScans knownHosts, gl_matchers := gl_matchers gl @ [gm]\<rparr>))"
    unfolding AddMatcher_def if_not_P [OF g(1)] if_not_P [OF g(2)] re p Let_def option.case gm_def by (rule HOL.refl)
  have ok: "(gm_protocol gm = httpProtocol \<longrightarrow> gm_password gm = []) \<and> (gm_sub gm \<noteq> [] \<longrightarrow> gm_port gm = 0 \<and> gm_prefix gm = [])"
    using g p protocol_of_http [of protocol] by (auto simp: gm_def)
  have nm: "gm_name gm = name" by (simp add: gm_def)
  note rep = replaceMatcher_cases [of gm "gl_matchers gl"]
  have "gl_wf gl' \<and> gl_catchAll gl' = gl_catchAll gl \<and>
    (\<forall>n. getGitMatcherByName gl' n = (if n = name then gm else getGitMatcherByName gl n))"
  proof (cases "replaceMatcher gm (gl_matchers gl)")
    case None
    then have gl': "gl' = gl\<lparr>gl_keyScans := gl_keyScans gl @ knownHostsToKeyScans knownHosts, gl_matchers := gl_matchers gl @ [gm]\<rparr>"
      using assms(2) unfolding add by simp
    have new: "name \<notin> gm_name ` set (gl_matchers gl)" using rep None nm by simp
    have none: "find (\<lambda>m. gm_name m = name) (gl_matchers gl) = None" using new by (auto simp: find_None_iff)
    have fnd: "find (\<lambda>m. gm_name m = n) (gl_matchers gl @ [gm]) =
        (if n = name then Some gm else find (\<lambda>m. gm_name m = n) (gl_matchers gl))" for n
      using none nm by (cases "n = name") (auto simp: find_snoc split: option.split)
    then have "getGitMatcherByName gl' n = (if n = name then gm else getGitMatcherByName gl n)" for n
      by (simp add: gl' getGitMatcherByName_def fnd split: option.split)
    moreover have "gl_wf gl'" using new nm assms(1) ok by (auto simp: gl' gl_wf_def detected_ok_def)
    ultimately show ?thesis by (simp add: gl')
  next
    case (Some ms)
    then have gl': "gl' = gl\<lparr>gl_matchers := ms\<rparr>"
      using assms(2) unfolding add by simp
    have fnd: "find (\<lambda>m. gm_name m = n) ms = (if n = name then Some gm else find (\<lambda>m. gm_name m = n) (gl_matchers gl))" for n
      using rep Some nm by simp
    then have "getGitMatcherByName gl' n = (if n = name then gm else getGitMatcherByName gl n)" for n
      by (simp add: gl' getGitMatcherByName_def fnd split: option.split)
    moreover have "gl_wf gl'" using rep Some assms(1) ok by (auto simp: gl' gl_wf_def detected_ok_def)
    ultimately show ?thesis by (simp add: gl')
  qed
  with re p show ?thesis by (auto simp: gm_def)
qed


section \<open>What the code does not mean to do\<close>

text \<open>Disabling ssh leaves the default matcher at the detected protocol, so a reference can still be
  cloned by ssh.\<close>

lemma DisableSSH_default: "gl_catchAll (DisableSSH NewGitLookup) = gl_catchAll NewGitLookup"
  by (simp add: DisableSSH_def NewGitLookup_def)

text \<open>A URL of a matcher with a substitution that has the short form of ssh is tested against the
  known hosts with the first part of its path in the name of the host.\<close>

lemma substituted_short_ssh:
  assumes "re_MatchString (gm_re m) path" "re_ReplaceAllString (gm_re m) path (gm_sub m) = ''git@'' @ host @ '':'' @ org @ [ch_slash] @ repo"
    "ge_implicitSSH ge (''git@'' @ host @ '':'' @ org @ [ch_slash] @ repo)"
    "ge_prefixes ge = [(''http://'', HTTPProtocol), (''https://'', HTTPSProtocol), (''git://'', GitProtocol), (''ssh://'', SSHProtocol)]"
    "CHR ''@'' \<notin> set host" "ch_slash \<notin> set host" "ch_slash \<notin> set org"
    "gm_strictHostKeyChecking m" "snd (getHostKeyAlgorithms ge (host @ '':'' @ org)) = []"
  shows "substituted ge m path = Inl (NoKnownHosts (host @ '':'' @ org))"
proof -
  define url where "url = ''git@'' @ host @ '':'' @ org @ [ch_slash] @ repo"
  have cut: "cutPrefixes (ge_prefixes ge) url = (url, UnknownProtocol)" by (simp add: assms(4) cutPrefixes_def url_def)
  have at: "SplitN2 url (CHR ''@'') = [''git'', host @ '':'' @ org @ [ch_slash] @ repo]"
    using SplitN2_append [of "CHR ''@''" "''git''"] by (simp add: url_def)
  have p: "parseGitProtocol ge url = (host @ '':'' @ org @ [ch_slash] @ repo, SSHProtocol)"
    unfolding parseGitProtocol_def cut using assms(3) [folded url_def] at by simp
  have "sliceBefore (host @ '':'' @ org @ [ch_slash] @ repo) ch_slash = Inr (host @ '':'' @ org)"
    using IndexByte_segment [of "host @ '':'' @ org" repo] assms(6,7) by (simp add: sliceBefore_def)
  then show ?thesis
    unfolding substituted_def assms(2) url_def [symmetric] Let_def p prod.case using assms(1,8,9) by simp
qed

text \<open>The path that is matched for a URL of https has no slash after the host.\<close>

lemma ConvertCloneURL_no_slash:
  assumes "remoteParts ge url = Inr (host, gitPath)" "gm_sub (getGitMatcherByName gl host) \<noteq> []"
    "\<not> re_MatchString (gm_re (getGitMatcherByName gl host)) (host @ TrimSuffix gitPath ''.git'')"
  shows "fst (ConvertCloneURL ge url gl) = Inl (NoGitPath (host @ TrimSuffix gitPath ''.git''))"
  using assms by (simp add: ConvertCloneURL_def substituted_def Let_def)

lemma https_parts:
  assumes "ge_prefixes ge = [(''http://'', HTTPProtocol), (''https://'', HTTPSProtocol), (''git://'', GitProtocol), (''ssh://'', SSHProtocol)]"
  shows "remoteParts ge ''https://github.com/org/repo.git'' = Inr (''github.com'', ''org/repo.git'')"
  by (simp add: remoteParts_def parseGitProtocol_def assms cutPrefixes_def SplitN2_def)

text \<open>A matcher whose expression matches a text without a slash makes the lookup panic.\<close>

theorem pattern_without_slash_panics:
  assumes "find (\<lambda>m. re_FindString (gm_re m) path \<noteq> []) (gl_matchers gl @ [gl_catchAll gl]) = Some m"
    "prefix (re_FindString (gm_re m) path) path" "ch_slash \<notin> set (re_FindString (gm_re m) path)"
  shows "fst (GetCloneURL ge path gl) = Inl (GitPanic ''slice bounds out of range'')"
proof -
  obtain t where t: "path = re_FindString (gm_re m) path @ t" using assms(2) by (auto simp: prefix_def)
  define mat where "mat = re_FindString (gm_re m) path"
  have m: "getGitMatcherByPath gl path = Inr (mat, m)" by (simp add: getGitMatcherByPath_def assms(1) mat_def)
  have "(if length path > length mat then take (length mat) path else path) = mat"
    using t unfolding mat_def [symmetric] by (cases t) auto
  then show ?thesis
    using assms(3) by (simp add: GetCloneURL_def m Let_def sliceBefore_def IndexByte_def mat_def [symmetric])
qed

section \<open>Concrete lookups\<close>

definition ex_gitenv :: gitenv where
  "ex_gitenv = \<lparr>ge_Compile = (\<lambda>p. Some \<lparr>re_FindString = (\<lambda>s. if prefix p s then p else []), re_MatchString = prefix p, re_ReplaceAllString = (\<lambda>s _. s)\<rparr>),
     ge_Normalize = id, ge_hmac = (\<lambda>h s. h), ge_base64 = Some, ge_home = None, ge_file = (\<lambda>_. NoFile), ge_algs = [], ge_agent = False,
     ge_ssh = (\<lambda>_ _ _. False), ge_USER = None, ge_netrc = (\<lambda>_. None), ge_implicitSSH = (\<lambda>_. False), ge_urlParse = (\<lambda>_. None), ge_prefixes = []\<rparr>"


definition ex_matcher :: gitMatcher where
  "ex_matcher = (gl_catchAll NewGitLookup)\<lparr>gm_user := ''joe'', gm_password := ''secret''\<rparr>"

theorem credentials_not_leaked_witness:
  "makeCloneURL ex_gitenv (ex_matcher\<lparr>gm_user := ''ann'', gm_password := ''other''\<rparr>) ''h'' ''p'' NewGitLookup = makeCloneURL ex_gitenv ex_matcher ''h'' ''p'' NewGitLookup"
  by (rule credentials_not_leaked) (simp add: ex_matcher_def NewGitLookup_def)

definition ex_lookup :: GitLookup where
  "ex_lookup = (case AddMatcher ex_gitenv ''h'' ''h'' [] ''joe'' ''pw'' [] ''.git'' ''https'' [] True 0 [] NewGitLookup of Inr gl \<Rightarrow> gl | Inl _ \<Rightarrow> NewGitLookup)"

lemma ex_lookup_added: "AddMatcher ex_gitenv ''h'' ''h'' [] ''joe'' ''pw'' [] ''.git'' ''https'' [] True 0 [] NewGitLookup = Inr ex_lookup"
  by (simp add: ex_lookup_def AddMatcher_def ex_gitenv_def protocol_of_def Let_def NewGitLookup_def)

theorem AddMatcher_table_witness: "gl_wf ex_lookup \<and> gm_user (getGitMatcherByName ex_lookup ''h'') = ''joe''"
proof -
  have "gl_wf NewGitLookup" by (simp add: gl_wf_def detected_ok_def NewGitLookup_def)
  from AddMatcher_table [OF this ex_lookup_added] show ?thesis by auto
qed

theorem pattern_without_slash_panics_witness:
  "fst (GetCloneURL ex_gitenv ''h/org/repo'' ex_lookup) = Inl (GitPanic ''slice bounds out of range'')"
proof (rule pattern_without_slash_panics)
  have ms: "gl_matchers ex_lookup = [\<lparr>gm_name = ''h'', gm_re = the (ge_Compile ex_gitenv ''h''), gm_sub = [], gm_user = ''joe'', gm_suffix = ''.git'', gm_protocol = httpsProtocol,
      gm_password = ''pw'', gm_prefix = [], gm_sshCommand = [], gm_port = 0, gm_strictHostKeyChecking = True\<rparr>]" (is "_ = [?m]")
    by (simp add: ex_lookup_def AddMatcher_def ex_gitenv_def protocol_of_def Let_def NewGitLookup_def)
  show "find (\<lambda>m. re_FindString (gm_re m) ''h/org/repo'' \<noteq> []) (gl_matchers ex_lookup @ [gl_catchAll ex_lookup]) = Some ?m"
    by (simp add: ms ex_gitenv_def)
  show "prefix (re_FindString (gm_re ?m) ''h/org/repo'') ''h/org/repo''" "ch_slash \<notin> set (re_FindString (gm_re ?m) ''h/org/repo'')"
    by (simp_all add: ex_gitenv_def)
qed

end
