(* ===== verification/Log_Delta.thy ===== *)
theory Log_Delta
  imports Prelude "HOL-Library.Word" "HOL-Library.AList"
begin

text \<open>
  The manifest of a run and the deltas that change it: the messages of \<^verbatim>\<open>logstream\<close> and their
  application, \<^verbatim>\<open>util/deltautil/apply.go\<close>. The maps of the messages are association lists. A field of
  a message that is not set has the zero value of its type; the default of a message field is \<open>None\<close>.
  Times are unsigned numbers of 64 bits, the other numbers are unbounded.
\<close>

section \<open>Messages\<close>

type_synonym nanos = "64 word"

datatype RunStatus = RUN_STATUS_UNKNOWN | RUN_STATUS_NOT_STARTED | RUN_STATUS_IN_PROGRESS | RUN_STATUS_SUCCESS
  | RUN_STATUS_FAILURE | RUN_STATUS_CANCELED

record ProtoLocation =
  pl_RepositoryUrl :: string
  pl_RepositoryHash :: string
  pl_File :: string
  pl_StartLine :: int
  pl_StartColumn :: int
  pl_EndLine :: int
  pl_EndColumn :: int

record Failure =
  fl_Type :: nat
  fl_TargetId :: string
  fl_CommandId :: string
  fl_ErrorMessage :: string
  fl_Output :: string
  fl_HelpMessage :: string

record TargetManifest =
  tm_Name :: string
  tm_CanonicalName :: string
  tm_OverrideArgs :: "string list"
  tm_GitUrl :: string
  tm_LocalPath :: string
  tm_Tag :: string
  tm_ImportRef :: string
  tm_InitialPlatform :: string
  tm_FinalPlatform :: string
  tm_Runner :: string
  tm_Status :: RunStatus
  tm_StartedAt :: nanos
  tm_EndedAt :: nanos
  tm_DependsOn :: "string list"

record CommandManifest =
  cm_Name :: string
  cm_TargetId :: string
  cm_Category :: string
  cm_Platform :: string
  cm_Status :: RunStatus
  cm_IsCached :: bool
  cm_IsLocal :: bool
  cm_IsInteractive :: bool
  cm_StartedAt :: nanos
  cm_EndedAt :: nanos
  cm_HasProgress :: bool
  cm_Progress :: int
  cm_ErrorMessage :: string
  cm_SourceLocation :: "ProtoLocation option"
  cm_DependsOn :: "(string \<times> string) list"

record RunManifest =
  rm_Version :: int
  rm_StartedAt :: nanos
  rm_EndedAt :: nanos
  rm_Status :: RunStatus
  rm_Targets :: "(string \<times> TargetManifest) list"
  rm_Commands :: "(string \<times> CommandManifest) list"
  rm_MainTargetId :: string
  rm_Failure :: "Failure option"
  rm_IsCi :: bool
  rm_GitAuthor :: string
  rm_GitConfigEmail :: string

text \<open>The delta of a target is a target manifest; the delta of a command is a command manifest with the
  flags that say which of its fields are set.\<close>

record CommandDelta =
  cd_fields :: CommandManifest
  cd_HasCached :: bool
  cd_HasLocal :: bool
  cd_HasInteractive :: bool
  cd_HasHasProgress :: bool
  cd_HasSourceLocation :: bool

record FieldsDelta =
  fd_MainTargetId :: string
  fd_StartedAt :: nanos
  fd_EndedAt :: nanos
  fd_Status :: RunStatus
  fd_HasFailure :: bool
  fd_Failure :: "Failure option"
  fd_Targets :: "(string \<times> TargetManifest) list"
  fd_Commands :: "(string \<times> CommandDelta) list"
  fd_IsCi :: bool
  fd_GitAuthor :: string
  fd_GitConfigEmail :: string

record DeltaLog =
  dl_TargetId :: string
  dl_CommandId :: string
  dl_Stream :: int
  dl_Timestamp :: nanos
  dl_Data :: string

datatype DeltaManifest = ResetAll RunManifest | Fields FieldsDelta | Resume

datatype DeltaKind = DManifest DeltaManifest | DLog DeltaLog | DFormatted DeltaLog

record Delta =
  de_Version :: int
  de_Kind :: DeltaKind

definition zero_TargetManifest :: TargetManifest where
  "zero_TargetManifest = \<lparr>tm_Name = [], tm_CanonicalName = [], tm_OverrideArgs = [], tm_GitUrl = [], tm_LocalPath = [], tm_Tag = [],
     tm_ImportRef = [], tm_InitialPlatform = [], tm_FinalPlatform = [], tm_Runner = [], tm_Status = RUN_STATUS_UNKNOWN, tm_StartedAt = 0,
     tm_EndedAt = 0, tm_DependsOn = []\<rparr>"

definition zero_CommandManifest :: CommandManifest where
  "zero_CommandManifest = \<lparr>cm_Name = [], cm_TargetId = [], cm_Category = [], cm_Platform = [], cm_Status = RUN_STATUS_UNKNOWN,
     cm_IsCached = False, cm_IsLocal = False, cm_IsInteractive = False, cm_StartedAt = 0, cm_EndedAt = 0, cm_HasProgress = False,
     cm_Progress = 0, cm_ErrorMessage = [], cm_SourceLocation = None, cm_DependsOn = []\<rparr>"

definition zero_CommandDelta :: CommandDelta where
  "zero_CommandDelta = \<lparr>cd_fields = zero_CommandManifest, cd_HasCached = False, cd_HasLocal = False, cd_HasInteractive = False,
     cd_HasHasProgress = False, cd_HasSourceLocation = False\<rparr>"

definition zero_RunManifest :: RunManifest where
  "zero_RunManifest = \<lparr>rm_Version = 0, rm_StartedAt = 0, rm_EndedAt = 0, rm_Status = RUN_STATUS_UNKNOWN, rm_Targets = [], rm_Commands = [],
     rm_MainTargetId = [], rm_Failure = None, rm_IsCi = False, rm_GitAuthor = [], rm_GitConfigEmail = []\<rparr>"

definition zero_FieldsDelta :: FieldsDelta where
  "zero_FieldsDelta = \<lparr>fd_MainTargetId = [], fd_StartedAt = 0, fd_EndedAt = 0, fd_Status = RUN_STATUS_UNKNOWN, fd_HasFailure = False,
     fd_Failure = None, fd_Targets = [], fd_Commands = [], fd_IsCi = False, fd_GitAuthor = [], fd_GitConfigEmail = []\<rparr>"

section \<open>Applying a delta\<close>

datatype delta_error = UnsupportedManifestVersion int | UnsupportedDeltaVersion int

definition delta_Version :: int where
  "delta_Version = 2"

definition checkVersion :: "RunManifest \<Rightarrow> Delta \<Rightarrow> delta_error + unit" where
  "checkVersion m d =
    (if rm_Version m \<noteq> 0 \<and> rm_Version m \<noteq> delta_Version then Inl (UnsupportedManifestVersion (rm_Version m))
     else if de_Version d \<noteq> 0 \<and> de_Version d \<noteq> delta_Version then Inl (UnsupportedDeltaVersion (de_Version d))
     else Inr ())"

text \<open>The new value when it is not the zero value.\<close>

definition newer :: "'a \<Rightarrow> 'a \<Rightarrow> 'a \<Rightarrow> 'a" where
  "newer zero new old = (if new \<noteq> zero then new else old)"

definition ensureTargetExists :: "string \<Rightarrow> RunManifest \<Rightarrow> RunManifest" where
  "ensureTargetExists i r =
    (case map_of (rm_Targets r) i of
       Some _ \<Rightarrow> r
     | None \<Rightarrow> r\<lparr>rm_Targets := AList.update i zero_TargetManifest (rm_Targets r)\<rparr>)"

definition ensureCommandExists :: "string \<Rightarrow> RunManifest \<Rightarrow> RunManifest" where
  "ensureCommandExists i r =
    (case map_of (rm_Commands r) i of
       Some _ \<Rightarrow> r
     | None \<Rightarrow> r\<lparr>rm_Commands := AList.update i zero_CommandManifest (rm_Commands r)\<rparr>)"

definition mergeTarget :: "TargetManifest \<Rightarrow> TargetManifest \<Rightarrow> TargetManifest" where
  "mergeTarget t2 t =
    \<lparr>tm_Name = newer [] (tm_Name t2) (tm_Name t),
     tm_CanonicalName = newer [] (tm_CanonicalName t2) (tm_CanonicalName t),
     tm_OverrideArgs = newer [] (tm_OverrideArgs t2) (tm_OverrideArgs t),
     tm_GitUrl = newer [] (tm_GitUrl t2) (tm_GitUrl t),
     tm_LocalPath = newer [] (tm_LocalPath t2) (tm_LocalPath t),
     tm_Tag = newer [] (tm_Tag t2) (tm_Tag t),
     tm_ImportRef = newer [] (tm_ImportRef t2) (tm_ImportRef t),
     tm_InitialPlatform = newer [] (tm_InitialPlatform t2) (tm_InitialPlatform t),
     tm_FinalPlatform = newer [] (tm_FinalPlatform t2) (tm_FinalPlatform t),
     tm_Runner = newer [] (tm_Runner t2) (tm_Runner t),
     tm_Status = newer RUN_STATUS_UNKNOWN (tm_Status t2) (tm_Status t),
     tm_StartedAt = newer 0 (tm_StartedAt t2) (tm_StartedAt t),
     tm_EndedAt = newer 0 (tm_EndedAt t2) (tm_EndedAt t),
     tm_DependsOn = tm_DependsOn t @ tm_DependsOn t2\<rparr>"

text \<open>The code overwrites the progress of a command when the delta has the value \<open>HasProgress\<close>.\<close>

definition mergeCommand :: "CommandDelta \<Rightarrow> CommandManifest \<Rightarrow> CommandManifest" where
  "mergeCommand d c =
    (let c2 = cd_fields d in
     \<lparr>cm_Name = newer [] (cm_Name c2) (cm_Name c),
      cm_TargetId = newer [] (cm_TargetId c2) (cm_TargetId c),
      cm_Category = newer [] (cm_Category c2) (cm_Category c),
      cm_Platform = newer [] (cm_Platform c2) (cm_Platform c),
      cm_Status = newer RUN_STATUS_UNKNOWN (cm_Status c2) (cm_Status c),
      cm_IsCached = (if cd_HasCached d then cm_IsCached c2 else cm_IsCached c),
      cm_IsLocal = (if cd_HasLocal d then cm_IsLocal c2 else cm_IsLocal c),
      cm_IsInteractive = (if cd_HasInteractive d then cm_IsInteractive c2 else cm_IsInteractive c),
      cm_StartedAt = newer 0 (cm_StartedAt c2) (cm_StartedAt c),
      cm_EndedAt = newer 0 (cm_EndedAt c2) (cm_EndedAt c),
      cm_HasProgress = (if cd_HasHasProgress d then cm_HasProgress c2 else cm_HasProgress c),
      cm_Progress = (if cm_HasProgress c2 then cm_Progress c2 else cm_Progress c),
      cm_ErrorMessage = newer [] (cm_ErrorMessage c2) (cm_ErrorMessage c),
      cm_SourceLocation = (if cd_HasSourceLocation d then cm_SourceLocation c2 else cm_SourceLocation c),
      cm_DependsOn = cm_DependsOn c @ cm_DependsOn c2\<rparr>)"

definition applyTarget :: "string \<times> TargetManifest \<Rightarrow> RunManifest \<Rightarrow> RunManifest" where
  "applyTarget kt r =
    (let r = ensureTargetExists (fst kt) r in
     r\<lparr>rm_Targets := AList.update (fst kt) (mergeTarget (snd kt) (the (map_of (rm_Targets r) (fst kt)))) (rm_Targets r)\<rparr>)"

definition applyCommand :: "string \<times> CommandDelta \<Rightarrow> RunManifest \<Rightarrow> RunManifest" where
  "applyCommand kc r =
    (let r = ensureCommandExists (fst kc) r;
         r = (if cm_TargetId (cd_fields (snd kc)) \<noteq> [] then ensureTargetExists (cm_TargetId (cd_fields (snd kc))) r else r) in
     r\<lparr>rm_Commands := AList.update (fst kc) (mergeCommand (snd kc) (the (map_of (rm_Commands r) (fst kc)))) (rm_Commands r)\<rparr>)"

definition setManifestFields :: "FieldsDelta \<Rightarrow> RunManifest \<Rightarrow> RunManifest" where
  "setManifestFields f r =
    fold applyCommand (fd_Commands f) (fold applyTarget (fd_Targets f)
      (r\<lparr>rm_StartedAt := newer 0 (fd_StartedAt f) (rm_StartedAt r),
         rm_EndedAt := newer 0 (fd_EndedAt f) (rm_EndedAt r),
         rm_Status := newer RUN_STATUS_UNKNOWN (fd_Status f) (rm_Status r),
         rm_Failure := (if fd_HasFailure f then fd_Failure f else rm_Failure r),
         rm_MainTargetId := newer [] (fd_MainTargetId f) (rm_MainTargetId r),
         rm_IsCi := (if fd_IsCi f then True else rm_IsCi r),
         rm_GitAuthor := newer [] (fd_GitAuthor f) (rm_GitAuthor r),
         rm_GitConfigEmail := newer [] (fd_GitConfigEmail f) (rm_GitConfigEmail r)\<rparr>))"

definition ApplyDelta :: "Delta \<Rightarrow> RunManifest \<Rightarrow> delta_error + RunManifest" where
  "ApplyDelta d m =
    rbind (checkVersion m d) (\<lambda>_.
      case de_Kind d of
        DManifest (ResetAll r) \<Rightarrow> Inr r
      | DManifest (Fields f) \<Rightarrow> Inr (setManifestFields f m)
      | _ \<Rightarrow> Inr m)"

section \<open>The bus of a run, replayed\<close>

text \<open>The manifest that a subscriber has after the deltas of a history.\<close>

fun replay :: "Delta list \<Rightarrow> RunManifest \<Rightarrow> delta_error + RunManifest" where
  "replay [] m = Inr m"
| "replay (d # ds) m = rbind (ApplyDelta d m) (replay ds)"

end
