(* ===== verification/Log_Bus.thy ===== *)
theory Log_Bus
  imports Log_Delta Circ_Buf Domain_Reference Earthfile_AST
begin

text \<open>
  The log bus: \<^verbatim>\<open>logbus/bus.go\<close>, \<^verbatim>\<open>logbus/run.go\<close>, \<^verbatim>\<open>logbus/target.go\<close>, \<^verbatim>\<open>logbus/command.go\<close>,
  \<^verbatim>\<open>logbus/generic.go\<close> and \<^verbatim>\<open>logbus/formattedwriter.go\<close>. A state holds the bus, the run and what every
  subscriber has been given. A subscriber is a number; a time is a number of nanoseconds, and the
  difference of two times is cut to 64 bits as \<open>time.Time.Sub\<close> does. Every operation runs under the
  locks of the objects it changes, so a run is a sequence of operations.
\<close>

section \<open>The bus\<close>

record Bus =
  bu_createdAt :: int
  bu_rawSubs :: "nat list"
  bu_rawHistory :: "Delta list"
  bu_formattedSubs :: "nat list"
  bu_formattedHistory :: "Delta list"

record Target_log =
  tl_dependsOn :: "string list"

record Command_log =
  cl_targetID :: string
  cl_tailOutput :: Buffer
  cl_dependsOn :: "string list"
  cl_started :: bool
  cl_lastProgress :: int

record Run_log =
  ru_bus :: Bus
  ru_received :: "nat \<Rightarrow> Delta list"
  ru_targets :: "string \<rightharpoonup> Target_log"
  ru_commands :: "string \<rightharpoonup> Command_log"
  ru_ended :: bool
  ru_hasMainTarget :: bool

definition New_bus :: "int \<Rightarrow> Run_log" where
  "New_bus now =
    \<lparr>ru_bus = \<lparr>bu_createdAt = now, bu_rawSubs = [], bu_rawHistory = [], bu_formattedSubs = [], bu_formattedHistory = []\<rparr>,
     ru_received = (\<lambda>_. []), ru_targets = Map.empty, ru_commands = Map.empty, ru_ended = False, ru_hasMainTarget = False\<rparr>"

definition time_Sub :: "int \<Rightarrow> int \<Rightarrow> int" where
  "time_Sub t u = max (- (2 ^ 63)) (min (2 ^ 63 - 1) (t - u))"

definition TsUnixNanos :: "Run_log \<Rightarrow> int \<Rightarrow> nanos" where
  "TsUnixNanos s t2 =
    word_of_int (bu_createdAt (ru_bus s)) + word_of_int (time_Sub t2 (bu_createdAt (ru_bus s)))"

definition give_all :: "nat list \<Rightarrow> Delta \<Rightarrow> (nat \<Rightarrow> Delta list) \<Rightarrow> nat \<Rightarrow> Delta list" where
  "give_all subs d rec = fold (\<lambda>i rec. rec(i := rec i @ [d])) subs rec"

definition AddRawSubscriber :: "nat \<Rightarrow> Run_log \<Rightarrow> Run_log" where
  "AddRawSubscriber i s = s\<lparr>ru_received := (ru_received s)(i := ru_received s i @ bu_rawHistory (ru_bus s)),
     ru_bus := (ru_bus s)\<lparr>bu_rawSubs := bu_rawSubs (ru_bus s) @ [i]\<rparr>\<rparr>"

definition AddFormattedSubscriber :: "nat \<Rightarrow> Run_log \<Rightarrow> Run_log" where
  "AddFormattedSubscriber i s = s\<lparr>ru_received := (ru_received s)(i := ru_received s i @ bu_formattedHistory (ru_bus s)),
     ru_bus := (ru_bus s)\<lparr>bu_formattedSubs := bu_formattedSubs (ru_bus s) @ [i]\<rparr>\<rparr>"

definition AddSubscriber :: "nat \<Rightarrow> Run_log \<Rightarrow> Run_log" where
  "AddSubscriber i s = AddFormattedSubscriber i (AddRawSubscriber i s)"

definition RemoveRawSubscriber :: "nat \<Rightarrow> Run_log \<Rightarrow> Run_log" where
  "RemoveRawSubscriber i s = s\<lparr>ru_bus := (ru_bus s)\<lparr>bu_rawSubs := remove1 i (bu_rawSubs (ru_bus s))\<rparr>\<rparr>"

definition RemoveFormattedSubscriber :: "nat \<Rightarrow> Run_log \<Rightarrow> Run_log" where
  "RemoveFormattedSubscriber i s = s\<lparr>ru_bus := (ru_bus s)\<lparr>bu_formattedSubs := remove1 i (bu_formattedSubs (ru_bus s))\<rparr>\<rparr>"

definition RemoveSubscriber :: "nat \<Rightarrow> Run_log \<Rightarrow> Run_log" where
  "RemoveSubscriber i s = RemoveFormattedSubscriber i (RemoveRawSubscriber i s)"

definition writeRaw :: "DeltaKind \<Rightarrow> Run_log \<Rightarrow> Run_log" where
  "writeRaw k s =
    (let d = \<lparr>de_Version = 0, de_Kind = k\<rparr> in
     s\<lparr>ru_bus := (ru_bus s)\<lparr>bu_rawHistory := bu_rawHistory (ru_bus s) @ [d]\<rparr>,
       ru_received := give_all (bu_rawSubs (ru_bus s)) d (ru_received s)\<rparr>)"

definition WriteDeltaManifest :: "DeltaManifest \<Rightarrow> Run_log \<Rightarrow> Run_log" where
  "WriteDeltaManifest dm s = writeRaw (DManifest dm) s"

definition WriteRawLog :: "DeltaLog \<Rightarrow> Run_log \<Rightarrow> Run_log" where
  "WriteRawLog dl s = writeRaw (DLog dl) s"

definition WriteFormattedLog :: "DeltaLog \<Rightarrow> Run_log \<Rightarrow> Run_log" where
  "WriteFormattedLog dfl s =
    (let d = \<lparr>de_Version = 0, de_Kind = DFormatted dfl\<rparr> in
     s\<lparr>ru_bus := (ru_bus s)\<lparr>bu_formattedHistory := bu_formattedHistory (ru_bus s) @ [d]\<rparr>,
       ru_received := give_all (bu_formattedSubs (ru_bus s)) d (ru_received s)\<rparr>)"

section \<open>Targets\<close>

definition targetDelta :: "string \<Rightarrow> TargetManifest \<Rightarrow> Run_log \<Rightarrow> Run_log" where
  "targetDelta i dtm s = WriteDeltaManifest (Fields (zero_FieldsDelta\<lparr>fd_Targets := [(i, dtm)]\<rparr>)) s"

definition Target_SetStart :: "string \<Rightarrow> int \<Rightarrow> Run_log \<Rightarrow> Run_log" where
  "Target_SetStart i start s =
    targetDelta i (zero_TargetManifest\<lparr>tm_Status := RUN_STATUS_IN_PROGRESS, tm_StartedAt := TsUnixNanos s start\<rparr>) s"

definition Target_SetEnd :: "string \<Rightarrow> int \<Rightarrow> RunStatus \<Rightarrow> string \<Rightarrow> Run_log \<Rightarrow> Run_log" where
  "Target_SetEnd i ending status finalPlatform s =
    targetDelta i (zero_TargetManifest\<lparr>tm_Status := status, tm_EndedAt := TsUnixNanos s ending, tm_FinalPlatform := finalPlatform\<rparr>) s"

text \<open>The methods of a target that the run does not have cannot be called: its object does not exist.\<close>

definition Target_AddDependsOn :: "string \<Rightarrow> string \<Rightarrow> Run_log \<Rightarrow> Run_log" where
  "Target_AddDependsOn i dep s =
    (case ru_targets s i of
       None \<Rightarrow> s
     | Some t \<Rightarrow>
         if dep \<in> set (tl_dependsOn t) then s
         else targetDelta i (zero_TargetManifest\<lparr>tm_DependsOn := [dep]\<rparr>)
           (s\<lparr>ru_targets := (ru_targets s)(i \<mapsto> t\<lparr>tl_dependsOn := tl_dependsOn t @ [dep]\<rparr>)\<rparr>))"

section \<open>Commands\<close>

definition tailErrorBufferSizeBytes :: int where
  "tailErrorBufferSizeBytes = 80 * 1024"

definition newCommand :: "string \<Rightarrow> Command_log" where
  "newCommand targetID =
    \<lparr>cl_targetID = targetID,
     cl_tailOutput = (case NewBuffer tailErrorBufferSizeBytes of Inr b \<Rightarrow> b | Inl _ \<Rightarrow> \<lparr>cb_arr = [], cb_len = 0, cb_off = 0\<rparr>),
     cl_dependsOn = [], cl_started = False, cl_lastProgress = 0\<rparr>"

definition setCommand :: "string \<Rightarrow> Command_log \<Rightarrow> Run_log \<Rightarrow> Run_log" where
  "setCommand i c s = s\<lparr>ru_commands := (ru_commands s)(i \<mapsto> c)\<rparr>"

definition commandDelta :: "string \<Rightarrow> CommandDelta \<Rightarrow> Run_log \<Rightarrow> Run_log" where
  "commandDelta i dcm s = WriteDeltaManifest (Fields (zero_FieldsDelta\<lparr>fd_Commands := [(i, dcm)]\<rparr>)) s"

definition plainDelta :: "CommandManifest \<Rightarrow> CommandDelta" where
  "plainDelta c = zero_CommandDelta\<lparr>cd_fields := c\<rparr>"

definition Command_Write :: "string \<Rightarrow> string \<Rightarrow> int \<Rightarrow> int \<Rightarrow> Run_log \<Rightarrow> Run_log" where
  "Command_Write i dt ts stream s =
    (case ru_commands s i of
       None \<Rightarrow> s
     | Some c \<Rightarrow>
         WriteRawLog \<lparr>dl_TargetId = cl_targetID c, dl_CommandId = i, dl_Stream = stream, dl_Timestamp = TsUnixNanos s ts, dl_Data = dt\<rparr>
           (if stream = 1 \<or> stream = 2 then setCommand i (c\<lparr>cl_tailOutput := Write dt (cl_tailOutput c)\<rparr>) s else s))"

definition TailOutput :: "Command_log \<Rightarrow> string" where
  "TailOutput c = Bytes (cl_tailOutput c)"

definition Command_SetStart :: "string \<Rightarrow> int \<Rightarrow> Run_log \<Rightarrow> Run_log" where
  "Command_SetStart i start s =
    (case ru_commands s i of
       None \<Rightarrow> s
     | Some c \<Rightarrow>
         if cl_started c then s
         else commandDelta i (plainDelta (zero_CommandManifest\<lparr>cm_StartedAt := TsUnixNanos s start, cm_Status := RUN_STATUS_IN_PROGRESS\<rparr>))
           (setCommand i (c\<lparr>cl_started := True\<rparr>) s))"

definition Command_AddDependsOn :: "string \<Rightarrow> string \<Rightarrow> string \<Rightarrow> Run_log \<Rightarrow> Run_log" where
  "Command_AddDependsOn i targetID refName s =
    (case ru_commands s i of
       None \<Rightarrow> s
     | Some c \<Rightarrow>
         if targetID \<in> set (cl_dependsOn c) then s
         else commandDelta i (plainDelta (zero_CommandManifest\<lparr>cm_DependsOn := [(targetID, refName)]\<rparr>))
           (setCommand i (c\<lparr>cl_dependsOn := cl_dependsOn c @ [targetID]\<rparr>) s))"

definition SetProgress :: "string \<Rightarrow> int \<Rightarrow> Run_log \<Rightarrow> Run_log" where
  "SetProgress i progress s =
    (case ru_commands s i of
       None \<Rightarrow> s
     | Some c \<Rightarrow>
         if cl_lastProgress c = progress then s
         else setCommand i (c\<lparr>cl_lastProgress := progress\<rparr>)
           (commandDelta i (zero_CommandDelta\<lparr>cd_HasHasProgress := True,
              cd_fields := zero_CommandManifest\<lparr>cm_HasProgress := True, cm_Progress := progress\<rparr>\<rparr>) s))"

definition SetCached :: "string \<Rightarrow> bool \<Rightarrow> Run_log \<Rightarrow> Run_log" where
  "SetCached i cached s =
    commandDelta i (zero_CommandDelta\<lparr>cd_HasCached := True, cd_fields := zero_CommandManifest\<lparr>cm_IsCached := cached\<rparr>\<rparr>) s"

definition Command_SetEnd :: "string \<Rightarrow> int \<Rightarrow> RunStatus \<Rightarrow> string \<Rightarrow> Run_log \<Rightarrow> Run_log" where
  "Command_SetEnd i ending status errorStr s =
    commandDelta i (plainDelta (zero_CommandManifest\<lparr>cm_Status := status, cm_ErrorMessage := errorStr, cm_EndedAt := TsUnixNanos s ending\<rparr>)) s"

text \<open>\<open>SetEndError\<close>: the error is its text and whether it is a cancellation.\<close>

definition SetEndError :: "string \<Rightarrow> int \<Rightarrow> (string \<times> bool) option \<Rightarrow> Run_log \<Rightarrow> Run_log" where
  "SetEndError i now err s =
    (case err of
       Some (msg, canceled) \<Rightarrow> Command_SetEnd i now (if canceled then RUN_STATUS_CANCELED else RUN_STATUS_FAILURE) msg s
     | None \<Rightarrow> Command_SetEnd i now RUN_STATUS_SUCCESS [] s)"

definition SetName :: "string \<Rightarrow> string \<Rightarrow> Run_log \<Rightarrow> Run_log" where
  "SetName i name s = commandDelta i (plainDelta (zero_CommandManifest\<lparr>cm_Name := name\<rparr>)) s"

section \<open>The run\<close>

definition buildDelta :: "FieldsDelta \<Rightarrow> Run_log \<Rightarrow> Run_log" where
  "buildDelta fd s = WriteDeltaManifest (Fields fd) s"

text \<open>The result says whether the target or the command is new.\<close>

definition NewTarget :: "string \<Rightarrow> Target_ref \<Rightarrow> string list \<Rightarrow> string \<Rightarrow> string \<Rightarrow> Run_log \<Rightarrow> bool \<times> Run_log" where
  "NewTarget i target overrideArgs initialPlatform runner s =
    (let mainTargetID = (if \<not> ru_hasMainTarget s then i else []); s = s\<lparr>ru_hasMainTarget := True\<rparr> in
     case ru_targets s i of
       Some _ \<Rightarrow> (False, s)
     | None \<Rightarrow>
         (True, (buildDelta (zero_FieldsDelta\<lparr>fd_MainTargetId := mainTargetID,
              fd_Targets := [(i, zero_TargetManifest\<lparr>tm_Name := referenceString (RefTarget target),
                tm_CanonicalName := referenceStringCanonical (RefTarget target), tm_GitUrl := t_GitURL target,
                tm_LocalPath := t_LocalPath target, tm_Tag := t_Tag target, tm_ImportRef := t_ImportRef target,
                tm_OverrideArgs := overrideArgs, tm_InitialPlatform := initialPlatform, tm_Runner := runner\<rparr>)]\<rparr>) s)
            \<lparr>ru_targets := (ru_targets s)(i \<mapsto> \<lparr>tl_dependsOn = []\<rparr>)\<rparr>))"

definition isUserChar :: "char \<Rightarrow> bool" where
  "isUserChar c \<longleftrightarrow> lower c \<or> upper c \<or> digit c \<or> c = CHR ''-'' \<or> c = CHR ''_''"

text \<open>\<open>sshUserRE\<close> removes the user at the beginning of a text.\<close>

definition gitSSHToURL :: "string \<Rightarrow> string" where
  "gitSSHToURL repoURL =
    (let u = takeWhile isUserChar repoURL; r = drop (length u) repoURL;
         repoURL = (if u \<noteq> [] \<and> prefix ''@'' r then drop 1 r else repoURL);
         parts = Split (TrimSuffix repoURL ''.git'') (CHR '':'')
     in ''https://'' @ Join parts ''/'')"

definition int32 :: "nat \<Rightarrow> int" where
  "int32 n = sint (word_of_nat n :: 32 word)"

definition sourceLocationToProto :: "(string \<Rightarrow> bool) \<Rightarrow> string \<Rightarrow> string \<Rightarrow> string \<Rightarrow> SourceLocation option \<Rightarrow> ProtoLocation option" where
  "sourceLocationToProto IsImplicitSSHTransport repoURL repoHash fileRelToRepo sl =
    (case sl of
       None \<Rightarrow> None
     | Some l \<Rightarrow> Some
         \<lparr>pl_RepositoryUrl = (if IsImplicitSSHTransport repoURL then gitSSHToURL repoURL else repoURL), pl_RepositoryHash = repoHash,
          pl_File = (if fileRelToRepo = [] \<and> repoURL = [] then File l else fileRelToRepo),
          pl_StartLine = int32 (StartLine l), pl_StartColumn = int32 (StartColumn l),
          pl_EndLine = int32 (EndLine l), pl_EndColumn = int32 (EndColumn l)\<rparr>)"

definition NewCommand ::
  "string \<Rightarrow> string \<Rightarrow> string \<Rightarrow> string \<Rightarrow> string \<Rightarrow> bool \<Rightarrow> bool \<Rightarrow> bool \<Rightarrow> ProtoLocation option \<Rightarrow> Run_log \<Rightarrow> bool \<times> Run_log" where
  "NewCommand i command targetID category platform cached local interactive sl s =
    (case ru_commands s i of
       Some _ \<Rightarrow> (False, s)
     | None \<Rightarrow>
         (True, setCommand i (newCommand targetID)
           (buildDelta (zero_FieldsDelta\<lparr>fd_Commands := [(i, \<lparr>cd_fields = zero_CommandManifest\<lparr>cm_Name := command, cm_TargetId := targetID,
               cm_Category := category, cm_Platform := platform, cm_IsCached := cached, cm_IsLocal := local,
               cm_IsInteractive := interactive, cm_SourceLocation := sl\<rparr>,
               cd_HasCached = True, cd_HasLocal = True, cd_HasInteractive = True, cd_HasHasProgress = False,
               cd_HasSourceLocation = (sl \<noteq> None)\<rparr>)]\<rparr>) s)))"

definition Run_SetStart :: "int \<Rightarrow> Run_log \<Rightarrow> Run_log" where
  "Run_SetStart start s = buildDelta (zero_FieldsDelta\<lparr>fd_Status := RUN_STATUS_IN_PROGRESS, fd_StartedAt := TsUnixNanos s start\<rparr>) s"

definition SetFatalError :: "int \<Rightarrow> string \<Rightarrow> string \<Rightarrow> nat \<Rightarrow> string \<Rightarrow> string \<Rightarrow> Run_log \<Rightarrow> Run_log" where
  "SetFatalError ending targetID commandID failureType helpMsg errorMsg s =
    (if ru_ended s then s
     else
       let tail = (if commandID \<noteq> [] then (case ru_commands s commandID of Some c \<Rightarrow> TailOutput c | None \<Rightarrow> []) else []) in
       buildDelta (zero_FieldsDelta\<lparr>fd_Status := RUN_STATUS_FAILURE, fd_EndedAt := TsUnixNanos s ending, fd_HasFailure := True,
           fd_Failure := Some \<lparr>fl_Type = failureType, fl_TargetId = targetID, fl_CommandId = commandID, fl_ErrorMessage = errorMsg,
             fl_Output = tail, fl_HelpMessage = helpMsg\<rparr>\<rparr>) (s\<lparr>ru_ended := True\<rparr>))"

definition GenericDefault :: string where
  "GenericDefault = ''_generic:default''"

definition SetGenericFatalError :: "int \<Rightarrow> nat \<Rightarrow> string \<Rightarrow> string \<Rightarrow> Run_log \<Rightarrow> Run_log" where
  "SetGenericFatalError ending failureType helpMsg errorMsg s = SetFatalError ending [] GenericDefault failureType helpMsg errorMsg s"

definition Run_SetEnd :: "int \<Rightarrow> RunStatus \<Rightarrow> Run_log \<Rightarrow> Run_log" where
  "Run_SetEnd ending status s =
    (if ru_ended s then s
     else buildDelta (zero_FieldsDelta\<lparr>fd_Status := status, fd_EndedAt := TsUnixNanos s ending\<rparr>) (s\<lparr>ru_ended := True\<rparr>))"

section \<open>Writers\<close>

definition Generic_Write :: "string \<Rightarrow> string \<Rightarrow> int \<Rightarrow> Run_log \<Rightarrow> Run_log" where
  "Generic_Write category dt ts s =
    WriteRawLog \<lparr>dl_TargetId = [], dl_CommandId = ''_generic:'' @ category, dl_Stream = 0, dl_Timestamp = TsUnixNanos s ts, dl_Data = dt\<rparr> s"

definition FormattedWriter_Write :: "string \<Rightarrow> string \<Rightarrow> string \<Rightarrow> int \<Rightarrow> Run_log \<Rightarrow> Run_log" where
  "FormattedWriter_Write targetID commandID dt now s =
    WriteFormattedLog \<lparr>dl_TargetId = ''_full'', dl_CommandId = commandID, dl_Stream = 0, dl_Timestamp = TsUnixNanos s now, dl_Data = dt\<rparr>
      (WriteFormattedLog \<lparr>dl_TargetId = targetID, dl_CommandId = commandID, dl_Stream = 0, dl_Timestamp = TsUnixNanos s now, dl_Data = dt\<rparr> s)"

text \<open>The operations that a build makes on its log, in any order. The methods of targets and commands
  are those of the objects that \<open>NewTarget\<close> and \<open>NewCommand\<close> have returned.\<close>

inductive log_op :: "Run_log \<Rightarrow> Run_log \<Rightarrow> bool" where
  op_NewTarget: "log_op s (snd (NewTarget t target args plat runner s))"
| op_Target_SetStart: "ru_targets s t \<noteq> None \<Longrightarrow> log_op s (Target_SetStart t ts s)"
| op_Target_SetEnd: "ru_targets s t \<noteq> None \<Longrightarrow> log_op s (Target_SetEnd t ts status plat s)"
| op_Target_AddDependsOn: "log_op s (Target_AddDependsOn t dep s)"
| op_NewCommand: "log_op s (snd (NewCommand c command t category plat cached local interactive sl s))"
| op_Command_Write: "log_op s (Command_Write c dt ts stream s)"
| op_Command_SetStart: "log_op s (Command_SetStart c ts s)"
| op_Command_AddDependsOn: "log_op s (Command_AddDependsOn c t name s)"
| op_SetProgress: "log_op s (SetProgress c progress s)"
| op_SetCached: "ru_commands s c \<noteq> None \<Longrightarrow> log_op s (SetCached c cached s)"
| op_Command_SetEnd: "ru_commands s c \<noteq> None \<Longrightarrow> log_op s (Command_SetEnd c ts status msg s)"
| op_SetEndError: "ru_commands s c \<noteq> None \<Longrightarrow> log_op s (SetEndError c ts err s)"
| op_SetName: "ru_commands s c \<noteq> None \<Longrightarrow> log_op s (SetName c name s)"
| op_Run_SetStart: "log_op s (Run_SetStart ts s)"
| op_SetFatalError: "log_op s (SetFatalError ts t c ty help msg s)"
| op_Run_SetEnd: "log_op s (Run_SetEnd ts status s)"
| op_Generic_Write: "log_op s (Generic_Write category dt ts s)"
| op_FormattedWriter: "log_op s (FormattedWriter_Write t c dt ts s)"

text \<open>The operations on the subscribers other than a given one.\<close>

inductive sub_op :: "nat \<Rightarrow> Run_log \<Rightarrow> Run_log \<Rightarrow> bool" for i where
  "j \<noteq> i \<Longrightarrow> sub_op i s (AddRawSubscriber j s)"
| "j \<noteq> i \<Longrightarrow> sub_op i s (RemoveRawSubscriber j s)"
| "j \<noteq> i \<Longrightarrow> sub_op i s (AddFormattedSubscriber j s)"
| "j \<noteq> i \<Longrightarrow> sub_op i s (RemoveFormattedSubscriber j s)"
| "j \<noteq> i \<Longrightarrow> sub_op i s (AddSubscriber j s)"
| "j \<noteq> i \<Longrightarrow> sub_op i s (RemoveSubscriber j s)"

inductive log_reachable :: "Run_log \<Rightarrow> bool" where
  log_init: "log_reachable (New_bus now)"
| log_next: "log_reachable s \<Longrightarrow> log_op s s' \<Longrightarrow> log_reachable s'"
| log_sub: "log_reachable s \<Longrightarrow> sub_op i s s' \<Longrightarrow> log_reachable s'"

end
