(* ===== verification/Log_Correct.thy ===== *)
theory Log_Correct
  imports Log_Bus
begin

text \<open>
  The manifest that a subscriber makes of the deltas of a run agrees with what the run knows, the
  first end of a run is final, the output that a failure reports is the end of what the command
  wrote, and a subscriber that is added late misses nothing.
\<close>

section \<open>The effect of one delta\<close>

lemma newer_simps [simp]: "newer z z old = old" "new \<noteq> z \<Longrightarrow> newer z new old = new"
  by (simp_all add: newer_def)

abbreviation target_of :: "RunManifest \<Rightarrow> string \<Rightarrow> TargetManifest" where
  "target_of m i \<equiv> (case map_of (rm_Targets m) i of Some t \<Rightarrow> t | None \<Rightarrow> zero_TargetManifest)"

abbreviation command_of :: "RunManifest \<Rightarrow> string \<Rightarrow> CommandManifest" where
  "command_of m i \<equiv> (case map_of (rm_Commands m) i of Some c \<Rightarrow> c | None \<Rightarrow> zero_CommandManifest)"

lemma ensureTargetExists_of:
  "map_of (rm_Targets (ensureTargetExists i m)) = (map_of (rm_Targets m))(i \<mapsto> target_of m i)"
  by (auto simp: ensureTargetExists_def update_conv' fun_eq_iff split: option.split)

lemma ensureCommandExists_of:
  "map_of (rm_Commands (ensureCommandExists i m)) = (map_of (rm_Commands m))(i \<mapsto> command_of m i)"
  by (auto simp: ensureCommandExists_def update_conv' fun_eq_iff split: option.split)

text \<open>The parts of a manifest that the deltas of targets and commands leave alone.\<close>

definition run_part :: "RunManifest \<Rightarrow> int \<times> nanos \<times> RunStatus \<times> Failure option" where
  "run_part m = (rm_Version m, rm_EndedAt m, rm_Status m, rm_Failure m)"

lemma ensure_parts [simp]:
  "run_part (ensureTargetExists i m) = run_part m" "rm_Commands (ensureTargetExists i m) = rm_Commands m"
  "run_part (ensureCommandExists i m) = run_part m" "rm_Targets (ensureCommandExists i m) = rm_Targets m"
  by (auto simp: ensureTargetExists_def ensureCommandExists_def run_part_def split: option.split)

lemma applyTarget_effect:
  "map_of (rm_Targets (applyTarget (i, d) m)) = (map_of (rm_Targets m))(i \<mapsto> mergeTarget d (target_of m i))"
  "rm_Commands (applyTarget (i, d) m) = rm_Commands m" "run_part (applyTarget (i, d) m) = run_part m"
proof -
  show "map_of (rm_Targets (applyTarget (i, d) m)) = (map_of (rm_Targets m))(i \<mapsto> mergeTarget d (target_of m i))"
    by (simp add: applyTarget_def Let_def update_conv' ensureTargetExists_of)
  show "rm_Commands (applyTarget (i, d) m) = rm_Commands m" by (simp add: applyTarget_def Let_def)
  have "run_part (r\<lparr>rm_Targets := x\<rparr>) = run_part r" for r x by (simp add: run_part_def)
  then show "run_part (applyTarget (i, d) m) = run_part m" by (simp add: applyTarget_def Let_def)
qed

lemma applyCommand_effect:
  "map_of (rm_Commands (applyCommand (i, d) m)) = (map_of (rm_Commands m))(i \<mapsto> mergeCommand d (command_of m i))"
  "map_of (rm_Targets (applyCommand (i, d) m)) = (let t = cm_TargetId (cd_fields d) in
     if t = [] then map_of (rm_Targets m) else (map_of (rm_Targets m))(t \<mapsto> target_of m t))"
  "run_part (applyCommand (i, d) m) = run_part m"
proof -
  have rp: "run_part (r\<lparr>rm_Commands := x\<rparr>) = run_part r" for r x by (simp add: run_part_def)
  show "map_of (rm_Commands (applyCommand (i, d) m)) = (map_of (rm_Commands m))(i \<mapsto> mergeCommand d (command_of m i))"
    by (simp add: applyCommand_def Let_def update_conv' ensureCommandExists_of)
  show "map_of (rm_Targets (applyCommand (i, d) m)) = (let t = cm_TargetId (cd_fields d) in
     if t = [] then map_of (rm_Targets m) else (map_of (rm_Targets m))(t \<mapsto> target_of m t))"
    by (simp add: applyCommand_def Let_def ensureTargetExists_of)
  show "run_part (applyCommand (i, d) m) = run_part m" by (simp add: applyCommand_def Let_def rp)
qed

section \<open>Replaying a history\<close>

lemma replay_snoc: "replay (ds @ [d]) m = rbind (replay ds m) (ApplyDelta d)"
proof (induction ds arbitrary: m)
  case Nil
  show ?case by (cases "ApplyDelta d m") simp_all
next
  case (Cons e ds)
  show ?case by (cases "ApplyDelta e m") (simp_all add: Cons)
qed

definition replayed :: "Run_log \<Rightarrow> RunManifest \<Rightarrow> bool" where
  "replayed s m \<longleftrightarrow> replay (bu_rawHistory (ru_bus s)) zero_RunManifest = Inr m"

lemma writeRaw_fields [simp]:
  "ru_targets (writeRaw k s) = ru_targets s" "ru_commands (writeRaw k s) = ru_commands s" "ru_ended (writeRaw k s) = ru_ended s"
  "bu_rawHistory (ru_bus (writeRaw k s)) = bu_rawHistory (ru_bus s) @ [\<lparr>de_Version = 0, de_Kind = k\<rparr>]"
  "bu_rawSubs (ru_bus (writeRaw k s)) = bu_rawSubs (ru_bus s)" "bu_formattedSubs (ru_bus (writeRaw k s)) = bu_formattedSubs (ru_bus s)"
  "ru_received (writeRaw k s) = give_all (bu_rawSubs (ru_bus s)) \<lparr>de_Version = 0, de_Kind = k\<rparr> (ru_received s)"
  by (simp_all add: writeRaw_def Let_def)

lemma replayed_write:
  assumes "replayed s m" "rm_Version m = 0"
  shows "replayed (writeRaw (DManifest (Fields f)) s) (setManifestFields f m)" "replayed (writeRaw (DLog l) s) m"
  using assms by (simp_all add: replayed_def replay_snoc ApplyDelta_def checkVersion_def)

lemma replayed_cong: "bu_rawHistory (ru_bus s') = bu_rawHistory (ru_bus s) \<Longrightarrow> replayed s' m = replayed s m"
  by (simp add: replayed_def)

text \<open>What the manifest has to do with the run.\<close>

definition log_ok :: "Run_log \<Rightarrow> RunManifest \<Rightarrow> bool" where
  "log_ok s m \<longleftrightarrow> rm_Version m = 0 \<and>
     (\<forall>i t. ru_targets s i = Some t \<longrightarrow> distinct (tl_dependsOn t) \<and>
        (\<exists>tm. map_of (rm_Targets m) i = Some tm \<and> tm_DependsOn tm = tl_dependsOn t)) \<and>
     (\<forall>i tm. ru_targets s i = None \<longrightarrow> map_of (rm_Targets m) i = Some tm \<longrightarrow> tm_DependsOn tm = []) \<and>
     (\<forall>i. ru_commands s i = None \<longrightarrow> map_of (rm_Commands m) i = None) \<and>
     (\<forall>i c. ru_commands s i = Some c \<longrightarrow> distinct (cl_dependsOn c) \<and>
        (cl_targetID c = [] \<or> map_of (rm_Targets m) (cl_targetID c) \<noteq> None) \<and>
        (\<exists>cm. map_of (rm_Commands m) i = Some cm \<and> cm_TargetId cm = cl_targetID c \<and> map fst (cm_DependsOn cm) = cl_dependsOn c)) \<and>
     (\<not> ru_ended s \<longrightarrow> rm_Failure m = None \<and> rm_EndedAt m = 0)"

lemma log_okD:
  assumes "log_ok s m"
  shows "rm_Version m = 0"
    "ru_targets s i = Some t \<Longrightarrow> distinct (tl_dependsOn t)"
    "ru_targets s i = Some t \<Longrightarrow> \<exists>tm. map_of (rm_Targets m) i = Some tm \<and> tm_DependsOn tm = tl_dependsOn t"
    "ru_targets s i = None \<Longrightarrow> map_of (rm_Targets m) i = Some tm \<Longrightarrow> tm_DependsOn tm = []"
    "ru_commands s j = None \<Longrightarrow> map_of (rm_Commands m) j = None"
    "ru_commands s j = Some c \<Longrightarrow> distinct (cl_dependsOn c)"
    "ru_commands s j = Some c \<Longrightarrow> cl_targetID c = [] \<or> map_of (rm_Targets m) (cl_targetID c) \<noteq> None"
    "ru_commands s j = Some c \<Longrightarrow> \<exists>cm. map_of (rm_Commands m) j = Some cm \<and> cm_TargetId cm = cl_targetID c \<and> map fst (cm_DependsOn cm) = cl_dependsOn c"
    "\<not> ru_ended s \<Longrightarrow> rm_Failure m = None \<and> rm_EndedAt m = 0"
  using assms unfolding log_ok_def by blast+

lemma log_okI:
  assumes "rm_Version m = 0"
    "\<And>i t. ru_targets s i = Some t \<Longrightarrow> distinct (tl_dependsOn t)"
    "\<And>i t. ru_targets s i = Some t \<Longrightarrow> \<exists>tm. map_of (rm_Targets m) i = Some tm \<and> tm_DependsOn tm = tl_dependsOn t"
    "\<And>i tm. ru_targets s i = None \<Longrightarrow> map_of (rm_Targets m) i = Some tm \<Longrightarrow> tm_DependsOn tm = []"
    "\<And>j. ru_commands s j = None \<Longrightarrow> map_of (rm_Commands m) j = None"
    "\<And>j c. ru_commands s j = Some c \<Longrightarrow> distinct (cl_dependsOn c)"
    "\<And>j c. ru_commands s j = Some c \<Longrightarrow> cl_targetID c = [] \<or> map_of (rm_Targets m) (cl_targetID c) \<noteq> None"
    "\<And>j c. ru_commands s j = Some c \<Longrightarrow> \<exists>cm. map_of (rm_Commands m) j = Some cm \<and> cm_TargetId cm = cl_targetID c \<and> map fst (cm_DependsOn cm) = cl_dependsOn c"
    "\<not> ru_ended s \<Longrightarrow> rm_Failure m = None \<and> rm_EndedAt m = 0"
  shows "log_ok s m"
  unfolding log_ok_def using assms by blast

text \<open>A delta of a target of the run that adds dependencies.\<close>

lemma log_ok_target:
  assumes ok: "log_ok s m" and m': "map_of (rm_Targets m') = (map_of (rm_Targets m))(i \<mapsto> mergeTarget d (target_of m i))"
      "rm_Commands m' = rm_Commands m" "run_part m' = run_part m"
    and t: "ru_targets s' = (ru_targets s)(i \<mapsto> t)" "tl_dependsOn t = tm_DependsOn (target_of m i) @ tm_DependsOn d" "distinct (tl_dependsOn t)"
    and s': "ru_commands s' = ru_commands s" "ru_ended s' = ru_ended s"
  shows "log_ok s' m'"
proof (rule log_okI)
  show "rm_Version m' = 0" using log_okD(1) [OF ok] m'(3) by (simp add: run_part_def)
  show "\<not> ru_ended s' \<Longrightarrow> rm_Failure m' = None \<and> rm_EndedAt m' = 0" using log_okD(9) [OF ok] m'(3) s' by (simp add: run_part_def)
  show "\<And>j. ru_commands s' j = None \<Longrightarrow> map_of (rm_Commands m') j = None" using log_okD(5) [OF ok] m' s' by simp
  show "\<And>j c. ru_commands s' j = Some c \<Longrightarrow> distinct (cl_dependsOn c)" using log_okD(6) [OF ok] s' by simp
  show "\<And>j c. ru_commands s' j = Some c \<Longrightarrow> cl_targetID c = [] \<or> map_of (rm_Targets m') (cl_targetID c) \<noteq> None"
    using log_okD(7) [OF ok] m' s' by fastforce
  show "\<And>j c. ru_commands s' j = Some c \<Longrightarrow> \<exists>cm. map_of (rm_Commands m') j = Some cm \<and> cm_TargetId cm = cl_targetID c \<and> map fst (cm_DependsOn cm) = cl_dependsOn c"
    using log_okD(8) [OF ok] m' s' by simp
  show "\<And>j u. ru_targets s' j = Some u \<Longrightarrow> distinct (tl_dependsOn u)" using log_okD(2) [OF ok] t by (auto split: if_splits)
  show "\<And>j tm. ru_targets s' j = None \<Longrightarrow> map_of (rm_Targets m') j = Some tm \<Longrightarrow> tm_DependsOn tm = []"
    using log_okD(4) [OF ok] t m' by (auto split: if_splits)
  show "\<And>j u. ru_targets s' j = Some u \<Longrightarrow> \<exists>tm. map_of (rm_Targets m') j = Some tm \<and> tm_DependsOn tm = tl_dependsOn u"
    using log_okD(3) [OF ok] t m' by (auto simp: mergeTarget_def split: if_splits)
qed
text \<open>A delta of a command.\<close>

lemma log_ok_command:
  assumes ok: "log_ok s m" and m': "map_of (rm_Commands m') = (map_of (rm_Commands m))(i \<mapsto> mergeCommand d (command_of m i))"
      "map_of (rm_Targets m') = (let t = cm_TargetId (cd_fields d) in
         if t = [] then map_of (rm_Targets m) else (map_of (rm_Targets m))(t \<mapsto> target_of m t))" "run_part m' = run_part m"
    and c: "ru_commands s' = (ru_commands s)(i \<mapsto> c)" "cl_targetID c = newer [] (cm_TargetId (cd_fields d)) (cm_TargetId (command_of m i))"
      "cl_dependsOn c = map fst (cm_DependsOn (command_of m i) @ cm_DependsOn (cd_fields d))" "distinct (cl_dependsOn c)"
    and s': "ru_targets s' = ru_targets s" "ru_ended s' = ru_ended s"
  shows "log_ok s' m'"
proof (rule log_okI)
  have kept: "map_of (rm_Targets m') j = Some tm" if "map_of (rm_Targets m) j = Some tm" for j tm
    using m'(2) that by (auto simp: Let_def)
  have new: "map_of (rm_Targets m) j = Some tm \<or> tm = zero_TargetManifest" if "map_of (rm_Targets m') j = Some tm" for j tm
    using m'(2) that by (auto simp: Let_def split: if_splits option.splits)
  show "rm_Version m' = 0" using log_okD(1) [OF ok] m'(3) by (simp add: run_part_def)
  show "\<not> ru_ended s' \<Longrightarrow> rm_Failure m' = None \<and> rm_EndedAt m' = 0" using log_okD(9) [OF ok] m'(3) s' by (simp add: run_part_def)
  show "\<And>j. ru_commands s' j = None \<Longrightarrow> map_of (rm_Commands m') j = None" using log_okD(5) [OF ok] m' c by (auto split: if_splits)
  show "\<And>j c. ru_commands s' j = Some c \<Longrightarrow> distinct (cl_dependsOn c)" using log_okD(6) [OF ok] c by (auto split: if_splits)
  have here: "cl_targetID c = [] \<or> map_of (rm_Targets m') (cl_targetID c) \<noteq> None"
  proof (cases "cm_TargetId (cd_fields d) = []")
    case True
    show ?thesis
    proof (cases "ru_commands s i")
      case None
      then show ?thesis using log_okD(5) [OF ok None] c(2) True by (simp add: zero_CommandManifest_def)
    next
      case (Some c0)
      then show ?thesis using log_okD(7,8) [OF ok Some] c(2) True kept by fastforce
    qed
  next
    case False
    then show ?thesis using c(2) m'(2) by (simp add: Let_def)
  qed
  show "cl_targetID e = [] \<or> map_of (rm_Targets m') (cl_targetID e) \<noteq> None" if "ru_commands s' j = Some e" for j e
  proof (cases "j = i")
    case True
    then show ?thesis using here that c(1) by simp
  next
    case False
    then show ?thesis using log_okD(7) [OF ok, of j e] that c(1) kept by fastforce
  qed
  show "\<And>j e. ru_commands s' j = Some e \<Longrightarrow> \<exists>cm. map_of (rm_Commands m') j = Some cm \<and> cm_TargetId cm = cl_targetID e \<and> map fst (cm_DependsOn cm) = cl_dependsOn e"
    using log_okD(8) [OF ok] m'(1) c by (auto simp: mergeCommand_def Let_def split: if_splits)
  show "\<And>j u. ru_targets s' j = Some u \<Longrightarrow> distinct (tl_dependsOn u)" using log_okD(2) [OF ok] s' by simp
  show "\<And>j tm. ru_targets s' j = None \<Longrightarrow> map_of (rm_Targets m') j = Some tm \<Longrightarrow> tm_DependsOn tm = []"
    using log_okD(4) [OF ok] s' new by (fastforce simp: zero_TargetManifest_def)
  show "\<And>j u. ru_targets s' j = Some u \<Longrightarrow> \<exists>tm. map_of (rm_Targets m') j = Some tm \<and> tm_DependsOn tm = tl_dependsOn u"
    using log_okD(3) [OF ok] s' kept by fastforce
qed

lemma log_ok_run:
  assumes "log_ok s m" "rm_Targets m' = rm_Targets m" "rm_Commands m' = rm_Commands m" "rm_Version m' = rm_Version m"
    "ru_targets s' = ru_targets s" "ru_commands s' = ru_commands s" "\<not> ru_ended s' \<Longrightarrow> rm_Failure m' = None \<and> rm_EndedAt m' = 0"
  shows "log_ok s' m'"
  using assms unfolding log_ok_def by simp

lemma fields_target:
  fixes m mt i d
  defines "m' \<equiv> setManifestFields (zero_FieldsDelta\<lparr>fd_MainTargetId := mt, fd_Targets := [(i, d)]\<rparr>) m"
  shows "map_of (rm_Targets m') = (map_of (rm_Targets m))(i \<mapsto> mergeTarget d (target_of m i))"
    "rm_Commands m' = rm_Commands m" "run_part m' = run_part m"
  unfolding m'_def setManifestFields_def
  by (simp_all add: zero_FieldsDelta_def applyTarget_effect) (simp add: run_part_def)

lemma fields_only_target:
  fixes m i d
  defines "m' \<equiv> setManifestFields (zero_FieldsDelta\<lparr>fd_Targets := [(i, d)]\<rparr>) m"
  shows "map_of (rm_Targets m') = (map_of (rm_Targets m))(i \<mapsto> mergeTarget d (target_of m i))"
    "rm_Commands m' = rm_Commands m" "run_part m' = run_part m"
  using fields_target [where mt = "[]" and i = i and d = d and m = m] by (simp_all add: m'_def zero_FieldsDelta_def)

lemma fields_command:
  fixes m i d
  defines "m' \<equiv> setManifestFields (zero_FieldsDelta\<lparr>fd_Commands := [(i, d)]\<rparr>) m"
  shows "map_of (rm_Commands m') = (map_of (rm_Commands m))(i \<mapsto> mergeCommand d (command_of m i))"
    "map_of (rm_Targets m') = (let t = cm_TargetId (cd_fields d) in
         if t = [] then map_of (rm_Targets m) else (map_of (rm_Targets m))(t \<mapsto> target_of m t))" "run_part m' = run_part m"
  unfolding m'_def setManifestFields_def
  by (simp_all add: zero_FieldsDelta_def applyCommand_effect run_part_def [of "_\<lparr>rm_StartedAt := _\<rparr>"])

section \<open>Every operation keeps the agreement\<close>

definition log_inv :: "Run_log \<Rightarrow> bool" where
  "log_inv s \<longleftrightarrow> (\<exists>m. replayed s m \<and> log_ok s m)"

lemma log_invI: "replayed s m \<Longrightarrow> log_ok s m \<Longrightarrow> log_inv s"
  unfolding log_inv_def by blast

lemma targetDelta_inv:
  assumes "replayed s m" "log_ok s m" "ru_targets s i = Some t" "tm_DependsOn d = []"
  shows "log_inv (targetDelta i d s)"
proof (rule log_invI)
  show "replayed (targetDelta i d s) (setManifestFields (zero_FieldsDelta\<lparr>fd_Targets := [(i, d)]\<rparr>) m)"
    unfolding targetDelta_def WriteDeltaManifest_def by (rule replayed_write(1) [OF assms(1) log_okD(1) [OF assms(2)]])
  obtain tm where "map_of (rm_Targets m) i = Some tm" "tm_DependsOn tm = tl_dependsOn t"
    using log_okD(3) [OF assms(2,3)] by blast
  then show "log_ok (targetDelta i d s) (setManifestFields (zero_FieldsDelta\<lparr>fd_Targets := [(i, d)]\<rparr>) m)"
    using log_okD(2) [OF assms(2,3)] assms(3,4)
    by (intro log_ok_target [where t = t, OF assms(2) fields_only_target])
      (auto simp: targetDelta_def WriteDeltaManifest_def)
qed

lemma commandDelta_inv:
  assumes "replayed s m" "log_ok s m" "ru_commands s i = Some c" "cm_TargetId (cd_fields d) = []" "cm_DependsOn (cd_fields d) = []"
  shows "log_inv (commandDelta i d s)"
proof (rule log_invI)
  show "replayed (commandDelta i d s) (setManifestFields (zero_FieldsDelta\<lparr>fd_Commands := [(i, d)]\<rparr>) m)"
    unfolding commandDelta_def WriteDeltaManifest_def by (rule replayed_write(1) [OF assms(1) log_okD(1) [OF assms(2)]])
  obtain cm where "map_of (rm_Commands m) i = Some cm" "cm_TargetId cm = cl_targetID c" "map fst (cm_DependsOn cm) = cl_dependsOn c"
    using log_okD(8) [OF assms(2,3)] by blast
  then show "log_ok (commandDelta i d s) (setManifestFields (zero_FieldsDelta\<lparr>fd_Commands := [(i, d)]\<rparr>) m)"
    using log_okD(6) [OF assms(2,3)] assms(3-5)
    by (intro log_ok_command [where c = c, OF assms(2) fields_command]) (auto simp: commandDelta_def WriteDeltaManifest_def)
qed

text \<open>The fields of a command object that the manifest does not depend on.\<close>

lemma setCommand_inv:
  assumes "replayed s m" "log_ok s m" "ru_commands s i = Some c" "cl_targetID c' = cl_targetID c" "cl_dependsOn c' = cl_dependsOn c"
  shows "replayed (setCommand i c' s) m" "log_ok (setCommand i c' s) m"
proof -
  show "replayed (setCommand i c' s) m" using assms(1) by (simp add: setCommand_def replayed_def)
  show "log_ok (setCommand i c' s) m"
    using log_okD [OF assms(2)] log_okD(6-8) [OF assms(2,3)] assms(4,5)
    by (intro log_okI) (auto simp: setCommand_def split: if_splits)
qed

lemma buildDelta_inv:
  assumes "replayed s m" "log_ok s m" "fd_Targets f = []" "fd_Commands f = []"
    "\<not> ru_ended s \<Longrightarrow> \<not> fd_HasFailure f \<and> fd_EndedAt f = 0"
  shows "log_inv (buildDelta f s)"
proof (rule log_invI)
  show "replayed (buildDelta f s) (setManifestFields f m)"
    unfolding buildDelta_def WriteDeltaManifest_def by (rule replayed_write(1) [OF assms(1) log_okD(1) [OF assms(2)]])
  show "log_ok (buildDelta f s) (setManifestFields f m)"
    using assms(3-5) log_okD(9) [OF assms(2)]
    by (intro log_ok_run [OF assms(2)]) (auto simp: setManifestFields_def buildDelta_def WriteDeltaManifest_def)
qed

lemma WriteRawLog_inv: "replayed s m \<Longrightarrow> log_ok s m \<Longrightarrow> log_inv (WriteRawLog l s)"
  unfolding WriteRawLog_def
  by (rule log_invI [OF replayed_write(2)]) (auto dest: log_okD(1) simp: log_ok_def)

lemma NewTarget_inv:
  assumes "replayed s m" "log_ok s m"
  shows "log_inv (snd (NewTarget i target args plat runner s))"
proof (cases "ru_targets s i")
  case (Some t)
  then show ?thesis
    using assms by (auto simp: NewTarget_def Let_def replayed_def log_ok_def intro!: log_invI)
next
  case None
  define s0 where "s0 = s\<lparr>ru_hasMainTarget := True\<rparr>"
  have s0: "replayed s0 m" "log_ok s0 m" using assms by (auto simp: s0_def replayed_def log_ok_def)
  define mt where "mt = (if \<not> ru_hasMainTarget s then i else [])"
  define d where "d = zero_TargetManifest\<lparr>tm_Name := referenceString (RefTarget target),
                tm_CanonicalName := referenceStringCanonical (RefTarget target), tm_GitUrl := t_GitURL target,
                tm_LocalPath := t_LocalPath target, tm_Tag := t_Tag target, tm_ImportRef := t_ImportRef target,
                tm_OverrideArgs := args, tm_InitialPlatform := plat, tm_Runner := runner\<rparr>"
  let ?f = "zero_FieldsDelta\<lparr>fd_MainTargetId := mt, fd_Targets := [(i, d)]\<rparr>"
  let ?t = "(buildDelta ?f s0)\<lparr>ru_targets := (ru_targets s0)(i \<mapsto> \<lparr>tl_dependsOn = []\<rparr>)\<rparr>"
  have t: "snd (NewTarget i target args plat runner s) = ?t"
    using None by (simp add: NewTarget_def Let_def s0_def mt_def d_def)
  have "replayed ?t (setManifestFields ?f m)"
    using replayed_write(1) [OF s0(1) log_okD(1) [OF s0(2)], of ?f] by (simp add: buildDelta_def WriteDeltaManifest_def replayed_def)
  moreover have "tm_DependsOn (target_of m i) = []"
    using log_okD(4) [OF assms(2) None] by (auto simp: zero_TargetManifest_def split: option.split)
  then have "log_ok ?t (setManifestFields ?f m)"
    by (intro log_ok_target [OF s0(2) fields_target])
      (auto simp: d_def zero_TargetManifest_def buildDelta_def WriteDeltaManifest_def)
  ultimately show ?thesis unfolding t by (rule log_invI)
qed

lemma Target_AddDependsOn_inv:
  assumes "replayed s m" "log_ok s m"
  shows "log_inv (Target_AddDependsOn i dep s)"
proof (cases "ru_targets s i")
  case None
  then show ?thesis using log_invI [OF assms] by (simp add: Target_AddDependsOn_def)
next
  case (Some t)
  show ?thesis
  proof (cases "dep \<in> set (tl_dependsOn t)")
    case True
    then show ?thesis using Some log_invI [OF assms] by (simp add: Target_AddDependsOn_def)
  next
    case False
    let ?d = "zero_TargetManifest\<lparr>tm_DependsOn := [dep]\<rparr>" and ?t = "t\<lparr>tl_dependsOn := tl_dependsOn t @ [dep]\<rparr>"
    let ?f = "zero_FieldsDelta\<lparr>fd_Targets := [(i, ?d)]\<rparr>"
    define s1 where "s1 = s\<lparr>ru_targets := (ru_targets s)(i \<mapsto> ?t)\<rparr>"
    have e: "Target_AddDependsOn i dep s = writeRaw (DManifest (Fields ?f)) s1"
      using Some False by (simp add: Target_AddDependsOn_def targetDelta_def WriteDeltaManifest_def s1_def)
    obtain tm where tm: "map_of (rm_Targets m) i = Some tm" "tm_DependsOn tm = tl_dependsOn t"
      using log_okD(3) [OF assms(2) Some] by blast
    have "log_ok (writeRaw (DManifest (Fields ?f)) s1) (setManifestFields ?f m)"
      using tm False log_okD(2) [OF assms(2) Some]
      by (intro log_ok_target [where t = ?t, OF assms(2) fields_only_target]) (auto simp: s1_def)
    moreover have "replayed (writeRaw (DManifest (Fields ?f)) s1) (setManifestFields ?f m)"
      using replayed_write(1) [OF assms(1) log_okD(1) [OF assms(2)], of ?f] by (simp add: s1_def replayed_def)
    ultimately show ?thesis unfolding e by (rule log_invI [rotated])
  qed
qed

lemma NewCommand_inv:
  assumes "replayed s m" "log_ok s m"
  shows "log_inv (snd (NewCommand i command t category plat cached local interactive sl s))"
proof (cases "ru_commands s i")
  case (Some c)
  then show ?thesis using log_invI [OF assms] by (simp add: NewCommand_def)
next
  case None
  define d where "d = \<lparr>cd_fields = zero_CommandManifest\<lparr>cm_Name := command, cm_TargetId := t,
               cm_Category := category, cm_Platform := plat, cm_IsCached := cached, cm_IsLocal := local,
               cm_IsInteractive := interactive, cm_SourceLocation := sl\<rparr>,
               cd_HasCached = True, cd_HasLocal = True, cd_HasInteractive = True, cd_HasHasProgress = False,
               cd_HasSourceLocation = (sl \<noteq> None)\<rparr>"
  let ?f = "zero_FieldsDelta\<lparr>fd_Commands := [(i, d)]\<rparr>"
  have e: "snd (NewCommand i command t category plat cached local interactive sl s) = setCommand i (newCommand t) (writeRaw (DManifest (Fields ?f)) s)"
    using None by (simp add: NewCommand_def buildDelta_def WriteDeltaManifest_def d_def)
  have none: "map_of (rm_Commands m) i = None" using log_okD(5) [OF assms(2) None] .
  have "log_ok (setCommand i (newCommand t) (writeRaw (DManifest (Fields ?f)) s)) (setManifestFields ?f m)"
    using none
    by (intro log_ok_command [where c = "newCommand t", OF assms(2) fields_command])
      (auto simp: setCommand_def newCommand_def d_def zero_CommandManifest_def newer_def)
  moreover have "replayed (setCommand i (newCommand t) (writeRaw (DManifest (Fields ?f)) s)) (setManifestFields ?f m)"
    using replayed_write(1) [OF assms(1) log_okD(1) [OF assms(2)], of ?f] by (simp add: setCommand_def replayed_def)
  ultimately show ?thesis unfolding e by (rule log_invI [rotated])
qed

lemma Command_AddDependsOn_inv:
  assumes "replayed s m" "log_ok s m"
  shows "log_inv (Command_AddDependsOn i t name s)"
proof (cases "ru_commands s i")
  case None
  then show ?thesis using log_invI [OF assms] by (simp add: Command_AddDependsOn_def)
next
  case (Some c)
  show ?thesis
  proof (cases "t \<in> set (cl_dependsOn c)")
    case True
    then show ?thesis using Some log_invI [OF assms] by (simp add: Command_AddDependsOn_def)
  next
    case False
    let ?d = "plainDelta (zero_CommandManifest\<lparr>cm_DependsOn := [(t, name)]\<rparr>)" and ?c = "c\<lparr>cl_dependsOn := cl_dependsOn c @ [t]\<rparr>"
    let ?f = "zero_FieldsDelta\<lparr>fd_Commands := [(i, ?d)]\<rparr>"
    have e: "Command_AddDependsOn i t name s = writeRaw (DManifest (Fields ?f)) (setCommand i ?c s)"
      using Some False by (simp add: Command_AddDependsOn_def commandDelta_def WriteDeltaManifest_def)
    obtain cm where cm: "map_of (rm_Commands m) i = Some cm" "cm_TargetId cm = cl_targetID c" "map fst (cm_DependsOn cm) = cl_dependsOn c"
      using log_okD(8) [OF assms(2) Some] by blast
    have "log_ok (writeRaw (DManifest (Fields ?f)) (setCommand i ?c s)) (setManifestFields ?f m)"
      using cm False log_okD(6) [OF assms(2) Some]
      by (intro log_ok_command [where c = ?c, OF assms(2) fields_command])
        (auto simp: setCommand_def plainDelta_def zero_CommandDelta_def zero_CommandManifest_def newer_def)
    moreover have "replayed (writeRaw (DManifest (Fields ?f)) (setCommand i ?c s)) (setManifestFields ?f m)"
      using replayed_write(1) [OF assms(1) log_okD(1) [OF assms(2)], of ?f] by (simp add: setCommand_def replayed_def)
    ultimately show ?thesis unfolding e by (rule log_invI [rotated])
  qed
qed

lemma command_ops_inv:
  assumes "replayed s m" "log_ok s m"
  shows "log_inv (Command_Write i dt ts stream s)" "log_inv (Command_SetStart i ts s)" "log_inv (SetProgress i progress s)"
    "ru_commands s i \<noteq> None \<Longrightarrow> log_inv (SetCached i cached s)" "ru_commands s i \<noteq> None \<Longrightarrow> log_inv (Command_SetEnd i ts status msg s)"
    "ru_commands s i \<noteq> None \<Longrightarrow> log_inv (SetName i name s)"
proof -
  note inv = log_invI [OF assms]
  show "log_inv (Command_Write i dt ts stream s)"
    by (cases "ru_commands s i") (auto simp: Command_Write_def inv intro!: WriteRawLog_inv setCommand_inv assms)
  show "log_inv (Command_SetStart i ts s)"
    by (cases "ru_commands s i")
      (auto simp: Command_SetStart_def inv plainDelta_def zero_CommandDelta_def zero_CommandManifest_def setCommand_def
        intro!: commandDelta_inv [OF setCommand_inv [unfolded setCommand_def]] assms)
  show "ru_commands s i \<noteq> None \<Longrightarrow> log_inv (SetCached i cached s)" "ru_commands s i \<noteq> None \<Longrightarrow> log_inv (Command_SetEnd i ts status msg s)"
    "ru_commands s i \<noteq> None \<Longrightarrow> log_inv (SetName i name s)"
    by (auto simp: SetCached_def Command_SetEnd_def SetName_def plainDelta_def zero_CommandDelta_def zero_CommandManifest_def
        intro!: commandDelta_inv [OF assms])
  show "log_inv (SetProgress i progress s)"
  proof (cases "ru_commands s i")
    case (Some c)
    let ?d = "zero_CommandDelta\<lparr>cd_HasHasProgress := True, cd_fields := zero_CommandManifest\<lparr>cm_HasProgress := True, cm_Progress := progress\<rparr>\<rparr>"
    have "log_inv (commandDelta i ?d s)"
      by (rule commandDelta_inv [OF assms Some]) (simp_all add: zero_CommandDelta_def zero_CommandManifest_def)
    then obtain m' where "replayed (commandDelta i ?d s) m'" "log_ok (commandDelta i ?d s) m'" by (auto simp: log_inv_def)
    then have "log_inv (setCommand i (c\<lparr>cl_lastProgress := progress\<rparr>) (commandDelta i ?d s))"
      by (intro log_invI setCommand_inv [where c = c]) (simp_all add: commandDelta_def WriteDeltaManifest_def Some)
    then show ?thesis using Some inv by (simp add: SetProgress_def)
  qed (simp add: SetProgress_def inv)
qed

lemma run_ops_inv:
  assumes "replayed s m" "log_ok s m"
  shows "log_inv (Run_SetStart ts s)" "log_inv (SetFatalError ts t c ty help msg s)" "log_inv (Run_SetEnd ts status s)"
proof -
  have e: "replayed (s\<lparr>ru_ended := True\<rparr>) m" "log_ok (s\<lparr>ru_ended := True\<rparr>) m"
    using assms by (auto simp: replayed_def log_ok_def)
  show "log_inv (Run_SetStart ts s)"
    unfolding Run_SetStart_def by (rule buildDelta_inv [OF assms]) (simp_all add: zero_FieldsDelta_def)
  show "log_inv (SetFatalError ts t c ty help msg s)" "log_inv (Run_SetEnd ts status s)"
    unfolding SetFatalError_def Run_SetEnd_def Let_def using log_invI [OF assms]
    by (auto intro!: buildDelta_inv [OF e] simp: zero_FieldsDelta_def)
qed

lemma FormattedWriter_fields [simp]:
  "ru_targets (FormattedWriter_Write t c dt ts s) = ru_targets s" "ru_commands (FormattedWriter_Write t c dt ts s) = ru_commands s"
  "ru_ended (FormattedWriter_Write t c dt ts s) = ru_ended s"
  "bu_rawHistory (ru_bus (FormattedWriter_Write t c dt ts s)) = bu_rawHistory (ru_bus s)"
  by (simp_all add: FormattedWriter_Write_def WriteFormattedLog_def Let_def)

lemma log_op_inv:
  assumes "log_op s s'" "log_inv s"
  shows "log_inv s'"
proof -
  obtain m where m: "replayed s m" "log_ok s m" using assms(2) by (auto simp: log_inv_def)
  from assms(1) show ?thesis
  proof cases
    case (op_FormattedWriter t c dt ts)
    with m show ?thesis by (intro log_invI [of _ m]) (simp_all add: replayed_def log_ok_def)
  next
    case (op_SetEndError c ts err)
    with command_ops_inv(5) [OF m] show ?thesis by (auto simp: SetEndError_def split: option.split)
  qed (use m in \<open>auto intro: NewTarget_inv Target_AddDependsOn_inv NewCommand_inv Command_AddDependsOn_inv command_ops_inv run_ops_inv
      WriteRawLog_inv targetDelta_inv simp: Target_SetStart_def Target_SetEnd_def zero_TargetManifest_def Generic_Write_def\<close>)
qed

lemmas sub_defs = AddRawSubscriber_def RemoveRawSubscriber_def AddFormattedSubscriber_def RemoveFormattedSubscriber_def
  AddSubscriber_def RemoveSubscriber_def

lemma sub_op_fields:
  assumes "sub_op i s s'"
  shows "ru_targets s' = ru_targets s" "ru_commands s' = ru_commands s" "ru_ended s' = ru_ended s"
    "bu_rawHistory (ru_bus s') = bu_rawHistory (ru_bus s)"
  using assms by (cases; simp add: sub_defs)+

lemma log_reachable_inv: "log_reachable s \<Longrightarrow> log_inv s"
proof (induction rule: log_reachable.induct)
  case (log_init now)
  have "replayed (New_bus now) zero_RunManifest" "log_ok (New_bus now) zero_RunManifest"
    by (simp_all add: replayed_def New_bus_def log_ok_def zero_RunManifest_def)
  then show ?case by (rule log_invI)
next
  case (log_sub s i s')
  then show ?case using sub_op_fields [OF log_sub(2)] by (auto simp: log_inv_def replayed_def log_ok_def)
qed (rule log_op_inv)


section \<open>The end of a run\<close>

text \<open>What a delta of an ended run can still change.\<close>

definition end_part :: "RunManifest \<Rightarrow> nanos \<times> Failure option" where
  "end_part m = (rm_EndedAt m, rm_Failure m)"

lemma fold_parts: "run_part (fold applyTarget ts m) = run_part m" "run_part (fold applyCommand cs m) = run_part m"
  by (induction ts arbitrary: m; simp add: applyTarget_effect(3) split_paired_all)
    (induction cs arbitrary: m; simp add: applyCommand_effect(3) split_paired_all)

lemma fields_end_part:
  assumes "\<not> fd_HasFailure f" "fd_EndedAt f = 0"
  shows "end_part (setManifestFields f m) = end_part m"
proof -
  have "run_part (setManifestFields f m) = (rm_Version m, rm_EndedAt m, newer RUN_STATUS_UNKNOWN (fd_Status f) (rm_Status m), rm_Failure m)"
    unfolding setManifestFields_def using assms by (simp add: fold_parts) (simp add: run_part_def)
  then show ?thesis by (simp add: run_part_def end_part_def)
qed

text \<open>The deltas that an operation writes.\<close>

definition wrote :: "Run_log \<Rightarrow> Run_log \<Rightarrow> DeltaKind list \<Rightarrow> bool" where
  "wrote s s' ks \<longleftrightarrow> bu_rawHistory (ru_bus s') = bu_rawHistory (ru_bus s) @ map (\<lambda>k. \<lparr>de_Version = 0, de_Kind = k\<rparr>) ks"

definition calm :: "DeltaKind \<Rightarrow> bool" where
  "calm k \<longleftrightarrow> (case k of DManifest (Fields f) \<Rightarrow> \<not> fd_HasFailure f \<and> fd_EndedAt f = 0 | DManifest _ \<Rightarrow> False | _ \<Rightarrow> True)"

lemmas op_defs = NewTarget_def Target_SetStart_def Target_SetEnd_def Target_AddDependsOn_def NewCommand_def Command_Write_def
  Command_SetStart_def Command_AddDependsOn_def SetProgress_def SetCached_def Command_SetEnd_def SetName_def Run_SetStart_def
  SetFatalError_def Run_SetEnd_def Generic_Write_def targetDelta_def commandDelta_def buildDelta_def WriteDeltaManifest_def
  WriteRawLog_def setCommand_def Let_def

lemma ended_wrote:
  assumes "log_op s s'" "ru_ended s"
  shows "\<exists>ks. wrote s s' ks \<and> list_all calm ks"
proof -
  have none: "\<exists>ks. wrote s t ks \<and> list_all calm ks" if "bu_rawHistory (ru_bus t) = bu_rawHistory (ru_bus s)" for t
    using that by (intro exI [of _ "[]"]) (simp add: wrote_def)
  have one: "\<exists>ks. wrote s t ks \<and> list_all calm ks"
    if "bu_rawHistory (ru_bus t) = bu_rawHistory (ru_bus s) @ [\<lparr>de_Version = 0, de_Kind = k\<rparr>]" "calm k" for t k
    using that by (intro exI [of _ "[k]"]) (simp add: wrote_def)
  note simps = op_defs calm_def zero_FieldsDelta_def
  from assms show ?thesis
  proof cases
    case (op_NewTarget t target args plat runner)
    then show ?thesis by (cases "ru_targets s t") (auto simp: simps intro: none one)
  next
    case (op_Target_AddDependsOn t dep)
    then show ?thesis by (cases "ru_targets s t") (auto simp: simps intro: none one)
  next
    case (op_NewCommand c command t category plat cached local interactive sl)
    then show ?thesis by (cases "ru_commands s c") (auto simp: simps intro: none one)
  next
    case (op_Command_Write c dt ts stream)
    then show ?thesis by (cases "ru_commands s c") (auto simp: simps intro: none one)
  next
    case (op_Command_SetStart c ts)
    then show ?thesis by (cases "ru_commands s c") (auto simp: simps intro: none one)
  next
    case (op_Command_AddDependsOn c t name)
    then show ?thesis by (cases "ru_commands s c") (auto simp: simps intro: none one)
  next
    case (op_SetProgress c progress)
    then show ?thesis by (cases "ru_commands s c") (auto simp: simps intro: none one)
  next
    case (op_SetEndError c ts err)
    then show ?thesis by (cases err) (auto simp: simps SetEndError_def intro: one)
  qed (use assms(2) in \<open>auto simp: simps intro: none one\<close>)
qed

lemma replay_calm:
  assumes "replay h zero_RunManifest = Inr m" "rm_Version m = 0" "list_all calm ks"
    "replay (h @ map (\<lambda>k. \<lparr>de_Version = 0, de_Kind = k\<rparr>) ks) zero_RunManifest = Inr m'"
  shows "end_part m' = end_part m \<and> rm_Version m' = 0"
  using assms(3,4)
proof (induction ks arbitrary: m' rule: rev_induct)
  case (snoc k ks)
  then obtain m1 where m1: "replay (h @ map (\<lambda>k. \<lparr>de_Version = 0, de_Kind = k\<rparr>) ks) zero_RunManifest = Inr m1"
    "ApplyDelta \<lparr>de_Version = 0, de_Kind = k\<rparr> m1 = Inr m'"
    by (auto simp: append_assoc [symmetric] replay_snoc rbind_eq_Inr_iff simp del: append_assoc)
  with snoc have ih: "end_part m1 = end_part m" "rm_Version m1 = 0" by auto
  have "run_part (setManifestFields f m1) = (rm_Version m1, rm_EndedAt m1, newer RUN_STATUS_UNKNOWN (fd_Status f) (rm_Status m1), rm_Failure m1)"
    if "\<not> fd_HasFailure f" "fd_EndedAt f = 0" for f
    unfolding setManifestFields_def using that by (simp add: fold_parts) (simp add: run_part_def)
  then have "end_part (setManifestFields f m1) = end_part m1 \<and> rm_Version (setManifestFields f m1) = 0"
    if "\<not> fd_HasFailure f" "fd_EndedAt f = 0" for f
    using that ih(2) by (simp add: run_part_def end_part_def)
  with m1(2) ih snoc.prems(1) show ?case
    by (auto simp: ApplyDelta_def checkVersion_def calm_def split: DeltaKind.splits DeltaManifest.splits)
qed (use assms in simp)

lemma ended_stays: "log_op s s' \<Longrightarrow> ru_ended s \<Longrightarrow> ru_ended s'"
  by (induction rule: log_op.induct) (auto simp: op_defs SetEndError_def split: option.split)

text \<open>
  C26. The first end of a run is final: no operation after it changes the time of the end or the failure
  in the manifest.\<close>

theorem first_end_wins:
  assumes "log_reachable s" "ru_ended s" "log_op\<^sup>*\<^sup>* s s'"
  shows "\<exists>m m'. replay (bu_rawHistory (ru_bus s)) zero_RunManifest = Inr m \<and>
    replay (bu_rawHistory (ru_bus s')) zero_RunManifest = Inr m' \<and>
    rm_EndedAt m' = rm_EndedAt m \<and> rm_Failure m' = rm_Failure m"
proof -
  obtain m where m: "replayed s m" using log_reachable_inv [OF assms(1)] by (auto simp: log_inv_def)
  have s': "log_reachable s' \<and> ru_ended s' \<and> (\<forall>m'. replayed s' m' \<longrightarrow> end_part m' = end_part m)"
    using assms(3)
  proof (induction rule: rtranclp_induct)
    case base
    then show ?case using assms(1,2) m by (simp add: replayed_def)
  next
    case (step t t')
    obtain ks where ks: "wrote t t' ks" "list_all calm ks" using ended_wrote [OF step(2)] step(3) by blast
    obtain mt where mt: "replayed t mt" "log_ok t mt" using log_reachable_inv step(3) by (auto simp: log_inv_def)
    have "end_part m'' = end_part m" if "replayed t' m''" for m''
      using replay_calm [of _ mt ks m''] that mt log_okD(1) [OF mt(2)] ks step(3) by (auto simp: replayed_def wrote_def)
    with step show ?case using ended_stays log_next by blast
  qed
  obtain m' where m': "replayed s' m'" using log_reachable_inv s' by (auto simp: log_inv_def)
  with s' have "end_part m' = end_part m" by blast
  with m m' show ?thesis by (auto simp: replayed_def end_part_def)
qed

section \<open>The output of a failed command\<close>

definition command_output :: "string \<Rightarrow> Delta list \<Rightarrow> string" where
  "command_output c h = concat (map (\<lambda>d. case de_Kind d of
     DLog l \<Rightarrow> if dl_CommandId l = c \<and> (dl_Stream l = 1 \<or> dl_Stream l = 2) then dl_Data l else [] | _ \<Rightarrow> []) h)"

lemma command_output_snoc:
  "command_output c (h @ [d]) = command_output c h @ (case de_Kind d of
     DLog l \<Rightarrow> if dl_CommandId l = c \<and> (dl_Stream l = 1 \<or> dl_Stream l = 2) then dl_Data l else [] | _ \<Rightarrow> [])"
  by (simp add: command_output_def)

definition tail_ok :: "Buffer \<Rightarrow> string \<Rightarrow> bool" where
  "tail_ok b out \<longleftrightarrow> buffer_ok b \<and> length (cb_arr b) = 81920 \<and> Bytes b = lastn 81920 out"

lemma tail_ok_write: "tail_ok b out \<Longrightarrow> tail_ok (Write dt b) (out @ dt)"
  using Write_ok [of b dt] lastn_lastn [of 81920 out dt] by (simp add: tail_ok_def)

lemma tail_ok_new: "tail_ok (cl_tailOutput (newCommand t)) []"
  by (simp add: tail_ok_def newCommand_def NewBuffer_def tailErrorBufferSizeBytes_def buffer_ok_def Bytes_def Let_def)

definition tail_inv :: "Run_log \<Rightarrow> bool" where
  "tail_inv s \<longleftrightarrow> (\<forall>c. ru_commands s c = None \<longrightarrow> command_output c (bu_rawHistory (ru_bus s)) = []) \<and>
     (\<forall>c cl. ru_commands s c = Some cl \<longrightarrow> tail_ok (cl_tailOutput cl) (command_output c (bu_rawHistory (ru_bus s))))"

lemma tail_inv_quiet:
  assumes "tail_inv s" "\<And>c. command_output c (bu_rawHistory (ru_bus s')) = command_output c (bu_rawHistory (ru_bus s))"
    "\<And>c. map_option cl_tailOutput (ru_commands s' c) = map_option cl_tailOutput (ru_commands s c)"
  shows "tail_inv s'"
  unfolding tail_inv_def
proof (intro conjI allI impI)
  fix c assume "ru_commands s' c = None"
  then show "command_output c (bu_rawHistory (ru_bus s')) = []"
    using assms(1,2) assms(3) [of c] by (simp add: tail_inv_def)
next
  fix c cl assume "ru_commands s' c = Some cl"
  then obtain cl0 where "ru_commands s c = Some cl0" "cl_tailOutput cl0 = cl_tailOutput cl"
    using assms(3) [of c] by (cases "ru_commands s c") auto
  then show "tail_ok (cl_tailOutput cl) (command_output c (bu_rawHistory (ru_bus s')))"
    using assms(1,2) by (metis tail_inv_def)
qed

lemma tail_inv_Write:
  assumes "tail_inv s"
  shows "tail_inv (Command_Write c dt ts stream s)"
proof (cases "ru_commands s c")
  case None
  then show ?thesis using assms by (simp add: Command_Write_def)
next
  case (Some cl)
  show ?thesis
  proof (cases "stream = 1 \<or> stream = 2")
    case False
    then show ?thesis using Some by (intro tail_inv_quiet [OF assms]) (auto simp: op_defs command_output_snoc)
  next
    case True
    have "tail_ok (cl_tailOutput cl) (command_output c (bu_rawHistory (ru_bus s)))"
      using assms Some unfolding tail_inv_def by blast
    then have "tail_ok (Write dt (cl_tailOutput cl)) (command_output c (bu_rawHistory (ru_bus s)) @ dt)" by (rule tail_ok_write)
    then show ?thesis
      using assms True Some unfolding tail_inv_def by (auto simp: op_defs command_output_snoc)
  qed
qed

lemma tail_inv_NewCommand:
  assumes "tail_inv s"
  shows "tail_inv (snd (NewCommand i command t category plat cached local interactive sl s))"
proof (cases "ru_commands s i")
  case None
  then have "command_output i (bu_rawHistory (ru_bus s)) = []" using assms unfolding tail_inv_def by blast
  then show ?thesis
    using assms None tail_ok_new unfolding tail_inv_def by (auto simp: op_defs command_output_snoc)
qed (use assms in \<open>simp add: NewCommand_def\<close>)

lemma log_op_tail: "log_op s s' \<Longrightarrow> tail_inv s \<Longrightarrow> tail_inv s'"
proof (induction rule: log_op.induct)
  case (op_NewCommand s c command t category plat cached local interactive sl)
  then show ?case by (rule tail_inv_NewCommand)
next
  case (op_Command_Write s c dt ts stream)
  then show ?case by (rule tail_inv_Write)
qed (erule tail_inv_quiet; auto simp: op_defs SetEndError_def command_output_snoc split: option.split)+

lemma log_reachable_tail: "log_reachable s \<Longrightarrow> tail_inv s"
proof (induction rule: log_reachable.induct)
  case (log_init now)
  show ?case by (simp add: tail_inv_def New_bus_def command_output_def)
next
  case (log_sub s i s')
  then show ?case using sub_op_fields [OF log_sub(2)] by (auto simp: tail_inv_def)
qed (rule log_op_tail)

text \<open>
  The failure that \<open>SetFatalError\<close> reports for a command has the last 80 KiB of what the command wrote
  to its standard output and error, and the manifest of the run is a failure.\<close>

theorem failure_output:
  assumes "log_reachable s" "\<not> ru_ended s" "ru_commands s c \<noteq> None" "c \<noteq> []"
  shows "\<exists>m f. replay (bu_rawHistory (ru_bus (SetFatalError ts t c ty help msg s))) zero_RunManifest = Inr m \<and>
    rm_Status m = RUN_STATUS_FAILURE \<and> rm_Failure m = Some f \<and> fl_CommandId f = c \<and>
    fl_Output f = lastn 81920 (command_output c (bu_rawHistory (ru_bus s)))"
proof -
  obtain cl where cl: "ru_commands s c = Some cl" using assms(3) by auto
  have "tail_inv s" using log_reachable_tail [OF assms(1)] .
  then have out: "TailOutput cl = lastn 81920 (command_output c (bu_rawHistory (ru_bus s)))"
    using cl unfolding tail_inv_def TailOutput_def tail_ok_def by blast
  obtain m where m: "replayed s m" "log_ok s m" using log_reachable_inv [OF assms(1)] by (auto simp: log_inv_def)
  let ?fail = "\<lparr>fl_Type = ty, fl_TargetId = t, fl_CommandId = c, fl_ErrorMessage = msg, fl_Output = TailOutput cl, fl_HelpMessage = help\<rparr>"
  let ?f = "zero_FieldsDelta\<lparr>fd_Status := RUN_STATUS_FAILURE, fd_EndedAt := TsUnixNanos s ts, fd_HasFailure := True, fd_Failure := Some ?fail\<rparr>"
  have h: "bu_rawHistory (ru_bus (SetFatalError ts t c ty help msg s)) = bu_rawHistory (ru_bus (writeRaw (DManifest (Fields ?f)) s))"
    using assms(2,4) cl by (simp add: op_defs)
  have "replayed (writeRaw (DManifest (Fields ?f)) s) (setManifestFields ?f m)" by (rule replayed_write(1) [OF m(1) log_okD(1) [OF m(2)]])
  then have "replay (bu_rawHistory (ru_bus (SetFatalError ts t c ty help msg s))) zero_RunManifest = Inr (setManifestFields ?f m)"
    unfolding h replayed_def .
  moreover have "rm_Status (setManifestFields ?f m) = RUN_STATUS_FAILURE" "rm_Failure (setManifestFields ?f m) = Some ?fail"
    by (simp_all add: setManifestFields_def zero_FieldsDelta_def)
  ultimately show ?thesis using out by auto
qed


section \<open>Late subscribers\<close>

lemma give_all_other: "i \<notin> set subs \<Longrightarrow> give_all subs d rec i = rec i"
  unfolding give_all_def by (induction subs arbitrary: rec) auto

lemma give_all_once: "count_list subs i = 1 \<Longrightarrow> give_all subs d rec i = rec i @ [d]"
proof (induction subs arbitrary: rec)
  case (Cons j subs)
  show ?case
  proof (cases "j = i")
    case True
    then have "i \<notin> set subs" using Cons.prems by (simp add: count_list_0_iff)
    then show ?thesis using give_all_other [of i subs d] True by (simp add: give_all_def)
  next
    case False
    then show ?thesis using Cons by (simp add: give_all_def)
  qed
qed simp

text \<open>A subscriber that gets the raw deltas once and no formatted ones.\<close>

definition in_step :: "nat \<Rightarrow> Run_log \<Rightarrow> bool" where
  "in_step i s \<longleftrightarrow> count_list (bu_rawSubs (ru_bus s)) i = 1 \<and> i \<notin> set (bu_formattedSubs (ru_bus s)) \<and>
     ru_received s i = bu_rawHistory (ru_bus s)"

lemma in_step_writeRaw: "in_step i s \<Longrightarrow> in_step i (writeRaw k s)"
  by (simp add: in_step_def give_all_once)

lemma in_step_formatted: "in_step i s \<Longrightarrow> in_step i (WriteFormattedLog l s)"
  by (simp add: in_step_def WriteFormattedLog_def Let_def give_all_other)

lemma in_step_cong:
  assumes "in_step i s" "ru_bus s' = ru_bus s" "ru_received s' = ru_received s"
  shows "in_step i s'"
  using assms by (simp add: in_step_def)

lemma in_step_update:
  "in_step i (s\<lparr>ru_targets := x\<rparr>) = in_step i s" "in_step i (s\<lparr>ru_commands := y\<rparr>) = in_step i s" "in_step i (s\<lparr>ru_ended := b\<rparr>) = in_step i s"
  "in_step i (s\<lparr>ru_hasMainTarget := b\<rparr>) = in_step i s"
  by (simp_all add: in_step_def)

lemma log_op_in_step: "log_op s s' \<Longrightarrow> in_step i s \<Longrightarrow> in_step i s'"
  by (induction rule: log_op.induct)
    (auto simp: op_defs SetEndError_def FormattedWriter_Write_def in_step_update in_step_writeRaw in_step_formatted split: option.split)

lemma count_remove1_other: "j \<noteq> i \<Longrightarrow> count_list (remove1 j xs) i = count_list xs i"
  by (induction xs) auto

lemma sub_op_in_step: "sub_op i s s' \<Longrightarrow> in_step i s \<Longrightarrow> in_step i s'"
  by (induction rule: sub_op.induct) (auto simp: sub_defs in_step_def count_remove1_other dest: notin_set_remove1)

text \<open>
  C27. A subscriber that is added to the raw deltas, however late, has all of them in their order at every
  moment from then on, whatever the build and the other subscribers do.\<close>

theorem late_subscriber_complete:
  assumes "i \<notin> set (bu_rawSubs (ru_bus s))" "i \<notin> set (bu_formattedSubs (ru_bus s))" "ru_received s i = []"
    "(\<lambda>a b. log_op a b \<or> sub_op i a b)\<^sup>*\<^sup>* (AddRawSubscriber i s) s'"
  shows "ru_received s' i = bu_rawHistory (ru_bus s')"
proof -
  have "in_step i (AddRawSubscriber i s)"
    using assms(1-3) by (simp add: in_step_def AddRawSubscriber_def count_list_0_iff)
  with assms(4) have "in_step i s'"
    by (induction rule: rtranclp_induct) (auto intro: log_op_in_step sub_op_in_step)
  then show ?thesis by (simp add: in_step_def)
qed

section \<open>A concrete run\<close>

text \<open>One command that writes two texts to its output and fails.\<close>

definition ex_log :: Run_log where
  "ex_log = Command_Write ''c'' ''two'' 3 2 (Command_Write ''c'' ''one'' 2 1
     (snd (NewCommand ''c'' ''RUN x'' ''t'' [] [] False False False None (New_bus 0))))"

lemma ex_log_reachable: "log_reachable ex_log"
  unfolding ex_log_def by (rule log_next [OF log_next [OF log_next [OF log_init op_NewCommand] op_Command_Write] op_Command_Write])

lemma ex_log_commands: "ru_commands ex_log ''c'' \<noteq> None" "\<not> ru_ended ex_log"
  by (simp_all add: ex_log_def op_defs New_bus_def)


theorem failure_output_witness:
  "\<exists>m f. replay (bu_rawHistory (ru_bus (SetFatalError 4 ''t'' ''c'' 2 [] ''exit'' ex_log))) zero_RunManifest = Inr m \<and>
    rm_Status m = RUN_STATUS_FAILURE \<and> rm_Failure m = Some f \<and> fl_CommandId f = ''c'' \<and> fl_Output f = ''onetwo''"
proof -
  have "command_output ''c'' (bu_rawHistory (ru_bus ex_log)) = ''onetwo''"
    by (simp add: ex_log_def op_defs New_bus_def command_output_def)
  with failure_output [OF ex_log_reachable ex_log_commands(2,1), of 4 "''t''" 2 "[]" "''exit''"] show ?thesis by simp
qed

definition ex_failed :: Run_log where
  "ex_failed = SetFatalError 4 ''t'' ''c'' 2 [] ''exit'' ex_log"

definition ex_ended_again :: Run_log where
  "ex_ended_again = Run_SetEnd 5 RUN_STATUS_SUCCESS ex_failed"

theorem first_end_wins_witness:
  "\<exists>m m'. replay (bu_rawHistory (ru_bus ex_failed)) zero_RunManifest = Inr m \<and>
    replay (bu_rawHistory (ru_bus ex_ended_again)) zero_RunManifest = Inr m' \<and> rm_EndedAt m' = rm_EndedAt m \<and> rm_Failure m' = rm_Failure m"
proof -
  have r: "log_reachable ex_failed" unfolding ex_failed_def by (rule log_next [OF ex_log_reachable op_SetFatalError])
  have o: "log_op ex_failed ex_ended_again" unfolding ex_ended_again_def by (rule op_Run_SetEnd)
  have e: "ru_ended ex_failed" using ex_log_commands by (simp add: ex_failed_def op_defs)
  show ?thesis by (rule first_end_wins [OF r e r_into_rtranclp [of log_op, OF o]])
qed

theorem late_subscriber_complete_witness:
  "ru_received (Run_SetEnd 5 RUN_STATUS_SUCCESS (AddRawSubscriber 7 ex_log)) 7 = bu_rawHistory (ru_bus (Run_SetEnd 5 RUN_STATUS_SUCCESS (AddRawSubscriber 7 ex_log)))"
proof (rule late_subscriber_complete)
  show "7 \<notin> set (bu_rawSubs (ru_bus ex_log))" "7 \<notin> set (bu_formattedSubs (ru_bus ex_log))" "ru_received ex_log 7 = []"
    by (simp_all add: ex_log_def op_defs New_bus_def give_all_def)
  show "(\<lambda>a b. log_op a b \<or> sub_op 7 a b)\<^sup>*\<^sup>* (AddRawSubscriber 7 ex_log) (Run_SetEnd 5 RUN_STATUS_SUCCESS (AddRawSubscriber 7 ex_log))"
    by (rule r_into_rtranclp) (simp add: op_Run_SetEnd)
qed

end
