(* ===== verification/Run_Mount.thy ===== *)
theory Run_Mount
  imports Go_Path Go_Strconv Domain_Reference Git_Lookup Oidc_Info Shell_Lex "HOL-Library.Word"
begin

text \<open>
  Mounts of RUN and CACHE, \<^verbatim>\<open>earthfile2llb/runmount.go\<close>, and the identifiers of secrets in
  \<^verbatim>\<open>earthfile2llb/converter.go\<close>. A mount option of BuildKit is the constructor that the code calls with
  its arguments. \<open>sha\<close> is the SHA-256 of a text in hexadecimal. A file mode is Go's \<open>uint32\<close>.
\<close>

text \<open>\<open>path.Join\<close> of any number of elements; empty ones are skipped.\<close>

definition path_JoinN :: "string list \<Rightarrow> string" where
  "path_JoinN es = (case filter (\<lambda>e. e \<noteq> []) es of [] \<Rightarrow> [] | es' \<Rightarrow> path_Clean (Join es' [ch_slash]))"

section \<open>Modes\<close>

datatype mode_error = InvalidOctal | ModeSyntax string | ModeRange string

definition octal_value :: "string \<Rightarrow> nat" where
  "octal_value s = foldl (\<lambda>n c. 8 * n + (of_char c - 48)) 0 s"

definition is_octal :: "char \<Rightarrow> bool" where
  "is_octal c \<longleftrightarrow> c \<in> set ''01234567''"

definition ParseMode :: "string \<Rightarrow> mode_error + 32 word" where
  "ParseMode s =
    (if s = [] \<or> hd s \<noteq> CHR ''0'' then Inl InvalidOctal
     else if \<not> list_all is_octal s then Inl (ModeSyntax s)
     else if octal_value s < 2 ^ 32 then Inr (of_nat (octal_value s)) else Inl (ModeRange s))"

section \<open>Mount options\<close>

datatype sharing = CacheMountShared | CacheMountPrivate | CacheMountLocked

datatype mount_opt = Readonly | HostBind | SourcePath string | AsPersistentCacheDir string sharing | Tmpfs

text \<open>The state that is mounted: nothing, the scratch state of the platform, or the cache context
  with a directory \<open>/cache\<close> of a mode.\<close>

datatype mount_source = MScratch | MPlatformScratch | MCacheDir "32 word"

datatype run_option =
    AddMount string mount_source "mount_opt list"
  | AddSSHSocket string "string option"
  | AddSecret string string int

datatype mount_error =
    InvalidMountArg string
  | NotYetSupported string
  | BadMountMode string string
  | NoMountType
  | NoMountSource
  | NoMountTarget
  | ModeNotSupported string
  | ModeTooLarge
  | InvalidMountType string

record mountArgs =
  ma_Source :: string
  ma_Target :: string
  ma_ID :: string
  ma_Type :: string
  ma_Mode :: "32 word"
  ma_Opts :: "mount_opt list"
  ma_sharing :: sharing

definition zero_mountArgs :: mountArgs where
  "zero_mountArgs = \<lparr>ma_Source = [], ma_Target = [], ma_ID = [], ma_Type = [], ma_Mode = 0, ma_Opts = [],
     ma_sharing = CacheMountLocked\<rparr>"

definition sharingMode :: "string \<Rightarrow> sharing option" where
  "sharingMode s = map_of [(''shared'', CacheMountShared), (''private'', CacheMountPrivate), (''locked'', CacheMountLocked)] s"

text \<open>One round of the loop over the pairs.\<close>

definition mountPair :: "string \<Rightarrow> mountArgs \<Rightarrow> mount_error + mountArgs" where
  "mountPair kvPair m =
    (let kvSplit = SplitN2 kvPair (CHR ''=''); k = hd kvSplit;
         value = (\<lambda>f. if length kvSplit \<noteq> 2 then Inl (InvalidMountArg kvPair) else f (kvSplit ! 1)) in
     if k = ''id'' then value (\<lambda>v. Inr (m\<lparr>ma_ID := v\<rparr>))
     else if k = ''type'' then value (\<lambda>v. Inr (m\<lparr>ma_Type := v\<rparr>))
     else if k = ''source'' then value (\<lambda>v. Inr (m\<lparr>ma_Source := v\<rparr>))
     else if k = ''target'' then value (\<lambda>v. Inr (m\<lparr>ma_Target := v\<rparr>))
     else if k = ''ro'' \<or> k = ''readonly'' then
       (if length kvSplit \<noteq> 1 then Inl (InvalidMountArg kvPair) else Inr (m\<lparr>ma_Opts := ma_Opts m @ [Readonly]\<rparr>))
     else if k = ''uid'' \<or> k = ''gid'' then Inl (NotYetSupported kvPair)
     else if k = ''mode'' \<or> k = ''chmod'' then
       value (\<lambda>v. case ParseMode v of Inl _ \<Rightarrow> Inl (BadMountMode k v) | Inr mode \<Rightarrow> Inr (m\<lparr>ma_Mode := mode\<rparr>))
     else if k = ''sharing'' then
       value (\<lambda>v. case sharingMode v of None \<Rightarrow> Inl (InvalidMountArg kvPair) | Some s \<Rightarrow> Inr (m\<lparr>ma_sharing := s\<rparr>))
     else if k = ''from'' then Inl (NotYetSupported kvPair)
     else Inl (InvalidMountArg kvPair))"

fun mountPairs :: "string list \<Rightarrow> mountArgs \<Rightarrow> mount_error + mountArgs" where
  "mountPairs [] m = Inr m"
| "mountPairs (p # ps) m = rbind (mountPair p m) (mountPairs ps)"

section \<open>Caches and secrets\<close>

definition cacheKey :: "(string \<Rightarrow> string) \<Rightarrow> Target_ref \<Rightarrow> string" where
  "cacheKey sha target = sha (referenceStringCanonical (RefTarget (target\<lparr>t_Tag := []\<rparr>)))"

text \<open>The identifier of a cache, as \<open>parseMount\<close> and \<open>Cache\<close> make it.\<close>

definition cacheID :: "(string \<Rightarrow> string) \<Rightarrow> bool \<Rightarrow> Target_ref \<Rightarrow> string \<Rightarrow> string \<Rightarrow> string" where
  "cacheID sha globalCache target mountTarget ident =
    (if globalCache \<and> ident \<noteq> [] then ident
     else path_JoinN [''/run/cache'', cacheKey sha target, path_Clean mountTarget])"

definition buildMount :: "(string \<Rightarrow> string) \<Rightarrow> bool \<Rightarrow> Target_ref \<Rightarrow> (string \<Rightarrow> string) \<Rightarrow> mountArgs \<Rightarrow> mount_error + run_option" where
  "buildMount sha globalCache target secretIDf m =
    (let ty = ma_Type m in
     if ty = [] then Inl NoMountType
     else if ty = ''bind-experimental'' then
       (if ma_Source m = [] then Inl NoMountSource
        else if ma_Target m = [] then Inl NoMountTarget
        else if ma_Mode m \<noteq> 0 then Inl (ModeNotSupported ty)
        else Inr (AddMount (ma_Target m) MScratch (ma_Opts m @ [HostBind, SourcePath (ma_Source m)])))
     else if ty = ''cache'' then
       (if ma_Target m = [] then Inl NoMountTarget
        else
          let mode = (if ma_Mode m = 0 then 420 else ma_Mode m);
              ident = cacheID sha globalCache target (ma_Target m) (ma_ID m) in
          Inr (AddMount (ma_Target m) (MCacheDir mode)
                 (ma_Opts m @ [AsPersistentCacheDir ident (ma_sharing m), SourcePath ''/cache''])))
     else if ty = ''tmpfs'' then
       (if ma_Target m = [] then Inl NoMountTarget
        else if ma_Mode m \<noteq> 0 then Inl (ModeNotSupported ty)
        else Inr (AddMount (ma_Target m) MPlatformScratch (ma_Opts m @ [Tmpfs])))
     else if ty = ''ssh-experimental'' then
       (let sshID = (if ma_ID m = [] then path_Clean (ma_Target m) else ma_ID m) in
        if ma_Mode m \<noteq> 0 then Inl (ModeNotSupported ty)
        else Inr (AddSSHSocket sshID (if ma_Target m \<noteq> [] then Some (ma_Target m) else None)))
     else if ty = ''secret'' then
       (if ma_Target m = [] then Inl NoMountTarget
        else
          let mode = (if ma_Mode m = 0 then 292 else ma_Mode m) in
          if uint mode > 2 ^ 31 - 1 then Inl ModeTooLarge
          else
            let ident = (if ma_ID m = [] then path_Clean (ma_Target m) else ma_ID m);
                name = TrimPrefix ident ''+secrets/'' in
            Inr (AddSecret (ma_Target m) (secretIDf name) (uint mode)))
     else Inl (InvalidMountType ty))"

definition parseMount :: "(string \<Rightarrow> string) \<Rightarrow> bool \<Rightarrow> Target_ref \<Rightarrow> (string \<Rightarrow> string) \<Rightarrow> string \<Rightarrow> mount_error + run_option" where
  "parseMount sha globalCache target secretIDf mount =
    rbind (mountPairs (Split mount (CHR '','')) zero_mountArgs) (buildMount sha globalCache target secretIDf)"

fun parseMounts :: "(string \<Rightarrow> string) \<Rightarrow> bool \<Rightarrow> Target_ref \<Rightarrow> (string \<Rightarrow> string) \<Rightarrow> string list \<Rightarrow> mount_error + run_option list" where
  "parseMounts sha globalCache target secretIDf [] = Inr []"
| "parseMounts sha globalCache target secretIDf (mount # mounts) =
    rbind (parseMount sha globalCache target secretIDf mount) (\<lambda>r.
      rbind (parseMounts sha globalCache target secretIDf mounts) (\<lambda>rs. Inr (r # rs)))"

section \<open>Secrets\<close>

text \<open>\<open>url.Values\<close> with one value per key: \<open>Set\<close> and \<open>Encode\<close>, which sorts by key.\<close>

definition url_Set :: "string \<Rightarrow> string \<Rightarrow> (string \<times> string) list \<Rightarrow> (string \<times> string) list" where
  "url_Set k v vs = AList.update k v vs"

definition url_Encode :: "(string \<times> string) list \<Rightarrow> string" where
  "url_Encode vs = Join (map (\<lambda>k. QueryEscape k @ ''='' @ QueryEscape (the (map_of vs k))) (sort (map fst vs))) ''&''"

text \<open>The texts of a role and of a duration are those of the libraries they come from.\<close>

definition SetURLValues ::
  "(ARN \<Rightarrow> string) \<Rightarrow> (int \<Rightarrow> string) \<Rightarrow> AWSOIDCInfo \<Rightarrow> (string \<times> string) list \<Rightarrow> (string \<times> string) list option" where
  "SetURLValues arnString durString info vs =
    (case oi_RoleARN info of
       None \<Rightarrow> None
     | Some role \<Rightarrow>
         let vs = url_Set ''region'' (oi_Region info) (url_Set ''role-arn'' (arnString role) (url_Set ''session-name'' (oi_SessionName info) vs))
         in Some (case oi_SessionDuration info of None \<Rightarrow> vs | Some d \<Rightarrow> url_Set ''session-duration'' (durString d) vs))"

definition secretValues :: "bool \<Rightarrow> string \<Rightarrow> string \<Rightarrow> string \<Rightarrow> (string \<times> string) list" where
  "secretValues useProjectSecrets org project name =
    (let v = url_Set ''name'' name [] in
     if useProjectSecrets then url_Set ''project'' project (url_Set ''org'' org (url_Set ''v'' ''1'' v))
     else url_Set ''v'' ''0'' v)"

definition secretID :: "bool \<Rightarrow> string \<Rightarrow> string \<Rightarrow> string \<Rightarrow> string" where
  "secretID useProjectSecrets org project name = url_Encode (secretValues useProjectSecrets org project name)"

definition secretID_oidc ::
  "(ARN \<Rightarrow> string) \<Rightarrow> (int \<Rightarrow> string) \<Rightarrow> bool \<Rightarrow> string \<Rightarrow> string \<Rightarrow> AWSOIDCInfo option \<Rightarrow> string \<Rightarrow> string option" where
  "secretID_oidc arnString durString useProjectSecrets org project oidc name =
    (let v = secretValues useProjectSecrets org project name in
     case oidc of None \<Rightarrow> Some (url_Encode v) | Some info \<Rightarrow> map_option url_Encode (SetURLValues arnString durString info v))"

definition AWSCredentials :: "string list" where
  "AWSCredentials = [''aws:access_key'', ''aws:secret_key'', ''aws:session_token'', ''aws:region'']"

definition AWSEnvName :: "string \<Rightarrow> string option" where
  "AWSEnvName name = map_of [(''aws:access_key'', ''AWS_ACCESS_KEY_ID''), (''aws:secret_key'', ''AWS_SECRET_ACCESS_KEY''),
     (''aws:session_token'', ''AWS_SESSION_TOKEN''), (''aws:region'', ''AWS_REGION'')] name"

fun awsLoop :: "(string \<Rightarrow> string option) \<Rightarrow> string list \<Rightarrow> (run_option list \<times> string list) option" where
  "awsLoop ident [] = Some ([], [])"
| "awsLoop ident (name # names) =
    (let secretPath = path_Join ''/run/secrets'' name in
     case ident name of
       None \<Rightarrow> None
     | Some i \<Rightarrow> map_option (\<lambda>(opts, envs).
         (AddSecret secretPath i 292 # opts,
          (case AWSEnvName name of None \<Rightarrow> envs
           | Some e \<Rightarrow> (e @ ''='' @ [ch_dquote] @ ''$(cat '' @ secretPath @ '')'' @ [ch_dquote]) # envs)))
        (awsLoop ident names))"

definition awsSecrets ::
  "(ARN \<Rightarrow> string) \<Rightarrow> (int \<Rightarrow> string) \<Rightarrow> bool \<Rightarrow> string \<Rightarrow> string \<Rightarrow> AWSOIDCInfo option \<Rightarrow> (run_option list \<times> string list) option" where
  "awsSecrets arnString durString useProjectSecrets org project oidc =
    awsLoop (secretID_oidc arnString durString useProjectSecrets org project oidc) AWSCredentials"

datatype secret_error = InvalidSecretEnv string | SecretNotSupported string

text \<open>The deferred check of the name of the environment variable.\<close>

definition checkSecretEnv :: "string \<times> string \<Rightarrow> secret_error + string \<times> string" where
  "checkSecretEnv = (\<lambda>(sid, env). if env \<noteq> [] \<and> \<not> IsValidEnvVarName env then Inl (InvalidSecretEnv env) else Inr (sid, env))"

definition parseSecretFlag :: "bool \<Rightarrow> string \<Rightarrow> secret_error + string \<times> string" where
  "parseSecretFlag useProjectSecrets kv =
    (if kv = [] then Inr ([], [])
     else
       let parts = SplitN2 kv (CHR ''='') in
       if length parts = 1 then checkSecretEnv (hd parts, hd parts)
       else if parts ! 1 = [] then checkSecretEnv ([], [])
       else if useProjectSecrets then checkSecretEnv (TrimPrefix (parts ! 1) ''+secrets/'', hd parts)
       else if prefix ''+secrets/'' (parts ! 1) then checkSecretEnv (TrimPrefix (parts ! 1) ''+secrets/'', hd parts)
       else Inl (SecretNotSupported kv))"


end
