(* ===== verification/Llb_State.thy ===== *)
theory Llb_State
  imports Run_Mount Platform Var_Args
begin

text \<open>
  What a converter builds: the state of the BuildKit client as the operations of
  \<^verbatim>\<open>util/llbutil/pllb/state.go\<close> applied to it, the image of \<^verbatim>\<open>states/image/image.go\<close>, the saved images and
  artifacts of \<^verbatim>\<open>states/states.go\<close>, the imports of \<^verbatim>\<open>states/cacheimports.go\<close>, and the tables of exports of
  \<^verbatim>\<open>util/gatewaycrafter\<close>. A nil map of Go is \<open>None\<close>: writing to it panics.
\<close>

section \<open>States\<close>

datatype llb_op =
    LScratch
  | LImage string
  | LExternal nat
  | LPlatform SpecsPlatform
  | LAddEnv string string
  | LDir string
  | LUser string
  | LAddExtraHost string "nat list"
  | LMkdir string "32 word" bool string
  | LPersist string run_option
  | LRun "string list" "run_option list"
  | LDepends "llb_op list"

text \<open>The operations in their order; \<open>LExternal\<close> is a state that another library has made, \<open>LPersist\<close>
  the copy of a cache directory, \<open>LDepends\<close> a dependency on another state.\<close>

type_synonym llb = "llb_op list"

definition Scratch :: llb where "Scratch = [LScratch]"
definition AddEnv_st :: "string \<Rightarrow> string \<Rightarrow> llb \<Rightarrow> llb" where "AddEnv_st k v s = s @ [LAddEnv k v]"
definition Dir_st :: "string \<Rightarrow> llb \<Rightarrow> llb" where "Dir_st p s = s @ [LDir p]"
definition User_st :: "string \<Rightarrow> llb \<Rightarrow> llb" where "User_st u s = s @ [LUser u]"
definition Platform_st :: "SpecsPlatform \<Rightarrow> llb \<Rightarrow> llb" where "Platform_st p s = s @ [LPlatform p]"
definition AddExtraHost :: "string \<Rightarrow> nat list \<Rightarrow> llb \<Rightarrow> llb" where "AddExtraHost h ip s = s @ [LAddExtraHost h ip]"

text \<open>The environment of a state, and the values it has been given.\<close>

fun env_of :: "llb \<Rightarrow> string \<Rightarrow> string option" where
  "env_of [] k = None"
| "env_of (LAddEnv j v # s) k = (case env_of s k of Some w \<Rightarrow> Some w | None \<Rightarrow> if j = k then Some v else None)"
| "env_of (_ # s) k = env_of s k"

section \<open>Images\<close>

record HealthConfig =
  hc_Test :: "string list"
  hc_Interval :: int
  hc_Timeout :: int
  hc_StartPeriod :: int
  hc_StartInterval :: int
  hc_Retries :: int

record Image =
  im_Architecture :: string
  im_OS :: string
  im_User :: string
  im_Env :: "string list"
  im_Entrypoint :: "string list"
  im_Cmd :: "string list"
  im_WorkingDir :: string
  im_StopSignal :: string
  im_ExposedPorts :: "string set option"
  im_Volumes :: "string set option"
  im_Labels :: "(string \<rightharpoonup> string) option"
  im_Healthcheck :: "HealthConfig option"

definition DefaultPathEnv :: string where
  "DefaultPathEnv = ''/usr/local/sbin:/usr/local/bin:/usr/sbin:/usr/bin:/sbin:/bin''"

definition NewImage :: Image where
  "NewImage = \<lparr>im_Architecture = [], im_OS = [], im_User = [], im_Env = [''PATH='' @ DefaultPathEnv], im_Entrypoint = [], im_Cmd = [],
     im_WorkingDir = ''/'', im_StopSignal = [], im_ExposedPorts = Some {}, im_Volumes = Some {}, im_Labels = Some Map.empty,
     im_Healthcheck = None\<rparr>"

text \<open>The copies of the maps are made with \<open>maps.Copy\<close> into new maps, which also accepts nil.\<close>

definition Image_Clone :: "Image option \<Rightarrow> Image" where
  "Image_Clone img =
    (case img of
       None \<Rightarrow> NewImage
     | Some i \<Rightarrow> i\<lparr>im_ExposedPorts := Some (case im_ExposedPorts i of None \<Rightarrow> {} | Some s \<Rightarrow> s),
                   im_Volumes := Some (case im_Volumes i of None \<Rightarrow> {} | Some s \<Rightarrow> s),
                   im_Labels := Some (case im_Labels i of None \<Rightarrow> Map.empty | Some m \<Rightarrow> m)\<rparr>)"

section \<open>Saved images and artifacts\<close>

record SaveImage =
  si_State :: llb
  si_Platform :: Platform
  si_Image :: "Image option"
  si_DockerTag :: string
  si_HasPushDependencies :: bool
  si_CacheHint :: bool
  si_InsecurePush :: bool
  si_ForceSave :: bool
  si_CheckDuplicate :: bool
  si_NoManifestList :: bool
  si_Push :: bool
  si_HasPlatform :: bool
  si_SkipBuilder :: bool

record SaveLocal =
  sl_DestPath :: string
  sl_ArtifactPath :: string
  sl_Index :: nat
  sl_IfExists :: bool

record CacheMount =
  ck_RunOption :: run_option
  ck_Persisted :: bool

text \<open>\<open>LastSaveImage\<close> of a target with a main state and image.\<close>

definition LastSaveImage :: "llb \<Rightarrow> Image \<Rightarrow> SaveImage list \<Rightarrow> SaveImage" where
  "LastSaveImage mainState mainImage saves =
    (if saves = [] then
       \<lparr>si_State = mainState, si_Platform = DefaultPlatform, si_Image = Some mainImage, si_DockerTag = [], si_HasPushDependencies = False,
        si_CacheHint = False, si_InsecurePush = False, si_ForceSave = False, si_CheckDuplicate = False, si_NoManifestList = False,
        si_Push = False, si_HasPlatform = False, si_SkipBuilder = False\<rparr>
     else last saves)"

text \<open>The set and the slice of \<open>CacheImports\<close> have the same elements: the slice is kept.\<close>

definition CacheImports_Add :: "string \<Rightarrow> string list \<Rightarrow> string list" where
  "CacheImports_Add tag ci = (if tag \<in> set ci then ci else ci @ [tag])"

definition NewCacheImports :: "string list \<Rightarrow> string list" where
  "NewCacheImports imports = foldl (\<lambda>ci tag. CacheImports_Add tag ci) [] imports"

end
