(* ===== verification/Wait_Block.thy ===== *)
theory Wait_Block
  imports Llb_State Util_Text
begin

text \<open>
  WAIT blocks: \<^verbatim>\<open>earthfile2llb/wait_block.go\<close>, the three kinds of items of
  \<^verbatim>\<open>earthfile2llb/save_image_wait_item.go\<close>, \<^verbatim>\<open>save_artifact_wait_item.go\<close> and \<^verbatim>\<open>state_wait_item.go\<close>, and the
  tables of \<^verbatim>\<open>util/gatewaycrafter\<close> that they fill. Items and blocks are shared by reference: they live in
  a store and are named by their index. An item has the fields of its converter that are read.
\<close>

section \<open>The gateway crafter\<close>

record GatewayCrafter =
  gc_refs :: "(string \<times> nat) list"
  gc_meta :: "(string \<times> string) list"

definition NewGatewayCrafter :: GatewayCrafter where
  "NewGatewayCrafter = \<lparr>gc_refs = [], gc_meta = []\<rparr>"

definition AddRef :: "string \<Rightarrow> nat option \<Rightarrow> GatewayCrafter \<Rightarrow> GatewayCrafter" where
  "AddRef k ref gc = (case ref of None \<Rightarrow> gc | Some r \<Rightarrow> gc\<lparr>gc_refs := AList.update k r (gc_refs gc)\<rparr>)"

definition AddMeta :: "string \<Rightarrow> string \<Rightarrow> GatewayCrafter \<Rightarrow> GatewayCrafter" where
  "AddMeta k v gc = gc\<lparr>gc_meta := AList.update k v (gc_meta gc)\<rparr>"

text \<open>\<open>marshal\<close> is \<open>json.Marshal\<close> of an image.\<close>

definition AddPushImageEntry ::
  "(Image option \<Rightarrow> string + string) \<Rightarrow> nat option \<Rightarrow> nat \<Rightarrow> string \<Rightarrow> bool \<Rightarrow> bool \<Rightarrow> Image option \<Rightarrow> string option \<Rightarrow>
    GatewayCrafter \<Rightarrow> string + string \<times> GatewayCrafter" where
  "AddPushImageEntry marshal ref refID imageName shouldPush insecurePush imageConfig platformStr gc =
    rbind (marshal imageConfig) (\<lambda>config.
      let refKey = ''image-'' @ Itoa (int refID); refPrefix = ''ref/'' @ refKey;
          gc = AddMeta (refPrefix @ ''/image.name'') imageName (AddRef refKey ref gc);
          gc = (if shouldPush then
                  let gc = AddMeta (refPrefix @ ''/export-image-push'') ''true'' gc in
                  if insecurePush then AddMeta (refPrefix @ ''/insecure-push'') ''true'' gc else gc
                else gc);
          gc = AddMeta (refPrefix @ ''/containerimage.config'') config gc;
          gc = (case platformStr of None \<Rightarrow> gc | Some p \<Rightarrow> AddMeta (refPrefix @ ''/platform'') p gc)
      in Inr (refPrefix, gc))"

definition AddSaveArtifactLocal ::
  "string \<Rightarrow> nat option \<Rightarrow> nat \<Rightarrow> string \<Rightarrow> string \<Rightarrow> string \<Rightarrow> GatewayCrafter \<Rightarrow> GatewayCrafter" where
  "AddSaveArtifactLocal dirID ref refID artifact srcPath destPath gc =
    (let refKey = ''dir-'' @ Itoa (int refID); refPrefix = ''ref/'' @ refKey in
     AddMeta (refPrefix @ ''/dir-id'') dirID (AddMeta (refPrefix @ ''/export-dir'') ''true''
      (AddMeta (refPrefix @ ''/dest-path'') destPath (AddMeta (refPrefix @ ''/src-path'') srcPath
       (AddMeta (refPrefix @ ''/artifact'') artifact (AddRef refKey ref gc))))))"

section \<open>The export coordinator\<close>

record Manifest =
  mf_Platform :: Platform
  mf_ImageName :: string

record ExportCoordinator =
  ec_imageEntries :: "(string \<times> Manifest option \<times> string) list"
  ec_imgIndex :: nat
  ec_localOutputSummary :: "(string \<times> string \<times> string) list"
  ec_artifactOutputSummary :: "(string \<times> string \<times> string) list"
  ec_pushedImageSummary :: "(string \<times> string \<times> string \<times> bool) list"

definition NewExportCoordinator :: ExportCoordinator where
  "NewExportCoordinator = \<lparr>ec_imageEntries = [], ec_imgIndex = 0, ec_localOutputSummary = [], ec_artifactOutputSummary = [],
     ec_pushedImageSummary = []\<rparr>"

definition GetImage :: "string \<Rightarrow> ExportCoordinator \<Rightarrow> (Manifest option \<times> string) option" where
  "GetImage k ec = map_of (ec_imageEntries ec) k"

definition AddImage :: "string \<Rightarrow> string \<Rightarrow> Manifest option \<Rightarrow> ExportCoordinator \<Rightarrow> string \<times> ExportCoordinator" where
  "AddImage sessionID localImage manifest ec =
    (let k = ''sess-'' @ sessionID @ ''/pullping:img-'' @ Itoa (int (ec_imgIndex ec)) in
     (k, ec\<lparr>ec_imgIndex := ec_imgIndex ec + 1, ec_imageEntries := AList.update k (manifest, localImage) (ec_imageEntries ec)\<rparr>))"

definition AddLocalOutputSummary :: "string \<Rightarrow> string \<Rightarrow> string \<Rightarrow> ExportCoordinator \<Rightarrow> ExportCoordinator" where
  "AddLocalOutputSummary target dockerTag salt ec = ec\<lparr>ec_localOutputSummary := ec_localOutputSummary ec @ [(target, dockerTag, salt)]\<rparr>"

definition AddArtifactSummary :: "string \<Rightarrow> string \<Rightarrow> string \<Rightarrow> ExportCoordinator \<Rightarrow> ExportCoordinator" where
  "AddArtifactSummary target p salt ec = ec\<lparr>ec_artifactOutputSummary := ec_artifactOutputSummary ec @ [(target, p, salt)]\<rparr>"

definition AddPushedImageSummary :: "string \<Rightarrow> string \<Rightarrow> string \<Rightarrow> bool \<Rightarrow> ExportCoordinator \<Rightarrow> ExportCoordinator" where
  "AddPushedImageSummary target dockerTag salt pushed ec =
    ec\<lparr>ec_pushedImageSummary := ec_pushedImageSummary ec @ [(target, dockerTag, salt, pushed)]\<rparr>"

text \<open>The stable sorts by target.\<close>

definition GetLocalOutputSummary :: "ExportCoordinator \<Rightarrow> (string \<times> string \<times> string) list" where
  "GetLocalOutputSummary ec = sort_key fst (ec_localOutputSummary ec)"

definition GetArtifactSummary :: "ExportCoordinator \<Rightarrow> (string \<times> string \<times> string) list" where
  "GetArtifactSummary ec = sort_key fst (ec_artifactOutputSummary ec)"

definition GetPushedImageSummary :: "ExportCoordinator \<Rightarrow> (string \<times> string \<times> string \<times> bool) list" where
  "GetPushedImageSummary ec = sort_key fst (ec_pushedImageSummary ec)"

section \<open>Items\<close>

record saveImageWaitItem =
  wi_si :: SaveImage
  wi_allowPush :: bool
  wi_doPush :: bool
  wi_localExport :: bool
  wi_target :: string
  wi_stsID :: string
  wi_UseLocalRegistry :: bool
  wi_sessionID :: string

record saveArtifactLocalWaitItem =
  wa_saveLocal :: SaveLocal
  wa_localExport :: bool
  wa_target :: Target_ref
  wa_stsID :: string

datatype wait_item = WImage saveImageWaitItem | WArtifact saveArtifactLocalWaitItem | WState llb

definition newSaveImage :: "SaveImage \<Rightarrow> string \<Rightarrow> string \<Rightarrow> bool \<Rightarrow> string \<Rightarrow> bool \<Rightarrow> bool \<Rightarrow> wait_item" where
  "newSaveImage si target stsID useLocalRegistry sessionID allowPush localExport =
    WImage \<lparr>wi_si = si, wi_allowPush = allowPush, wi_doPush = False, wi_localExport = localExport, wi_target = target,
      wi_stsID = stsID, wi_UseLocalRegistry = useLocalRegistry, wi_sessionID = sessionID\<rparr>"

definition newSaveArtifactLocal :: "SaveLocal \<Rightarrow> Target_ref \<Rightarrow> string \<Rightarrow> bool \<Rightarrow> wait_item" where
  "newSaveArtifactLocal sl target stsID localExport =
    WArtifact \<lparr>wa_saveLocal = sl, wa_localExport = localExport, wa_target = target, wa_stsID = stsID\<rparr>"

fun SetDoSave :: "wait_item \<Rightarrow> wait_item" where
  "SetDoSave (WImage i) = WImage (if si_DockerTag (wi_si i) \<noteq> [] then i\<lparr>wi_localExport := True\<rparr> else i)"
| "SetDoSave (WArtifact i) = WArtifact (i\<lparr>wa_localExport := True\<rparr>)"
| "SetDoSave (WState s) = WState s"

fun SetDoPush :: "wait_item \<Rightarrow> wait_item" where
  "SetDoPush (WImage i) = WImage (if si_DockerTag (wi_si i) \<noteq> [] then i\<lparr>wi_doPush := wi_allowPush i\<rparr> else i)"
| "SetDoPush (WArtifact i) = WArtifact i"
| "SetDoPush (WState s) = WState s"

section \<open>Blocks\<close>

record waitBlock =
  wb_items :: "nat list"
  wb_called :: bool
  wb_pushCalled :: bool
  wb_localExportCalled :: bool

record wstore =
  ws_items :: "wait_item list"
  ws_blocks :: "waitBlock list"

definition empty_waitBlock :: waitBlock where
  "empty_waitBlock = \<lparr>wb_items = [], wb_called = False, wb_pushCalled = False, wb_localExportCalled = False\<rparr>"

definition newWaitBlock :: "wstore \<Rightarrow> nat \<times> wstore" where
  "newWaitBlock ws = (length (ws_blocks ws), ws\<lparr>ws_blocks := ws_blocks ws @ [empty_waitBlock]\<rparr>)"

definition newItem :: "wait_item \<Rightarrow> wstore \<Rightarrow> nat \<times> wstore" where
  "newItem w ws = (length (ws_items ws), ws\<lparr>ws_items := ws_items ws @ [w]\<rparr>)"

text \<open>\<open>seenItems\<close> is the set of \<open>items\<close>.\<close>

definition AddItem :: "nat \<Rightarrow> nat \<Rightarrow> wstore \<Rightarrow> wstore" where
  "AddItem b i ws =
    (let blk = ws_blocks ws ! b in
     if i \<in> set (wb_items blk) then ws
     else ws\<lparr>ws_blocks := (ws_blocks ws)[b := blk\<lparr>wb_items := wb_items blk @ [i]\<rparr>]\<rparr>)"

definition upd_items :: "(wait_item \<Rightarrow> wait_item) \<Rightarrow> nat list \<Rightarrow> wstore \<Rightarrow> wstore" where
  "upd_items f is ws = ws\<lparr>ws_items := foldl (\<lambda>its i. its[i := f (its ! i)]) (ws_items ws) is\<rparr>"

definition SetDoSaves :: "nat \<Rightarrow> wstore \<Rightarrow> wstore" where
  "SetDoSaves b ws = upd_items SetDoSave (wb_items (ws_blocks ws ! b)) ws"

definition SetDoPushes :: "nat \<Rightarrow> wstore \<Rightarrow> wstore" where
  "SetDoPushes b ws = upd_items SetDoPush (wb_items (ws_blocks ws ! b)) ws"

text \<open>The jobs that \<open>Wait\<close> gives to its error group; none when it returns at once.\<close>

datatype job = JSaveImages | JSaveArtifacts | JWaitStates

definition Wait :: "bool \<Rightarrow> bool \<Rightarrow> waitBlock \<Rightarrow> job list \<times> waitBlock" where
  "Wait push localExport wb =
    (let shortCircuit = wb_called wb;
         wb = wb\<lparr>wb_called := True\<rparr>;
         (shortCircuit, wb) = (if push \<and> \<not> wb_pushCalled wb then (False, wb\<lparr>wb_pushCalled := True\<rparr>) else (shortCircuit, wb));
         (shortCircuit, wb) = (if localExport \<and> \<not> wb_localExportCalled wb then (False, wb\<lparr>wb_localExportCalled := True\<rparr>)
                               else (shortCircuit, wb))
     in (if shortCircuit then [] else [JSaveImages] @ (if localExport then [JSaveArtifacts] else []) @ [JWaitStates], wb))"

section \<open>Saving images\<close>

datatype image_error =
    NotAllPlatforms string
  | AlreadyDeclared string
  | NoManifestListTwice string
  | SolveFailed string string
  | PlatformName string
  | DefinedTwice string
  | DefinedTwicePlatform string Platform
  | EntryFailed string

text \<open>The first loop: the images to save, whether a tag has several platforms, and the tags of
  \<open>--no-manifest-list\<close>.\<close>

record selection =
  se_isMulti :: "string \<rightharpoonup> bool"
  se_noManifest :: "string set"
  se_items :: "saveImageWaitItem list"

definition selectImage :: "saveImageWaitItem \<Rightarrow> selection \<Rightarrow> image_error + selection" where
  "selectImage i se =
    (let si = wi_si i; tag = si_DockerTag si in
     if \<not> wi_doPush i \<and> \<not> wi_localExport i then Inr se
     else
       let checked = (case se_isMulti se tag of
           None \<Rightarrow> Inr ()
         | Some hasPlatform \<Rightarrow>
             if si_HasPlatform si \<noteq> hasPlatform then Inl (NotAllPlatforms tag)
             else if \<not> hasPlatform then Inl (AlreadyDeclared tag)
             else if tag \<in> se_noManifest se then Inl (NoManifestListTwice tag)
             else Inr ())
       in rbind checked (\<lambda>_.
         let se = (if si_HasPlatform si then
                     if si_NoManifestList si
                     then se\<lparr>se_noManifest := insert tag (se_noManifest se), se_isMulti := (se_isMulti se)(tag \<mapsto> False)\<rparr>
                     else se\<lparr>se_isMulti := (se_isMulti se)(tag \<mapsto> True)\<rparr>
                   else se\<lparr>se_isMulti := (se_isMulti se)(tag \<mapsto> False)\<rparr>)
         in Inr (se\<lparr>se_items := se_items se @ [i]\<rparr>)))"

fun selectImages :: "saveImageWaitItem list \<Rightarrow> selection \<Rightarrow> image_error + selection" where
  "selectImages [] se = Inr se"
| "selectImages (i # is) se = rbind (selectImage i se) (selectImages is)"

definition no_selection :: selection where
  "no_selection = \<lparr>se_isMulti = Map.empty, se_noManifest = {}, se_items = []\<rparr>"

text \<open>The libraries: solving a state to a reference, the JSON of an image, the name of an image for a
  platform, and the text of a platform.\<close>

record exporter =
  ex_StateToRef :: "llb \<Rightarrow> string + nat option"
  ex_marshal :: "Image option \<Rightarrow> string + string"
  ex_platformName :: "string \<Rightarrow> Platform \<Rightarrow> string + string"
  ex_Format :: "SpecsPlatform \<Rightarrow> string"

text \<open>\<open>PlatformSpecificImageName\<close> with the functions of \<^verbatim>\<open>distribution/reference\<close>.\<close>

definition PlatformSpecificImageName ::
  "(string \<Rightarrow> string + 'r) \<Rightarrow> ('r \<Rightarrow> string option) \<Rightarrow> ('r \<Rightarrow> string \<Rightarrow> string + 'r) \<Rightarrow> ('r \<Rightarrow> string) \<Rightarrow> (SpecsPlatform \<Rightarrow> string) \<Rightarrow>
    string \<Rightarrow> Platform \<Rightarrow> string + string" where
  "PlatformSpecificImageName parse tagOf withTag familiar Format imgName platform =
    (let platformStr = (let s = Platform_String Format platform in if s = [] then ''native'' else s) in
     rbind (parse imgName) (\<lambda>r.
       case tagOf r of
         None \<Rightarrow> Inl ''not tagged''
       | Some tag \<Rightarrow> rbind (withTag r (DockerTagSafe (tag @ ''_'' @ platformStr))) (\<lambda>r2. Inr (familiar r2))))"

record saving =
  sv_gc :: GatewayCrafter
  sv_ec :: ExportCoordinator
  sv_platformImgNames :: "string set"
  sv_singPlatImgNames :: "string set"
  sv_refID :: nat
  sv_tarPrefixes :: "string list"
  sv_tarImages :: "string list"

text \<open>The name under which an image is exported and the check for duplicates.\<close>

definition imageName :: "exporter \<Rightarrow> bool \<Rightarrow> saveImageWaitItem \<Rightarrow> saving \<Rightarrow> image_error + (string \<times> string option \<times> saving)" where
  "imageName ex multi i sv =
    (let si = wi_si i; tag = si_DockerTag si; check = si_CheckDuplicate si \<and> tag \<noteq> [] in
     if multi then
       (case ex_platformName ex tag (si_Platform si) of
          Inl e \<Rightarrow> Inl (PlatformName e)
        | Inr name \<Rightarrow>
            if check \<and> name \<in> sv_platformImgNames sv then Inl (DefinedTwicePlatform tag (si_Platform si))
            else Inr (name, Some (Platform_String (ex_Format ex) (si_Platform si)),
              if check then sv\<lparr>sv_platformImgNames := insert name (sv_platformImgNames sv)\<rparr> else sv))
     else if check \<and> tag \<in> sv_singPlatImgNames sv then Inl (DefinedTwice tag)
     else Inr ([], None, if check then sv\<lparr>sv_singPlatImgNames := insert tag (sv_singPlatImgNames sv)\<rparr> else sv))"

definition addEntry_wb ::
  "exporter \<Rightarrow> nat option \<Rightarrow> string \<Rightarrow> bool \<Rightarrow> bool \<Rightarrow> Image option \<Rightarrow> string option \<Rightarrow> saving \<Rightarrow> image_error + (string \<times> saving)" where
  "addEntry_wb ex ref name push insecure img plat sv =
    (case AddPushImageEntry (ex_marshal ex) ref (sv_refID sv) name push insecure img plat (sv_gc sv) of
       Inl e \<Rightarrow> Inl (EntryFailed e)
     | Inr (refPrefix, gc) \<Rightarrow> Inr (refPrefix, sv\<lparr>sv_gc := gc, sv_refID := sv_refID sv + 1\<rparr>))"

text \<open>The export to the local Docker instance.\<close>

definition exportLocal :: "exporter \<Rightarrow> bool \<Rightarrow> nat option \<Rightarrow> string \<Rightarrow> string \<Rightarrow> saveImageWaitItem \<Rightarrow> saving \<Rightarrow> image_error + saving" where
  "exportLocal ex multi ref refPrefix platformImgName i sv =
    (let si = wi_si i; meta = (\<lambda>k v sv. sv\<lparr>sv_gc := AddMeta k v (sv_gc sv)\<rparr>);
         summary = (\<lambda>sv. sv\<lparr>sv_ec := AddLocalOutputSummary (wi_target i) (si_DockerTag si) (wi_stsID i) (sv_ec sv)\<rparr>) in
     if multi then
       rbind (addEntry_wb ex ref platformImgName False False (si_Image si) None sv) (\<lambda>(refPrefix, sv).
         let (imageID, ec) = AddImage (wi_sessionID i) (si_DockerTag si) (Some \<lparr>mf_Platform = si_Platform si, mf_ImageName = platformImgName\<rparr>) (sv_ec sv);
             sv = sv\<lparr>sv_ec := ec\<rparr>;
             sv = (if wi_UseLocalRegistry i then meta (refPrefix @ ''/export-image-local-registry'') imageID sv
                   else (meta (refPrefix @ ''/export-image-manifest-key'') imageID (meta (refPrefix @ ''/export-image'') ''true'' sv))
                     \<lparr>sv_tarPrefixes := sv_tarPrefixes sv @ [refPrefix], sv_tarImages := sv_tarImages sv @ [imageID]\<rparr>)
         in Inr (summary sv))
     else if wi_UseLocalRegistry i then
       let (imageID, ec) = AddImage (wi_sessionID i) (si_DockerTag si) None (sv_ec sv) in
       Inr (summary (meta (refPrefix @ ''/export-image-local-registry'') imageID (sv\<lparr>sv_ec := ec\<rparr>)))
     else Inr (summary (meta (refPrefix @ ''/export-image'') ''true'' sv)))"

definition saveOne :: "exporter \<Rightarrow> (string \<rightharpoonup> bool) \<Rightarrow> saveImageWaitItem \<Rightarrow> saving \<Rightarrow> image_error + saving" where
  "saveOne ex isMulti i sv =
    (let si = wi_si i; tag = si_DockerTag si; multi = (isMulti tag = Some True) in
     case ex_StateToRef ex (si_State si) of
       Inl e \<Rightarrow> Inl (SolveFailed tag e)
     | Inr ref \<Rightarrow>
         rbind (imageName ex multi i sv) (\<lambda>(platformImgName, platformBytes, sv).
           rbind (addEntry_wb ex ref tag (wi_doPush i) (si_InsecurePush si) (si_Image si) platformBytes sv) (\<lambda>(refPrefix, sv).
             if wi_localExport i then exportLocal ex multi ref refPrefix platformImgName i sv else Inr sv)))"

fun saveLoop :: "exporter \<Rightarrow> (string \<rightharpoonup> bool) \<Rightarrow> saveImageWaitItem list \<Rightarrow> saving \<Rightarrow> image_error + saving" where
  "saveLoop ex isMulti [] sv = Inr sv"
| "saveLoop ex isMulti (i # is) sv = rbind (saveOne ex isMulti i sv) (saveLoop ex isMulti is)"

definition start_saving :: "ExportCoordinator \<Rightarrow> saving" where
  "start_saving ec = \<lparr>sv_gc = NewGatewayCrafter, sv_ec = ec, sv_platformImgNames = {}, sv_singPlatImgNames = {}, sv_refID = 0,
     sv_tarPrefixes = [], sv_tarImages = []\<rparr>"

text \<open>The export request, or nothing when there is no image to save.\<close>

definition saveImages :: "exporter \<Rightarrow> saveImageWaitItem list \<Rightarrow> ExportCoordinator \<Rightarrow> image_error + (GatewayCrafter option \<times> ExportCoordinator)" where
  "saveImages ex is ec =
    rbind (selectImages is no_selection) (\<lambda>se.
      if se_items se = [] then Inr (None, ec)
      else rbind (saveLoop ex (se_isMulti se) (se_items se) (start_saving ec)) (\<lambda>sv.
        let gc = (if sv_tarPrefixes sv = [] then sv_gc sv
                  else foldl (\<lambda>gc p. AddMeta (p @ ''/export-image-wait-for'') (Join (sv_tarImages sv) '' '') gc) (sv_gc sv) (sv_tarPrefixes sv))
        in Inr (Some gc, sv_ec sv)))"

section \<open>Saving artifacts\<close>

record saveArtifactLocalEntry =
  ae_artifact :: Artifact
  ae_artifactDir :: string
  ae_destPath :: string
  ae_salt :: string
  ae_ifExists :: bool

datatype artifact_error = ArtifactSolve string | ArtifactPanic

record artifacts =
  as_gc :: GatewayCrafter
  as_whitelist :: "string set"
  as_entries :: "saveArtifactLocalEntry list"

text \<open>\<open>dirID\<close> gives the random identifier of an entry, \<open>outDir\<close> is the directory for output. The index of
  an item in the block is its reference.\<close>

fun saveArtifactLoop ::
  "(saveArtifactLocalWaitItem \<Rightarrow> string + nat option) \<Rightarrow> (nat \<Rightarrow> string) \<Rightarrow> string \<Rightarrow> nat \<Rightarrow> wait_item list \<Rightarrow> artifacts \<Rightarrow> artifact_error + artifacts" where
  "saveArtifactLoop toRef dirID outDir refID [] as = Inr as"
| "saveArtifactLoop toRef dirID outDir refID (w # ws) as =
    (case w of
       WArtifact i \<Rightarrow>
         (case toRef i of
            Inl e \<Rightarrow> Inl (ArtifactSolve e)
          | Inr ref \<Rightarrow>
              let sl = wa_saveLocal i; artifact = \<lparr>a_Target = wa_target i, a_Artifact = sl_ArtifactPath sl\<rparr>;
                  as = \<lparr>as_gc = AddSaveArtifactLocal (dirID refID) ref refID (Artifact_String artifact) (sl_ArtifactPath sl) (sl_DestPath sl) (as_gc as),
                        as_whitelist = insert (sl_DestPath sl) (as_whitelist as),
                        as_entries = as_entries as @ [\<lparr>ae_artifact = artifact, ae_artifactDir = path_Join outDir (''index-'' @ dirID refID),
                          ae_destPath = sl_DestPath sl, ae_salt = wa_stsID i, ae_ifExists = sl_IfExists sl\<rparr>]\<rparr>
              in saveArtifactLoop toRef dirID outDir (refID + 1) ws as)
     | _ \<Rightarrow> saveArtifactLoop toRef dirID outDir (refID + 1) ws as)"

text \<open>What is asked of the gateway and which entries are then copied; nothing when there is no artifact.\<close>

definition saveArtifactLocal ::
  "(saveArtifactLocalWaitItem \<Rightarrow> string + nat option) \<Rightarrow> (nat \<Rightarrow> string) \<Rightarrow> string \<Rightarrow> wait_item list \<Rightarrow> string set \<Rightarrow>
    artifact_error + (GatewayCrafter option \<times> saveArtifactLocalEntry list \<times> string set)" where
  "saveArtifactLocal toRef dirID outDir ws whitelist =
    rbind (saveArtifactLoop toRef dirID outDir 0 ws \<lparr>as_gc = NewGatewayCrafter, as_whitelist = whitelist, as_entries = []\<rparr>) (\<lambda>as.
      if gc_refs (as_gc as) = [] then
        if gc_meta (as_gc as) \<noteq> [] then Inl ArtifactPanic else Inr (None, [], as_whitelist as)
      else Inr (Some (as_gc as), as_entries as, as_whitelist as))"

definition waitStates :: "wait_item list \<Rightarrow> llb list" where
  "waitStates ws = concat (map (\<lambda>w. case w of WState s \<Rightarrow> [s] | _ \<Rightarrow> []) ws)"


end
