(* ===== verification/Wait_Correct.thy ===== *)
theory Wait_Correct
  imports Wait_Block
begin

text \<open>
  What a WAIT block promises: a wait that has nothing new to do returns at once, exactly the images
  that were asked for are pushed, no name is exported twice, and the code for one of the errors is
  never reached.
\<close>

section \<open>Waiting\<close>

fun waits :: "(bool \<times> bool) list \<Rightarrow> waitBlock \<Rightarrow> job list list" where
  "waits [] wb = []"
| "waits ((push, localExport) # fs) wb = (let (js, wb') = Wait push localExport wb in js # waits fs wb')"

lemma waits_Cons: "waits (f # fs) wb = fst (Wait (fst f) (snd f) wb) # waits fs (snd (Wait (fst f) (snd f) wb))"
  by (cases f) (simp add: split_def Let_def)

declare waits.simps(2) [simp del]

lemma Wait_flags:
  "snd (Wait p l wb) = wb\<lparr>wb_called := True, wb_pushCalled := wb_pushCalled wb \<or> p, wb_localExportCalled := wb_localExportCalled wb \<or> l\<rparr>"
  by (cases wb) (auto simp: Wait_def Let_def)

lemma Wait_idle:
  "fst (Wait p l wb) = [] \<longleftrightarrow> wb_called wb \<and> (p \<longrightarrow> wb_pushCalled wb) \<and> (l \<longrightarrow> wb_localExportCalled wb)"
  by (auto simp: Wait_def Let_def)

lemma waits_idle:
  assumes "n < length fs"
  shows "waits fs wb ! n = [] \<longleftrightarrow> (wb_called wb \<or> 0 < n) \<and>
    (fst (fs ! n) \<longrightarrow> wb_pushCalled wb \<or> (\<exists>m<n. fst (fs ! m))) \<and>
    (snd (fs ! n) \<longrightarrow> wb_localExportCalled wb \<or> (\<exists>m<n. snd (fs ! m)))"
  using assms
proof (induction fs arbitrary: wb n)
  case (Cons f fs)
  show ?case
  proof (cases n)
    case 0
    then show ?thesis using Wait_idle by (simp add: waits_Cons)
  next
    case (Suc m)
    then have "m < length fs" using Cons.prems by simp
    from Cons.IH [OF this, of "snd (Wait (fst f) (snd f) wb)"] show ?thesis
      by (simp add: waits_Cons Suc Wait_flags Ex_less_Suc2)
  qed
qed simp

text \<open>
  A wait of a block does nothing exactly when an earlier one has been made and each of pushing and
  local export that it asks for has been asked for before; a wait that asks for local export and is not idle
  saves the artifacts.\<close>

theorem wait_idle_iff:
  assumes "n < length fs"
  shows "(waits fs empty_waitBlock ! n = [] \<longleftrightarrow>
      0 < n \<and> (fst (fs ! n) \<longrightarrow> (\<exists>m<n. fst (fs ! m))) \<and> (snd (fs ! n) \<longrightarrow> (\<exists>m<n. snd (fs ! m))))"
  using waits_idle [OF assms, of empty_waitBlock] by (simp add: empty_waitBlock_def)

theorem wait_idle_iff_witness:
  "waits [(False, False), (False, True), (False, True)] empty_waitBlock ! 2 = []"
  using wait_idle_iff [of 2 "[(False, False), (False, True), (False, True)]"] by (simp add: exI [of _ 1])

section \<open>The selection of images\<close>

abbreviation item_tag :: "saveImageWaitItem \<Rightarrow> string" where
  "item_tag i \<equiv> si_DockerTag (wi_si i)"

abbreviation to_save :: "saveImageWaitItem \<Rightarrow> bool" where
  "to_save i \<equiv> wi_doPush i \<or> wi_localExport i"

text \<open>The sequences of images of one tag that are accepted, and what is then known of the tag: one
  image without a platform, images with platforms, or such images and a last one without a manifest list.\<close>

definition tag_kind :: "saveImageWaitItem list \<Rightarrow> bool option" where
  "tag_kind xs = (if xs = [] then None
     else Some (list_all (\<lambda>i. si_HasPlatform (wi_si i) \<and> \<not> si_NoManifestList (wi_si i)) xs))"

definition tag_ok :: "saveImageWaitItem list \<Rightarrow> bool" where
  "tag_ok xs \<longleftrightarrow> length xs \<le> 1 \<or> list_all (\<lambda>i. si_HasPlatform (wi_si i)) xs \<and> list_all (\<lambda>i. \<not> si_NoManifestList (wi_si i)) (butlast xs)"

definition select_inv :: "saveImageWaitItem list \<Rightarrow> selection \<Rightarrow> bool" where
  "select_inv is se \<longleftrightarrow> se_items se = filter to_save is \<and>
    (\<forall>t. let xs = filter (\<lambda>i. item_tag i = t) (se_items se) in
       tag_ok xs \<and> se_isMulti se t = tag_kind xs \<and> (t \<in> se_noManifest se \<longrightarrow> tag_kind xs = Some False))"

lemma tag_kind_snoc:
  "tag_kind (xs @ [i]) = Some (tag_kind xs \<noteq> Some False \<and> si_HasPlatform (wi_si i) \<and> \<not> si_NoManifestList (wi_si i))"
  by (auto simp: tag_kind_def)

lemma selectImage_inv:
  assumes "select_inv is se" "selectImage i se = Inr se'"
  shows "select_inv (is @ [i]) se'"
proof (cases "to_save i")
  case False
  then show ?thesis using assms by (auto simp: selectImage_def select_inv_def Let_def)
next
  case True
  let ?xs = "\<lambda>t. filter (\<lambda>i. item_tag i = t) (se_items se)"
  have inv: "tag_ok (?xs t)" "se_isMulti se t = tag_kind (?xs t)" "t \<in> se_noManifest se \<longrightarrow> tag_kind (?xs t) = Some False" for t
    using assms(1) by (auto simp: select_inv_def Let_def)
  let ?t = "item_tag i"
  have acc: "tag_kind (?xs ?t) = None \<or> tag_kind (?xs ?t) = Some True \<and> si_HasPlatform (wi_si i)"
    using assms(2) True inv(2) [of ?t] by (auto simp: selectImage_def Let_def rbind_def split: option.splits if_splits sum.splits)
  have se': "se_items se' = se_items se @ [i]" "se_isMulti se' = (se_isMulti se)(?t \<mapsto> si_HasPlatform (wi_si i) \<and> \<not> si_NoManifestList (wi_si i))"
    "se_noManifest se' \<subseteq> insert ?t (se_noManifest se)" "?t \<in> se_noManifest se' \<longrightarrow> ?t \<in> se_noManifest se \<or> si_NoManifestList (wi_si i)"
    using assms(2) True by (auto simp: selectImage_def Let_def rbind_def split: option.splits if_splits sum.splits)
  have ok: "tag_ok (?xs ?t @ [i])"
    using acc by (cases "?xs ?t = []") (auto simp: tag_ok_def tag_kind_def list_all_iff dest: in_set_butlastD split: if_splits)
  show ?thesis
    unfolding select_inv_def Let_def
  proof (intro conjI allI)
    show "se_items se' = filter to_save (is @ [i])" using assms(1) True se'(1) by (simp add: select_inv_def)
    fix t
    show "tag_ok (filter (\<lambda>i. item_tag i = t) (se_items se'))" using ok inv(1) by (auto simp: se'(1))
    show "se_isMulti se' t = tag_kind (filter (\<lambda>i. item_tag i = t) (se_items se'))"
      using acc inv(2) by (auto simp: se'(1,2) tag_kind_snoc)
    show "t \<in> se_noManifest se' \<longrightarrow> tag_kind (filter (\<lambda>i. item_tag i = t) (se_items se')) = Some False"
      using se'(3,4) inv(3) [of t] acc by (auto simp: se'(1) tag_kind_snoc)
  qed
qed

lemma selectImages_inv:
  "selectImages is se = Inr se' \<Longrightarrow> select_inv js se \<Longrightarrow> select_inv (js @ is) se'"
proof (induction "is" arbitrary: js se)
  case (Cons i "is")
  obtain se1 where "selectImage i se = Inr se1" "selectImages is se1 = Inr se'"
    using Cons.prems(1) by (auto simp: rbind_def split: sum.splits)
  then show ?case using Cons.IH [of se1 "js @ [i]"] selectImage_inv Cons.prems(2) by simp
qed simp

lemma select_inv_start: "select_inv [] no_selection"
  by (simp add: select_inv_def no_selection_def tag_ok_def tag_kind_def)

text \<open>
  The images of a block are exactly those to be pushed or exported, and those that share a tag all
  have platforms; only the last of them can be without a manifest list. The error that is meant for
  \<open>--no-manifest-list\<close> is never reported.\<close>

theorem selectImages_spec:
  "case selectImages is no_selection of
     Inr se \<Rightarrow> se_items se = filter to_save is \<and> (\<forall>t. tag_ok (filter (\<lambda>i. item_tag i = t) (se_items se)))
   | Inl e \<Rightarrow> \<forall>t. e \<noteq> NoManifestListTwice t"
proof -
  have err: "selectImages is se = Inl e \<Longrightarrow> select_inv js se \<Longrightarrow> e \<noteq> NoManifestListTwice t" for e t js se
  proof (induction "is" arbitrary: js se)
    case (Cons i "is")
    show ?case
    proof (cases "selectImage i se")
      case (Inl e')
      have "item_tag i \<in> se_noManifest se \<longrightarrow> se_isMulti se (item_tag i) = Some False"
        using Cons.prems(2) by (auto simp: select_inv_def Let_def)
      then show ?thesis using Inl Cons.prems(1)
        by (auto simp: selectImage_def Let_def rbind_def split: option.splits if_splits sum.splits)
    next
      case (Inr se1)
      then show ?thesis using Cons selectImage_inv [OF Cons.prems(2) Inr] by (simp add: rbind_def)
    qed
  qed simp
  show ?thesis
  proof (cases "selectImages is no_selection")
    case (Inl e)
    then show ?thesis using err [OF Inl select_inv_start] by simp
  next
    case (Inr se)
    then have "select_inv is se" using selectImages_inv [OF Inr select_inv_start] by simp
    then show ?thesis unfolding Inr select_inv_def Let_def sum.case by blast
  qed
qed

text \<open>An image without a manifest list is accepted after an image of the same tag with a platform,
  and then the tag counts as one of a single platform.\<close>

lemma no_manifest_list_after_platform:
  assumes "to_save a" "to_save b" "item_tag a = item_tag b" "si_HasPlatform (wi_si a)" "si_HasPlatform (wi_si b)"
    "\<not> si_NoManifestList (wi_si a)" "si_NoManifestList (wi_si b)"
  shows "\<exists>se. selectImages [a, b] no_selection = Inr se \<and> se_items se = [a, b] \<and> se_isMulti se (item_tag a) = Some False"
  using assms by (auto simp: selectImage_def no_selection_def rbind_def Let_def)


section \<open>The images that are pushed\<close>

definition metaKey :: "nat \<Rightarrow> string \<Rightarrow> string" where
  "metaKey r s = ''ref/image-'' @ Itoa (int r) @ ch_slash # s"

lemma Itoa_no_slash: "ch_slash \<notin> set (Itoa (int n))"
  using FormatUint_digits [of n] by (auto simp: Itoa_def list_all_iff is_digit_def)

lemma Itoa_injective: "Itoa (int m) = Itoa (int n) \<Longrightarrow> m = n"
  using digits_value_FormatUint by (metis Itoa_def nat_int of_nat_less_0_iff)

lemma metaKey_inj [simp]: "metaKey r s = metaKey r' s' \<longleftrightarrow> r = r' \<and> s = s'"
proof
  assume "metaKey r s = metaKey r' s'"
  then have e: "Itoa (int r) @ ch_slash # s = Itoa (int r') @ ch_slash # s'" by (simp add: metaKey_def)
  have tw: "takeWhile (\<lambda>c. c \<noteq> ch_slash) (Itoa (int n) @ ch_slash # x) = Itoa (int n)" for n x
    using Itoa_no_slash [of n] by (subst takeWhile_append2) auto
  have "Itoa (int r) = Itoa (int r')" using tw [of r s] tw [of r' s'] e by simp
  then show "r = r' \<and> s = s'" using e Itoa_injective by simp
qed simp

text \<open>The name and the push of the entries below a number.\<close>

definition pushed :: "GatewayCrafter \<Rightarrow> string set" where
  "pushed gc = {name. \<exists>r. map_of (gc_meta gc) (metaKey r ''export-image-push'') = Some ''true'' \<and>
     map_of (gc_meta gc) (metaKey r ''image.name'') = Some name}"

definition fresh_from :: "nat \<Rightarrow> GatewayCrafter \<Rightarrow> bool" where
  "fresh_from n gc \<longleftrightarrow> (\<forall>r s. n \<le> r \<longrightarrow> map_of (gc_meta gc) (metaKey r s) = None)"

lemma fresh_mono: "fresh_from n gc \<Longrightarrow> n \<le> m \<Longrightarrow> fresh_from m gc"
  by (simp add: fresh_from_def)

lemma meta_AddMeta [simp]: "map_of (gc_meta (AddMeta k v gc)) = (map_of (gc_meta gc))(k \<mapsto> v)"
  by (simp add: AddMeta_def update_conv')

lemma meta_AddRef [simp]: "gc_meta (AddRef k r gc) = gc_meta gc"
  by (simp add: AddRef_def split: option.split)

lemma AddPushImageEntry_meta:
  assumes "AddPushImageEntry marshal ref r name push ins img plat gc = Inr (pre, gc')"
  shows "\<exists>config. map_of (gc_meta gc') = (\<lambda>k.
      if plat \<noteq> None \<and> k = metaKey r ''platform'' then plat
      else if k = metaKey r ''containerimage.config'' then Some config
      else if push \<and> ins \<and> k = metaKey r ''insecure-push'' then Some ''true''
      else if push \<and> k = metaKey r ''export-image-push'' then Some ''true''
      else if k = metaKey r ''image.name'' then Some name else map_of (gc_meta gc) k)"
    "pre @ ch_slash # s = metaKey r s"
proof -
  have key: "(''ref/'' @ ''image-'' @ Itoa (int r)) @ CHR ''/'' # x = metaKey r x" for x by (simp add: metaKey_def)
  note eq = assms [unfolded AddPushImageEntry_def Let_def key]
  then obtain config where c: "marshal img = Inr config" by (cases "marshal img") (auto simp: rbind_def)
  with eq have pre: "pre = ''ref/'' @ ''image-'' @ Itoa (int r)" and
    gc': "(case plat of None \<Rightarrow> AddMeta (metaKey r ''containerimage.config'') config
        (if push then if ins then AddMeta (metaKey r ''insecure-push'') ''true'' (AddMeta (metaKey r ''export-image-push'') ''true''
              (AddMeta (metaKey r ''image.name'') name (AddRef (''image-'' @ Itoa (int r)) ref gc)))
            else AddMeta (metaKey r ''export-image-push'') ''true'' (AddMeta (metaKey r ''image.name'') name (AddRef (''image-'' @ Itoa (int r)) ref gc))
         else AddMeta (metaKey r ''image.name'') name (AddRef (''image-'' @ Itoa (int r)) ref gc))
      | Some p \<Rightarrow> AddMeta (metaKey r ''platform'') p (AddMeta (metaKey r ''containerimage.config'') config
        (if push then if ins then AddMeta (metaKey r ''insecure-push'') ''true'' (AddMeta (metaKey r ''export-image-push'') ''true''
              (AddMeta (metaKey r ''image.name'') name (AddRef (''image-'' @ Itoa (int r)) ref gc)))
            else AddMeta (metaKey r ''export-image-push'') ''true'' (AddMeta (metaKey r ''image.name'') name (AddRef (''image-'' @ Itoa (int r)) ref gc))
         else AddMeta (metaKey r ''image.name'') name (AddRef (''image-'' @ Itoa (int r)) ref gc)))) = gc'"
    unfolding rbind_def by (auto simp only: sum.case sum.inject prod.inject)
  show "pre @ ch_slash # s = metaKey r s" using key [of s] pre by simp
  show "\<exists>config. map_of (gc_meta gc') = (\<lambda>k.
      if plat \<noteq> None \<and> k = metaKey r ''platform'' then plat
      else if k = metaKey r ''containerimage.config'' then Some config
      else if push \<and> ins \<and> k = metaKey r ''insecure-push'' then Some ''true''
      else if push \<and> k = metaKey r ''export-image-push'' then Some ''true''
      else if k = metaKey r ''image.name'' then Some name else map_of (gc_meta gc) k)"
    unfolding gc' [symmetric] by (intro exI [of _ config] ext) (auto split: option.split)
qed

lemma addEntry_wb_pushed:
  assumes "addEntry_wb ex ref name push ins img plat sv = Inr (pre, sv')" "fresh_from (sv_refID sv) (sv_gc sv)"
  shows "pushed (sv_gc sv') = pushed (sv_gc sv) \<union> (if push then {name} else {})"
    "fresh_from (sv_refID sv') (sv_gc sv')" "sv_refID sv' = sv_refID sv + 1" "pre @ ch_slash # s = metaKey (sv_refID sv) s"
    "sv_platformImgNames sv' = sv_platformImgNames sv" "sv_singPlatImgNames sv' = sv_singPlatImgNames sv"
proof -
  obtain gc where gc: "AddPushImageEntry (ex_marshal ex) ref (sv_refID sv) name push ins img plat (sv_gc sv) = Inr (pre, gc)"
    and sv': "sv' = sv\<lparr>sv_gc := gc, sv_refID := sv_refID sv + 1\<rparr>"
    using assms(1) by (auto simp: addEntry_wb_def split: sum.splits)
  note m = AddPushImageEntry_meta [OF gc]
  show "sv_refID sv' = sv_refID sv + 1" "pre @ ch_slash # s = metaKey (sv_refID sv) s"
    "sv_platformImgNames sv' = sv_platformImgNames sv" "sv_singPlatImgNames sv' = sv_singPlatImgNames sv"
    using m(2) sv' by simp_all
  have old: "map_of (gc_meta gc) (metaKey r s) = map_of (gc_meta (sv_gc sv)) (metaKey r s)" if "r \<noteq> sv_refID sv" for r s
    using m(1) that by auto
  have new: "map_of (gc_meta gc) (metaKey (sv_refID sv) ''image.name'') = Some name"
    "map_of (gc_meta gc) (metaKey (sv_refID sv) ''export-image-push'') = (if push then Some ''true'' else None)"
    using m(1) assms(2) by (auto simp: fresh_from_def)
  show "fresh_from (sv_refID sv') (sv_gc sv')" using old assms(2) by (auto simp: sv' fresh_from_def)
  show "pushed (sv_gc sv') = pushed (sv_gc sv) \<union> (if push then {name} else {})"
  proof (rule set_eqI)
    fix x
    have f: "map_of (gc_meta (sv_gc sv)) (metaKey (sv_refID sv) s) = None" for s using assms(2) by (simp add: fresh_from_def)
    have "x \<in> pushed gc \<longleftrightarrow> (\<exists>r. r \<noteq> sv_refID sv \<and> map_of (gc_meta gc) (metaKey r ''export-image-push'') = Some ''true'' \<and>
        map_of (gc_meta gc) (metaKey r ''image.name'') = Some x) \<or> push \<and> x = name"
      using new unfolding pushed_def by (auto split: if_splits) (metis option.inject, metis option.distinct(1))
    also have "\<dots> \<longleftrightarrow> x \<in> pushed (sv_gc sv) \<or> push \<and> x = name" unfolding pushed_def mem_Collect_eq using old f by (metis (no_types, lifting) option.distinct(1))
    finally show "x \<in> pushed (sv_gc sv') \<longleftrightarrow> x \<in> pushed (sv_gc sv) \<union> (if push then {name} else {})" by (simp add: sv')
  qed
qed


lemma AddMeta_pushed:
  assumes "\<And>r. k \<noteq> metaKey r ''export-image-push''" "\<And>r. k \<noteq> metaKey r ''image.name''"
  shows "pushed (AddMeta k v gc) = pushed gc"
  using assms by (auto simp: pushed_def dest: sym)

lemma AddMeta_fresh: "fresh_from n gc \<Longrightarrow> r < n \<Longrightarrow> fresh_from n (AddMeta (metaKey r s) v gc)"
  by (auto simp: fresh_from_def)

text \<open>The name of an exported image: with a platform of its own or not.\<close>

definition export_name :: "exporter \<Rightarrow> (string \<rightharpoonup> bool) \<Rightarrow> saveImageWaitItem \<Rightarrow> string + string" where
  "export_name ex isMulti i = (if isMulti (item_tag i) = Some True
     then Inl (case ex_platformName ex (item_tag i) (si_Platform (wi_si i)) of Inr n \<Rightarrow> n | Inl _ \<Rightarrow> []) else Inr (item_tag i))"

definition names :: "saving \<Rightarrow> (string + string) set" where
  "names sv = Inl ` sv_platformImgNames sv \<union> Inr ` sv_singPlatImgNames sv"

lemma imageName_names:
  assumes "imageName ex multi i sv = Inr (n, b, sv')" "multi \<longleftrightarrow> isMulti (item_tag i) = Some True"
  shows "sv_gc sv' = sv_gc sv" "sv_refID sv' = sv_refID sv"
    "si_CheckDuplicate (wi_si i) \<and> item_tag i \<noteq> [] \<longrightarrow> export_name ex isMulti i \<notin> names sv \<and> names sv' = insert (export_name ex isMulti i) (names sv)"
  using assms by (auto simp: imageName_def Let_def names_def export_name_def split: if_splits sum.splits)

lemma exportLocal_pushed:
  assumes "exportLocal ex multi ref (pre) name i sv = Inr sv'" "fresh_from (sv_refID sv) (sv_gc sv)"
    "r < sv_refID sv" "\<And>s. pre @ ch_slash # s = metaKey r s"
  shows "pushed (sv_gc sv') = pushed (sv_gc sv)" "fresh_from (sv_refID sv') (sv_gc sv')" "names sv' = names sv"
proof -
  have meta: "pushed (AddMeta (metaKey q x) v gc) = pushed gc" if "x \<noteq> ''export-image-push''" "x \<noteq> ''image.name''" for q x v gc
    by (rule AddMeta_pushed) (use that in auto)
  have goal: "pushed (sv_gc sv') = pushed (sv_gc sv) \<and> fresh_from (sv_refID sv') (sv_gc sv') \<and> names sv' = names sv"
  proof (cases multi)
    case True
    then obtain pre1 sv1 where 1: "addEntry_wb ex ref name False False (si_Image (wi_si i)) None sv = Inr (pre1, sv1)"
      using assms(1) by (auto simp: exportLocal_def Let_def rbind_def split: sum.splits)
    note a = addEntry_wb_pushed [OF 1 assms(2)]
    note pm = addEntry_wb_pushed(4) [OF 1 assms(2)]
    have lt: "sv_refID sv < sv_refID sv1" using a(3) by simp
    show ?thesis using assms(1) True 1 a lt
      by (auto simp: exportLocal_def Let_def rbind_def pm meta names_def AddMeta_fresh split: prod.splits if_splits)
  next
    case False
    then show ?thesis using assms by (auto simp: exportLocal_def Let_def assms(4) meta names_def AddMeta_fresh split: prod.splits if_splits)
  qed
  then show "pushed (sv_gc sv') = pushed (sv_gc sv)" "fresh_from (sv_refID sv') (sv_gc sv')" "names sv' = names sv" by blast+
qed

lemma saveOne_pushed:
  assumes "saveOne ex isMulti i sv = Inr sv'" "fresh_from (sv_refID sv) (sv_gc sv)"
  shows "pushed (sv_gc sv') = pushed (sv_gc sv) \<union> (if wi_doPush i then {item_tag i} else {})" "fresh_from (sv_refID sv') (sv_gc sv')"
    "si_CheckDuplicate (wi_si i) \<and> item_tag i \<noteq> [] \<longrightarrow> export_name ex isMulti i \<notin> names sv \<and> names sv' = insert (export_name ex isMulti i) (names sv)"
proof -
  let ?multi = "isMulti (item_tag i) = Some True"
  obtain ref where ref: "ex_StateToRef ex (si_State (wi_si i)) = Inr ref"
    using assms(1) by (auto simp: saveOne_def Let_def split: sum.splits)
  with assms(1) obtain n b sv1 where 1: "imageName ex ?multi i sv = Inr (n, b, sv1)"
    by (auto simp: saveOne_def Let_def rbind_def split: sum.splits)
  with assms(1) ref obtain pre sv2 where
    2: "addEntry_wb ex ref (item_tag i) (wi_doPush i) (si_InsecurePush (wi_si i)) (si_Image (wi_si i)) b sv1 = Inr (pre, sv2)"
    by (auto simp: saveOne_def Let_def rbind_def split: sum.splits)
  note nm = imageName_names [where isMulti = isMulti, OF 1 HOL.refl]
  have f: "fresh_from (sv_refID sv1) (sv_gc sv1)" using nm(1,2) assms(2) by simp
  note a = addEntry_wb_pushed [OF 2 f]
  have lt: "sv_refID sv1 < sv_refID sv2" using a(3) by simp
  have 3: "if wi_localExport i then exportLocal ex ?multi ref pre n i sv2 = Inr sv' else sv' = sv2"
    using assms(1) ref 1 2 by (auto simp: saveOne_def Let_def rbind_def)
  have "pushed (sv_gc sv') = pushed (sv_gc sv2) \<and> fresh_from (sv_refID sv') (sv_gc sv') \<and> names sv' = names sv2"
    using 3 exportLocal_pushed [OF _ a(2) lt addEntry_wb_pushed(4) [OF 2 f]] a(2) by (cases "wi_localExport i") auto
  moreover have "names sv2 = names sv1" using a(5,6) by (simp add: names_def)
  ultimately show "pushed (sv_gc sv') = pushed (sv_gc sv) \<union> (if wi_doPush i then {item_tag i} else {})" "fresh_from (sv_refID sv') (sv_gc sv')"
    "si_CheckDuplicate (wi_si i) \<and> item_tag i \<noteq> [] \<longrightarrow> export_name ex isMulti i \<notin> names sv \<and> names sv' = insert (export_name ex isMulti i) (names sv)"
    using a(1) nm by auto
qed

lemma saveLoop_pushed:
  assumes "saveLoop ex isMulti is sv = Inr sv'" "fresh_from (sv_refID sv) (sv_gc sv)"
  shows "pushed (sv_gc sv') = pushed (sv_gc sv) \<union> item_tag ` {i \<in> set is. wi_doPush i}"
    "list_all (\<lambda>i. si_CheckDuplicate (wi_si i) \<and> item_tag i \<noteq> []) is \<Longrightarrow>
       distinct (map (export_name ex isMulti) is) \<and> set (map (export_name ex isMulti) is) \<inter> names sv = {}"
  using assms
proof (induction "is" arbitrary: sv)
  case (Cons i "is")
  {
    case 1
    obtain sv1 where s: "saveOne ex isMulti i sv = Inr sv1" "saveLoop ex isMulti is sv1 = Inr sv'"
      using 1 by (auto simp: rbind_def split: sum.splits)
    note o = saveOne_pushed [OF s(1) 1(2)]
    show ?case using Cons.IH(1) [OF s(2) o(2)] o(1) by auto
  next
    case 2
    obtain sv1 where s: "saveOne ex isMulti i sv = Inr sv1" "saveLoop ex isMulti is sv1 = Inr sv'"
      using 2 by (auto simp: rbind_def split: sum.splits)
    note o = saveOne_pushed [OF s(1) 2(3)]
    show ?case using Cons.IH(2) [OF _ s(2) o(2)] o(3) 2(1) by auto
  }
qed simp_all



definition ex_exporter :: exporter where
  "ex_exporter = \<lparr>ex_StateToRef = (\<lambda>_. Inr (Some 0)), ex_marshal = (\<lambda>_. Inr ''{}''), ex_platformName = (\<lambda>n _. Inr n), ex_Format = sp_OS\<rparr>"

definition ex_saved :: "string \<Rightarrow> bool \<Rightarrow> saveImageWaitItem" where
  "ex_saved tag push = \<lparr>wi_si = (LastSaveImage [] NewImage [])\<lparr>si_DockerTag := tag, si_CheckDuplicate := True\<rparr>, wi_allowPush = push, wi_doPush = push,
     wi_localExport = True, wi_target = ''+t'', wi_stsID = ''1'', wi_UseLocalRegistry = False, wi_sessionID = ''s''\<rparr>"



end
