(* ===== verification/Converter_State.thy ===== *)
theory Converter_State
  imports Wait_Block Var_Correct Target_Dedup Cmd_Opts Result_State
begin

text \<open>
  The converter of \<^verbatim>\<open>earthfile2llb/converter.go\<close>, first part: its state and the commands that change the
  image, the variables and the caches of one target. A command is a method that returns an error or
  not and leaves what it did in place. What is shared between converters (wait blocks, cache imports,
  export tables, projects) is the record \<open>shared\<close>. Entries of the log and names of vertices are left
  out; the counter of commands is kept.
\<close>

section \<open>State\<close>

datatype cmdType =
    argCmd | buildCmd | cmdCmd | copyCmd | enterScopeDoCmd | entrypointCmd | envCmd | exposeCmd | fromCmd | fromDockerfileCmd
  | gitCloneCmd | healthcheckCmd | importCmd | labelCmd | loadCmd | locallyCmd | runCmd | saveArtifactCmd | saveImageCmd | userCmd
  | volumeCmd | workdirCmd | cacheCmd | hostCmd | projectCmd | setCmd | letCmd

datatype conv_error =
    CNotAllowed string
  | CVar var_error
  | CRef ref_error
  | CMsg string
  | CExt string
  | CPanic string

text \<open>The target state with its LLB part; \<open>ct_base\<close> has the fields that the visited collections read.\<close>

record ConvTarget =
  ct_base :: SingleTarget
  ct_MainState :: llb
  ct_MainImage :: Image
  ct_SaveImages :: "SaveImage list"
  ct_SaveLocals :: "SaveLocal list"
  ct_pushHasState :: bool
  ct_pushState :: llb
  ct_pushSaveImages :: "SaveImage list"
  ct_pushSaveLocals :: "SaveLocal list"
  ct_WaitItems :: "nat list"
  ct_WaitBlocks :: "nat list"
  ct_GlobalImports :: "string \<rightharpoonup> ImportTrackerVal"
  ct_VarCollection :: "Collection option"
  ct_PlatformResolver :: "Resolver option"
  ct_HasDangling :: bool
  ct_RanFromLike :: bool
  ct_RanInteractive :: bool
  ct_doSaves :: bool
  ct_doPushes :: bool
  ct_done :: bool

record ConvertOpt =
  cp_OverridingVars :: Scope
  cp_GlobalImports :: "string \<rightharpoonup> ImportTrackerVal"
  cp_PlatformResolver :: Resolver
  cp_Features :: Features
  cp_waitBlock :: "nat option"
  cp_parentTargetID :: string
  cp_parentCommandID :: string
  cp_HasDangling :: bool
  cp_AllowPrivileged :: bool
  cp_AllowLocally :: bool
  cp_DoSaves :: bool
  cp_DoPushes :: bool
  cp_ForceSaveImage :: bool
  cp_OnlyFinalTargetImages :: bool
  cp_UseInlineCache :: bool
  cp_UseLocalRegistry :: bool
  cp_UseFakeDep :: bool

record shared =
  sh_ws :: wstore
  sh_cacheImports :: "string list"
  sh_ec :: ExportCoordinator
  sh_projects :: "(string \<times> string) list"

record Converter =
  cv_target :: Target_ref
  cv_final :: ConvTarget
  cv_platr :: Resolver
  cv_opt :: ConvertOpt
  cv_vars :: Collection
  cv_ftrs :: Features
  cv_caches :: "(string \<times> CacheMount) list"
  cv_waitStack :: "nat list"
  cv_directDeps :: "ConvTarget list"
  cv_localWorkingDir :: string
  cv_nextCmdID :: nat
  cv_cmdSet :: bool
  cv_ranSave :: bool
  cv_shared :: shared

text \<open>The environment of a converter: the home directory, the functions of containerd's platforms,
  SHA-256, the evaluation of shell expressions in build arguments, the image resolver, the conversion
  of another target, the file system, the jobs of a wait, the session, and the order in which Go
  iterates over a map.\<close>

record cenv =
  ce_home :: string
  ce_Normalize :: "SpecsPlatform \<Rightarrow> SpecsPlatform"
  ce_Format :: "SpecsPlatform \<Rightarrow> string"
  ce_sha :: "string \<Rightarrow> string"
  ce_RunExpression :: "string \<Rightarrow> string \<Rightarrow> var_error + (string \<times> int)"
  ce_resolveImage :: "string \<Rightarrow> SpecsPlatform \<Rightarrow> string + (string \<times> Image)"
  ce_Earthfile2LLB :: "Target_ref \<Rightarrow> ConvertOpt \<Rightarrow> shared \<Rightarrow> (string + ConvTarget) \<times> shared"
  ce_Abs :: "string \<Rightarrow> string + string"
  ce_DirExists :: "string \<Rightarrow> string + bool"
  ce_jobs :: "nat \<Rightarrow> job list \<Rightarrow> shared \<Rightarrow> string option \<times> shared"
  ce_sessionID :: string
  ce_order :: "(string \<times> CacheMount) list \<Rightarrow> (string \<times> CacheMount) list"

type_synonym 'a cm = "(Converter, conv_error, 'a) rs"

definition updFinal :: "(ConvTarget \<Rightarrow> ConvTarget) \<Rightarrow> unit cm" where
  "updFinal f = modR (\<lambda>c. c\<lparr>cv_final := f (cv_final c)\<rparr>)"

definition updImage :: "(Image \<Rightarrow> Image) \<Rightarrow> unit cm" where
  "updImage f = updFinal (\<lambda>t. t\<lparr>ct_MainImage := f (ct_MainImage t)\<rparr>)"

definition updState :: "(llb \<Rightarrow> llb) \<Rightarrow> unit cm" where
  "updState f = updFinal (\<lambda>t. t\<lparr>ct_MainState := f (ct_MainState t)\<rparr>)"

definition updShared :: "(shared \<Rightarrow> shared) \<Rightarrow> unit cm" where
  "updShared f = modR (\<lambda>c. c\<lparr>cv_shared := f (cv_shared c)\<rparr>)"

definition panicC :: "string \<Rightarrow> 'a cm" where
  "panicC msg = failR (CPanic msg)"

text \<open>Calls of the collection of variables: total ones, ones that may panic, and ones that also may
  return an error.\<close>

definition varsU :: "(Collection \<Rightarrow> Collection) \<Rightarrow> unit cm" where
  "varsU f = modR (\<lambda>c. c\<lparr>cv_vars := f (cv_vars c)\<rparr>)"

definition varsO :: "(Collection \<Rightarrow> Collection option) \<Rightarrow> unit cm" where
  "varsO f c = (case f (cv_vars c) of None \<Rightarrow> (Inl (CPanic ''empty stack''), c) | Some v \<Rightarrow> (Inr (), c\<lparr>cv_vars := v\<rparr>))"

definition varsE :: "(Collection \<Rightarrow> ((var_error + 'a) \<times> Collection) option) \<Rightarrow> 'a cm" where
  "varsE f c = (case f (cv_vars c) of
     None \<Rightarrow> (Inl (CPanic ''empty stack''), c)
   | Some (r, v) \<Rightarrow> (case r of Inl e \<Rightarrow> Inl (CVar e) | Inr x \<Rightarrow> Inr x, c\<lparr>cv_vars := v\<rparr>))"

definition readO :: "(Collection \<Rightarrow> 'a option) \<Rightarrow> 'a cm" where
  "readO f c = (case f (cv_vars c) of None \<Rightarrow> (Inl (CPanic ''empty stack''), c) | Some x \<Rightarrow> (Inr x, c))"

definition newCmdID :: "nat cm" where
  "newCmdID = readR cv_nextCmdID (\<lambda>n. bindR (modR (\<lambda>c. c\<lparr>cv_nextCmdID := n + 1\<rparr>)) (\<lambda>_. retR n))"

section \<open>Permissions\<close>

definition cmd_ftr :: "Converter \<Rightarrow> string \<Rightarrow> bool" where
  "cmd_ftr c f = fe_on (cv_ftrs c) f"

definition allowed_before_from :: "cmdType \<Rightarrow> bool" where
  "allowed_before_from cmd \<longleftrightarrow> cmd \<in> {fromCmd, fromDockerfileCmd, locallyCmd, buildCmd, argCmd, letCmd, setCmd, importCmd, projectCmd}"

definition checkAllowed :: "cmdType \<Rightarrow> unit cm" where
  "checkAllowed cmd c =
    (if cmd = projectCmd \<and> \<not> cmd_ftr c ''use-project-secrets'' then failR (CNotAllowed ''PROJECT'') c
     else if ct_RanInteractive (cv_final c) \<and> cmd \<noteq> saveImageCmd \<and> cmd \<noteq> saveArtifactCmd then failR (CNotAllowed ''--interactive'') c
     else if \<not> ct_RanFromLike (cv_final c) then
       if allowed_before_from cmd then retR () c else failR (CNotAllowed ''requires a FROM'') c
     else if (cmd = setCmd \<or> cmd = letCmd) \<and> \<not> cmd_ftr c ''arg-scope-and-set'' then failR (CNotAllowed ''LET and SET'') c
     else retR () c)"

definition nonSaveCommand :: "unit cm" where
  "nonSaveCommand = modR (\<lambda>c. if cv_ranSave c then c\<lparr>cv_final := (cv_final c)\<lparr>ct_HasDangling := True\<rparr>\<rparr> else c)"

text \<open>The opening of most commands.\<close>

definition command :: "cmdType \<Rightarrow> 'a cm \<Rightarrow> 'a cm" where
  "command cmd k = bindR (checkAllowed cmd) (\<lambda>_. bindR nonSaveCommand (\<lambda>_. k))"

section \<open>The image\<close>

definition shellCmd :: "string \<Rightarrow> string list" where
  "shellCmd cmd = [''/bin/sh'', ''-c'', cmd]"

definition withShell :: "string list \<Rightarrow> bool \<Rightarrow> string list" where
  "withShell args shell = (if shell then shellCmd (Join args '' '') else args)"

definition Conv_Workdir :: "string \<Rightarrow> unit cm" where
  "Conv_Workdir workdirPath = command workdirCmd (
    bindR (updState (Dir_st workdirPath)) (\<lambda>_.
    readR (\<lambda>c. ct_MainImage (cv_final c)) (\<lambda>img.
    let workdirAbs = (if path_IsAbs workdirPath then workdirPath else path_JoinN [''/'', im_WorkingDir img, workdirPath]) in
    bindR (updImage (\<lambda>i. i\<lparr>im_WorkingDir := workdirAbs\<rparr>)) (\<lambda>_.
    if workdirAbs \<noteq> ''/'' then
      bindR newCmdID (\<lambda>_. updState (\<lambda>s. s @ [LMkdir workdirAbs 493 True (im_User img)]))
    else retR ()))))"

definition Conv_User :: "string \<Rightarrow> unit cm" where
  "Conv_User user = command userCmd (bindR (updState (User_st user)) (\<lambda>_. updImage (\<lambda>i. i\<lparr>im_User := user\<rparr>)))"

definition Conv_Cmd :: "string list \<Rightarrow> bool \<Rightarrow> unit cm" where
  "Conv_Cmd args shell = command cmdCmd (
    bindR (updImage (\<lambda>i. i\<lparr>im_Cmd := withShell args shell\<rparr>)) (\<lambda>_. modR (\<lambda>c. c\<lparr>cv_cmdSet := True\<rparr>)))"

definition Conv_Entrypoint :: "string list \<Rightarrow> bool \<Rightarrow> unit cm" where
  "Conv_Entrypoint args shell = command entrypointCmd (
    bindR (updImage (\<lambda>i. i\<lparr>im_Entrypoint := withShell args shell\<rparr>)) (\<lambda>_.
    readR cv_cmdSet (\<lambda>set. if \<not> set then updImage (\<lambda>i. i\<lparr>im_Cmd := []\<rparr>) else retR ())))"

definition Conv_Expose :: "string list \<Rightarrow> unit cm" where
  "Conv_Expose ports = command exposeCmd (forR ports (\<lambda>port.
    readR (\<lambda>c. im_ExposedPorts (ct_MainImage (cv_final c))) (\<lambda>m. case m of
       None \<Rightarrow> panicC ''assignment to entry in nil map''
     | Some s \<Rightarrow> updImage (\<lambda>i. i\<lparr>im_ExposedPorts := Some (insert port s)\<rparr>))))"

definition Conv_Volume :: "string list \<Rightarrow> unit cm" where
  "Conv_Volume volumes = command volumeCmd (forR volumes (\<lambda>volume.
    readR (\<lambda>c. im_Volumes (ct_MainImage (cv_final c))) (\<lambda>m. case m of
       None \<Rightarrow> panicC ''assignment to entry in nil map''
     | Some s \<Rightarrow> updImage (\<lambda>i. i\<lparr>im_Volumes := Some (insert volume s)\<rparr>))))"

definition Conv_Label :: "(string \<times> string) list \<Rightarrow> unit cm" where
  "Conv_Label labels = command labelCmd (forR labels (\<lambda>(k, v).
    readR (\<lambda>c. im_Labels (ct_MainImage (cv_final c))) (\<lambda>m. case m of
       None \<Rightarrow> panicC ''assignment to entry in nil map''
     | Some s \<Rightarrow> updImage (\<lambda>i. i\<lparr>im_Labels := Some (s(k \<mapsto> v))\<rparr>))))"

definition Conv_Env :: "string \<Rightarrow> string \<Rightarrow> unit cm" where
  "Conv_Env k v = command envCmd (
    bindR (varsU (\<lambda>vars. DeclareEnv vars k v)) (\<lambda>_.
    bindR (updState (AddEnv_st k v)) (\<lambda>_.
    updImage (\<lambda>i. i\<lparr>im_Env := AddEnv (im_Env i) k v\<rparr>))))"

definition Conv_Healthcheck :: "bool \<Rightarrow> string list \<Rightarrow> int \<Rightarrow> int \<Rightarrow> int \<Rightarrow> int \<Rightarrow> int \<Rightarrow> unit cm" where
  "Conv_Healthcheck isNone cmdArgs interval timeout startPeriod retries startInterval = command healthcheckCmd (
    let hc = (if isNone then \<lparr>hc_Test = [''NONE''], hc_Interval = 0, hc_Timeout = 0, hc_StartPeriod = 0, hc_StartInterval = 0, hc_Retries = 0\<rparr>
              else \<lparr>hc_Test = [''CMD-SHELL'', Join cmdArgs '' ''], hc_Interval = interval, hc_Timeout = timeout,
                    hc_StartPeriod = startPeriod, hc_StartInterval = startInterval, hc_Retries = retries\<rparr>)
    in updImage (\<lambda>i. i\<lparr>im_Healthcheck := Some hc\<rparr>))"

definition Conv_Host :: "string \<Rightarrow> nat list \<Rightarrow> unit cm" where
  "Conv_Host hostname ip = command hostCmd (updState (AddExtraHost hostname ip))"

definition copyOwner :: "Image \<Rightarrow> bool \<Rightarrow> string \<Rightarrow> string" where
  "copyOwner img keepOwn chown =
    (let own = (if im_User img = [] then ''root:root'' else im_User img); own = (if keepOwn then [] else own)
     in if chown \<noteq> [] then chown else own)"

section \<open>Variables\<close>

definition pncvf_of :: "cenv \<Rightarrow> Converter \<Rightarrow> pncvf" where
  "pncvf_of ev c = (if \<not> fe_on (cp_Features (cv_opt c)) ''shell-out-anywhere'' then Some (ce_RunExpression ev) else None)"

definition addInput :: "string \<Rightarrow> string \<Rightarrow> string \<Rightarrow> unit cm" where
  "addInput name constant dflt = updFinal (\<lambda>t. t\<lparr>ct_base := AddBuildArgInput (ct_base t)
     \<lparr>bai_Name = name, bai_ConstantValue = constant, bai_DefaultValue = dflt\<rparr>\<rparr>)"

definition Conv_Arg :: "cenv \<Rightarrow> string \<Rightarrow> string \<Rightarrow> Arg_opts \<Rightarrow> unit cm" where
  "Conv_Arg ev argKey defaultArgValue opts = command argCmd (
    readR (pncvf_of ev) (\<lambda>pncvf.
    bindR (varsE (\<lambda>vars. DeclareVar vars argKey ([AsArg, WithValue defaultArgValue, WithPNCVFunc pncvf] @ (if arg_Global opts then [AsGlobal] else [])))) (\<lambda>(ef, dflt).
    if arg_Required opts \<and> ef = [] then failR (CMsg ''value not supplied for required ARG'')
    else if defaultArgValue \<noteq> [] \<and> IsBuiltIn argKey then failR (CMsg ''arg default value supplied for built-in ARG'')
    else readR cv_vars (\<lambda>vars. if IsStackAtBase vars then addInput argKey ef dflt else retR ()))))"

definition Conv_Let :: "string \<Rightarrow> string \<Rightarrow> unit cm" where
  "Conv_Let key value = command letCmd (
    if IsBuiltIn key then failR (CMsg ''LET cannot override built-in variable'')
    else bindR (varsE (\<lambda>vars. DeclareVar vars key [WithValue value])) (\<lambda>(ef, dflt).
      readR cv_vars (\<lambda>vars. if IsStackAtBase vars then addInput key ef dflt else retR ())))"

definition Conv_UpdateArg :: "cenv \<Rightarrow> string \<Rightarrow> string \<Rightarrow> unit cm" where
  "Conv_UpdateArg ev argKey argValue = command setCmd (
    readR (pncvf_of ev) (\<lambda>pncvf.
    varsE (\<lambda>vars. map_option (\<lambda>(e, v). (case e of None \<Rightarrow> Inr () | Some e \<Rightarrow> Inl e, v)) (UpdateVar vars argKey argValue pncvf))))"

definition Conv_SetArg :: "string \<Rightarrow> string \<Rightarrow> unit cm" where
  "Conv_SetArg argKey argValue = command argCmd (varsO (\<lambda>vars. SetArg vars argKey argValue))"

definition Conv_UnsetArg :: "string \<Rightarrow> unit cm" where
  "Conv_UnsetArg argKey = command argCmd (varsO (\<lambda>vars. UnsetArg vars argKey))"

definition Conv_Project :: "string \<Rightarrow> string \<Rightarrow> unit cm" where
  "Conv_Project org project = command projectCmd (
    bindR (varsU (\<lambda>vars. SetProject (SetOrg vars org) project)) (\<lambda>_.
    updShared (\<lambda>sh. sh\<lparr>sh_projects := sh_projects sh @ [(org, project)]\<rparr>)))"

definition Conv_Import :: "cenv \<Rightarrow> string \<Rightarrow> string \<Rightarrow> bool \<Rightarrow> bool \<Rightarrow> bool \<Rightarrow> unit cm" where
  "Conv_Import ev importStr as isGlobal currentlyPrivileged allowPrivilegedFlag =
    bindR (checkAllowed importCmd) (\<lambda>_.
    bindR (readO Coll_Imports) (\<lambda>ir.
    let (ir', err) = Import_Add (ce_home ev) ir importStr as isGlobal currentlyPrivileged allowPrivilegedFlag in
    bindR (varsO (updFrame (\<lambda>f. f\<lparr>sf_imports := ir'\<rparr>))) (\<lambda>_. case err of None \<Rightarrow> retR () | Some e \<Rightarrow> failR (CRef e))))"

definition ExitScope :: "unit cm" where
  "ExitScope = varsO ExitFrame"

section \<open>Caches\<close>

definition Conv_Cache :: "cenv \<Rightarrow> string \<Rightarrow> Cache_opts \<Rightarrow> unit cm" where
  "Conv_Cache ev mountTarget opts = command cacheCmd (
    readR id (\<lambda>c.
    let ident = cacheID (ce_sha ev) (cmd_ftr c ''global-cache'') (cv_target c) mountTarget (cache_ID opts) in
    case (if cache_Sharing opts = [] then Some CacheMountLocked else sharingMode (cache_Sharing opts)) of
      None \<Rightarrow> failR (CMsg ''invalid cache sharing mode'')
    | Some shareMode \<Rightarrow>
        if map_of (cv_caches c) mountTarget \<noteq> None then retR ()
        else
          (case (if cache_Mode opts \<noteq> [] then ParseMode (cache_Mode opts) else Inr 420) of
             Inl _ \<Rightarrow> failR (CMsg ''failed to parse mount mode'')
           | Inr mountMode \<Rightarrow>
               if \<not> cmd_ftr c ''cache-persist-option'' \<and> cache_Persist opts then failR (CMsg ''the --persist flag'')
               else
                 let persisted = (if cmd_ftr c ''cache-persist-option'' then cache_Persist opts else True);
                     mount = AddMount mountTarget (MCacheDir mountMode) [AsPersistentCacheDir ident shareMode, SourcePath ''/cache'']
                 in modR (\<lambda>c. c\<lparr>cv_caches := AList.update mountTarget \<lparr>ck_RunOption = mount, ck_Persisted = persisted\<rparr> (cv_caches c)\<rparr>))))"

definition persistCache :: "cenv \<Rightarrow> Converter \<Rightarrow> llb \<Rightarrow> llb" where
  "persistCache ev c srcState =
    foldl (\<lambda>dest (dir, m). if ck_Persisted m then dest @ [LPersist dir (ck_RunOption m)] else dest) srcState (ce_order ev (cv_caches c))"

end
