(* ===== verification/Converter_Build.thy ===== *)
theory Converter_Build
  imports Converter_State
begin

text \<open>
  The converter of \<^verbatim>\<open>earthfile2llb/converter.go\<close>, second part: base images, the targets it asks for, the
  scopes of functions, WAIT blocks, saved images, and the end of a target. The conversion of another
  target (\<open>Earthfile2LLB\<close>) is the field \<open>ce_Earthfile2LLB\<close> of the environment, which may change what the
  converters share.
\<close>

definition refR :: "ref_error + 'a \<Rightarrow> 'a cm" where
  "refR r = (case r of Inl e \<Rightarrow> failR (CRef e) | Inr x \<Rightarrow> retR x)"

definition extR :: "string + 'a \<Rightarrow> 'a cm" where
  "extR r = (case r of Inl e \<Rightarrow> failR (CExt e) | Inr x \<Rightarrow> retR x)"

section \<open>Platforms\<close>

definition setPlatform :: "cenv \<Rightarrow> Platform \<Rightarrow> Platform cm" where
  "setPlatform ev platform c =
    (let (np, platr) = UpdatePlatform (cv_platr c) platform in
     (Inr np, c\<lparr>cv_platr := platr, cv_vars := SetPlatform (ce_Normalize ev) (ce_Format ev) (cv_vars c) platr\<rparr>))"

definition checkOldPlatformIncompatibility :: "cenv \<Rightarrow> Platform \<Rightarrow> unit cm" where
  "checkOldPlatformIncompatibility ev platform c =
    (if cmd_ftr c ''new-platform'' then retR () c
     else if rs_defaultPlatform (cv_platr c) = DefaultPlatform \<or> platform = DefaultPlatform then retR () c
     else if \<not> PlatformEquals (ce_Normalize ev) (cv_platr c) (rs_defaultPlatform (cv_platr c)) platform
     then failR (CMsg ''platform contradiction'') c
     else retR () c)"

section \<open>Base images\<close>

definition applyFromImage :: "llb \<Rightarrow> Image \<Rightarrow> llb \<times> Image \<times> Scope" where
  "applyFromImage st img =
    (let ev = ParseEnvVars (im_Env img);
         st = foldl (\<lambda>st name. AddEnv_st name (case Scope_Get ev name True of None \<Rightarrow> [] | Some v \<Rightarrow> v) st) st (Scope_Sorted ev True);
         img = img\<lparr>im_ExposedPorts := Some (case im_ExposedPorts img of None \<Rightarrow> {} | Some s \<Rightarrow> s),
                   im_Labels := Some (case im_Labels img of None \<Rightarrow> Map.empty | Some m \<Rightarrow> m),
                   im_Volumes := Some (case im_Volumes img of None \<Rightarrow> {} | Some s \<Rightarrow> s)\<rparr>;
         st = (if im_WorkingDir img \<noteq> [] then Dir_st (im_WorkingDir img) st else st);
         st = (if im_User img \<noteq> [] then User_st (im_User img) st else st)
     in (st, img, ev))"

text \<open>\<open>ce_resolveImage\<close> gives the reference with its digest and the configuration of the image.\<close>

definition internalFromClassical :: "cenv \<Rightarrow> string \<Rightarrow> Platform \<Rightarrow> (llb \<times> Image \<times> Scope option) cm" where
  "internalFromClassical ev name platform =
    readR cv_platr (\<lambda>platr.
    let llbPlatform = ToLLBPlatform (ce_Normalize ev) platr platform in
    if name = ''scratch'' then
      retR (Platform_st llbPlatform Scratch, NewImage\<lparr>im_OS := sp_OS llbPlatform, im_Architecture := sp_Architecture llbPlatform\<rparr>, None)
    else
      bindR (extR (ce_resolveImage ev name llbPlatform)) (\<lambda>(ref, img).
      let (st, img, vs) = applyFromImage [LImage ref, LPlatform llbPlatform] img in retR (st, img, Some vs)))"

definition fromClassical :: "cenv \<Rightarrow> string \<Rightarrow> Platform \<Rightarrow> unit cm" where
  "fromClassical ev name platform =
    bindR newCmdID (\<lambda>_.
    bindR (internalFromClassical ev name platform) (\<lambda>(st, img, envVars).
    bindR (updFinal (\<lambda>t. t\<lparr>ct_MainState := st, ct_MainImage := img, ct_RanFromLike := True\<rparr>)) (\<lambda>_.
    varsU (\<lambda>vars. ResetEnvVars vars envVars))))"

definition Conv_Locally :: "cenv \<Rightarrow> unit cm" where
  "Conv_Locally ev =
    bindR (checkAllowed locallyCmd) (\<lambda>_.
    readR cv_opt (\<lambda>opt.
    if \<not> cp_AllowLocally opt then failR (CMsg ''LOCALLY cannot be used'')
    else
      bindR (fromClassical ev ''scratch'' NativePlatform) (\<lambda>_.
      readR cv_localWorkingDir (\<lambda>dir.
      bindR (extR (ce_Abs ev dir)) (\<lambda>workingDir.
      bindR (varsU (\<lambda>vars. Coll_SetLocally vars True)) (\<lambda>_.
      bindR (updState (Dir_st workingDir)) (\<lambda>_.
      bindR (updImage (\<lambda>i. i\<lparr>im_WorkingDir := workingDir\<rparr>)) (\<lambda>_.
      bindR (setPlatform ev UserPlatform) (\<lambda>_. retR ())))))))))"

section \<open>Asking for a target\<close>

definition joinRefs :: "Reference \<Rightarrow> Reference cm" where
  "joinRefs relRef = bindR (readO AbsRef) (\<lambda>absRef. refR (JoinReferences absRef relRef))"

definition absolutizeTarget :: "cenv \<Rightarrow> string \<Rightarrow> bool \<Rightarrow> (Target_ref \<times> Target_ref \<times> bool) cm" where
  "absolutizeTarget ev fullTargetName allowPrivileged =
    bindR (refR (ParseTarget (ce_home ev) fullTargetName)) (\<lambda>relTarget.
    bindR (readO Coll_Imports) (\<lambda>imports.
    bindR (refR (Deref (ce_home ev) imports (RefTarget relTarget))) (\<lambda>(derefed, allowPrivilegedImport, isImport).
    let allowPrivileged = (if isImport then allowPrivileged \<and> allowPrivilegedImport else allowPrivileged) in
    bindR (joinRefs derefed) (\<lambda>targetRef. case targetRef of
       RefTarget target \<Rightarrow> retR (target, relTarget, allowPrivileged)
     | RefCommand _ \<Rightarrow> failR (CMsg ''want domain.Target'')))))"

definition prepOverridingVars :: "cenv \<Rightarrow> Target_ref \<Rightarrow> bool \<Rightarrow> string list \<Rightarrow> (Scope \<times> bool) cm" where
  "prepOverridingVars ev relTarget passArgs buildArgs =
    readR (pncvf_of ev) (\<lambda>pncvf.
    bindR (varsE (Var_ParseArgs buildArgs pncvf)) (\<lambda>overriding.
    let propagateBuildArgs = (\<not> IsExternal (RefTarget relTarget)) in
    if passArgs then
      bindR (readO Coll_Overriding) (\<lambda>ov. bindR (readO Coll_Args) (\<lambda>args. bindR (readO Coll_Globals) (\<lambda>globals.
      retR (RemoveReservedArgsFromScope (CombineScopes [overriding, ov, args, globals]), propagateBuildArgs))))
    else if propagateBuildArgs then
      bindR (readO Coll_Overriding) (\<lambda>ov. retR (CombineScopes [overriding, ov], propagateBuildArgs))
    else retR (overriding, propagateBuildArgs)))"

definition waitBlock_top :: "nat cm" where
  "waitBlock_top = readR cv_waitStack (\<lambda>st. if st = [] then panicC ''waitBlock() called on empty stack'' else retR (last st))"

definition prepOpt :: "Converter \<Rightarrow> Target_ref \<Rightarrow> Platform \<Rightarrow> bool \<Rightarrow> Scope \<Rightarrow> bool \<Rightarrow> cmdType \<Rightarrow> string \<Rightarrow> nat option \<Rightarrow> ConvertOpt" where
  "prepOpt c target platform allowPrivileged overriding isDangling cmdT parentCmdID wb =
    (let opt = cv_opt c; ro = fe_on (cp_Features opt) ''referenced-save-only'' in
     opt\<lparr>cp_OverridingVars := overriding, cp_GlobalImports := Map.empty, cp_PlatformResolver := SubResolver (cv_platr c) platform,
         cp_HasDangling := isDangling, cp_AllowPrivileged := allowPrivileged, cp_parentTargetID := st_ID (ct_base (cv_final c)),
         cp_parentCommandID := parentCmdID, cp_waitBlock := wb,
         cp_DoSaves := (if ro then cmdT = buildCmd \<and> cp_DoSaves opt \<and> \<not> cp_OnlyFinalTargetImages opt
                        else cp_DoSaves opt \<and> \<not> IsRemote (RefTarget target)),
         cp_DoPushes := (if ro then cmdT = buildCmd \<and> cp_DoPushes opt else cp_DoPushes opt \<and> \<not> IsRemote (RefTarget target)),
         cp_ForceSaveImage := (if ro then False else cp_ForceSaveImage opt)\<rparr>)"

definition prepBuildTarget ::
  "cenv \<Rightarrow> string \<Rightarrow> Platform \<Rightarrow> bool \<Rightarrow> bool \<Rightarrow> string list \<Rightarrow> bool \<Rightarrow> cmdType \<Rightarrow> string \<Rightarrow> (Target_ref \<times> ConvertOpt \<times> bool) cm" where
  "prepBuildTarget ev fullTargetName platform allowPrivileged passArgs buildArgs isDangling cmdT parentCmdID =
    bindR (absolutizeTarget ev fullTargetName allowPrivileged) (\<lambda>(target, relTarget, allowPrivileged).
    bindR (prepOverridingVars ev relTarget passArgs buildArgs) (\<lambda>(overriding, propagateBuildArgs).
    bindR (if cmdT = buildCmd then bindR waitBlock_top (\<lambda>b. retR (Some b)) else retR None) (\<lambda>wb.
    readR id (\<lambda>c.
    retR (target, prepOpt c target platform allowPrivileged overriding isDangling cmdT parentCmdID wb, propagateBuildArgs)))))"

text \<open>The recursive call.\<close>

definition callEarthfile2LLB :: "cenv \<Rightarrow> Target_ref \<Rightarrow> ConvertOpt \<Rightarrow> ConvTarget cm" where
  "callEarthfile2LLB ev target opt c =
    (case ce_Earthfile2LLB ev target opt (cv_shared c) of
       (Inl e, sh) \<Rightarrow> (Inl (CExt e), c\<lparr>cv_shared := sh\<rparr>)
     | (Inr mts, sh) \<Rightarrow> (Inr mts, c\<lparr>cv_shared := sh\<rparr>))"

definition addBai :: "BuildArgInput \<Rightarrow> unit cm" where
  "addBai bai = addInput (bai_Name bai) (bai_ConstantValue bai) (bai_DefaultValue bai)"

text \<open>Globals do not override a variable of the current scope.\<close>

definition propagateGlobal :: "ConvTarget \<Rightarrow> Scope \<Rightarrow> string \<Rightarrow> unit cm" where
  "propagateGlobal mts globals k =
    bindR (varsE (\<lambda>vars. map_option (\<lambda>(v, vars). (Inr v, vars)) (Coll_Get vars k True))) (\<lambda>active.
    if active \<noteq> None then retR ()
    else
      let v = (case Scope_Get globals k True of None \<Rightarrow> [] | Some v \<Rightarrow> v);
          dflt = (case find (\<lambda>b. bai_Name b = k) (ti_args (st_targetInput (ct_base mts))) of None \<Rightarrow> [] | Some b \<Rightarrow> bai_DefaultValue b)
      in addInput k v dflt)"

definition finalVars :: "ConvTarget \<Rightarrow> Collection cm" where
  "finalVars mts = (case ct_VarCollection mts of None \<Rightarrow> panicC ''nil VarCollection'' | Some vs \<Rightarrow> retR vs)"

definition buildTarget ::
  "cenv \<Rightarrow> string \<Rightarrow> Platform \<Rightarrow> bool \<Rightarrow> bool \<Rightarrow> string list \<Rightarrow> bool \<Rightarrow> cmdType \<Rightarrow> string \<Rightarrow> ConvTarget cm" where
  "buildTarget ev fullTargetName platform allowPrivileged passArgs buildArgs isDangling cmdT parentCmdID =
    bindR (prepBuildTarget ev fullTargetName platform allowPrivileged passArgs buildArgs isDangling cmdT parentCmdID) (\<lambda>(target, opt, propagateBuildArgs).
    bindR (callEarthfile2LLB ev target opt) (\<lambda>mts.
    bindR (modR (\<lambda>c. c\<lparr>cv_directDeps := cv_directDeps c @ [mts]\<rparr>)) (\<lambda>_.
    if \<not> propagateBuildArgs then retR mts
    else
      bindR (forR (ti_args (st_targetInput (ct_base mts))) (\<lambda>bai.
        if Scope_Get (cp_OverridingVars opt) (bai_Name bai) False \<noteq> None then retR () else addBai bai)) (\<lambda>_.
      if cmdT \<noteq> fromCmd then retR mts
      else
        bindR (finalVars mts) (\<lambda>vs.
        bindR (case Coll_Globals vs of None \<Rightarrow> panicC ''empty stack'' | Some g \<Rightarrow> retR g) (\<lambda>globals.
        bindR (forR (Scope_Sorted globals True) (propagateGlobal mts globals)) (\<lambda>_.
        bindR (varsO (\<lambda>vars. SetGlobals vars globals)) (\<lambda>_.
        bindR (varsO (updFrame (\<lambda>f. f\<lparr>sf_imports := SetGlobal (sf_imports f) (ct_GlobalImports mts)\<rparr>))) (\<lambda>_.
        bindR (varsU (\<lambda>vars. SetOrg (SetProject vars (co_project vs)) (co_org vs))) (\<lambda>_.
        retR mts))))))))))"

definition fromTarget :: "cenv \<Rightarrow> string \<Rightarrow> Platform \<Rightarrow> bool \<Rightarrow> bool \<Rightarrow> string list \<Rightarrow> unit cm" where
  "fromTarget ev targetName platform allowPrivileged passArgs buildArgs =
    bindR newCmdID (\<lambda>cmdID.
    readR (\<lambda>c. st_ID (ct_base (cv_final c))) (\<lambda>stsID.
    bindR (refR (ParseTarget (ce_home ev) targetName)) (\<lambda>depTarget.
    bindR (buildTarget ev (referenceString (RefTarget depTarget)) platform allowPrivileged passArgs buildArgs False fromCmd
             (stsID @ ''/'' @ Itoa (int cmdID))) (\<lambda>mts.
    if ct_RanInteractive mts then failR (CMsg ''cannot FROM a target ending with an --interactive'')
    else
      let saveImage = LastSaveImage (ct_MainState mts) (ct_MainImage mts) (ct_SaveImages mts) in
      bindR (updState (\<lambda>_. ct_MainState mts)) (\<lambda>_.
      bindR (finalVars mts) (\<lambda>vs.
      bindR (varsU (\<lambda>vars. ResetEnvVars vars (Some (EnvVars vs)))) (\<lambda>_.
      bindR (updFinal (\<lambda>t. t\<lparr>ct_MainImage := Image_Clone (si_Image saveImage), ct_RanFromLike := ct_RanFromLike mts,
               ct_RanInteractive := ct_RanInteractive mts\<rparr>)) (\<lambda>_.
      case ct_PlatformResolver mts of
        None \<Rightarrow> panicC ''nil PlatformResolver''
      | Some pr \<Rightarrow> modR (\<lambda>c. c\<lparr>cv_platr := snd (UpdatePlatform (cv_platr c) (rs_currentPlatform pr))\<rparr>)))))))))"

definition Conv_From :: "cenv \<Rightarrow> string \<Rightarrow> Platform \<Rightarrow> bool \<Rightarrow> bool \<Rightarrow> string list \<Rightarrow> unit cm" where
  "Conv_From ev name platform allowPrivileged passArgs buildArgs = command fromCmd (
    bindR (modR (\<lambda>c. c\<lparr>cv_caches := [], cv_cmdSet := False\<rparr>)) (\<lambda>_.
    bindR (checkOldPlatformIncompatibility ev platform) (\<lambda>_.
    bindR (varsU (\<lambda>vars. Coll_SetLocally vars False)) (\<lambda>_.
    bindR (setPlatform ev platform) (\<lambda>platform.
    if CHR ''+'' \<in> set name then fromTarget ev name platform allowPrivileged passArgs buildArgs
    else if buildArgs \<noteq> [] then failR (CMsg ''--build-arg not supported in non-target FROM'')
    else fromClassical ev name platform)))))"

text \<open>The end of FROM DOCKERFILE, after the library has converted the Dockerfile to a state and an image.\<close>

definition fromDockerfileImage :: "nat \<Rightarrow> Image \<Rightarrow> unit cm" where
  "fromDockerfileImage st img =
    (let (st2, img2, envVars) = applyFromImage [LExternal st] img in
     bindR (updFinal (\<lambda>t. t\<lparr>ct_MainState := st2, ct_MainImage := img2, ct_RanFromLike := True\<rparr>)) (\<lambda>_.
     varsU (\<lambda>vars. ResetEnvVars vars (Some envVars))))"

definition Conv_Build :: "cenv \<Rightarrow> string \<Rightarrow> Platform \<Rightarrow> bool \<Rightarrow> bool \<Rightarrow> string list \<Rightarrow> unit cm" where
  "Conv_Build ev fullTargetName platform allowPrivileged passArgs buildArgs = command buildCmd (
    bindR newCmdID (\<lambda>cmdID.
    readR (\<lambda>c. st_ID (ct_base (cv_final c))) (\<lambda>stsID.
    bindR (buildTarget ev fullTargetName platform allowPrivileged passArgs buildArgs True buildCmd (stsID @ ''/'' @ Itoa (int cmdID))) (\<lambda>_. retR ()))))"

section \<open>Functions\<close>

text \<open>\<open>ParseArgs\<close> without a collection: an argument without a value asks the nil collection.\<close>

fun parseArgsNil :: "string list \<Rightarrow> Scope \<Rightarrow> Scope cm" where
  "parseArgsNil [] ret = retR ret"
| "parseArgsNil (arg # args) ret =
    (let splitArg = SplitN2 arg (CHR ''=''); name = hd splitArg in
     if length splitArg \<noteq> 2 then panicC ''nil Collection''
     else if IsBuiltIn name then failR (CVar (ErrParseBuildArg arg (ErrBuiltinValue name)))
     else parseArgsNil args (snd (Scope_Add ret name (splitArg ! 1) False False)))"

definition EnterScopeDo :: "cenv \<Rightarrow> Command_ref \<Rightarrow> Target_ref \<Rightarrow> bool \<Rightarrow> bool \<Rightarrow> string \<Rightarrow> string list \<Rightarrow> unit cm" where
  "EnterScopeDo ev cmd baseTarget allowPrivileged passArgs scopeName buildArgs =
    bindR (readR id (\<lambda>c. if cmd_ftr c ''arg-scope-and-set''
      then bindR (parseArgsNil buildArgs NewScope) (\<lambda>tmp. retR (BuildArgs (CombineScopes [tmp, TopOverriding (cv_vars c)]) False))
      else retR buildArgs)) (\<lambda>topArgs.
    readR (\<lambda>c. rs_currentPlatform (cv_platr c)) (\<lambda>plat.
    bindR (buildTarget ev (referenceString (RefTarget baseTarget)) plat allowPrivileged passArgs topArgs True enterScopeDoCmd []) (\<lambda>baseMts.
    readR (pncvf_of ev) (\<lambda>pncvf.
    bindR (varsE (Var_ParseArgs buildArgs pncvf)) (\<lambda>overriding.
    bindR (if passArgs then
        bindR (readO Coll_Overriding) (\<lambda>ov. bindR (readO Coll_Args) (\<lambda>args. bindR (readO Coll_Globals) (\<lambda>globals.
        retR (RemoveReservedArgsFromScope (CombineScopesInactive [overriding, ov, args, globals])))))
      else retR overriding) (\<lambda>overriding.
    bindR (finalVars baseMts) (\<lambda>vs.
    bindR (case Coll_Globals vs of None \<Rightarrow> panicC ''empty stack'' | Some g \<Rightarrow> retR g) (\<lambda>globals.
    varsU (\<lambda>vars. EnterFrame vars scopeName (RefCommand cmd) overriding globals (ct_GlobalImports baseMts))))))))))"

section \<open>WAIT blocks and the end of a target\<close>

definition updWs :: "(wstore \<Rightarrow> wstore) \<Rightarrow> unit cm" where
  "updWs f = updShared (\<lambda>sh. sh\<lparr>sh_ws := f (sh_ws sh)\<rparr>)"

definition addWaitItem :: "wait_item \<Rightarrow> nat cm" where
  "addWaitItem w =
    bindR waitBlock_top (\<lambda>b.
    readR (\<lambda>c. length (ws_items (sh_ws (cv_shared c)))) (\<lambda>i.
    bindR (updWs (\<lambda>ws. AddItem b i (snd (newItem w ws)))) (\<lambda>_. retR i)))"

definition PushWaitBlock :: "unit cm" where
  "PushWaitBlock =
    readR (\<lambda>c. length (ws_blocks (sh_ws (cv_shared c)))) (\<lambda>b.
    bindR (updWs (\<lambda>ws. snd (newWaitBlock ws))) (\<lambda>_.
    bindR (modR (\<lambda>c. c\<lparr>cv_waitStack := cv_waitStack c @ [b]\<rparr>)) (\<lambda>_.
    updFinal (\<lambda>t. t\<lparr>ct_WaitBlocks := ct_WaitBlocks t @ [b]\<rparr>))))"

text \<open>\<open>Wait\<close> of a block of the store: its jobs are run by the environment.\<close>

definition waitOn :: "cenv \<Rightarrow> nat \<Rightarrow> bool \<Rightarrow> bool \<Rightarrow> unit cm" where
  "waitOn ev b push save c =
    (let ws = sh_ws (cv_shared c); (js, blk) = Wait push save (ws_blocks ws ! b);
         sh = (cv_shared c)\<lparr>sh_ws := ws\<lparr>ws_blocks := (ws_blocks ws)[b := blk]\<rparr>\<rparr>
     in if js = [] then (Inr (), c\<lparr>cv_shared := sh\<rparr>)
        else case ce_jobs ev b js sh of
          (None, sh) \<Rightarrow> (Inr (), c\<lparr>cv_shared := sh\<rparr>)
        | (Some e, sh) \<Rightarrow> (Inl (CExt e), c\<lparr>cv_shared := sh\<rparr>))"

definition PopWaitBlock :: "cenv \<Rightarrow> unit cm" where
  "PopWaitBlock ev =
    readR cv_waitStack (\<lambda>st.
    if st = [] then failR (CMsg ''waitBlockStack is empty'')
    else
      bindR (readR id (\<lambda>c. if cmd_ftr c ''wait-block'' then bindR (addWaitItem (WState (ct_MainState (cv_final c)))) (\<lambda>_. retR ()) else retR ())) (\<lambda>_.
      bindR (modR (\<lambda>c. c\<lparr>cv_waitStack := butlast (cv_waitStack c)\<rparr>)) (\<lambda>_.
      readR cv_opt (\<lambda>opt. waitOn ev (last st) (cp_DoPushes opt) (cp_DoSaves opt)))))"

definition markFakeDeps :: "unit cm" where
  "markFakeDeps =
    readR cv_opt (\<lambda>opt.
    if \<not> cp_UseFakeDep opt then retR ()
    else
      readR cv_directDeps (\<lambda>deps.
      bindR (forR deps (\<lambda>dep.
        if \<not> ct_done dep then panicC ''mark fake dep but dep not done''
        else if ct_HasDangling dep then updState (\<lambda>s. s @ [LDepends (ct_MainState dep)])
        else retR ())) (\<lambda>_.
      modR (\<lambda>c. c\<lparr>cv_directDeps := []\<rparr>))))"

definition ranSaved :: "unit cm" where
  "ranSaved = bindR (modR (\<lambda>c. c\<lparr>cv_ranSave := True\<rparr>)) (\<lambda>_. markFakeDeps)"

text \<open>One image of SAVE IMAGE.\<close>

definition saveOneImage :: "cenv \<Rightarrow> bool \<Rightarrow> bool \<Rightarrow> bool \<Rightarrow> bool \<Rightarrow> string \<Rightarrow> unit cm" where
  "saveOneImage ev hasPushFlag insecurePush cacheHint noManifestList name =
    bindR (readR id (\<lambda>c.
      let t = cv_final c; opt = cv_opt c in
      if ct_pushHasState t then
        if cmd_ftr c ''wait-block'' then panicC ''RunPush.HasState should never be true when --wait-block is used''
        else
          updFinal (\<lambda>t. t\<lparr>ct_pushSaveImages := ct_pushSaveImages t @ [
            \<lparr>si_State = persistCache ev c (ct_pushState t), si_Platform = DefaultPlatform, si_Image = Some (Image_Clone (Some (ct_MainImage t))), si_DockerTag = name,
             si_HasPushDependencies = True, si_CacheHint = cacheHint, si_InsecurePush = insecurePush, si_ForceSave = cp_ForceSaveImage opt,
             si_CheckDuplicate = cmd_ftr c ''check-duplicate-images'', si_NoManifestList = noManifestList, si_Push = hasPushFlag,
             si_HasPlatform = False, si_SkipBuilder = False\<rparr>]\<rparr>)
      else
        let plat = rs_currentPlatform (cv_platr c);
            si = \<lparr>si_State = persistCache ev c (ct_MainState t), si_Platform = Materialize (ce_Normalize ev) (cv_platr c) plat,
                  si_Image = Some (Image_Clone (Some (ct_MainImage t))), si_DockerTag = name,
                  si_HasPushDependencies = False, si_CacheHint = cacheHint, si_InsecurePush = insecurePush, si_ForceSave = cp_ForceSaveImage opt,
                  si_CheckDuplicate = cmd_ftr c ''check-duplicate-images'', si_NoManifestList = noManifestList, si_Push = hasPushFlag,
                  si_HasPlatform = IsPlatformDefined plat, si_SkipBuilder = False\<rparr>
        in bindR (if cmd_ftr c ''wait-block'' then
             bindR (addWaitItem (newSaveImage si (referenceString (RefTarget (cv_target c))) (st_ID (ct_base t)) (cp_UseLocalRegistry opt)
               (ce_sessionID ev) (hasPushFlag \<and> name \<noteq> []) (name \<noteq> [] \<and> cp_DoSaves opt))) (\<lambda>i.
             bindR (updFinal (\<lambda>t. t\<lparr>ct_WaitItems := ct_WaitItems t @ [i]\<rparr>)) (\<lambda>_.
             bindR (if hasPushFlag then updShared (\<lambda>sh. sh\<lparr>sh_ec := AddPushedImageSummary (referenceStringCanonical (RefTarget (cv_target c))) name
                      (st_ID (ct_base t)) (cp_DoPushes opt) (sh_ec sh)\<rparr>) else retR ()) (\<lambda>_.
             retR (si\<lparr>si_SkipBuilder := \<not> cp_UseInlineCache opt \<or> length (cv_waitStack c) > 1\<rparr>))))
           else retR si) (\<lambda>si.
           updFinal (\<lambda>t. t\<lparr>ct_SaveImages := ct_SaveImages t @ [si]\<rparr>)))) (\<lambda>_.
    readR cv_opt (\<lambda>opt.
    if hasPushFlag \<and> name \<noteq> [] \<and> cp_UseInlineCache opt
    then updShared (\<lambda>sh. sh\<lparr>sh_cacheImports := CacheImports_Add name (sh_cacheImports sh)\<rparr>) else retR ()))"

definition Conv_SaveImage :: "cenv \<Rightarrow> string list \<Rightarrow> bool \<Rightarrow> bool \<Rightarrow> bool \<Rightarrow> string list \<Rightarrow> bool \<Rightarrow> unit cm" where
  "Conv_SaveImage ev imageNames hasPushFlag insecurePush cacheHint cacheFrom noManifestList =
    bindR (checkAllowed saveImageCmd) (\<lambda>_.
    readR id (\<lambda>c.
    if noManifestList \<and> \<not> cmd_ftr c ''use-no-manifest-list'' then failR (CMsg ''SAVE IMAGE --no-manifest-list is not supported in this version'')
    else
      bindR newCmdID (\<lambda>_.
      bindR (forR cacheFrom (\<lambda>cf. updShared (\<lambda>sh. sh\<lparr>sh_cacheImports := CacheImports_Add cf (sh_cacheImports sh)\<rparr>))) (\<lambda>_.
      let justCacheHint = (imageNames = [] \<and> cacheHint); imageNames = (if justCacheHint then [[]] else imageNames) in
      bindR (forR imageNames (saveOneImage ev hasPushFlag insecurePush cacheHint noManifestList)) (\<lambda>_.
      if \<not> justCacheHint then ranSaved else retR ())))))"

text \<open>\<open>canSave\<close>: is the destination of an artifact below the directory of the target?\<close>

definition canSave :: "cenv \<Rightarrow> string \<Rightarrow> string \<Rightarrow> string + bool" where
  "canSave ev localPath saveAsLocalTo =
    rbind (ce_Abs ev localPath) (\<lambda>basepath.
    rbind (ce_DirExists ev basepath) (\<lambda>exists.
    if \<not> exists then Inl (''no such directory: '' @ basepath)
    else
      let basepath = basepath @ ''/''; hasTrailingSlash = suffix ''/'' saveAsLocalTo \<and> saveAsLocalTo \<noteq> ''/'';
          adj = (if \<not> prefix ''/'' saveAsLocalTo then path_Join localPath saveAsLocalTo else saveAsLocalTo)
      in rbind (ce_Abs ev adj) (\<lambda>adj.
         Inr (prefix basepath (if hasTrailingSlash then adj @ ''/'' else adj)))))"

definition sts_SetDoSaves :: "ConvTarget \<Rightarrow> wstore \<Rightarrow> ConvTarget \<times> wstore" where
  "sts_SetDoSaves t ws = (t\<lparr>ct_doSaves := True\<rparr>, foldl (\<lambda>ws b. SetDoSaves b ws) (upd_items SetDoSave (ct_WaitItems t) ws) (ct_WaitBlocks t))"

definition sts_SetDoPushes :: "ConvTarget \<Rightarrow> wstore \<Rightarrow> ConvTarget \<times> wstore" where
  "sts_SetDoPushes t ws = (t\<lparr>ct_doPushes := True\<rparr>, foldl (\<lambda>ws b. SetDoPushes b ws) (upd_items SetDoPush (ct_WaitItems t) ws) (ct_WaitBlocks t))"

definition updSts :: "(ConvTarget \<Rightarrow> wstore \<Rightarrow> ConvTarget \<times> wstore) \<Rightarrow> unit cm" where
  "updSts f c = (let (t, ws) = f (cv_final c) (sh_ws (cv_shared c)) in
     (Inr (), c\<lparr>cv_final := t, cv_shared := (cv_shared c)\<lparr>sh_ws := ws\<rparr>\<rparr>))"

text \<open>\<open>FinalizeStates\<close>, without the execution that it starts in the background. Its end, with what it
  does when the saves and pushes of the target are wanted:\<close>

definition finalizeEnd :: "Converter \<Rightarrow> ConvTarget cm" where
  "finalizeEnd c0 =
    bindR (if cp_DoSaves (cv_opt c0) then updSts sts_SetDoSaves else retR ()) (\<lambda>_.
    bindR (if cp_DoPushes (cv_opt c0) then updSts sts_SetDoPushes else retR ()) (\<lambda>_.
    bindR (if cmd_ftr c0 ''wait-block'' then readR id (\<lambda>c. bindR (addWaitItem (WState (ct_MainState (cv_final c)))) (\<lambda>_. retR ())) else retR ()) (\<lambda>_.
    bindR (updFinal (\<lambda>t. t\<lparr>ct_done := True\<rparr>)) (\<lambda>_.
    readR cv_final retR))))"

definition FinalizeStates :: "cenv \<Rightarrow> ConvTarget cm" where
  "FinalizeStates ev =
    bindR markFakeDeps (\<lambda>_.
    readR id (\<lambda>c.
    if \<not> IsStackAtBase (cv_vars c) then failR (CMsg ''internal error: stack not at base in FinalizeStates'')
    else
      bindR (readO Coll_Imports) (\<lambda>imports.
      bindR (updFinal (\<lambda>t. t\<lparr>ct_MainState := persistCache ev c (ct_MainState t), ct_PlatformResolver := Some (cv_platr c),
               ct_VarCollection := Some (cv_vars c), ct_GlobalImports := ir_global imports\<rparr>)) (\<lambda>_.
      finalizeEnd c))))"

text \<open>\<open>NewConverter\<close>, with the features and the directory of the build context.\<close>

definition NewConverter ::
  "cenv \<Rightarrow> Target_ref \<Rightarrow> Features \<Rightarrow> GitMetadata option \<Rightarrow> DefaultArgs \<Rightarrow> bool \<Rightarrow> string \<Rightarrow> ConvTarget \<Rightarrow> ConvertOpt \<Rightarrow> shared \<Rightarrow> bool \<Rightarrow> Converter" where
  "NewConverter ev target ftrs gitMeta builtinArgs isCI localWorkingDir sts opt sh globalWaitBlock =
    \<lparr>cv_target = target, cv_final = sts\<lparr>ct_HasDangling := cp_HasDangling opt\<rparr>, cv_platr = cp_PlatformResolver opt, cv_opt = opt,
     cv_vars = NewCollection (ce_Normalize ev) (ce_Format ev)
       \<lparr>no_PlatformResolver = Some (cp_PlatformResolver opt), no_GitMeta = gitMeta, no_OverridingVars = Some (cp_OverridingVars opt),
        no_Features = cp_Features opt, no_GlobalImports = cp_GlobalImports opt, no_Log = [], no_Target = target,
        no_BuiltinArgs = builtinArgs, no_Push = cp_DoPushes opt, no_CI = isCI\<rparr>,
     cv_ftrs = (if globalWaitBlock then ftrs\<lparr>fe_on := (fe_on ftrs)(''wait-block'' := True)\<rparr> else ftrs),
     cv_caches = [], cv_waitStack = (case cp_waitBlock opt of None \<Rightarrow> [] | Some b \<Rightarrow> [b]), cv_directDeps = [],
     cv_localWorkingDir = localWorkingDir, cv_nextCmdID = 0, cv_cmdSet = False, cv_ranSave = False, cv_shared = sh\<rparr>"


end
