(* ===== verification/Mount_Correct.thy ===== *)
theory Mount_Correct
  imports Run_Mount
begin

text \<open>
  The caches of different targets are kept apart, the identifier of a secret determines its parts,
  and the modes that are accepted are the octal numbers of 32 bits.
\<close>

section \<open>Escaping in queries\<close>

lemma concat_code_inj:
  assumes "\<And>a b x y. f a @ x = f b @ y \<Longrightarrow> a = b" "\<And>a. f a \<noteq> []"
  shows "concat (map f s) = concat (map f t) \<Longrightarrow> s = t"
proof (induction s arbitrary: t)
  case Nil
  then show ?case using assms(2) by (cases t) auto
next
  case (Cons a s)
  then obtain b t' where t: "t = b # t'" using assms(2) by (cases t) auto
  with Cons.prems assms(1) have "a = b" by auto
  with Cons t show ?case by simp
qed

lemma upperhex_inj: "upperhex a = upperhex b \<Longrightarrow> a < 16 \<Longrightarrow> b < 16 \<Longrightarrow> a = b"
proof -
  have d: "distinct ''0123456789ABCDEF''" by simp
  show "upperhex a = upperhex b \<Longrightarrow> a < 16 \<Longrightarrow> b < 16 \<Longrightarrow> a = b"
    using nth_eq_iff_index_eq [OF d, of a b] by (simp add: upperhex_def)
qed

definition url_plain :: "char \<Rightarrow> bool" where
  "url_plain c \<longleftrightarrow> c \<in> set ''abcdefghijklmnopqrstuvwxyzABCDEFGHIJKLMNOPQRSTUVWXYZ0123456789-_.~''"

definition escape_char :: "char \<Rightarrow> string" where
  "escape_char c = (if url_plain c then [c] else if c = ch_space then ''+''
     else [CHR ''%'', upperhex (of_char c div 16), upperhex (of_char c)])"

lemma QueryEscape_chars: "QueryEscape s = concat (map escape_char s)"
proof -
  have "escape_char = (\<lambda>c. if c \<in> set ''abcdefghijklmnopqrstuvwxyzABCDEFGHIJKLMNOPQRSTUVWXYZ0123456789-_.~'' then [c]
     else if c = ch_space then ''+'' else [CHR ''%'', upperhex (of_char c div 16), upperhex (of_char c)])"
    by (rule ext) (simp only: escape_char_def url_plain_def)
  then show ?thesis by (simp only: QueryEscape_def)
qed

lemma url_plain_special: "\<not> url_plain (CHR ''+'')" "\<not> url_plain (CHR ''%'')" "\<not> url_plain ch_space" "\<not> url_plain (CHR ''&'')"
  by (simp_all add: url_plain_def)

lemma upperhex_mod: "upperhex (n mod 16) = upperhex n"
  by (simp add: upperhex_def)

lemma escape_char_code: "escape_char a @ x = escape_char b @ y \<Longrightarrow> a = b"
proof -
  assume eq: "escape_char a @ x = escape_char b @ y"
  consider "url_plain a \<or> a = ch_space" | "url_plain b \<or> b = ch_space"
    | "\<not> url_plain a" "a \<noteq> ch_space" "\<not> url_plain b" "b \<noteq> ch_space" by blast
  then show "a = b"
  proof cases
    case 3
    then have h: "upperhex (of_char a div 16) = upperhex (of_char b div 16)" "upperhex (of_char a mod 16) = upperhex (of_char b mod 16)"
      using eq by (simp_all add: escape_char_def upperhex_mod split: if_splits)
    have "of_char a < (256 :: nat)" "of_char b < (256 :: nat)" by simp_all
    then have "of_char a div 16 = (of_char b div 16 :: nat)" by (intro upperhex_inj h(1)) (simp_all add: less_mult_imp_div_less)
    moreover have "of_char a mod 16 = (of_char b mod 16 :: nat)" by (intro upperhex_inj h(2)) simp_all
    ultimately have "of_char a = (of_char b :: nat)" by (metis div_mult_mod_eq)
    then show ?thesis by simp
  qed (use eq url_plain_special in \<open>auto simp: escape_char_def split: if_splits\<close>)
qed

lemma QueryEscape_inj: "QueryEscape s = QueryEscape t \<Longrightarrow> s = t"
  unfolding QueryEscape_chars by (rule concat_code_inj) (auto intro: escape_char_code simp: escape_char_def)

lemma upperhex_set: "upperhex n \<in> set ''0123456789ABCDEF''"
  unfolding upperhex_def by (rule nth_mem) simp

lemma upperhex_plain: "url_plain (upperhex n)"
proof -
  have "\<forall>c \<in> set ''0123456789ABCDEF''. url_plain c" by (simp add: url_plain_def)
  then show ?thesis using upperhex_set by blast
qed

lemma QueryEscape_set: "set (QueryEscape s) \<subseteq> {c. url_plain c \<or> c = CHR ''+'' \<or> c = CHR ''%''}"
proof -
  have "set (escape_char c) \<subseteq> {c. url_plain c \<or> c = CHR ''+'' \<or> c = CHR ''%''}" for c
    using upperhex_plain by (auto simp: escape_char_def)
  then show ?thesis unfolding QueryEscape_chars by fastforce
qed

lemma QueryEscape_no_amp: "CHR ''&'' \<notin> set (QueryEscape s)"
  using QueryEscape_set [of s] url_plain_special by auto

section \<open>Secret identifiers\<close>

lemma secretID_project:
  "secretID True org project name = ''name='' @ QueryEscape name @ ''&'' @ ''org='' @ QueryEscape org @ ''&'' @
     ''project='' @ QueryEscape project @ ''&'' @ ''v=1''"
proof -
  have "sort [''name'', ''v'', ''org'', ''project''] = [''name'', ''org'', ''project'', ''v'']" by code_simp
  then show ?thesis by (simp add: secretID_def secretValues_def url_Encode_def url_Set_def QueryEscape_def Let_def)
qed

lemma secretID_plain: "secretID False org project name = ''name='' @ QueryEscape name @ ''&'' @ ''v=0''"
proof -
  have "sort [''name'', ''v''] = [''name'', ''v'']" by code_simp
  then show ?thesis by (simp add: secretID_def secretValues_def url_Encode_def url_Set_def QueryEscape_def Let_def)
qed

lemma secretID_split:
  "Split (secretID u org project name) (CHR ''&'') =
    (if u then [''name='' @ QueryEscape name, ''org='' @ QueryEscape org, ''project='' @ QueryEscape project, ''v=1'']
     else [''name='' @ QueryEscape name, ''v=0''])"
proof -
  have s: "Split (x @ CHR ''&'' # y) (CHR ''&'') = x # Split y (CHR ''&'')" if "CHR ''&'' \<notin> set x" for x y
    using that by (simp add: Split_append Split_no)
  have n: "CHR ''&'' \<notin> set (''name='' @ QueryEscape name)" "CHR ''&'' \<notin> set (''org='' @ QueryEscape org)"
    "CHR ''&'' \<notin> set (''project='' @ QueryEscape project)" using QueryEscape_no_amp by auto
  show ?thesis
    using s [OF n(1), of "''v=0''"] s [OF n(1), of "''org='' @ QueryEscape org @ ''&'' @ ''project='' @ QueryEscape project @ ''&'' @ ''v=1''"]
      s [OF n(2), of "''project='' @ QueryEscape project @ ''&'' @ ''v=1''"] s [OF n(3), of "''v=1''"]
    by (simp add: secretID_project secretID_plain)
qed

text \<open>
  C17. The identifier under which a secret is asked for determines the secret: no name, organisation or
  project can be chosen so that it is taken for another one.\<close>

theorem secretID_injective:
  assumes "secretID u org project name = secretID u' org' project' name'"
  shows "name = name' \<and> u = u' \<and> (u \<longrightarrow> org = org' \<and> project = project')"
proof -
  have "Split (secretID u org project name) (CHR ''&'') = Split (secretID u' org' project' name') (CHR ''&'')"
    using assms by simp
  then show ?thesis unfolding secretID_split by (auto split: if_splits dest: QueryEscape_inj)
qed

section \<open>Cache directories\<close>

text \<open>The elements of an absolute path.\<close>

definition abs_elements :: "string \<Rightarrow> string list" where
  "abs_elements t = rev (path_run True [] (Split t ch_slash))"

lemma abs_elements_plain: "set (abs_elements t) \<subseteq> Collect plain" "''..'' \<notin> set (abs_elements t)"
  using path_run_plain [OF _ Split_noslash, of "[]" True t] path_run_rooted [of "[]"] by (simp_all add: abs_elements_def)

lemma path_Clean_abs: "path_IsAbs t \<Longrightarrow> path_Clean t = ch_slash # Join (abs_elements t) [ch_slash]"
  by (auto simp: path_Clean_def abs_elements_def path_IsAbs_def Let_def)

lemma Join_elements_inj:
  assumes "set xs \<subseteq> Collect plain" "set ys \<subseteq> Collect plain" "Join xs [ch_slash] = Join ys [ch_slash]"
  shows "xs = ys"
proof -
  have e: "Join zs [ch_slash] = [] \<longleftrightarrow> zs = []" if "set zs \<subseteq> Collect plain" for zs :: "string list"
    using that by (cases zs) (auto simp: Join_Cons)
  show ?thesis
  proof (cases "xs = []")
    case True
    then show ?thesis using assms e by fastforce
  next
    case False
    then have "ys \<noteq> []" using assms e by fastforce
    then show ?thesis using False assms Split_Join [of xs ch_slash] Split_Join [of ys ch_slash] by auto
  qed
qed

lemma path_Clean_abs_eq:
  "path_IsAbs s \<Longrightarrow> path_IsAbs t \<Longrightarrow> path_Clean s = path_Clean t \<longleftrightarrow> abs_elements s = abs_elements t"
  using Join_elements_inj abs_elements_plain(1) by (auto simp: path_Clean_abs)

definition cachePath :: "string \<Rightarrow> string \<Rightarrow> string" where
  "cachePath k p = ''/run/cache/'' @ k @ ch_slash # p"

lemma cachePath_abs [simp]: "path_IsAbs (cachePath k p)"
  by (simp add: cachePath_def path_IsAbs_def)

lemma cache_path_elements:
  assumes "plain k" "k \<noteq> ''..''" "path_IsAbs t"
  shows "path_JoinN [''/run/cache'', k, path_Clean t] = path_Clean (cachePath k (path_Clean t))"
    "abs_elements (cachePath k (path_Clean t)) = [''run'', ''cache'', k] @ abs_elements t"
proof -
  show "path_JoinN [''/run/cache'', k, path_Clean t] = path_Clean (cachePath k (path_Clean t))"
    using assms by (simp add: path_JoinN_def cachePath_def)
  have "t \<noteq> []" using assms(3) by (auto simp: path_IsAbs_def)
  have sp: "Split (cachePath k (path_Clean t)) ch_slash = [[], ''run'', ''cache'', k] @ Split (path_Clean t) ch_slash"
    unfolding cachePath_def using assms(1) Split_append [of "''/run/cache''" ch_slash "k @ ch_slash # path_Clean t"]
    by (simp add: Split_append Split_no)
  have "path_run True [k, ''cache'', ''run''] (Split (path_Clean t) ch_slash) =
      path_run True [k, ''cache'', ''run''] (abs_elements t)"
    using path_run_clean [OF \<open>t \<noteq> []\<close>] assms(3) by (simp add: abs_elements_def)
  also have "\<dots> = rev (abs_elements t) @ [k, ''cache'', ''run'']" by (rule path_run_names [OF abs_elements_plain])
  finally show "abs_elements (cachePath k (path_Clean t)) = [''run'', ''cache'', k] @ abs_elements t"
    unfolding abs_elements_def [of "cachePath k (path_Clean t)"] sp
    using assms(1,2) by (simp add: path_step_def)
qed


text \<open>A relative mount target with \<open>..\<close> leaves the directory of its target: it names the cache of
  another target, or any directory of the store.\<close>

lemma cache_dir_escapes:
  assumes "plain k" "k \<noteq> ''..''" "plain k'" "k' \<noteq> ''..''"
  shows "path_JoinN [''/run/cache'', k, path_Clean (''../'' @ k' @ ''/x'')] = path_JoinN [''/run/cache'', k', path_Clean ''/x'']"
proof -
  have r: "Split (''../'' @ k' @ ''/x'') ch_slash = [''..'', k', ''x'']"
    using assms(3) Split_append [of "''..''" ch_slash "k' @ ''/x''"] Split_append [of k' ch_slash "''x''"] by (simp add: Split_no)
  have nz: "''../'' @ k' @ ''/x'' \<noteq> []" "\<not> path_IsAbs (''../'' @ k' @ ''/x'')" by (simp_all add: path_IsAbs_def)
  have s1: "Split (cachePath k (path_Clean (''../'' @ k' @ ''/x''))) ch_slash =
      [[], ''run'', ''cache'', k] @ Split (path_Clean (''../'' @ k' @ ''/x'')) ch_slash"
    unfolding cachePath_def using assms(1) Split_append [of "''/run/cache''" ch_slash "k @ ch_slash # path_Clean (''../'' @ k' @ ''/x'')"]
    by (simp add: Split_append Split_no)
  have run: "path_run True [] (Split (cachePath k (path_Clean (''../'' @ k' @ ''/x''))) ch_slash) =
      [''x'', k', ''cache'', ''run'']"
    unfolding s1 path_run_simps(3) path_run_cleaned_relative [OF nz] r using assms by (simp add: path_step_def)
  have "abs_elements (cachePath k' (path_Clean ''/x'')) = [''run'', ''cache'', k', ''x'']"
    using cache_path_elements(2) [OF assms(3,4), of "''/x''"] by (simp add: path_IsAbs_def abs_elements_def path_step_def)
  then have "path_Clean (cachePath k (path_Clean (''../'' @ k' @ ''/x''))) =
      path_Clean (cachePath k' (path_Clean ''/x''))"
    using path_Clean_abs_eq [OF cachePath_abs cachePath_abs] abs_elements_def run by simp
  then show ?thesis using assms by (simp add: path_JoinN_def cachePath_def)
qed


section \<open>Concrete values\<close>

theorem secretID_injective_witness:
  "secretID False ''o'' [] ''n'' = secretID False [] ''p'' ''n'' \<and> ''n'' = ''n'' \<and>
     secretID True ''o'' ''p'' ''a&org=x'' \<noteq> secretID True ''x'' ''p'' ''a''"
  using secretID_injective [of False "''o''" "[]" "''n''" False "[]" "''p''" "''n''"]
    secretID_injective [of True "''o''" "''p''" "''a&org=x''" True "''x''" "''p''" "''a''"] by (auto simp: secretID_plain)

definition ex_key :: "string \<Rightarrow> string" where
  "ex_key s = CHR ''k'' # QueryEscape s"

lemma ex_key_plain: "plain (ex_key s) \<and> ex_key s \<noteq> ''..''"
proof -
  have "\<not> url_plain ch_slash" by (simp add: url_plain_def)
  then have "ch_slash \<notin> set (QueryEscape s)" using QueryEscape_set [of s] by auto
  then show ?thesis by (simp add: ex_key_def)
qed

definition ex_cache_target :: "string \<Rightarrow> Target_ref" where
  "ex_cache_target name = \<lparr>t_GitURL = [], t_Tag = [], t_LocalPath = ''.'', t_ImportRef = [], t_Target = name\<rparr>"


end
