(* ===== verification/Converter_Inv.thy ===== *)
theory Converter_Inv
  imports Converter_Build Mount_Correct
begin

text \<open>
  The invariant of a converter: the environment that a command of the build sees, which is that of the
  state, is the one from which the converter expands variables, and the maps of the image are never
  nil. It is kept by every command; what a finished target hands to the targets that start from it
  has it again.
\<close>

section \<open>The environment of a state\<close>

lemma env_of_append: "env_of (s @ t) k = (case env_of t k of Some v \<Rightarrow> Some v | None \<Rightarrow> env_of s k)"
  by (induction s k rule: env_of.induct) (auto split: option.splits)

lemma env_of_ops [simp]:
  "env_of (AddEnv_st j v s) k = (if j = k then Some v else env_of s k)" "env_of (Dir_st p s) = env_of s" "env_of (User_st u s) = env_of s"
  "env_of (Platform_st pl s) = env_of s" "env_of (AddExtraHost h ip s) = env_of s" "env_of Scratch k = None"
  by (auto simp: env_of_append AddEnv_st_def Dir_st_def User_st_def Platform_st_def AddExtraHost_def Scratch_def)

lemma env_of_persist [simp]: "env_of (persistCache ev c s) = env_of s"
proof -
  have "env_of (foldl (\<lambda>dest (dir, m). if ck_Persisted m then dest @ [LPersist dir (ck_RunOption m)] else dest) s cs) = env_of s" for cs
    by (induction cs arbitrary: s) (auto simp: env_of_append fun_eq_iff)
  then show ?thesis by (simp add: persistCache_def)
qed

definition env_agrees :: "llb \<Rightarrow> Scope \<Rightarrow> bool" where
  "env_agrees st envs \<longleftrightarrow> all_active envs \<and> (\<forall>k. env_of st k = Scope_Get envs k True)"

definition image_ok :: "Image \<Rightarrow> bool" where
  "image_ok i \<longleftrightarrow> im_ExposedPorts i \<noteq> None \<and> im_Volumes i \<noteq> None \<and> im_Labels i \<noteq> None"

definition conv_inv :: "Converter \<Rightarrow> bool" where
  "conv_inv c \<longleftrightarrow> env_agrees (ct_MainState (cv_final c)) (co_envs (cv_vars c)) \<and> image_ok (ct_MainImage (cv_final c))"

text \<open>What a finished target hands over.\<close>

definition target_ok :: "ConvTarget \<Rightarrow> bool" where
  "target_ok t \<longleftrightarrow> ct_PlatformResolver t \<noteq> None \<and> ct_done t \<and>
    (case ct_VarCollection t of None \<Rightarrow> False | Some vs \<Rightarrow> co_stack vs \<noteq> [] \<and> env_agrees (ct_MainState t) (co_envs vs))"

definition children_ok :: "cenv \<Rightarrow> bool" where
  "children_ok ev \<longleftrightarrow> (\<forall>target opt sh. case fst (ce_Earthfile2LLB ev target opt sh) of Inl _ \<Rightarrow> True | Inr t \<Rightarrow> target_ok t)"

lemma env_agrees_add: "env_agrees st envs \<Longrightarrow> env_agrees (AddEnv_st k v st) (snd (Scope_Add envs k v True False))"
  using all_active_Add [of envs k v False] by (auto simp: env_agrees_def scope.get_add all_active_def)

lemma env_agrees_new: "(\<And>k. env_of st k = None) \<Longrightarrow> env_agrees st NewScope"
  by (simp add: env_agrees_def scope.get_new)

lemma env_agrees_get: "env_agrees st envs \<Longrightarrow> env_of st k = Scope_Get envs k True"
  by (simp add: env_agrees_def)

lemma image_ok_Clone [simp]: "image_ok (Image_Clone i)"
  by (auto simp: image_ok_def Image_Clone_def NewImage_def split: option.split)

lemma image_ok_New [simp]: "image_ok NewImage"
  by (simp add: image_ok_def NewImage_def)

text \<open>The loop of \<open>applyFromImage\<close> declares every variable of the image in the state.\<close>

lemma env_of_declared:
  "(\<And>n. n \<in> set ns \<Longrightarrow> g n \<noteq> None) \<Longrightarrow>
   env_of (foldl (\<lambda>st n. AddEnv_st n (case g n of None \<Rightarrow> [] | Some v \<Rightarrow> v) st) st ns) k =
     (if k \<in> set ns then g k else env_of st k)"
proof (induction ns arbitrary: st)
  case (Cons n ns)
  then obtain v where "g n = Some v" by force
  with Cons show ?case by auto
qed simp

lemma set_Scope_Sorted: "set (Scope_Sorted s act) = {k. Scope_Get s k act \<noteq> None}"
  by (auto simp: Scope_Sorted_def map_of_Scope_Map [symmetric] map_of_eq_None_iff Scope_Map_def)

lemma applyFromImage_ok:
  assumes "\<And>k. env_of st k = None" "applyFromImage st img = (st', img', envs)"
  shows "env_agrees st' envs" "image_ok img'"
proof -
  let ?e = "ParseEnvVars (im_Env img)"
  have "env_of (foldl (\<lambda>st n. AddEnv_st n (case Scope_Get ?e n True of None \<Rightarrow> [] | Some v \<Rightarrow> v) st) st (Scope_Sorted ?e True)) k = Scope_Get ?e k True" for k
    using assms(1) by (subst env_of_declared) (auto simp: set_Scope_Sorted)
  then show "env_agrees st' envs" "image_ok img'"
    using assms(2) by (auto simp: applyFromImage_def Let_def env_agrees_def image_ok_def ParseEnvVars_ok)
qed

section \<open>The invariant along a command\<close>

definition conv_keeps :: "Converter \<Rightarrow> Converter \<Rightarrow> bool" where
  "conv_keeps s t \<longleftrightarrow> (conv_inv s \<longrightarrow> conv_inv t)"

interpretation conv: run_rel conv_keeps conv_keeps
  by unfold_locales (auto simp: conv_keeps_def)

lemma conv_okI: "(\<And>c. conv_inv c \<Longrightarrow> conv_inv (snd (m c))) \<Longrightarrow> conv.ok s0 m"
  by (rule conv.quiet_ok) (auto simp: conv.quiet_def conv_keeps_def)

lemma conv_okD: "(\<And>s. conv.ok s m) \<Longrightarrow> conv_inv c \<Longrightarrow> conv_inv (snd (m c))"
  using conv.okD [of c m c "fst (m c)" "snd (m c)"] by (auto simp: conv_keeps_def split: sum.splits)

lemma ok_updFinal:
  "(\<And>t. ct_MainState (f t) = ct_MainState t) \<Longrightarrow> (\<And>t. ct_MainImage (f t) = ct_MainImage t) \<Longrightarrow> conv.ok s0 (updFinal f)"
  by (rule conv_okI) (simp add: updFinal_def modR_def conv_inv_def)

lemma ok_updImage: "(\<And>i. image_ok i \<Longrightarrow> image_ok (f i)) \<Longrightarrow> conv.ok s0 (updImage f)"
  by (rule conv_okI) (simp add: updImage_def updFinal_def modR_def conv_inv_def)

lemma ok_updState: "(\<And>st. env_of (f st) = env_of st) \<Longrightarrow> conv.ok s0 (updState f)"
  by (rule conv_okI) (simp add: updState_def updFinal_def modR_def conv_inv_def env_agrees_def)

lemma ok_updShared: "conv.ok s0 (updShared f)"
  by (rule conv_okI) (simp add: updShared_def modR_def conv_inv_def)

lemma ok_varsU: "(\<And>v. co_envs (f v) = co_envs v) \<Longrightarrow> conv.ok s0 (varsU f)"
  by (rule conv_okI) (simp add: varsU_def modR_def conv_inv_def)

lemma ok_varsO: "(\<And>v v'. f v = Some v' \<Longrightarrow> co_envs v' = co_envs v) \<Longrightarrow> conv.ok s0 (varsO f)"
  by (rule conv_okI) (auto simp: varsO_def conv_inv_def split: option.split)

lemma ok_varsE: "(\<And>v r v'. f v = Some (r, v') \<Longrightarrow> co_envs v' = co_envs v) \<Longrightarrow> conv.ok s0 (varsE f)"
  by (rule conv_okI) (auto simp: varsE_def conv_inv_def split: option.split)

lemma ok_readO: "conv.ok s0 (readO f)"
  by (rule conv_okI) (auto simp: readO_def split: option.split)

lemma ok_panicC: "conv.ok s0 (panicC msg)"
  by (simp add: panicC_def conv.ok_fail)

lemma ok_newCmdID: "conv.ok s0 newCmdID"
  by (rule conv_okI) (simp add: newCmdID_def rs_defs conv_inv_def)

lemma ok_checkAllowed: "conv.ok s0 (checkAllowed cmd)"
  by (rule conv_okI) (simp add: checkAllowed_def rs_defs)

lemma ok_nonSaveCommand: "conv.ok s0 nonSaveCommand"
  by (rule conv_okI) (simp add: nonSaveCommand_def rs_defs conv_inv_def)

lemma ok_command: "conv.ok s0 k \<Longrightarrow> conv.ok s0 (command cmd k)"
  unfolding command_def by (intro conv.ok_bind ok_checkAllowed ok_nonSaveCommand)

lemma ok_refR: "conv.ok s0 (refR r)" and ok_extR: "conv.ok s0 (extR q)"
  by (auto simp: refR_def extR_def intro!: conv.ok_rules)

lemmas conv_ok = conv.ok_rules conv.ok_read ok_updShared ok_readO ok_panicC ok_newCmdID ok_checkAllowed ok_nonSaveCommand ok_command ok_refR ok_extR

section \<open>The collection keeps the environment\<close>

lemma envs_updFrame: "updFrame f v = Some v' \<Longrightarrow> co_envs v' = co_envs v"
  by (auto simp: updFrame_def split: if_splits)

lemma envs_effective: "effective v = Some (s, v') \<Longrightarrow> co_envs v' = co_envs v"
  by (auto simp: effective_def Let_def split: option.splits Option.bind_splits)

lemma envs_frames:
  "SetGlobals v g = Some v' \<Longrightarrow> co_envs v' = co_envs v" "SetArg v k x = Some v' \<Longrightarrow> co_envs v' = co_envs v"
  "UnsetArg v k = Some v' \<Longrightarrow> co_envs v' = co_envs v" "ExitFrame v = Some v' \<Longrightarrow> co_envs v' = co_envs v"
  by (auto simp: SetGlobals_def SetArg_def UnsetArg_def ExitFrame_def dest: envs_updFrame split: if_splits)

lemma envs_Get: "Coll_Get v k act = Some (r, v') \<Longrightarrow> co_envs v' = co_envs v"
  by (auto simp: Coll_Get_def split: Option.bind_splits dest: envs_effective)

lemma envs_declareOldArg: "declareOldArg v k d g p = Some (r, v') \<Longrightarrow> co_envs v' = co_envs v"
  by (auto simp: declareOldArg_def split: Option.bind_splits option.splits sum.splits prod.splits if_splits dest!: envs_effective envs_updFrame)

lemma envs_declareScoped: "declareScoped v k p = Some (r, v') \<Longrightarrow> co_envs v' = co_envs v"
  by (auto simp: declareScoped_def Let_def split: Option.bind_splits sum.splits prod.splits if_splits dest!: envs_updFrame)

lemma envs_DeclareVar: "DeclareVar v k opts = Some (r, v') \<Longrightarrow> co_envs v' = co_envs v"
  by (auto simp: DeclareVar_def Let_def split: if_splits dest!: envs_declareOldArg envs_declareScoped)

lemma envs_UpdateVar: "UpdateVar v k x p = Some (r, v') \<Longrightarrow> co_envs v' = co_envs v"
  by (auto simp: UpdateVar_def split: Option.bind_splits sum.splits prod.splits if_splits dest!: envs_effective envs_updFrame)

lemma envs_parseArg: "parseArg a p v = Some (r, v') \<Longrightarrow> co_envs v' = co_envs v"
  by (auto simp: parseArg_def Let_def split: Option.bind_splits prod.splits if_splits dest: envs_Get)

lemma envs_buildArgsLoop: "buildArgsLoop as p v s = Some (r, v') \<Longrightarrow> co_envs v' = co_envs v"
proof (induction as arbitrary: v s)
  case (Cons a as)
  then obtain r1 v1 where 1: "parseArg a p v = Some (r1, v1)" by (cases "parseArg a p v") auto
  show ?case
  proof (cases r1)
    case (Inl e)
    then show ?thesis using Cons.prems 1 envs_parseArg [OF 1] by simp
  next
    case (Inr kv)
    then show ?thesis using Cons 1 envs_parseArg [OF 1] by (cases kv) simp
  qed
qed simp

lemma envs_ParseArgs: "Var_ParseArgs as p v = Some (r, v') \<Longrightarrow> co_envs v' = co_envs v"
  by (simp add: Var_ParseArgs_def envs_buildArgsLoop)

lemmas envs_kept = envs_ParseArgs envs_updFrame envs_effective envs_frames envs_Get envs_DeclareVar envs_UpdateVar

end
