(* ===== verification/Converter_Correct.thy ===== *)
theory Converter_Correct
  imports Converter_Inv
begin

text \<open>
  Correctness of the converter: the commands keep the invariant of \<open>Converter_Inv\<close>, what a finished
  target hands over is what a target that starts from it relies on, and what a converter passes on to
  the targets that it asks for.
\<close>

section \<open>The commands of one target\<close>

lemma ok_image_cmds:
  "conv.ok s0 (Conv_Workdir p)" "conv.ok s0 (Conv_User u)" "conv.ok s0 (Conv_Cmd args sh)" "conv.ok s0 (Conv_Entrypoint args sh)"
  "conv.ok s0 (Conv_Expose ports)" "conv.ok s0 (Conv_Volume vols)" "conv.ok s0 (Conv_Label ls)"
  "conv.ok s0 (Conv_Healthcheck n as i t sp rt si)" "conv.ok s0 (Conv_Host h ip)"
  unfolding Conv_Workdir_def Conv_User_def Conv_Cmd_def Conv_Entrypoint_def Conv_Expose_def Conv_Volume_def Conv_Label_def
    Conv_Healthcheck_def Conv_Host_def Let_def
  by (intro conv_ok ok_updState ok_updImage conv_okI; auto simp: image_ok_def modR_def conv_inv_def env_of_append fun_eq_iff)+

lemma ok_Env: "conv.ok s0 (Conv_Env k v)"
proof -
  have "conv.ok s0 (bindR (varsU (\<lambda>vars. DeclareEnv vars k v)) (\<lambda>_. bindR (updState (AddEnv_st k v)) (\<lambda>_. updImage (\<lambda>i. i\<lparr>im_Env := AddEnv (im_Env i) k v\<rparr>))))"
    by (rule conv_okI)
      (simp add: varsU_def updState_def updImage_def updFinal_def bindR_def modR_def conv_inv_def image_ok_def DeclareEnv_def env_agrees_add)
  then show ?thesis unfolding Conv_Env_def by (rule ok_command)
qed

lemma ok_addInput: "conv.ok s0 (addInput n v d)"
  unfolding addInput_def by (rule ok_updFinal) simp_all

lemma ok_variable_cmds:
  "conv.ok s0 (Conv_Arg ev k d opts)" "conv.ok s0 (Conv_Let k x)" "conv.ok s0 (Conv_UpdateArg ev k x)" "conv.ok s0 (Conv_SetArg k x)"
  "conv.ok s0 (Conv_UnsetArg k)" "conv.ok s0 (Conv_Project org proj)" "conv.ok s0 (Conv_Import ev imp as g cp ap)" "conv.ok s0 ExitScope"
  unfolding Conv_Arg_def Conv_Let_def Conv_UpdateArg_def Conv_SetArg_def Conv_UnsetArg_def Conv_Project_def Conv_Import_def ExitScope_def Let_def
  by (intro conv_ok ok_varsE ok_varsO ok_varsU ok_addInput; auto simp: SetProject_def SetOrg_def dest: envs_kept)+

lemma ok_Cache: "conv.ok s0 (Conv_Cache ev target opts)"
  unfolding Conv_Cache_def Let_def by (intro conv_ok conv.ok_mod) (simp_all add: conv_keeps_def conv_inv_def)

section \<open>Base images\<close>

lemma ok_setPlatform: "conv.ok s0 (setPlatform ev platform)"
  by (rule conv_okI) (simp add: setPlatform_def conv_inv_def SetPlatform_def Let_def split: prod.split)

lemma ok_checkOld: "conv.ok s0 (checkOldPlatformIncompatibility ev platform)"
  by (rule conv_okI) (simp add: checkOldPlatformIncompatibility_def rs_defs)

definition base_ok :: "llb \<times> Image \<times> Scope option \<Rightarrow> bool" where
  "base_ok r \<longleftrightarrow> (case r of (st, img, envs) \<Rightarrow> env_agrees st (case envs of None \<Rightarrow> NewScope | Some s \<Rightarrow> s) \<and> image_ok img)"

text \<open>Writing a base: the state, the image and the environment of the variables change together.\<close>

lemma ok_base:
  assumes "base_ok (st, img, envs)"
  shows "conv.ok s0 (bindR (updFinal (\<lambda>t. t\<lparr>ct_MainState := st, ct_MainImage := img, ct_RanFromLike := True\<rparr>)) (\<lambda>_. varsU (\<lambda>vars. ResetEnvVars vars envs)))"
  by (rule conv_okI) (use assms in \<open>simp add: updFinal_def varsU_def bindR_def modR_def conv_inv_def ResetEnvVars_def base_ok_def\<close>)

lemma internalFromClassical_ok: "conv.ok s0 (internalFromClassical ev name platform)"
  unfolding internalFromClassical_def Let_def by (intro conv_ok)

lemma internalFromClassical_gives: "conv.gives s0 (internalFromClassical ev name platform) base_ok"
proof -
  have "base_ok (st, img, Some vs)" if "applyFromImage [LImage ref, LPlatform p] i = (st, img, vs)" for ref p i st img vs
    using applyFromImage_ok [OF _ that] by (simp add: base_ok_def)
  moreover have "base_ok (Platform_st p Scratch, NewImage\<lparr>im_OS := a, im_Architecture := b\<rparr>, None)" for p a b
    by (simp add: base_ok_def env_agrees_new image_ok_def NewImage_def)
  ultimately show ?thesis
    by (auto simp: conv.gives_def internalFromClassical_def rs_defs Let_def extR_def split: sum.split prod.split)
qed

lemma ok_fromClassical: "conv.ok s0 (fromClassical ev name platform)"
  unfolding fromClassical_def
  by (rule conv.ok_bind [OF ok_newCmdID], rule conv.ok_bind_gives [OF internalFromClassical_ok internalFromClassical_gives])
    (auto intro!: conv.ok_prod ok_base)

lemma ok_Locally: "conv.ok s0 (Conv_Locally ev)"
  unfolding Conv_Locally_def
  by (intro conv_ok ok_fromClassical ok_varsU ok_updState ok_updImage ok_setPlatform) (simp_all add: Coll_SetLocally_def image_ok_def)

lemma ok_fromDockerfileImage: "conv.ok s0 (fromDockerfileImage st img)"
proof -
  obtain st2 img2 vs where a: "applyFromImage [LExternal st] img = (st2, img2, vs)" by (cases "applyFromImage [LExternal st] img")
  then have "base_ok (st2, img2, Some vs)" using applyFromImage_ok [OF _ a] by (simp add: base_ok_def)
  then show ?thesis by (simp add: fromDockerfileImage_def a ok_base)
qed


section \<open>Targets\<close>

lemma ok_callEarthfile2LLB: "conv.ok s0 (callEarthfile2LLB ev target opt)"
  by (rule conv_okI) (auto simp: callEarthfile2LLB_def conv_inv_def split: prod.split sum.split)

lemma ok_waitBlock_top: "conv.ok s0 waitBlock_top"
  unfolding waitBlock_top_def by (intro conv_ok)

lemma ok_prepBuildTarget: "conv.ok s0 (prepBuildTarget ev name platform ap pa args dangling cmdT pid)"
  unfolding prepBuildTarget_def absolutizeTarget_def prepOverridingVars_def joinRefs_def Let_def
  by (intro conv_ok ok_varsE ok_waitBlock_top; auto intro!: conv_ok dest: envs_kept split: Reference.split)

lemma ok_finalVars: "conv.ok s0 (finalVars mts)"
  unfolding finalVars_def by (intro conv_ok)

lemma ok_propagateGlobal: "conv.ok s0 (propagateGlobal mts g k)"
  unfolding propagateGlobal_def Let_def by (intro conv_ok ok_varsE ok_addInput) (auto dest: envs_kept)

lemma ok_buildTarget: "conv.ok s0 (buildTarget ev name platform ap pa args dangling cmdT pid)"
  unfolding buildTarget_def addBai_def
  by (intro conv_ok ok_prepBuildTarget ok_callEarthfile2LLB conv.ok_mod ok_addInput ok_finalVars ok_propagateGlobal ok_varsO ok_varsU)
    (auto simp: conv_keeps_def conv_inv_def SetProject_def SetOrg_def dest: envs_kept)

text \<open>The result of \<open>buildTarget\<close> is the result of the conversion.\<close>

lemma gives_call:
  assumes "children_ok ev"
  shows "conv.gives s0 (callEarthfile2LLB ev target opt) target_ok"
proof -
  have "case fst (ce_Earthfile2LLB ev target opt sh) of Inl _ \<Rightarrow> True | Inr t \<Rightarrow> target_ok t" for sh
    using assms by (simp add: children_ok_def)
  then show ?thesis by (auto simp: conv.gives_def callEarthfile2LLB_def split: prod.split sum.split)
    (metis fst_conv old.sum.simps(6))
qed

lemma gives_bind_gives:
  assumes "conv.ok s0 m" "conv.gives s0 m P" "\<And>x. P x \<Longrightarrow> conv.gives s0 (f x) Q"
  shows "conv.gives s0 (bindR m f) Q"
  unfolding conv.gives_def
proof (intro allI impI)
  fix t assume t: "conv_keeps s0 t"
  obtain r u where m: "m t = (r, u)" by (cases "m t")
  show "case fst (bindR m f t) of Inl _ \<Rightarrow> True | Inr x \<Rightarrow> Q x"
  proof (cases r)
    case (Inr x)
    then have "conv_keeps s0 u" "P x" using conv.okD [OF assms(1) t m] assms(2) t m by (auto simp: conv.gives_def)
    then show ?thesis using assms(3) [of x] m Inr by (simp add: conv.gives_def bindR_def)
  qed (use m in \<open>simp add: bindR_def\<close>)
qed

lemma gives_bind: "conv.ok s0 m \<Longrightarrow> (\<And>x. conv.gives s0 (f x) Q) \<Longrightarrow> conv.gives s0 (bindR m f) Q"
  by (rule gives_bind_gives [where P = "\<lambda>_. True"]) (auto simp: conv.gives_def split: sum.split)

lemma gives_ret: "P x \<Longrightarrow> conv.gives s0 (retR x) P" and gives_fail: "conv.gives s0 (failR e) P"
  by (simp_all add: conv.gives_def retR_def failR_def)

lemma gives_prod: "(\<And>a b. x = (a, b) \<Longrightarrow> conv.gives s0 (f a b) P) \<Longrightarrow> conv.gives s0 (case x of (a, b) \<Rightarrow> f a b) P"
  by (cases x) auto

lemma gives_if: "(b \<Longrightarrow> conv.gives s0 m P) \<Longrightarrow> (\<not> b \<Longrightarrow> conv.gives s0 n P) \<Longrightarrow> conv.gives s0 (if b then m else n) P"
  by simp

lemma gives_buildTarget:
  "children_ok ev \<Longrightarrow> conv.gives s0 (buildTarget ev name platform ap pa args dangling cmdT pid) target_ok"
  unfolding buildTarget_def addBai_def
  apply (rule gives_bind [OF ok_prepBuildTarget], intro gives_prod)
  apply (rule gives_bind_gives [OF ok_callEarthfile2LLB gives_call], assumption)
  apply (intro gives_if gives_bind gives_ret conv_ok conv.ok_mod ok_addInput ok_finalVars ok_propagateGlobal ok_varsO ok_varsU)
  apply (auto simp: conv_keeps_def conv_inv_def SetProject_def SetOrg_def dest: envs_kept)
  done

lemma Scope_Clone_wf: "scope_wf s \<Longrightarrow> Scope_Clone s = s"
proof -
  have "snd ` set al \<subseteq> {True} \<Longrightarrow> map (\<lambda>(k, _). (k, True)) al = al" for al :: "(string \<times> bool) list"
    by (induction al) auto
  then show "scope_wf s \<Longrightarrow> Scope_Clone s = s" by (simp add: scope_wf_def Scope_Clone_def)
qed

lemma ok_handover:
  assumes "target_ok mts"
  shows "conv.ok s0 (bindR (updState (\<lambda>_. ct_MainState mts)) (\<lambda>_.
      bindR (finalVars mts) (\<lambda>vs.
      bindR (varsU (\<lambda>vars. ResetEnvVars vars (Some (EnvVars vs)))) (\<lambda>_.
      bindR (updFinal (\<lambda>t. t\<lparr>ct_MainImage := Image_Clone img, ct_RanFromLike := rfl, ct_RanInteractive := ri\<rparr>)) (\<lambda>_.
      case ct_PlatformResolver mts of
        None \<Rightarrow> panicC ''nil PlatformResolver''
      | Some pr \<Rightarrow> modR (\<lambda>c. c\<lparr>cv_platr := snd (UpdatePlatform (cv_platr c) (rs_currentPlatform pr))\<rparr>))))))"
proof -
  from assms obtain vs pr where "ct_VarCollection mts = Some vs" "ct_PlatformResolver mts = Some pr" "env_agrees (ct_MainState mts) (co_envs vs)"
    by (auto simp: target_ok_def split: option.splits)
  moreover from this(3) have "Scope_Clone (co_envs vs) = co_envs vs" by (simp add: env_agrees_def all_active_def Scope_Clone_wf)
  ultimately show ?thesis
    by (intro conv_okI) (simp add: updState_def updFinal_def finalVars_def varsU_def rs_defs ResetEnvVars_def EnvVars_def conv_inv_def)
qed

lemma ok_fromTarget: "children_ok ev \<Longrightarrow> conv.ok s0 (fromTarget ev name platform ap pa args)"
  unfolding fromTarget_def Let_def
  by (rule conv.ok_bind [OF ok_newCmdID], rule conv.ok_read, rule conv.ok_bind [OF ok_refR],
      rule conv.ok_bind_gives [OF ok_buildTarget gives_buildTarget]) (auto intro!: conv.ok_fail ok_handover)

lemma ok_From: "children_ok ev \<Longrightarrow> conv.ok s0 (Conv_From ev name platform ap pa args)"
  unfolding Conv_From_def
  by (intro conv_ok conv.ok_mod ok_checkOld ok_varsU ok_setPlatform ok_fromTarget ok_fromClassical)
    (auto simp: conv_keeps_def conv_inv_def Coll_SetLocally_def)

lemma ok_Build: "conv.ok s0 (Conv_Build ev name platform ap pa args)"
  unfolding Conv_Build_def by (intro conv_ok ok_buildTarget)

lemma ok_parseArgsNil: "conv.ok s0 (parseArgsNil args sc)"
  by (induction args sc rule: parseArgsNil.induct) (auto simp: Let_def intro!: conv_ok)

lemma ok_EnterScopeDo: "conv.ok s0 (EnterScopeDo ev cmd base ap pa name args)"
  unfolding EnterScopeDo_def
  by (intro conv_ok ok_parseArgsNil ok_buildTarget ok_varsE ok_finalVars ok_varsU) (auto simp: EnterFrame_def dest: envs_kept)

section \<open>WAIT blocks, saved images and the end of a target\<close>

lemma ok_updWs: "conv.ok s0 (updWs f)"
  by (simp add: updWs_def ok_updShared)

lemma ok_addWaitItem: "conv.ok s0 (addWaitItem w)"
  unfolding addWaitItem_def by (intro conv_ok ok_waitBlock_top ok_updWs)

lemma ok_PushWaitBlock: "conv.ok s0 PushWaitBlock"
  unfolding PushWaitBlock_def by (intro conv_ok ok_updWs ok_updFinal conv.ok_mod) (simp_all add: conv_keeps_def conv_inv_def)

lemma ok_waitOn: "conv.ok s0 (waitOn ev b push save)"
  by (rule conv_okI) (auto simp: waitOn_def conv_inv_def Let_def split: prod.split option.split)

lemma ok_PopWaitBlock: "conv.ok s0 (PopWaitBlock ev)"
  unfolding PopWaitBlock_def by (intro conv_ok ok_addWaitItem ok_waitOn conv.ok_mod) (simp add: conv_keeps_def conv_inv_def)

lemma ok_markFakeDeps: "conv.ok s0 markFakeDeps"
  unfolding markFakeDeps_def
  by (intro conv_ok ok_updState conv.ok_mod) (auto simp: conv_keeps_def conv_inv_def env_of_append fun_eq_iff)

lemma ok_saveOneImage: "conv.ok s0 (saveOneImage ev push insecure hint noML name)"
  unfolding saveOneImage_def Let_def by (intro conv_ok ok_updFinal ok_addWaitItem) simp_all

lemma ok_SaveImage: "conv.ok s0 (Conv_SaveImage ev names push insecure hint from noML)"
  unfolding Conv_SaveImage_def ranSaved_def Let_def
  by (intro conv_ok ok_saveOneImage ok_markFakeDeps conv.ok_mod) (simp_all add: conv_keeps_def conv_inv_def)

lemma ok_updSts:
  "(\<And>t ws. ct_MainState (fst (f t ws)) = ct_MainState t \<and> ct_MainImage (fst (f t ws)) = ct_MainImage t) \<Longrightarrow> conv.ok s0 (updSts f)"
  by (rule conv_okI) (simp add: updSts_def conv_inv_def Let_def case_prod_beta)

text \<open>A target that has everything but the mark of its end.\<close>

definition fin_ok :: "Converter \<Rightarrow> bool" where
  "fin_ok c \<longleftrightarrow> target_ok ((cv_final c)\<lparr>ct_done := True\<rparr>)"

lemma bindR_InrE:
  assumes "bindR m f s = (Inr x, u)"
  obtains y t where "m s = (Inr y, t)" "f y t = (Inr x, u)"
  using assms by (auto simp: bindR_def split: prod.splits sum.splits)

lemma fin_steps:
  "addWaitItem w c = (r, c') \<Longrightarrow> fin_ok c \<Longrightarrow> fin_ok c'"
  "updSts sts_SetDoSaves c = (q, c') \<Longrightarrow> fin_ok c \<Longrightarrow> fin_ok c'" "updSts sts_SetDoPushes c = (q, c') \<Longrightarrow> fin_ok c \<Longrightarrow> fin_ok c'"
  by (auto simp: addWaitItem_def waitBlock_top_def panicC_def rs_defs updWs_def updShared_def updSts_def sts_SetDoSaves_def sts_SetDoPushes_def
      fin_ok_def target_ok_def Let_def split: if_splits prod.splits sum.splits option.splits)

lemma finalize_end:
  assumes "fin_ok c" "finalizeEnd c0 c = (Inr t, c')"
  shows "target_ok t"
proof -
  from assms(2) obtain c1 c2 c3 where s: "(if cp_DoSaves (cv_opt c0) then updSts sts_SetDoSaves else retR ()) c = (Inr (), c1)"
    "(if cp_DoPushes (cv_opt c0) then updSts sts_SetDoPushes else retR ()) c1 = (Inr (), c2)"
    "(if cmd_ftr c0 ''wait-block'' then readR id (\<lambda>c. bindR (addWaitItem (WState (ct_MainState (cv_final c)))) (\<lambda>_. retR ())) else retR ()) c2 = (Inr (), c3)"
    and t: "t = (cv_final c3)\<lparr>ct_done := True\<rparr>"
    by (auto simp: finalizeEnd_def updFinal_def modR_def readR_def retR_def elim!: bindR_InrE)
  have "fin_ok c1" using s(1) assms(1) fin_steps(2) by (auto simp: retR_def split: if_splits)
  then have "fin_ok c2" using s(2) fin_steps(3) by (auto simp: retR_def split: if_splits)
  then have "fin_ok c3" using s(3) fin_steps(1) by (auto simp: retR_def readR_def split: if_splits elim!: bindR_InrE)
  then show ?thesis by (simp add: t fin_ok_def)
qed

lemma FinalizeStates_target:
  assumes "conv_inv c" "FinalizeStates ev c = (Inr t, c')"
  shows "target_ok t"
proof -
  obtain c1 where c1: "markFakeDeps c = (Inr (), c1)" using assms(2) by (auto simp: FinalizeStates_def elim!: bindR_InrE)
  then have i: "conv_inv c1" using conv_okD [OF ok_markFakeDeps assms(1)] by simp
  have "fin_ok (c1\<lparr>cv_final := (cv_final c1)\<lparr>ct_MainState := persistCache ev c1 (ct_MainState (cv_final c1)), ct_PlatformResolver := Some (cv_platr c1),
               ct_VarCollection := Some (cv_vars c1), ct_GlobalImports := g\<rparr>\<rparr>)" if "IsStackAtBase (cv_vars c1)" for g
    using that i by (auto simp: fin_ok_def target_ok_def conv_inv_def env_agrees_def IsStackAtBase_def)
  then show ?thesis using assms(2) c1
    by (auto simp: FinalizeStates_def bindR_def readR_def failR_def readO_def updFinal_def modR_def
        split: if_splits option.splits dest: finalize_end [rotated])
qed

section \<open>Reachable converters\<close>

inductive_set conv_cmds :: "cenv \<Rightarrow> unit cm set" for ev :: cenv where
  cmd_From: "Conv_From ev name platform ap pa args \<in> conv_cmds ev"
| cmd_FromDockerfile: "fromDockerfileImage st img \<in> conv_cmds ev"
| cmd_Locally: "Conv_Locally ev \<in> conv_cmds ev"
| cmd_Build: "Conv_Build ev name platform ap pa args \<in> conv_cmds ev"
| cmd_EnterScopeDo: "EnterScopeDo ev cmd base ap pa name args \<in> conv_cmds ev"
| cmd_ExitScope: "ExitScope \<in> conv_cmds ev"
| cmd_Workdir: "Conv_Workdir p \<in> conv_cmds ev"
| cmd_User: "Conv_User u \<in> conv_cmds ev"
| cmd_Cmd: "Conv_Cmd cargs shell \<in> conv_cmds ev"
| cmd_Entrypoint: "Conv_Entrypoint cargs shell \<in> conv_cmds ev"
| cmd_Expose: "Conv_Expose ports \<in> conv_cmds ev"
| cmd_Volume: "Conv_Volume vols \<in> conv_cmds ev"
| cmd_Label: "Conv_Label labels \<in> conv_cmds ev"
| cmd_Env: "Conv_Env k v \<in> conv_cmds ev"
| cmd_Healthcheck: "Conv_Healthcheck none cargs iv to sp re si \<in> conv_cmds ev"
| cmd_Host: "Conv_Host h ip \<in> conv_cmds ev"
| cmd_Arg: "Conv_Arg ev k v aopts \<in> conv_cmds ev"
| cmd_Let: "Conv_Let k v \<in> conv_cmds ev"
| cmd_UpdateArg: "Conv_UpdateArg ev k v \<in> conv_cmds ev"
| cmd_SetArg: "Conv_SetArg k v \<in> conv_cmds ev"
| cmd_UnsetArg: "Conv_UnsetArg k \<in> conv_cmds ev"
| cmd_Project: "Conv_Project org proj \<in> conv_cmds ev"
| cmd_Import: "Conv_Import ev imp as g cp iap \<in> conv_cmds ev"
| cmd_Cache: "Conv_Cache ev target copts \<in> conv_cmds ev"
| cmd_PushWait: "PushWaitBlock \<in> conv_cmds ev"
| cmd_PopWait: "PopWaitBlock ev \<in> conv_cmds ev"
| cmd_SaveImage: "Conv_SaveImage ev names push insecure hint cf noML \<in> conv_cmds ev"

lemma conv_cmds_ok: "m \<in> conv_cmds ev \<Longrightarrow> children_ok ev \<Longrightarrow> conv.ok s0 m"
  by (induction rule: conv_cmds.induct)
    (simp_all add: ok_From ok_fromDockerfileImage ok_Locally ok_Build ok_EnterScopeDo ok_image_cmds ok_Env ok_variable_cmds ok_Cache
      ok_PushWaitBlock ok_PopWaitBlock ok_SaveImage)

inductive conv_reachable :: "cenv \<Rightarrow> Converter \<Rightarrow> bool" for ev :: cenv where
  conv_new: "ct_MainState sts = Platform_st plat Scratch \<Longrightarrow> ct_MainImage sts = NewImage \<Longrightarrow>
    conv_reachable ev (NewConverter ev target ftrs gitMeta builtinArgs isCI dir sts opt sh gwb)"
| conv_cmd: "conv_reachable ev c \<Longrightarrow> m \<in> conv_cmds ev \<Longrightarrow> conv_reachable ev (snd (m c))"

lemma conv_reachable_inv: "conv_reachable ev c \<Longrightarrow> children_ok ev \<Longrightarrow> conv_inv c"
proof (induction rule: conv_reachable.induct)
  case (conv_new sts plat target ftrs gitMeta builtinArgs isCI dir opt sh gwb)
  then show ?case by (simp add: conv_inv_def NewConverter_def NewCollection_def Let_def env_agrees_new)
next
  case (conv_cmd c m)
  then show ?case by (intro conv_okD conv_cmds_ok)
qed


lemma forR_returns:
  assumes "\<And>x d. P d \<Longrightarrow> fst (f x d) = Inr () \<and> P (snd (f x d))" "P d"
  shows "fst (forR xs f d) = Inr ()"
  using assms(2)
proof (induction xs arbitrary: d)
  case (Cons x xs)
  then show ?case using assms(1) [of d x] by (cases "f x d") (auto simp: bindR_def)
qed (simp add: retR_def)

lemma command_loop_no_panic:
  assumes "\<And>x d. image_ok (ct_MainImage (cv_final d)) \<Longrightarrow> fst (f x d) = Inr () \<and> image_ok (ct_MainImage (cv_final (snd (f x d))))"
    "image_ok (ct_MainImage (cv_final c))"
  shows "fst (command cmd (forR xs f) c) \<noteq> Inl (CPanic msg)"
proof -
  have "fst (checkAllowed cmd c) \<noteq> Inl (CPanic msg)" "snd (checkAllowed cmd c) = c"
    by (simp_all add: checkAllowed_def rs_defs)
  moreover have "fst (forR xs f (snd (nonSaveCommand c))) = Inr ()"
    by (rule forR_returns [where P = "\<lambda>d. image_ok (ct_MainImage (cv_final d))"])
      (use assms in \<open>auto simp: nonSaveCommand_def modR_def\<close>)
  ultimately show ?thesis
    by (cases "checkAllowed cmd c") (auto simp: command_def bindR_def nonSaveCommand_def modR_def split: sum.split)
qed

lemma map_cmds_no_panic:
  assumes "image_ok (ct_MainImage (cv_final c))"
  shows "fst (Conv_Expose ports c) \<noteq> Inl (CPanic msg)" "fst (Conv_Volume vols c) \<noteq> Inl (CPanic msg)" "fst (Conv_Label labels c) \<noteq> Inl (CPanic msg)"
  unfolding Conv_Expose_def Conv_Volume_def Conv_Label_def
  by (rule command_loop_no_panic [OF _ assms]; auto simp: image_ok_def readR_def updImage_def updFinal_def modR_def)+


section \<open>What a converter passes on\<close>

lemma absolutizeTarget_run:
  assumes "absolutizeTarget ev name ap c = (Inr (target, rel, ap'), c')"
  shows "c' = c \<and> ParseTarget (ce_home ev) name = Inr rel \<and>
    (\<exists>imports derefed allow isImp. Coll_Imports (cv_vars c) = Some imports \<and> Deref (ce_home ev) imports (RefTarget rel) = Inr (derefed, allow, isImp) \<and>
      ap' = (ap \<and> (isImp \<longrightarrow> allow)))"
  using assms
  by (auto simp: absolutizeTarget_def joinRefs_def refR_def readO_def rs_defs Let_def
      split: sum.splits option.splits prod.splits Reference.splits if_splits)

lemma prepOverridingVars_run:
  assumes "prepOverridingVars ev rel False args c = (Inr (ov, prop), c')"
  shows "\<exists>v. cv_opt c' = cv_opt c \<and> prop = (\<not> IsExternal (RefTarget rel)) \<and>
    (IsExternal (RefTarget rel) \<longrightarrow> Var_ParseArgs args (pncvf_of ev c) (cv_vars c) = Some (Inr ov, v))"
  using assms
  by (auto simp: prepOverridingVars_def readO_def varsE_def rs_defs Let_def split: sum.splits option.splits prod.splits if_splits)

lemma prepOverridingVars_opt: "prepOverridingVars ev rel pa args c = (r, c') \<Longrightarrow> cv_opt c' = cv_opt c"
  by (auto simp: prepOverridingVars_def readO_def varsE_def rs_defs Let_def split: sum.splits option.splits prod.splits if_splits)

text \<open>
  C12. What a converter asks of another target is never more than it has itself. The target may use
  privileges only when the command says so and, for an imported target, the IMPORT says so too. With
  \<open>--referenced-save-only\<close> only BUILD passes on the wish to save and to push; without it a remote target
  is not asked to save or push. A target of another project gets exactly the build arguments that
  are written down, unless \<open>--pass-args\<close> is given.\<close>

theorem child_rights:
  assumes "prepBuildTarget ev name platform ap pa args dangling cmdT pid c = (Inr (target, opt, prop), c')"
  shows "\<exists>rel imports derefed allow isImp v.
    ParseTarget (ce_home ev) name = Inr rel \<and> Coll_Imports (cv_vars c) = Some imports \<and>
    Deref (ce_home ev) imports (RefTarget rel) = Inr (derefed, allow, isImp) \<and>
    (cp_AllowPrivileged opt \<longleftrightarrow> ap \<and> (isImp \<longrightarrow> allow)) \<and>
    (cp_DoSaves opt \<longrightarrow> cp_DoSaves (cv_opt c)) \<and> (cp_DoPushes opt \<longrightarrow> cp_DoPushes (cv_opt c)) \<and>
    (cp_DoSaves opt \<or> cp_DoPushes opt \<longrightarrow>
       (if fe_on (cp_Features (cv_opt c)) ''referenced-save-only'' then cmdT = buildCmd else \<not> IsRemote (RefTarget target))) \<and>
    (\<not> pa \<and> IsExternal (RefTarget rel) \<longrightarrow> Var_ParseArgs args (pncvf_of ev c) (cv_vars c) = Some (Inr (cp_OverridingVars opt), v))"
proof -
  from assms obtain rel ap' c1 ov prop' c2 wb c3 where 1: "absolutizeTarget ev name ap c = (Inr (target, rel, ap'), c1)"
    and 2: "prepOverridingVars ev rel pa args c1 = (Inr (ov, prop'), c2)"
    and 3: "(if cmdT = buildCmd then bindR waitBlock_top (\<lambda>b. retR (Some b)) else retR None) c2 = (Inr wb, c3)"
    and o: "opt = prepOpt c3 target platform ap' ov dangling cmdT pid wb"
    by (auto simp: prepBuildTarget_def readR_def [of id] retR_def [of "(_, _, _)"] elim!: bindR_InrE)
  have "c3 = c2" using 3 by (auto simp: waitBlock_top_def panicC_def rs_defs split: if_splits)
  then have "cv_opt c3 = cv_opt c" using prepOverridingVars_opt [OF 2] absolutizeTarget_run [OF 1] by simp
  then show ?thesis using o absolutizeTarget_run [OF 1] prepOverridingVars_run [of ev rel args c1 ov prop' c2] 2
    by (cases pa) (auto simp: prepOpt_def Let_def)
qed


end
