(* ===== verification/Converter_Saves.thy ===== *)
theory Converter_Saves
  imports Converter_Correct Util_Text
begin

text \<open>
  Where artifacts may be saved without \<open>--force\<close>, what a base image leaves behind in the converter, and
  the concrete values for the theorems on the converter.
\<close>

section \<open>Destinations of artifacts\<close>

abbreviation elems :: "string list \<Rightarrow> bool" where
  "elems xs \<equiv> set xs \<subseteq> Collect plain"

lemma Join_elems_nil: "elems xs \<Longrightarrow> Join xs [ch_slash] = [] \<longleftrightarrow> xs = []"
  by (cases xs) (auto simp: Join_Cons)

lemma Split_elems: "elems xs \<Longrightarrow> xs \<noteq> [] \<Longrightarrow> Split (Join xs [ch_slash]) ch_slash = xs"
  by (rule Split_Join) auto

lemma below_prefix:
  assumes "elems xs" "elems ys" "xs \<noteq> []"
  shows "prefix (Join xs [ch_slash] @ [ch_slash]) (Join ys [ch_slash]) \<longleftrightarrow> strict_prefix xs ys"
proof
  assume "prefix (Join xs [ch_slash] @ [ch_slash]) (Join ys [ch_slash])"
  then obtain r where r: "Join ys [ch_slash] = Join xs [ch_slash] @ ch_slash # r" by (auto simp: prefix_def)
  then have "ys \<noteq> []" by auto
  then have "ys = xs @ Split r ch_slash" using r Split_elems [OF assms(2)] Split_elems [OF assms(1,3)] by (metis Split_append)
  then show "strict_prefix xs ys" by (simp add: strict_prefix_def)
next
  assume "strict_prefix xs ys"
  then obtain zs where "ys = xs @ zs" "zs \<noteq> []" by (auto simp: strict_prefix_def prefix_def)
  then show "prefix (Join xs [ch_slash] @ [ch_slash]) (Join ys [ch_slash])" using assms(3) by (simp add: Join_append)
qed

lemma below_prefix_dir:
  assumes "elems xs" "elems ys" "xs \<noteq> []"
  shows "prefix (Join xs [ch_slash] @ [ch_slash]) (Join ys [ch_slash] @ [ch_slash]) \<longleftrightarrow> prefix xs ys"
proof -
  have "prefix (Join xs [ch_slash] @ [ch_slash]) (Join ys [ch_slash] @ [ch_slash]) \<longleftrightarrow>
      Join xs [ch_slash] = Join ys [ch_slash] \<or> prefix (Join xs [ch_slash] @ [ch_slash]) (Join ys [ch_slash])"
    by (auto simp: prefix_snoc)
  also have "\<dots> \<longleftrightarrow> xs = ys \<or> strict_prefix xs ys" using Join_elements_inj [OF assms(1,2)] below_prefix [OF assms] by auto
  finally show ?thesis by (auto simp: strict_prefix_def)
qed

text \<open>What \<open>filepath.Abs\<close> promises: an absolute path in its shortest form.\<close>

definition abs_clean :: "cenv \<Rightarrow> bool" where
  "abs_clean ev \<longleftrightarrow> (\<forall>p r. ce_Abs ev p = Inr r \<longrightarrow> path_IsAbs r \<and> path_Clean r = r)"

lemma abs_clean_Join: "abs_clean ev \<Longrightarrow> ce_Abs ev p = Inr r \<Longrightarrow> r = ch_slash # Join (abs_elements r) [ch_slash]"
  using path_Clean_abs [of r] by (auto simp: abs_clean_def)

definition saveDest :: "string \<Rightarrow> string \<Rightarrow> string" where
  "saveDest localPath dst = (if prefix ''/'' dst then dst else path_Join localPath dst)"

lemma canSave_prefix:
  assumes "ce_Abs ev localPath = Inr base" "ce_DirExists ev base = Inr True" "ce_Abs ev (saveDest localPath dst) = Inr d"
  shows "canSave ev localPath dst = Inr (prefix (base @ ''/'') (if suffix ''/'' dst \<and> dst \<noteq> ''/'' then d @ ''/'' else d))"
  using assms by (auto simp: canSave_def rbind_def Let_def saveDest_def split: if_splits)


text \<open>For the root directory the test asks for two slashes: nothing below it may be saved without
  \<open>--force\<close>.\<close>

lemma canSave_root:
  assumes "abs_clean ev" "ce_Abs ev localPath = Inr ''/''" "ce_DirExists ev ''/'' = Inr True" "\<not> suffix ''/'' dst"
    "ce_Abs ev (saveDest localPath dst) = Inr d"
  shows "canSave ev localPath dst = Inr False"
proof -
  have d: "d = ch_slash # Join (abs_elements d) [ch_slash]" using abs_clean_Join [OF assms(1,5)] .
  have "\<not> prefix ''/'' (Join (abs_elements d) [ch_slash])"
    using abs_elements_plain(1) [of d] by (cases "abs_elements d") (auto simp: Join_Cons prefix_Cons neq_Nil_conv split: if_splits)
  then have "\<not> prefix ''//'' d" by (subst d) simp
  then show ?thesis using canSave_prefix [OF assms(2,3,5)] assms(4) by simp
qed

section \<open>What a base image leaves behind\<close>

text \<open>FROM forgets that CMD was used. FROM DOCKERFILE does not: an ENTRYPOINT after it keeps the CMD of the
  Dockerfile when a CMD was given before it, and drops it otherwise.\<close>

lemma entrypoint_after_dockerfile:
  assumes "ct_RanInteractive (cv_final c) = False"
  shows "im_Cmd (ct_MainImage (cv_final (snd (bindR (fromDockerfileImage st img) (\<lambda>_. Conv_Entrypoint args shell) c)))) =
    (if cv_cmdSet c then im_Cmd img else [])"
  using assms
  by (auto simp: fromDockerfileImage_def applyFromImage_def Conv_Entrypoint_def command_def checkAllowed_def nonSaveCommand_def rs_defs
      updFinal_def updImage_def varsU_def Let_def)

section \<open>Concrete values\<close>

definition ex_sts :: ConvTarget where
  "ex_sts = \<lparr>ct_base = \<lparr>st_ID = ''1'', st_Target = ex_cache_target ''t'', st_targetInput =
       \<lparr>ti_TargetCanonical = ''+t'', ti_Platform = [], ti_BuildArgs = None, ti_AllowPrivileged = False\<rparr>, st_dependentIDs = []\<rparr>,
     ct_MainState = Platform_st (rs_nativePlatform ex_resolver) Scratch, ct_MainImage = NewImage, ct_SaveImages = [], ct_SaveLocals = [],
     ct_pushHasState = False, ct_pushState = [], ct_pushSaveImages = [], ct_pushSaveLocals = [], ct_WaitItems = [], ct_WaitBlocks = [],
     ct_GlobalImports = Map.empty, ct_VarCollection = None, ct_PlatformResolver = None, ct_HasDangling = False, ct_RanFromLike = False,
     ct_RanInteractive = False, ct_doSaves = False, ct_doPushes = False, ct_done = False\<rparr>"

definition ex_opt :: ConvertOpt where
  "ex_opt = \<lparr>cp_OverridingVars = NewScope, cp_GlobalImports = Map.empty, cp_PlatformResolver = ex_resolver, cp_Features = ex_features 8,
     cp_waitBlock = Some 0, cp_parentTargetID = [], cp_parentCommandID = [], cp_HasDangling = False, cp_AllowPrivileged = True,
     cp_AllowLocally = True, cp_DoSaves = True, cp_DoPushes = True, cp_ForceSaveImage = False, cp_OnlyFinalTargetImages = False,
     cp_UseInlineCache = False, cp_UseLocalRegistry = False, cp_UseFakeDep = False\<rparr>"

definition ex_shared :: shared where
  "ex_shared = \<lparr>sh_ws = \<lparr>ws_items = [], ws_blocks = [empty_waitBlock]\<rparr>, sh_cacheImports = [], sh_ec = NewExportCoordinator, sh_projects = []\<rparr>"

definition ex_vars :: Collection where
  "ex_vars = NewCollection id (\<lambda>_. ''linux/amd64'') \<lparr>no_PlatformResolver = None, no_GitMeta = None, no_OverridingVars = None, no_Features = ex_features 8,
     no_GlobalImports = Map.empty, no_Log = [], no_Target = ex_cache_target ''c'', no_BuiltinArgs = \<lparr>da_EarthVersion = [], da_EarthBuildSha = []\<rparr>,
     no_Push = False, no_CI = False\<rparr>"

text \<open>Another target that has declared one variable, images with one variable, and a file system rooted
  at \<open>/w\<close>.\<close>

definition ex_child :: ConvTarget where
  "ex_child = ex_sts\<lparr>ct_MainState := AddEnv_st ''K'' ''child'' Scratch, ct_VarCollection := Some (DeclareEnv ex_vars ''K'' ''child''),
     ct_PlatformResolver := Some ex_resolver, ct_done := True\<rparr>"

definition ex_cenv :: cenv where
  "ex_cenv = \<lparr>ce_home = ''/root'', ce_Normalize = id, ce_Format = (\<lambda>_. ''linux/amd64''), ce_sha = ex_key,
     ce_RunExpression = (\<lambda>_ s. Inr (s, 0)), ce_resolveImage = (\<lambda>name _. Inr (name, NewImage)),
     ce_Earthfile2LLB = (\<lambda>target opt sh. (Inr ex_child, sh)),
     ce_Abs = (\<lambda>p. Inr (path_Clean (if path_IsAbs p then p else ''/w/'' @ p))), ce_DirExists = (\<lambda>_. Inr True),
     ce_jobs = (\<lambda>_ _ sh. (None, sh)), ce_sessionID = ''s'', ce_order = id\<rparr>"

definition ex_conv :: Converter where
  "ex_conv = NewConverter ex_cenv (ex_cache_target ''t'') (ex_features 8) None \<lparr>da_EarthVersion = [], da_EarthBuildSha = []\<rparr> False ''.'' ex_sts ex_opt
     ex_shared False"

lemma ex_children: "children_ok ex_cenv"
proof -
  have "env_agrees (AddEnv_st ''K'' ''child'' Scratch) (snd (Scope_Add NewScope ''K'' ''child'' True False))"
    by (intro env_agrees_add env_agrees_new) simp
  then show ?thesis
    by (simp add: children_ok_def ex_cenv_def target_ok_def ex_child_def DeclareEnv_def ex_vars_def NewCollection_def Let_def)
qed

lemma ex_reachable: "conv_reachable ex_cenv ex_conv"
  unfolding ex_conv_def by (rule conv_new) (simp_all add: ex_sts_def)

definition ex_run :: Converter where
  "ex_run = snd (Conv_Env ''K'' ''v'' (snd (Conv_From ex_cenv ''alpine'' DefaultPlatform False False [] ex_conv)))"


theorem child_rights_witness:
  "\<exists>target opt prop c'. prepBuildTarget ex_cenv ''+c'' DefaultPlatform False False [] False fromCmd [] ex_conv = (Inr (target, opt, prop), c') \<and>
     \<not> cp_AllowPrivileged opt"
proof -
  have "(case fst (prepBuildTarget ex_cenv ''+c'' DefaultPlatform False False [] False fromCmd [] ex_conv) of Inl _ \<Rightarrow> False | Inr _ \<Rightarrow> True)"
    by code_simp
  then obtain target opt pr c' where r: "prepBuildTarget ex_cenv ''+c'' DefaultPlatform False False [] False fromCmd [] ex_conv = (Inr (target, opt, pr), c')"
    by (cases "prepBuildTarget ex_cenv ''+c'' DefaultPlatform False False [] False fromCmd [] ex_conv") (auto split: sum.splits)
  then show ?thesis using child_rights [OF r] by auto
qed



end
