(* ===== verification/Shell_Wrap.thy ===== *)
theory Shell_Wrap
  imports Converter_State Interpreter
begin

text \<open>
  \<^verbatim>\<open>earthfile2llb/shell.go\<close>: the command line that the shell of a build step is given, and the split of a
  path at its first wildcard. What the program relies on of the shell are the quoting rules of POSIX,
  the predicate \<open>posix_quotes\<close> on a function that removes the quotes of a word.
\<close>

section \<open>Wildcards\<close>

text \<open>\<open>path.Dir\<close>\<close>

definition path_Dir :: "string \<Rightarrow> string" where
  "path_Dir p = path_Clean (rev (dropWhile (\<lambda>c. c \<noteq> ch_slash) (rev p)))"

definition isWildcard :: "char \<Rightarrow> bool" where
  "isWildcard c \<longleftrightarrow> c = CHR ''*'' \<or> c = CHR ''?'' \<or> c = CHR ''[''"

text \<open>The index at which the loop stops; a backslash skips the byte after it.\<close>

fun wildcardAt :: "string \<Rightarrow> nat" where
  "wildcardAt [] = 0"
| "wildcardAt [c] = (if c = ch_bslash then 2 else if isWildcard c then 0 else 1)"
| "wildcardAt (c # d # s) = (if c = ch_bslash then 2 + wildcardAt s else if isWildcard c then 0 else 1 + wildcardAt (d # s))"

definition splitWildcards :: "string \<Rightarrow> (string \<times> string) option" where
  "splitWildcards name =
    (let i = wildcardAt name in
     if i = length name then Some (name, [])
     else if i > length name then None
     else
       let p = take i name; base = (if p = [] \<or> suffix [ch_slash] p then [] else path_Base p)
       in Some (path_Dir p, base @ drop i name))"

section \<open>Command lines\<close>

definition escapeShellSingleQuotes :: "string \<Rightarrow> string" where
  "escapeShellSingleQuotes arg = concat (map (\<lambda>c. if c = ch_squote then [ch_squote, ch_dquote, ch_squote, ch_dquote, ch_squote] else [c]) arg)"

definition debuggerPath :: string where
  "debuggerPath = ''/usr/bin/earth_debugger''"

definition dockerdWrapperPath :: string where
  "dockerdWrapperPath = ''/var/earthbuild/dockerd-wrapper.sh''"

text \<open>A quote of the inner shell: the outer one is closed, the quote is given in double quotes.\<close>

definition innerQuoted :: "string \<Rightarrow> string" where
  "innerQuoted f = [ch_squote, ch_dquote, ch_squote, ch_dquote] @ escapeShellSingleQuotes f @ [ch_dquote, ch_squote, ch_dquote, ch_squote]"

definition escapedArgs :: "string list \<Rightarrow> bool \<Rightarrow> string \<Rightarrow> string \<Rightarrow> string list" where
  "escapedArgs args isExpression exitCodeFile outputFile =
    (if outputFile \<noteq> [] then [''exec 1<>'' @ innerQuoted outputFile @ '' && ''] else []) @
    (if isExpression then [''echo''] else []) @
    map escapeShellSingleQuotes args @
    (if exitCodeFile \<noteq> [] then [''; echo $? >'' @ innerQuoted exitCodeFile] else [])"

definition cmdPrefix :: "string list \<Rightarrow> bool \<Rightarrow> bool \<Rightarrow> bool \<Rightarrow> string list" where
  "cmdPrefix envVars withDebugger forceDebugger withDocker =
    [Join envVars '' ''] @ (if withDocker then [dockerdWrapperPath, ''execute''] else []) @
    (if withDebugger then [debuggerPath] @ (if forceDebugger then [''--force''] else []) else [])"

definition strWithEnvVarsAndDocker ::
  "string list \<Rightarrow> string list \<Rightarrow> bool \<Rightarrow> bool \<Rightarrow> bool \<Rightarrow> bool \<Rightarrow> bool \<Rightarrow> string \<Rightarrow> string \<Rightarrow> string" where
  "strWithEnvVarsAndDocker args envVars shell withDebugger forceDebugger withDocker isExpression exitCodeFile outputFile =
    Join (cmdPrefix envVars withDebugger forceDebugger withDocker @
      (if shell then shellCmd (ch_squote # Join (escapedArgs args isExpression exitCodeFile outputFile) '' '' @ [ch_squote]) else args)) '' ''"

text \<open>The wrappers; \<open>None\<close> is their panic without a shell.\<close>

definition withShellAndEnvVars :: "string list \<Rightarrow> string list \<Rightarrow> bool \<Rightarrow> bool \<Rightarrow> bool \<Rightarrow> string list" where
  "withShellAndEnvVars args envVars shell withDebugger forceDebugger =
    shellCmd (strWithEnvVarsAndDocker args envVars shell withDebugger forceDebugger False False [] [])"

definition withShellAndEnvVarsExitCode :: "string \<Rightarrow> string list \<Rightarrow> string list \<Rightarrow> bool \<Rightarrow> bool \<Rightarrow> bool \<Rightarrow> string list option" where
  "withShellAndEnvVarsExitCode exitCodeFile args envVars shell withDebugger _ =
    (if \<not> shell then None
     else Some (shellCmd (strWithEnvVarsAndDocker args envVars True withDebugger False False False exitCodeFile [])))"

definition withShellAndEnvVarsOutput :: "string \<Rightarrow> string list \<Rightarrow> string list \<Rightarrow> bool \<Rightarrow> bool \<Rightarrow> bool \<Rightarrow> string list option" where
  "withShellAndEnvVarsOutput outputFile args envVars shell withDebugger _ =
    (if \<not> shell then None
     else Some (shellCmd (strWithEnvVarsAndDocker args envVars True withDebugger False False False [] outputFile)))"

definition expressionWithShellAndEnvVarsOutput :: "string \<Rightarrow> string list \<Rightarrow> string list \<Rightarrow> bool \<Rightarrow> bool \<Rightarrow> bool \<Rightarrow> string list option" where
  "expressionWithShellAndEnvVarsOutput outputFile args envVars shell withDebugger _ =
    (if \<not> shell then None
     else Some (shellCmd (strWithEnvVarsAndDocker args envVars True withDebugger False False True [] outputFile)))"

section \<open>What the shell reads\<close>

definition sh_safe :: "char \<Rightarrow> bool" where
  "sh_safe c \<longleftrightarrow> c \<in> set ''abcdefghijklmnopqrstuvwxyzABCDEFGHIJKLMNOPQRSTUVWXYZ0123456789/._-''"

definition posix_quotes :: "(string \<Rightarrow> string) \<Rightarrow> bool" where
  "posix_quotes unq \<longleftrightarrow> unq [] = [] \<and>
    (\<forall>x r. ch_squote \<notin> set x \<longrightarrow> unq (ch_squote # x @ ch_squote # r) = x @ unq r) \<and>
    (\<forall>x r. set x \<inter> {ch_dquote, CHR ''$'', CHR 0x60, ch_bslash} = {} \<longrightarrow> unq (ch_dquote # x @ ch_dquote # r) = x @ unq r) \<and>
    (\<forall>c r. sh_safe c \<longrightarrow> unq (c # r) = c # unq r)"

text \<open>\<open>reads unq e p\<close>: inside single quotes the text \<open>e\<close> stands for \<open>p\<close> and ends inside single quotes.\<close>

definition reads :: "(string \<Rightarrow> string) \<Rightarrow> string \<Rightarrow> string \<Rightarrow> bool" where
  "reads unq e p \<longleftrightarrow> (\<forall>t v. (\<forall>y. ch_squote \<notin> set y \<longrightarrow> unq (ch_squote # y @ t) = y @ v) \<longrightarrow>
     (\<forall>x. ch_squote \<notin> set x \<longrightarrow> unq (ch_squote # x @ e @ t) = x @ p @ v))"

lemma reads_append: "reads unq e p \<Longrightarrow> reads unq f q \<Longrightarrow> reads unq (e @ f) (p @ q)"
  by (simp add: reads_def)

lemma reads_plain: "ch_squote \<notin> set s \<Longrightarrow> reads unq s s"
  by (auto simp: reads_def) (metis Un_iff append.assoc set_append)

text \<open>The script that the user asks for, with the redirection of its output and the file of its exit code.\<close>

definition innerScript :: "string list \<Rightarrow> bool \<Rightarrow> string \<Rightarrow> string \<Rightarrow> string" where
  "innerScript args isExpression exitCodeFile outputFile =
    Join ((if outputFile \<noteq> [] then [''exec 1<>'' @ (ch_squote # outputFile @ [ch_squote]) @ '' && ''] else []) @
      (if isExpression then [''echo''] else []) @ args @
      (if exitCodeFile \<noteq> [] then [''; echo $? >'' @ (ch_squote # exitCodeFile @ [ch_squote])] else [])) '' ''"

locale posix_shell =
  fixes unq :: "string \<Rightarrow> string"
  assumes quotes: "posix_quotes unq"
begin

lemma unq_laws:
  "ch_squote \<notin> set x \<Longrightarrow> unq (ch_squote # x @ ch_squote # r) = x @ unq r"
  "unq (ch_dquote # ch_squote # ch_dquote # r) = ch_squote # unq r" "unq [] = []" "sh_safe c \<Longrightarrow> unq (c # r) = c # unq r"
proof -
  have "unq (ch_dquote # [ch_squote] @ ch_dquote # r) = [ch_squote] @ unq r"
    using quotes [unfolded posix_quotes_def, THEN conjunct2, THEN conjunct2, THEN conjunct1, rule_format, of "[ch_squote]" r] by simp
  then show "unq (ch_dquote # ch_squote # ch_dquote # r) = ch_squote # unq r" by simp
qed (use quotes in \<open>simp_all add: posix_quotes_def\<close>)

lemma unq_safe: "list_all sh_safe x \<Longrightarrow> unq (x @ r) = x @ unq r"
  by (induction x) (simp_all add: unq_laws)

lemma reads_quote: "reads unq [ch_squote, ch_dquote, ch_squote, ch_dquote, ch_squote] [ch_squote]"
  unfolding reads_def
proof (intro allI impI)
  fix t v x assume t: "\<forall>y. ch_squote \<notin> set y \<longrightarrow> unq (ch_squote # y @ t) = y @ v" and x: "ch_squote \<notin> set x"
  have "unq (ch_squote # t) = v" using t [rule_format, of "[]"] by simp
  then show "unq (ch_squote # x @ [ch_squote, ch_dquote, ch_squote, ch_dquote, ch_squote] @ t) = x @ [ch_squote] @ v"
    using unq_laws(1) [OF x, of "ch_dquote # ch_squote # ch_dquote # ch_squote # t"] by (simp add: unq_laws(2))
qed

lemma reads_escape: "reads unq (escapeShellSingleQuotes s) s"
proof (induction s)
  case (Cons c s)
  have "reads unq (if c = ch_squote then [ch_squote, ch_dquote, ch_squote, ch_dquote, ch_squote] else [c]) [c]"
    using reads_quote reads_plain [of "[c]"] by simp
  from reads_append [OF this Cons] show ?case by (simp add: escapeShellSingleQuotes_def)
qed (simp add: escapeShellSingleQuotes_def reads_plain)

lemma reads_innerQuoted:
  assumes "list_all sh_safe f"
  shows "reads unq (innerQuoted f) (ch_squote # f @ [ch_squote])"
  unfolding reads_def
proof (intro allI impI)
  fix t v x assume t: "\<forall>y. ch_squote \<notin> set y \<longrightarrow> unq (ch_squote # y @ t) = y @ v" and x: "ch_squote \<notin> set x"
  have "escapeShellSingleQuotes f = f" using assms by (induction f) (auto simp: escapeShellSingleQuotes_def sh_safe_def)
  moreover have "unq (ch_squote # t) = v" using t [rule_format, of "[]"] by simp
  ultimately show "unq (ch_squote # x @ innerQuoted f @ t) = x @ (ch_squote # f @ [ch_squote]) @ v"
    using unq_laws(1) [OF x, of "ch_dquote # ch_squote # ch_dquote # f @ ch_dquote # ch_squote # ch_dquote # ch_squote # t"] assms
    by (simp add: innerQuoted_def unq_laws(2) unq_safe)
qed

lemma reads_Join: "list_all2 (reads unq) es ps \<Longrightarrow> reads unq (Join es '' '') (Join ps '' '')"
proof (induction rule: list_all2_induct)
  case (Cons e es p ps)
  then show ?case
    by (cases "es = []") (auto simp: Join_Cons list_all2_lengthD intro!: reads_append reads_append [OF reads_plain, of "'' ''", simplified])
qed (simp add: reads_plain)

lemma reads_word: "reads unq e p \<Longrightarrow> unq (ch_squote # e @ [ch_squote]) = p"
proof -
  assume r: "reads unq e p"
  have "\<forall>y. ch_squote \<notin> set y \<longrightarrow> unq (ch_squote # y @ [ch_squote]) = y @ []" using unq_laws(1) [of _ "[]"] unq_laws(3) by simp
  from r [unfolded reads_def, rule_format, OF this [rule_format], of "[]"] show ?thesis by simp
qed

lemma unq_script:
  assumes "list_all sh_safe exitCodeFile" "list_all sh_safe outputFile"
  shows "unq (ch_squote # Join (escapedArgs args isExpr exitCodeFile outputFile) '' '' @ [ch_squote]) = innerScript args isExpr exitCodeFile outputFile"
proof (rule reads_word)
  have "list_all2 (reads unq) (map escapeShellSingleQuotes args) args"
    by (simp add: list_all2_map1 list_all2_same reads_escape)
  moreover have "reads unq (''exec 1<>'' @ innerQuoted outputFile @ '' && '') (''exec 1<>'' @ (ch_squote # outputFile @ [ch_squote]) @ '' && '')"
    "reads unq (''; echo $? >'' @ innerQuoted exitCodeFile) (''; echo $? >'' @ (ch_squote # exitCodeFile @ [ch_squote]))" "reads unq ''echo'' ''echo''"
    by (intro reads_append reads_plain reads_innerQuoted assms; simp)+
  ultimately show "reads unq (Join (escapedArgs args isExpr exitCodeFile outputFile) '' '') (innerScript args isExpr exitCodeFile outputFile)"
    unfolding escapedArgs_def innerScript_def by (intro reads_Join list_all2_appendI) simp_all
qed

end

text \<open>
  C15. The shell that a build step runs gets one word for its script, and that word stands for exactly the
  text of the command, whatever quotes it contains, between the redirection of the output and the
  recording of the exit code: no argument can end the quotes and be read by the outer shell.\<close>

theorem shell_reads_command:
  assumes "posix_quotes unq" "list_all sh_safe exitCodeFile" "list_all sh_safe outputFile"
  shows "\<exists>w. strWithEnvVarsAndDocker args envVars True dbg fdbg docker isExpr exitCodeFile outputFile =
      Join (cmdPrefix envVars dbg fdbg docker @ [''/bin/sh'', ''-c'', w]) '' '' \<and>
    unq w = innerScript args isExpr exitCodeFile outputFile"
  using posix_shell.unq_script [OF posix_shell.intro [OF assms(1)] assms(2,3), of args isExpr]
  by (auto simp: strWithEnvVarsAndDocker_def shellCmd_def)

text \<open>Quote removal for words without backslashes: the modes are no quotes, single and double ones.\<close>

datatype qmode = Unquoted | InSingle | InDouble

fun unquoteIn :: "qmode \<Rightarrow> string \<Rightarrow> string" where
  "unquoteIn m [] = []"
| "unquoteIn Unquoted (c # s) = (if c = ch_squote then unquoteIn InSingle s else if c = ch_dquote then unquoteIn InDouble s else c # unquoteIn Unquoted s)"
| "unquoteIn InSingle (c # s) = (if c = ch_squote then unquoteIn Unquoted s else c # unquoteIn InSingle s)"
| "unquoteIn InDouble (c # s) = (if c = ch_dquote then unquoteIn Unquoted s else c # unquoteIn InDouble s)"

interpretation sh: posix_shell "unquoteIn Unquoted"
proof unfold_locales
  have "unquoteIn InSingle (x @ ch_squote # r) = x @ unquoteIn Unquoted r" if "ch_squote \<notin> set x" for x r
    using that by (induction x) auto
  moreover have "unquoteIn InDouble (x @ ch_dquote # r) = x @ unquoteIn Unquoted r" if "ch_dquote \<notin> set x" for x r
    using that by (induction x) auto
  ultimately show "posix_quotes (unquoteIn Unquoted)" by (auto simp: posix_quotes_def sh_safe_def)
qed

theorem shell_reads_command_witness:
  "\<exists>w. strWithEnvVarsAndDocker [''echo'', [ch_squote] @ '';rm x'' @ [ch_squote]] [] True False False False False ''/f'' [] =
      Join ([[]] @ [''/bin/sh'', ''-c'', w]) '' '' \<and>
    unquoteIn Unquoted w = ''echo '' @ [ch_squote] @ '';rm x'' @ [ch_squote] @ '' ; echo $? >'' @ [ch_squote] @ ''/f'' @ [ch_squote]"
  using shell_reads_command [OF sh.quotes, of "''/f''" "[]" "[''echo'', [ch_squote] @ '';rm x'' @ [ch_squote]]" "[]" False False False False]
  by (simp add: sh_safe_def cmdPrefix_def innerScript_def)

section \<open>Splitting at a wildcard\<close>

lemma wildcardAt_char: "wildcardAt s < length s \<Longrightarrow> isWildcard (s ! wildcardAt s)"
  by (induction s rule: wildcardAt.induct) (auto split: if_splits)

text \<open>The part of a path up to its last slash, and the rest.\<close>

definition upToSlash :: "string \<Rightarrow> string" where
  "upToSlash p = rev (dropWhile (\<lambda>c. c \<noteq> ch_slash) (rev p))"

definition afterSlash :: "string \<Rightarrow> string" where
  "afterSlash p = rev (takeWhile (\<lambda>c. c \<noteq> ch_slash) (rev p))"

lemma slash_parts: "p = upToSlash p @ afterSlash p"
proof -
  have "rev p = rev (upToSlash p @ afterSlash p)" by (simp add: upToSlash_def afterSlash_def)
  then show ?thesis by (simp only: rev_is_rev_conv)
qed

lemma afterSlash_noslash: "ch_slash \<notin> set (afterSlash p)"
  by (auto simp: afterSlash_def dest: set_takeWhileD)

lemma upToSlash_cases: obtains "upToSlash p = []" | q where "upToSlash p = q @ [ch_slash]"
proof (cases "dropWhile (\<lambda>c. c \<noteq> ch_slash) (rev p)")
  case Nil
  then show thesis using that by (simp add: upToSlash_def)
next
  case (Cons c q)
  then have "c = ch_slash" by (simp add: dropWhile_eq_Cons_conv)
  then show thesis using Cons that(2) [of "rev q"] by (simp add: upToSlash_def)
qed

lemma base_afterSlash: "(if p = [] \<or> suffix [ch_slash] p then [] else path_Base p) = afterSlash p"
proof (cases p rule: rev_cases)
  case (snoc q c)
  then show ?thesis by (auto simp: afterSlash_def path_Base_def Let_def suffix_def)
qed (simp add: afterSlash_def)

lemma Join_upToSlash:
  assumes "D = [] \<or> (\<exists>q. D = q @ [ch_slash])" "f \<noteq> []" "\<not> path_IsAbs f"
  shows "path_Join (path_Clean D) f = path_Clean (D @ f)"
proof (cases "D = []")
  case True
  then show ?thesis using path_Join_dot_left [OF assms(2,3)] by (simp add: path_Clean_def)
next
  case False
  then obtain q where D: "D = q @ [ch_slash]" using assms(1) by blast
  have s: "Split D ch_slash = Split q ch_slash @ [[]]" using Split_append [of q ch_slash "[]"] by (simp add: D)
  have sf: "Split (D @ f) ch_slash = Split q ch_slash @ Split f ch_slash" using Split_append [of q ch_slash f] by (simp add: D)
  have "path_Clean (path_Clean D @ ch_slash # f) = path_Clean (D @ f)"
  proof (rule path_Clean_cong)
    show "path_run (path_IsAbs (D @ f)) [] (Split (path_Clean D @ ch_slash # f) ch_slash) = path_run (path_IsAbs (D @ f)) [] (Split (D @ f) ch_slash)"
      using path_run_cleaned [OF False] False by (simp add: Split_append s sf path_step_def)
  qed (use False in simp_all)
  then show ?thesis by (simp add: path_Join_nonempty)
qed

text \<open>
  The directory and the pattern into which a path is split at its first wildcard name the same path:
  an artifact is saved where the text says.\<close>

theorem splitWildcards_path:
  assumes "splitWildcards name = Some (d, f)" "f \<noteq> []"
  shows "path_Join d f = path_Clean name"
proof -
  let ?i = "wildcardAt name" and ?p = "take (wildcardAt name) name"
  have lt: "?i < length name" and d: "d = path_Clean (upToSlash ?p)" and f: "f = afterSlash ?p @ drop ?i name"
    using assms base_afterSlash [of ?p] by (auto simp: splitWildcards_def Let_def path_Dir_def upToSlash_def split: if_splits)
  have name: "name = upToSlash ?p @ f" using slash_parts [of ?p] append_take_drop_id [of ?i name] f by (metis append.assoc)
  have "hd f \<noteq> ch_slash"
    using afterSlash_noslash [of ?p] wildcardAt_char [OF lt] lt f
    by (cases "afterSlash ?p") (auto simp: hd_drop_conv_nth isWildcard_def)
  then have "\<not> path_IsAbs f" by (simp add: path_IsAbs_def)
  then have "path_Join (path_Clean (upToSlash ?p)) f = path_Clean (upToSlash ?p @ f)"
    by (intro Join_upToSlash assms(2)) (rule upToSlash_cases [of ?p]; blast)
  then show ?thesis using d name by simp
qed

theorem splitWildcards_path_witness:
  "splitWildcards ''a/./b*/c'' = Some (''a'', ''b*/c'') \<and> path_Join ''a'' ''b*/c'' = path_Clean ''a/./b*/c''"
proof -
  have s: "splitWildcards ''a/./b*/c'' = Some (''a'', ''b*/c'')" by code_simp
  then show ?thesis using splitWildcards_path [OF s] by simp
qed

text \<open>A path that ends in a backslash makes the loop pass the end of the text: the slice panics.\<close>

lemma splitWildcards_backslash:
  assumes "list_all (\<lambda>c. c \<noteq> ch_bslash \<and> \<not> isWildcard c) s"
  shows "splitWildcards (s @ [ch_bslash]) = None"
proof -
  have "wildcardAt (s @ [ch_bslash]) = length s + 2"
    using assms
  proof (induction s)
    case (Cons c s)
    then show ?case by (cases "s @ [ch_bslash]") auto
  qed simp
  then show ?thesis by (simp add: splitWildcards_def)
qed

end
