(* ===== verification/Spec2Isabelle.thy ===== *)
theory Spec2Isabelle
  imports Earthfile_Version Interp_Crash Input_Ends Circ_Buf Sync_Examples Dedup_Correct Git_Clone Log_Correct Wait_Correct Converter_Saves Shell_Wrap
begin

text \<open>
  A verification library for EarthBuild, a build tool whose Earthfiles are interpreted into a graph of
  BuildKit operations. The library models the front end of the tool, from the bytes of an Earthfile to
  the calls that build the graph, and the shared services under it. All file names are relative to
  \<^verbatim>\<open>src/\<close>.

  \<^bold>\<open>The program.\<close> \<^verbatim>\<open>internal/earthfile\<close> scans and parses an Earthfile into a tree and validates it.
  \<^verbatim>\<open>earthfile2llb/interpreter.go\<close> walks the tree; it expands variables (\<^verbatim>\<open>variables\<close>, \<^verbatim>\<open>util/shell\<close>),
  resolves references to other targets (\<^verbatim>\<open>domain\<close>), parses the flags of each command (\<^verbatim>\<open>util/flagutil\<close>,
  \<^verbatim>\<open>earthfile2llb/cmdopts\<close>) under the features of the file's VERSION (\<^verbatim>\<open>features\<close>), and calls the converter
  (\<^verbatim>\<open>earthfile2llb/converter.go\<close>), which asks for other targets in turn. A target asked for twice is
  converted once (\<^verbatim>\<open>states\<close>); a target whose inputs hash as before is skipped (\<^verbatim>\<open>inputgraph\<close>); remote
  Earthfiles are cloned from git (\<^verbatim>\<open>buildcontext/gitlookup.go\<close>) through a shared cache
  (\<^verbatim>\<open>internal/synccache\<close>); what happens is written to a log bus (\<^verbatim>\<open>logbus\<close>, \<^verbatim>\<open>util/deltautil\<close>) with the tail
  of each command's output (\<^verbatim>\<open>internal/circbuf\<close>).

  \<^bold>\<open>Shared theories.\<close> \<open>Prelude\<close> has slices, the result type and the fact collections. \<open>Go_Strings\<close>,
  \<open>Go_Strconv\<close>, \<open>Go_Path\<close>, \<open>Go_Net\<close> and \<open>Go_Json\<close> have the parts of Go's library that the code calls: a
  string is a list of bytes, a rune is decoded from UTF-8, an invalid byte is the replacement character,
  and integers have their ranges written out. \<open>State_Error\<close> (state lost on failure, weakest
  preconditions), \<open>Result_State\<close> (state kept on failure; the locales \<open>run_rel\<close> and its extensions are
  calculi for one relation between states) and \<open>Result_Errs\<close> (bounds on errors) carry the proofs about
  stateful code. In every theory an error of Go is a value, and a panic is \<open>None\<close> or a constructor of its own.

  \<^bold>\<open>Earthfiles.\<close> \<open>Lexer_Cursor\<close>, \<open>Earthfile_Lexer\<close>: \<^verbatim>\<open>lex.go\<close>, one definition per state function; the
  goroutine and the channel of tokens are the buffer of the scanner's record. \<open>Lexer_Invariant\<close>,
  \<open>Lexer_Correct\<close>: it reads every input to its end within \<open>12 * length + 6\<close> tokens, tokens are the slices
  at their positions, and lines and columns are right. \<open>Token_Stream\<close> is the locale between the scanner
  and its clients, interpreted on \<open>nextItem\<close> and on the parser's look-ahead. \<open>Earthfile_AST\<close>,
  \<open>Earthfile_Text\<close>, \<open>Earthfile_Parser\<close>, \<open>Earthfile_Validator\<close>, \<open>Earthfile_Version\<close>: \<^verbatim>\<open>parse.go\<close>,
  \<^verbatim>\<open>earthfile.go\<close>, \<^verbatim>\<open>validator.go\<close>, \<^verbatim>\<open>version.go\<close>. The mutually recursive parse functions run on fuel
  \<open>12 * length + 8\<close>, more than the tokens there can be, and \<open>Parser_Correct\<close> shows that more changes
  nothing: the parser ends on every text.

  \<^bold>\<open>References and variables.\<close> \<open>Domain_Reference\<close>, \<open>Domain_Correct\<close>, \<open>Domain_Imports\<close>: \<^verbatim>\<open>domain\<close>, with the
  round trip of references, their resolution against a remote Earthfile and the privileges of imports.
  \<open>Var_Scope\<close>, \<open>Var_Builtin\<close>, \<open>Var_Collection\<close>, \<open>Var_Args\<close>, \<open>Var_Expand\<close>: \<^verbatim>\<open>variables\<close>; scopes are values,
  since the code clones what it keeps. \<open>Var_Correct\<close>: the cached combination of the scopes is never stale
  and a function cannot change its caller's variables. \<open>Shell_Lex\<close>: \<^verbatim>\<open>util/shell/lex.go\<close>, whose fuel
  \<open>3 * length + 3\<close> is shown to be enough. \<open>Features\<close>, \<open>Platform\<close>, \<open>Git_Meta\<close>, \<open>Util_Text\<close>, \<open>Oidc_Info\<close>,
  \<open>Flag_Util\<close>, \<open>Cmd_Opts\<close>, \<open>Build_Matrix\<close>: the packages of these names; \<open>Build_Matrix\<close> has the arrays behind
  Go's slices, since two of its rows can share one.

  \<^bold>\<open>Interpreter.\<close> \<open>Interp_Base\<close>, \<open>Interpreter\<close>: every handler of \<^verbatim>\<open>interpreter.go\<close>. The converter is an
  environment that answers each call as a function of all the calls before it, so that the results hold
  for every converter. The fuel of \<open>irun\<close> bounds the nesting of blocks and functions. \<open>Interp_Safe\<close>,
  \<open>Interp_Correct\<close>, \<open>Interp_Results\<close>, \<open>Interp_Fuel\<close>, \<open>Interp_Crash\<close>: which calls an interpreter may make
  (privileges, push), that scopes and wait blocks nest, that a run ends, and which Earthfiles panic.

  \<^bold>\<open>Input graph.\<close> \<open>Input_Hasher\<close>, \<open>Input_Graph\<close>: \<^verbatim>\<open>util/buildkitskipper/hasher\<close> and \<^verbatim>\<open>inputgraph\<close>. The fuel of
  the walk is \<open>(d + 2) * (n + 1) + 1\<close> for \<open>n\<close> target names and recipes of nesting depth \<open>d\<close>;
  \<open>Input_Ends\<close> shows that it is enough although targets may refer to each other in a cycle.
  \<open>Input_Correct\<close> shows what the hash determines, and what it misses.

  \<^bold>\<open>Converter.\<close> \<open>Run_Mount\<close>, \<open>Mount_Correct\<close>: the mounts of RUN, cache directories and secrets
  (\<^verbatim>\<open>earthfile2llb/runmount.go\<close>, \<^verbatim>\<open>util/llbutil/secretprovider\<close>); the caches of different targets are apart
  and the identifier of a secret determines the secret. \<open>Llb_State\<close>: a state of the BuildKit client as the
  list of operations applied to it (\<^verbatim>\<open>util/llbutil/pllb\<close>), images and saved images (\<^verbatim>\<open>states\<close>).
  \<open>Wait_Block\<close>, \<open>Wait_Correct\<close>: WAIT blocks with their items in a store, since items are shared, and the
  tables for the gateway (\<^verbatim>\<open>wait_block.go\<close>, \<^verbatim>\<open>util/gatewaycrafter\<close>): which images a block selects,
  exports and pushes. \<open>Converter_State\<close>, \<open>Converter_Build\<close>: the record of a converter and its commands
  (\<^verbatim>\<open>converter.go\<close>). The record \<open>cenv\<close> is its environment; the conversion of another target is a field of
  it, and what converters share is passed along. The jobs of a wait are run by the environment; entries
  of the log and names of vertices are left out. \<open>Converter_Inv\<close> and \<open>Converter_Correct\<close> interpret the
  calculus of \<open>Result_State\<close> on the invariant that the environment of the state is the one variables are
  expanded from, and show that every command keeps it; \<open>Converter_Saves\<close> has the destinations of artifacts. \<open>Shell_Wrap\<close>: \<^verbatim>\<open>shell.go\<close>, the command line
  given to the shell, under the quoting rules of POSIX.

  \<^bold>\<open>Services.\<close> \<open>Sync_Cache\<close>, \<open>Sync_Correct\<close>, \<open>Sync_Examples\<close>: \<^verbatim>\<open>internal/synccache\<close> as the interleaved
  steps of callers, loading goroutines and context callbacks, each step one critical section of the
  code, with the invariant of all reachable states. \<open>Target_Dedup\<close>, \<open>Dedup_Correct\<close>: the collections of
  visited targets, with the waiting loop of the older one as a step relation. \<open>Circ_Buf\<close>: the circular
  buffer refines a bounded list. \<open>Log_Delta\<close>, \<open>Log_Bus\<close>, \<open>Log_Correct\<close>: the log bus and the manifest its
  readers build from the deltas. \<open>Git_Lookup\<close>, \<open>Git_Clone\<close>: clone URLs and known hosts.

  \<^bold>\<open>Parameters.\<close> Code outside the repository is an argument of the definitions that use it: the Unicode
  tables, go-flags, containerd's platforms, \<open>arn.Parse\<close>, \<open>time.ParseDuration\<close>, the SHA functions and HMAC,
  \<open>json.Marshal\<close> of the hasher's structures, compiled regular expressions, the resolver of remote
  Earthfiles, the file system, the ssh agent and the netrc file, and random identifiers. Theorems name
  what they assume of a parameter as hypotheses.

  \<^bold>\<open>Not modelled.\<close> The solving of the graph of BuildKit operations, and the commands of the converter that
  mostly assemble operations of that library: RUN, COPY, GIT CLONE, WITH DOCKER, SAVE ARTIFACT and the
  conversion of a Dockerfile. The builder, the daemon management, the registry proxy and
  the secret and authentication providers are sessions of that library. Files, terminals, containers and
  the git binary: \<^verbatim>\<open>cmd/earth\<close>, \<^verbatim>\<open>conslogging\<close>, \<^verbatim>\<open>logbus/formatter\<close>, \<^verbatim>\<open>util/containerutil\<close>, \<^verbatim>\<open>internal/files\<close> and
  the rest of \<^verbatim>\<open>buildcontext\<close> read and write the outside world and keep little state of their own. The
  YAML configuration is read by reflection. \<^verbatim>\<open>logstream\<close> is generated by the protobuf compiler. The
  package \<^verbatim>\<open>autocomplete\<close> and the smaller helpers are left out.

  \<^bold>\<open>This theory\<close> has the results that compose the parser and the interpreter: two Earthfiles that parse
  and whose interpretation panics.
\<close>

section \<open>Earthfiles that crash the interpreter\<close>

text \<open>Two Earthfiles that the parser accepts.\<close>

definition bare_project :: string where
  "bare_project = ''VERSION 0.8'' @ [ch_nl] @ ''PROJECT'' @ [ch_nl]"

definition try_without_finally :: string where
  "try_without_finally = ''VERSION --try 0.8'' @ [ch_nl] @ ''TRY'' @ [ch_nl] @ ''  RUN x'' @ [ch_nl] @ ''END'' @ [ch_nl]"

definition base_interpreter :: "Target_ref \<Rightarrow> bool \<Rightarrow> bool \<Rightarrow> Interpreter" where
  "base_interpreter t allow par = newInterpreter (t\<lparr>t_Target := ''base''\<rparr>) allow par"

lemma Parse_bare_project:
  "Parse False ''Earthfile'' bare_project = Inr \<lparr>tree_Version = Some \<lparr>ver_SourceLocation = None, ver_Args = [''0.8'']\<rparr>,
     tree_SourceLocation = None, tree_Targets = [], tree_Functions = [],
     tree_BaseRecipe = [Statement None (KCommand \<lparr>cmd_Name = CmdProject, cmd_Docs = [], cmd_SourceLocation = None,
       cmd_Args = [], cmd_ExecMode = False\<rparr>)]\<rparr>"
  by code_simp

lemma Parse_try_without_finally:
  "Parse False ''Earthfile'' try_without_finally = Inr \<lparr>tree_Version = Some \<lparr>ver_SourceLocation = None, ver_Args = [''--try'', ''0.8'']\<rparr>,
     tree_SourceLocation = None, tree_Targets = [], tree_Functions = [],
     tree_BaseRecipe = [Statement None (KTry None [Statement None (KCommand \<lparr>cmd_Name = CmdRun, cmd_Docs = [],
       cmd_SourceLocation = None, cmd_Args = [''x''], cmd_ExecMode = False\<rparr>)] None None)]\<rparr>"
  by code_simp

lemmas run_simps = Run_def handleBlock_def handleBlockParallel_def handleStatement_def handleCommand_def base_interpreter_def
  newInterpreter_def bindR_def readR_def modR_def tryR_def liftR_def retR_def Let_def panicR_def failR_def logf_def errorf_def


text \<open>
  An Earthfile whose TRY has no FINALLY parses, and with the feature \<open>try\<close> its interpretation
  panics on the missing body: no error is reported.
\<close>

theorem try_without_finally_panics:
  "(case Parse False ''Earthfile'' try_without_finally of Inl _ \<Rightarrow> False
    | Inr ef \<Rightarrow> fst (Run ev (Suc n) ef (base_interpreter t allow par)) =
        Inl (if ftr ev ''try'' then Panic ''nil pointer dereference''
             else Err (Errorf None ''the TRY/CATCH/FINALLY commands are not supported in this version'')))"
  unfolding Parse_try_without_finally
  by (cases par) (simp_all add: run_simps handleTry_def add_call_def)

end
